(* ===== verification/Prelude.thy ===== *)
theory Prelude
  imports Main "HOL-Library.Word"
begin

text \<open>
  What every component of the development shares: identifiers and timestamps, the errors a
  database call can return and the Go errors built from them, the state-and-error shape of a
  transaction body, row lists with the single-row SELECT, UPDATE and INSERT the queries use, and
  the collections of simplification and introduction rules the component proofs draw on.
\<close>

named_theorems tx_elims \<open>elimination rules for successful transaction bodies\<close>
named_theorems tx_iffs \<open>when a transaction body succeeds, as equivalences\<close>
named_theorems row_simps \<open>what the row operations return and what they leave alone\<close>
named_theorems op_defs \<open>definitions of the operations of a component\<close>


section \<open>Identifiers, times, text\<close>

text \<open>
  A \<^verbatim>\<open>uuid.UUID\<close> is a 128-bit value; PostgreSQL orders uuids as unsigned big-endian values, which is
  the order of the word. Timestamps are microseconds since the epoch, the resolution of
  \<^verbatim>\<open>timestamptz\<close>; Go instants are nanoseconds. Go's \<^verbatim>\<open>int32\<close> columns are integers: PostgreSQL raises
  an error on overflow instead of wrapping.
\<close>

type_synonym uuid = "128 word"
type_synonym timestamp = int
type_synonym bytes = "8 word list"

definition uuid_Nil :: uuid where
  "uuid_Nil = 0"

definition maxInt32 :: int where
  "maxInt32 = 2147483647"

text \<open>\<^verbatim>\<open>nullableText\<close>, \<^verbatim>\<open>nullableUUID\<close> and \<^verbatim>\<open>nullableInt4\<close>: the empty value becomes NULL.\<close>

definition nullableText :: "string \<Rightarrow> string option" where
  "nullableText value = (if value = '''' then None else Some value)"

definition nullableUUID :: "uuid \<Rightarrow> uuid option" where
  "nullableUUID value = (if value = uuid_Nil then None else Some value)"


text \<open>The zero \<^verbatim>\<open>time.Time\<close> is midnight of 1 January of the year 1, in UTC.\<close>

definition zeroTime :: int where
  "zeroTime = - 62135596800 * 10 ^ 9"

text \<open>A \<^verbatim>\<open>time.Duration\<close> counts nanoseconds.\<close>

definition second :: int where "second = 10 ^ 9"


section \<open>Errors\<close>

text \<open>
  \<open>db_error\<close> is what a pgx call returns: no row, an error the server reports with its SQLSTATE, a
  failure of the connection, or another error value (an encoder's). \<open>'e fail\<close> is a Go error of a
  package whose sentinel values are \<open>'e\<close>: a sentinel itself, \<^verbatim>\<open>fmt.Errorf("<site>: %w", err)\<close>, or
  \<^verbatim>\<open>errors.Join\<close> of an error with the failure to roll back.
\<close>

datatype db_error = ErrNoRows | PgError string | ConnFailure | OtherError string

datatype 'e fail = Err 'e | Wrapped string db_error | Joined "'e fail" "'e fail"

text \<open>\<^verbatim>\<open>errors.Is(err, sentinel)\<close> for a sentinel that wraps nothing.\<close>

fun errorsIs :: "('e \<Rightarrow> bool) \<Rightarrow> 'e fail \<Rightarrow> bool" where
  "errorsIs P (Err x) = P x"
| "errorsIs P (Wrapped site err) = False"
| "errorsIs P (Joined a b) = (errorsIs P a \<or> errorsIs P b)"


section \<open>Transaction bodies\<close>

text \<open>
  A body that runs inside a transaction takes the state and either fails, in which case its writes
  are discarded by the rollback, or returns a value and the new state.
\<close>

type_synonym ('e, 's, 'a) body = "'s \<Rightarrow> 'e + 'a \<times> 's"

definition txReturn :: "'a \<Rightarrow> ('e, 's, 'a) body" where
  "txReturn x = (\<lambda>s. Inr (x, s))"

definition txFail :: "'e \<Rightarrow> ('e, 's, 'a) body" where
  "txFail err = (\<lambda>s. Inl err)"

definition txBind :: "('e, 's, 'a) body \<Rightarrow> ('a \<Rightarrow> ('e, 's, 'b) body) \<Rightarrow> ('e, 's, 'b) body" where
  "txBind m f = (\<lambda>s. case m s of Inl err \<Rightarrow> Inl err | Inr (x, s') \<Rightarrow> f x s')"

definition txGuard :: "bool \<Rightarrow> 'e \<Rightarrow> ('e, 's, 'a) body \<Rightarrow> ('e, 's, 'a) body" where
  "txGuard bad err m = (if bad then txFail err else m)"

lemma txReturn_apply [simp]: "txReturn x s = Inr (x, s)"
  by (simp add: txReturn_def)

lemma txFail_apply [simp]: "txFail err s = Inl err"
  by (simp add: txFail_def)

lemma txBind_Inr [simp]: "m s = Inr (x, s') \<Longrightarrow> txBind m f s = f x s'"
  by (simp add: txBind_def)

lemma txBind_Inl [simp]: "m s = Inl err \<Longrightarrow> txBind m f s = Inl err"
  by (simp add: txBind_def)

lemma txBind_InrE [tx_elims]:
  assumes "txBind m f s = Inr r"
  obtains x s' where "m s = Inr (x, s')" and "f x s' = Inr r"
  using assms by (auto simp: txBind_def split: sum.splits)

lemma txBind_Inr_iff [tx_iffs]:
  "txBind m f s = Inr r \<longleftrightarrow> (\<exists>x s'. m s = Inr (x, s') \<and> f x s' = Inr r)"
  by (auto simp: txBind_def split: sum.splits)

lemma txGuard_pass [simp]: "\<not> bad \<Longrightarrow> txGuard bad err m = m"
  by (simp add: txGuard_def)

lemma txGuard_stop [simp]: "bad \<Longrightarrow> txGuard bad err m = txFail err"
  by (simp add: txGuard_def)

lemma txGuard_Inr_iff [tx_iffs]: "txGuard bad err m s = Inr r \<longleftrightarrow> \<not> bad \<and> m s = Inr r"
  by (cases bad) simp_all

lemma txGuard_InrE [tx_elims]:
  assumes "txGuard bad err m s = Inr r"
  obtains "\<not> bad" and "m s = Inr r"
  using assms by (simp add: txGuard_Inr_iff)


section \<open>Row lists\<close>

text \<open>
  A table is the list of its rows in insertion order. A \<^verbatim>\<open>:one\<close> SELECT returns the first row that
  satisfies its WHERE clause, or \<^verbatim>\<open>ErrNoRows\<close>. The UPDATEs modelled with \<open>updateOne\<close> pin the primary
  key, so they change at most one row; a row that would violate a CHECK or overflow raises the
  SQLSTATE that \<open>chk\<close> gives. An INSERT raises \<open>viol\<close> (CHECK, foreign key or row-security violation)
  or a unique violation.
\<close>

definition selectOne :: "('r \<Rightarrow> bool) \<Rightarrow> 'r list \<Rightarrow> db_error + 'r" where
  "selectOne P rs = (case find P rs of None \<Rightarrow> Inl ErrNoRows | Some r \<Rightarrow> Inr r)"

definition updateOne ::
  "('r \<Rightarrow> bool) \<Rightarrow> ('r \<Rightarrow> string option) \<Rightarrow> ('r \<Rightarrow> 'r) \<Rightarrow> 'r list \<Rightarrow> db_error + 'r \<times> 'r list" where
  "updateOne P chk f rs =
     (case find P rs of
        None \<Rightarrow> Inl ErrNoRows
      | Some r \<Rightarrow>
          (case chk (f r) of
             Some state \<Rightarrow> Inl (PgError state)
           | None \<Rightarrow> Inr (f r, map (\<lambda>x. if P x then f x else x) rs)))"

definition insertRow ::
  "('r \<Rightarrow> 'r \<Rightarrow> bool) \<Rightarrow> string option \<Rightarrow> 'r \<Rightarrow> 'r list \<Rightarrow> db_error + 'r \<times> 'r list" where
  "insertRow conflict viol r rs =
     (case viol of
        Some state \<Rightarrow> Inl (PgError state)
      | None \<Rightarrow>
          if \<exists>x \<in> set rs. conflict x r then Inl (PgError ''23505'') else Inr (r, rs @ [r]))"

lemma find_SomeD: "find P xs = Some x \<Longrightarrow> x \<in> set xs \<and> P x"
  by (induction xs) (auto split: if_splits)

lemma find_None_iff: "find P xs = None \<longleftrightarrow> (\<forall>x \<in> set xs. \<not> P x)"
  by (induction xs) auto

lemma distinct_key_eq:
  assumes "distinct (map k xs)" and "x \<in> set xs" and "y \<in> set xs" and "k x = k y"
  shows "x = y"
  using assms by (meson distinct_map inj_onD)

lemma find_distinct_key:
  assumes d: "distinct (map k xs)" and x: "x \<in> set xs" "P x"
    and key: "\<And>y. P y \<Longrightarrow> k y = k x"
  shows "find P xs = Some x"
proof (cases "find P xs")
  case None
  with x show ?thesis by (auto simp: find_None_iff)
next
  case (Some y)
  then have y: "y \<in> set xs" "P y" by (auto dest: find_SomeD)
  then have "k y = k x" by (simp add: key)
  with d x y have "y = x" by (blast intro: distinct_key_eq)
  with Some show ?thesis by simp
qed

lemma map_key_cong: "(\<And>x. k (f x) = k x) \<Longrightarrow> map k (map (\<lambda>x. if P x then f x else x) xs) = map k xs"
  by (induction xs) auto

lemma selectOne_Inr [row_simps]: "selectOne P rs = Inr r \<longleftrightarrow> find P rs = Some r"
  by (simp add: selectOne_def split: option.splits)

lemma selectOne_Inl [row_simps]: "selectOne P rs = Inl err \<longleftrightarrow> err = ErrNoRows \<and> (\<forall>x \<in> set rs. \<not> P x)"
  by (auto simp: selectOne_def find_None_iff split: option.splits dest: find_SomeD)

lemma updateOne_InrE:
  assumes "updateOne P chk f rs = Inr (r', rs')"
  obtains r where "r \<in> set rs" and "P r" and "r' = f r" and "chk r' = None"
    and "rs' = map (\<lambda>x. if P x then f x else x) rs"
  using assms by (auto simp: updateOne_def split: option.splits dest: find_SomeD)

lemma updateOne_keyE:
  assumes upd: "updateOne P chk f rs = Inr (r', rs')" and key: "\<And>x. P x \<Longrightarrow> k x = i"
  obtains r where "r \<in> set rs" and "P r" and "k r = i" and "r' = f r" and "chk r' = None"
    and "distinct (map k rs) \<Longrightarrow> rs' = map (\<lambda>x. if k x = i then r' else x) rs"
proof -
  from upd obtain r where r: "r \<in> set rs" "P r" "r' = f r" "chk r' = None"
    and rs': "rs' = map (\<lambda>x. if P x then f x else x) rs" by (rule updateOne_InrE)
  have "rs' = map (\<lambda>x. if k x = i then r' else x) rs" if d: "distinct (map k rs)"
  proof -
    have "(if P x then f x else x) = (if k x = i then r' else x)" if "x \<in> set rs" for x
      using distinct_key_eq [OF d that r(1)] r(2,3) key by auto
    then show ?thesis using rs' by simp
  qed
  with r key show ?thesis using that by blast
qed

lemma map_sum_InrE:
  assumes "map_sum g h x = Inr y"
  obtains z where "x = Inr z" and "y = h z"
  using assms by (cases x) auto

lemma updateOne_unique:
  assumes "distinct (map k rs)" and "r \<in> set rs" and "P r"
    and "\<And>x. P x \<Longrightarrow> k x = k r" and "chk (f r) = None"
  shows "updateOne P chk f rs = Inr (f r, map (\<lambda>x. if P x then f x else x) rs)"
proof -
  have "find P rs = Some r" using assms(1-4) by (rule find_distinct_key)
  with assms(5) show ?thesis by (simp add: updateOne_def)
qed

lemma updateOne_none:
  "\<forall>x \<in> set rs. \<not> P x \<Longrightarrow> updateOne P chk f rs = Inl ErrNoRows"
  by (simp add: updateOne_def find_None_iff [symmetric])

lemma insertRow_Inr:
  "insertRow conflict viol r rs = Inr (r', rs') \<longleftrightarrow>
     viol = None \<and> (\<forall>x \<in> set rs. \<not> conflict x r) \<and> r' = r \<and> rs' = rs @ [r]"
  by (auto simp: insertRow_def split: option.splits)

lemma map_update_other:
  "(\<forall>x \<in> set rs. Q x \<longrightarrow> \<not> P x) \<Longrightarrow> (\<And>x. Q (f x) = Q x) \<Longrightarrow>
     filter Q (map (\<lambda>x. if P x then f x else x) rs) = filter Q rs"
  by (induction rs) auto

text \<open>
  The first violated constraint of a list of (holds, SQLSTATE) pairs.
\<close>

fun firstViolation :: "(bool \<times> string) list \<Rightarrow> string option" where
  "firstViolation [] = None"
| "firstViolation ((ok, state) # cs) = (if ok then firstViolation cs else Some state)"

lemma firstViolation_None [row_simps]:
  "firstViolation cs = None \<longleftrightarrow> (\<forall>(ok, state) \<in> set cs. ok)"
  by (induction cs rule: firstViolation.induct) auto

declare firstViolation.simps [simp del]

end
