(* ===== verification/Store.thy ===== *)
theory Store
  imports Prelude
begin

text \<open>
  The database the services share: the rows of \<^verbatim>\<open>internal/store/db/models.go\<close>, the constraints and
  row-security policies of \<^verbatim>\<open>infra/database/migrations\<close>, the tenant context a transaction sets with
  \<^verbatim>\<open>set_config\<close>, and the statements of \<^verbatim>\<open>internal/store/db/operations.sql.go\<close> as functions on the
  tables. What PostgreSQL, the clock and the random source do is the environment \<open>env\<close>, an argument
  of every statement. \<open>wf_db\<close> is the integrity of the operational tables; every statement is shown
  to keep the part of it that concerns its table.
\<close>

section \<open>JSON values\<close>

text \<open>
  \<^verbatim>\<open>jsonb\<close> columns hold parsed values. \<open>JUuid u\<close> is the JSON string \<^verbatim>\<open>u.String()\<close>; \<open>JFrac\<close> is a number that
  is not an integer.
\<close>

datatype json =
    JNull
  | JBool bool
  | JInt int
  | JFrac string
  | JStr string
  | JUuid uuid
  | JArr "json list"
  | JObj "(string \<times> json) list"

fun jsonb_typeof :: "json \<Rightarrow> string" where
  "jsonb_typeof JNull = ''null''"
| "jsonb_typeof (JBool b) = ''boolean''"
| "jsonb_typeof (JInt i) = ''number''"
| "jsonb_typeof (JFrac s) = ''number''"
| "jsonb_typeof (JStr s) = ''string''"
| "jsonb_typeof (JUuid u) = ''string''"
| "jsonb_typeof (JArr xs) = ''array''"
| "jsonb_typeof (JObj fs) = ''object''"


section \<open>Status values\<close>

definition TableStatusAvailable :: string where "TableStatusAvailable = ''available''"
definition TableStatusOccupied :: string where "TableStatusOccupied = ''occupied''"

definition AssistStatusPending :: string where "AssistStatusPending = ''pending''"
definition AssistStatusAcknowledged :: string where "AssistStatusAcknowledged = ''acknowledged''"
definition AssistStatusResolved :: string where "AssistStatusResolved = ''resolved''"
definition AssistStatusCancelled :: string where "AssistStatusCancelled = ''cancelled''"

lemmas status_defs =
  TableStatusAvailable_def TableStatusOccupied_def AssistStatusPending_def
  AssistStatusAcknowledged_def AssistStatusResolved_def AssistStatusCancelled_def

lemma status_distinct [simp]:
  "TableStatusAvailable \<noteq> TableStatusOccupied" "TableStatusOccupied \<noteq> TableStatusAvailable"
  "AssistStatusPending \<noteq> AssistStatusAcknowledged" "AssistStatusAcknowledged \<noteq> AssistStatusPending"
  "AssistStatusPending \<noteq> AssistStatusResolved" "AssistStatusResolved \<noteq> AssistStatusPending"
  "AssistStatusPending \<noteq> AssistStatusCancelled" "AssistStatusCancelled \<noteq> AssistStatusPending"
  "AssistStatusAcknowledged \<noteq> AssistStatusResolved" "AssistStatusResolved \<noteq> AssistStatusAcknowledged"
  "AssistStatusAcknowledged \<noteq> AssistStatusCancelled" "AssistStatusCancelled \<noteq> AssistStatusAcknowledged"
  "AssistStatusResolved \<noteq> AssistStatusCancelled" "AssistStatusCancelled \<noteq> AssistStatusResolved"
  by (simp_all add: status_defs)


section \<open>Rows\<close>

record Location =
  l_id :: uuid
  l_org :: uuid
  l_slug :: string
  l_name :: string
  l_timezone :: string
  l_status :: string
  l_legacy_restaurant_id :: "string option"
  l_created_at :: timestamp
  l_updated_at :: timestamp
  l_operating_config :: json
  l_feature_flags :: json

record Table =
  t_id :: uuid
  t_org :: uuid
  t_loc :: uuid
  t_floor :: uuid
  t_zone :: uuid
  t_label :: string
  t_capacity_label :: string
  t_shape :: string
  t_geometry :: json
  t_is_active :: bool
  t_deleted_at :: "timestamp option"
  t_version :: int
  t_legacy_table_id :: "string option"
  t_created_at :: timestamp
  t_updated_at :: timestamp

record TableOccupancy =
  o_table :: uuid
  o_org :: uuid
  o_loc :: uuid
  o_status :: string
  o_current_session :: "uuid option"
  o_version :: int
  o_updated_by :: "string option"
  o_updated_at :: timestamp
  o_created_at :: timestamp

record TableSession =
  s_id :: uuid
  s_org :: uuid
  s_loc :: uuid
  s_table :: uuid
  s_started_at :: timestamp
  s_ended_at :: "timestamp option"
  s_party_size :: "int option"
  s_opened_by :: "string option"
  s_closed_by :: "string option"
  s_source :: string
  s_created_at :: timestamp
  s_updated_at :: timestamp

record AssistRequest =
  a_id :: uuid
  a_org :: uuid
  a_loc :: uuid
  a_table :: uuid
  a_session :: "uuid option"
  a_status :: string
  a_requested_at :: timestamp
  a_acknowledged_at :: "timestamp option"
  a_resolved_at :: "timestamp option"
  a_cancelled_at :: "timestamp option"
  a_requested_by :: "string option"
  a_acknowledged_by :: "string option"
  a_resolved_by :: "string option"
  a_cancelled_by :: "string option"
  a_source :: string
  a_note :: "string option"
  a_version :: int
  a_created_at :: timestamp
  a_updated_at :: timestamp
  a_action_key :: "string option"

record TableQrCapability =
  q_id :: uuid
  q_org :: uuid
  q_loc :: uuid
  q_table :: uuid
  q_token :: string
  q_label :: "string option"
  q_issued_at :: timestamp
  q_expires_at :: "timestamp option"
  q_revoked_at :: "timestamp option"
  q_version :: int
  q_created_at :: timestamp
  q_updated_at :: timestamp
  q_token_lookup_prefix :: string
  q_token_hash :: bytes
  q_last_used_at :: "timestamp option"

record ApiIdempotencyRecord =
  i_command_id :: uuid
  i_org :: uuid
  i_loc :: "uuid option"
  i_command_type :: string
  i_payload_hash :: bytes
  i_response_status :: int
  i_response_body :: string
  i_created_at :: timestamp
  i_expires_at :: timestamp

text \<open>
  The event envelope of \<^verbatim>\<open>internal/domain/events/events.go\<close>; \<open>OccurredAt\<close> is a Go instant in
  nanoseconds. A stored payload is the document of the envelope it decodes to, or a document that
  does not decode to one.
\<close>

record Envelope =
  ev_ID :: uuid
  ev_Type :: string
  ev_SchemaVersion :: int
  ev_OccurredAt :: int
  ev_OrganisationID :: uuid
  ev_LocationID :: uuid
  ev_ActorRef :: string
  ev_DeviceID :: "uuid option"
  ev_EntityType :: string
  ev_EntityID :: uuid
  ev_EntityVersion :: "int option"
  ev_CommandID :: "uuid option"
  ev_CorrelationID :: "uuid option"
  ev_Traceparent :: string
  ev_Tracestate :: string
  ev_Data :: json

datatype payload = Encoded Envelope | Undecodable string

record OperationalEvent =
  e_id :: uuid
  e_org :: uuid
  e_loc :: uuid
  e_event_type :: string
  e_aggregate_type :: string
  e_aggregate_id :: uuid
  e_aggregate_version :: "int option"
  e_actor_ref :: string
  e_device_id :: "uuid option"
  e_command_id :: "uuid option"
  e_payload :: payload
  e_occurred_at :: timestamp
  e_schema_version :: int
  e_entity_type :: string
  e_entity_id :: uuid
  e_entity_version :: "int option"
  e_correlation_id :: "uuid option"
  e_event_data :: json

record OutboxRecord =
  x_id :: uuid
  x_org :: uuid
  x_loc :: uuid
  x_event :: uuid
  x_topic :: string
  x_payload :: payload
  x_status :: string
  x_attempts :: int
  x_available_at :: timestamp
  x_locked_at :: "timestamp option"
  x_locked_by :: "string option"
  x_processed_at :: "timestamp option"
  x_created_at :: timestamp
  x_updated_at :: timestamp
  x_destination :: string
  x_last_error :: "string option"

record ConsumerEventRecord =
  c_consumer :: string
  c_event :: uuid
  c_outbox_record :: uuid
  c_status :: string
  c_first_seen_at :: timestamp
  c_processed_at :: "timestamp option"
  c_last_error :: "string option"

record Device =
  d_id :: uuid
  d_org :: uuid
  d_loc :: "uuid option"
  d_user_profile :: "uuid option"
  d_device_type :: string
  d_platform :: string
  d_app_version :: string
  d_trust_state :: string
  d_registered_at :: timestamp
  d_last_seen_at :: "timestamp option"
  d_revoked_at :: "timestamp option"
  d_created_at :: timestamp
  d_updated_at :: timestamp
  d_name :: "string option"
  d_capabilities :: json
  d_configuration :: json
  d_assigned_at :: "timestamp option"
  d_last_heartbeat_at :: "timestamp option"
  d_heartbeat_interval :: int

record db =
  locations :: "Location list"
  tables :: "Table list"
  table_occupancy :: "TableOccupancy list"
  table_sessions :: "TableSession list"
  assist_requests :: "AssistRequest list"
  table_qr_capabilities :: "TableQrCapability list"
  api_idempotency_records :: "ApiIdempotencyRecord list"
  operational_events :: "OperationalEvent list"
  outbox_records :: "OutboxRecord list"
  consumer_event_records :: "ConsumerEventRecord list"
  devices :: "Device list"


section \<open>Environment and tenant context\<close>

text \<open>
  One \<open>env\<close> describes how the outside world behaves during one transaction: \<open>now()\<close>, the Go clock in
  nanoseconds, the identifiers \<^verbatim>\<open>gen_random_uuid()\<close> and \<^verbatim>\<open>uuid.New()\<close> return (in the order they are
  asked for), which statement fails although its SQL would succeed (a statement is named by the text
  its caller wraps the error with), what happens to the COMMIT, whether the database role is subject
  to row security, how \<^verbatim>\<open>jsonb\<close> stores a document, and the trace headers of the request.
  \<open>CommitUnacked\<close> is a COMMIT that takes effect although its caller sees an error.
\<close>

datatype commit_outcome = Committed | CommitFailed | CommitUnacked

record env =
  now :: timestamp
  wall :: int
  gen :: "nat \<Rightarrow> uuid"
  fault :: "string \<Rightarrow> bool"
  commit :: commit_outcome
  rls :: bool
  jsonb :: "string \<Rightarrow> string option"
  jsonb_object :: "string \<Rightarrow> bool"
  traceparent :: string
  tracestate :: string

record ctx =
  platform_admin :: bool
  current_organisation :: "uuid option"
  current_location :: "uuid option"

definition no_context :: ctx where
  "no_context = \<lparr>platform_admin = False, current_organisation = None, current_location = None\<rparr>"

definition tenant_context :: "uuid \<Rightarrow> uuid \<Rightarrow> ctx" where
  "tenant_context org loc =
     \<lparr>platform_admin = False, current_organisation = Some org, current_location = Some loc\<rparr>"

definition admin_context :: ctx where
  "admin_context = no_context\<lparr>platform_admin := True\<rparr>"

definition seatd_has_organisation_access :: "ctx \<Rightarrow> uuid \<Rightarrow> bool" where
  "seatd_has_organisation_access c org \<longleftrightarrow>
     platform_admin c \<or> current_organisation c = Some org"

definition seatd_has_location_access :: "ctx \<Rightarrow> uuid \<Rightarrow> uuid \<Rightarrow> bool" where
  "seatd_has_location_access c org loc \<longleftrightarrow>
     platform_admin c \<or>
     (current_organisation c = Some org \<and>
      (current_location c = None \<or> current_location c = Some loc))"

text \<open>A row is visible, and may be written, when row security is off or its policy holds.\<close>

definition visible :: "env \<Rightarrow> ctx \<Rightarrow> uuid \<Rightarrow> uuid \<Rightarrow> bool" where
  "visible e c org loc \<longleftrightarrow> rls e \<longrightarrow> seatd_has_location_access c org loc"

definition visible_org :: "env \<Rightarrow> ctx \<Rightarrow> uuid \<Rightarrow> bool" where
  "visible_org e c org \<longleftrightarrow> rls e \<longrightarrow> seatd_has_organisation_access c org"

lemma visible_tenant [simp]: "visible e (tenant_context org loc) org loc"
  by (simp add: visible_def seatd_has_location_access_def tenant_context_def)

lemma visible_org_tenant [simp]: "visible_org e (tenant_context org loc) org"
  by (simp add: visible_org_def seatd_has_organisation_access_def tenant_context_def)

lemma visible_admin [simp]: "visible e admin_context org loc"
  by (simp add: visible_def seatd_has_location_access_def admin_context_def)


section \<open>Transactions\<close>

text \<open>
  The Go idiom around a statement: a failure of the call or an error of the server is wrapped with
  the statement's text; no row is the sentinel the caller maps it to, if it maps it.
\<close>

definition runQuery ::
  "env \<Rightarrow> string \<Rightarrow> 'e option \<Rightarrow> ('s \<Rightarrow> db_error + 'a \<times> 's) \<Rightarrow> ('e fail, 's, 'a) body" where
  "runQuery e site noRows q = (\<lambda>s.
     if fault e site then Inl (Wrapped site ConnFailure)
     else case q s of
            Inr r \<Rightarrow> Inr r
          | Inl err \<Rightarrow>
              (case (err, noRows) of
                 (ErrNoRows, Some sentinel) \<Rightarrow> Inl (Err sentinel)
               | _ \<Rightarrow> Inl (Wrapped site err)))"

text \<open>A statement that only reads.\<close>

definition reading :: "('s \<Rightarrow> db_error + 'a) \<Rightarrow> 's \<Rightarrow> db_error + 'a \<times> 's" where
  "reading q = (\<lambda>s. map_sum id (\<lambda>r. (r, s)) (q s))"

definition rollback :: "env \<Rightarrow> 'e fail \<Rightarrow> 'e fail" where
  "rollback e err =
     (if fault e ''rolling back transaction''
      then Joined err (Wrapped ''rolling back transaction'' ConnFailure) else err)"

text \<open>
  The deferred foreign key \<^verbatim>\<open>table_occupancy_current_session_fk\<close>, checked at COMMIT.
\<close>

definition deferredConstraints :: "db \<Rightarrow> bool" where
  "deferredConstraints s \<longleftrightarrow>
     (\<forall>r \<in> set (table_occupancy s).
        case o_current_session r of
          None \<Rightarrow> True
        | Some i \<Rightarrow> i \<in> s_id ` set (table_sessions s))"

definition commitTx :: "env \<Rightarrow> string \<Rightarrow> 'a \<Rightarrow> db \<Rightarrow> db \<Rightarrow> ('e fail + 'a) \<times> db" where
  "commitTx e site v before after =
     (if \<not> deferredConstraints after then (Inl (Wrapped site (PgError ''23503'')), before)
      else case commit e of
             Committed \<Rightarrow> (Inr v, after)
           | CommitFailed \<Rightarrow> (Inl (Wrapped site ConnFailure), before)
           | CommitUnacked \<Rightarrow> (Inl (Wrapped site ConnFailure), after))"

lemma runQuery_Inr [tx_iffs]:
  "runQuery e site nr q s = Inr r \<longleftrightarrow> \<not> fault e site \<and> q s = Inr r"
  by (auto simp: runQuery_def split: sum.splits db_error.splits option.splits)

lemma runQuery_InrE [tx_elims]:
  assumes "runQuery e site nr q s = Inr r"
  obtains "\<not> fault e site" and "q s = Inr r"
  using assms by (simp add: runQuery_Inr)

lemma runQuery_ok [simp]: "\<not> fault e site \<Longrightarrow> q s = Inr r \<Longrightarrow> runQuery e site nr q s = Inr r"
  by (simp add: runQuery_Inr)

lemma runQuery_noRows [simp]:
  "\<not> fault e site \<Longrightarrow> q s = Inl ErrNoRows \<Longrightarrow> runQuery e site (Some x) q s = Inl (Err x)"
  by (simp add: runQuery_def)

lemma runQuery_error [simp]:
  "\<not> fault e site \<Longrightarrow> q s = Inl (PgError st) \<Longrightarrow> runQuery e site nr q s = Inl (Wrapped site (PgError st))"
  by (simp add: runQuery_def)

lemma reading_Inr [tx_iffs]: "reading q s = Inr (r, s') \<longleftrightarrow> q s = Inr r \<and> s' = s"
  by (cases "q s") (auto simp: reading_def)

lemma reading_InrE [tx_elims]:
  assumes "reading q s = Inr p"
  obtains r where "p = (r, s)" and "q s = Inr r"
  using assms by (cases "q s") (auto simp: reading_def)

lemma reading_simps [simp]:
  "q s = Inr r \<Longrightarrow> reading q s = Inr (r, s)"
  "q s = Inl err \<Longrightarrow> reading q s = Inl err"
  by (simp_all add: reading_def)

lemma commitTx_fst_Inr: "fst (commitTx e site v d d') = Inr w \<Longrightarrow> commitTx e site v d d' = (Inr v, d')"
  by (auto simp: commitTx_def split: if_splits commit_outcome.splits)

lemma commitTx_cases: "snd (commitTx e site v d d') = d \<or> snd (commitTx e site v d d') = d'"
  by (auto simp: commitTx_def split: commit_outcome.splits)

end
