(* ===== verification/OperationsSql.thy ===== *)
theory OperationsSql
  imports Store
begin

text \<open>
  The statements of \<^verbatim>\<open>internal/store/db/operations.sql.go\<close>, each translated from its SQL text with the
  constraints its table has in the migrations, and the integrity of the operational tables
  \<open>wf_db\<close>: what one statement needs of it and what it keeps. \<open>'r\<close>-valued statements return
  \<open>Inl ErrNoRows\<close> when no row qualifies.
\<close>

section \<open>Row constraints\<close>

definition occupancyCheck :: "TableOccupancy \<Rightarrow> string option" where
  "occupancyCheck r = firstViolation
     [(o_version r \<le> maxInt32, ''22003''),
      (o_status r \<in> {TableStatusAvailable, TableStatusOccupied}, ''23514''),
      (1 \<le> o_version r, ''23514''),
      ((o_status r = TableStatusAvailable \<and> o_current_session r = None) \<or>
       (o_status r = TableStatusOccupied \<and> o_current_session r \<noteq> None), ''23514'')]"

definition sessionCheck :: "TableSession \<Rightarrow> string option" where
  "sessionCheck r = firstViolation
     [(case s_party_size r of None \<Rightarrow> True | Some n \<Rightarrow> 0 < n, ''23514''),
      (s_source r \<noteq> '''', ''23514''),
      (case s_ended_at r of None \<Rightarrow> True | Some t \<Rightarrow> s_started_at r \<le> t, ''23514'')]"

definition assistCheck :: "AssistRequest \<Rightarrow> string option" where
  "assistCheck r = firstViolation
     [(a_version r \<le> maxInt32, ''22003''),
      (a_status r \<in> {AssistStatusPending, AssistStatusAcknowledged, AssistStatusResolved, AssistStatusCancelled}, ''23514''),
      (a_source r \<noteq> '''', ''23514''),
      (1 \<le> a_version r, ''23514''),
      ((a_status r = AssistStatusPending \<and> a_acknowledged_at r = None \<and> a_resolved_at r = None \<and> a_cancelled_at r = None) \<or>
       (a_status r = AssistStatusAcknowledged \<and> a_acknowledged_at r \<noteq> None \<and> a_resolved_at r = None \<and> a_cancelled_at r = None) \<or>
       (a_status r = AssistStatusResolved \<and> a_resolved_at r \<noteq> None \<and> a_cancelled_at r = None) \<or>
       (a_status r = AssistStatusCancelled \<and> a_cancelled_at r \<noteq> None \<and> a_resolved_at r = None), ''23514''),
      (a_source r \<noteq> ''guest_qr'' \<or> (a_action_key r \<noteq> None \<and> a_action_key r \<noteq> Some ''''), ''23514'')]"

text \<open>Foreign keys: \<^verbatim>\<open>(table_id, organisation_id, location_id)\<close> and \<^verbatim>\<open>(location_id, organisation_id)\<close>.\<close>

definition tableExists :: "db \<Rightarrow> uuid \<Rightarrow> uuid \<Rightarrow> uuid \<Rightarrow> bool" where
  "tableExists s i org loc \<longleftrightarrow>
     (\<exists>t \<in> set (tables s). t_id t = i \<and> t_org t = org \<and> t_loc t = loc)"

definition locationExists :: "db \<Rightarrow> uuid \<Rightarrow> uuid \<Rightarrow> bool" where
  "locationExists s org loc \<longleftrightarrow> (\<exists>l \<in> set (locations s). l_id l = loc \<and> l_org l = org)"

text \<open>\<^verbatim>\<open>t.is_active AND t.deleted_at IS NULL\<close>.\<close>

definition liveTable :: "Table \<Rightarrow> bool" where
  "liveTable t \<longleftrightarrow> t_is_active t \<and> t_deleted_at t = None"


section \<open>Occupancy and sessions\<close>

definition GetTableState ::
  "env \<Rightarrow> ctx \<Rightarrow> uuid \<Rightarrow> uuid \<Rightarrow> uuid \<Rightarrow> db \<Rightarrow> db_error + Table \<times> TableOccupancy" where
  "GetTableState e c i org loc s =
     selectOne (\<lambda>(t, r). visible e c (t_org t) (t_loc t) \<and> visible e c (o_org r) (o_loc r) \<and>
                 o_table r = t_id t \<and> t_id t = i \<and> t_org t = org \<and> t_loc t = loc \<and> liveTable t)
       (List.product (tables s) (table_occupancy s))"

definition LockTableOccupancy ::
  "env \<Rightarrow> ctx \<Rightarrow> uuid \<Rightarrow> uuid \<Rightarrow> uuid \<Rightarrow> db \<Rightarrow> db_error + TableOccupancy" where
  "LockTableOccupancy e c tableID org loc s =
     selectOne (\<lambda>r. visible e c (o_org r) (o_loc r) \<and> o_table r = tableID \<and> o_org r = org \<and> o_loc r = loc \<and>
                 (\<exists>t \<in> set (tables s). visible e c (t_org t) (t_loc t) \<and> t_id t = o_table r \<and> liveTable t))
       (table_occupancy s)"

definition CreateTableSession ::
  "env \<Rightarrow> ctx \<Rightarrow> uuid \<Rightarrow> uuid \<Rightarrow> uuid \<Rightarrow> uuid \<Rightarrow> int option \<Rightarrow> string option \<Rightarrow> string \<Rightarrow>
     db \<Rightarrow> db_error + TableSession \<times> db" where
  "CreateTableSession e c newID org loc tableID partySize openedBy source s =
     (let r = \<lparr>s_id = newID, s_org = org, s_loc = loc, s_table = tableID,
               s_started_at = now e, s_ended_at = None, s_party_size = partySize,
               s_opened_by = openedBy, s_closed_by = None, s_source = source,
               s_created_at = now e, s_updated_at = now e\<rparr>
      in map_sum id (\<lambda>(r', rs). (r', s\<lparr>table_sessions := rs\<rparr>))
           (insertRow
              (\<lambda>x y. s_id x = s_id y \<or> (s_table x = s_table y \<and> s_ended_at x = None \<and> s_ended_at y = None))
              (case sessionCheck r of
                 Some st \<Rightarrow> Some st
               | None \<Rightarrow> firstViolation [(visible e c org loc, ''42501''),
                                        (tableExists s tableID org loc, ''23503'')])
              r (table_sessions s)))"

definition MarkTableOccupied ::
  "env \<Rightarrow> ctx \<Rightarrow> uuid \<Rightarrow> uuid \<Rightarrow> uuid \<Rightarrow> uuid \<Rightarrow> string option \<Rightarrow> int \<Rightarrow>
     db \<Rightarrow> db_error + TableOccupancy \<times> db" where
  "MarkTableOccupied e c tableID org loc sessionID updatedBy version s =
     map_sum id (\<lambda>(r', rs). (r', s\<lparr>table_occupancy := rs\<rparr>))
       (updateOne
          (\<lambda>r. visible e c (o_org r) (o_loc r) \<and> o_table r = tableID \<and> o_org r = org \<and> o_loc r = loc \<and>
               o_status r = TableStatusAvailable \<and> o_version r = version)
          (\<lambda>r. if \<exists>x \<in> set (table_occupancy s). o_table x \<noteq> o_table r \<and> o_current_session x = Some sessionID
               then Some ''23505'' else occupancyCheck r)
          (\<lambda>r. r\<lparr>o_status := TableStatusOccupied, o_current_session := Some sessionID,
                 o_version := o_version r + 1, o_updated_by := updatedBy, o_updated_at := now e\<rparr>)
          (table_occupancy s))"

definition CloseTableSession ::
  "env \<Rightarrow> ctx \<Rightarrow> uuid \<Rightarrow> uuid \<Rightarrow> uuid \<Rightarrow> string option \<Rightarrow> db \<Rightarrow> db_error + TableSession \<times> db" where
  "CloseTableSession e c i org loc closedBy s =
     map_sum id (\<lambda>(r', rs). (r', s\<lparr>table_sessions := rs\<rparr>))
       (updateOne
          (\<lambda>r. visible e c (s_org r) (s_loc r) \<and> s_id r = i \<and> s_org r = org \<and> s_loc r = loc \<and>
               s_ended_at r = None)
          sessionCheck
          (\<lambda>r. r\<lparr>s_ended_at := Some (now e), s_closed_by := closedBy, s_updated_at := now e\<rparr>)
          (table_sessions s))"

definition MarkTableAvailable ::
  "env \<Rightarrow> ctx \<Rightarrow> uuid \<Rightarrow> uuid \<Rightarrow> uuid \<Rightarrow> string option \<Rightarrow> int \<Rightarrow> db \<Rightarrow> db_error + TableOccupancy \<times> db" where
  "MarkTableAvailable e c tableID org loc updatedBy version s =
     map_sum id (\<lambda>(r', rs). (r', s\<lparr>table_occupancy := rs\<rparr>))
       (updateOne
          (\<lambda>r. visible e c (o_org r) (o_loc r) \<and> o_table r = tableID \<and> o_org r = org \<and> o_loc r = loc \<and>
               o_status r = TableStatusOccupied \<and> o_version r = version)
          occupancyCheck
          (\<lambda>r. r\<lparr>o_status := TableStatusAvailable, o_current_session := None,
                 o_version := o_version r + 1, o_updated_by := updatedBy, o_updated_at := now e\<rparr>)
          (table_occupancy s))"


section \<open>Assist requests\<close>

definition CreateAssistRequest ::
  "env \<Rightarrow> ctx \<Rightarrow> uuid \<Rightarrow> uuid \<Rightarrow> uuid \<Rightarrow> uuid \<Rightarrow> uuid option \<Rightarrow> string option \<Rightarrow> string \<Rightarrow>
     string option \<Rightarrow> string option \<Rightarrow> db \<Rightarrow> db_error + AssistRequest \<times> db" where
  "CreateAssistRequest e c newID org loc tableID sessionID requestedBy source note actionKey s =
     (let r = \<lparr>a_id = newID, a_org = org, a_loc = loc, a_table = tableID, a_session = sessionID,
               a_status = AssistStatusPending, a_requested_at = now e, a_acknowledged_at = None,
               a_resolved_at = None, a_cancelled_at = None, a_requested_by = requestedBy,
               a_acknowledged_by = None, a_resolved_by = None, a_cancelled_by = None,
               a_source = source, a_note = note, a_version = 1, a_created_at = now e,
               a_updated_at = now e, a_action_key = actionKey\<rparr>
      in map_sum id (\<lambda>(r', rs). (r', s\<lparr>assist_requests := rs\<rparr>))
           (insertRow (\<lambda>x y. a_id x = a_id y)
              (case assistCheck r of
                 Some st \<Rightarrow> Some st
               | None \<Rightarrow> firstViolation
                   [(visible e c org loc, ''42501''),
                    (tableExists s tableID org loc, ''23503''),
                    (case sessionID of None \<Rightarrow> True | Some i \<Rightarrow> i \<in> s_id ` set (table_sessions s), ''23503'')])
              r (assist_requests s)))"

definition LockAssistRequest ::
  "env \<Rightarrow> ctx \<Rightarrow> uuid \<Rightarrow> uuid \<Rightarrow> uuid \<Rightarrow> db \<Rightarrow> db_error + AssistRequest" where
  "LockAssistRequest e c i org loc s =
     selectOne (\<lambda>r. visible e c (a_org r) (a_loc r) \<and> a_id r = i \<and> a_org r = org \<and> a_loc r = loc)
       (assist_requests s)"

text \<open>The shape the four status changes share: WHERE clause on id, tenant and status, then the SET.\<close>

definition changeAssistRow ::
  "env \<Rightarrow> ctx \<Rightarrow> uuid \<Rightarrow> uuid \<Rightarrow> uuid \<Rightarrow> (AssistRequest \<Rightarrow> bool) \<Rightarrow> (AssistRequest \<Rightarrow> AssistRequest) \<Rightarrow>
     db \<Rightarrow> db_error + AssistRequest \<times> db" where
  "changeAssistRow e c i org loc cond f s =
     map_sum id (\<lambda>(r', rs). (r', s\<lparr>assist_requests := rs\<rparr>))
       (updateOne
          (\<lambda>r. visible e c (a_org r) (a_loc r) \<and> a_id r = i \<and> a_org r = org \<and> a_loc r = loc \<and> cond r)
          assistCheck f (assist_requests s))"

definition AcknowledgeAssistRequest ::
  "env \<Rightarrow> ctx \<Rightarrow> uuid \<Rightarrow> uuid \<Rightarrow> uuid \<Rightarrow> string option \<Rightarrow> int \<Rightarrow> db \<Rightarrow> db_error + AssistRequest \<times> db" where
  "AcknowledgeAssistRequest e c i org loc acknowledgedBy version =
     changeAssistRow e c i org loc
       (\<lambda>r. a_status r = AssistStatusPending \<and> a_version r = version)
       (\<lambda>r. r\<lparr>a_status := AssistStatusAcknowledged, a_acknowledged_at := Some (now e),
              a_acknowledged_by := acknowledgedBy, a_version := a_version r + 1, a_updated_at := now e\<rparr>)"

definition ResolveAssistRequest ::
  "env \<Rightarrow> ctx \<Rightarrow> uuid \<Rightarrow> uuid \<Rightarrow> uuid \<Rightarrow> string option \<Rightarrow> int \<Rightarrow> db \<Rightarrow> db_error + AssistRequest \<times> db" where
  "ResolveAssistRequest e c i org loc resolvedBy version =
     changeAssistRow e c i org loc
       (\<lambda>r. a_status r \<in> {AssistStatusPending, AssistStatusAcknowledged} \<and> a_version r = version)
       (\<lambda>r. r\<lparr>a_status := AssistStatusResolved, a_resolved_at := Some (now e),
              a_resolved_by := resolvedBy, a_version := a_version r + 1, a_updated_at := now e\<rparr>)"

definition CancelAssistRequest ::
  "env \<Rightarrow> ctx \<Rightarrow> uuid \<Rightarrow> uuid \<Rightarrow> uuid \<Rightarrow> string option \<Rightarrow> int \<Rightarrow> db \<Rightarrow> db_error + AssistRequest \<times> db" where
  "CancelAssistRequest e c i org loc cancelledBy version =
     changeAssistRow e c i org loc
       (\<lambda>r. a_status r \<in> {AssistStatusPending, AssistStatusAcknowledged} \<and> a_version r = version)
       (\<lambda>r. r\<lparr>a_status := AssistStatusCancelled, a_cancelled_at := Some (now e),
              a_cancelled_by := cancelledBy, a_version := a_version r + 1, a_updated_at := now e\<rparr>)"

definition CancelPendingGuestAssistRequest ::
  "env \<Rightarrow> ctx \<Rightarrow> uuid \<Rightarrow> uuid \<Rightarrow> uuid \<Rightarrow> string option \<Rightarrow> db \<Rightarrow> db_error + AssistRequest \<times> db" where
  "CancelPendingGuestAssistRequest e c i org loc cancelledBy =
     changeAssistRow e c i org loc
       (\<lambda>r. a_source r = ''guest_qr'' \<and> a_status r = AssistStatusPending)
       (\<lambda>r. r\<lparr>a_status := AssistStatusCancelled, a_cancelled_at := Some (now e),
              a_cancelled_by := cancelledBy, a_version := a_version r + 1, a_updated_at := now e\<rparr>)"

text \<open>\<^verbatim>\<open>ORDER BY requested_at [DESC] LIMIT 1\<close>: the first row of the list sorted by the column.\<close>

definition GetPendingGuestAssistByAction ::
  "env \<Rightarrow> ctx \<Rightarrow> uuid \<Rightarrow> uuid \<Rightarrow> uuid \<Rightarrow> uuid option \<Rightarrow> string \<Rightarrow> db \<Rightarrow> db_error + AssistRequest" where
  "GetPendingGuestAssistByAction e c org loc tableID sessionID actionKey s =
     selectOne (\<lambda>r. visible e c (a_org r) (a_loc r) \<and> a_org r = org \<and> a_loc r = loc \<and> a_table r = tableID \<and>
                 a_session r \<noteq> None \<and> a_session r = sessionID \<and> a_action_key r = Some actionKey \<and>
                 a_source r = ''guest_qr'' \<and> a_status r = AssistStatusPending)
       (sort_key a_requested_at (assist_requests s))"

definition GetActiveGuestAssistBySession ::
  "env \<Rightarrow> ctx \<Rightarrow> uuid \<Rightarrow> uuid \<Rightarrow> uuid \<Rightarrow> uuid option \<Rightarrow> db \<Rightarrow> db_error + AssistRequest" where
  "GetActiveGuestAssistBySession e c org loc tableID sessionID s =
     selectOne (\<lambda>r. visible e c (a_org r) (a_loc r) \<and> a_org r = org \<and> a_loc r = loc \<and> a_table r = tableID \<and>
                 a_session r \<noteq> None \<and> a_session r = sessionID \<and> a_source r = ''guest_qr'' \<and>
                 a_status r \<in> {AssistStatusPending, AssistStatusAcknowledged})
       (sort_key (\<lambda>r. - a_requested_at r) (assist_requests s))"

definition GetLatestTerminalGuestAssistByAction ::
  "env \<Rightarrow> ctx \<Rightarrow> uuid \<Rightarrow> uuid \<Rightarrow> uuid \<Rightarrow> uuid option \<Rightarrow> string \<Rightarrow> db \<Rightarrow> db_error + AssistRequest" where
  "GetLatestTerminalGuestAssistByAction e c org loc tableID sessionID actionKey s =
     selectOne (\<lambda>r. visible e c (a_org r) (a_loc r) \<and> a_org r = org \<and> a_loc r = loc \<and> a_table r = tableID \<and>
                 a_session r \<noteq> None \<and> a_session r = sessionID \<and> a_action_key r = Some actionKey \<and>
                 a_source r = ''guest_qr'' \<and> a_status r \<in> {AssistStatusResolved, AssistStatusCancelled})
       (sort_key (\<lambda>r. - a_requested_at r) (assist_requests s))"

definition GetGuestAssistByID ::
  "env \<Rightarrow> ctx \<Rightarrow> uuid \<Rightarrow> uuid \<Rightarrow> uuid \<Rightarrow> uuid \<Rightarrow> db \<Rightarrow> db_error + AssistRequest" where
  "GetGuestAssistByID e c i org loc tableID s =
     selectOne (\<lambda>r. visible e c (a_org r) (a_loc r) \<and> a_id r = i \<and> a_org r = org \<and> a_loc r = loc \<and>
                 a_table r = tableID \<and> a_source r = ''guest_qr'')
       (assist_requests s)"

definition ListActiveAssistsByTable ::
  "env \<Rightarrow> ctx \<Rightarrow> uuid \<Rightarrow> uuid \<Rightarrow> uuid \<Rightarrow> db \<Rightarrow> AssistRequest list" where
  "ListActiveAssistsByTable e c org loc tableID s =
     sort_key a_requested_at
       (filter (\<lambda>r. visible e c (a_org r) (a_loc r) \<and> a_org r = org \<and> a_loc r = loc \<and> a_table r = tableID \<and>
                    a_status r \<in> {AssistStatusPending, AssistStatusAcknowledged})
          (assist_requests s))"

definition ListActiveAssistsByLocation ::
  "env \<Rightarrow> ctx \<Rightarrow> uuid \<Rightarrow> uuid \<Rightarrow> db \<Rightarrow> AssistRequest list" where
  "ListActiveAssistsByLocation e c org loc s =
     sort_key a_requested_at
       (filter (\<lambda>r. visible e c (a_org r) (a_loc r) \<and> a_org r = org \<and> a_loc r = loc \<and>
                    a_status r \<in> {AssistStatusPending, AssistStatusAcknowledged})
          (assist_requests s))"

lemmas assist_update_defs =
  AcknowledgeAssistRequest_def ResolveAssistRequest_def CancelAssistRequest_def
  CancelPendingGuestAssistRequest_def

end
