(* ===== verification/Operations.thy ===== *)
theory Operations
  imports OperationsSql
begin

text \<open>
  The operations service, \<^verbatim>\<open>internal/domain/operations/service.go\<close>: the table and assist commands,
  the transaction that runs a command with its idempotency record, and the transactional write of
  the operational event with its outbox rows. Identifiers are asked of the environment in this
  order: \<open>gen e 0\<close> the created row, \<open>gen e 1\<close> the event, \<open>gen e (2 + k)\<close> the \<open>k\<close>-th outbox row.
\<close>

section \<open>Errors and parameters\<close>

datatype op_error =
    ErrNotFound
  | ErrVersionConflict
  | VersionConflictError string uuid int int
  | ErrAlreadyOccupied
  | ErrAlreadyAvailable
  | ErrNoActiveSession
  | ErrInvalidAssistTransition
  | ErrAssistAlreadyResolved
  | ErrIdempotencyConflict
  | ErrActionNotEnabled
  | ErrRateLimited

text \<open>\<^verbatim>\<open>errors.Is(err, ErrVersionConflict)\<close>: \<^verbatim>\<open>VersionConflictError.Is\<close> answers for it.\<close>

fun isVersionConflict :: "op_error \<Rightarrow> bool" where
  "isVersionConflict ErrVersionConflict = True"
| "isVersionConflict (VersionConflictError entity i expected current) = True"
| "isVersionConflict err = False"

record CommandMeta =
  cm_ID :: uuid
  cm_Type :: string
  cm_PayloadHash :: bytes
  cm_DeviceID :: "uuid option"
  cm_Retention :: int

record CommandReplay =
  cr_Replayed :: bool
  cr_Status :: int
  cr_Body :: string

record OccupyTableParams =
  op_OrganisationID :: uuid
  op_LocationID :: uuid
  op_TableID :: uuid
  op_ExpectedVersion :: int
  op_PartySize :: "int option"
  op_ActorRef :: string
  op_Source :: string
  op_Command :: CommandMeta

record ClearTableParams =
  cl_OrganisationID :: uuid
  cl_LocationID :: uuid
  cl_TableID :: uuid
  cl_ExpectedVersion :: int
  cl_ActorRef :: string
  cl_Command :: CommandMeta

text \<open>\<^verbatim>\<open>OccupyTableResult\<close> and \<^verbatim>\<open>ClearTableResult\<close> have the same fields.\<close>

record TableResult =
  r_Table :: Table
  r_Occupancy :: TableOccupancy
  r_Session :: TableSession

record RequestAssistParams =
  ra_OrganisationID :: uuid
  ra_LocationID :: uuid
  ra_TableID :: uuid
  ra_RequestedBy :: string
  ra_Source :: string
  ra_Note :: string

record ChangeAssistParams =
  ca_OrganisationID :: uuid
  ca_LocationID :: uuid
  ca_AssistID :: uuid
  ca_ExpectedVersion :: int
  ca_ActorRef :: string
  ca_Command :: CommandMeta

type_synonym 'a op_body = "(op_error fail, db, 'a) body"
type_synonym 'a op_result = "(op_error fail + 'a) \<times> db"


section \<open>Operational events\<close>

record operationalEvent =
  oe_OrganisationID :: uuid
  oe_LocationID :: uuid
  oe_EventType :: string
  oe_EntityType :: string
  oe_EntityID :: uuid
  oe_EntityVersion :: int
  oe_ActorRef :: string
  oe_DeviceID :: "uuid option"
  oe_CommandID :: "uuid option"
  oe_Topic :: string
  oe_Destinations :: "string list"
  oe_Data :: "(string \<times> json) list"

definition SchemaVersion :: int where
  "SchemaVersion = 1"

definition operationDestinations :: "string list" where
  "operationDestinations = [''realtime.operations'', ''analytics.operations'', ''audit.operations'']"

definition insertOperationalEvent :: "env \<Rightarrow> ctx \<Rightarrow> OperationalEvent \<Rightarrow> db \<Rightarrow> db_error + unit \<times> db" where
  "insertOperationalEvent e c r s =
     map_sum id (\<lambda>(r', rs). ((), s\<lparr>operational_events := rs\<rparr>))
       (insertRow (\<lambda>x y. e_id x = e_id y)
          (firstViolation
             [(e_event_type r \<noteq> '''', ''23514''),
              (e_aggregate_type r \<noteq> '''', ''23514''),
              (e_actor_ref r \<noteq> '''', ''23514''),
              (case e_aggregate_version r of None \<Rightarrow> True | Some v \<Rightarrow> 1 \<le> v, ''23514''),
              (1 \<le> e_schema_version r, ''23514''),
              (e_entity_type r \<noteq> '''', ''23514''),
              (case e_entity_version r of None \<Rightarrow> True | Some v \<Rightarrow> 1 \<le> v, ''23514''),
              (jsonb_typeof (e_event_data r) = ''object'', ''23514''),
              (visible e c (e_org r) (e_loc r), ''42501''),
              (locationExists s (e_org r) (e_loc r), ''23503''),
              (case e_device_id r of None \<Rightarrow> True | Some i \<Rightarrow> i \<in> d_id ` set (devices s), ''23503'')])
          r (operational_events s))"

definition insertOutboxRecord ::
  "env \<Rightarrow> ctx \<Rightarrow> uuid \<Rightarrow> uuid \<Rightarrow> uuid \<Rightarrow> uuid \<Rightarrow> string \<Rightarrow> string \<Rightarrow> payload \<Rightarrow>
     db \<Rightarrow> db_error + unit \<times> db" where
  "insertOutboxRecord e c newID org loc eventID topic destination body s =
     (let r = \<lparr>x_id = newID, x_org = org, x_loc = loc, x_event = eventID, x_topic = topic,
               x_payload = body, x_status = ''pending'', x_attempts = 0, x_available_at = now e,
               x_locked_at = None, x_locked_by = None, x_processed_at = None, x_created_at = now e,
               x_updated_at = now e, x_destination = destination, x_last_error = None\<rparr>
      in map_sum id (\<lambda>(r', rs). ((), s\<lparr>outbox_records := rs\<rparr>))
           (insertRow (\<lambda>x y. x_id x = x_id y)
              (firstViolation
                 [(topic \<noteq> '''', ''23514''),
                  (destination \<noteq> '''', ''23514''),
                  (visible e c org loc, ''42501''),
                  (locationExists s org loc, ''23503''),
                  (eventID \<in> e_id ` set (operational_events s), ''23503'')])
              r (outbox_records s)))"

text \<open>The loop over the destinations; \<open>k\<close> numbers the iterations.\<close>

fun writeOutbox ::
  "env \<Rightarrow> ctx \<Rightarrow> operationalEvent \<Rightarrow> uuid \<Rightarrow> string \<Rightarrow> payload \<Rightarrow> nat \<Rightarrow> string list \<Rightarrow> unit op_body" where
  "writeOutbox e c ev eventID topic body k [] = txReturn ()"
| "writeOutbox e c ev eventID topic body k (destination # rest) =
     txBind (runQuery e (''writing outbox record for '' @ destination) None
               (insertOutboxRecord e c (gen e (2 + k)) (oe_OrganisationID ev) (oe_LocationID ev)
                  eventID topic destination body))
       (\<lambda>_. writeOutbox e c ev eventID topic body (Suc k) rest)"

definition eventActorRef :: "operationalEvent \<Rightarrow> string" where
  "eventActorRef ev = (if oe_ActorRef ev = '''' then ''system'' else oe_ActorRef ev)"

definition eventEnvelope :: "env \<Rightarrow> operationalEvent \<Rightarrow> Envelope" where
  "eventEnvelope e ev =
     \<lparr>ev_ID = gen e 1, ev_Type = oe_EventType ev, ev_SchemaVersion = SchemaVersion,
      ev_OccurredAt = wall e, ev_OrganisationID = oe_OrganisationID ev,
      ev_LocationID = oe_LocationID ev, ev_ActorRef = eventActorRef ev, ev_DeviceID = oe_DeviceID ev,
      ev_EntityType = oe_EntityType ev, ev_EntityID = oe_EntityID ev,
      ev_EntityVersion = Some (oe_EntityVersion ev), ev_CommandID = oe_CommandID ev,
      ev_CorrelationID = oe_CommandID ev, ev_Traceparent = traceparent e,
      ev_Tracestate = tracestate e, ev_Data = JObj (oe_Data ev)\<rparr>"

definition eventRow :: "env \<Rightarrow> operationalEvent \<Rightarrow> OperationalEvent" where
  "eventRow e ev =
     \<lparr>e_id = gen e 1, e_org = oe_OrganisationID ev, e_loc = oe_LocationID ev,
      e_event_type = oe_EventType ev, e_aggregate_type = oe_EntityType ev,
      e_aggregate_id = oe_EntityID ev, e_aggregate_version = Some (oe_EntityVersion ev),
      e_actor_ref = eventActorRef ev, e_device_id = oe_DeviceID ev, e_command_id = oe_CommandID ev,
      e_payload = Encoded (eventEnvelope e ev), e_occurred_at = wall e div 1000,
      e_schema_version = SchemaVersion, e_entity_type = oe_EntityType ev,
      e_entity_id = oe_EntityID ev, e_entity_version = Some (oe_EntityVersion ev),
      e_correlation_id = oe_CommandID ev, e_event_data = JObj (oe_Data ev)\<rparr>"

definition writeOperationalEvent :: "env \<Rightarrow> ctx \<Rightarrow> operationalEvent \<Rightarrow> unit op_body" where
  "writeOperationalEvent e c ev =
     (let topic = (if oe_Topic ev = '''' then oe_EntityType ev else oe_Topic ev);
          destinations = (if oe_Destinations ev = [] then [topic] else oe_Destinations ev)
      in txBind (runQuery e ''writing operational event'' None (insertOperationalEvent e c (eventRow e ev)))
           (\<lambda>_. writeOutbox e c ev (gen e 1) topic (Encoded (eventEnvelope e ev)) 0 destinations))"


section \<open>Running a command\<close>

definition DefaultIdempotencyRetention :: int where
  "DefaultIdempotencyRetention = 30 * 24 * 3600 * 10 ^ 9"

definition getIdempotencyReplay ::
  "env \<Rightarrow> ctx \<Rightarrow> uuid \<Rightarrow> CommandMeta \<Rightarrow> db \<Rightarrow> op_error fail + CommandReplay option" where
  "getIdempotencyReplay e c org meta s =
     (if fault e ''getting idempotency record'' then Inl (Wrapped ''getting idempotency record'' ConnFailure)
      else case find (\<lambda>r. visible_org e c (i_org r) \<and> i_org r = org \<and> i_command_id r = cm_ID meta)
                  (api_idempotency_records s) of
             None \<Rightarrow> Inr None
           | Some r \<Rightarrow>
               if i_command_type r \<noteq> cm_Type meta \<or> i_payload_hash r \<noteq> cm_PayloadHash meta
               then Inl (Err ErrIdempotencyConflict)
               else Inr (Some \<lparr>cr_Replayed = True, cr_Status = i_response_status r, cr_Body = i_response_body r\<rparr>))"

definition retentionSeconds :: "CommandMeta \<Rightarrow> int" where
  "retentionSeconds meta =
     (if cm_Retention meta \<le> 0 then DefaultIdempotencyRetention else cm_Retention meta) div 10 ^ 9"

definition insertIdempotencyRow ::
  "env \<Rightarrow> ctx \<Rightarrow> uuid \<Rightarrow> uuid \<Rightarrow> CommandMeta \<Rightarrow> int \<Rightarrow> string \<Rightarrow> db \<Rightarrow> db_error + unit \<times> db" where
  "insertIdempotencyRow e c org loc meta status body s =
     (case jsonb e body of
        None \<Rightarrow> Inl (PgError ''22P02'')
      | Some stored \<Rightarrow>
          let r = \<lparr>i_command_id = cm_ID meta, i_org = org, i_loc = Some loc,
                   i_command_type = cm_Type meta, i_payload_hash = cm_PayloadHash meta,
                   i_response_status = status, i_response_body = stored, i_created_at = now e,
                   i_expires_at = now e + retentionSeconds meta * 10 ^ 6\<rparr>
          in map_sum id (\<lambda>(r', rs). ((), s\<lparr>api_idempotency_records := rs\<rparr>))
               (insertRow (\<lambda>x y. i_org x = i_org y \<and> i_command_id x = i_command_id y)
                  (firstViolation
                     [(cm_Type meta \<noteq> '''', ''23514''),
                      (32 \<le> length (cm_PayloadHash meta), ''23514''),
                      (100 \<le> status \<and> status \<le> 599, ''23514''),
                      (jsonb_object e body, ''23514''),
                      (i_created_at r < i_expires_at r, ''23514''),
                      (visible_org e c org, ''42501''),
                      (locationExists s org loc, ''23503'')])
                  r (api_idempotency_records s)))"

definition insertIdempotencyRecord ::
  "env \<Rightarrow> ctx \<Rightarrow> uuid \<Rightarrow> uuid \<Rightarrow> string \<Rightarrow> CommandMeta \<Rightarrow> int \<Rightarrow> string \<Rightarrow> unit op_body" where
  "insertIdempotencyRecord e c org loc actorRef meta status body =
     runQuery e (''recording idempotency result for '' @ actorRef) None
       (insertIdempotencyRow e c org loc meta status body)"

text \<open>
  What a command does after the replay check: execute, write the event, encode the response and
  record it. The value \<open>Some v\<close> is the command's result, \<open>None\<close> the zero value a replay returns.
\<close>

definition commandBody ::
  "env \<Rightarrow> ctx \<Rightarrow> uuid \<Rightarrow> uuid \<Rightarrow> string \<Rightarrow> CommandMeta \<Rightarrow> (ctx \<Rightarrow> 't op_body) \<Rightarrow>
     (ctx \<Rightarrow> 't \<Rightarrow> unit op_body) \<Rightarrow> ('t \<Rightarrow> string + int \<times> string) option \<Rightarrow>
     ('t option \<times> CommandReplay) op_body" where
  "commandBody e c org loc actorRef meta execute after encode =
     txBind (execute c) (\<lambda>v.
     txBind (after c v) (\<lambda>_.
       case (case encode of None \<Rightarrow> Inr (200, '''') | Some enc \<Rightarrow> enc v) of
         Inl msg \<Rightarrow> txFail (Wrapped ''encoding idempotency response'' (OtherError msg))
       | Inr (status, body) \<Rightarrow>
           if cm_ID meta \<noteq> uuid_Nil then
             let stored = (if body = '''' then ''{}'' else body)
             in txBind (insertIdempotencyRecord e c org loc actorRef meta status stored)
                  (\<lambda>_. txReturn (Some v, \<lparr>cr_Replayed = False, cr_Status = status, cr_Body = stored\<rparr>))
           else txReturn (Some v, \<lparr>cr_Replayed = False, cr_Status = status, cr_Body = body\<rparr>)))"

definition runTenantCommand ::
  "env \<Rightarrow> uuid \<Rightarrow> uuid \<Rightarrow> string \<Rightarrow> CommandMeta \<Rightarrow> (ctx \<Rightarrow> 't op_body) \<Rightarrow>
     (ctx \<Rightarrow> 't \<Rightarrow> unit op_body) \<Rightarrow> ('t \<Rightarrow> string + int \<times> string) option \<Rightarrow>
     db \<Rightarrow> ('t option \<times> CommandReplay) op_result" where
  "runTenantCommand e org loc actorRef meta execute after encode s =
     (if fault e ''beginning transaction'' then (Inl (Wrapped ''beginning transaction'' ConnFailure), s)
      else if fault e ''setting tenant context''
        then (Inl (rollback e (Wrapped ''setting tenant context'' ConnFailure)), s)
      else let c = tenant_context org loc
           in case (if cm_ID meta \<noteq> uuid_Nil then getIdempotencyReplay e c org meta s else Inr None) of
                Inl err \<Rightarrow> (Inl (rollback e err), s)
              | Inr (Some replay) \<Rightarrow> commitTx e ''committing replay transaction'' (None, replay) s s
              | Inr None \<Rightarrow>
                  (case commandBody e c org loc actorRef meta execute after encode s of
                     Inl err \<Rightarrow> (Inl (rollback e err), s)
                   | Inr (v, s') \<Rightarrow> commitTx e ''committing transaction'' v s s'))"

text \<open>\<^verbatim>\<open>inTenantTx\<close>: a transaction with a tenant context and no idempotency record.\<close>

definition inTenantTx :: "env \<Rightarrow> uuid \<Rightarrow> uuid \<Rightarrow> (ctx \<Rightarrow> 'a op_body) \<Rightarrow> db \<Rightarrow> 'a op_result" where
  "inTenantTx e org loc fn s =
     (if fault e ''beginning transaction'' then (Inl (Wrapped ''beginning transaction'' ConnFailure), s)
      else if fault e ''setting tenant context''
        then (Inl (rollback e (Wrapped ''setting tenant context'' ConnFailure)), s)
      else case fn (tenant_context org loc) s of
             Inl err \<Rightarrow> (Inl (rollback e err), s)
           | Inr (v, s') \<Rightarrow> commitTx e ''committing transaction'' v s s')"

text \<open>\<^verbatim>\<open>inTx\<close>: a transaction that sets no context at all.\<close>

definition inTx :: "env \<Rightarrow> (ctx \<Rightarrow> 'a op_body) \<Rightarrow> db \<Rightarrow> 'a op_result" where
  "inTx e fn s =
     (if fault e ''beginning transaction'' then (Inl (Wrapped ''beginning transaction'' ConnFailure), s)
      else case fn no_context s of
             Inl err \<Rightarrow> (Inl (rollback e err), s)
           | Inr (v, s') \<Rightarrow> commitTx e ''committing transaction'' v s s')"


section \<open>Table commands\<close>

definition lockTableOccupancy :: "env \<Rightarrow> ctx \<Rightarrow> uuid \<Rightarrow> uuid \<Rightarrow> uuid \<Rightarrow> TableOccupancy op_body" where
  "lockTableOccupancy e c tableID org loc =
     runQuery e ''locking table occupancy'' (Some ErrNotFound) (reading (LockTableOccupancy e c tableID org loc))"

definition occupyTableInTx :: "env \<Rightarrow> OccupyTableParams \<Rightarrow> ctx \<Rightarrow> TableResult op_body" where
  "occupyTableInTx e arg c =
     txBind (lockTableOccupancy e c (op_TableID arg) (op_OrganisationID arg) (op_LocationID arg)) (\<lambda>occupancy.
     txGuard (o_status occupancy = TableStatusOccupied) (Err ErrAlreadyOccupied) (
     txGuard (o_version occupancy \<noteq> op_ExpectedVersion arg)
       (Err (VersionConflictError ''table_occupancy'' (op_TableID arg) (op_ExpectedVersion arg) (o_version occupancy))) (
     txBind (runQuery e ''creating table session'' None
               (CreateTableSession e c (gen e 0) (op_OrganisationID arg) (op_LocationID arg) (op_TableID arg)
                  (op_PartySize arg) (nullableText (op_ActorRef arg)) (op_Source arg))) (\<lambda>session.
     txBind (runQuery e ''marking table occupied'' (Some ErrVersionConflict)
               (MarkTableOccupied e c (op_TableID arg) (op_OrganisationID arg) (op_LocationID arg)
                  (s_id session) (nullableText (op_ActorRef arg)) (op_ExpectedVersion arg))) (\<lambda>updated.
     txBind (runQuery e ''getting updated table state'' None
               (reading (GetTableState e c (op_TableID arg) (op_OrganisationID arg) (op_LocationID arg)))) (\<lambda>(table, _).
     txReturn \<lparr>r_Table = table, r_Occupancy = updated, r_Session = session\<rparr>))))))"

definition clearTableInTx :: "env \<Rightarrow> ClearTableParams \<Rightarrow> ctx \<Rightarrow> TableResult op_body" where
  "clearTableInTx e arg c =
     txBind (lockTableOccupancy e c (cl_TableID arg) (cl_OrganisationID arg) (cl_LocationID arg)) (\<lambda>occupancy.
     txGuard (o_status occupancy = TableStatusAvailable) (Err ErrAlreadyAvailable) (
     txGuard (o_version occupancy \<noteq> cl_ExpectedVersion arg)
       (Err (VersionConflictError ''table_occupancy'' (cl_TableID arg) (cl_ExpectedVersion arg) (o_version occupancy))) (
     case o_current_session occupancy of
       None \<Rightarrow> txFail (Err ErrNoActiveSession)
     | Some sessionID \<Rightarrow>
     txBind (runQuery e ''closing table session'' (Some ErrNoActiveSession)
               (CloseTableSession e c sessionID (cl_OrganisationID arg) (cl_LocationID arg)
                  (nullableText (cl_ActorRef arg)))) (\<lambda>session.
     txBind (runQuery e ''marking table available'' (Some ErrVersionConflict)
               (MarkTableAvailable e c (cl_TableID arg) (cl_OrganisationID arg) (cl_LocationID arg)
                  (nullableText (cl_ActorRef arg)) (cl_ExpectedVersion arg))) (\<lambda>updated.
     txBind (runQuery e ''getting updated table state'' None
               (reading (GetTableState e c (cl_TableID arg) (cl_OrganisationID arg) (cl_LocationID arg)))) (\<lambda>(table, _).
     txReturn \<lparr>r_Table = table, r_Occupancy = updated, r_Session = session\<rparr>))))))"

definition TypeTableOccupied :: string where "TypeTableOccupied = ''table.occupied''"
definition TypeTableCleared :: string where "TypeTableCleared = ''table.cleared''"
definition TypeAssistRequested :: string where "TypeAssistRequested = ''assist.requested''"
definition TypeAssistCancelled :: string where "TypeAssistCancelled = ''assist.cancelled''"

definition intPtr :: "int option \<Rightarrow> json" where
  "intPtr value = (case value of None \<Rightarrow> JNull | Some n \<Rightarrow> JInt n)"

definition nullableString :: "string \<Rightarrow> json" where
  "nullableString value = (if value = '''' then JNull else JStr value)"

definition occupyEvent :: "OccupyTableParams \<Rightarrow> TableResult \<Rightarrow> operationalEvent" where
  "occupyEvent arg result =
     \<lparr>oe_OrganisationID = op_OrganisationID arg, oe_LocationID = op_LocationID arg,
      oe_EventType = TypeTableOccupied, oe_EntityType = ''table'', oe_EntityID = op_TableID arg,
      oe_EntityVersion = o_version (r_Occupancy result), oe_ActorRef = op_ActorRef arg,
      oe_DeviceID = cm_DeviceID (op_Command arg), oe_CommandID = nullableUUID (cm_ID (op_Command arg)),
      oe_Topic = ''operations.table'', oe_Destinations = operationDestinations,
      oe_Data = [(''tableId'', JUuid (op_TableID arg)), (''sessionId'', JUuid (s_id (r_Session result))),
                 (''status'', JStr (o_status (r_Occupancy result))), (''partySize'', intPtr (op_PartySize arg))]\<rparr>"

definition clearEvent :: "ClearTableParams \<Rightarrow> TableResult \<Rightarrow> operationalEvent" where
  "clearEvent arg result =
     \<lparr>oe_OrganisationID = cl_OrganisationID arg, oe_LocationID = cl_LocationID arg,
      oe_EventType = TypeTableCleared, oe_EntityType = ''table'', oe_EntityID = cl_TableID arg,
      oe_EntityVersion = o_version (r_Occupancy result), oe_ActorRef = cl_ActorRef arg,
      oe_DeviceID = cm_DeviceID (cl_Command arg), oe_CommandID = nullableUUID (cm_ID (cl_Command arg)),
      oe_Topic = ''operations.table'', oe_Destinations = operationDestinations,
      oe_Data = [(''tableId'', JUuid (cl_TableID arg)), (''sessionId'', JUuid (s_id (r_Session result))),
                 (''status'', JStr (o_status (r_Occupancy result)))]\<rparr>"

definition OccupyTableCommand ::
  "env \<Rightarrow> OccupyTableParams \<Rightarrow> (TableResult \<Rightarrow> string + int \<times> string) option \<Rightarrow>
     db \<Rightarrow> (TableResult option \<times> CommandReplay) op_result" where
  "OccupyTableCommand e arg encode =
     runTenantCommand e (op_OrganisationID arg) (op_LocationID arg) (op_ActorRef arg) (op_Command arg)
       (occupyTableInTx e arg)
       (\<lambda>c result. writeOperationalEvent e c (occupyEvent arg result))
       encode"

definition ClearTableCommand ::
  "env \<Rightarrow> ClearTableParams \<Rightarrow> (TableResult \<Rightarrow> string + int \<times> string) option \<Rightarrow>
     db \<Rightarrow> (TableResult option \<times> CommandReplay) op_result" where
  "ClearTableCommand e arg encode =
     runTenantCommand e (cl_OrganisationID arg) (cl_LocationID arg) (cl_ActorRef arg) (cl_Command arg)
       (clearTableInTx e arg)
       (\<lambda>c result. writeOperationalEvent e c (clearEvent arg result))
       encode"

text \<open>\<^verbatim>\<open>OccupyTable\<close> and \<^verbatim>\<open>ClearTable\<close> drop the replay value; a replayed command returns the zero result.\<close>

definition OccupyTable :: "env \<Rightarrow> OccupyTableParams \<Rightarrow> db \<Rightarrow> (TableResult option) op_result" where
  "OccupyTable e arg s = map_prod (map_sum id fst) id (OccupyTableCommand e arg None s)"

definition ClearTable :: "env \<Rightarrow> ClearTableParams \<Rightarrow> db \<Rightarrow> (TableResult option) op_result" where
  "ClearTable e arg s = map_prod (map_sum id fst) id (ClearTableCommand e arg None s)"


section \<open>Assist commands\<close>

definition requestAssistEvent :: "RequestAssistParams \<Rightarrow> AssistRequest \<Rightarrow> operationalEvent" where
  "requestAssistEvent arg created =
     \<lparr>oe_OrganisationID = ra_OrganisationID arg, oe_LocationID = ra_LocationID arg,
      oe_EventType = TypeAssistRequested, oe_EntityType = ''assist'', oe_EntityID = a_id created,
      oe_EntityVersion = a_version created, oe_ActorRef = ra_RequestedBy arg, oe_DeviceID = None,
      oe_CommandID = None, oe_Topic = ''operations.assist'', oe_Destinations = operationDestinations,
      oe_Data = [(''assistId'', JUuid (a_id created)), (''tableId'', JUuid (ra_TableID arg)),
                 (''status'', JStr (a_status created)), (''source'', JStr (ra_Source arg)),
                 (''note'', nullableString (ra_Note arg))]\<rparr>"

definition RequestAssist :: "env \<Rightarrow> RequestAssistParams \<Rightarrow> db \<Rightarrow> AssistRequest op_result" where
  "RequestAssist e arg =
     inTenantTx e (ra_OrganisationID arg) (ra_LocationID arg) (\<lambda>c.
     txBind (lockTableOccupancy e c (ra_TableID arg) (ra_OrganisationID arg) (ra_LocationID arg)) (\<lambda>occupancy.
     txBind (runQuery e ''creating assist request'' None
               (CreateAssistRequest e c (gen e 0) (ra_OrganisationID arg) (ra_LocationID arg) (ra_TableID arg)
                  (o_current_session occupancy) (nullableText (ra_RequestedBy arg)) (ra_Source arg)
                  (nullableText (ra_Note arg)) None)) (\<lambda>created.
     txBind (writeOperationalEvent e c (requestAssistEvent arg created)) (\<lambda>_.
     txReturn created))))"

definition validAssistTransition :: "string \<Rightarrow> string \<Rightarrow> bool" where
  "validAssistTransition current nxt =
     (if nxt = AssistStatusAcknowledged then current = AssistStatusPending
      else if nxt = AssistStatusResolved \<or> nxt = AssistStatusCancelled
        then current = AssistStatusPending \<or> current = AssistStatusAcknowledged
      else False)"

definition changeAssistInTx :: "env \<Rightarrow> ChangeAssistParams \<Rightarrow> string \<Rightarrow> ctx \<Rightarrow> AssistRequest op_body" where
  "changeAssistInTx e arg nextStatus c =
     txBind (runQuery e ''locking assist request'' (Some ErrNotFound)
               (reading (LockAssistRequest e c (ca_AssistID arg) (ca_OrganisationID arg) (ca_LocationID arg)))) (\<lambda>current.
     txGuard (a_version current \<noteq> ca_ExpectedVersion arg)
       (Err (VersionConflictError ''assist_request'' (ca_AssistID arg) (ca_ExpectedVersion arg) (a_version current))) (
     txGuard (a_status current = AssistStatusResolved \<and> nextStatus = AssistStatusResolved)
       (Err ErrAssistAlreadyResolved) (
     txGuard (\<not> validAssistTransition (a_status current) nextStatus) (Err ErrInvalidAssistTransition) (
     if nextStatus = AssistStatusAcknowledged then
       runQuery e ''changing assist request status'' (Some ErrVersionConflict)
         (AcknowledgeAssistRequest e c (ca_AssistID arg) (ca_OrganisationID arg) (ca_LocationID arg)
            (nullableText (ca_ActorRef arg)) (ca_ExpectedVersion arg))
     else if nextStatus = AssistStatusResolved then
       runQuery e ''changing assist request status'' (Some ErrVersionConflict)
         (ResolveAssistRequest e c (ca_AssistID arg) (ca_OrganisationID arg) (ca_LocationID arg)
            (nullableText (ca_ActorRef arg)) (ca_ExpectedVersion arg))
     else if nextStatus = AssistStatusCancelled then
       runQuery e ''changing assist request status'' (Some ErrVersionConflict)
         (CancelAssistRequest e c (ca_AssistID arg) (ca_OrganisationID arg) (ca_LocationID arg)
            (nullableText (ca_ActorRef arg)) (ca_ExpectedVersion arg))
     else txFail (Err ErrInvalidAssistTransition)))))"

definition changeAssistEvent :: "ChangeAssistParams \<Rightarrow> string \<Rightarrow> AssistRequest \<Rightarrow> operationalEvent" where
  "changeAssistEvent arg eventType assist =
     \<lparr>oe_OrganisationID = ca_OrganisationID arg, oe_LocationID = ca_LocationID arg,
      oe_EventType = eventType, oe_EntityType = ''assist'', oe_EntityID = ca_AssistID arg,
      oe_EntityVersion = a_version assist, oe_ActorRef = ca_ActorRef arg,
      oe_DeviceID = cm_DeviceID (ca_Command arg), oe_CommandID = nullableUUID (cm_ID (ca_Command arg)),
      oe_Topic = ''operations.assist'', oe_Destinations = operationDestinations,
      oe_Data = [(''assistId'', JUuid (ca_AssistID arg)), (''tableId'', JUuid (a_table assist)),
                 (''status'', JStr (a_status assist))]\<rparr>"

definition changeAssistCommand ::
  "env \<Rightarrow> ChangeAssistParams \<Rightarrow> string \<Rightarrow> string \<Rightarrow> (AssistRequest \<Rightarrow> string + int \<times> string) option \<Rightarrow>
     db \<Rightarrow> (AssistRequest option \<times> CommandReplay) op_result" where
  "changeAssistCommand e arg nextStatus eventType encode =
     runTenantCommand e (ca_OrganisationID arg) (ca_LocationID arg) (ca_ActorRef arg) (ca_Command arg)
       (changeAssistInTx e arg nextStatus)
       (\<lambda>c assist. writeOperationalEvent e c (changeAssistEvent arg eventType assist))
       encode"

definition AcknowledgeAssistCommand ::
  "env \<Rightarrow> ChangeAssistParams \<Rightarrow> (AssistRequest \<Rightarrow> string + int \<times> string) option \<Rightarrow>
     db \<Rightarrow> (AssistRequest option \<times> CommandReplay) op_result" where
  "AcknowledgeAssistCommand e arg = changeAssistCommand e arg AssistStatusAcknowledged ''assist.acknowledged''"

definition ResolveAssistCommand ::
  "env \<Rightarrow> ChangeAssistParams \<Rightarrow> (AssistRequest \<Rightarrow> string + int \<times> string) option \<Rightarrow>
     db \<Rightarrow> (AssistRequest option \<times> CommandReplay) op_result" where
  "ResolveAssistCommand e arg = changeAssistCommand e arg AssistStatusResolved ''assist.resolved''"

definition CancelAssistCommand ::
  "env \<Rightarrow> ChangeAssistParams \<Rightarrow> (AssistRequest \<Rightarrow> string + int \<times> string) option \<Rightarrow>
     db \<Rightarrow> (AssistRequest option \<times> CommandReplay) op_result" where
  "CancelAssistCommand e arg = changeAssistCommand e arg AssistStatusCancelled ''assist.cancelled''"

end
