(* ===== verification/Sample.thy ===== *)
theory Sample
  imports Operations
begin

text \<open>
  A small concrete restaurant, on which the properties of the development are exercised: one location
  with one table, a world in which every statement is answered, and a command of each kind.
\<close>

definition sampleEnv :: env where
  "sampleEnv =
     \<lparr>now = 5000000, wall = 5000000000, gen = (\<lambda>n. 100 + of_nat n), fault = (\<lambda>site. False),
      commit = Committed, rls = True, jsonb = Some, jsonb_object = (\<lambda>body. True),
      traceparent = '''', tracestate = ''''\<rparr>"

definition sampleLocation :: Location where
  "sampleLocation =
     \<lparr>l_id = 2, l_org = 1, l_slug = ''main'', l_name = ''Main'', l_timezone = ''UTC'', l_status = ''active'',
      l_legacy_restaurant_id = None, l_created_at = 0, l_updated_at = 0, l_operating_config = JObj [],
      l_feature_flags = JObj []\<rparr>"

definition sampleTable :: Table where
  "sampleTable =
     \<lparr>t_id = 3, t_org = 1, t_loc = 2, t_floor = 4, t_zone = 5, t_label = ''T1'', t_capacity_label = ''4'',
      t_shape = ''square'', t_geometry = JObj [], t_is_active = True, t_deleted_at = None, t_version = 1,
      t_legacy_table_id = None, t_created_at = 0, t_updated_at = 0\<rparr>"

definition sampleOccupancy :: TableOccupancy where
  "sampleOccupancy =
     \<lparr>o_table = 3, o_org = 1, o_loc = 2, o_status = ''available'', o_current_session = None, o_version = 1,
      o_updated_by = None, o_updated_at = 0, o_created_at = 0\<rparr>"

definition sampleDb :: db where
  "sampleDb =
     \<lparr>locations = [sampleLocation], tables = [sampleTable], table_occupancy = [sampleOccupancy],
      table_sessions = [], assist_requests = [], table_qr_capabilities = [], api_idempotency_records = [],
      operational_events = [], outbox_records = [], consumer_event_records = [], devices = []\<rparr>"

definition sampleMeta :: "uuid \<Rightarrow> CommandMeta" where
  "sampleMeta i =
     \<lparr>cm_ID = i, cm_Type = ''table'', cm_PayloadHash = replicate 32 0, cm_DeviceID = None, cm_Retention = 0\<rparr>"

definition sampleOccupy :: OccupyTableParams where
  "sampleOccupy =
     \<lparr>op_OrganisationID = 1, op_LocationID = 2, op_TableID = 3, op_ExpectedVersion = 1, op_PartySize = Some 4,
      op_ActorRef = ''alice'', op_Source = ''staff'', op_Command = sampleMeta 77\<rparr>"

definition sampleClear :: ClearTableParams where
  "sampleClear =
     \<lparr>cl_OrganisationID = 1, cl_LocationID = 2, cl_TableID = 3, cl_ExpectedVersion = 2,
      cl_ActorRef = ''alice'', cl_Command = sampleMeta 78\<rparr>"

lemmas sample_defs =
  sampleEnv_def sampleLocation_def sampleTable_def sampleOccupancy_def sampleDb_def sampleMeta_def
  sampleOccupy_def sampleClear_def

end
