(* ===== verification/TableState.thy ===== *)
theory TableState
  imports Operations Sample
begin

text \<open>
  The integrity of the operational tables and what the table commands do to them. \<open>wf_db\<close> says that
  keys are unique, rows satisfy their CHECKs, an occupancy row points at an open session of its own
  table, and every open session is the current one of its table. \<open>seat_of\<close> abstracts a table to its
  seat: vacant or seated, with its version; the commands are shown to refine the seat machine.
\<close>

section \<open>Integrity\<close>

definition keys_ok :: "db \<Rightarrow> bool" where
  "keys_ok s \<longleftrightarrow>
     distinct (map t_id (tables s)) \<and> distinct (map o_table (table_occupancy s)) \<and>
     distinct (map s_id (table_sessions s)) \<and> distinct (map a_id (assist_requests s))"

definition checks_ok :: "db \<Rightarrow> bool" where
  "checks_ok s \<longleftrightarrow>
     (\<forall>r \<in> set (table_occupancy s). occupancyCheck r = None \<and> tableExists s (o_table r) (o_org r) (o_loc r)) \<and>
     (\<forall>r \<in> set (table_sessions s). sessionCheck r = None) \<and>
     (\<forall>r \<in> set (assist_requests s). assistCheck r = None)"

definition current_of :: "TableSession \<Rightarrow> TableOccupancy \<Rightarrow> bool" where
  "current_of x r \<longleftrightarrow>
     o_current_session r = Some (s_id x) \<and> s_table x = o_table r \<and> s_org x = o_org r \<and>
     s_loc x = o_loc r \<and> s_ended_at x = None"

definition links_ok :: "db \<Rightarrow> bool" where
  "links_ok s \<longleftrightarrow>
     (\<forall>r \<in> set (table_occupancy s). o_current_session r \<noteq> None \<longrightarrow>
        (\<exists>x \<in> set (table_sessions s). current_of x r)) \<and>
     (\<forall>x \<in> set (table_sessions s). s_ended_at x = None \<longrightarrow>
        (\<exists>r \<in> set (table_occupancy s). current_of x r))"

definition wf_db :: "db \<Rightarrow> bool" where
  "wf_db s \<longleftrightarrow> keys_ok s \<and> checks_ok s \<and> links_ok s"

text \<open>The part of the state \<open>wf_db\<close> reads: a statement that leaves it alone keeps \<open>wf_db\<close>.\<close>

definition core :: "db \<Rightarrow> Table list \<times> TableOccupancy list \<times> TableSession list \<times> AssistRequest list" where
  "core s = (tables s, table_occupancy s, table_sessions s, assist_requests s)"

lemma wf_db_core: "core s = core s' \<Longrightarrow> wf_db s = wf_db s'"
  by (simp add: core_def wf_db_def keys_ok_def checks_ok_def links_ok_def tableExists_def)

lemma wf_deferred: "wf_db s \<Longrightarrow> deferredConstraints s"
  by (force simp: wf_db_def links_ok_def deferredConstraints_def current_of_def split: option.splits)

lemma occupancyCheckD:
  "occupancyCheck r = None \<Longrightarrow>
     1 \<le> o_version r \<and> o_version r \<le> maxInt32 \<and>
     (o_status r = TableStatusAvailable \<and> o_current_session r = None \<or>
      o_status r = TableStatusOccupied \<and> o_current_session r \<noteq> None)"
  by (simp add: occupancyCheck_def firstViolation_None)


section \<open>What a successful statement does\<close>

lemma lockTableOccupancy_InrE [tx_elims]:
  assumes "lockTableOccupancy e c t org loc s = Inr (r, s')"
  obtains "s' = s" and "r \<in> set (table_occupancy s)" and "o_table r = t" and "o_org r = org" and "o_loc r = loc"
    and "\<exists>x \<in> set (tables s). t_id x = t \<and> liveTable x"
  using assms
  by (auto simp: lockTableOccupancy_def runQuery_Inr LockTableOccupancy_def reading_Inr row_simps dest!: find_SomeD)

lemma CreateTableSession_Inr:
  assumes "CreateTableSession e c i org loc t ps ob src s = Inr (x, s')"
  shows "x = \<lparr>s_id = i, s_org = org, s_loc = loc, s_table = t, s_started_at = now e, s_ended_at = None,
              s_party_size = ps, s_opened_by = ob, s_closed_by = None, s_source = src,
              s_created_at = now e, s_updated_at = now e\<rparr>"
    and "s' = s\<lparr>table_sessions := table_sessions s @ [x]\<rparr>"
    and "i \<notin> s_id ` set (table_sessions s)"
    and "\<forall>y \<in> set (table_sessions s). s_table y = t \<longrightarrow> s_ended_at y \<noteq> None"
    and "sessionCheck x = None"
  using assms
  by (auto simp: CreateTableSession_def Let_def insertRow_def split: sum.splits option.splits if_splits)

lemma MarkTableOccupied_InrE:
  assumes "MarkTableOccupied e c t org loc i ub v s = Inr (r', s')"
  obtains r where "r \<in> set (table_occupancy s)" and "o_table r = t" and "o_org r = org" and "o_loc r = loc"
    and "o_status r = TableStatusAvailable" and "o_version r = v" and "occupancyCheck r' = None"
    and "r' = r\<lparr>o_status := TableStatusOccupied, o_current_session := Some i, o_version := v + 1,
                o_updated_by := ub, o_updated_at := now e\<rparr>"
    and "distinct (map o_table (table_occupancy s)) \<Longrightarrow>
         s' = s\<lparr>table_occupancy := map (\<lambda>x. if o_table x = t then r' else x) (table_occupancy s)\<rparr>"
  using assms unfolding MarkTableOccupied_def
  by (elim map_sum_InrE, clarsimp) (erule updateOne_keyE [where k = o_table and i = t], auto split: if_splits)

lemma MarkTableAvailable_InrE:
  assumes "MarkTableAvailable e c t org loc ub v s = Inr (r', s')"
  obtains r where "r \<in> set (table_occupancy s)" and "o_table r = t" and "o_org r = org" and "o_loc r = loc"
    and "o_status r = TableStatusOccupied" and "o_version r = v" and "occupancyCheck r' = None"
    and "r' = r\<lparr>o_status := TableStatusAvailable, o_current_session := None, o_version := v + 1,
                o_updated_by := ub, o_updated_at := now e\<rparr>"
    and "distinct (map o_table (table_occupancy s)) \<Longrightarrow>
         s' = s\<lparr>table_occupancy := map (\<lambda>x. if o_table x = t then r' else x) (table_occupancy s)\<rparr>"
  using assms unfolding MarkTableAvailable_def
  by (elim map_sum_InrE, clarsimp) (erule updateOne_keyE [where k = o_table and i = t], auto split: if_splits)

lemma CloseTableSession_InrE:
  assumes "CloseTableSession e c i org loc cb s = Inr (x', s')"
  obtains x where "x \<in> set (table_sessions s)" and "s_id x = i" and "s_org x = org" and "s_loc x = loc"
    and "s_ended_at x = None" and "sessionCheck x' = None"
    and "x' = x\<lparr>s_ended_at := Some (now e), s_closed_by := cb, s_updated_at := now e\<rparr>"
    and "distinct (map s_id (table_sessions s)) \<Longrightarrow>
         s' = s\<lparr>table_sessions := map (\<lambda>y. if s_id y = i then x' else y) (table_sessions s)\<rparr>"
  using assms unfolding CloseTableSession_def
  by (elim map_sum_InrE, clarsimp) (erule updateOne_keyE [where k = s_id and i = i], auto split: if_splits)


section \<open>The bodies of the table commands\<close>

text \<open>\<open>set_seat s t r\<close> replaces the occupancy row of table \<open>t\<close>.\<close>

definition set_seat :: "db \<Rightarrow> uuid \<Rightarrow> TableOccupancy \<Rightarrow> db" where
  "set_seat s t r = s\<lparr>table_occupancy := map (\<lambda>x. if o_table x = t then r else x) (table_occupancy s)\<rparr>"

lemma occupyTableInTx_InrE [consumes 2]:
  assumes run: "occupyTableInTx e arg c s = Inr (res, s')" and keys: "keys_ok s"
  obtains r where "r \<in> set (table_occupancy s)" and "o_table r = op_TableID arg"
    and "o_org r = op_OrganisationID arg" and "o_loc r = op_LocationID arg"
    and "o_status r = TableStatusAvailable" and "o_version r = op_ExpectedVersion arg"
    and "r_Occupancy res = r\<lparr>o_status := TableStatusOccupied, o_current_session := Some (gen e 0),
           o_version := op_ExpectedVersion arg + 1, o_updated_by := nullableText (op_ActorRef arg), o_updated_at := now e\<rparr>"
    and "r_Session res = \<lparr>s_id = gen e 0, s_org = op_OrganisationID arg, s_loc = op_LocationID arg,
           s_table = op_TableID arg, s_started_at = now e, s_ended_at = None, s_party_size = op_PartySize arg,
           s_opened_by = nullableText (op_ActorRef arg), s_closed_by = None, s_source = op_Source arg,
           s_created_at = now e, s_updated_at = now e\<rparr>"
    and "sessionCheck (r_Session res) = None" and "occupancyCheck (r_Occupancy res) = None"
    and "gen e 0 \<notin> s_id ` set (table_sessions s)"
    and "s' = set_seat (s\<lparr>table_sessions := table_sessions s @ [r_Session res]\<rparr>) (op_TableID arg) (r_Occupancy res)"
proof -
  from run obtain x s1 u s2 table st where
    cs: "CreateTableSession e c (gen e 0) (op_OrganisationID arg) (op_LocationID arg) (op_TableID arg)
           (op_PartySize arg) (nullableText (op_ActorRef arg)) (op_Source arg) s = Inr (x, s1)"
    and mk: "MarkTableOccupied e c (op_TableID arg) (op_OrganisationID arg) (op_LocationID arg)
           (s_id x) (nullableText (op_ActorRef arg)) (op_ExpectedVersion arg) s1 = Inr (u, s2)"
    and res: "res = \<lparr>r_Table = table, r_Occupancy = u, r_Session = x\<rparr>" "s' = s2"
    by (auto simp: occupyTableInTx_def lockTableOccupancy_def tx_iffs split: prod.splits)
  note c = CreateTableSession_Inr [OF cs]
  have d: "distinct (map o_table (table_occupancy s1))" using keys c(2) by (simp add: keys_ok_def)
  from mk obtain r where r: "r \<in> set (table_occupancy s1)" "o_table r = op_TableID arg"
      "o_org r = op_OrganisationID arg" "o_loc r = op_LocationID arg"
      "o_status r = TableStatusAvailable" "o_version r = op_ExpectedVersion arg" "occupancyCheck u = None"
      "u = r\<lparr>o_status := TableStatusOccupied, o_current_session := Some (s_id x), o_version := op_ExpectedVersion arg + 1,
                o_updated_by := nullableText (op_ActorRef arg), o_updated_at := now e\<rparr>"
    and s2: "s2 = s1\<lparr>table_occupancy := map (\<lambda>x. if o_table x = op_TableID arg then u else x) (table_occupancy s1)\<rparr>"
    by (rule MarkTableOccupied_InrE) (use d in blast)
  show thesis
    by (rule that [of r]) (use r c s2 res in \<open>simp_all add: set_seat_def\<close>)
qed

lemma clearTableInTx_InrE [consumes 2]:
  assumes run: "clearTableInTx e arg c s = Inr (res, s')" and keys: "keys_ok s"
  obtains r x where "r \<in> set (table_occupancy s)" and "o_table r = cl_TableID arg"
    and "o_org r = cl_OrganisationID arg" and "o_loc r = cl_LocationID arg"
    and "o_status r = TableStatusOccupied" and "o_version r = cl_ExpectedVersion arg"
    and "o_current_session r = Some (s_id x)"
    and "x \<in> set (table_sessions s)" and "s_ended_at x = None"
    and "r_Session res = x\<lparr>s_ended_at := Some (now e), s_closed_by := nullableText (cl_ActorRef arg), s_updated_at := now e\<rparr>"
    and "sessionCheck (r_Session res) = None" and "occupancyCheck (r_Occupancy res) = None"
    and "r_Occupancy res = r\<lparr>o_status := TableStatusAvailable, o_current_session := None,
           o_version := cl_ExpectedVersion arg + 1, o_updated_by := nullableText (cl_ActorRef arg), o_updated_at := now e\<rparr>"
    and "s' = set_seat (s\<lparr>table_sessions := map (\<lambda>y. if s_id y = s_id x then r_Session res else y) (table_sessions s)\<rparr>)
                (cl_TableID arg) (r_Occupancy res)"
proof -
  from run obtain r i x' s1 u s2 table st where
    lk: "lockTableOccupancy e c (cl_TableID arg) (cl_OrganisationID arg) (cl_LocationID arg) s = Inr (r, s)"
    and cur: "o_current_session r = Some i"
    and cs: "CloseTableSession e c i (cl_OrganisationID arg) (cl_LocationID arg) (nullableText (cl_ActorRef arg)) s = Inr (x', s1)"
    and mk: "MarkTableAvailable e c (cl_TableID arg) (cl_OrganisationID arg) (cl_LocationID arg)
           (nullableText (cl_ActorRef arg)) (cl_ExpectedVersion arg) s1 = Inr (u, s2)"
    and res: "res = \<lparr>r_Table = table, r_Occupancy = u, r_Session = x'\<rparr>" "s' = s2"
    by (auto simp: clearTableInTx_def lockTableOccupancy_def tx_iffs split: prod.splits option.splits)
  have ks: "distinct (map s_id (table_sessions s))" "distinct (map o_table (table_occupancy s))"
    using keys by (simp_all add: keys_ok_def)
  from cs obtain x where x: "x \<in> set (table_sessions s)" "s_id x = i" "s_ended_at x = None" "sessionCheck x' = None"
      "x' = x\<lparr>s_ended_at := Some (now e), s_closed_by := nullableText (cl_ActorRef arg), s_updated_at := now e\<rparr>"
    and s1: "s1 = s\<lparr>table_sessions := map (\<lambda>y. if s_id y = i then x' else y) (table_sessions s)\<rparr>"
    by (rule CloseTableSession_InrE) (use ks in auto)
  from lk have r: "r \<in> set (table_occupancy s)" "o_table r = cl_TableID arg"
    by (auto elim: lockTableOccupancy_InrE)
  from mk obtain r2 where r2: "r2 \<in> set (table_occupancy s)" "o_table r2 = cl_TableID arg"
      "o_org r2 = cl_OrganisationID arg" "o_loc r2 = cl_LocationID arg"
      "o_status r2 = TableStatusOccupied" "o_version r2 = cl_ExpectedVersion arg" "occupancyCheck u = None"
      "u = r2\<lparr>o_status := TableStatusAvailable, o_current_session := None, o_version := cl_ExpectedVersion arg + 1,
                o_updated_by := nullableText (cl_ActorRef arg), o_updated_at := now e\<rparr>"
    and s2: "s2 = s1\<lparr>table_occupancy := map (\<lambda>x. if o_table x = cl_TableID arg then u else x) (table_occupancy s1)\<rparr>"
    by (rule MarkTableAvailable_InrE) (use s1 ks in auto)
  from ks(2) r2(1) r(1) have "r2 = r" by (rule distinct_key_eq) (simp add: r r2)
  then show thesis
    by (intro that [of r x]) (use r2 x cur res s1 s2 in \<open>auto simp: set_seat_def\<close>)
qed


section \<open>The commands keep the integrity\<close>

lemma tables_set_seat [simp]: "tables (set_seat s t r) = tables s"
  by (simp add: set_seat_def)

lemma set_seat_other_tables [simp]:
  "table_sessions (set_seat s t r) = table_sessions s"
  "assist_requests (set_seat s t r) = assist_requests s"
  "operational_events (set_seat s t r) = operational_events s"
  "outbox_records (set_seat s t r) = outbox_records s"
  "api_idempotency_records (set_seat s t r) = api_idempotency_records s"
  "locations (set_seat s t r) = locations s"
  "devices (set_seat s t r) = devices s"
  "table_qr_capabilities (set_seat s t r) = table_qr_capabilities s"
  "consumer_event_records (set_seat s t r) = consumer_event_records s"
  by (simp_all add: set_seat_def)

lemma map_o_table_set_seat:
  "o_table r = t \<Longrightarrow> map o_table (table_occupancy (set_seat s t r)) = map o_table (table_occupancy s)"
  by (auto simp: set_seat_def)

lemma in_set_seat:
  "y \<in> set (table_occupancy (set_seat s t r)) \<Longrightarrow>
     y = r \<or> y \<in> set (table_occupancy s) \<and> o_table y \<noteq> t"
  by (auto simp: set_seat_def split: if_splits)

lemma in_set_seat_other:
  "y \<in> set (table_occupancy s) \<Longrightarrow> o_table y \<noteq> t \<Longrightarrow> y \<in> set (table_occupancy (set_seat s t r))"
  by (force simp: set_seat_def)

lemma in_set_seat_self:
  "y \<in> set (table_occupancy s) \<Longrightarrow> o_table y = t \<Longrightarrow> r \<in> set (table_occupancy (set_seat s t r))"
  by (force simp: set_seat_def)

text \<open>Replacing one row by a checked row of the same table keeps keys and checks.\<close>

lemma set_seat_keys: "keys_ok s \<Longrightarrow> o_table r = t \<Longrightarrow> keys_ok (set_seat s t r)"
  by (simp add: keys_ok_def map_o_table_set_seat)

lemma set_seat_checks:
  assumes "checks_ok s" and "q \<in> set (table_occupancy s)" and "o_table q = t"
    and "o_table r = t" "o_org r = o_org q" "o_loc r = o_loc q" and "occupancyCheck r = None"
  shows "checks_ok (set_seat s t r)"
  using assms by (auto simp: checks_ok_def tableExists_def dest!: in_set_seat)

lemma no_other_open:
  assumes "wf_db s" and "r \<in> set (table_occupancy s)" and "o_current_session r = None"
    and "x \<in> set (table_sessions s)" and "s_ended_at x = None"
  shows "s_table x \<noteq> o_table r"
proof
  assume t: "s_table x = o_table r"
  from assms(1,4,5) obtain q where q: "q \<in> set (table_occupancy s)" "current_of x q"
    by (auto simp: wf_db_def links_ok_def)
  with t have "o_table q = o_table r" by (simp add: current_of_def)
  with assms(1,2) q(1) have "q = r" by (auto simp: wf_db_def keys_ok_def dest: distinct_key_eq)
  with q(2) assms(3) show False by (simp add: current_of_def)
qed

lemma occupyTableInTx_wf:
  assumes wf: "wf_db s" and run: "occupyTableInTx e arg c s = Inr (res, s')"
  shows "wf_db s'"
proof -
  from wf have keys: "keys_ok s" by (simp add: wf_db_def)
  from run keys obtain r where r: "r \<in> set (table_occupancy s)" "o_table r = op_TableID arg"
      "o_org r = op_OrganisationID arg" "o_loc r = op_LocationID arg" "o_status r = TableStatusAvailable"
    and occ: "r_Occupancy res = r\<lparr>o_status := TableStatusOccupied, o_current_session := Some (gen e 0),
           o_version := op_ExpectedVersion arg + 1, o_updated_by := nullableText (op_ActorRef arg), o_updated_at := now e\<rparr>"
    and ses: "r_Session res = \<lparr>s_id = gen e 0, s_org = op_OrganisationID arg, s_loc = op_LocationID arg,
           s_table = op_TableID arg, s_started_at = now e, s_ended_at = None, s_party_size = op_PartySize arg,
           s_opened_by = nullableText (op_ActorRef arg), s_closed_by = None, s_source = op_Source arg,
           s_created_at = now e, s_updated_at = now e\<rparr>"
    and chk: "sessionCheck (r_Session res) = None" "occupancyCheck (r_Occupancy res) = None"
    and fresh: "gen e 0 \<notin> s_id ` set (table_sessions s)"
    and s': "s' = set_seat (s\<lparr>table_sessions := table_sessions s @ [r_Session res]\<rparr>) (op_TableID arg) (r_Occupancy res)"
    by (rule occupyTableInTx_InrE)
  let ?s1 = "s\<lparr>table_sessions := table_sessions s @ [r_Session res]\<rparr>"
  have cur: "o_current_session r = None"
    using wf r(1,5) by (auto simp: wf_db_def checks_ok_def dest!: occupancyCheckD)
  have k: "keys_ok ?s1" using keys fresh by (simp add: keys_ok_def ses)
  then have 1: "keys_ok s'" unfolding s' by (rule set_seat_keys) (simp add: occ r)
  have "checks_ok ?s1" using wf chk by (auto simp: wf_db_def checks_ok_def tableExists_def)
  then have 2: "checks_ok s'" unfolding s'
    by (rule set_seat_checks [where q = r]) (use r occ chk in simp_all)
  have new: "current_of (r_Session res) (r_Occupancy res)" by (simp add: current_of_def occ ses r)
  have self: "r_Occupancy res \<in> set (table_occupancy s')"
    unfolding s' by (rule in_set_seat_self [where y = r]) (simp_all add: r)
  have ses': "table_sessions s' = table_sessions s @ [r_Session res]" by (simp add: s')
  have A: "\<exists>x \<in> set (table_sessions s'). current_of x y"
    if "y \<in> set (table_occupancy s')" "o_current_session y \<noteq> None" for y
    using in_set_seat [OF that(1) [unfolded s']] new wf that(2)
    by (auto simp: ses' wf_db_def links_ok_def)
  have B: "\<exists>y \<in> set (table_occupancy s'). current_of x y"
    if x: "x \<in> set (table_sessions s)" "s_ended_at x = None" for x
  proof -
    from wf x obtain y where y: "y \<in> set (table_occupancy s)" "current_of x y"
      by (auto simp: wf_db_def links_ok_def)
    with no_other_open [OF wf r(1) cur x] r(2) have "o_table y \<noteq> op_TableID arg"
      by (simp add: current_of_def)
    with y show ?thesis unfolding s' by (intro bexI [of _ y] in_set_seat_other) simp_all
  qed
  have 3: "links_ok s'" unfolding links_ok_def using A B new self by (auto simp: ses')
  show ?thesis using 1 2 3 by (simp add: wf_db_def)
qed

lemma close_session_keys:
  "keys_ok s \<Longrightarrow> s_id x' = i \<Longrightarrow>
     keys_ok (s\<lparr>table_sessions := map (\<lambda>y. if s_id y = i then x' else y) (table_sessions s)\<rparr>)"
  by (auto simp: keys_ok_def o_def if_distrib cong: if_cong)

lemma current_session_row:
  assumes "wf_db s" and "r \<in> set (table_occupancy s)" and "o_current_session r = Some (s_id x)"
    and "x \<in> set (table_sessions s)"
  shows "current_of x r"
proof -
  from assms(1-3) obtain z where z: "z \<in> set (table_sessions s)" "current_of z r"
    by (auto simp: wf_db_def links_ok_def)
  with assms(3) have "s_id z = s_id x" by (simp add: current_of_def)
  with assms(1,4) z(1) have "z = x" by (auto simp: wf_db_def keys_ok_def dest: distinct_key_eq)
  with z(2) show ?thesis by simp
qed

lemma clearTableInTx_wf:
  assumes wf: "wf_db s" and run: "clearTableInTx e arg c s = Inr (res, s')"
  shows "wf_db s'"
proof -
  from wf have keys: "keys_ok s" by (simp add: wf_db_def)
  from run keys obtain r x where r: "r \<in> set (table_occupancy s)" "o_table r = cl_TableID arg"
      "o_current_session r = Some (s_id x)"
    and x: "x \<in> set (table_sessions s)"
    and ses: "r_Session res = x\<lparr>s_ended_at := Some (now e), s_closed_by := nullableText (cl_ActorRef arg), s_updated_at := now e\<rparr>"
    and chk: "sessionCheck (r_Session res) = None" "occupancyCheck (r_Occupancy res) = None"
    and occ: "r_Occupancy res = r\<lparr>o_status := TableStatusAvailable, o_current_session := None,
           o_version := cl_ExpectedVersion arg + 1, o_updated_by := nullableText (cl_ActorRef arg), o_updated_at := now e\<rparr>"
    and s': "s' = set_seat (s\<lparr>table_sessions := map (\<lambda>y. if s_id y = s_id x then r_Session res else y) (table_sessions s)\<rparr>)
                (cl_TableID arg) (r_Occupancy res)"
    by (rule clearTableInTx_InrE)
  let ?s1 = "s\<lparr>table_sessions := map (\<lambda>y. if s_id y = s_id x then r_Session res else y) (table_sessions s)\<rparr>"
  have cx: "current_of x r" using wf r(1,3) x by (rule current_session_row)
  have "keys_ok ?s1" using keys by (rule close_session_keys) (simp add: ses)
  then have 1: "keys_ok s'" unfolding s' by (rule set_seat_keys) (simp add: occ r)
  have "checks_ok ?s1" using wf chk by (auto simp: wf_db_def checks_ok_def tableExists_def)
  then have 2: "checks_ok s'" unfolding s'
    by (rule set_seat_checks [where q = r]) (use r occ chk in simp_all)
  have ses': "table_sessions s' = map (\<lambda>y. if s_id y = s_id x then r_Session res else y) (table_sessions s)"
    by (simp add: s')
  have A: "\<exists>z \<in> set (table_sessions s'). current_of z y"
    if y: "y \<in> set (table_occupancy s')" "o_current_session y \<noteq> None" for y
  proof -
    from in_set_seat [OF y(1) [unfolded s']] y(2) have o: "y \<in> set (table_occupancy s)" "o_table y \<noteq> cl_TableID arg"
      by (auto simp: occ)
    with wf y(2) obtain z where z: "z \<in> set (table_sessions s)" "current_of z y"
      by (auto simp: wf_db_def links_ok_def)
    with o cx r have "z \<noteq> x" by (auto simp: current_of_def)
    with keys z x have "s_id z \<noteq> s_id x" by (auto simp: keys_ok_def dest: distinct_key_eq)
    with z show ?thesis by (force simp: ses')
  qed
  have B: "\<exists>y \<in> set (table_occupancy s'). current_of z y"
    if z: "z \<in> set (table_sessions s')" "s_ended_at z = None" for z
  proof -
    from z have zi: "z \<in> set (table_sessions s)" "s_id z \<noteq> s_id x" by (auto simp: ses' ses split: if_splits)
    with wf z(2) obtain y where y: "y \<in> set (table_occupancy s)" "current_of z y"
      by (auto simp: wf_db_def links_ok_def)
    then have "y \<noteq> r" using r(3) zi(2) by (auto simp: current_of_def)
    with keys y r have "o_table y \<noteq> cl_TableID arg" by (auto simp: keys_ok_def dest: distinct_key_eq)
    with y show ?thesis unfolding s' by (intro bexI [of _ y] in_set_seat_other) simp_all
  qed
  have 3: "links_ok s'" unfolding links_ok_def using A B by blast
  show ?thesis using 1 2 3 by (simp add: wf_db_def)
qed

section \<open>Assist rows\<close>

lemma assistCheckD:
  "assistCheck r = None \<Longrightarrow>
     1 \<le> a_version r \<and> a_version r \<le> maxInt32 \<and>
     a_status r \<in> {AssistStatusPending, AssistStatusAcknowledged, AssistStatusResolved, AssistStatusCancelled}"
  by (simp add: assistCheck_def firstViolation_None)

lemma changeAssistRow_InrE:
  assumes "changeAssistRow e c i org loc cond f s = Inr (r', s')"
  obtains r where "r \<in> set (assist_requests s)" and "a_id r = i" and "a_org r = org" and "a_loc r = loc"
    and "cond r" and "r' = f r" and "assistCheck r' = None"
    and "distinct (map a_id (assist_requests s)) \<Longrightarrow>
         s' = s\<lparr>assist_requests := map (\<lambda>y. if a_id y = i then r' else y) (assist_requests s)\<rparr>"
  using assms unfolding changeAssistRow_def
  by (elim map_sum_InrE, clarsimp) (erule updateOne_keyE [where k = a_id and i = i], auto split: if_splits)

text \<open>A change of assist rows that keeps ids and checks keeps the integrity of all operational tables.\<close>

lemma wf_assists:
  assumes "wf_db s" and "distinct (map a_id rs)" and "\<forall>r \<in> set rs. assistCheck r = None"
  shows "wf_db (s\<lparr>assist_requests := rs\<rparr>)"
  using assms by (simp add: wf_db_def keys_ok_def checks_ok_def links_ok_def tableExists_def)

lemma changeAssistRow_wf:
  assumes wf: "wf_db s" and run: "changeAssistRow e c i org loc cond f s = Inr (r', s')"
    and idf: "\<And>r. a_id (f r) = a_id r"
  shows "wf_db s'"
proof -
  from wf have d: "distinct (map a_id (assist_requests s))" by (simp add: wf_db_def keys_ok_def)
  from run obtain r where r: "a_id r = i" "r' = f r" "assistCheck r' = None"
    and s': "s' = s\<lparr>assist_requests := map (\<lambda>y. if a_id y = i then r' else y) (assist_requests s)\<rparr>"
    by (rule changeAssistRow_InrE) (use d in blast)
  have "map a_id (map (\<lambda>y. if a_id y = i then r' else y) (assist_requests s)) = map a_id (assist_requests s)"
    by (simp add: r idf)
  then show ?thesis unfolding s' using wf d r(3)
    by (intro wf_assists) (auto simp: wf_db_def checks_ok_def simp del: map_map)
qed

lemma CreateAssistRequest_Inr:
  assumes "CreateAssistRequest e c i org loc t si rb src note ak s = Inr (r, s')"
  shows "r = \<lparr>a_id = i, a_org = org, a_loc = loc, a_table = t, a_session = si,
               a_status = AssistStatusPending, a_requested_at = now e, a_acknowledged_at = None,
               a_resolved_at = None, a_cancelled_at = None, a_requested_by = rb,
               a_acknowledged_by = None, a_resolved_by = None, a_cancelled_by = None,
               a_source = src, a_note = note, a_version = 1, a_created_at = now e,
               a_updated_at = now e, a_action_key = ak\<rparr>"
    and "s' = s\<lparr>assist_requests := assist_requests s @ [r]\<rparr>"
    and "i \<notin> a_id ` set (assist_requests s)"
    and "assistCheck r = None"
  using assms
  by (auto simp: CreateAssistRequest_def Let_def insertRow_def split: sum.splits option.splits if_splits)

lemma CreateAssistRequest_wf:
  assumes "wf_db s" and "CreateAssistRequest e c i org loc t si rb src note ak s = Inr (r, s')"
  shows "wf_db s'"
proof -
  note c = CreateAssistRequest_Inr [OF assms(2)]
  have "a_id r = i" using c(1) by simp
  with assms(1) c(3,4) show ?thesis unfolding c(2)
    by (intro wf_assists) (auto simp: wf_db_def keys_ok_def checks_ok_def)
qed

lemma changeAssistInTx_wf:
  assumes "wf_db s" and "changeAssistInTx e arg nextStatus c s = Inr (r', s')"
  shows "wf_db s'"
  using assms
  by (auto simp: changeAssistInTx_def tx_iffs assist_update_defs split: if_splits intro: changeAssistRow_wf)

end
