(* ===== verification/Commands.thy ===== *)
theory Commands
  imports TableState
begin

text \<open>
  What running a command gives: the writes of an operational event and its outbox rows, the
  atomicity of the transaction around a command: what a command that answers has written, and that it
  otherwise leaves the database as it was.
\<close>

section \<open>The event of a command\<close>

definition outboxRow :: "env \<Rightarrow> operationalEvent \<Rightarrow> string \<Rightarrow> nat \<Rightarrow> string \<Rightarrow> OutboxRecord" where
  "outboxRow e ev topic k destination =
     \<lparr>x_id = gen e (2 + k), x_org = oe_OrganisationID ev, x_loc = oe_LocationID ev, x_event = gen e 1,
      x_topic = topic, x_payload = Encoded (eventEnvelope e ev), x_status = ''pending'', x_attempts = 0,
      x_available_at = now e, x_locked_at = None, x_locked_by = None, x_processed_at = None,
      x_created_at = now e, x_updated_at = now e, x_destination = destination, x_last_error = None\<rparr>"

fun outboxRows :: "env \<Rightarrow> operationalEvent \<Rightarrow> string \<Rightarrow> nat \<Rightarrow> string list \<Rightarrow> OutboxRecord list" where
  "outboxRows e ev topic k [] = []"
| "outboxRows e ev topic k (d # ds) = outboxRow e ev topic k d # outboxRows e ev topic (Suc k) ds"

lemma map_destination_outboxRows [simp]: "map x_destination (outboxRows e ev topic k ds) = ds"
  by (induction ds arbitrary: k) (simp_all add: outboxRow_def)

lemma length_outboxRows [simp]: "length (outboxRows e ev topic k ds) = length ds"
  by (induction ds arbitrary: k) simp_all

lemma outboxRows_shape:
  "x \<in> set (outboxRows e ev topic k ds) \<Longrightarrow>
     x_event x = gen e 1 \<and> x_payload x = Encoded (eventEnvelope e ev) \<and> x_status x = ''pending'' \<and>
     x_attempts x = 0 \<and> x_topic x = topic \<and> x_org x = oe_OrganisationID ev \<and> x_loc x = oe_LocationID ev"
  by (induction ds arbitrary: k) (auto simp: outboxRow_def)

lemma insertOutboxRecord_Inr:
  assumes "insertOutboxRecord e c i org loc evid topic d body s = Inr (u, s')"
  shows "\<exists>r. s' = s\<lparr>outbox_records := outbox_records s @ [r]\<rparr> \<and>
     r = \<lparr>x_id = i, x_org = org, x_loc = loc, x_event = evid, x_topic = topic,
               x_payload = body, x_status = ''pending'', x_attempts = 0, x_available_at = now e,
               x_locked_at = None, x_locked_by = None, x_processed_at = None, x_created_at = now e,
               x_updated_at = now e, x_destination = d, x_last_error = None\<rparr> \<and>
     evid \<in> e_id ` set (operational_events s) \<and> i \<notin> x_id ` set (outbox_records s)"
  using assms
  by (auto simp: insertOutboxRecord_def Let_def insertRow_def firstViolation_None split: sum.splits option.splits if_splits)

lemma writeOutbox_Inr:
  assumes "writeOutbox e c ev (gen e 1) topic (Encoded (eventEnvelope e ev)) k ds s = Inr (u, s')"
  shows "s' = s\<lparr>outbox_records := outbox_records s @ outboxRows e ev topic k ds\<rparr>"
  using assms
proof (induction ds arbitrary: k s)
  case Nil
  then show ?case by simp
next
  case (Cons d ds)
  then show ?case
    by (fastforce simp: tx_iffs outboxRow_def dest!: insertOutboxRecord_Inr)
qed

text \<open>The topic and the destinations after their defaults.\<close>

definition eventTopic :: "operationalEvent \<Rightarrow> string" where
  "eventTopic ev = (if oe_Topic ev = '''' then oe_EntityType ev else oe_Topic ev)"

definition eventDestinations :: "operationalEvent \<Rightarrow> string list" where
  "eventDestinations ev = (if oe_Destinations ev = [] then [eventTopic ev] else oe_Destinations ev)"

definition with_event :: "env \<Rightarrow> operationalEvent \<Rightarrow> db \<Rightarrow> db" where
  "with_event e ev s =
     s\<lparr>operational_events := operational_events s @ [eventRow e ev],
       outbox_records := outbox_records s @ outboxRows e ev (eventTopic ev) 0 (eventDestinations ev)\<rparr>"

lemma insertOperationalEvent_Inr:
  assumes "insertOperationalEvent e c r s = Inr (u, s')"
  shows "s' = s\<lparr>operational_events := operational_events s @ [r]\<rparr> \<and> e_id r \<notin> e_id ` set (operational_events s)"
  using assms
  by (auto simp: insertOperationalEvent_def insertRow_def split: sum.splits option.splits if_splits)

lemma writeOperationalEvent_alt:
  "writeOperationalEvent e c ev =
     txBind (runQuery e ''writing operational event'' None (insertOperationalEvent e c (eventRow e ev)))
       (\<lambda>_. writeOutbox e c ev (gen e 1) (eventTopic ev) (Encoded (eventEnvelope e ev)) 0 (eventDestinations ev))"
  by (simp only: writeOperationalEvent_def Let_def eventTopic_def eventDestinations_def)

lemma writeOperationalEvent_Inr:
  assumes "writeOperationalEvent e c ev s = Inr (u, s')"
  shows "s' = with_event e ev s" and "gen e 1 \<notin> e_id ` set (operational_events s)"
proof -
  from assms obtain s1 where
    ins: "insertOperationalEvent e c (eventRow e ev) s = Inr ((), s1)"
    and wo: "writeOutbox e c ev (gen e 1) (eventTopic ev) (Encoded (eventEnvelope e ev)) 0 (eventDestinations ev) s1 = Inr (u, s')"
    unfolding writeOperationalEvent_alt txBind_Inr_iff runQuery_Inr by (auto simp del: One_nat_def)
  from insertOperationalEvent_Inr [OF ins] writeOutbox_Inr [OF wo]
  show "s' = with_event e ev s" and "gen e 1 \<notin> e_id ` set (operational_events s)"
    by (simp_all add: with_event_def eventRow_def)
qed

text \<open>The identifiers of the new rows are new.\<close>

definition eventFresh :: "env \<Rightarrow> operationalEvent \<Rightarrow> db \<Rightarrow> bool" where
  "eventFresh e ev s \<longleftrightarrow>
     gen e 1 \<notin> e_id ` set (operational_events s) \<and>
     (distinct (map x_id (outbox_records s)) \<longrightarrow> distinct (map x_id (outbox_records (with_event e ev s))))"

lemma writeOutbox_ids:
  assumes "writeOutbox e c ev eventID topic body k ds s = Inr (u, s')" and "distinct (map x_id (outbox_records s))"
  shows "distinct (map x_id (outbox_records s'))"
  using assms
proof (induction ds arbitrary: k s)
  case Nil
  then show ?case by simp
next
  case (Cons d ds)
  then show ?case by (fastforce simp: tx_iffs dest!: insertOutboxRecord_Inr)
qed

lemma writeOperationalEvent_fresh:
  assumes "writeOperationalEvent e c ev s = Inr (u, s')"
  shows "eventFresh e ev s"
proof -
  from assms obtain s1 where
    ins: "insertOperationalEvent e c (eventRow e ev) s = Inr ((), s1)"
    and wo: "writeOutbox e c ev (gen e 1) (eventTopic ev) (Encoded (eventEnvelope e ev)) 0 (eventDestinations ev) s1 = Inr (u, s')"
    unfolding writeOperationalEvent_alt txBind_Inr_iff runQuery_Inr by (auto simp del: One_nat_def)
  from insertOperationalEvent_Inr [OF ins] have "outbox_records s1 = outbox_records s" by simp
  with writeOutbox_ids [OF wo] writeOperationalEvent_Inr [OF assms] show ?thesis by (simp add: eventFresh_def)
qed

lemma with_event_frame [simp]:
  "tables (with_event e ev s) = tables s"
  "table_occupancy (with_event e ev s) = table_occupancy s"
  "table_sessions (with_event e ev s) = table_sessions s"
  "assist_requests (with_event e ev s) = assist_requests s"
  "api_idempotency_records (with_event e ev s) = api_idempotency_records s"
  "locations (with_event e ev s) = locations s"
  "devices (with_event e ev s) = devices s"
  "table_qr_capabilities (with_event e ev s) = table_qr_capabilities s"
  by (simp_all add: with_event_def)

lemma with_event_core [simp]: "core (with_event e ev s) = core s"
  by (simp add: core_def)

lemma insertIdempotencyRow_Inr:
  assumes "insertIdempotencyRow e c org loc meta status body s = Inr (u, s')"
  obtains stored where "jsonb e body = Some stored"
    and "s' = s\<lparr>api_idempotency_records := api_idempotency_records s @
          [\<lparr>i_command_id = cm_ID meta, i_org = org, i_loc = Some loc,
            i_command_type = cm_Type meta, i_payload_hash = cm_PayloadHash meta,
            i_response_status = status, i_response_body = stored, i_created_at = now e,
            i_expires_at = now e + retentionSeconds meta * 10 ^ 6\<rparr>]\<rparr>"
    and "\<forall>r \<in> set (api_idempotency_records s). \<not> (i_org r = org \<and> i_command_id r = cm_ID meta)"
  using assms
  by (auto simp: insertIdempotencyRow_def Let_def insertRow_def split: sum.splits option.splits if_splits)


section \<open>Outcomes of a command\<close>

text \<open>
  The database after a command is the one before it, or the one its body produced; it is the body's
  only when the body succeeded, no earlier record replayed the command and the COMMIT took effect.
\<close>

definition fresh_command :: "env \<Rightarrow> uuid \<Rightarrow> uuid \<Rightarrow> CommandMeta \<Rightarrow> db \<Rightarrow> bool" where
  "fresh_command e org loc meta s \<longleftrightarrow>
     cm_ID meta = uuid_Nil \<or> getIdempotencyReplay e (tenant_context org loc) org meta s = Inr None"

lemma commitTx_same [simp]: "snd (commitTx e site v s s) = s"
  by (simp add: commitTx_def split: commit_outcome.splits)

lemma runTenantCommand_cases:
  obtains (unchanged) "snd (runTenantCommand e org loc actorRef meta execute after encode s) = s"
  | (body) v s' where "fresh_command e org loc meta s"
      and "commandBody e (tenant_context org loc) org loc actorRef meta execute after encode s = Inr (v, s')"
      and "runTenantCommand e org loc actorRef meta execute after encode s =
             commitTx e ''committing transaction'' v s s'"
proof -
  let ?run = "runTenantCommand e org loc actorRef meta execute after encode s"
  let ?c = "tenant_context org loc"
  let ?replay = "if cm_ID meta \<noteq> uuid_Nil then getIdempotencyReplay e ?c org meta s else Inr None"
  let ?body = "commandBody e ?c org loc actorRef meta execute after encode s"
  consider "fault e ''beginning transaction'' \<or> fault e ''setting tenant context''"
    | err where "?replay = Inl err" | r where "?replay = Inr (Some r)"
    | err where "?replay = Inr None" "?body = Inl err"
    | v s' where "\<not> (fault e ''beginning transaction'' \<or> fault e ''setting tenant context'')"
        "?replay = Inr None" "?body = Inr (v, s')"
    by (metis not_None_eq old.sum.exhaust surj_pair)
  then show thesis
  proof cases
    case 5
    show ?thesis
    proof (rule body)
      show "fresh_command e org loc meta s" using 5(2) by (auto simp: fresh_command_def split: if_splits)
      show "?body = Inr (v, s')" by (rule 5)
      show "?run = commitTx e ''committing transaction'' v s s'"
        using 5 by (simp add: runTenantCommand_def Let_def)
    qed
  qed (rule unchanged, auto simp: runTenantCommand_def Let_def split: if_splits)+
qed

definition encodedResponse :: "('t \<Rightarrow> string + int \<times> string) option \<Rightarrow> 't \<Rightarrow> string + int \<times> string" where
  "encodedResponse encode v = (case encode of None \<Rightarrow> Inr (200, '''') | Some enc \<Rightarrow> enc v)"

definition storedBody :: "CommandMeta \<Rightarrow> string \<Rightarrow> string" where
  "storedBody meta body = (if cm_ID meta \<noteq> uuid_Nil \<and> body = '''' then ''{}'' else body)"

lemma commandBody_InrE:
  assumes "commandBody e c org loc actorRef meta execute after encode s = Inr (v, s')"
  obtains x s1 s2 status body where "execute c s = Inr (x, s1)" and "after c x s1 = Inr ((), s2)"
    and "encodedResponse encode x = Inr (status, body)"
    and "v = (Some x, \<lparr>cr_Replayed = False, cr_Status = status, cr_Body = storedBody meta body\<rparr>)"
    and "cm_ID meta = uuid_Nil \<Longrightarrow> s' = s2"
    and "cm_ID meta \<noteq> uuid_Nil \<Longrightarrow> insertIdempotencyRow e c org loc meta status (storedBody meta body) s2 = Inr ((), s')"
proof -
  from assms obtain x s1 s2 where ex: "execute c s = Inr (x, s1)" and af: "after c x s1 = Inr ((), s2)"
    and rest: "(case encodedResponse encode x of
         Inl msg \<Rightarrow> txFail (Wrapped ''encoding idempotency response'' (OtherError msg))
       | Inr (status, body) \<Rightarrow>
           if cm_ID meta \<noteq> uuid_Nil then
             let stored = (if body = '''' then ''{}'' else body)
             in txBind (insertIdempotencyRecord e c org loc actorRef meta status stored)
                  (\<lambda>_. txReturn (Some x, \<lparr>cr_Replayed = False, cr_Status = status, cr_Body = stored\<rparr>))
           else txReturn (Some x, \<lparr>cr_Replayed = False, cr_Status = status, cr_Body = body\<rparr>)) s2 = Inr (v, s')"
    unfolding commandBody_def txBind_Inr_iff encodedResponse_def by auto
  from rest obtain status body where enc: "encodedResponse encode x = Inr (status, body)"
    by (cases "encodedResponse encode x") auto
  show thesis
  proof (cases "cm_ID meta = uuid_Nil")
    case True
    with rest enc show ?thesis by (intro that [OF ex af enc]) (simp_all add: storedBody_def)
  next
    case False
    with rest enc have "insertIdempotencyRow e c org loc meta status (storedBody meta body) s2 = Inr ((), s')"
      and "v = (Some x, \<lparr>cr_Replayed = False, cr_Status = status, cr_Body = storedBody meta body\<rparr>)"
      by (auto simp: Let_def insertIdempotencyRecord_def txBind_Inr_iff runQuery_Inr storedBody_def simp del: append.simps)
    with False show ?thesis by (intro that [OF ex af enc]) simp_all
  qed
qed

text \<open>An invariant that the body's two parts keep and the idempotency table does not concern is kept.\<close>

lemma runTenantCommand_keeps:
  assumes inv: "I s"
    and ex: "\<And>x s1. execute (tenant_context org loc) s = Inr (x, s1) \<Longrightarrow> I s1"
    and af: "\<And>x s1 s2. I s1 \<Longrightarrow> after (tenant_context org loc) x s1 = Inr ((), s2) \<Longrightarrow> I s2"
    and idem: "\<And>s rs. I s \<Longrightarrow> I (s\<lparr>api_idempotency_records := rs\<rparr>)"
  shows "I (snd (runTenantCommand e org loc actorRef meta execute after encode s))"
proof (cases rule: runTenantCommand_cases [of e org loc actorRef meta execute after encode s])
  case unchanged
  with inv show ?thesis by simp
next
  case (body v s')
  from body(2) have "I s'"
    by (rule commandBody_InrE)
       (metis ex af idem insertIdempotencyRow_Inr)
  then show ?thesis using inv body(3) commitTx_cases [of e "''committing transaction''" v s s'] by metis
qed

lemma inTenantTx_keeps:
  assumes "I s" and "\<And>v s1. fn (tenant_context org loc) s = Inr (v, s1) \<Longrightarrow> I s1"
  shows "I (snd (inTenantTx e org loc fn s))"
  using assms
  by (auto simp: inTenantTx_def commitTx_def split: sum.splits commit_outcome.splits)

lemma wf_idempotency: "wf_db s \<Longrightarrow> wf_db (s\<lparr>api_idempotency_records := rs\<rparr>)"
  by (subst wf_db_core [where s' = s]) (simp_all add: core_def)

lemma wf_with_event: "wf_db s \<Longrightarrow> wf_db (with_event e ev s)"
  by (subst wf_db_core [where s' = s]) simp_all

lemma wf_writeOperationalEvent: "wf_db s \<Longrightarrow> writeOperationalEvent e c ev s = Inr (u, s') \<Longrightarrow> wf_db s'"
  by (auto dest: writeOperationalEvent_Inr(1) wf_with_event)

lemma OccupyTableCommand_wf: "wf_db s \<Longrightarrow> wf_db (snd (OccupyTableCommand e arg encode s))"
  unfolding OccupyTableCommand_def
  by (rule runTenantCommand_keeps [of wf_db])
     (auto intro: occupyTableInTx_wf wf_writeOperationalEvent wf_idempotency)

lemma ClearTableCommand_wf: "wf_db s \<Longrightarrow> wf_db (snd (ClearTableCommand e arg encode s))"
  unfolding ClearTableCommand_def
  by (rule runTenantCommand_keeps [of wf_db])
     (auto intro: clearTableInTx_wf wf_writeOperationalEvent wf_idempotency)

lemma changeAssistCommand_wf: "wf_db s \<Longrightarrow> wf_db (snd (changeAssistCommand e arg nextStatus eventType encode s))"
  unfolding changeAssistCommand_def
  by (rule runTenantCommand_keeps [of wf_db])
     (auto intro: changeAssistInTx_wf wf_writeOperationalEvent wf_idempotency)

lemma RequestAssist_wf: "wf_db s \<Longrightarrow> wf_db (snd (RequestAssist e arg s))"
  unfolding RequestAssist_def
  by (rule inTenantTx_keeps [of wf_db])
     (auto simp: tx_iffs lockTableOccupancy_def intro: CreateAssistRequest_wf wf_writeOperationalEvent)

end
