(* ===== verification/Seats.thy ===== *)
theory Seats
  imports Commands
begin

text \<open>
  The abstract contract of the table commands: a table is a seat, vacant or seated by one session,
  with the version of its last change; occupying and clearing are the two partial functions on it.
  \<open>seatOf\<close> abstracts the database to seats. The bodies of the commands compute exactly what the
  seat functions compute, refusals included, and leave every other seat alone.
\<close>

section \<open>The seat machine\<close>

datatype seat = Vacant int | Seated int uuid

fun occupySeat :: "uuid \<Rightarrow> int \<Rightarrow> uuid \<Rightarrow> seat \<Rightarrow> op_error + seat" where
  "occupySeat t expected i (Seated v j) = Inl ErrAlreadyOccupied"
| "occupySeat t expected i (Vacant v) =
     (if v = expected then Inr (Seated (v + 1) i)
      else Inl (VersionConflictError ''table_occupancy'' t expected v))"

fun clearSeat :: "uuid \<Rightarrow> int \<Rightarrow> seat \<Rightarrow> op_error + seat" where
  "clearSeat t expected (Vacant v) = Inl ErrAlreadyAvailable"
| "clearSeat t expected (Seated v i) =
     (if v = expected then Inr (Vacant (v + 1))
      else Inl (VersionConflictError ''table_occupancy'' t expected v))"

fun seatVersion :: "seat \<Rightarrow> int" where
  "seatVersion (Vacant v) = v"
| "seatVersion (Seated v i) = v"

definition seatOfRow :: "TableOccupancy \<Rightarrow> seat" where
  "seatOfRow r =
     (case o_current_session r of None \<Rightarrow> Vacant (o_version r) | Some i \<Rightarrow> Seated (o_version r) i)"

definition seatOf :: "db \<Rightarrow> uuid \<Rightarrow> seat option" where
  "seatOf s t = map_option seatOfRow (find (\<lambda>r. o_table r = t) (table_occupancy s))"

lemma seatOf_row:
  "keys_ok s \<Longrightarrow> r \<in> set (table_occupancy s) \<Longrightarrow> seatOf s (o_table r) = Some (seatOfRow r)"
  by (simp add: seatOf_def keys_ok_def find_distinct_key [where k = o_table])

lemma seatOf_SomeD:
  "seatOf s t = Some st \<Longrightarrow> \<exists>r \<in> set (table_occupancy s). o_table r = t \<and> st = seatOfRow r"
  by (auto simp: seatOf_def dest: find_SomeD)

lemma find_map_other:
  "(\<And>x. P x \<Longrightarrow> \<not> Q x) \<Longrightarrow> \<not> Q r \<Longrightarrow> find Q (map (\<lambda>x. if P x then r else x) xs) = find Q xs"
  by (induction xs) auto

lemma find_map_self:
  "x \<in> set xs \<Longrightarrow> P x \<Longrightarrow> P r \<Longrightarrow> find P (map (\<lambda>x. if P x then r else x) xs) = Some r"
  by (induction xs) auto

lemma seatOf_set_seat:
  assumes "q \<in> set (table_occupancy s)" and "o_table q = t" and "o_table r = t"
  shows "seatOf (set_seat s t r) = (seatOf s)(t \<mapsto> seatOfRow r)"
proof
  fix t'
  show "seatOf (set_seat s t r) t' = ((seatOf s)(t \<mapsto> seatOfRow r)) t'"
    using assms by (cases "t' = t") (auto simp: seatOf_def set_seat_def find_map_self find_map_other)
qed

lemma seatOf_cong: "table_occupancy s = table_occupancy s' \<Longrightarrow> seatOf s = seatOf s'"
  by (simp add: seatOf_def fun_eq_iff)

lemma seatOfRow_vacant:
  "occupancyCheck r = None \<Longrightarrow> o_status r = TableStatusAvailable \<Longrightarrow> seatOfRow r = Vacant (o_version r)"
  by (auto simp: seatOfRow_def dest!: occupancyCheckD)

lemma seatOfRow_seated:
  "occupancyCheck r = None \<Longrightarrow> o_status r = TableStatusOccupied \<Longrightarrow>
     \<exists>i. seatOfRow r = Seated (o_version r) i \<and> o_current_session r = Some i"
  by (auto simp: seatOfRow_def dest!: occupancyCheckD)


section \<open>Soundness: a success is a step of the seat machine\<close>

lemma wf_row_check: "wf_db s \<Longrightarrow> r \<in> set (table_occupancy s) \<Longrightarrow> occupancyCheck r = None"
  by (simp add: wf_db_def checks_ok_def)

lemma wf_keys: "wf_db s \<Longrightarrow> keys_ok s"
  by (simp add: wf_db_def)

lemma occupyTableInTx_seat:
  assumes wf: "wf_db s" and run: "occupyTableInTx e arg c s = Inr (res, s')"
  shows "seatOf s (op_TableID arg) = Some (Vacant (op_ExpectedVersion arg))"
    and "seatOf s' = (seatOf s)(op_TableID arg \<mapsto> Seated (op_ExpectedVersion arg + 1) (s_id (r_Session res)))"
    and "o_version (r_Occupancy res) = op_ExpectedVersion arg + 1"
    and "o_status (r_Occupancy res) = TableStatusOccupied"
proof -
  note keys = wf_keys [OF wf]
  from run keys obtain r where r: "r \<in> set (table_occupancy s)" "o_table r = op_TableID arg"
      "o_status r = TableStatusAvailable" "o_version r = op_ExpectedVersion arg"
    and occ: "r_Occupancy res = r\<lparr>o_status := TableStatusOccupied, o_current_session := Some (gen e 0),
           o_version := op_ExpectedVersion arg + 1, o_updated_by := nullableText (op_ActorRef arg), o_updated_at := now e\<rparr>"
    and ses: "s_id (r_Session res) = gen e 0"
    and s': "s' = set_seat (s\<lparr>table_sessions := table_sessions s @ [r_Session res]\<rparr>) (op_TableID arg) (r_Occupancy res)"
    by (rule occupyTableInTx_InrE) simp
  show "seatOf s (op_TableID arg) = Some (Vacant (op_ExpectedVersion arg))"
    using seatOf_row [OF keys r(1)] seatOfRow_vacant [OF wf_row_check [OF wf r(1)] r(3)] r by simp
  have "seatOf s' = (seatOf (s\<lparr>table_sessions := table_sessions s @ [r_Session res]\<rparr>))(op_TableID arg \<mapsto> seatOfRow (r_Occupancy res))"
    unfolding s' by (rule seatOf_set_seat [where q = r]) (simp_all add: r occ)
  also have "seatOf (s\<lparr>table_sessions := table_sessions s @ [r_Session res]\<rparr>) = seatOf s"
    by (rule seatOf_cong) simp
  finally show "seatOf s' = (seatOf s)(op_TableID arg \<mapsto> Seated (op_ExpectedVersion arg + 1) (s_id (r_Session res)))"
    by (simp add: seatOfRow_def occ ses fun_upd_def)
  show "o_version (r_Occupancy res) = op_ExpectedVersion arg + 1"
    and "o_status (r_Occupancy res) = TableStatusOccupied" by (simp_all add: occ)
qed

lemma clearTableInTx_seat:
  assumes wf: "wf_db s" and run: "clearTableInTx e arg c s = Inr (res, s')"
  shows "seatOf s (cl_TableID arg) = Some (Seated (cl_ExpectedVersion arg) (s_id (r_Session res)))"
    and "seatOf s' = (seatOf s)(cl_TableID arg \<mapsto> Vacant (cl_ExpectedVersion arg + 1))"
    and "o_version (r_Occupancy res) = cl_ExpectedVersion arg + 1"
    and "s_ended_at (r_Session res) = Some (now e)"
proof -
  note keys = wf_keys [OF wf]
  from run keys obtain r x where r: "r \<in> set (table_occupancy s)" "o_table r = cl_TableID arg"
      "o_version r = cl_ExpectedVersion arg" "o_current_session r = Some (s_id x)"
    and ses: "r_Session res = x\<lparr>s_ended_at := Some (now e), s_closed_by := nullableText (cl_ActorRef arg), s_updated_at := now e\<rparr>"
    and occ: "r_Occupancy res = r\<lparr>o_status := TableStatusAvailable, o_current_session := None,
           o_version := cl_ExpectedVersion arg + 1, o_updated_by := nullableText (cl_ActorRef arg), o_updated_at := now e\<rparr>"
    and s': "s' = set_seat (s\<lparr>table_sessions := map (\<lambda>y. if s_id y = s_id x then r_Session res else y) (table_sessions s)\<rparr>)
                (cl_TableID arg) (r_Occupancy res)"
    by (rule clearTableInTx_InrE)
  show "seatOf s (cl_TableID arg) = Some (Seated (cl_ExpectedVersion arg) (s_id (r_Session res)))"
    using seatOf_row [OF keys r(1)] r by (simp add: seatOfRow_def ses)
  let ?s1 = "s\<lparr>table_sessions := map (\<lambda>y. if s_id y = s_id x then r_Session res else y) (table_sessions s)\<rparr>"
  have "seatOf s' = (seatOf ?s1)(cl_TableID arg \<mapsto> seatOfRow (r_Occupancy res))"
    unfolding s' by (rule seatOf_set_seat [where q = r]) (simp_all add: r occ)
  moreover have "seatOf ?s1 = seatOf s" by (rule seatOf_cong) simp
  ultimately show "seatOf s' = (seatOf s)(cl_TableID arg \<mapsto> Vacant (cl_ExpectedVersion arg + 1))"
    by (simp add: seatOfRow_def occ)
  show "o_version (r_Occupancy res) = cl_ExpectedVersion arg + 1"
    and "s_ended_at (r_Session res) = Some (now e)" by (simp_all add: occ ses)
qed


section \<open>Completeness: the bodies compute the seat functions\<close>

text \<open>
  \<open>seatedAt\<close>: the table is live, and its occupancy row belongs to the tenant. \<open>no_faults\<close>: every
  statement reaches the server and is answered.
\<close>

definition no_faults :: "env \<Rightarrow> bool" where
  "no_faults e \<longleftrightarrow> fault e = (\<lambda>site. False)"

lemma no_faultsD [simp]: "no_faults e \<Longrightarrow> \<not> fault e site"
  by (simp add: no_faults_def)

definition tableOf :: "db \<Rightarrow> uuid \<Rightarrow> uuid \<Rightarrow> uuid \<Rightarrow> Table \<Rightarrow> TableOccupancy \<Rightarrow> bool" where
  "tableOf s org loc t x r \<longleftrightarrow>
     x \<in> set (tables s) \<and> t_id x = t \<and> liveTable x \<and>
     r \<in> set (table_occupancy s) \<and> o_table r = t \<and> o_org r = org \<and> o_loc r = loc"

lemma tableOf_tenant:
  assumes "wf_db s" and "tableOf s org loc t x r"
  shows "t_org x = org" and "t_loc x = loc"
proof -
  from assms obtain y where y: "y \<in> set (tables s)" "t_id y = t" "t_org y = org" "t_loc y = loc"
    by (auto simp: wf_db_def checks_ok_def tableExists_def tableOf_def)
  with assms have "y = x" by (auto simp: tableOf_def wf_db_def keys_ok_def dest: distinct_key_eq)
  with y show "t_org x = org" and "t_loc x = loc" by simp_all
qed

lemma lockTableOccupancy_ok:
  assumes wf: "wf_db s" and t: "tableOf s org loc t x r" and "no_faults e"
  shows "lockTableOccupancy e (tenant_context org loc) t org loc s = Inr (r, s)"
proof -
  note tn = tableOf_tenant [OF wf t]
  have "LockTableOccupancy e (tenant_context org loc) t org loc s = Inr r"
    unfolding LockTableOccupancy_def selectOne_Inr
    by (rule find_distinct_key [where k = o_table])
       (use wf t tn in \<open>auto simp: tableOf_def wf_db_def keys_ok_def intro!: bexI [of _ x]\<close>)
  with assms(3) show ?thesis by (simp add: lockTableOccupancy_def)
qed

lemma GetTableState_ok:
  assumes keys: "keys_ok s" and t: "tableOf s org loc t x r" and tn: "t_org x = org" "t_loc x = loc"
  shows "GetTableState e (tenant_context org loc) t org loc s = Inr (x, r)"
proof -
  have d: "distinct (map (\<lambda>(x, r). (t_id x, o_table r)) (List.product (tables s) (table_occupancy s)))"
    using keys by (auto simp: keys_ok_def distinct_map distinct_product inj_on_def)
  show ?thesis unfolding GetTableState_def selectOne_Inr
    by (rule find_distinct_key [OF d]) (use t tn in \<open>auto simp: tableOf_def\<close>)
qed

lemma updateOne_key_ok:
  assumes d: "distinct (map k rs)" and r: "r \<in> set rs" "P r" and key: "\<And>x. P x \<Longrightarrow> k x = k r"
    and ok: "chk (f r) = None"
  shows "updateOne P chk f rs = Inr (f r, map (\<lambda>x. if k x = k r then f r else x) rs)"
proof -
  have "(if P x then f x else x) = (if k x = k r then f r else x)" if "x \<in> set rs" for x
    using distinct_key_eq [OF d that r(1)] r(2) key [of x] by (cases "k x = k r") auto
  moreover have "updateOne P chk f rs = Inr (f r, map (\<lambda>x. if P x then f x else x) rs)"
    using d r key ok by (rule updateOne_unique)
  ultimately show ?thesis by simp
qed

lemma MarkTableOccupied_ok:
  assumes keys: "keys_ok s" and r: "r \<in> set (table_occupancy s)" and st: "o_status r = TableStatusAvailable"
    and fresh: "\<forall>q \<in> set (table_occupancy s). o_current_session q \<noteq> Some i"
    and bounds: "1 \<le> o_version r" "o_version r < maxInt32"
  shows "\<exists>u. MarkTableOccupied e (tenant_context (o_org r) (o_loc r)) (o_table r) (o_org r) (o_loc r) i ub (o_version r) s
           = Inr (u, set_seat s (o_table r) u) \<and> o_table u = o_table r \<and> o_org u = o_org r \<and> o_loc u = o_loc r"
proof -
  let ?f = "\<lambda>r. r\<lparr>o_status := TableStatusOccupied, o_current_session := Some i,
                 o_version := o_version r + 1, o_updated_by := ub, o_updated_at := now e\<rparr>"
  have "occupancyCheck (?f r) = None" using bounds by (simp add: occupancyCheck_def firstViolation_None)
  with keys r st fresh show ?thesis
    by (intro exI [of _ "?f r"], unfold MarkTableOccupied_def, subst updateOne_key_ok [where k = o_table and r = r])
       (auto simp: keys_ok_def set_seat_def)
qed

lemma MarkTableAvailable_ok:
  assumes keys: "keys_ok s" and r: "r \<in> set (table_occupancy s)" and st: "o_status r = TableStatusOccupied"
    and bounds: "1 \<le> o_version r" "o_version r < maxInt32"
  shows "\<exists>u. MarkTableAvailable e (tenant_context (o_org r) (o_loc r)) (o_table r) (o_org r) (o_loc r) ub (o_version r) s
           = Inr (u, set_seat s (o_table r) u) \<and> o_table u = o_table r \<and> o_org u = o_org r \<and> o_loc u = o_loc r"
proof -
  let ?f = "\<lambda>r. r\<lparr>o_status := TableStatusAvailable, o_current_session := None,
                 o_version := o_version r + 1, o_updated_by := ub, o_updated_at := now e\<rparr>"
  have "occupancyCheck (?f r) = None" using bounds by (simp add: occupancyCheck_def firstViolation_None)
  with keys r st show ?thesis
    by (intro exI [of _ "?f r"], unfold MarkTableAvailable_def, subst updateOne_key_ok [where k = o_table and r = r])
       (auto simp: keys_ok_def set_seat_def)
qed

lemma CloseTableSession_ok:
  assumes keys: "keys_ok s" and x: "x \<in> set (table_sessions s)" "s_ended_at x = None" "sessionCheck x = None"
    and time: "s_started_at x \<le> now e"
  shows "\<exists>y. CloseTableSession e (tenant_context (s_org x) (s_loc x)) (s_id x) (s_org x) (s_loc x) cb s
           = Inr (y, s\<lparr>table_sessions := map (\<lambda>z. if s_id z = s_id x then y else z) (table_sessions s)\<rparr>) \<and> s_id y = s_id x"
proof -
  let ?f = "\<lambda>r. r\<lparr>s_ended_at := Some (now e), s_closed_by := cb, s_updated_at := now e\<rparr>"
  have "sessionCheck (?f x) = None" using x(3) time by (simp add: sessionCheck_def firstViolation_None)
  with keys x show ?thesis
    by (intro exI [of _ "?f x"], unfold CloseTableSession_def, subst updateOne_key_ok [where k = s_id and r = x])
       (auto simp: keys_ok_def)
qed

lemma set_seat_tableOf:
  assumes "tableOf s org loc t x r" and "o_table u = t" "o_org u = org" "o_loc u = loc"
  shows "tableOf (set_seat (s\<lparr>table_sessions := xs\<rparr>) t u) org loc t x u"
  using assms by (auto simp: tableOf_def intro!: in_set_seat_self [where y = r])

text \<open>What the server demands of the new session row.\<close>

definition sessionAllowed :: "env \<Rightarrow> OccupyTableParams \<Rightarrow> db \<Rightarrow> bool" where
  "sessionAllowed e arg s \<longleftrightarrow>
     gen e 0 \<notin> s_id ` set (table_sessions s) \<and> op_Source arg \<noteq> '''' \<and>
     (case op_PartySize arg of None \<Rightarrow> True | Some n \<Rightarrow> 0 < n)"

lemma CreateTableSession_ok:
  assumes wf: "wf_db s" and t: "tableOf s (op_OrganisationID arg) (op_LocationID arg) (op_TableID arg) x r"
    and vac: "o_current_session r = None" and new: "sessionAllowed e arg s"
  shows "\<exists>y s1. CreateTableSession e (tenant_context (op_OrganisationID arg) (op_LocationID arg)) (gen e 0)
           (op_OrganisationID arg) (op_LocationID arg) (op_TableID arg) (op_PartySize arg) ob (op_Source arg) s =
           Inr (y, s1) \<and> s_id y = gen e 0 \<and> s1 = s\<lparr>table_sessions := table_sessions s @ [y]\<rparr>"
proof -
  have ex: "tableExists s (op_TableID arg) (op_OrganisationID arg) (op_LocationID arg)"
    using wf t by (auto simp: wf_db_def checks_ok_def tableOf_def)
  have "s_table y \<noteq> op_TableID arg" if "y \<in> set (table_sessions s)" "s_ended_at y = None" for y
    using no_other_open [OF wf _ vac that] t by (simp add: tableOf_def)
  then have "\<forall>y \<in> set (table_sessions s). s_id y \<noteq> gen e 0 \<and> (s_table y = op_TableID arg \<longrightarrow> (\<exists>z. s_ended_at y = Some z))"
    using new by (force simp: sessionAllowed_def image_iff)
  then show ?thesis using new ex
    by (simp add: CreateTableSession_def Let_def insertRow_def sessionAllowed_def sessionCheck_def
        firstViolation.simps split: option.splits)
qed

lemma current_session_known:
  "wf_db s \<Longrightarrow> q \<in> set (table_occupancy s) \<Longrightarrow> o_current_session q = Some i \<Longrightarrow> i \<in> s_id ` set (table_sessions s)"
  by (force simp: wf_db_def links_ok_def current_of_def)

lemma occupyTableInTx_ok:
  assumes wf: "wf_db s" and nf: "no_faults e"
    and t: "tableOf s (op_OrganisationID arg) (op_LocationID arg) (op_TableID arg) x r"
    and seat: "seatOfRow r = Vacant (op_ExpectedVersion arg)"
    and new: "sessionAllowed e arg s" and top: "op_ExpectedVersion arg < maxInt32"
  shows "\<exists>res s'. occupyTableInTx e arg (tenant_context (op_OrganisationID arg) (op_LocationID arg)) s = Inr (res, s')"
proof -
  let ?org = "op_OrganisationID arg" and ?loc = "op_LocationID arg" and ?t = "op_TableID arg"
  let ?c = "tenant_context ?org ?loc"
  have r: "r \<in> set (table_occupancy s)" "o_table r = ?t" "o_org r = ?org" "o_loc r = ?loc"
    using t by (simp_all add: tableOf_def)
  from seat have vac: "o_current_session r = None" "o_version r = op_ExpectedVersion arg"
    by (auto simp: seatOfRow_def split: option.splits)
  with occupancyCheckD [OF wf_row_check [OF wf r(1)]] have st: "o_status r = TableStatusAvailable" by auto
  from CreateTableSession_ok [OF wf t vac(1) new] obtain y s1 where
    cs: "CreateTableSession e ?c (gen e 0) ?org ?loc ?t (op_PartySize arg) (nullableText (op_ActorRef arg)) (op_Source arg) s = Inr (y, s1)"
    and y: "s_id y = gen e 0" and s1: "s1 = s\<lparr>table_sessions := table_sessions s @ [y]\<rparr>" by blast
  have fresh: "o_current_session q \<noteq> Some (gen e 0)" if "q \<in> set (table_occupancy s)" for q
    using current_session_known [OF wf that] new by (auto simp: sessionAllowed_def)
  have k1: "keys_ok s1" using wf new by (simp add: s1 y wf_db_def keys_ok_def sessionAllowed_def)
  then obtain u where mk: "MarkTableOccupied e ?c ?t ?org ?loc (gen e 0) (nullableText (op_ActorRef arg)) (op_ExpectedVersion arg) s1
          = Inr (u, set_seat s1 ?t u)" and u: "o_table u = ?t" "o_org u = ?org" "o_loc u = ?loc"
    using MarkTableOccupied_ok [OF k1, of r "gen e 0" e] r st fresh top vac
      occupancyCheckD [OF wf_row_check [OF wf r(1)]] by (auto simp: s1)
  have "GetTableState e ?c ?t ?org ?loc (set_seat s1 ?t u) = Inr (x, u)"
    by (rule GetTableState_ok) (use k1 u t wf tableOf_tenant [OF wf t] in \<open>simp_all add: set_seat_keys s1 set_seat_tableOf\<close>)
  then show ?thesis
    using lockTableOccupancy_ok [OF wf t nf] st vac nf cs mk y
    by (simp add: occupyTableInTx_def)
qed

lemma clearTableInTx_ok:
  assumes wf: "wf_db s" and nf: "no_faults e"
    and t: "tableOf s (cl_OrganisationID arg) (cl_LocationID arg) (cl_TableID arg) x r"
    and seat: "seatOfRow r = Seated (cl_ExpectedVersion arg) i"
    and time: "\<forall>y \<in> set (table_sessions s). s_started_at y \<le> now e" and top: "cl_ExpectedVersion arg < maxInt32"
  shows "\<exists>res s'. clearTableInTx e arg (tenant_context (cl_OrganisationID arg) (cl_LocationID arg)) s = Inr (res, s')"
proof -
  let ?org = "cl_OrganisationID arg" and ?loc = "cl_LocationID arg" and ?t = "cl_TableID arg"
  let ?c = "tenant_context ?org ?loc"
  have r: "r \<in> set (table_occupancy s)" "o_table r = ?t" "o_org r = ?org" "o_loc r = ?loc"
    using t by (simp_all add: tableOf_def)
  from seat have cur: "o_current_session r = Some i" "o_version r = cl_ExpectedVersion arg"
    by (auto simp: seatOfRow_def split: option.splits)
  with occupancyCheckD [OF wf_row_check [OF wf r(1)]] have st: "o_status r = TableStatusOccupied" by auto
  from wf r(1) cur(1) obtain z where z: "z \<in> set (table_sessions s)" "current_of z r"
    by (auto simp: wf_db_def links_ok_def)
  then have zi: "s_id z = i" "s_org z = ?org" "s_loc z = ?loc" "s_ended_at z = None" "sessionCheck z = None"
    using r cur wf by (auto simp: current_of_def wf_db_def checks_ok_def)
  obtain y s1 where cs: "CloseTableSession e ?c i ?org ?loc (nullableText (cl_ActorRef arg)) s = Inr (y, s1)"
    and y: "s_id y = i" and s1: "s1 = s\<lparr>table_sessions := map (\<lambda>w. if s_id w = i then y else w) (table_sessions s)\<rparr>"
    using CloseTableSession_ok [OF wf_keys [OF wf] z(1) zi(4,5), of e "nullableText (cl_ActorRef arg)"] time z zi by auto
  have k1: "keys_ok s1" unfolding s1 using wf_keys [OF wf] y by (rule close_session_keys)
  then obtain u where mk: "MarkTableAvailable e ?c ?t ?org ?loc (nullableText (cl_ActorRef arg)) (cl_ExpectedVersion arg) s1
          = Inr (u, set_seat s1 ?t u)" and u: "o_table u = ?t" "o_org u = ?org" "o_loc u = ?loc"
    using MarkTableAvailable_ok [OF k1, of r e] r st top cur
      occupancyCheckD [OF wf_row_check [OF wf r(1)]] by (auto simp: s1)
  have "GetTableState e ?c ?t ?org ?loc (set_seat s1 ?t u) = Inr (x, u)"
    by (rule GetTableState_ok) (use k1 u t wf tableOf_tenant [OF wf t] in \<open>simp_all add: set_seat_keys s1 set_seat_tableOf\<close>)
  then show ?thesis
    using lockTableOccupancy_ok [OF wf t nf] st cur nf cs mk
    by (simp add: clearTableInTx_def)
qed


section \<open>The transaction around the bodies\<close>

text \<open>
  What the server demands of the rows a command writes beside the table's own: its event, the three
  outbox rows and the idempotency record. Generated identifiers are not in use, and the response the
  caller encodes is one the record's CHECKs admit.
\<close>

definition eventAllowed :: "env \<Rightarrow> uuid \<Rightarrow> uuid \<Rightarrow> uuid option \<Rightarrow> db \<Rightarrow> bool" where
  "eventAllowed e org loc device s \<longleftrightarrow>
     locationExists s org loc \<and> (case device of None \<Rightarrow> True | Some i \<Rightarrow> i \<in> d_id ` set (devices s)) \<and>
     gen e 1 \<notin> e_id ` set (operational_events s) \<and> distinct [gen e 2, gen e 3, gen e 4] \<and>
     (\<forall>i \<in> {gen e 2, gen e 3, gen e 4}. i \<notin> x_id ` set (outbox_records s))"

definition responseAllowed :: "env \<Rightarrow> CommandMeta \<Rightarrow> ('t \<Rightarrow> string + int \<times> string) option \<Rightarrow> bool" where
  "responseAllowed e meta encode \<longleftrightarrow>
     (\<forall>x. \<exists>status body. encodedResponse encode x = Inr (status, body) \<and> 100 \<le> status \<and> status \<le> 599 \<and>
        jsonb e (storedBody meta body) \<noteq> None \<and> jsonb_object e (storedBody meta body))"

definition metaAllowed :: "CommandMeta \<Rightarrow> bool" where
  "metaAllowed meta \<longleftrightarrow> cm_Type meta \<noteq> '''' \<and> 32 \<le> length (cm_PayloadHash meta) \<and> 0 < retentionSeconds meta"

lemma writeOperationalEvent_ok:
  assumes nf: "no_faults e" and al: "eventAllowed e (oe_OrganisationID ev) (oe_LocationID ev) (oe_DeviceID ev) s"
    and ev: "oe_EventType ev \<noteq> ''''" "oe_EntityType ev \<noteq> ''''" "1 \<le> oe_EntityVersion ev"
      "oe_Topic ev \<noteq> ''''" "oe_Destinations ev = operationDestinations"
  shows "writeOperationalEvent e (tenant_context (oe_OrganisationID ev) (oe_LocationID ev)) ev s = Inr ((), with_event e ev s)"
proof -
  let ?c = "tenant_context (oe_OrganisationID ev) (oe_LocationID ev)"
  have ins: "insertOperationalEvent e ?c (eventRow e ev) s =
      Inr ((), s\<lparr>operational_events := operational_events s @ [eventRow e ev]\<rparr>)"
    using al ev by (auto simp: insertOperationalEvent_def insertRow_def eventRow_def eventAllowed_def eventActorRef_def
        SchemaVersion_def firstViolation.simps image_iff split: option.splits)
  have wo: "\<exists>s'. writeOutbox e ?c ev (gen e 1) (eventTopic ev) b 0 operationDestinations
        (s\<lparr>operational_events := operational_events s @ [eventRow e ev]\<rparr>) = Inr ((), s')" for b
    using al ev nf
    by (auto simp: operationDestinations_def txBind_def runQuery_def insertOutboxRecord_def Let_def insertRow_def
        firstViolation.simps eventAllowed_def eventRow_def eventTopic_def locationExists_def image_iff numeral_3_eq_3 numeral_2_eq_2
        eval_nat_numeral simp del: append_Cons append.simps)
  have "eventDestinations ev = operationDestinations"
    using ev by (simp add: eventDestinations_def operationDestinations_def)
  then obtain s' where run: "writeOperationalEvent e ?c ev s = Inr ((), s')"
    using wo [of "Encoded (eventEnvelope e ev)"] ins nf ev
    by (auto simp: writeOperationalEvent_alt simp del: One_nat_def)
  with writeOperationalEvent_Inr(1) [OF run] show ?thesis by simp
qed

lemma insertIdempotencyRow_ok:
  assumes "metaAllowed meta" and "100 \<le> status" "status \<le> 599" and "jsonb e body \<noteq> None" "jsonb_object e body"
    and "locationExists s org loc"
    and "\<forall>r \<in> set (api_idempotency_records s). \<not> (i_org r = org \<and> i_command_id r = cm_ID meta)"
  shows "\<exists>rs. insertIdempotencyRow e (tenant_context org loc) org loc meta status body s = Inr ((), s\<lparr>api_idempotency_records := rs\<rparr>)"
  using assms
  by (auto simp: insertIdempotencyRow_def metaAllowed_def Let_def insertRow_def firstViolation.simps split: option.splits)

lemma fresh_command_unused:
  assumes "fresh_command e org loc meta s" and "cm_ID meta \<noteq> uuid_Nil"
  shows "\<forall>r \<in> set (api_idempotency_records s). \<not> (i_org r = org \<and> i_command_id r = cm_ID meta)"
  using assms by (auto simp: fresh_command_def getIdempotencyReplay_def find_None_iff split: if_splits option.splits)

lemma runTenantCommand_fresh:
  assumes "fresh_command e org loc meta s" and "no_faults e"
  shows "runTenantCommand e org loc actorRef meta execute after encode s =
           (case commandBody e (tenant_context org loc) org loc actorRef meta execute after encode s of
              Inl err \<Rightarrow> (Inl (rollback e err), s)
            | Inr (v, s') \<Rightarrow> commitTx e ''committing transaction'' v s s')"
  using assms by (auto simp: runTenantCommand_def fresh_command_def Let_def)

lemma runTenantCommand_refuses:
  assumes "fresh_command e org loc meta s" and "no_faults e" and "execute (tenant_context org loc) s = Inl err"
  shows "runTenantCommand e org loc actorRef meta execute after encode s = (Inl err, s)"
  using assms by (simp add: runTenantCommand_fresh commandBody_def rollback_def)

lemma runTenantCommand_succeeds:
  assumes fr: "fresh_command e org loc meta s" and nf: "no_faults e" and cm: "commit e = Committed"
    and ex: "execute (tenant_context org loc) s = Inr (x, s1)"
    and af: "after (tenant_context org loc) x s1 = Inr ((), s2)"
    and same: "api_idempotency_records s2 = api_idempotency_records s" and loc: "locationExists s2 org loc"
    and resp: "responseAllowed e meta encode" and meta: "metaAllowed meta" and wf: "wf_db s2"
  shows "\<exists>rep rs. runTenantCommand e org loc actorRef meta execute after encode s =
           (Inr (Some x, rep), s2\<lparr>api_idempotency_records := rs\<rparr>) \<and> \<not> cr_Replayed rep"
proof -
  from resp obtain status body where enc: "encodedResponse encode x = Inr (status, body)"
    and ok: "100 \<le> status" "status \<le> 599" "jsonb e (storedBody meta body) \<noteq> None" "jsonb_object e (storedBody meta body)"
    unfolding responseAllowed_def by blast
  obtain rs where body: "commandBody e (tenant_context org loc) org loc actorRef meta execute after encode s =
      Inr ((Some x, \<lparr>cr_Replayed = False, cr_Status = status, cr_Body = storedBody meta body\<rparr>), s2\<lparr>api_idempotency_records := rs\<rparr>)"
  proof (cases "cm_ID meta = uuid_Nil")
    case True
    with ex af enc show ?thesis
      by (intro that [of "api_idempotency_records s2"]) (simp add: commandBody_def encodedResponse_def storedBody_def)
  next
    case False
    with fresh_command_unused [OF fr] insertIdempotencyRow_ok [OF meta ok loc] same obtain rs where
      "insertIdempotencyRow e (tenant_context org loc) org loc meta status (storedBody meta body) s2 = Inr ((), s2\<lparr>api_idempotency_records := rs\<rparr>)"
      by auto
    with nf have "insertIdempotencyRecord e (tenant_context org loc) org loc actorRef meta status (storedBody meta body) s2 =
        Inr ((), s2\<lparr>api_idempotency_records := rs\<rparr>)"
      unfolding insertIdempotencyRecord_def by (intro runQuery_ok) simp_all
    with ex af enc False show ?thesis
      by (intro that [of rs]) (auto simp: commandBody_def encodedResponse_def storedBody_def Let_def)
  qed
  from wf have "deferredConstraints (s2\<lparr>api_idempotency_records := rs\<rparr>)"
    by (intro wf_deferred wf_idempotency)
  with body cm nf fr show ?thesis by (auto simp: runTenantCommand_fresh commitTx_def)
qed


text \<open>
  Everything a table command needs beside the seat itself: the tenant's live table, a world that
  answers, and rows the server accepts.
\<close>

definition occupyAllowed :: "env \<Rightarrow> OccupyTableParams \<Rightarrow> (TableResult \<Rightarrow> string + int \<times> string) option \<Rightarrow> db \<Rightarrow> bool" where
  "occupyAllowed e arg encode s \<longleftrightarrow>
     no_faults e \<and> commit e = Committed \<and> op_ExpectedVersion arg < maxInt32 \<and>
     fresh_command e (op_OrganisationID arg) (op_LocationID arg) (op_Command arg) s \<and>
     (\<exists>x r. tableOf s (op_OrganisationID arg) (op_LocationID arg) (op_TableID arg) x r) \<and>
     sessionAllowed e arg s \<and>
     eventAllowed e (op_OrganisationID arg) (op_LocationID arg) (cm_DeviceID (op_Command arg)) s \<and>
     metaAllowed (op_Command arg) \<and> responseAllowed e (op_Command arg) encode"

definition clearAllowed :: "env \<Rightarrow> ClearTableParams \<Rightarrow> (TableResult \<Rightarrow> string + int \<times> string) option \<Rightarrow> db \<Rightarrow> bool" where
  "clearAllowed e arg encode s \<longleftrightarrow>
     no_faults e \<and> commit e = Committed \<and> cl_ExpectedVersion arg < maxInt32 \<and>
     fresh_command e (cl_OrganisationID arg) (cl_LocationID arg) (cl_Command arg) s \<and>
     (\<exists>x r. tableOf s (cl_OrganisationID arg) (cl_LocationID arg) (cl_TableID arg) x r) \<and>
     (\<forall>y \<in> set (table_sessions s). s_started_at y \<le> now e) \<and>
     eventAllowed e (cl_OrganisationID arg) (cl_LocationID arg) (cm_DeviceID (cl_Command arg)) s \<and>
     metaAllowed (cl_Command arg) \<and> responseAllowed e (cl_Command arg) encode"

lemma seatOfRow_cases:
  assumes "occupancyCheck r = None"
  obtains (vacant) "seatOfRow r = Vacant (o_version r)" "o_status r = TableStatusAvailable"
  | (seated) i where "seatOfRow r = Seated (o_version r) i" "o_status r = TableStatusOccupied"
  using occupancyCheckD [OF assms] by (auto simp: seatOfRow_def)

lemma occupyTableInTx_refused:
  assumes wf: "wf_db s" and nf: "no_faults e"
    and t: "tableOf s (op_OrganisationID arg) (op_LocationID arg) (op_TableID arg) x r"
    and seat: "occupySeat (op_TableID arg) (op_ExpectedVersion arg) i (seatOfRow r) = Inl err"
  shows "occupyTableInTx e arg (tenant_context (op_OrganisationID arg) (op_LocationID arg)) s = Inl (Err err)"
proof -
  have "occupancyCheck r = None" using wf t by (simp add: wf_row_check tableOf_def)
  then show ?thesis
    by (cases rule: seatOfRow_cases)
       (use lockTableOccupancy_ok [OF wf t nf] seat in \<open>auto simp: occupyTableInTx_def split: if_splits\<close>)
qed

lemma clearTableInTx_refused:
  assumes wf: "wf_db s" and nf: "no_faults e"
    and t: "tableOf s (cl_OrganisationID arg) (cl_LocationID arg) (cl_TableID arg) x r"
    and seat: "clearSeat (cl_TableID arg) (cl_ExpectedVersion arg) (seatOfRow r) = Inl err"
  shows "clearTableInTx e arg (tenant_context (cl_OrganisationID arg) (cl_LocationID arg)) s = Inl (Err err)"
proof -
  have "occupancyCheck r = None" using wf t by (simp add: wf_row_check tableOf_def)
  then show ?thesis
    by (cases rule: seatOfRow_cases)
       (use lockTableOccupancy_ok [OF wf t nf] seat in \<open>auto simp: clearTableInTx_def split: if_splits\<close>)
qed

text \<open>The bodies change neither the locations, devices, events and outbox nor the idempotency records.\<close>

definition outer :: "db \<Rightarrow> Location list \<times> Device list \<times> OperationalEvent list \<times> OutboxRecord list \<times> ApiIdempotencyRecord list" where
  "outer s = (locations s, devices s, operational_events s, outbox_records s, api_idempotency_records s)"

lemma occupyTableInTx_outer:
  "keys_ok s \<Longrightarrow> occupyTableInTx e arg c s = Inr (res, s') \<Longrightarrow> outer s' = outer s"
  by (erule occupyTableInTx_InrE) (auto simp: outer_def)

lemma clearTableInTx_outer:
  "keys_ok s \<Longrightarrow> clearTableInTx e arg c s = Inr (res, s') \<Longrightarrow> outer s' = outer s"
  by (erule clearTableInTx_InrE) (auto simp: outer_def)

lemma eventAllowed_outer: "outer s' = outer s \<Longrightarrow> eventAllowed e org loc d s' = eventAllowed e org loc d s"
  by (simp add: outer_def eventAllowed_def locationExists_def split: option.splits)

lemma seatOf_with_event [simp]: "seatOf (with_event e ev s) = seatOf s"
  by (rule seatOf_cong) simp

lemma seatOf_idempotency [simp]: "seatOf (s\<lparr>api_idempotency_records := rs\<rparr>) = seatOf s"
  by (rule seatOf_cong) simp

lemma tableOf_seat: "wf_db s \<Longrightarrow> tableOf s org loc t x r \<Longrightarrow> seatOf s t = Some (seatOfRow r)"
  using seatOf_row [of s r] by (auto simp: tableOf_def wf_keys)

lemma occupyAllowedE:
  assumes "occupyAllowed e arg encode s"
  obtains x r where "tableOf s (op_OrganisationID arg) (op_LocationID arg) (op_TableID arg) x r"
    and "no_faults e" and "commit e = Committed" and "op_ExpectedVersion arg < maxInt32"
    and "fresh_command e (op_OrganisationID arg) (op_LocationID arg) (op_Command arg) s"
    and "sessionAllowed e arg s"
    and "eventAllowed e (op_OrganisationID arg) (op_LocationID arg) (cm_DeviceID (op_Command arg)) s"
    and "metaAllowed (op_Command arg)" and "responseAllowed e (op_Command arg) encode"
  using assms unfolding occupyAllowed_def by blast

lemma clearAllowedE:
  assumes "clearAllowed e arg encode s"
  obtains x r where "tableOf s (cl_OrganisationID arg) (cl_LocationID arg) (cl_TableID arg) x r"
    and "no_faults e" and "commit e = Committed" and "cl_ExpectedVersion arg < maxInt32"
    and "fresh_command e (cl_OrganisationID arg) (cl_LocationID arg) (cl_Command arg) s"
    and "\<forall>y \<in> set (table_sessions s). s_started_at y \<le> now e"
    and "eventAllowed e (cl_OrganisationID arg) (cl_LocationID arg) (cm_DeviceID (cl_Command arg)) s"
    and "metaAllowed (cl_Command arg)" and "responseAllowed e (cl_Command arg) encode"
  using assms unfolding clearAllowed_def by blast

lemma seat_version_positive:
  "wf_db s \<Longrightarrow> seatOf s t = Some st \<Longrightarrow> 1 \<le> seatVersion st"
  by (auto dest!: seatOf_SomeD wf_row_check occupancyCheckD simp: seatOfRow_def split: option.splits)

lemma occupy_accepted:
  assumes wf: "wf_db s" and ok: "occupyAllowed e arg encode s"
    and seat: "seatOf s (op_TableID arg) = Some (Vacant (op_ExpectedVersion arg))"
  shows "\<exists>res rep s'. OccupyTableCommand e arg encode s = (Inr (Some res, rep), s') \<and>
           seatOf s' = (seatOf s)(op_TableID arg \<mapsto> Seated (op_ExpectedVersion arg + 1) (gen e 0))"
  using ok
proof (rule occupyAllowedE)
  let ?c = "tenant_context (op_OrganisationID arg) (op_LocationID arg)"
  fix x r
  assume t: "tableOf s (op_OrganisationID arg) (op_LocationID arg) (op_TableID arg) x r"
    and nf: "no_faults e" and cm: "commit e = Committed" and top: "op_ExpectedVersion arg < maxInt32"
    and fr: "fresh_command e (op_OrganisationID arg) (op_LocationID arg) (op_Command arg) s"
    and ses: "sessionAllowed e arg s"
    and ev: "eventAllowed e (op_OrganisationID arg) (op_LocationID arg) (cm_DeviceID (op_Command arg)) s"
    and me: "metaAllowed (op_Command arg)" and re: "responseAllowed e (op_Command arg) encode"
  have vac: "seatOfRow r = Vacant (op_ExpectedVersion arg)" using seat tableOf_seat [OF wf t] by simp
  from occupyTableInTx_ok [OF wf nf t vac ses top] obtain res s1 where
    ex: "occupyTableInTx e arg ?c s = Inr (res, s1)" by blast
  note o = occupyTableInTx_outer [OF wf_keys [OF wf] ex] and sx = occupyTableInTx_seat [OF wf ex]
  have id: "s_id (r_Session res) = gen e 0" using ex wf_keys [OF wf] by (rule occupyTableInTx_InrE) simp
  have af: "writeOperationalEvent e ?c (occupyEvent arg res) s1 = Inr ((), with_event e (occupyEvent arg res) s1)"
    using writeOperationalEvent_ok [OF nf, of "occupyEvent arg res" s1] ev sx(3) seat_version_positive [OF wf seat]
    by (simp add: occupyEvent_def eventAllowed_outer [OF o] TypeTableOccupied_def)
  have "\<exists>rep rs. OccupyTableCommand e arg encode s =
      (Inr (Some res, rep), (with_event e (occupyEvent arg res) s1)\<lparr>api_idempotency_records := rs\<rparr>) \<and> \<not> cr_Replayed rep"
    unfolding OccupyTableCommand_def
    by (rule runTenantCommand_succeeds [where execute = "occupyTableInTx e arg" and after = "\<lambda>c result. writeOperationalEvent e c (occupyEvent arg result)",
          OF fr nf cm ex af _ _ re me])
       (use o ev wf_with_event [OF occupyTableInTx_wf [OF wf ex]] in \<open>simp_all add: outer_def eventAllowed_def locationExists_def\<close>)
  then obtain rep rs where "OccupyTableCommand e arg encode s =
      (Inr (Some res, rep), (with_event e (occupyEvent arg res) s1)\<lparr>api_idempotency_records := rs\<rparr>)" by blast
  then show ?thesis using sx(2) id by simp
qed

lemma clear_accepted:
  assumes wf: "wf_db s" and ok: "clearAllowed e arg encode s"
    and seat: "seatOf s (cl_TableID arg) = Some (Seated (cl_ExpectedVersion arg) i)"
  shows "\<exists>res rep s'. ClearTableCommand e arg encode s = (Inr (Some res, rep), s') \<and>
           seatOf s' = (seatOf s)(cl_TableID arg \<mapsto> Vacant (cl_ExpectedVersion arg + 1))"
  using ok
proof (rule clearAllowedE)
  let ?c = "tenant_context (cl_OrganisationID arg) (cl_LocationID arg)"
  fix x r
  assume t: "tableOf s (cl_OrganisationID arg) (cl_LocationID arg) (cl_TableID arg) x r"
    and nf: "no_faults e" and cm: "commit e = Committed" and top: "cl_ExpectedVersion arg < maxInt32"
    and fr: "fresh_command e (cl_OrganisationID arg) (cl_LocationID arg) (cl_Command arg) s"
    and time: "\<forall>y \<in> set (table_sessions s). s_started_at y \<le> now e"
    and ev: "eventAllowed e (cl_OrganisationID arg) (cl_LocationID arg) (cm_DeviceID (cl_Command arg)) s"
    and me: "metaAllowed (cl_Command arg)" and re: "responseAllowed e (cl_Command arg) encode"
  have vac: "seatOfRow r = Seated (cl_ExpectedVersion arg) i" using seat tableOf_seat [OF wf t] by simp
  from clearTableInTx_ok [OF wf nf t vac time top] obtain res s1 where
    ex: "clearTableInTx e arg ?c s = Inr (res, s1)" by blast
  note o = clearTableInTx_outer [OF wf_keys [OF wf] ex] and sx = clearTableInTx_seat [OF wf ex]
  have af: "writeOperationalEvent e ?c (clearEvent arg res) s1 = Inr ((), with_event e (clearEvent arg res) s1)"
    using writeOperationalEvent_ok [OF nf, of "clearEvent arg res" s1] ev sx(3) seat_version_positive [OF wf seat]
    by (simp add: clearEvent_def eventAllowed_outer [OF o] TypeTableCleared_def)
  have "\<exists>rep rs. ClearTableCommand e arg encode s =
      (Inr (Some res, rep), (with_event e (clearEvent arg res) s1)\<lparr>api_idempotency_records := rs\<rparr>) \<and> \<not> cr_Replayed rep"
    unfolding ClearTableCommand_def
    by (rule runTenantCommand_succeeds [where execute = "clearTableInTx e arg" and after = "\<lambda>c result. writeOperationalEvent e c (clearEvent arg result)",
          OF fr nf cm ex af _ _ re me])
       (use o ev wf_with_event [OF clearTableInTx_wf [OF wf ex]] in \<open>simp_all add: outer_def eventAllowed_def locationExists_def\<close>)
  then obtain rep rs where "ClearTableCommand e arg encode s =
      (Inr (Some res, rep), (with_event e (clearEvent arg res) s1)\<lparr>api_idempotency_records := rs\<rparr>)" by blast
  then show ?thesis using sx(2) by simp
qed

lemma occupySeat_Inr:
  "occupySeat t expected i st = Inr st' \<longleftrightarrow> st = Vacant expected \<and> st' = Seated (expected + 1) i"
  by (cases st) auto

lemma clearSeat_Inr:
  "clearSeat t expected st = Inr st' \<longleftrightarrow> (\<exists>i. st = Seated expected i) \<and> st' = Vacant (expected + 1)"
  by (cases st) auto

text \<open>The sample restaurant fulfils the conditions.\<close>

definition sampleSeated :: db where
  "sampleSeated = snd (OccupyTableCommand sampleEnv sampleOccupy None sampleDb)"

lemma sample_no_faults: "no_faults sampleEnv"
  by (simp add: no_faults_def sampleEnv_def)

lemma sample_wf: "wf_db sampleDb"
  by code_simp

lemma sample_seat: "seatOf sampleDb (op_TableID sampleOccupy) = Some (Vacant 1)"
  by code_simp

lemma sample_responseAllowed: "cm_ID meta \<noteq> uuid_Nil \<Longrightarrow> responseAllowed sampleEnv meta None"
  by (simp add: responseAllowed_def encodedResponse_def sampleEnv_def)

lemma sample_occupyAllowed: "occupyAllowed sampleEnv sampleOccupy None sampleDb"
  unfolding occupyAllowed_def
proof (intro conjI)
  show "\<exists>x r. tableOf sampleDb (op_OrganisationID sampleOccupy) (op_LocationID sampleOccupy) (op_TableID sampleOccupy) x r"
    by (rule exI [of _ sampleTable], rule exI [of _ sampleOccupancy]) code_simp
  show "responseAllowed sampleEnv (op_Command sampleOccupy) None" by (rule sample_responseAllowed) code_simp
qed (rule sample_no_faults, code_simp+)

lemma sample_seated_wf: "wf_db sampleSeated"
  unfolding sampleSeated_def by (rule OccupyTableCommand_wf) (rule sample_wf)

lemma sample_seated_seat: "seatOf sampleSeated (cl_TableID sampleClear) = Some (Seated 2 100)"
  by code_simp

lemma sample_clearAllowed: "clearAllowed (sampleEnv\<lparr>gen := (\<lambda>n. 200 + of_nat n)\<rparr>) sampleClear None sampleSeated"
  unfolding clearAllowed_def
proof (intro conjI)
  have "tableOf sampleSeated (cl_OrganisationID sampleClear) (cl_LocationID sampleClear) (cl_TableID sampleClear)
    sampleTable (hd (table_occupancy sampleSeated))" by code_simp
  then show "\<exists>x r. tableOf sampleSeated (cl_OrganisationID sampleClear) (cl_LocationID sampleClear) (cl_TableID sampleClear) x r"
    by blast
  show "responseAllowed (sampleEnv\<lparr>gen := (\<lambda>n. 200 + of_nat n)\<rparr>) (cl_Command sampleClear) None"
    by (simp add: responseAllowed_def encodedResponse_def sampleEnv_def)
qed ((simp add: no_faults_def sampleEnv_def; fail) | code_simp)+

text \<open>
  C1. Refinement of occupying: on a well-formed database, with a world that answers and rows the server
  accepts, \<^verbatim>\<open>OccupyTableCommand\<close> computes exactly the abstract \<open>occupySeat\<close>. When the seat refuses
  (already occupied, or another version) the command returns that very error and changes nothing;
  when the seat accepts, the command succeeds, moves this seat and no other.
\<close>
theorem occupy_refines_seat:
  assumes "wf_db s" and "occupyAllowed e arg encode s" and "seatOf s (op_TableID arg) = Some st"
  shows "case occupySeat (op_TableID arg) (op_ExpectedVersion arg) (gen e 0) st of
           Inl err \<Rightarrow> OccupyTableCommand e arg encode s = (Inl (Err err), s)
         | Inr st' \<Rightarrow> \<exists>res rep s'. OccupyTableCommand e arg encode s = (Inr (Some res, rep), s') \<and>
             seatOf s' = (seatOf s)(op_TableID arg \<mapsto> st')"
proof (cases "occupySeat (op_TableID arg) (op_ExpectedVersion arg) (gen e 0) st")
  case (Inl err)
  from assms(2) show ?thesis
    by (rule occupyAllowedE)
       (use Inl assms tableOf_seat [OF assms(1)] occupyTableInTx_refused [OF assms(1)] in
         \<open>simp add: OccupyTableCommand_def runTenantCommand_refuses\<close>)
next
  case (Inr st')
  with occupy_accepted [OF assms(1,2)] assms(3) show ?thesis by (simp add: occupySeat_Inr)
qed

text \<open>Witness of C1: the sample table accepts four guests.\<close>
theorem occupy_refines_seat_witness:
  "\<exists>res rep s'. OccupyTableCommand sampleEnv sampleOccupy None sampleDb = (Inr (Some res, rep), s') \<and>
     seatOf s' = (seatOf sampleDb)(3 \<mapsto> Seated 2 100)"
  using occupy_refines_seat [OF sample_wf sample_occupyAllowed, of "Vacant 1"]
  by (simp add: sample_seat, simp add: sample_defs)

text \<open>
  Refinement of clearing: under the same conditions \<^verbatim>\<open>ClearTableCommand\<close> computes exactly \<open>clearSeat\<close>:
  the refusals (already available, another version) are the command's errors and change nothing; a
  seated table becomes vacant at the next version, and no other seat moves.
\<close>
theorem clear_refines_seat:
  assumes "wf_db s" and "clearAllowed e arg encode s" and "seatOf s (cl_TableID arg) = Some st"
  shows "case clearSeat (cl_TableID arg) (cl_ExpectedVersion arg) st of
           Inl err \<Rightarrow> ClearTableCommand e arg encode s = (Inl (Err err), s)
         | Inr st' \<Rightarrow> \<exists>res rep s'. ClearTableCommand e arg encode s = (Inr (Some res, rep), s') \<and>
             seatOf s' = (seatOf s)(cl_TableID arg \<mapsto> st')"
proof (cases "clearSeat (cl_TableID arg) (cl_ExpectedVersion arg) st")
  case (Inl err)
  from assms(2) show ?thesis
    by (rule clearAllowedE)
       (use Inl assms tableOf_seat [OF assms(1)] clearTableInTx_refused [OF assms(1)] in
         \<open>simp add: ClearTableCommand_def runTenantCommand_refuses\<close>)
next
  case (Inr st')
  with clear_accepted [OF assms(1,2)] assms(3) show ?thesis by (auto simp: clearSeat_Inr)
qed

text \<open>Example: the seated sample table is cleared.\<close>
theorem clear_refines_seat_witness:
  "\<exists>res rep s'. ClearTableCommand (sampleEnv\<lparr>gen := (\<lambda>n. 200 + of_nat n)\<rparr>) sampleClear None sampleSeated = (Inr (Some res, rep), s') \<and>
     seatOf s' = (seatOf sampleSeated)(3 \<mapsto> Vacant 3)"
  using clear_refines_seat [OF sample_seated_wf sample_clearAllowed, of "Seated 2 100"]
  by (simp add: sample_seated_seat, simp add: sample_defs)

end
