(* ===== verification/Retry.thy ===== *)
theory Retry
  imports Seats
begin

text \<open>
  What a client that retries a command may rely on. The locale \<open>retried_command\<close> is the contract of a
  command with an idempotency key: an error leaves the database alone unless the COMMIT was lost, an
  effect comes with its record, and a recorded command is inert. Its client lemmas say that any
  number of attempts, under any faults, take effect at most once, and that a later attempt answers
  what the first one answered. \<^verbatim>\<open>runTenantCommand\<close> fulfils the contract for every body, so every
  command of the service does.
\<close>

section \<open>The contract\<close>

definition recordOf :: "uuid \<Rightarrow> CommandMeta \<Rightarrow> db \<Rightarrow> ApiIdempotencyRecord option" where
  "recordOf org meta s =
     find (\<lambda>r. i_org r = org \<and> i_command_id r = cm_ID meta) (api_idempotency_records s)"

definition sameRequest :: "CommandMeta \<Rightarrow> ApiIdempotencyRecord \<Rightarrow> bool" where
  "sameRequest meta r \<longleftrightarrow> i_command_type r = cm_Type meta \<and> i_payload_hash r = cm_PayloadHash meta"

definition replayOf :: "ApiIdempotencyRecord \<Rightarrow> CommandReplay" where
  "replayOf r = \<lparr>cr_Replayed = True, cr_Status = i_response_status r, cr_Body = i_response_body r\<rparr>"

definition quiet :: "env \<Rightarrow> bool" where
  "quiet e \<longleftrightarrow> no_faults e \<and> commit e = Committed"

text \<open>The database after a sequence of attempts, each in its own world.\<close>

fun attempts :: "(env \<Rightarrow> db \<Rightarrow> 'r \<times> db) \<Rightarrow> env list \<Rightarrow> db \<Rightarrow> db" where
  "attempts run [] s = s"
| "attempts run (e # es) s = attempts run es (snd (run e s))"

locale retried_command =
  fixes run :: "env \<Rightarrow> db \<Rightarrow> ('t option \<times> CommandReplay) op_result" and org :: uuid and meta :: CommandMeta
  assumes error_atomic: "fst (run e s) = Inl err \<Longrightarrow> commit e \<noteq> CommitUnacked \<Longrightarrow> snd (run e s) = s"
    and effect_recorded:
      "cm_ID meta \<noteq> uuid_Nil \<Longrightarrow> snd (run e s) \<noteq> s \<Longrightarrow>
         \<exists>r. recordOf org meta (snd (run e s)) = Some r \<and> sameRequest meta r"
    and answer_recorded:
      "cm_ID meta \<noteq> uuid_Nil \<Longrightarrow> run e s = (Inr (Some x, rep), s') \<Longrightarrow>
         \<exists>r. recordOf org meta s' = Some r \<and> sameRequest meta r \<and> i_response_status r = cr_Status rep \<and>
             jsonb e (cr_Body rep) = Some (i_response_body r)"
    and recorded_inert:
      "cm_ID meta \<noteq> uuid_Nil \<Longrightarrow> recordOf org meta s \<noteq> None \<Longrightarrow> snd (run e s) = s"
    and recorded_answer:
      "cm_ID meta \<noteq> uuid_Nil \<Longrightarrow> recordOf org meta s = Some r \<Longrightarrow> sameRequest meta r \<Longrightarrow> quiet e \<Longrightarrow>
         deferredConstraints s \<Longrightarrow> run e s = (Inr (None, replayOf r), s)"
    and other_request:
      "cm_ID meta \<noteq> uuid_Nil \<Longrightarrow> recordOf org meta s = Some r \<Longrightarrow> \<not> sameRequest meta r \<Longrightarrow> no_faults e \<Longrightarrow>
         run e s = (Inl (Err ErrIdempotencyConflict), s)"
begin

lemma attempts_inert:
  assumes "cm_ID meta \<noteq> uuid_Nil" and "recordOf org meta s \<noteq> None"
  shows "attempts run es s = s"
  using assms by (induction es) (simp_all add: recorded_inert)

text \<open>The final state is the initial one, or the state one of the attempts produces from it.\<close>

lemma at_most_once:
  assumes "cm_ID meta \<noteq> uuid_Nil"
  shows "attempts run es s = s \<or> (\<exists>e \<in> set es. attempts run es s = snd (run e s))"
proof (induction es)
  case (Cons e es)
  show ?case
  proof (cases "snd (run e s) = s")
    case False
    with assms effect_recorded have "recordOf org meta (snd (run e s)) \<noteq> None" by blast
    with assms show ?thesis by (simp add: attempts_inert)
  qed (use Cons in auto)
qed simp

lemma answer_replayed:
  assumes "cm_ID meta \<noteq> uuid_Nil" and "run e s = (Inr (Some x, rep), s')"
    and "\<And>r. recordOf org meta s' = Some r \<Longrightarrow> recordOf org meta s2 = Some r"
    and "quiet e2" and "deferredConstraints s2"
  shows "\<exists>rep2. run e2 s2 = (Inr (None, rep2), s2) \<and> cr_Replayed rep2 \<and> cr_Status rep2 = cr_Status rep \<and>
           jsonb e (cr_Body rep) = Some (cr_Body rep2)"
  using answer_recorded [OF assms(1,2)] recorded_answer [OF assms(1) _ _ assms(4,5)] assms(3)
  by (fastforce simp: replayOf_def)

text \<open>A lost acknowledgement: the attempt took effect although it reported an error; the retry answers.\<close>

lemma lost_answer_replayed:
  assumes "cm_ID meta \<noteq> uuid_Nil" and "snd (run e s) \<noteq> s" and "quiet e2" and "deferredConstraints (snd (run e s))"
  shows "\<exists>rep. run e2 (snd (run e s)) = (Inr (None, rep), snd (run e s)) \<and> cr_Replayed rep"
  using effect_recorded [OF assms(1,2)] recorded_answer [OF assms(1) _ _ assms(3,4)] by (fastforce simp: replayOf_def)

end


section \<open>The provider\<close>

lemma getIdempotencyReplay_recordOf:
  "getIdempotencyReplay e (tenant_context org loc) org meta s =
     (if fault e ''getting idempotency record'' then Inl (Wrapped ''getting idempotency record'' ConnFailure)
      else case recordOf org meta s of
             None \<Rightarrow> Inr None
           | Some r \<Rightarrow> if sameRequest meta r then Inr (Some (replayOf r)) else Inl (Err ErrIdempotencyConflict))"
proof -
  have "find (\<lambda>r. visible_org e (tenant_context org loc) (i_org r) \<and> i_org r = org \<and> i_command_id r = cm_ID meta)
      (api_idempotency_records s) = recordOf org meta s"
    unfolding recordOf_def by (rule find_cong) auto
  then show ?thesis
    by (auto simp: getIdempotencyReplay_def sameRequest_def replayOf_def split: option.splits)
qed

lemma find_append: "find P (xs @ ys) = (case find P xs of None \<Rightarrow> find P ys | Some x \<Rightarrow> Some x)"
  by (induction xs) auto

lemma recordOf_insert:
  assumes "insertIdempotencyRow e c org loc meta status body s = Inr (u, s')"
  shows "\<exists>r. recordOf org meta s' = Some r \<and> sameRequest meta r \<and> i_response_status r = status \<and>
           jsonb e body = Some (i_response_body r)"
  using assms
proof (rule insertIdempotencyRow_Inr)
  fix stored
  let ?r = "\<lparr>i_command_id = cm_ID meta, i_org = org, i_loc = Some loc,
            i_command_type = cm_Type meta, i_payload_hash = cm_PayloadHash meta,
            i_response_status = status, i_response_body = stored, i_created_at = now e,
            i_expires_at = now e + retentionSeconds meta * 10 ^ 6\<rparr>"
  assume *: "jsonb e body = Some stored" "s' = s\<lparr>api_idempotency_records := api_idempotency_records s @ [?r]\<rparr>"
    "\<forall>r\<in>set (api_idempotency_records s). \<not> (i_org r = org \<and> i_command_id r = cm_ID meta)"
  then have "recordOf org meta s' = Some ?r"
    by (simp add: recordOf_def find_append find_None_iff [THEN iffD2])
  with * show ?thesis by (simp add: sameRequest_def)
qed

lemma runTenantCommand_effect:
  assumes "snd (runTenantCommand e org loc actorRef meta execute after encode s) \<noteq> s"
  obtains v where "commandBody e (tenant_context org loc) org loc actorRef meta execute after encode s =
      Inr (v, snd (runTenantCommand e org loc actorRef meta execute after encode s))"
  using assms
  by (cases rule: runTenantCommand_cases [of e org loc actorRef meta execute after encode s])
     (use commitTx_cases in metis)+

lemma runTenantCommand_answer:
  assumes "runTenantCommand e org loc actorRef meta execute after encode s = (Inr (Some x, rep), s')"
  shows "commandBody e (tenant_context org loc) org loc actorRef meta execute after encode s = Inr ((Some x, rep), s')"
  using assms
  by (auto simp: runTenantCommand_def Let_def commitTx_def split: if_splits sum.splits option.splits commit_outcome.splits)

lemma runTenantCommand_error:
  assumes "fst (runTenantCommand e org loc actorRef meta execute after encode s) = Inl err" and "commit e \<noteq> CommitUnacked"
  shows "snd (runTenantCommand e org loc actorRef meta execute after encode s) = s"
  using assms
  by (cases rule: runTenantCommand_cases [of e org loc actorRef meta execute after encode s])
     (auto simp: commitTx_def split: if_splits commit_outcome.splits)

lemma inTenantTx_error:
  assumes "fst (inTenantTx e org loc fn s) = Inl err" and "commit e \<noteq> CommitUnacked"
  shows "snd (inTenantTx e org loc fn s) = s"
  using assms by (auto simp: inTenantTx_def commitTx_def split: if_splits sum.splits commit_outcome.splits)

lemma runTenantCommand_recorded:
  "cm_ID meta \<noteq> uuid_Nil \<Longrightarrow> recordOf org meta s \<noteq> None \<Longrightarrow>
     snd (runTenantCommand e org loc actorRef meta execute after encode s) = s"
  by (auto simp: runTenantCommand_def Let_def getIdempotencyReplay_recordOf split: option.splits)

lemma commandBody_records:
  assumes "commandBody e c org loc actorRef meta execute after encode s = Inr (v, s')" and "cm_ID meta \<noteq> uuid_Nil"
  shows "\<exists>r. recordOf org meta s' = Some r \<and> sameRequest meta r \<and> i_response_status r = cr_Status (snd v) \<and>
           jsonb e (cr_Body (snd v)) = Some (i_response_body r)"
  using assms(1) by (rule commandBody_InrE) (use assms(2) recordOf_insert in fastforce)

lemma runTenantCommand_retried:
  "retried_command (\<lambda>e. runTenantCommand e org loc actorRef meta (execute e) (after e) (encode e)) org meta"
proof (unfold_locales, goal_cases)
  case (1 e s err)
  then show ?case by (rule runTenantCommand_error)
next
  case (2 e s)
  from 2(2) show ?case by (rule runTenantCommand_effect) (use commandBody_records 2(1) in blast)
next
  case (3 e s x rep s')
  from commandBody_records [OF runTenantCommand_answer [OF 3(2)] 3(1)] show ?case by simp
next
  case (4 s e)
  then show ?case by (rule runTenantCommand_recorded)
next
  case (5 s r e)
  then show ?case
    by (simp add: runTenantCommand_def Let_def getIdempotencyReplay_recordOf quiet_def commitTx_def)
next
  case (6 s r e)
  then show ?case
    by (simp add: runTenantCommand_def Let_def getIdempotencyReplay_recordOf rollback_def)
qed

interpretation tenant: retried_command
  "\<lambda>e. runTenantCommand e org loc actorRef meta (execute e) (after e) (encode e)" org meta
  for org loc actorRef meta execute after encode
  by (rule runTenantCommand_retried)

interpretation occupy: retried_command
  "\<lambda>e. OccupyTableCommand e arg encode" "op_OrganisationID arg" "op_Command arg" for arg encode
  unfolding OccupyTableCommand_def by (rule runTenantCommand_retried)

interpretation clear: retried_command
  "\<lambda>e. ClearTableCommand e arg encode" "cl_OrganisationID arg" "cl_Command arg" for arg encode
  unfolding ClearTableCommand_def by (rule runTenantCommand_retried)

interpretation assist: retried_command
  "\<lambda>e. changeAssistCommand e arg nextStatus eventType encode" "ca_OrganisationID arg" "ca_Command arg"
  for arg nextStatus eventType encode
  unfolding changeAssistCommand_def by (rule runTenantCommand_retried)


section \<open>Retrying a command\<close>

text \<open>
  C2. At most once: however often a command with an idempotency key is attempted, whatever fails on the
  way and whichever COMMITs are lost, the database ends as it was, or as one single attempt leaves it.
\<close>
theorem command_at_most_once:
  assumes "cm_ID meta \<noteq> uuid_Nil"
  shows "attempts (\<lambda>e. runTenantCommand e org loc actorRef meta (execute e) (after e) (encode e)) es s = s \<or>
         (\<exists>e \<in> set es. attempts (\<lambda>e. runTenantCommand e org loc actorRef meta (execute e) (after e) (encode e)) es s =
            snd (runTenantCommand e org loc actorRef meta (execute e) (after e) (encode e) s))"
  using assms by (rule tenant.at_most_once)

text \<open>Witness of C2: a lost acknowledgement followed by a retry seats the sample table once.\<close>
theorem command_at_most_once_witness:
  "let run = \<lambda>e. runTenantCommand e 1 2 ''alice'' (sampleMeta 77) (occupyTableInTx e sampleOccupy)
               (\<lambda>c result. writeOperationalEvent e c (occupyEvent sampleOccupy result)) None;
       es = [sampleEnv\<lparr>commit := CommitUnacked\<rparr>, sampleEnv]
   in (attempts run es sampleDb = sampleDb \<or> (\<exists>e \<in> set es. attempts run es sampleDb = snd (run e sampleDb))) \<and>
      attempts run es sampleDb \<noteq> sampleDb"
  unfolding Let_def
  by (rule conjI, rule command_at_most_once) (code_simp, code_simp)

text \<open>
  A retried command answers what it answered first: after a success, in every later database that
  still holds the record, the retry returns the recorded status and the stored form of the recorded
  body, marked as a replay, and changes nothing.
\<close>
theorem command_answer_replayed:
  assumes "cm_ID meta \<noteq> uuid_Nil"
    and "runTenantCommand e org loc actorRef meta (execute e) (after e) (encode e) s = (Inr (Some x, rep), s')"
    and "api_idempotency_records s2 = api_idempotency_records s' @ rs"
    and "quiet e2" and "deferredConstraints s2"
  shows "\<exists>rep2. runTenantCommand e2 org loc actorRef meta (execute e2) (after e2) (encode e2) s2 = (Inr (None, rep2), s2) \<and>
           cr_Replayed rep2 \<and> cr_Status rep2 = cr_Status rep \<and> jsonb e (cr_Body rep) = Some (cr_Body rep2)"
  by (rule tenant.answer_replayed [where execute = execute and after = after and encode = encode, OF assms(1,2) _ assms(4,5)])
     (simp add: recordOf_def assms(3) find_append)

text \<open>Example: occupying the sample table, then the same command again.\<close>
theorem command_answer_replayed_witness:
  "let run = runTenantCommand sampleEnv 1 2 ''alice'' (sampleMeta 77) (occupyTableInTx sampleEnv sampleOccupy)
               (\<lambda>c result. writeOperationalEvent sampleEnv c (occupyEvent sampleOccupy result)) None
   in \<exists>s'. snd (run sampleDb) = s' \<and> (\<exists>rep2. run s' = (Inr (None, rep2), s') \<and> cr_Replayed rep2)"
proof -
  let ?run = "\<lambda>e. runTenantCommand e 1 2 ''alice'' (sampleMeta 77) (occupyTableInTx e sampleOccupy)
               (\<lambda>c result. writeOperationalEvent e c (occupyEvent sampleOccupy result)) None"
  have "case fst (?run sampleEnv sampleDb) of Inr (Some x, rep) \<Rightarrow> True | _ \<Rightarrow> False" by code_simp
  then obtain x rep where 1: "?run sampleEnv sampleDb = (Inr (Some x, rep), snd (?run sampleEnv sampleDb))"
    by (cases "?run sampleEnv sampleDb") (auto split: sum.splits option.splits)
  have "\<exists>rep2. ?run sampleEnv (snd (?run sampleEnv sampleDb)) = (Inr (None, rep2), snd (?run sampleEnv sampleDb)) \<and>
      cr_Replayed rep2 \<and> cr_Status rep2 = cr_Status rep \<and> jsonb sampleEnv (cr_Body rep) = Some (cr_Body rep2)"
  proof (rule command_answer_replayed [where rs = "[]" and execute = "\<lambda>e. occupyTableInTx e sampleOccupy"
        and after = "\<lambda>e c result. writeOperationalEvent e c (occupyEvent sampleOccupy result)" and encode = "\<lambda>e. None", OF _ 1])
    show "cm_ID (sampleMeta 77) \<noteq> uuid_Nil" by code_simp
    show "quiet sampleEnv" by (simp add: quiet_def no_faults_def sampleEnv_def)
    show "deferredConstraints (snd (?run sampleEnv sampleDb))" by code_simp
  qed simp
  then show ?thesis unfolding Let_def by blast
qed

text \<open>
  The lost acknowledgement: when an attempt took effect, even one that reported an error because its
  COMMIT was not acknowledged, the retry succeeds as a replay and changes nothing more.
\<close>
theorem lost_acknowledgement_replayed:
  assumes "cm_ID meta \<noteq> uuid_Nil"
    and "snd (runTenantCommand e org loc actorRef meta (execute e) (after e) (encode e) s) = s'" and "s' \<noteq> s"
    and "quiet e2" and "deferredConstraints s'"
  shows "\<exists>rep. runTenantCommand e2 org loc actorRef meta (execute e2) (after e2) (encode e2) s' = (Inr (None, rep), s') \<and>
           cr_Replayed rep"
  using tenant.lost_answer_replayed [of meta e org loc actorRef execute after encode s e2] assms by simp

text \<open>Example: the COMMIT of the first attempt is not acknowledged.\<close>
theorem lost_acknowledgement_replayed_witness:
  "let run = \<lambda>e. runTenantCommand e 1 2 ''alice'' (sampleMeta 77) (occupyTableInTx e sampleOccupy)
               (\<lambda>c result. writeOperationalEvent e c (occupyEvent sampleOccupy result)) None;
       s' = snd (run (sampleEnv\<lparr>commit := CommitUnacked\<rparr>) sampleDb)
   in (\<exists>rep. run sampleEnv s' = (Inr (None, rep), s') \<and> cr_Replayed rep)"
  unfolding Let_def
proof (rule lost_acknowledgement_replayed [where execute = "\<lambda>e. occupyTableInTx e sampleOccupy"
        and after = "\<lambda>e c result. writeOperationalEvent e c (occupyEvent sampleOccupy result)" and encode = "\<lambda>e. None", OF _ refl])
  show "cm_ID (sampleMeta 77) \<noteq> uuid_Nil" by code_simp
  show "quiet sampleEnv" by (simp add: quiet_def no_faults_def sampleEnv_def)
qed code_simp+

text \<open>
  A key is bound to its request: while a record with the key exists, a command of another type or
  with another payload hash is refused with \<^verbatim>\<open>ErrIdempotencyConflict\<close> and changes nothing.
\<close>
theorem idempotency_conflict:
  assumes "cm_ID meta \<noteq> uuid_Nil" and "recordOf org meta s = Some r"
    and "i_command_type r \<noteq> cm_Type meta \<or> i_payload_hash r \<noteq> cm_PayloadHash meta" and "no_faults e"
  shows "runTenantCommand e org loc actorRef meta execute after encode s = (Inl (Err ErrIdempotencyConflict), s)"
  by (rule tenant.other_request [OF assms(1,2) _ assms(4)]) (use assms(3) in \<open>simp add: sameRequest_def\<close>)

text \<open>Example: the key of the sample command reused with another payload.\<close>
theorem idempotency_conflict_witness:
  "let run = \<lambda>m. runTenantCommand sampleEnv 1 2 ''alice'' m (occupyTableInTx sampleEnv sampleOccupy)
               (\<lambda>c result. writeOperationalEvent sampleEnv c (occupyEvent sampleOccupy result)) None;
       s' = snd (run (sampleMeta 77) sampleDb)
   in run (sampleMeta 77\<lparr>cm_PayloadHash := replicate 32 1\<rparr>) s' = (Inl (Err ErrIdempotencyConflict), s')"
proof -
  let ?run = "\<lambda>m. runTenantCommand sampleEnv 1 2 ''alice'' m (occupyTableInTx sampleEnv sampleOccupy)
               (\<lambda>c result. writeOperationalEvent sampleEnv c (occupyEvent sampleOccupy result)) None"
  let ?s = "snd (?run (sampleMeta 77) sampleDb)" and ?m = "sampleMeta 77\<lparr>cm_PayloadHash := replicate 32 1\<rparr>"
  have "case recordOf 1 ?m ?s of None \<Rightarrow> False | Some r \<Rightarrow> i_payload_hash r \<noteq> cm_PayloadHash ?m" by code_simp
  then obtain r where r: "recordOf 1 ?m ?s = Some r" "i_payload_hash r \<noteq> cm_PayloadHash ?m"
    by (auto split: option.splits)
  have "?run ?m ?s = (Inl (Err ErrIdempotencyConflict), ?s)"
  proof (rule idempotency_conflict [OF _ r(1)])
    show "cm_ID ?m \<noteq> uuid_Nil" by code_simp
    show "no_faults sampleEnv" by (simp add: no_faults_def sampleEnv_def)
  qed (use r in simp)
  then show ?thesis by (simp only: Let_def)
qed

text \<open>
  Atomicity: a command or a transaction that returns an error has changed nothing, unless its COMMIT
  took effect without being acknowledged.
\<close>
theorem errors_change_nothing:
  assumes "commit e \<noteq> CommitUnacked"
  shows "(fst (runTenantCommand e org loc actorRef meta execute after encode s) = Inl err \<longrightarrow>
            snd (runTenantCommand e org loc actorRef meta execute after encode s) = s) \<and>
         (fst (inTenantTx e org loc fn s) = Inl err' \<longrightarrow> snd (inTenantTx e org loc fn s) = s)"
  using runTenantCommand_error [OF _ assms] inTenantTx_error [OF _ assms] by blast

text \<open>Example: the sample table is occupied although another version was expected.\<close>
theorem errors_change_nothing_witness:
  "let run = runTenantCommand sampleEnv 1 2 ''alice'' (sampleMeta 77)
               (occupyTableInTx sampleEnv (sampleOccupy\<lparr>op_ExpectedVersion := 7\<rparr>))
               (\<lambda>c result. writeOperationalEvent sampleEnv c (occupyEvent sampleOccupy result)) None;
       err = Err (VersionConflictError ''table_occupancy'' 3 7 1)
   in fst (run sampleDb) = Inl err \<and> snd (run sampleDb) = sampleDb"
proof -
  let ?run = "runTenantCommand sampleEnv 1 2 ''alice'' (sampleMeta 77)
               (occupyTableInTx sampleEnv (sampleOccupy\<lparr>op_ExpectedVersion := 7\<rparr>))
               (\<lambda>c result. writeOperationalEvent sampleEnv c (occupyEvent sampleOccupy result)) None"
  have 1: "fst (?run sampleDb) = Inl (Err (VersionConflictError ''table_occupancy'' 3 7 1))" by code_simp
  have 2: "commit sampleEnv \<noteq> CommitUnacked" by code_simp
  show ?thesis unfolding Let_def using 1 errors_change_nothing [THEN conjunct1, rule_format, OF 2 1] by blast
qed

end
