(* ===== verification/GuestConfig.thy ===== *)
theory GuestConfig
  imports Store "HOL-Library.List_Lexorder" "HOL-Library.Char_ord" "HOL-Library.Product_Lexorder"
begin

text \<open>
  The guest actions of a location, \<^verbatim>\<open>GuestActionsFromConfig\<close> of \<^verbatim>\<open>internal/domain/operations/guest.go\<close>,
  with what it uses of Go's \<^verbatim>\<open>strings\<close> and \<^verbatim>\<open>encoding/json\<close>: a Go string is a list of bytes,
  \<^verbatim>\<open>strings.TrimSpace\<close> strips the UTF-8 encodings of the white-space runes, and \<^verbatim>\<open>json.Unmarshal\<close> with its
  error ignored keeps every field it could decode.
\<close>

section \<open>Strings\<close>

definition whiteSpace :: "string list" where
  "whiteSpace =
     [[CHR 0x09], [CHR 0x0A], [CHR 0x0B], [CHR 0x0C], [CHR 0x0D], [CHR 0x20],
      [CHR 0xC2, CHR 0x85], [CHR 0xC2, CHR 0xA0], [CHR 0xE1, CHR 0x9A, CHR 0x80],
      [CHR 0xE2, CHR 0x80, CHR 0x80], [CHR 0xE2, CHR 0x80, CHR 0x81], [CHR 0xE2, CHR 0x80, CHR 0x82],
      [CHR 0xE2, CHR 0x80, CHR 0x83], [CHR 0xE2, CHR 0x80, CHR 0x84], [CHR 0xE2, CHR 0x80, CHR 0x85],
      [CHR 0xE2, CHR 0x80, CHR 0x86], [CHR 0xE2, CHR 0x80, CHR 0x87], [CHR 0xE2, CHR 0x80, CHR 0x88],
      [CHR 0xE2, CHR 0x80, CHR 0x89], [CHR 0xE2, CHR 0x80, CHR 0x8A], [CHR 0xE2, CHR 0x80, CHR 0xA8],
      [CHR 0xE2, CHR 0x80, CHR 0xA9], [CHR 0xE2, CHR 0x80, CHR 0xAF], [CHR 0xE2, CHR 0x81, CHR 0x9F],
      [CHR 0xE3, CHR 0x80, CHR 0x80]]"

text \<open>Strip, from the front, the words of \<open>ws\<close> as long as one is a prefix.\<close>

function trimBy :: "string list \<Rightarrow> string \<Rightarrow> string" where
  "trimBy ws s =
     (case find (\<lambda>w. w \<noteq> [] \<and> take (length w) s = w) ws of
        None \<Rightarrow> s
      | Some w \<Rightarrow> trimBy ws (drop (length w) s))"
  by pat_completeness auto
termination
  by (relation "measure (\<lambda>(ws, s). length s)") (auto dest!: find_SomeD intro!: diff_less)

definition trimSpace :: "string \<Rightarrow> string" where
  "trimSpace s = rev (trimBy (map rev whiteSpace) (rev (trimBy whiteSpace s)))"

declare trimBy.simps [simp del]

lemma trimBy_fixed: "\<forall>w \<in> set ws. \<not> (w \<noteq> [] \<and> take (length w) s = w) \<Longrightarrow> trimBy ws s = s"
  by (subst trimBy.simps) (simp add: find_None_iff [THEN iffD2])

lemma length_trimBy: "length (trimBy ws s) \<le> length s"
  by (induction ws s rule: trimBy.induct) (subst trimBy.simps, auto split: option.splits)

lemma length_trimSpace: "length (trimSpace s) \<le> length s"
  unfolding trimSpace_def
  using length_trimBy [of whiteSpace s] length_trimBy [of "map rev whiteSpace" "rev (trimBy whiteSpace s)"] by simp

text \<open>A string whose first and last bytes cannot start or end a white-space rune is not trimmed.\<close>

definition tokenByte :: "char \<Rightarrow> bool" where
  "tokenByte c \<longleftrightarrow> c \<notin> hd ` set whiteSpace \<and> c \<notin> last ` set whiteSpace"

lemma trimSpace_token: "s \<noteq> [] \<Longrightarrow> \<forall>c \<in> set s. tokenByte c \<Longrightarrow> trimSpace s = s"
proof -
  assume ne: "s \<noteq> []" and ok: "\<forall>c \<in> set s. tokenByte c"
  have "\<not> (w \<noteq> [] \<and> take (length w) s = w)" if "w \<in> set whiteSpace" for w
  proof
    assume w: "w \<noteq> [] \<and> take (length w) s = w"
    then have "hd w = hd s" by (metis hd_take length_greater_0_conv)
    with that ne ok show False by (auto simp: tokenByte_def)
  qed
  then have front: "trimBy whiteSpace s = s" by (intro trimBy_fixed) blast
  have "\<not> (w \<noteq> [] \<and> take (length w) (rev s) = w)" if "w \<in> set (map rev whiteSpace)" for w
  proof
    assume w: "w \<noteq> [] \<and> take (length w) (rev s) = w"
    then have "hd w = last s" by (metis hd_take length_greater_0_conv hd_rev)
    with that w ne ok show False by (auto simp: tokenByte_def hd_rev)
  qed
  then have "trimBy (map rev whiteSpace) (rev s) = rev s" by (intro trimBy_fixed) blast
  with front show ?thesis by (simp add: trimSpace_def)
qed

text \<open>\<^verbatim>\<open>uuid.UUID.String()\<close>: 32 hexadecimal digits in groups of 8, 4, 4, 4 and 12.\<close>

definition hexDigit :: "nat \<Rightarrow> char" where
  "hexDigit n = ''0123456789abcdef'' ! (n mod 16)"

definition uuidString :: "uuid \<Rightarrow> string" where
  "uuidString u =
     (let ds = map (\<lambda>i. hexDigit (unat (drop_bit (124 - 4 * i) u) mod 16)) [0..<32]
      in take 8 ds @ ''-'' @ take 4 (drop 8 ds) @ ''-'' @ take 4 (drop 12 ds) @ ''-'' @
         take 4 (drop 16 ds) @ ''-'' @ drop 20 ds)"


section \<open>Decoding the configuration\<close>

text \<open>
  \<^verbatim>\<open>encoding/json\<close> matches an object key with a field exactly or after folding: ASCII letters to upper
  case, the long s to S and the Kelvin sign to K. One fold serves both, as an exact match folds alike.
\<close>

fun foldName :: "string \<Rightarrow> string" where
  "foldName [] = []"
| "foldName (c # cs) =
     (if c = CHR 0xC5 \<and> take 1 cs = [CHR 0xBF] then CHR ''S'' # foldName (drop 1 cs)
      else if c = CHR 0xE2 \<and> take 2 cs = [CHR 0x84, CHR 0xAA] then CHR ''K'' # foldName (drop 2 cs)
      else (if CHR ''a'' \<le> c \<and> c \<le> CHR ''z'' then char_of (of_char c - 32 :: nat) else c) # foldName cs)"

record actionConfig =
  ac_Key :: string
  ac_Label :: string
  ac_SortOrder :: int
  ac_Enabled :: "bool option"

definition zeroAction :: actionConfig where
  "zeroAction = \<lparr>ac_Key = '''', ac_Label = '''', ac_SortOrder = 0, ac_Enabled = None\<rparr>"

definition decodeString :: "string \<Rightarrow> json \<Rightarrow> string" where
  "decodeString old v = (case v of JStr s \<Rightarrow> s | JUuid u \<Rightarrow> uuidString u | _ \<Rightarrow> old)"

definition decodeInt :: "int \<Rightarrow> json \<Rightarrow> int" where
  "decodeInt old v = (case v of JInt i \<Rightarrow> if - (2 ^ 63) \<le> i \<and> i < 2 ^ 63 then i else old | _ \<Rightarrow> old)"

text \<open>A \<^verbatim>\<open>*bool\<close>: null clears it; a value of another type still allocates the pointer, to false.\<close>

definition decodeBoolPtr :: "bool option \<Rightarrow> json \<Rightarrow> bool option" where
  "decodeBoolPtr old v =
     (case v of
        JNull \<Rightarrow> None
      | JBool b \<Rightarrow> Some b
      | _ \<Rightarrow> (case old of None \<Rightarrow> Some False | Some b \<Rightarrow> Some b))"

definition decodeField :: "string \<times> json \<Rightarrow> actionConfig \<Rightarrow> actionConfig" where
  "decodeField kv a =
     (let k = foldName (fst kv); v = snd kv
      in if k = ''KEY'' then a\<lparr>ac_Key := decodeString (ac_Key a) v\<rparr>
         else if k = ''LABEL'' then a\<lparr>ac_Label := decodeString (ac_Label a) v\<rparr>
         else if k = ''SORTORDER'' then a\<lparr>ac_SortOrder := decodeInt (ac_SortOrder a) v\<rparr>
         else if k = ''ENABLED'' then a\<lparr>ac_Enabled := decodeBoolPtr (ac_Enabled a) v\<rparr>
         else a)"

definition decodeItem :: "actionConfig \<Rightarrow> json \<Rightarrow> actionConfig" where
  "decodeItem old v = (case v of JObj fs \<Rightarrow> fold decodeField fs old | _ \<Rightarrow> old)"

text \<open>
  An array decodes element by element into the slice, an element that already exists is decoded
  onto; null makes the slice nil; another value leaves it.
\<close>

definition decodeActions :: "actionConfig list \<Rightarrow> json \<Rightarrow> actionConfig list" where
  "decodeActions old v =
     (case v of
        JNull \<Rightarrow> []
      | JArr xs \<Rightarrow> map (\<lambda>(i, x). decodeItem (if i < length old then old ! i else zeroAction) x) (enumerate 0 xs)
      | _ \<Rightarrow> old)"

definition decodeConfig :: "json \<Rightarrow> actionConfig list" where
  "decodeConfig raw =
     (case raw of
        JObj fs \<Rightarrow> fold (\<lambda>(k, v) old. if foldName k = ''GUESTACTIONS'' then decodeActions old v else old) fs []
      | _ \<Rightarrow> [])"


section \<open>Guest actions\<close>

record GuestAction =
  ga_Key :: string
  ga_Label :: string
  ga_SortOrder :: int
  ga_Enabled :: bool

text \<open>\<^verbatim>\<open>^[a-z][a-z0-9_]{1,63}$\<close>\<close>

definition validGuestActionKey :: "string \<Rightarrow> bool" where
  "validGuestActionKey key \<longleftrightarrow>
     2 \<le> length key \<and> length key \<le> 64 \<and> CHR ''a'' \<le> hd key \<and> hd key \<le> CHR ''z'' \<and>
     (\<forall>c \<in> set (tl key). (CHR ''a'' \<le> c \<and> c \<le> CHR ''z'') \<or> (CHR ''0'' \<le> c \<and> c \<le> CHR ''9'') \<or> c = CHR ''_'')"

definition defaultGuestActions :: "GuestAction list" where
  "defaultGuestActions =
     [\<lparr>ga_Key = ''call_waiter'', ga_Label = ''Call waiter'', ga_SortOrder = 10, ga_Enabled = True\<rparr>,
      \<lparr>ga_Key = ''request_bill'', ga_Label = ''Request bill'', ga_SortOrder = 20, ga_Enabled = True\<rparr>,
      \<lparr>ga_Key = ''request_water'', ga_Label = ''Request water'', ga_SortOrder = 30, ga_Enabled = True\<rparr>,
      \<lparr>ga_Key = ''request_service'', ga_Label = ''Request service'', ga_SortOrder = 40, ga_Enabled = True\<rparr>]"

definition keptAction :: "actionConfig \<Rightarrow> bool" where
  "keptAction item \<longleftrightarrow>
     \<not> (\<not> validGuestActionKey (trimSpace (ac_Key item)) \<or> trimSpace (ac_Label item) = '''' \<or>
        ac_Enabled item = Some False)"

definition toGuestAction :: "actionConfig \<Rightarrow> GuestAction" where
  "toGuestAction item =
     \<lparr>ga_Key = trimSpace (ac_Key item), ga_Label = trimSpace (ac_Label item),
      ga_SortOrder = ac_SortOrder item, ga_Enabled = True\<rparr>"

definition GuestActionsFromConfig :: "json \<Rightarrow> GuestAction list" where
  "GuestActionsFromConfig raw =
     (let items = decodeConfig raw
      in if items = [] then defaultGuestActions
         else let actions = sort_key (\<lambda>a. (ga_SortOrder a, ga_Label a)) (map toGuestAction (filter keptAction items))
              in if actions = [] then defaultGuestActions else actions)"

definition guestActionEnabled :: "json \<Rightarrow> string \<Rightarrow> bool" where
  "guestActionEnabled raw key \<longleftrightarrow> (\<exists>a \<in> set (GuestActionsFromConfig raw). ga_Key a = key)"

definition offerable :: "GuestAction \<Rightarrow> bool" where
  "offerable a \<longleftrightarrow> validGuestActionKey (ga_Key a) \<and> ga_Label a \<noteq> '''' \<and> ga_Enabled a"

lemma defaultGuestActions_ok:
  "defaultGuestActions \<noteq> []" "list_all offerable defaultGuestActions"
  "sorted (map (\<lambda>a. (ga_SortOrder a, ga_Label a)) defaultGuestActions)"
  by code_simp+

lemma offerable_kept: "keptAction item \<Longrightarrow> offerable (toGuestAction item)"
  by (simp add: keptAction_def toGuestAction_def offerable_def)

text \<open>
  C9. The actions offered to a guest, whatever the stored configuration is: they are exactly the stored items that
  have a well-formed key and a label once these are trimmed and that are not switched off by \<^verbatim>\<open>"enabled": false\<close>,
  and the defaults when no stored item qualifies; so there always is one, and every one has a well-formed key and a
  label. They are ordered by sort order and label, and an action is accepted only if it is offered.
\<close>
theorem guest_actions_well_formed:
  "let actions = GuestActionsFromConfig raw;
       stored = {item \<in> set (decodeConfig raw). validGuestActionKey (trimSpace (ac_Key item)) \<and>
                   trimSpace (ac_Label item) \<noteq> '''' \<and> ac_Enabled item \<noteq> Some False}
   in (if stored = {} then actions = defaultGuestActions
       else (\<lambda>a. (ga_Key a, ga_Label a, ga_SortOrder a)) ` set actions =
              (\<lambda>item. (trimSpace (ac_Key item), trimSpace (ac_Label item), ac_SortOrder item)) ` stored \<and>
            length actions = length (filter (\<lambda>item. item \<in> stored) (decodeConfig raw))) \<and>
      actions \<noteq> [] \<and> list_all offerable actions \<and> sorted (map (\<lambda>a. (ga_SortOrder a, ga_Label a)) actions) \<and>
      {key. guestActionEnabled raw key} =
        (if stored = {} then {''call_waiter'', ''request_bill'', ''request_water'', ''request_service''}
         else (\<lambda>item. trimSpace (ac_Key item)) ` stored)"
proof -
  define stored where "stored = {item \<in> set (decodeConfig raw). validGuestActionKey (trimSpace (ac_Key item)) \<and>
                   trimSpace (ac_Label item) \<noteq> '''' \<and> ac_Enabled item \<noteq> Some False}"
  have kept: "filter keptAction (decodeConfig raw) = filter (\<lambda>item. item \<in> stored) (decodeConfig raw)"
    by (rule filter_cong) (auto simp: keptAction_def stored_def)
  have set: "set (filter (\<lambda>item. item \<in> stored) (decodeConfig raw)) = stored" by (auto simp: stored_def)
  have fields: "ga_Key (toGuestAction item) = trimSpace (ac_Key item)" "ga_Label (toGuestAction item) = trimSpace (ac_Label item)"
    "ga_SortOrder (toGuestAction item) = ac_SortOrder item" for item by (simp_all add: toGuestAction_def)
  have keys: "ga_Key ` set defaultGuestActions = {''call_waiter'', ''request_bill'', ''request_water'', ''request_service''}"
    by (simp add: defaultGuestActions_def)
  have enabled: "{key. guestActionEnabled raw key} = ga_Key ` set (GuestActionsFromConfig raw)"
    by (auto simp: guestActionEnabled_def)
  have sorted_empty: "sort_key f xs = [] \<longleftrightarrow> xs = []" for f :: "GuestAction \<Rightarrow> int \<times> string" and xs
    by (metis length_0_conv length_sort)
  have shape: "stored = {} \<and> GuestActionsFromConfig raw = defaultGuestActions \<or>
      stored \<noteq> {} \<and> GuestActionsFromConfig raw =
        sort_key (\<lambda>a. (ga_SortOrder a, ga_Label a)) (map toGuestAction (filter (\<lambda>item. item \<in> stored) (decodeConfig raw)))"
    (is "_ \<or> _ \<and> _ = sort_key _ (map _ ?kept)")
  proof (cases "stored = {}")
    case True
    then show ?thesis by (simp add: GuestActionsFromConfig_def kept Let_def)
  next
    case False
    then have "?kept \<noteq> []" using set by (metis empty_set)
    moreover from this have "decodeConfig raw \<noteq> []" by auto
    ultimately show ?thesis using False by (simp only: GuestActionsFromConfig_def kept Let_def sorted_empty map_is_Nil_conv if_False simp_thms)
  qed
  have ok: "list_all offerable (map toGuestAction ?kept)"
    unfolding kept [symmetric] by (simp add: list_all_iff offerable_kept)
  show ?thesis
  proof (cases "stored = {}")
    case True
    then have "GuestActionsFromConfig raw = defaultGuestActions" using shape by simp
    then show ?thesis unfolding Let_def stored_def [symmetric] enabled using True keys defaultGuestActions_ok by simp
  next
    case False
    then have actions: "GuestActionsFromConfig raw = sort_key (\<lambda>a. (ga_SortOrder a, ga_Label a)) (map toGuestAction ?kept)"
      (is "_ = ?sorted") using shape by simp
    have members: "set ?sorted = toGuestAction ` stored" using set by simp
    have "?kept \<noteq> []" using set False by (metis empty_set)
    then have "?sorted \<noteq> []" by (simp only: sorted_empty map_is_Nil_conv simp_thms)
    moreover have "list_all offerable ?sorted" using ok by (simp only: list_all_iff set_sort)
    moreover have "length ?sorted = length ?kept" by simp
    ultimately show ?thesis unfolding Let_def stored_def [symmetric] enabled actions members
      using False by (simp add: image_image fields)
  qed
qed

definition sampleConfig :: json where
  "sampleConfig =
     JObj [(''guestActions'', JArr
       [JObj [(''key'', JStr ''tea''), (''label'', JStr '' Tea''), (''sortOrder'', JInt 5)],
        JObj [(''key'', JStr ''bill''), (''label'', JStr ''Bill''), (''enabled'', JBool False)],
        JObj [(''key'', JStr ''Bad''), (''label'', JStr ''Bad'')]])]"

lemma sampleConfig_items:
  "decodeConfig sampleConfig =
     [\<lparr>ac_Key = ''tea'', ac_Label = '' Tea'', ac_SortOrder = 5, ac_Enabled = None\<rparr>,
      \<lparr>ac_Key = ''bill'', ac_Label = ''Bill'', ac_SortOrder = 0, ac_Enabled = Some False\<rparr>,
      \<lparr>ac_Key = ''Bad'', ac_Label = ''Bad'', ac_SortOrder = 0, ac_Enabled = None\<rparr>]"
  by code_simp

lemma sampleConfig_trims:
  "trimSpace ''tea'' = ''tea'' \<and> trimSpace '' Tea'' = ''Tea'' \<and> trimSpace ''Bad'' = ''Bad''"
  "validGuestActionKey ''tea'' \<and> \<not> validGuestActionKey ''Bad''"
  by code_simp+

text \<open>Witness of C9: of three stored items one is switched off and one has no valid key; guests may ask for the other.\<close>
theorem guest_actions_well_formed_witness:
  "{key. guestActionEnabled sampleConfig key} = {''tea''}"
proof -
  have "{item \<in> set (decodeConfig sampleConfig). validGuestActionKey (trimSpace (ac_Key item)) \<and>
          trimSpace (ac_Label item) \<noteq> '''' \<and> ac_Enabled item \<noteq> Some False} =
        {\<lparr>ac_Key = ''tea'', ac_Label = '' Tea'', ac_SortOrder = 5, ac_Enabled = None\<rparr>}"
    using sampleConfig_trims by (auto simp: sampleConfig_items)
  with guest_actions_well_formed [of sampleConfig] sampleConfig_trims show ?thesis by (simp add: Let_def)
qed

end
