(* ===== verification/Guest.thy ===== *)
theory Guest
  imports Retry GuestConfig
begin

text \<open>
  Guests at a table: \<^verbatim>\<open>internal/domain/operations/guest.go\<close> and \<^verbatim>\<open>tokens.go\<close>, with the QR statements of
  \<^verbatim>\<open>internal/store/db/security.sql.go\<close>. A guest presents the token of a printed QR code; the service
  finds its capability by prefix and hash, then works inside the capability's tenant. SHA-256 is an
  argument, \<open>sha\<close>; the random source is the argument \<open>rnd\<close>, which gives the bytes it reads or fails.
  A guest operation runs two transactions, the resolution of the token in world \<open>e0\<close> and the work in
  world \<open>e\<close>.
\<close>

section \<open>Tokens\<close>

definition DefaultCapabilityTokenBytes :: nat where
  "DefaultCapabilityTokenBytes = 32"

definition base64Char :: "nat \<Rightarrow> char" where
  "base64Char n = ''ABCDEFGHIJKLMNOPQRSTUVWXYZabcdefghijklmnopqrstuvwxyz0123456789-_'' ! (n mod 64)"

text \<open>\<^verbatim>\<open>base64.RawURLEncoding.EncodeToString\<close>: no padding.\<close>

fun base64RawURL :: "bytes \<Rightarrow> string" where
  "base64RawURL [] = []"
| "base64RawURL [a] = [base64Char (unat a div 4), base64Char ((unat a mod 4) * 16)]"
| "base64RawURL [a, b] =
     [base64Char (unat a div 4), base64Char ((unat a mod 4) * 16 + unat b div 16), base64Char ((unat b mod 16) * 4)]"
| "base64RawURL (a # b # c # rest) =
     base64Char (unat a div 4) # base64Char ((unat a mod 4) * 16 + unat b div 16) #
     base64Char ((unat b mod 16) * 4 + unat c div 64) # base64Char (unat c mod 64) # base64RawURL rest"

text \<open>\<^verbatim>\<open>fmt.Errorf\<close> with nothing wrapped is \<open>Wrapped\<close> around the empty error.\<close>

definition plainError :: "string \<Rightarrow> 'e fail" where
  "plainError msg = Wrapped msg (OtherError '''')"

definition GenerateCapabilityTokenWithBytes :: "(nat \<Rightarrow> bytes option) \<Rightarrow> nat \<Rightarrow> op_error fail + string" where
  "GenerateCapabilityTokenWithBytes rnd n =
     (if n < DefaultCapabilityTokenBytes
      then Inl (plainError ''capability token size must be at least 32 bytes'')
      else case rnd n of
             None \<Rightarrow> Inl (Wrapped ''reading random bytes'' (OtherError ''rand''))
           | Some buf \<Rightarrow> Inr (base64RawURL buf))"

definition GenerateCapabilityToken :: "(nat \<Rightarrow> bytes option) \<Rightarrow> op_error fail + string" where
  "GenerateCapabilityToken rnd = GenerateCapabilityTokenWithBytes rnd DefaultCapabilityTokenBytes"

definition guestTokenPrefixLength :: nat where
  "guestTokenPrefixLength = 16"

definition TokenLookupParts :: "(string \<Rightarrow> bytes) \<Rightarrow> string \<Rightarrow> op_error fail + string \<times> bytes" where
  "TokenLookupParts sha token =
     (let token = trimSpace token
      in if length token < guestTokenPrefixLength
         then Inl (plainError ''qr token must be at least 16 characters'')
         else Inr (take guestTokenPrefixLength token, sha token))"


section \<open>Statements\<close>

definition GetLocation :: "env \<Rightarrow> ctx \<Rightarrow> uuid \<Rightarrow> uuid \<Rightarrow> db \<Rightarrow> db_error + Location" where
  "GetLocation e c loc org s =
     selectOne (\<lambda>l. visible e c (l_org l) (l_id l) \<and> l_id l = loc \<and> l_org l = org) (locations s)"

text \<open>A capability that is neither revoked nor expired, of an active location and a live table.\<close>

definition activeCapability :: "env \<Rightarrow> ctx \<Rightarrow> db \<Rightarrow> TableQrCapability \<Rightarrow> bool" where
  "activeCapability e c s q \<longleftrightarrow>
     visible e c (q_org q) (q_loc q) \<and> q_revoked_at q = None \<and>
     (case q_expires_at q of None \<Rightarrow> True | Some t \<Rightarrow> now e < t) \<and>
     (\<exists>l \<in> set (locations s). visible e c (l_org l) (l_id l) \<and> l_id l = q_loc q \<and> l_org l = q_org q \<and> l_status l = ''active'') \<and>
     (\<exists>t \<in> set (tables s). visible e c (t_org t) (t_loc t) \<and> t_id t = q_table q \<and> t_org t = q_org q \<and> t_loc t = q_loc q \<and>
        liveTable t)"

definition ListActiveTableQRCapabilitiesByPrefix :: "env \<Rightarrow> ctx \<Rightarrow> string \<Rightarrow> db \<Rightarrow> TableQrCapability list" where
  "ListActiveTableQRCapabilitiesByPrefix e c prefix s =
     sort_key (\<lambda>q. - q_issued_at q)
       (filter (\<lambda>q. q_token_lookup_prefix q = prefix \<and> activeCapability e c s q) (table_qr_capabilities s))"

definition TouchTableQRCapability :: "env \<Rightarrow> ctx \<Rightarrow> uuid \<Rightarrow> db \<Rightarrow> db_error + unit \<times> db" where
  "TouchTableQRCapability e c i s =
     Inr ((), s\<lparr>table_qr_capabilities :=
       map (\<lambda>q. if visible e c (q_org q) (q_loc q) \<and> q_id q = i
                then q\<lparr>q_last_used_at := Some (now e), q_updated_at := now e\<rparr> else q) (table_qr_capabilities s)\<rparr>)"

definition CreateTableQRCapabilityHashed ::
  "env \<Rightarrow> ctx \<Rightarrow> uuid \<Rightarrow> uuid \<Rightarrow> uuid \<Rightarrow> uuid \<Rightarrow> string \<Rightarrow> bytes \<Rightarrow> string \<Rightarrow> timestamp option \<Rightarrow>
     db \<Rightarrow> db_error + TableQrCapability \<times> db" where
  "CreateTableQRCapabilityHashed e c newID org loc tableID prefix hash label expiresAt s =
     (let q = \<lparr>q_id = newID, q_org = org, q_loc = loc, q_table = tableID, q_token = prefix, q_label = Some label,
               q_issued_at = now e, q_expires_at = expiresAt, q_revoked_at = None, q_version = 1,
               q_created_at = now e, q_updated_at = now e, q_token_lookup_prefix = prefix, q_token_hash = hash,
               q_last_used_at = None\<rparr>
      in map_sum id (\<lambda>(q', qs). (q', s\<lparr>table_qr_capabilities := qs\<rparr>))
           (insertRow (\<lambda>x y. q_id x = q_id y \<or> q_token_hash x = q_token_hash y)
              (firstViolation
                 [(prefix \<noteq> '''', ''23514''),
                  (case expiresAt of None \<Rightarrow> True | Some t \<Rightarrow> now e < t, ''23514''),
                  (32 \<le> length hash, ''23514''),
                  (visible e c org loc, ''42501''),
                  (tableExists s tableID org loc, ''23503'')])
              q (table_qr_capabilities s)))"

definition RotateTableQRCapabilityRow ::
  "env \<Rightarrow> ctx \<Rightarrow> uuid \<Rightarrow> uuid \<Rightarrow> uuid \<Rightarrow> uuid \<Rightarrow> db \<Rightarrow> db_error + TableQrCapability \<times> db" where
  "RotateTableQRCapabilityRow e c i org loc tableID s =
     map_sum id (\<lambda>(q', qs). (q', s\<lparr>table_qr_capabilities := qs\<rparr>))
       (updateOne
          (\<lambda>q. visible e c (q_org q) (q_loc q) \<and> q_id q = i \<and> q_org q = org \<and> q_loc q = loc \<and> q_table q = tableID)
          (\<lambda>q. None)
          (\<lambda>q. q\<lparr>q_revoked_at := (case q_revoked_at q of None \<Rightarrow> Some (now e) | Some t \<Rightarrow> Some t), q_updated_at := now e\<rparr>)
          (table_qr_capabilities s))"

definition RevokeTableQRCapabilityRow ::
  "env \<Rightarrow> ctx \<Rightarrow> uuid \<Rightarrow> uuid \<Rightarrow> uuid \<Rightarrow> db \<Rightarrow> db_error + TableQrCapability \<times> db" where
  "RevokeTableQRCapabilityRow e c i org loc s =
     map_sum id (\<lambda>(q', qs). (q', s\<lparr>table_qr_capabilities := qs\<rparr>))
       (updateOne
          (\<lambda>q. visible e c (q_org q) (q_loc q) \<and> q_id q = i \<and> q_org q = org \<and> q_loc q = loc \<and> q_revoked_at q = None)
          (\<lambda>q. None)
          (\<lambda>q. q\<lparr>q_revoked_at := Some (now e), q_updated_at := now e\<rparr>)
          (table_qr_capabilities s))"

text \<open>A \<^verbatim>\<open>:one\<close> query whose caller treats no row as an answer.\<close>

definition runOptional :: "env \<Rightarrow> string \<Rightarrow> ('s \<Rightarrow> db_error + 'a) \<Rightarrow> ('e fail, 's, 'a option) body" where
  "runOptional e site q = (\<lambda>s.
     if fault e site then Inl (Wrapped site ConnFailure)
     else case q s of
            Inr r \<Rightarrow> Inr (Some r, s)
          | Inl ErrNoRows \<Rightarrow> Inr (None, s)
          | Inl err \<Rightarrow> Inl (Wrapped site err))"

lemma runOptional_Inr [tx_iffs]:
  "runOptional e site q s = Inr (r, s') \<longleftrightarrow>
     \<not> fault e site \<and> s' = s \<and> (case r of None \<Rightarrow> q s = Inl ErrNoRows | Some x \<Rightarrow> q s = Inr x)"
  by (auto simp: runOptional_def split: sum.splits db_error.splits option.splits)


section \<open>Resolving a token\<close>

definition resolveQRCapability ::
  "env \<Rightarrow> (string \<Rightarrow> bytes) \<Rightarrow> string \<Rightarrow> db \<Rightarrow> TableQrCapability op_result" where
  "resolveQRCapability e sha token s =
     (case TokenLookupParts sha token of
        Inl err \<Rightarrow> (Inl (Err ErrNotFound), s)
      | Inr (prefix, hash) \<Rightarrow>
          inTx e (\<lambda>c.
            txBind (runQuery e ''listing qr capabilities by prefix'' None
                      (reading (\<lambda>s. Inr (ListActiveTableQRCapabilitiesByPrefix e c prefix s)))) (\<lambda>candidates.
            case find (\<lambda>candidate. q_token_hash candidate = hash) candidates of
              None \<Rightarrow> txFail (Err ErrNotFound)
            | Some match \<Rightarrow> txGuard (q_id match = uuid_Nil) (Err ErrNotFound) (txReturn match))) s)"


section \<open>Guest operations\<close>

definition GuestSource :: string where "GuestSource = ''guest_qr''"
definition guestActorRef :: string where "guestActorRef = ''guest:qr''"

text \<open>\<^verbatim>\<open>2 * time.Minute\<close>, in nanoseconds.\<close>

definition defaultGuestCooldown :: int where
  "defaultGuestCooldown = 120 * 10 ^ 9"

record GuestContextResult =
  gc_OrganisationID :: uuid
  gc_LocationID :: uuid
  gc_LocationName :: string
  gc_TableID :: uuid
  gc_TableLabel :: string
  gc_Occupancy :: TableOccupancy
  gc_Actions :: "GuestAction list"
  gc_ActiveRequest :: "AssistRequest option"

record GuestRequestParams =
  gr_Token :: string
  gr_ActionKey :: string
  gr_IdempotencyKey :: uuid
  gr_PayloadHash :: bytes

record GuestCancelParams =
  gx_Token :: string
  gx_AssistID :: uuid
  gx_IdempotencyKey :: uuid
  gx_PayloadHash :: bytes

record QRExport =
  qe_ID :: uuid
  qe_TableID :: uuid
  qe_Token :: string
  qe_LookupPrefix :: string
  qe_Label :: string
  qe_ExpiresAt :: "timestamp option"
  qe_IssuedAt :: timestamp
  qe_RevokedAt :: "timestamp option"
  qe_Version :: int

definition guestContextInTx :: "env \<Rightarrow> TableQrCapability \<Rightarrow> ctx \<Rightarrow> GuestContextResult op_body" where
  "guestContextInTx e capability c =
     txBind (runQuery e ''updating qr capability use'' None (TouchTableQRCapability e c (q_id capability))) (\<lambda>_.
     txBind (runQuery e ''getting guest location'' (Some ErrNotFound)
               (reading (GetLocation e c (q_loc capability) (q_org capability)))) (\<lambda>location.
     txBind (runQuery e ''getting guest table state'' (Some ErrNotFound)
               (reading (GetTableState e c (q_table capability) (q_org capability) (q_loc capability)))) (\<lambda>(table, occupancy).
     txBind (if o_status occupancy = TableStatusOccupied \<and> o_current_session occupancy \<noteq> None
             then runOptional e ''getting active guest assist''
                    (GetActiveGuestAssistBySession e c (q_org capability) (q_loc capability) (q_table capability)
                       (o_current_session occupancy))
             else txReturn None) (\<lambda>active.
     txReturn \<lparr>gc_OrganisationID = q_org capability, gc_LocationID = q_loc capability,
               gc_LocationName = l_name location, gc_TableID = q_table capability, gc_TableLabel = t_label table,
               gc_Occupancy = occupancy, gc_Actions = GuestActionsFromConfig (l_operating_config location),
               gc_ActiveRequest = active\<rparr>))))"

definition GuestContext ::
  "env \<Rightarrow> env \<Rightarrow> (string \<Rightarrow> bytes) \<Rightarrow> string \<Rightarrow> db \<Rightarrow> GuestContextResult op_result" where
  "GuestContext e0 e sha token s =
     (case resolveQRCapability e0 sha token s of
        (Inl err, s') \<Rightarrow> (Inl err, s')
      | (Inr capability, s') \<Rightarrow>
          inTenantTx e (q_org capability) (q_loc capability) (guestContextInTx e capability) s')"

text \<open>
  The body of \<^verbatim>\<open>CreateGuestRequest\<close>; its second component is the captured \<^verbatim>\<open>createdNew\<close>.
\<close>

definition createGuestInTx ::
  "env \<Rightarrow> TableQrCapability \<Rightarrow> string \<Rightarrow> ctx \<Rightarrow> (AssistRequest \<times> bool) op_body" where
  "createGuestInTx e capability actionKey c =
     txBind (runQuery e ''getting guest location'' (Some ErrNotFound)
               (reading (GetLocation e c (q_loc capability) (q_org capability)))) (\<lambda>location.
     txGuard (\<not> guestActionEnabled (l_operating_config location) actionKey) (Err ErrActionNotEnabled) (
     txBind (lockTableOccupancy e c (q_table capability) (q_org capability) (q_loc capability)) (\<lambda>occupancy.
     txGuard (o_status occupancy \<noteq> TableStatusOccupied \<or> o_current_session occupancy = None) (Err ErrNoActiveSession) (
     txBind (runOptional e ''getting pending guest assist''
               (GetPendingGuestAssistByAction e c (q_org capability) (q_loc capability) (q_table capability)
                  (o_current_session occupancy) actionKey)) (\<lambda>pending.
     case pending of
       Some assist \<Rightarrow> txReturn (assist, False)
     | None \<Rightarrow>
     txBind (runOptional e ''getting latest terminal guest assist''
               (GetLatestTerminalGuestAssistByAction e c (q_org capability) (q_loc capability) (q_table capability)
                  (o_current_session occupancy) actionKey)) (\<lambda>terminal.
     txGuard (case terminal of None \<Rightarrow> False | Some r \<Rightarrow> wall e - a_requested_at r * 1000 < defaultGuestCooldown)
       (Err ErrRateLimited) (
     txBind (runQuery e ''creating guest assist request'' None
               (CreateAssistRequest e c (gen e 0) (q_org capability) (q_loc capability) (q_table capability)
                  (o_current_session occupancy) (nullableText guestActorRef) GuestSource None (Some actionKey))) (\<lambda>created.
     txReturn (created, True)))))))))"

definition guestMeta :: "string \<Rightarrow> uuid \<Rightarrow> bytes \<Rightarrow> CommandMeta" where
  "guestMeta commandType key hash =
     \<lparr>cm_ID = key, cm_Type = commandType, cm_PayloadHash = hash, cm_DeviceID = None,
      cm_Retention = DefaultIdempotencyRetention\<rparr>"

definition guestRequestEvent :: "TableQrCapability \<Rightarrow> string \<Rightarrow> uuid \<Rightarrow> AssistRequest \<Rightarrow> operationalEvent" where
  "guestRequestEvent capability actionKey key assist =
     \<lparr>oe_OrganisationID = q_org capability, oe_LocationID = q_loc capability,
      oe_EventType = TypeAssistRequested, oe_EntityType = ''assist'', oe_EntityID = a_id assist,
      oe_EntityVersion = a_version assist, oe_ActorRef = guestActorRef, oe_DeviceID = None,
      oe_CommandID = nullableUUID key, oe_Topic = ''operations.assist'', oe_Destinations = operationDestinations,
      oe_Data = [(''assistId'', JUuid (a_id assist)), (''tableId'', JUuid (q_table capability)),
                 (''status'', JStr (a_status assist)), (''source'', JStr GuestSource), (''actionKey'', JStr actionKey)]\<rparr>"

text \<open>
  \<^verbatim>\<open>runGuestCommand\<close> is \<^verbatim>\<open>runTenantCommand\<close> with an encoder that is always there.
\<close>

definition runGuestCommand ::
  "env \<Rightarrow> uuid \<Rightarrow> uuid \<Rightarrow> string \<Rightarrow> CommandMeta \<Rightarrow> (ctx \<Rightarrow> 't op_body) \<Rightarrow>
     (ctx \<Rightarrow> 't \<Rightarrow> unit op_body) \<Rightarrow> ('t \<Rightarrow> string + int \<times> string) \<Rightarrow>
     db \<Rightarrow> ('t option \<times> CommandReplay) op_result" where
  "runGuestCommand e org loc actorRef meta execute after encode =
     runTenantCommand e org loc actorRef meta execute after (Some encode)"

definition guestRequestCommand ::
  "env \<Rightarrow> TableQrCapability \<Rightarrow> string \<Rightarrow> uuid \<Rightarrow> bytes \<Rightarrow> (AssistRequest \<Rightarrow> string + int \<times> string) \<Rightarrow>
     db \<Rightarrow> ((AssistRequest \<times> bool) option \<times> CommandReplay) op_result" where
  "guestRequestCommand e capability actionKey key hash encode =
     runGuestCommand e (q_org capability) (q_loc capability) guestActorRef (guestMeta ''guest.request'' key hash)
       (createGuestInTx e capability actionKey)
       (\<lambda>c (assist, createdNew).
          if \<not> createdNew then txReturn ()
          else writeOperationalEvent e c (guestRequestEvent capability actionKey key assist))
       (\<lambda>(assist, createdNew). encode assist)"

definition CreateGuestRequest ::
  "env \<Rightarrow> env \<Rightarrow> (string \<Rightarrow> bytes) \<Rightarrow> GuestRequestParams \<Rightarrow> (AssistRequest \<Rightarrow> string + int \<times> string) \<Rightarrow>
     db \<Rightarrow> ((AssistRequest \<times> bool) option \<times> CommandReplay) op_result" where
  "CreateGuestRequest e0 e sha arg encode s =
     (let actionKey = trimSpace (gr_ActionKey arg)
      in if \<not> validGuestActionKey actionKey then (Inl (Err ErrActionNotEnabled), s)
         else case resolveQRCapability e0 sha (gr_Token arg) s of
                (Inl err, s') \<Rightarrow> (Inl err, s')
              | (Inr capability, s') \<Rightarrow>
                  guestRequestCommand e capability actionKey (gr_IdempotencyKey arg) (gr_PayloadHash arg) encode s')"

definition GetGuestRequest ::
  "env \<Rightarrow> env \<Rightarrow> (string \<Rightarrow> bytes) \<Rightarrow> string \<Rightarrow> uuid \<Rightarrow> db \<Rightarrow> AssistRequest op_result" where
  "GetGuestRequest e0 e sha token assistID s =
     (case resolveQRCapability e0 sha token s of
        (Inl err, s') \<Rightarrow> (Inl err, s')
      | (Inr capability, s') \<Rightarrow>
          inTenantTx e (q_org capability) (q_loc capability) (\<lambda>c.
            runQuery e ''getting guest assist'' (Some ErrNotFound)
              (reading (GetGuestAssistByID e c assistID (q_org capability) (q_loc capability) (q_table capability)))) s')"

definition cancelGuestInTx ::
  "env \<Rightarrow> TableQrCapability \<Rightarrow> uuid \<Rightarrow> ctx \<Rightarrow> AssistRequest op_body" where
  "cancelGuestInTx e capability assistID c =
     txBind (runQuery e ''getting guest assist'' (Some ErrNotFound)
               (reading (GetGuestAssistByID e c assistID (q_org capability) (q_loc capability) (q_table capability)))) (\<lambda>current.
     txGuard (a_status current \<noteq> AssistStatusPending) (Err ErrInvalidAssistTransition) (
     runQuery e ''cancelling guest assist'' (Some ErrInvalidAssistTransition)
       (CancelPendingGuestAssistRequest e c assistID (q_org capability) (q_loc capability) (nullableText guestActorRef))))"

definition guestCancelEvent :: "TableQrCapability \<Rightarrow> uuid \<Rightarrow> AssistRequest \<Rightarrow> operationalEvent" where
  "guestCancelEvent capability key assist =
     \<lparr>oe_OrganisationID = q_org capability, oe_LocationID = q_loc capability,
      oe_EventType = TypeAssistCancelled, oe_EntityType = ''assist'', oe_EntityID = a_id assist,
      oe_EntityVersion = a_version assist, oe_ActorRef = guestActorRef, oe_DeviceID = None,
      oe_CommandID = nullableUUID key, oe_Topic = ''operations.assist'', oe_Destinations = operationDestinations,
      oe_Data = [(''assistId'', JUuid (a_id assist)), (''tableId'', JUuid (q_table capability)),
                 (''status'', JStr (a_status assist))]\<rparr>"

definition guestCancelCommand ::
  "env \<Rightarrow> TableQrCapability \<Rightarrow> uuid \<Rightarrow> uuid \<Rightarrow> bytes \<Rightarrow> (AssistRequest \<Rightarrow> string + int \<times> string) \<Rightarrow>
     db \<Rightarrow> (AssistRequest option \<times> CommandReplay) op_result" where
  "guestCancelCommand e capability assistID key hash encode =
     runGuestCommand e (q_org capability) (q_loc capability) guestActorRef (guestMeta ''guest.cancel'' key hash)
       (cancelGuestInTx e capability assistID)
       (\<lambda>c assist. writeOperationalEvent e c (guestCancelEvent capability key assist))
       encode"

definition CancelGuestRequest ::
  "env \<Rightarrow> env \<Rightarrow> (string \<Rightarrow> bytes) \<Rightarrow> GuestCancelParams \<Rightarrow> (AssistRequest \<Rightarrow> string + int \<times> string) \<Rightarrow>
     db \<Rightarrow> (AssistRequest option \<times> CommandReplay) op_result" where
  "CancelGuestRequest e0 e sha arg encode s =
     (case resolveQRCapability e0 sha (gx_Token arg) s of
        (Inl err, s') \<Rightarrow> (Inl err, s')
      | (Inr capability, s') \<Rightarrow>
          guestCancelCommand e capability (gx_AssistID arg) (gx_IdempotencyKey arg) (gx_PayloadHash arg) encode s')"


section \<open>Issuing tokens\<close>

definition qrLabel :: "string option \<Rightarrow> string" where
  "qrLabel value = (case value of None \<Rightarrow> '''' | Some label \<Rightarrow> label)"

definition qrExportFromDB :: "TableQrCapability \<Rightarrow> string \<Rightarrow> QRExport" where
  "qrExportFromDB capability token =
     \<lparr>qe_ID = q_id capability, qe_TableID = q_table capability, qe_Token = token,
      qe_LookupPrefix = q_token_lookup_prefix capability, qe_Label = qrLabel (q_label capability),
      qe_ExpiresAt = q_expires_at capability, qe_IssuedAt = q_issued_at capability,
      qe_RevokedAt = q_revoked_at capability, qe_Version = q_version capability\<rparr>"

text \<open>Generate a token and take it apart; the failures of either are returned as they are.\<close>

definition freshToken :: "(nat \<Rightarrow> bytes option) \<Rightarrow> (string \<Rightarrow> bytes) \<Rightarrow> op_error fail + string \<times> string \<times> bytes" where
  "freshToken rnd sha =
     (case GenerateCapabilityToken rnd of
        Inl err \<Rightarrow> Inl err
      | Inr token \<Rightarrow>
          (case TokenLookupParts sha token of
             Inl err \<Rightarrow> Inl err
           | Inr (prefix, hash) \<Rightarrow> Inr (token, prefix, hash)))"

definition ExportTableQRCapability ::
  "env \<Rightarrow> (nat \<Rightarrow> bytes option) \<Rightarrow> (string \<Rightarrow> bytes) \<Rightarrow> uuid \<Rightarrow> uuid \<Rightarrow> uuid \<Rightarrow> string \<Rightarrow> timestamp option \<Rightarrow>
     db \<Rightarrow> QRExport op_result" where
  "ExportTableQRCapability e rnd sha org loc tableID label expiresAt s =
     (case freshToken rnd sha of
        Inl err \<Rightarrow> (Inl err, s)
      | Inr (token, prefix, hash) \<Rightarrow>
          inTenantTx e org loc (\<lambda>c.
            txBind (runQuery e ''creating table qr capability'' None
                      (CreateTableQRCapabilityHashed e c (gen e 0) org loc tableID prefix hash (trimSpace label) expiresAt))
              (\<lambda>capability. txReturn (qrExportFromDB capability token))) s)"

definition RotateTableQRCapability ::
  "env \<Rightarrow> (nat \<Rightarrow> bytes option) \<Rightarrow> (string \<Rightarrow> bytes) \<Rightarrow> uuid \<Rightarrow> uuid \<Rightarrow> uuid \<Rightarrow> uuid \<Rightarrow> db \<Rightarrow> QRExport op_result" where
  "RotateTableQRCapability e rnd sha org loc tableID capabilityID =
     inTenantTx e org loc (\<lambda>c.
       txBind (runQuery e ''revoking previous table qr capability'' (Some ErrNotFound)
                 (RotateTableQRCapabilityRow e c capabilityID org loc tableID)) (\<lambda>previous.
       case freshToken rnd sha of
         Inl err \<Rightarrow> txFail err
       | Inr (token, prefix, hash) \<Rightarrow>
           txBind (runQuery e ''creating rotated table qr capability'' None
                     (CreateTableQRCapabilityHashed e c (gen e 0) org loc tableID prefix hash
                        (qrLabel (q_label previous)) (q_expires_at previous)))
             (\<lambda>next. txReturn (qrExportFromDB next token))))"

definition RevokeTableQRCapability ::
  "env \<Rightarrow> uuid \<Rightarrow> uuid \<Rightarrow> uuid \<Rightarrow> uuid \<Rightarrow> db \<Rightarrow> TableQrCapability op_result" where
  "RevokeTableQRCapability e org loc tableID capabilityID =
     inTenantTx e org loc (\<lambda>c.
       txBind (runQuery e ''revoking table qr capability'' (Some ErrNotFound)
                 (RevokeTableQRCapabilityRow e c capabilityID org loc)) (\<lambda>revoked.
       txGuard (q_table revoked \<noteq> tableID) (Err ErrNotFound) (txReturn revoked)))"


section \<open>What a guest request that succeeds has seen\<close>

definition sameGuestKey :: "TableQrCapability \<Rightarrow> uuid \<Rightarrow> string \<Rightarrow> AssistRequest \<Rightarrow> bool" where
  "sameGuestKey q i key r \<longleftrightarrow>
     a_org r = q_org q \<and> a_loc r = q_loc q \<and> a_table r = q_table q \<and> a_session r = Some i \<and>
     a_action_key r = Some key \<and> a_source r = GuestSource"

lemma guest_queries:
  "GetPendingGuestAssistByAction e (tenant_context (q_org q) (q_loc q)) (q_org q) (q_loc q) (q_table q) (Some i) key s =
     selectOne (\<lambda>r. sameGuestKey q i key r \<and> a_status r = AssistStatusPending) (sort_key a_requested_at (assist_requests s))"
  "GetLatestTerminalGuestAssistByAction e (tenant_context (q_org q) (q_loc q)) (q_org q) (q_loc q) (q_table q) (Some i) key s =
     selectOne (\<lambda>r. sameGuestKey q i key r \<and> a_status r \<in> {AssistStatusResolved, AssistStatusCancelled})
       (sort_key (\<lambda>r. - a_requested_at r) (assist_requests s))"
  unfolding GetPendingGuestAssistByAction_def GetLatestTerminalGuestAssistByAction_def
  by (rule arg_cong2 [where f = selectOne];
      auto simp: fun_eq_iff sameGuestKey_def GuestSource_def)+

lemma createGuestInTx_InrE:
  assumes "createGuestInTx e q key (tenant_context (q_org q) (q_loc q)) s = Inr ((r, createdNew), s')"
  obtains (joined) i where "\<not> createdNew" and "s' = s" and "r \<in> set (assist_requests s)" and "sameGuestKey q i key r"
      and "a_status r = AssistStatusPending"
  | (created) l occ i where "createdNew" and "l \<in> set (locations s)" and "l_id l = q_loc q" and "l_org l = q_org q"
      and "guestActionEnabled (l_operating_config l) key"
      and "occ \<in> set (table_occupancy s)" and "o_table occ = q_table q" and "o_org occ = q_org q" and "o_loc occ = q_loc q"
      and "o_status occ = TableStatusOccupied" and "o_current_session occ = Some i"
      and "\<forall>x \<in> set (assist_requests s). \<not> (sameGuestKey q i key x \<and> a_status x = AssistStatusPending)"
      and "case find (\<lambda>r. sameGuestKey q i key r \<and> a_status r \<in> {AssistStatusResolved, AssistStatusCancelled})
                  (sort_key (\<lambda>r. - a_requested_at r) (assist_requests s)) of
             None \<Rightarrow> True | Some x \<Rightarrow> defaultGuestCooldown \<le> wall e - a_requested_at x * 1000"
      and "CreateAssistRequest e (tenant_context (q_org q) (q_loc q)) (gen e 0) (q_org q) (q_loc q) (q_table q) (Some i)
             (nullableText guestActorRef) GuestSource None (Some key) s = Inr (r, s')"
proof -
  let ?c = "tenant_context (q_org q) (q_loc q)"
  define R where "R oc = txBind (runOptional e ''getting pending guest assist''
               (GetPendingGuestAssistByAction e ?c (q_org q) (q_loc q) (q_table q) oc key)) (\<lambda>pending.
     case pending of
       Some assist \<Rightarrow> txReturn (assist, False)
     | None \<Rightarrow>
     txBind (runOptional e ''getting latest terminal guest assist''
               (GetLatestTerminalGuestAssistByAction e ?c (q_org q) (q_loc q) (q_table q) oc key)) (\<lambda>terminal.
     txGuard (case terminal of None \<Rightarrow> False | Some r \<Rightarrow> wall e - a_requested_at r * 1000 < defaultGuestCooldown)
       (Err ErrRateLimited) (
     txBind (runQuery e ''creating guest assist request'' None
               (CreateAssistRequest e ?c (gen e 0) (q_org q) (q_loc q) (q_table q)
                  oc (nullableText guestActorRef) GuestSource None (Some key))) (\<lambda>created.
     txReturn (created, True)))))" for oc
  have "createGuestInTx e q key ?c =
     txBind (runQuery e ''getting guest location'' (Some ErrNotFound) (reading (GetLocation e ?c (q_loc q) (q_org q)))) (\<lambda>location.
     txGuard (\<not> guestActionEnabled (l_operating_config location) key) (Err ErrActionNotEnabled) (
     txBind (lockTableOccupancy e ?c (q_table q) (q_org q) (q_loc q)) (\<lambda>occupancy.
     txGuard (o_status occupancy \<noteq> TableStatusOccupied \<or> o_current_session occupancy = None) (Err ErrNoActiveSession)
       (R (o_current_session occupancy)))))"
    by (simp only: createGuestInTx_def R_def)
  with assms obtain l occ i where l: "GetLocation e ?c (q_loc q) (q_org q) s = Inr l" "guestActionEnabled (l_operating_config l) key"
    and lk: "lockTableOccupancy e ?c (q_table q) (q_org q) (q_loc q) s = Inr (occ, s)"
    and occ: "o_status occ = TableStatusOccupied" "o_current_session occ = Some i"
    and rest: "R (Some i) s = Inr ((r, createdNew), s')"
    by (auto simp: lockTableOccupancy_def tx_iffs)
  from lk have o: "occ \<in> set (table_occupancy s)" "o_table occ = q_table q" "o_org occ = q_org q" "o_loc occ = q_loc q"
    by (auto elim: lockTableOccupancy_InrE)
  from l(1) have ll: "l \<in> set (locations s)" "l_id l = q_loc q" "l_org l = q_org q"
    by (auto simp: GetLocation_def row_simps dest!: find_SomeD)
  note P = guest_queries(1) [of e q i key s] and T = guest_queries(2) [of e q i key s]
  show thesis
  proof (cases "find (\<lambda>r. sameGuestKey q i key r \<and> a_status r = AssistStatusPending) (sort_key a_requested_at (assist_requests s))")
    case (Some x)
    with P rest have "r = x" "\<not> createdNew" "s' = s"
      by (auto simp: R_def tx_iffs selectOne_def split: option.splits)
    moreover from Some have "x \<in> set (assist_requests s)" "sameGuestKey q i key x" "a_status x = AssistStatusPending"
      by (auto dest!: find_SomeD)
    ultimately show thesis by (intro joined) simp_all
  next
    case None
    with P have "GetPendingGuestAssistByAction e ?c (q_org q) (q_loc q) (q_table q) (Some i) key s = Inl ErrNoRows"
      by (simp add: selectOne_def)
    with rest T have "createdNew"
      and c: "CreateAssistRequest e ?c (gen e 0) (q_org q) (q_loc q) (q_table q) (Some i)
             (nullableText guestActorRef) GuestSource None (Some key) s = Inr (r, s')"
      and t: "case find (\<lambda>r. sameGuestKey q i key r \<and> a_status r \<in> {AssistStatusResolved, AssistStatusCancelled})
                  (sort_key (\<lambda>r. - a_requested_at r) (assist_requests s)) of
             None \<Rightarrow> True | Some x \<Rightarrow> defaultGuestCooldown \<le> wall e - a_requested_at x * 1000"
      by (auto simp: R_def tx_iffs selectOne_def split: option.splits)
    with None l(2) ll o occ show thesis by (intro created) (simp_all add: find_None_iff)
  qed
qed

end
