(* ===== verification/Reach.thy ===== *)
theory Reach
  imports Guest
begin

text \<open>
  The operations service as a transition system. \<open>op_step\<close> has one rule per operation of the service,
  in any world; every step is shown to be a sequence of \<open>row_step\<close>s, the elementary changes of the
  operational tables, and the invariants are proved once per elementary change.
\<close>

section \<open>Steps\<close>

inductive op_step :: "db \<Rightarrow> db \<Rightarrow> bool" where
  occupy: "op_step s (snd (OccupyTableCommand e oarg enc_t s))"
| clear: "op_step s (snd (ClearTableCommand e carg enc_t s))"
| acknowledge: "op_step s (snd (AcknowledgeAssistCommand e aarg enc_a s))"
| resolve: "op_step s (snd (ResolveAssistCommand e aarg enc_a s))"
| cancel: "op_step s (snd (CancelAssistCommand e aarg enc_a s))"
| request: "op_step s (snd (RequestAssist e rarg s))"
| guest_context: "op_step s (snd (GuestContext e0 e sha token s))"
| guest_request: "op_step s (snd (CreateGuestRequest e0 e sha garg enc_g s))"
| guest_get: "op_step s (snd (GetGuestRequest e0 e sha token i s))"
| guest_cancel: "op_step s (snd (CancelGuestRequest e0 e sha xarg enc_g s))"
| export_qr: "op_step s (snd (ExportTableQRCapability e rnd sha org loc t label expires s))"
| rotate_qr: "op_step s (snd (RotateTableQRCapability e rnd sha org loc t i s))"
| revoke_qr: "op_step s (snd (RevokeTableQRCapability e org loc t i s))"

text \<open>A change of QR capabilities adds rows, and never drops a row or takes a revocation back.\<close>

definition qr_update :: "TableQrCapability list \<Rightarrow> TableQrCapability list \<Rightarrow> bool" where
  "qr_update qs qs' \<longleftrightarrow>
     (\<exists>f new. qs' = map f qs @ new \<and> (\<forall>q. q_id (f q) = q_id q \<and> q_table (f q) = q_table q \<and> q_token_hash (f q) = q_token_hash q \<and>
        (q_revoked_at q \<noteq> None \<longrightarrow> q_revoked_at (f q) \<noteq> None)) \<and>
      (\<forall>q \<in> set new. q_id q \<notin> q_id ` set qs))"

inductive row_step :: "db \<Rightarrow> db \<Rightarrow> bool" where
  occupied: "occupyTableInTx e oarg c s = Inr (res, s') \<Longrightarrow> row_step s s'"
| cleared: "clearTableInTx e carg c s = Inr (res, s') \<Longrightarrow> row_step s s'"
| changed: "changeAssistInTx e aarg status c s = Inr (r, s') \<Longrightarrow> row_step s s'"
| created: "CreateAssistRequest e c i org loc t si rb src note None s = Inr (r, s') \<Longrightarrow> row_step s s'"
| guest_created: "createGuestInTx e q key (tenant_context (q_org q) (q_loc q)) s = Inr (r, s') \<Longrightarrow> row_step s s'"
| guest_cancelled: "cancelGuestInTx e q i c s = Inr (r, s') \<Longrightarrow> row_step s s'"
| event: "eventFresh e ev s \<Longrightarrow> row_step s (with_event e ev s)"
| recorded: "row_step s (s\<lparr>api_idempotency_records := api_idempotency_records s @ [r]\<rparr>)"
| qr: "qr_update (table_qr_capabilities s) qs \<Longrightarrow> row_step s (s\<lparr>table_qr_capabilities := qs\<rparr>)"

lemma row_event: "writeOperationalEvent e c ev s = Inr (u, s') \<Longrightarrow> row_step s s'"
  using writeOperationalEvent_Inr(1) writeOperationalEvent_fresh row_step.event by metis

lemmas row_steps =
  r_into_rtranclp [of row_step, OF row_step.occupied] r_into_rtranclp [of row_step, OF row_step.cleared]
  r_into_rtranclp [of row_step, OF row_step.changed] r_into_rtranclp [of row_step, OF row_step.guest_created]
  r_into_rtranclp [of row_step, OF row_step.guest_cancelled] r_into_rtranclp [of row_step, OF row_event]

lemma runTenantCommand_steps:
  assumes ex: "\<And>x s1. execute (tenant_context org loc) s = Inr (x, s1) \<Longrightarrow> row_step\<^sup>*\<^sup>* s s1"
    and af: "\<And>x s1 s2. after (tenant_context org loc) x s1 = Inr ((), s2) \<Longrightarrow> row_step\<^sup>*\<^sup>* s1 s2"
  shows "row_step\<^sup>*\<^sup>* s (snd (runTenantCommand e org loc actorRef meta execute after encode s))"
proof (cases rule: runTenantCommand_cases [of e org loc actorRef meta execute after encode s])
  case unchanged
  then show ?thesis by simp
next
  case (body v s')
  from body(2) have "row_step\<^sup>*\<^sup>* s s'"
  proof (rule commandBody_InrE)
    fix x s1 s2 status b
    assume 1: "execute (tenant_context org loc) s = Inr (x, s1)" "after (tenant_context org loc) x s1 = Inr ((), s2)"
      and nil: "cm_ID meta = uuid_Nil \<Longrightarrow> s' = s2"
      and rec: "cm_ID meta \<noteq> uuid_Nil \<Longrightarrow>
        insertIdempotencyRow e (tenant_context org loc) org loc meta status (storedBody meta b) s2 = Inr ((), s')"
    have "row_step\<^sup>*\<^sup>* s s2" using ex af 1 by (meson rtranclp_trans)
    moreover have "row_step\<^sup>*\<^sup>* s2 s'"
    proof (cases "cm_ID meta = uuid_Nil")
      case False
      from rec [OF False] show ?thesis by (rule insertIdempotencyRow_Inr) (auto intro: row_step.recorded)
    qed (simp add: nil)
    ultimately show ?thesis by simp
  qed
  with body(3) commitTx_cases show ?thesis by (metis rtranclp.rtrancl_refl)
qed

lemma inTenantTx_steps:
  assumes "\<And>v s1. fn (tenant_context org loc) s = Inr (v, s1) \<Longrightarrow> row_step\<^sup>*\<^sup>* s s1"
  shows "row_step\<^sup>*\<^sup>* s (snd (inTenantTx e org loc fn s))"
  by (rule inTenantTx_keeps [where I = "row_step\<^sup>*\<^sup>* s"]) (simp_all add: assms)

lemma inTx_keeps:
  assumes "I s" and "\<And>v s1. fn no_context s = Inr (v, s1) \<Longrightarrow> I s1"
  shows "I (snd (inTx e fn s))"
proof (cases "fn no_context s")
  case (Inr p)
  then have "I (snd p)" using assms(2) by (cases p) simp
  with Inr assms(1) show ?thesis by (cases p) (simp add: inTx_def commitTx_def split: commit_outcome.splits)
qed (simp add: inTx_def assms(1))

lemma resolveQRCapability_snd [simp]: "snd (resolveQRCapability e sha token s) = s"
proof (cases "TokenLookupParts sha token")
  case (Inr p)
  then show ?thesis unfolding resolveQRCapability_def
    by (cases p; simp) (rule inTx_keeps [where I = "\<lambda>s'. s' = s"], auto simp: tx_iffs split: option.splits)
qed (simp add: resolveQRCapability_def)

lemma qr_update_map:
  assumes "\<And>q. q_id (f q) = q_id q" "\<And>q. q_table (f q) = q_table q" "\<And>q. q_token_hash (f q) = q_token_hash q"
    and "\<And>q. q_revoked_at q \<noteq> None \<Longrightarrow> q_revoked_at (f q) \<noteq> None"
  shows "qr_update qs (map f qs)"
  unfolding qr_update_def using assms by (intro exI [of _ f] exI [of _ "[]"]) auto

lemma qr_update_add: "\<forall>q \<in> set qs. q_id q \<noteq> q_id r \<Longrightarrow> qr_update qs (qs @ [r])"
  unfolding qr_update_def by (intro exI [of _ id] exI [of _ "[r]"]) auto

lemma touch_step: "TouchTableQRCapability e c i s = Inr (u, s') \<Longrightarrow> row_step s s'"
  by (auto simp: TouchTableQRCapability_def intro!: row_step.qr qr_update_map)

lemma create_qr_step: "CreateTableQRCapabilityHashed e c i org loc t p h l x s = Inr (q, s') \<Longrightarrow> row_step s s'"
  by (auto simp: CreateTableQRCapabilityHashed_def Let_def insertRow_Inr elim!: map_sum_InrE intro!: row_step.qr qr_update_add)

lemma updateOne_map:
  "updateOne P chk f rs = Inr (r, rs') \<Longrightarrow> rs' = map (\<lambda>x. if P x then f x else x) rs"
  by (auto elim: updateOne_InrE)

lemma rotate_step: "RotateTableQRCapabilityRow e c i org loc t s = Inr (q, s') \<Longrightarrow> row_step s s'"
  by (auto simp: RotateTableQRCapabilityRow_def elim!: map_sum_InrE dest!: updateOne_map
      intro!: row_step.qr qr_update_map split: option.splits)

lemma revoke_step: "RevokeTableQRCapabilityRow e c i org loc s = Inr (q, s') \<Longrightarrow> row_step s s'"
  by (auto simp: RevokeTableQRCapabilityRow_def elim!: map_sum_InrE dest!: updateOne_map
      intro!: row_step.qr qr_update_map split: option.splits)

lemmas qr_steps =
  r_into_rtranclp [of row_step, OF create_qr_step] r_into_rtranclp [of row_step, OF rotate_step] r_into_rtranclp [of row_step, OF revoke_step]
  r_into_rtranclp [of row_step, OF touch_step]

lemma guestRequestCommand_steps: "row_step\<^sup>*\<^sup>* s (snd (guestRequestCommand e q key i h enc s))"
  unfolding guestRequestCommand_def runGuestCommand_def
  by (rule runTenantCommand_steps) (auto split: if_splits intro: row_steps)

lemma guestCancelCommand_steps: "row_step\<^sup>*\<^sup>* s (snd (guestCancelCommand e q j i h enc s))"
  unfolding guestCancelCommand_def runGuestCommand_def
  by (rule runTenantCommand_steps) (auto intro: row_steps)

lemma guestContextInTx_step: "guestContextInTx e q c s = Inr (r, s') \<Longrightarrow> row_step s s'"
  by (auto simp: guestContextInTx_def tx_iffs split: if_splits dest!: touch_step)

lemma case_result_snd:
  "snd (case resolveQRCapability e sha token s of (Inl err, s') \<Rightarrow> (Inl err, s') | (Inr q, s') \<Rightarrow> f q s') =
     (case fst (resolveQRCapability e sha token s) of Inl err \<Rightarrow> s | Inr q \<Rightarrow> snd (f q s))"
  using resolveQRCapability_snd [of e sha token s]
  by (cases "resolveQRCapability e sha token s") (auto split: sum.splits simp del: resolveQRCapability_snd)

text \<open>Every operation is a sequence of elementary changes.\<close>

lemma op_step_rows: "op_step s s' \<Longrightarrow> row_step\<^sup>*\<^sup>* s s'"
proof (induction rule: op_step.induct)
  case (occupy s e oarg enc_t)
  show ?case unfolding OccupyTableCommand_def
    by (rule runTenantCommand_steps) (auto intro: row_steps)
next
  case (clear s e carg enc_t)
  show ?case unfolding ClearTableCommand_def
    by (rule runTenantCommand_steps) (auto intro: row_steps)
next
  case (acknowledge s e aarg enc_a)
  show ?case unfolding AcknowledgeAssistCommand_def changeAssistCommand_def
    by (rule runTenantCommand_steps) (auto intro: row_steps)
next
  case (resolve s e aarg enc_a)
  show ?case unfolding ResolveAssistCommand_def changeAssistCommand_def
    by (rule runTenantCommand_steps) (auto intro: row_steps)
next
  case (cancel s e aarg enc_a)
  show ?case unfolding CancelAssistCommand_def changeAssistCommand_def
    by (rule runTenantCommand_steps) (auto intro: row_steps)
next
  case (request s e rarg)
  show ?case unfolding RequestAssist_def
    by (rule inTenantTx_steps)
       (auto simp: tx_iffs lockTableOccupancy_def intro: row_step.created row_event rtranclp.rtrancl_into_rtrancl [OF r_into_rtranclp])
next
  case (guest_context s e0 e sha token)
  show ?case unfolding GuestContext_def case_result_snd
    by (auto split: sum.splits intro!: inTenantTx_steps intro: guestContextInTx_step)
next
  case (guest_request s e0 e sha garg enc_g)
  show ?case unfolding CreateGuestRequest_def Let_def
    by (auto simp: case_result_snd split: sum.splits intro: guestRequestCommand_steps guestCancelCommand_steps)
next
  case (guest_get s e0 e sha token i)
  show ?case unfolding GetGuestRequest_def case_result_snd
    by (auto split: sum.splits intro!: inTenantTx_steps simp: tx_iffs)
next
  case (guest_cancel s e0 e sha xarg enc_g)
  show ?case unfolding CancelGuestRequest_def case_result_snd
    by (auto split: sum.splits intro: guestRequestCommand_steps guestCancelCommand_steps)
next
  case (export_qr s e rnd sha org loc t label expires)
  show ?case unfolding ExportTableQRCapability_def
    by (auto split: sum.splits intro!: inTenantTx_steps simp: tx_iffs intro: qr_steps)
next
  case (rotate_qr s e rnd sha org loc t i)
  show ?case
  proof (cases "freshToken rnd sha")
    case (Inl err)
    then show ?thesis unfolding RotateTableQRCapability_def by (intro inTenantTx_steps) (simp add: tx_iffs)
  next
    case (Inr p)
    then show ?thesis unfolding RotateTableQRCapability_def
      by (intro inTenantTx_steps, cases p) (auto simp: tx_iffs intro: rtranclp_trans qr_steps)
  qed
next
  case (revoke_qr s e org loc t i)
  show ?case unfolding RevokeTableQRCapability_def
    by (rule inTenantTx_steps) (auto simp: tx_iffs intro: qr_steps)
qed


section \<open>Integrity\<close>

lemma qr_core [simp]: "core (s\<lparr>table_qr_capabilities := qs\<rparr>) = core s"
  by (simp add: core_def)

lemma idem_core [simp]: "core (s\<lparr>api_idempotency_records := rs\<rparr>) = core s"
  by (simp add: core_def)

lemma createGuestInTx_rows:
  assumes "createGuestInTx e q key (tenant_context (q_org q) (q_loc q)) s = Inr (r, s')"
  shows "s' = s \<or> (\<exists>i x. CreateAssistRequest e (tenant_context (q_org q) (q_loc q)) (gen e 0) (q_org q) (q_loc q) (q_table q) (Some i)
             (nullableText guestActorRef) GuestSource None (Some key) s = Inr (x, s'))"
  using assms by (cases r) (auto elim: createGuestInTx_InrE)

lemma cancelGuestInTx_row:
  "cancelGuestInTx e q i c s = Inr (r, s') \<Longrightarrow>
     CancelPendingGuestAssistRequest e c i (q_org q) (q_loc q) (nullableText guestActorRef) s = Inr (r, s')"
  by (auto simp: cancelGuestInTx_def tx_iffs)

lemma row_step_wf: "row_step s s' \<Longrightarrow> wf_db s \<Longrightarrow> wf_db s'"
proof (induction rule: row_step.induct)
  case (guest_created e q key s r s')
  then show ?case using createGuestInTx_rows CreateAssistRequest_wf by blast
next
  case (guest_cancelled e q i c s r s')
  then show ?case
    by (auto dest!: cancelGuestInTx_row simp: CancelPendingGuestAssistRequest_def intro: changeAssistRow_wf)
next
  case (event e ev s)
  from event(2) show ?case by (rule wf_with_event)
next
  case (recorded s r)
  then show ?case by (rule wf_idempotency)
next
  case (qr s qs)
  then show ?case by (subst wf_db_core [where s' = s]) simp_all
qed (blast intro: occupyTableInTx_wf clearTableInTx_wf changeAssistInTx_wf CreateAssistRequest_wf)+

lemma row_steps_wf: "row_step\<^sup>*\<^sup>* s s' \<Longrightarrow> wf_db s \<Longrightarrow> wf_db s'"
  by (induction rule: rtranclp_induct) (simp_all add: row_step_wf)

lemma op_step_wf: "op_step s s' \<Longrightarrow> wf_db s \<Longrightarrow> wf_db s'"
  using op_step_rows row_steps_wf by blast

lemma op_steps_rows: "op_step\<^sup>*\<^sup>* s s' \<Longrightarrow> row_step\<^sup>*\<^sup>* s s'"
  by (induction rule: rtranclp_induct) (auto dest: op_step_rows)


section \<open>Seats and versions\<close>

lemma seatOf_other_rows:
  "seatOf (s\<lparr>assist_requests := rs\<rparr>) = seatOf s"
  "seatOf (s\<lparr>table_qr_capabilities := qs\<rparr>) = seatOf s"
  by (rule seatOf_cong, simp)+

lemma changeAssistRow_frame:
  "changeAssistRow e c i org loc cond f s = Inr (r, s') \<Longrightarrow> \<exists>rs. s' = s\<lparr>assist_requests := rs\<rparr>"
  by (auto simp: changeAssistRow_def elim!: map_sum_InrE)

lemma changeAssistInTx_row:
  assumes "changeAssistInTx e arg status c s = Inr (r, s')"
  shows "\<exists>cond f. changeAssistRow e c (ca_AssistID arg) (ca_OrganisationID arg) (ca_LocationID arg) cond f s = Inr (r, s')"
  using assms by (auto simp: changeAssistInTx_def tx_iffs assist_update_defs split: if_splits)

text \<open>A row step moves no seat, or moves one seat to its next version.\<close>

lemma row_step_seats:
  assumes "row_step s s'" and wf: "wf_db s"
  shows "seatOf s' = seatOf s \<or>
    (\<exists>t st st'. seatOf s t = Some st \<and> seatOf s' = (seatOf s)(t \<mapsto> st') \<and> seatVersion st' = seatVersion st + 1)"
  using assms
proof (cases rule: row_step.cases)
  case (occupied e oarg c res)
  from occupyTableInTx_seat(1,2) [OF wf occupied] show ?thesis by (metis seatVersion.simps)
next
  case (cleared e carg c res)
  from clearTableInTx_seat(1,2) [OF wf cleared] show ?thesis by (metis seatVersion.simps)
next
  case (changed e aarg status c r)
  then show ?thesis using changeAssistInTx_row changeAssistRow_frame seatOf_other_rows(1) by metis
next
  case (created e c i org loc t si rb src nt r)
  then show ?thesis using CreateAssistRequest_Inr(2) seatOf_other_rows(1) by metis
next
  case (guest_created e q key r)
  from createGuestInTx_rows [OF this] show ?thesis
    by (auto dest!: CreateAssistRequest_Inr(2) simp: seatOf_other_rows)
next
  case (guest_cancelled e q i c r)
  from changeAssistRow_frame [OF cancelGuestInTx_row [OF this, unfolded CancelPendingGuestAssistRequest_def]]
  show ?thesis by (auto simp: seatOf_other_rows)
qed (simp_all add: seatOf_other_rows)

lemma row_step_seat_mono:
  assumes "row_step s s'" and "wf_db s" and "seatOf s t = Some st"
  shows "\<exists>st'. seatOf s' t = Some st' \<and> seatVersion st \<le> seatVersion st'"
  using row_step_seats [OF assms(1,2)] assms(3) by (auto split: if_splits)

lemma row_steps_seat_mono:
  assumes "row_step\<^sup>*\<^sup>* s s'" and "wf_db s" and "seatOf s t = Some st"
  shows "\<exists>st'. seatOf s' t = Some st' \<and> seatVersion st \<le> seatVersion st'"
  using assms
proof (induction rule: rtranclp_induct)
  case (step y z)
  then obtain st' where "seatOf y t = Some st'" "seatVersion st \<le> seatVersion st'" by blast
  with row_step_seat_mono [OF step(2) row_steps_wf [OF step(1) step(4)]] show ?case by fastforce
qed auto

end
