(* ===== verification/Lifecycle.thy ===== *)
theory Lifecycle
  imports Reach
begin

text \<open>
  What holds of every execution of the operations service: the lifecycle of an assist request, the
  exclusivity of optimistic locking (the locale \<open>versioned\<close>, interpreted on tables and on assists), and
  the uniqueness of pending guest requests.
\<close>

section \<open>Assist requests\<close>

definition assistOf :: "db \<Rightarrow> uuid \<Rightarrow> AssistRequest option" where
  "assistOf s i = find (\<lambda>r. a_id r = i) (assist_requests s)"

definition statusRank :: "string \<Rightarrow> nat" where
  "statusRank status =
     (if status = AssistStatusPending then 0 else if status = AssistStatusAcknowledged then 1 else 2)"

text \<open>
  \<open>assist_moves r r'\<close>: the row is unchanged, or its version grew and its status moved forward, while what
  the request is about stayed the same.
\<close>

definition sameRequestOf :: "AssistRequest \<Rightarrow> AssistRequest \<Rightarrow> bool" where
  "sameRequestOf r r' \<longleftrightarrow>
     a_id r' = a_id r \<and> a_org r' = a_org r \<and> a_loc r' = a_loc r \<and> a_table r' = a_table r \<and> a_session r' = a_session r \<and>
     a_source r' = a_source r \<and> a_action_key r' = a_action_key r \<and> a_note r' = a_note r \<and> a_requested_at r' = a_requested_at r"

definition assist_moves :: "AssistRequest \<Rightarrow> AssistRequest \<Rightarrow> bool" where
  "assist_moves r r' \<longleftrightarrow>
     r' = r \<or> (a_version r < a_version r' \<and> statusRank (a_status r) < statusRank (a_status r') \<and> sameRequestOf r r')"

lemma assist_moves_refl [simp]: "assist_moves r r"
  by (simp add: assist_moves_def)

lemma assist_moves_trans: "assist_moves a b \<Longrightarrow> assist_moves b c \<Longrightarrow> assist_moves a c"
  by (auto simp: assist_moves_def sameRequestOf_def)

definition assist_step :: "AssistRequest \<Rightarrow> AssistRequest \<Rightarrow> bool" where
  "assist_step r r' \<longleftrightarrow>
     a_version r' = a_version r + 1 \<and> statusRank (a_status r) < statusRank (a_status r') \<and> sameRequestOf r r'"

text \<open>What a row step does to the assists: nothing, one changed row, or one new pending row.\<close>

definition forward_update :: "int \<Rightarrow> (AssistRequest \<Rightarrow> bool) \<Rightarrow> (AssistRequest \<Rightarrow> AssistRequest) \<Rightarrow> bool" where
  "forward_update v cond f \<longleftrightarrow> (\<forall>r. cond r \<longrightarrow> assist_step r (f r) \<and> a_version r = v)"

lemma changeAssistInTx_update:
  assumes "changeAssistInTx e arg status c s = Inr (r', s')"
  shows "\<exists>cond f. forward_update (ca_ExpectedVersion arg) cond f \<and>
     changeAssistRow e c (ca_AssistID arg) (ca_OrganisationID arg) (ca_LocationID arg) cond f s = Inr (r', s')"
proof -
  note defs = assist_step_def statusRank_def sameRequestOf_def forward_update_def
  from assms consider
      "AcknowledgeAssistRequest e c (ca_AssistID arg) (ca_OrganisationID arg) (ca_LocationID arg)
         (nullableText (ca_ActorRef arg)) (ca_ExpectedVersion arg) s = Inr (r', s')"
    | "ResolveAssistRequest e c (ca_AssistID arg) (ca_OrganisationID arg) (ca_LocationID arg)
         (nullableText (ca_ActorRef arg)) (ca_ExpectedVersion arg) s = Inr (r', s')"
    | "CancelAssistRequest e c (ca_AssistID arg) (ca_OrganisationID arg) (ca_LocationID arg)
         (nullableText (ca_ActorRef arg)) (ca_ExpectedVersion arg) s = Inr (r', s')"
    by (auto simp: changeAssistInTx_def tx_iffs split: if_splits)
  then show ?thesis
    by cases (unfold assist_update_defs, (rule exI, rule exI, rule conjI [rotated], assumption, force simp: defs)+)
qed

lemma forward_row:
  assumes "changeAssistRow e c i org loc cond f s = Inr (r', s')" and "keys_ok s"
    and "\<And>r. cond r \<Longrightarrow> assist_step r (f r)"
  shows "\<exists>r \<in> set (assist_requests s). assist_step r r' \<and> cond r \<and> a_id r = i \<and> a_org r = org \<and> a_loc r = loc \<and>
     s' = s\<lparr>assist_requests := map (\<lambda>y. if a_id y = a_id r then r' else y) (assist_requests s)\<rparr>"
  using assms(1) by (rule changeAssistRow_InrE) (use assms(2,3) in \<open>auto simp: keys_ok_def\<close>)

lemma assist_update_step:
  assumes "changeAssistInTx e arg status c s = Inr (r', s')" and "keys_ok s"
  shows "\<exists>r \<in> set (assist_requests s). assist_step r r' \<and> a_version r = ca_ExpectedVersion arg \<and> a_id r = ca_AssistID arg \<and>
     s' = s\<lparr>assist_requests := map (\<lambda>y. if a_id y = a_id r then r' else y) (assist_requests s)\<rparr>"
proof -
  from changeAssistInTx_update [OF assms(1)] obtain cond f where fw: "forward_update (ca_ExpectedVersion arg) cond f"
    and ch: "changeAssistRow e c (ca_AssistID arg) (ca_OrganisationID arg) (ca_LocationID arg) cond f s = Inr (r', s')" by blast
  have "assist_step r (f r)" if "cond r" for r using fw that by (simp add: forward_update_def)
  from forward_row [OF ch assms(2) this] fw show ?thesis by (auto simp: forward_update_def)
qed

lemma guest_cancel_step:
  assumes "cancelGuestInTx e q i c s = Inr (r', s')" and "keys_ok s"
  shows "\<exists>r \<in> set (assist_requests s). assist_step r r' \<and> a_status r = AssistStatusPending \<and> a_source r = GuestSource \<and>
     a_id r = i \<and> a_org r = q_org q \<and> a_loc r = q_loc q \<and>
     s' = s\<lparr>assist_requests := map (\<lambda>y. if a_id y = a_id r then r' else y) (assist_requests s)\<rparr>"
proof -
  have "assist_step r (r\<lparr>a_status := AssistStatusCancelled, a_cancelled_at := t,
              a_cancelled_by := by, a_version := a_version r + 1, a_updated_at := u\<rparr>)"
    if "a_source r = ''guest_qr'' \<and> a_status r = AssistStatusPending" for r t "by" u
    using that by (simp add: assist_step_def statusRank_def sameRequestOf_def)
  from forward_row [OF cancelGuestInTx_row [OF assms(1), unfolded CancelPendingGuestAssistRequest_def] assms(2) this]
  show ?thesis by (auto simp: GuestSource_def)
qed

text \<open>The shape of every row step on the assists.\<close>

definition assist_change :: "db \<Rightarrow> db \<Rightarrow> bool" where
  "assist_change s s' \<longleftrightarrow>
     assist_requests s' = assist_requests s \<or>
     (\<exists>r r'. r \<in> set (assist_requests s) \<and> assist_step r r' \<and>
        assist_requests s' = map (\<lambda>y. if a_id y = a_id r then r' else y) (assist_requests s)) \<or>
     (\<exists>r. a_id r \<notin> a_id ` set (assist_requests s) \<and> a_status r = AssistStatusPending \<and>
        assist_requests s' = assist_requests s @ [r])"

lemma occupyTableInTx_assists:
  "keys_ok s \<Longrightarrow> occupyTableInTx e arg c s = Inr (res, s') \<Longrightarrow> assist_requests s' = assist_requests s"
  by (erule occupyTableInTx_InrE) auto

lemma clearTableInTx_assists:
  "keys_ok s \<Longrightarrow> clearTableInTx e arg c s = Inr (res, s') \<Longrightarrow> assist_requests s' = assist_requests s"
  by (erule clearTableInTx_InrE) auto

lemma assist_change_refl: "assist_change s s"
  by (simp add: assist_change_def)

lemma CreateAssistRequest_change:
  assumes "CreateAssistRequest e c i org loc t si rb src nt ak s = Inr (r, s')"
  shows "assist_change s s'"
  using CreateAssistRequest_Inr [OF assms] by (simp add: assist_change_def)

lemma row_step_assists: "row_step s s' \<Longrightarrow> keys_ok s \<Longrightarrow> assist_change s s'"
proof (induction rule: row_step.induct)
  case (occupied e oarg c s res s')
  then show ?case by (simp add: assist_change_def occupyTableInTx_assists)
next
  case (cleared e carg c s res s')
  then show ?case by (simp add: assist_change_def clearTableInTx_assists)
next
  case (changed e aarg status c s r s')
  from assist_update_step [OF this] show ?case by (fastforce simp: assist_change_def)
next
  case (created e c i org loc t si rb src nt s r s')
  from created(1) show ?case by (rule CreateAssistRequest_change)
next
  case (guest_created e q key s r s')
  from createGuestInTx_rows [OF guest_created(1)] show ?case
    using CreateAssistRequest_change assist_change_refl by blast
next
  case (guest_cancelled e q i c s r s')
  from guest_cancel_step [OF this] show ?case by (fastforce simp: assist_change_def)
qed (simp_all add: assist_change_def)

lemma assist_step_moves: "assist_step r r' \<Longrightarrow> assist_moves r r'"
  by (simp add: assist_step_def assist_moves_def)

lemma assist_change_moves:
  assumes ch: "assist_change s s'" and d: "keys_ok s" and r: "assistOf s i = Some r"
  shows "\<exists>r'. assistOf s' i = Some r' \<and> assist_moves r r'"
  using ch unfolding assist_change_def
proof (elim disjE exE conjE)
  fix x x' assume x: "x \<in> set (assist_requests s)" "assist_step x x'"
    and rs: "assist_requests s' = map (\<lambda>y. if a_id y = a_id x then x' else y) (assist_requests s)"
  have idx: "a_id x' = a_id x" using x(2) by (simp add: assist_step_def sameRequestOf_def)
  show ?thesis
  proof (cases "a_id x = i")
    case True
    with r x(1) d have "r = x" by (auto simp: assistOf_def keys_ok_def dest!: find_SomeD dest: distinct_key_eq)
    moreover have "assistOf s' i = Some x'" unfolding assistOf_def rs using True idx x(1)
      by (auto intro: find_map_self [of x])
    ultimately show ?thesis using assist_step_moves [OF x(2)] by simp
  next
    case False
    then have "assistOf s' i = assistOf s i" unfolding assistOf_def rs
      by (auto intro!: find_map_other simp: idx)
    with r show ?thesis by simp
  qed
qed (use r in \<open>simp_all add: assistOf_def find_append\<close>)

lemma row_steps_assist_moves:
  assumes "row_step\<^sup>*\<^sup>* s s'" and "wf_db s" and "assistOf s i = Some r"
  shows "\<exists>r'. assistOf s' i = Some r' \<and> assist_moves r r'"
  using assms
proof (induction rule: rtranclp_induct)
  case (step y z)
  then obtain r1 where "assistOf y i = Some r1" "assist_moves r r1" by blast
  moreover have "keys_ok y" using row_steps_wf [OF step(1) step(4)] by (rule wf_keys)
  ultimately show ?case
    using assist_change_moves [OF row_step_assists [OF step(2)]] assist_moves_trans by meson
qed auto


section \<open>Optimistic locking\<close>

text \<open>
  The contract of an entity with a version: steps never lower the version, and an operation that wins at
  version \<open>v\<close> found the version \<open>v\<close> and left \<open>v + 1\<close>. A client concludes that no two operations that
  expected the same version win in one execution.
\<close>

locale versioned =
  fixes inv :: "'s \<Rightarrow> bool" and step :: "'s \<Rightarrow> 's \<Rightarrow> bool" and version :: "'s \<Rightarrow> int option"
    and wins :: "int \<Rightarrow> 's \<Rightarrow> 's \<Rightarrow> bool"
  assumes inv_step: "inv s \<Longrightarrow> step s s' \<Longrightarrow> inv s'"
    and version_mono: "inv s \<Longrightarrow> step s s' \<Longrightarrow> version s = Some v \<Longrightarrow> \<exists>v'. version s' = Some v' \<and> v \<le> v'"
    and wins_step: "wins v s s' \<Longrightarrow> step s s'"
    and wins_version: "inv s \<Longrightarrow> wins v s s' \<Longrightarrow> version s = Some v \<and> version s' = Some (v + 1)"
begin

lemma inv_steps: "step\<^sup>*\<^sup>* s s' \<Longrightarrow> inv s \<Longrightarrow> inv s'"
  by (induction rule: rtranclp_induct) (auto dest: inv_step)

lemma version_mono_steps:
  assumes "step\<^sup>*\<^sup>* s s'" and "inv s" and "version s = Some v"
  shows "\<exists>v'. version s' = Some v' \<and> v \<le> v'"
  using assms
proof (induction rule: rtranclp_induct)
  case (step y z)
  then obtain w where "version y = Some w" "v \<le> w" by blast
  with version_mono [OF inv_steps [OF step(1) step(4)] step(2)] show ?case by fastforce
qed auto

lemma one_winner:
  assumes "inv s" and "wins v s s1" and "step\<^sup>*\<^sup>* s1 s2" and "w \<le> v"
  shows "\<not> wins w s2 s3"
proof
  assume w: "wins w s2 s3"
  have i1: "inv s1" using inv_step [OF assms(1) wins_step [OF assms(2)]] .
  have "version s1 = Some (v + 1)" using wins_version [OF assms(1,2)] by simp
  from version_mono_steps [OF assms(3) i1 this] obtain v' where "version s2 = Some v'" "v + 1 \<le> v'" by blast
  moreover have "version s2 = Some w" using wins_version [OF inv_steps [OF assms(3) i1] w] by simp
  ultimately show False using assms(4) by simp
qed

end

text \<open>The versions of a table and of an assist, and the operations that win on them.\<close>

definition tableVersion :: "uuid \<Rightarrow> db \<Rightarrow> int option" where
  "tableVersion t s = map_option seatVersion (seatOf s t)"

definition tableWins :: "uuid \<Rightarrow> int \<Rightarrow> db \<Rightarrow> db \<Rightarrow> bool" where
  "tableWins t v s s' \<longleftrightarrow>
     (\<exists>e arg enc res rep. op_TableID arg = t \<and> op_ExpectedVersion arg = v \<and>
        OccupyTableCommand e arg enc s = (Inr (Some res, rep), s')) \<or>
     (\<exists>e arg enc res rep. cl_TableID arg = t \<and> cl_ExpectedVersion arg = v \<and>
        ClearTableCommand e arg enc s = (Inr (Some res, rep), s'))"

definition assistVersion :: "uuid \<Rightarrow> db \<Rightarrow> int option" where
  "assistVersion i s = map_option a_version (assistOf s i)"

definition assistWins :: "uuid \<Rightarrow> int \<Rightarrow> db \<Rightarrow> db \<Rightarrow> bool" where
  "assistWins i v s s' \<longleftrightarrow>
     (\<exists>e arg enc res rep. ca_AssistID arg = i \<and> ca_ExpectedVersion arg = v \<and>
        (AcknowledgeAssistCommand e arg enc s = (Inr (Some res, rep), s') \<or>
         ResolveAssistCommand e arg enc s = (Inr (Some res, rep), s') \<or>
         CancelAssistCommand e arg enc s = (Inr (Some res, rep), s')))"

lemma commandBody_parts:
  assumes "commandBody e c org loc actorRef meta execute after encode s = Inr ((Some x, rep), s')"
  obtains s1 s2 where "execute c s = Inr (x, s1)" and "after c x s1 = Inr ((), s2)"
    and "\<exists>rs. s' = s2\<lparr>api_idempotency_records := rs\<rparr>"
  using assms
proof (rule commandBody_InrE)
  fix y s1 s2 status body
  assume 1: "execute c s = Inr (y, s1)" "after c y s1 = Inr ((), s2)"
    and v: "(Some x, rep) = (Some y, \<lparr>cr_Replayed = False, cr_Status = status, cr_Body = storedBody meta body\<rparr>)"
    and nil: "cm_ID meta = uuid_Nil \<Longrightarrow> s' = s2"
    and rec: "cm_ID meta \<noteq> uuid_Nil \<Longrightarrow> insertIdempotencyRow e c org loc meta status (storedBody meta body) s2 = Inr ((), s')"
  have "\<exists>rs. s' = s2\<lparr>api_idempotency_records := rs\<rparr>"
  proof (cases "cm_ID meta = uuid_Nil")
    case True
    with nil show ?thesis by (intro exI [of _ "api_idempotency_records s2"]) simp
  next
    case False
    from rec [OF False] show ?thesis by (rule insertIdempotencyRow_Inr) blast
  qed
  with 1 v show thesis by (intro that) auto
qed

lemmas command_parts = runTenantCommand_answer [THEN commandBody_parts]

lemma occupy_answer:
  assumes "OccupyTableCommand e arg enc s = (Inr (Some res, rep), s')"
  obtains s1 rs where "occupyTableInTx e arg (tenant_context (op_OrganisationID arg) (op_LocationID arg)) s = Inr (res, s1)"
    and "s' = (with_event e (occupyEvent arg res) s1)\<lparr>api_idempotency_records := rs\<rparr>"
  using assms unfolding OccupyTableCommand_def
  by (rule command_parts) (auto dest!: writeOperationalEvent_Inr(1) intro: that)

lemma clear_answer:
  assumes "ClearTableCommand e arg enc s = (Inr (Some res, rep), s')"
  obtains s1 rs where "clearTableInTx e arg (tenant_context (cl_OrganisationID arg) (cl_LocationID arg)) s = Inr (res, s1)"
    and "s' = (with_event e (clearEvent arg res) s1)\<lparr>api_idempotency_records := rs\<rparr>"
  using assms unfolding ClearTableCommand_def
  by (rule command_parts) (auto dest!: writeOperationalEvent_Inr(1) intro: that)

lemma assist_answer:
  assumes "changeAssistCommand e arg status type enc s = (Inr (Some res, rep), s')"
  obtains s1 rs where "changeAssistInTx e arg status (tenant_context (ca_OrganisationID arg) (ca_LocationID arg)) s = Inr (res, s1)"
    and "s' = (with_event e (changeAssistEvent arg type res) s1)\<lparr>api_idempotency_records := rs\<rparr>"
  using assms unfolding changeAssistCommand_def
  by (rule command_parts) (auto dest!: writeOperationalEvent_Inr(1) intro: that)

lemma assistOf_frame [simp]:
  "assistOf (with_event e ev s) i = assistOf s i"
  "assistOf (s\<lparr>api_idempotency_records := rs\<rparr>) i = assistOf s i"
  by (simp_all add: assistOf_def)

lemma occupy_answer_version:
  assumes wf: "wf_db s" and "OccupyTableCommand e arg enc s = (Inr (Some res, rep), s')"
  shows "tableVersion (op_TableID arg) s = Some (op_ExpectedVersion arg) \<and>
    tableVersion (op_TableID arg) s' = Some (op_ExpectedVersion arg + 1)"
  using assms(2)
proof (rule occupy_answer)
  fix s1 rs assume "occupyTableInTx e arg (tenant_context (op_OrganisationID arg) (op_LocationID arg)) s = Inr (res, s1)"
    and "s' = (with_event e (occupyEvent arg res) s1)\<lparr>api_idempotency_records := rs\<rparr>"
  with occupyTableInTx_seat(1,2) [OF wf] show ?thesis by (simp add: tableVersion_def)
qed

lemma clear_answer_version:
  assumes wf: "wf_db s" and "ClearTableCommand e arg enc s = (Inr (Some res, rep), s')"
  shows "tableVersion (cl_TableID arg) s = Some (cl_ExpectedVersion arg) \<and>
    tableVersion (cl_TableID arg) s' = Some (cl_ExpectedVersion arg + 1)"
  using assms(2)
proof (rule clear_answer)
  fix s1 rs assume "clearTableInTx e arg (tenant_context (cl_OrganisationID arg) (cl_LocationID arg)) s = Inr (res, s1)"
    and "s' = (with_event e (clearEvent arg res) s1)\<lparr>api_idempotency_records := rs\<rparr>"
  with clearTableInTx_seat(1,2) [OF wf] show ?thesis by (simp add: tableVersion_def)
qed

lemma assist_answer_version:
  assumes wf: "wf_db s" and "changeAssistCommand e arg status type enc s = (Inr (Some res, rep), s')"
  shows "assistVersion (ca_AssistID arg) s = Some (ca_ExpectedVersion arg) \<and>
    assistVersion (ca_AssistID arg) s' = Some (ca_ExpectedVersion arg + 1)"
  using assms(2)
proof (rule assist_answer)
  fix s1 rs assume ch: "changeAssistInTx e arg status (tenant_context (ca_OrganisationID arg) (ca_LocationID arg)) s = Inr (res, s1)"
    and s': "s' = (with_event e (changeAssistEvent arg type res) s1)\<lparr>api_idempotency_records := rs\<rparr>"
  from assist_update_step [OF ch wf_keys [OF wf]] obtain r where r: "r \<in> set (assist_requests s)" "assist_step r res"
      "a_version r = ca_ExpectedVersion arg" "a_id r = ca_AssistID arg"
    and s1: "s1 = s\<lparr>assist_requests := map (\<lambda>y. if a_id y = a_id r then res else y) (assist_requests s)\<rparr>" by blast
  have "assistOf s (ca_AssistID arg) = Some r" using wf r(1,4)
    by (auto simp: assistOf_def wf_db_def keys_ok_def intro: find_distinct_key [where k = a_id])
  moreover have "assistOf s1 (ca_AssistID arg) = Some res" using r(1,2,4)
    by (auto simp: assistOf_def s1 assist_step_def sameRequestOf_def intro: find_map_self [of r])
  ultimately show ?thesis using r(2,3) by (simp add: s' assistVersion_def assist_step_def)
qed

interpretation tableLock: versioned wf_db op_step "tableVersion t" "tableWins t" for t
proof
  fix s s' v
  show "wf_db s \<Longrightarrow> op_step s s' \<Longrightarrow> wf_db s'" by (rule op_step_wf)
  show "\<exists>v'. tableVersion t s' = Some v' \<and> v \<le> v'" if "wf_db s" "op_step s s'" "tableVersion t s = Some v"
    using that(3) row_steps_seat_mono [OF op_step_rows [OF that(2)] that(1)]
    by (fastforce simp: tableVersion_def)
  show "op_step s s'" if "tableWins t v s s'"
    using that unfolding tableWins_def by (metis op_step.occupy op_step.clear snd_conv)
  show "tableVersion t s = Some v \<and> tableVersion t s' = Some (v + 1)" if wf: "wf_db s" and "tableWins t v s s'"
    using that(2) occupy_answer_version [OF wf] clear_answer_version [OF wf] unfolding tableWins_def by blast
qed

interpretation assistLock: versioned wf_db op_step "assistVersion i" "assistWins i" for i
proof
  fix s s' v
  show "wf_db s \<Longrightarrow> op_step s s' \<Longrightarrow> wf_db s'" by (rule op_step_wf)
  show "\<exists>v'. assistVersion i s' = Some v' \<and> v \<le> v'" if "wf_db s" "op_step s s'" "assistVersion i s = Some v"
    using that(3) row_steps_assist_moves [OF op_step_rows [OF that(2)] that(1)]
    by (fastforce simp: assistVersion_def assist_moves_def)
  show "op_step s s'" if "assistWins i v s s'"
    using that unfolding assistWins_def by (metis op_step.acknowledge op_step.resolve op_step.cancel snd_conv)
  show "assistVersion i s = Some v \<and> assistVersion i s' = Some (v + 1)" if wf: "wf_db s" and "assistWins i v s s'"
    using that(2) assist_answer_version [OF wf]
    unfolding assistWins_def AcknowledgeAssistCommand_def ResolveAssistCommand_def CancelAssistCommand_def by blast
qed


section \<open>Pending guest requests\<close>

definition sameGuestRequest :: "AssistRequest \<Rightarrow> AssistRequest \<Rightarrow> bool" where
  "sameGuestRequest x y \<longleftrightarrow>
     a_source x = GuestSource \<and> a_source y = GuestSource \<and> a_status x = AssistStatusPending \<and> a_status y = AssistStatusPending \<and>
     a_org x = a_org y \<and> a_loc x = a_loc y \<and> a_table x = a_table y \<and> a_session x = a_session y \<and>
     a_action_key x = a_action_key y"

definition guest_unique :: "db \<Rightarrow> bool" where
  "guest_unique s \<longleftrightarrow>
     (\<forall>x \<in> set (assist_requests s). \<forall>y \<in> set (assist_requests s). sameGuestRequest x y \<longrightarrow> x = y)"

lemma guest_unique_cong: "assist_requests s = assist_requests s' \<Longrightarrow> guest_unique s = guest_unique s'"
  by (simp add: guest_unique_def)

lemma guest_unique_update:
  assumes "guest_unique s" and "assist_step r r'"
    and "assist_requests s' = map (\<lambda>y. if a_id y = a_id r then r' else y) (assist_requests s)"
  shows "guest_unique s'"
proof -
  have "a_status r' \<noteq> AssistStatusPending" using assms(2) by (auto simp: assist_step_def statusRank_def)
  then show ?thesis using assms(1,3) by (auto simp: guest_unique_def sameGuestRequest_def)
qed

lemma guest_unique_add:
  assumes "guest_unique s" and "assist_requests s' = assist_requests s @ [r]"
    and "\<And>x. x \<in> set (assist_requests s) \<Longrightarrow> \<not> sameGuestRequest x r \<and> \<not> sameGuestRequest r x"
  shows "guest_unique s'"
  using assms by (auto simp: guest_unique_def)

lemma no_key_no_guest: "assistCheck r = None \<Longrightarrow> a_action_key r = None \<Longrightarrow> a_source r \<noteq> GuestSource"
  by (auto simp: assistCheck_def firstViolation_None GuestSource_def)

lemma createGuestInTx_unique:
  assumes "createGuestInTx e q key (tenant_context (q_org q) (q_loc q)) s = Inr (r, s')" and "guest_unique s"
  shows "guest_unique s'"
proof (cases r)
  case (Pair x new)
  from assms(1) [unfolded Pair] show ?thesis
  proof (cases rule: createGuestInTx_InrE)
    case (joined i)
    with assms(2) show ?thesis by simp
  next
    case (created l occ i)
    note c = CreateAssistRequest_Inr [OF created(14)]
    show ?thesis
    proof (rule guest_unique_add [OF assms(2)])
      show "assist_requests s' = assist_requests s @ [x]" using c(2) by simp
      show "\<not> sameGuestRequest y x \<and> \<not> sameGuestRequest x y" if "y \<in> set (assist_requests s)" for y
        using created(12) that c(1) by (auto simp: sameGuestRequest_def sameGuestKey_def)
    qed
  qed
qed

lemma row_step_guest_unique: "row_step s s' \<Longrightarrow> keys_ok s \<Longrightarrow> guest_unique s \<Longrightarrow> guest_unique s'"
proof (induction rule: row_step.induct)
  case (occupied e oarg c s res s')
  then show ?case using guest_unique_cong [OF occupyTableInTx_assists] by blast
next
  case (cleared e carg c s res s')
  then show ?case using guest_unique_cong [OF clearTableInTx_assists] by blast
next
  case (changed e aarg status c s r s')
  from assist_update_step [OF changed(1,2)] changed(3) show ?case by (auto intro: guest_unique_update)
next
  case (created e c i org loc t si rb src nt s r s')
  note c = CreateAssistRequest_Inr [OF created(1)]
  have "a_source r \<noteq> GuestSource" using c(1) no_key_no_guest [OF c(4)] by simp
  with created(3) show ?case
    by (intro guest_unique_add [where s' = s']) (auto simp: c(2) sameGuestRequest_def)
next
  case (guest_created e q key s r s')
  then show ?case by (blast intro: createGuestInTx_unique)
next
  case (guest_cancelled e q i c s r s')
  from guest_cancel_step [OF guest_cancelled(1,2)] guest_cancelled(3) show ?case by (auto intro: guest_unique_update)
qed (simp_all add: guest_unique_def)

lemma row_steps_guest_unique:
  assumes "row_step\<^sup>*\<^sup>* s s'" and "wf_db s" and "guest_unique s"
  shows "guest_unique s'"
  using assms
proof (induction rule: rtranclp_induct)
  case (step y z)
  then show ?case using row_step_guest_unique wf_keys row_steps_wf by blast
qed


section \<open>Every execution of the service\<close>

text \<open>What \<open>wf_db\<close> says of the tables, in plain terms.\<close>

definition seats_consistent :: "db \<Rightarrow> bool" where
  "seats_consistent s \<longleftrightarrow>
     (\<forall>r \<in> set (table_occupancy s).
        (o_status r = TableStatusOccupied \<longleftrightarrow> o_current_session r \<noteq> None) \<and>
        (\<forall>i. o_current_session r = Some i \<longrightarrow>
           (\<exists>x \<in> set (table_sessions s). s_id x = i \<and> s_table x = o_table r \<and> s_ended_at x = None))) \<and>
     (\<forall>x \<in> set (table_sessions s). \<forall>y \<in> set (table_sessions s).
        s_ended_at x = None \<and> s_ended_at y = None \<and> s_table x = s_table y \<longrightarrow> x = y)"

lemma wf_seats_consistent:
  assumes wf: "wf_db s"
  shows "seats_consistent s"
  unfolding seats_consistent_def
proof (intro conjI ballI impI allI)
  fix r assume r: "r \<in> set (table_occupancy s)"
  show "(o_status r = TableStatusOccupied) = (o_current_session r \<noteq> None)"
    using occupancyCheckD [OF wf_row_check [OF wf r]] by auto
  show "\<exists>x\<in>set (table_sessions s). s_id x = i \<and> s_table x = o_table r \<and> s_ended_at x = None"
    if i: "o_current_session r = Some i" for i
  proof -
    have "links_ok s" using wf by (simp add: wf_db_def)
    with r i obtain x where "x \<in> set (table_sessions s)" "current_of x r" unfolding links_ok_def by blast
    with i show ?thesis unfolding current_of_def by auto
  qed
next
  fix x y assume x: "x \<in> set (table_sessions s)" and y: "y \<in> set (table_sessions s)"
    and o: "s_ended_at x = None \<and> s_ended_at y = None \<and> s_table x = s_table y"
  from wf x o obtain r where r: "r \<in> set (table_occupancy s)" "current_of x r" by (auto simp: wf_db_def links_ok_def)
  from wf y o obtain q where q: "q \<in> set (table_occupancy s)" "current_of y q" by (auto simp: wf_db_def links_ok_def)
  have "o_table r = o_table q" using r q o by (simp add: current_of_def)
  with wf r q have "r = q" by (auto simp: wf_db_def keys_ok_def dest: distinct_key_eq)
  with r q have "s_id x = s_id y" by (simp add: current_of_def)
  with wf x y show "x = y" by (auto simp: wf_db_def keys_ok_def dest: distinct_key_eq)
qed

definition sampleRequest :: RequestAssistParams where
  "sampleRequest =
     \<lparr>ra_OrganisationID = 1, ra_LocationID = 2, ra_TableID = 3, ra_RequestedBy = ''alice'', ra_Source = ''staff'', ra_Note = ''''\<rparr>"

definition sampleChange :: "int \<Rightarrow> ChangeAssistParams" where
  "sampleChange v =
     \<lparr>ca_OrganisationID = 1, ca_LocationID = 2, ca_AssistID = 200, ca_ExpectedVersion = v, ca_ActorRef = ''bob'',
      ca_Command = sampleMeta (80 + of_int v)\<rparr>"

definition sampleWorld :: "uuid \<Rightarrow> env" where
  "sampleWorld k = sampleEnv\<lparr>gen := (\<lambda>n. 100 * k + of_nat n)\<rparr>"

definition sampleAssisted :: db where
  "sampleAssisted = snd (RequestAssist (sampleWorld 2) sampleRequest sampleSeated)"

definition sampleAcknowledged :: db where
  "sampleAcknowledged = snd (AcknowledgeAssistCommand (sampleWorld 3) (sampleChange 1) None sampleAssisted)"

lemma sample_execution:
  "op_step sampleDb sampleSeated" "op_step sampleSeated sampleAssisted" "op_step sampleAssisted sampleAcknowledged"
  unfolding sampleSeated_def sampleAssisted_def sampleAcknowledged_def by (rule op_step.intros)+

lemma sample_executions:
  "op_step\<^sup>*\<^sup>* sampleDb sampleAcknowledged" "op_step\<^sup>*\<^sup>* sampleAssisted sampleAcknowledged" "wf_db sampleAssisted"
proof -
  show "op_step\<^sup>*\<^sup>* sampleAssisted sampleAcknowledged" using sample_execution by blast
  show "op_step\<^sup>*\<^sup>* sampleDb sampleAcknowledged" using sample_execution by (meson converse_rtranclp_into_rtranclp rtranclp.rtrancl_refl)
  show "wf_db sampleAssisted" using sample_execution(1,2) sample_wf op_step_wf by blast
qed

text \<open>
  C3. Integrity: in every database the service reaches from a well-formed one, in any order of operations,
  with any failures, a table is occupied exactly when it has a current session, that session is an
  open session of this very table, and no table has two open sessions.
\<close>
theorem reachable_integrity:
  assumes "wf_db s0" and "op_step\<^sup>*\<^sup>* s0 s"
  shows "wf_db s \<and> seats_consistent s"
  using row_steps_wf [OF op_steps_rows [OF assms(2)] assms(1)] wf_seats_consistent by blast

text \<open>Witness of C3: the sample restaurant after a party sat down, asked for help and was answered.\<close>
theorem reachable_integrity_witness:
  "wf_db sampleAcknowledged \<and> seats_consistent sampleAcknowledged \<and> table_sessions sampleAcknowledged \<noteq> []"
proof -
  have "table_sessions sampleAcknowledged \<noteq> []" by code_simp
  with reachable_integrity [OF sample_wf sample_executions(1)] show ?thesis by blast
qed

text \<open>
  C4. Exclusive changes of a table: once an occupy or clear command that expected version \<open>v\<close> has
  succeeded, no later command that expects \<open>v\<close> or an earlier version of that table succeeds, whatever
  happens in between.
\<close>
theorem one_winner_per_table_version:
  assumes "wf_db s" and "tableWins t v s s1" and "op_step\<^sup>*\<^sup>* s1 s2" and "w \<le> v"
  shows "\<not> tableWins t w s2 s3"
  using assms by (rule tableLock.one_winner)

text \<open>Witness of C4: after the sample table was occupied at version 1, a second occupation at 1 cannot win.\<close>
theorem one_winner_per_table_version_witness:
  "tableWins 3 1 sampleDb sampleSeated \<and> (\<nexists>s3. tableWins 3 1 sampleAcknowledged s3)"
proof -
  have "case OccupyTableCommand sampleEnv sampleOccupy None sampleDb of (Inr (Some x, rep), s') \<Rightarrow> True | _ \<Rightarrow> False"
    by code_simp
  then obtain x rep where "OccupyTableCommand sampleEnv sampleOccupy None sampleDb = (Inr (Some x, rep), sampleSeated)"
    by (auto simp: sampleSeated_def split: prod.splits sum.splits option.splits)
  moreover have "op_TableID sampleOccupy = 3" "op_ExpectedVersion sampleOccupy = 1" by (simp_all add: sample_defs)
  ultimately have w: "tableWins 3 1 sampleDb sampleSeated" unfolding tableWins_def by blast
  have "op_step\<^sup>*\<^sup>* sampleSeated sampleAcknowledged" using sample_execution by (meson converse_rtranclp_into_rtranclp rtranclp.rtrancl_refl)
  from one_winner_per_table_version [OF sample_wf w this] w show ?thesis by simp
qed

text \<open>
  Exclusive changes of an assist request: of the acknowledge, resolve and cancel commands that expect
  version \<open>v\<close> of a request, or an earlier one, at most one succeeds.
\<close>
theorem one_winner_per_assist_version:
  assumes "wf_db s" and "assistWins i v s s1" and "op_step\<^sup>*\<^sup>* s1 s2" and "w \<le> v"
  shows "\<not> assistWins i w s2 s3"
  using assms by (rule assistLock.one_winner)

text \<open>Example: the sample request is acknowledged at version 1; no other change expecting 1 wins.\<close>
theorem one_winner_per_assist_version_witness:
  "assistWins 200 1 sampleAssisted sampleAcknowledged \<and> (\<nexists>s3. assistWins 200 1 sampleAcknowledged s3)"
proof -
  have "case AcknowledgeAssistCommand (sampleWorld 3) (sampleChange 1) None sampleAssisted of (Inr (Some x, rep), s') \<Rightarrow> True | _ \<Rightarrow> False"
    by code_simp
  then obtain x rep where "AcknowledgeAssistCommand (sampleWorld 3) (sampleChange 1) None sampleAssisted = (Inr (Some x, rep), sampleAcknowledged)"
    by (auto simp: sampleAcknowledged_def split: prod.splits sum.splits option.splits)
  moreover have "ca_AssistID (sampleChange 1) = 200" "ca_ExpectedVersion (sampleChange 1) = 1" by (simp_all add: sampleChange_def)
  ultimately have w: "assistWins 200 1 sampleAssisted sampleAcknowledged" unfolding assistWins_def by blast
  from one_winner_per_assist_version [OF sample_executions(3) w rtranclp.rtrancl_refl] w show ?thesis by simp
qed

text \<open>
  C5. The lifecycle of an assist request: in every later database the request is still there and either
  untouched, or at a later version with a status further along pending, acknowledged, resolved or
  cancelled; it is still about the same table, session and action. A resolved or cancelled request
  never changes again.
\<close>
theorem assist_lifecycle:
  assumes "wf_db s" and "op_step\<^sup>*\<^sup>* s s'" and "assistOf s i = Some r"
  shows "\<exists>r'. assistOf s' i = Some r' \<and> assist_moves r r' \<and>
           (a_status r \<notin> {AssistStatusPending, AssistStatusAcknowledged} \<longrightarrow> r' = r)"
  using row_steps_assist_moves [OF op_steps_rows [OF assms(2)] assms(1,3)]
  by (auto simp: assist_moves_def statusRank_def split: if_splits)

text \<open>Witness of C5: the sample request moves from pending to acknowledged.\<close>
theorem assist_lifecycle_witness:
  "\<exists>r r'. assistOf sampleAssisted 200 = Some r \<and> a_status r = AssistStatusPending \<and>
     assistOf sampleAcknowledged 200 = Some r' \<and> assist_moves r r' \<and> a_status r' = AssistStatusAcknowledged"
proof -
  have "case assistOf sampleAssisted 200 of None \<Rightarrow> False | Some r \<Rightarrow> a_status r = AssistStatusPending" by code_simp
  then obtain r where r: "assistOf sampleAssisted 200 = Some r" "a_status r = AssistStatusPending" by (auto split: option.splits)
  have "case assistOf sampleAcknowledged 200 of None \<Rightarrow> False | Some r \<Rightarrow> a_status r = AssistStatusAcknowledged" by code_simp
  with assist_lifecycle [OF sample_executions(3) sample_executions(2) r(1)] r show ?thesis by auto
qed

text \<open>
  No duplicate calls: in every database the service reaches, a table's session has at most one pending
  guest request for each action.
\<close>
theorem guest_requests_unique:
  assumes "wf_db s0" and "guest_unique s0" and "op_step\<^sup>*\<^sup>* s0 s"
  shows "guest_unique s"
  using row_steps_guest_unique [OF op_steps_rows [OF assms(3)] assms(1,2)] .

text \<open>Example: the sample execution.\<close>
theorem guest_requests_unique_witness: "guest_unique sampleAcknowledged"
  by (rule guest_requests_unique [OF sample_wf _ sample_executions(1)]) code_simp

end
