(* ===== verification/Tokens.thy ===== *)
theory Tokens
  imports Lifecycle
begin

text \<open>
  What the tokens of printed QR codes promise: a token resolves only to its own live capability, a fresh
  token resolves, a revoked capability never resolves again, and a guest request is admitted only under
  the rules of the location. The last section states the finding that the resolution finds nothing when
  the database role is subject to row security.
\<close>

section \<open>Resolution\<close>

lemma commitTx_Inr:
  "commitTx e site v before after = (Inr w, s') \<longleftrightarrow>
     w = v \<and> s' = after \<and> deferredConstraints after \<and> commit e = Committed"
  by (auto simp: commitTx_def split: commit_outcome.splits)

lemma inTx_Inr:
  "inTx e fn s = (Inr v, s') \<longleftrightarrow>
     \<not> fault e ''beginning transaction'' \<and> fn no_context s = Inr (v, s') \<and> deferredConstraints s' \<and> commit e = Committed"
  by (auto simp: inTx_def commitTx_Inr split: sum.splits)

lemma inTenantTx_Inr:
  "inTenantTx e org loc fn s = (Inr v, s') \<longleftrightarrow>
     \<not> fault e ''beginning transaction'' \<and> \<not> fault e ''setting tenant context'' \<and>
     fn (tenant_context org loc) s = Inr (v, s') \<and> deferredConstraints s' \<and> commit e = Committed"
  by (auto simp: inTenantTx_def commitTx_Inr split: sum.splits)

lemma resolveQRCapability_Inr:
  assumes "resolveQRCapability e sha token s = (Inr q, s')"
  shows "q \<in> set (table_qr_capabilities s)" and "q_token_hash q = sha (trimSpace token)"
    and "q_token_lookup_prefix q = take 16 (trimSpace token)" and "activeCapability e no_context s q" and "q_id q \<noteq> uuid_Nil"
    and "s' = s"
  using assms
  by (auto simp: resolveQRCapability_def TokenLookupParts_def Let_def inTx_Inr tx_iffs guestTokenPrefixLength_def
      ListActiveTableQRCapabilitiesByPrefix_def split: if_splits option.splits dest!: find_SomeD)

text \<open>
  A token opens only its own capability: when a token resolves, the capability found carries the hash
  of this token, is neither revoked nor expired, and belongs to a live table of an active location of
  the same tenant; resolving changes nothing.
\<close>
theorem resolved_token_sound:
  assumes "resolveQRCapability e sha token s = (Inr q, s')"
  shows "s' = s \<and> q \<in> set (table_qr_capabilities s) \<and> q_token_hash q = sha (trimSpace token) \<and> q_revoked_at q = None \<and>
    (case q_expires_at q of None \<Rightarrow> True | Some t \<Rightarrow> now e < t) \<and>
    (\<exists>t \<in> set (tables s). t_id t = q_table q \<and> t_org t = q_org q \<and> t_loc t = q_loc q \<and> t_is_active t \<and> t_deleted_at t = None) \<and>
    (\<exists>l \<in> set (locations s). l_id l = q_loc q \<and> l_org l = q_org q \<and> l_status l = ''active'')"
  using resolveQRCapability_Inr [OF assms] by (auto simp: activeCapability_def liveTable_def)

text \<open>
  Under row security no token resolves: the resolution runs without a tenant context, so a role that
  is subject to the policies of the tables sees no capability, and every guest call ends in an error.
\<close>
theorem tokens_unresolvable_under_row_security:
  assumes "rls e"
  shows "fst (resolveQRCapability e sha token s) \<noteq> Inr q"
proof
  assume "fst (resolveQRCapability e sha token s) = Inr q"
  then have "resolveQRCapability e sha token s = (Inr q, snd (resolveQRCapability e sha token s))"
    by (cases "resolveQRCapability e sha token s") simp
  from resolveQRCapability_Inr(4) [OF this] assms show False
    by (simp add: activeCapability_def visible_def seatd_has_location_access_def no_context_def)
qed


section \<open>Issuing and revoking\<close>

lemma base64Char_token: "tokenByte (base64Char n)"
proof -
  have "list_all tokenByte ''ABCDEFGHIJKLMNOPQRSTUVWXYZabcdefghijklmnopqrstuvwxyz0123456789-_''" by code_simp
  moreover have "base64Char n \<in> set ''ABCDEFGHIJKLMNOPQRSTUVWXYZabcdefghijklmnopqrstuvwxyz0123456789-_''"
    unfolding base64Char_def by (rule nth_mem) simp
  ultimately show ?thesis unfolding list_all_iff by blast
qed

lemma base64_tokens: "list_all tokenByte (base64RawURL bs)"
  by (induction bs rule: base64RawURL.induct) (simp_all add: base64Char_token)

lemma length_base64: "length (base64RawURL bs) = (4 * length bs + 2) div 3"
  by (induction bs rule: base64RawURL.induct) simp_all

text \<open>The token that 32 random bytes give has 43 characters and survives trimming.\<close>

lemma freshToken_parts:
  assumes "rnd DefaultCapabilityTokenBytes = Some buf" and "length buf = 32"
  shows "freshToken rnd sha = Inr (base64RawURL buf, take 16 (base64RawURL buf), sha (base64RawURL buf))"
    and "trimSpace (base64RawURL buf) = base64RawURL buf" and "length (base64RawURL buf) = 43"
proof -
  show l: "length (base64RawURL buf) = 43" using assms(2) by (simp add: length_base64)
  show t: "trimSpace (base64RawURL buf) = base64RawURL buf"
    using base64_tokens [of buf] l by (intro trimSpace_token) (auto simp: list_all_iff)
  show "freshToken rnd sha = Inr (base64RawURL buf, take 16 (base64RawURL buf), sha (base64RawURL buf))"
    using assms(1) l t
    by (simp add: freshToken_def GenerateCapabilityToken_def GenerateCapabilityTokenWithBytes_def
        TokenLookupParts_def Let_def guestTokenPrefixLength_def)
qed

lemma insert_wrapped:
  assumes "map_sum id (\<lambda>(r', rs). (r', upd rs)) (insertRow conflict viol r rows) = Inr (q, s')"
  shows "q = r \<and> s' = upd (rows @ [r]) \<and> (\<forall>x \<in> set rows. \<not> conflict x r)"
  using assms by (auto simp: insertRow_Inr elim!: map_sum_InrE)

lemma CreateTableQRCapabilityHashed_Inr:
  assumes "CreateTableQRCapabilityHashed e c i org loc t p h l x s = Inr (q, s')"
  shows "q = \<lparr>q_id = i, q_org = org, q_loc = loc, q_table = t, q_token = p, q_label = Some l,
               q_issued_at = now e, q_expires_at = x, q_revoked_at = None, q_version = 1,
               q_created_at = now e, q_updated_at = now e, q_token_lookup_prefix = p, q_token_hash = h,
               q_last_used_at = None\<rparr>"
    and "s' = s\<lparr>table_qr_capabilities := table_qr_capabilities s @ [q]\<rparr>"
    and "\<forall>y \<in> set (table_qr_capabilities s). q_id y \<noteq> i \<and> q_token_hash y \<noteq> h"
  using insert_wrapped [OF assms [unfolded CreateTableQRCapabilityHashed_def Let_def]] by auto

text \<open>The one capability with a hash, when it is active, is what its token resolves to.\<close>

lemma resolves_to:
  assumes "length (trimSpace token) \<ge> 16" and "q \<in> set (table_qr_capabilities s)"
    and "q_token_hash q = sha (trimSpace token)" and "q_token_lookup_prefix q = take 16 (trimSpace token)"
    and "\<And>y. y \<in> set (table_qr_capabilities s) \<Longrightarrow> q_token_hash y = sha (trimSpace token) \<Longrightarrow> y = q"
    and "activeCapability e no_context s q" and "q_id q \<noteq> uuid_Nil" and "quiet e" and "deferredConstraints s"
  shows "resolveQRCapability e sha token s = (Inr q, s)"
proof -
  let ?cs = "ListActiveTableQRCapabilitiesByPrefix e no_context (take 16 (trimSpace token)) s"
  have q: "q \<in> set ?cs" using assms(2,4,6) by (simp add: ListActiveTableQRCapabilitiesByPrefix_def)
  have only: "y = q" if "y \<in> set ?cs" "q_token_hash y = sha (trimSpace token)" for y
    using that assms(5) by (simp add: ListActiveTableQRCapabilitiesByPrefix_def)
  have "find (\<lambda>c. q_token_hash c = sha (trimSpace token)) ?cs = Some q"
  proof (cases "find (\<lambda>c. q_token_hash c = sha (trimSpace token)) ?cs")
    case None
    with q assms(3) show ?thesis by (simp add: find_None_iff)
  next
    case (Some y)
    with find_SomeD [OF Some] only [of y] show ?thesis by simp
  qed
  then show ?thesis using assms(1,7,8,9)
    by (simp add: resolveQRCapability_def TokenLookupParts_def Let_def guestTokenPrefixLength_def inTx_def quiet_def
        commitTx_def)
qed

text \<open>
  A token that was just issued resolves: the token of an export, read back in a world that is not
  subject to row security, opens the capability the export created, for its table and tenant, as long as
  the table is live, the location active and the expiry not reached.
\<close>
theorem exported_token_resolves:
  assumes "ExportTableQRCapability e rnd sha org loc t label expires s = (Inr x, s')"
    and "rnd DefaultCapabilityTokenBytes = Some buf" and "length buf = 32" and "gen e 0 \<noteq> uuid_Nil"
    and "quiet e'" and "\<not> rls e'" and "case expires of None \<Rightarrow> True | Some u \<Rightarrow> now e' < u"
    and "y \<in> set (tables s)" "t_id y = t" "t_org y = org" "t_loc y = loc" "liveTable y"
    and "l \<in> set (locations s)" "l_id l = loc" "l_org l = org" "l_status l = ''active''"
  shows "\<exists>q. resolveQRCapability e' sha (qe_Token x) s' = (Inr q, s') \<and>
           q_id q = qe_ID x \<and> q_org q = org \<and> q_loc q = loc \<and> q_table q = t"
proof -
  let ?tok = "base64RawURL buf"
  note f1 = freshToken_parts(1) [where rnd = rnd and buf = buf and sha = sha, OF assms(2,3)]
  note f = freshToken_parts(2,3) [where rnd = rnd and buf = buf, OF assms(2,3)]
  from assms(1) f1 obtain q where cr: "CreateTableQRCapabilityHashed e (tenant_context org loc) (gen e 0) org loc t
      (take 16 ?tok) (sha ?tok) (trimSpace label) expires s = Inr (q, s')"
    and x: "x = qrExportFromDB q ?tok" and d: "deferredConstraints s'"
    by (auto simp: ExportTableQRCapability_def inTenantTx_Inr tx_iffs)
  note c = CreateTableQRCapabilityHashed_Inr [OF cr]
  have "resolveQRCapability e' sha ?tok s' = (Inr q, s')"
  proof (rule resolves_to)
    show "16 \<le> length (trimSpace ?tok)" using f by simp
    show "q \<in> set (table_qr_capabilities s')" by (simp add: c(2))
    show "q_token_hash q = sha (trimSpace ?tok)" "q_token_lookup_prefix q = take 16 (trimSpace ?tok)"
      using f(1) by (simp_all add: c(1))
    show "z = q" if "z \<in> set (table_qr_capabilities s')" "q_token_hash z = sha (trimSpace ?tok)" for z
      using that c(3) f(1) by (auto simp: c(2))
    show "activeCapability e' no_context s' q"
      using assms(6-) by (auto simp: activeCapability_def visible_def c(1,2))
    show "q_id q \<noteq> uuid_Nil" using assms(4) by (simp add: c(1))
  qed (use assms(5) d in simp_all)
  then show ?thesis by (intro exI [of _ q]) (simp add: x qrExportFromDB_def c(1))
qed

definition sampleRandom :: "nat \<Rightarrow> bytes option" where
  "sampleRandom n = Some (replicate n 7)"

definition sampleHash :: "string \<Rightarrow> bytes" where
  "sampleHash token = replicate 24 0 @ map of_char (take 8 token)"

definition sampleOpen :: env where
  "sampleOpen = sampleEnv\<lparr>rls := False\<rparr>"

text \<open>Example: a token for the sample table.\<close>
theorem exported_token_resolves_witness:
  "\<exists>x s' q. ExportTableQRCapability sampleEnv sampleRandom sampleHash 1 2 3 ''window'' None sampleDb = (Inr x, s') \<and>
     resolveQRCapability sampleOpen sampleHash (qe_Token x) s' = (Inr q, s') \<and> q_table q = 3"
proof -
  let ?r = "ExportTableQRCapability sampleEnv sampleRandom sampleHash 1 2 3 ''window'' None sampleDb"
  have "case fst ?r of Inl err \<Rightarrow> False | Inr x \<Rightarrow> True" by code_simp
  then obtain x where x: "?r = (Inr x, snd ?r)" by (cases ?r) (auto split: sum.splits)
  have "\<exists>q. resolveQRCapability sampleOpen sampleHash (qe_Token x) (snd ?r) = (Inr q, snd ?r) \<and>
           q_id q = qe_ID x \<and> q_org q = 1 \<and> q_loc q = 2 \<and> q_table q = 3"
  proof (rule exported_token_resolves [OF x, where buf = "replicate 32 7" and y = sampleTable and l = sampleLocation])
    show "quiet sampleOpen" by (simp add: quiet_def no_faults_def sampleOpen_def sampleEnv_def)
  qed (code_simp | simp add: sampleRandom_def DefaultCapabilityTokenBytes_def)+
  with x show ?thesis by blast
qed


text \<open>Under every step capabilities only gain rows and never lose a revocation.\<close>

definition revokedForGood :: "uuid \<Rightarrow> db \<Rightarrow> bool" where
  "revokedForGood i s \<longleftrightarrow>
     i \<in> q_id ` set (table_qr_capabilities s) \<and>
     (\<forall>q \<in> set (table_qr_capabilities s). q_id q = i \<longrightarrow> q_revoked_at q \<noteq> None)"

lemma qr_update_refl: "qr_update qs qs"
  unfolding qr_update_def by (intro exI [of _ id] exI [of _ "[]"]) auto

lemma qr_update_revoked:
  assumes "qr_update (table_qr_capabilities s) (table_qr_capabilities s')" and "revokedForGood i s"
  shows "revokedForGood i s'"
proof -
  from assms(1) obtain f new where q': "table_qr_capabilities s' = map f (table_qr_capabilities s) @ new"
    and f: "\<And>q. q_id (f q) = q_id q" "\<And>q. q_revoked_at q \<noteq> None \<Longrightarrow> q_revoked_at (f q) \<noteq> None"
    and new: "\<And>q. q \<in> set new \<Longrightarrow> q_id q \<notin> q_id ` set (table_qr_capabilities s)"
    unfolding qr_update_def by blast
  from assms(2) obtain r where "r \<in> set (table_qr_capabilities s)" "q_id r = i" by (auto simp: revokedForGood_def)
  then have "f r \<in> set (table_qr_capabilities s')" "q_id (f r) = i" using f(1) by (auto simp: q')
  moreover have "q_revoked_at q \<noteq> None" if "q \<in> set (table_qr_capabilities s')" "q_id q = i" for q
  proof (cases "q \<in> set new")
    case True
    with new [OF True] that(2) assms(2) show ?thesis by (simp add: revokedForGood_def)
  next
    case False
    with that(1) obtain p where "p \<in> set (table_qr_capabilities s)" "q = f p" by (auto simp: q')
    with that(2) f assms(2) show ?thesis by (simp add: revokedForGood_def)
  qed
  ultimately show ?thesis unfolding revokedForGood_def by blast
qed

lemma row_step_capabilities:
  "row_step s s' \<Longrightarrow> keys_ok s \<Longrightarrow> qr_update (table_qr_capabilities s) (table_qr_capabilities s')"
proof (induction rule: row_step.induct)
  case (occupied e oarg c s res s')
  then have "table_qr_capabilities s' = table_qr_capabilities s" by (elim occupyTableInTx_InrE) auto
  then show ?case by (simp add: qr_update_refl)
next
  case (cleared e carg c s res s')
  then have "table_qr_capabilities s' = table_qr_capabilities s" by (elim clearTableInTx_InrE) auto
  then show ?case by (simp add: qr_update_refl)
next
  case (changed e aarg status c s r s')
  from assist_update_step [OF this] show ?case by (auto simp: qr_update_refl)
next
  case (created e c i org loc t si rb src nt s r s')
  from CreateAssistRequest_Inr(2) [OF created(1)] show ?case by (simp add: qr_update_refl)
next
  case (guest_created e q key s r s')
  from createGuestInTx_rows [OF guest_created(1)] show ?case
    by (auto simp: qr_update_refl dest!: CreateAssistRequest_Inr(2))
next
  case (guest_cancelled e q i c s r s')
  from guest_cancel_step [OF this] show ?case by (auto simp: qr_update_refl)
qed (simp_all add: qr_update_refl)

lemma row_steps_revoked:
  assumes "row_step\<^sup>*\<^sup>* s s'" and "wf_db s" and "revokedForGood i s"
  shows "revokedForGood i s'"
  using assms
proof (induction rule: rtranclp_induct)
  case (step y z)
  have "keys_ok y" using row_steps_wf [OF step(1) step(4)] by (rule wf_keys)
  from qr_update_revoked [OF row_step_capabilities [OF step(2) this] step(3) [OF step(4,5)]] show ?case .
qed

lemma revoked_row:
  assumes u: "updateOne P (\<lambda>q. None) f (table_qr_capabilities s) = Inr (q, rs)" and s': "s' = s\<lparr>table_qr_capabilities := rs\<rparr>"
    and P: "\<And>q. P q \<Longrightarrow> q_id q = i" and f: "\<And>q. q_id (f q) = q_id q \<and> q_revoked_at (f q) \<noteq> None"
    and d: "distinct (map q_id (table_qr_capabilities s))"
  shows "revokedForGood i s'"
proof -
  from u obtain r where r: "r \<in> set (table_qr_capabilities s)" "q_id r = i" "q = f r"
      "rs = map (\<lambda>x. if q_id x = i then q else x) (table_qr_capabilities s)"
    by (rule updateOne_keyE [where k = q_id and i = i]) (use P f d in auto)
  have "q \<in> set rs" using r by auto
  moreover have "q_id q = i" "q_revoked_at q \<noteq> None" using r f by simp_all
  ultimately show ?thesis using r(4) by (auto simp: revokedForGood_def s')
qed

lemma revoke_revokes:
  assumes "RevokeTableQRCapability e org loc t i s = (Inr q, s')" and "distinct (map q_id (table_qr_capabilities s))"
  shows "revokedForGood i s'"
proof -
  from assms(1) have "RevokeTableQRCapabilityRow e (tenant_context org loc) i org loc s = Inr (q, s')"
    by (auto simp: RevokeTableQRCapability_def inTenantTx_Inr tx_iffs)
  then show ?thesis unfolding RevokeTableQRCapabilityRow_def
    by (elim map_sum_InrE, clarsimp) (erule revoked_row [OF _ refl], use assms(2) in auto)
qed

text \<open>A rotation revokes the capability and adds another one under an identifier that was not in use.\<close>

lemma rotate_revokes:
  assumes "RotateTableQRCapability e rnd sha org loc t i s = (Inr x, s')" and "distinct (map q_id (table_qr_capabilities s))"
  shows "revokedForGood i s'"
proof -
  from assms(1) obtain old s1 token p h new where
    r: "RotateTableQRCapabilityRow e (tenant_context org loc) i org loc t s = Inr (old, s1)"
    and c: "CreateTableQRCapabilityHashed e (tenant_context org loc) (gen e 0) org loc t p h (qrLabel (q_label old)) (q_expires_at old) s1 =
      Inr (new, s')"
    by (cases "freshToken rnd sha") (auto simp: RotateTableQRCapability_def inTenantTx_Inr tx_iffs split: prod.splits)
  from r have "revokedForGood i s1" unfolding RotateTableQRCapabilityRow_def
    by (elim map_sum_InrE, clarsimp) (erule revoked_row [OF _ refl], use assms(2) in \<open>auto split: option.splits\<close>)
  then show ?thesis using CreateTableQRCapabilityHashed_Inr(1-3) [OF c] by (auto simp: revokedForGood_def)
qed

text \<open>
  C6. A revoked capability is dead for good: after \<^verbatim>\<open>RevokeTableQRCapability\<close> or \<^verbatim>\<open>RotateTableQRCapability\<close> succeeds
  on a capability, in every database the service reaches, no token resolves to that capability.
\<close>
theorem revoked_never_resolves:
  assumes "wf_db s" and "distinct (map q_id (table_qr_capabilities s))"
    and "(\<exists>q. RevokeTableQRCapability e org loc t i s = (Inr q, s1)) \<or>
         (\<exists>x. RotateTableQRCapability e rnd sha' org loc t i s = (Inr x, s1))"
    and "op_step\<^sup>*\<^sup>* s1 s2" and "resolveQRCapability e2 sha token s2 = (Inr q2, s3)"
  shows "q_id q2 \<noteq> i"
proof -
  have "op_step s s1" using assms(3) op_step.revoke_qr [of s e org loc t i] op_step.rotate_qr [of s e rnd sha' org loc t i] by auto
  then have "wf_db s1" using op_step_wf assms(1) by blast
  moreover have "revokedForGood i s1" using assms(3) revoke_revokes [OF _ assms(2)] rotate_revokes [OF _ assms(2)] by blast
  ultimately have "revokedForGood i s2" using row_steps_revoked [OF op_steps_rows [OF assms(4)]] by blast
  with resolveQRCapability_Inr(1,4) [OF assms(5)] show ?thesis by (auto simp: revokedForGood_def activeCapability_def)
qed

definition sampleOtherRandom :: "nat \<Rightarrow> bytes option" where
  "sampleOtherRandom n = Some (replicate n 9)"

definition sampleIssued :: db where
  "sampleIssued =
     snd (ExportTableQRCapability (sampleWorld 6) sampleOtherRandom sampleHash 1 2 3 ''door'' None
       (snd (ExportTableQRCapability (sampleWorld 5) sampleRandom sampleHash 1 2 3 ''window'' None sampleSeated)))"

definition sampleRevoked :: db where
  "sampleRevoked = snd (RevokeTableQRCapability (sampleWorld 7) 1 2 3 500 sampleIssued)"

definition sampleToken :: string where
  "sampleToken = base64RawURL (replicate 32 9)"

lemma sample_issued_wf: "wf_db sampleIssued"
  unfolding sampleIssued_def by (intro op_step_wf [OF op_step.export_qr] sample_seated_wf)

lemma sample_token_resolves:
  "\<exists>q. resolveQRCapability sampleOpen sampleHash sampleToken sampleRevoked = (Inr q, sampleRevoked)"
proof -
  have "case fst (resolveQRCapability sampleOpen sampleHash sampleToken sampleRevoked) of Inl err \<Rightarrow> False | Inr q \<Rightarrow> True"
    by code_simp
  with resolveQRCapability_snd [of sampleOpen sampleHash sampleToken sampleRevoked] show ?thesis
    by (cases "resolveQRCapability sampleOpen sampleHash sampleToken sampleRevoked")
       (auto split: sum.splits simp del: resolveQRCapability_snd)
qed

definition sampleThirdRandom :: "nat \<Rightarrow> bytes option" where
  "sampleThirdRandom n = Some (replicate n 11)"

definition sampleRotated :: "QRExport op_result" where
  "sampleRotated = RotateTableQRCapability (sampleWorld 7) sampleThirdRandom sampleHash 1 2 3 500 sampleIssued"

text \<open>
  Witness of C6: of two capabilities one is revoked, and the token of the other resolves, to the other one; when the one
  is rotated instead, the token of the rotation resolves, to the capability it was made for.
\<close>
theorem revoked_never_resolves_witness:
  "(\<exists>q. resolveQRCapability sampleOpen sampleHash sampleToken sampleRevoked = (Inr q, sampleRevoked) \<and> q_id q \<noteq> 500) \<and>
   (\<exists>q. resolveQRCapability sampleOpen sampleHash (base64RawURL (replicate 32 11)) (snd sampleRotated) = (Inr q, snd sampleRotated) \<and>
      q_id q \<noteq> 500)"
proof
  have d: "distinct (map q_id (table_qr_capabilities sampleIssued))" by code_simp
  let ?r = "RevokeTableQRCapability (sampleWorld 7) 1 2 3 500 sampleIssued"
  have "case fst ?r of Inl err \<Rightarrow> False | Inr x \<Rightarrow> True" by code_simp
  then obtain q where "?r = (Inr q, sampleRevoked)"
    by (cases ?r) (auto split: sum.splits simp: sampleRevoked_def)
  then have q: "(\<exists>q. RevokeTableQRCapability (sampleWorld 7) 1 2 3 500 sampleIssued = (Inr q, sampleRevoked)) \<or>
      (\<exists>x. RotateTableQRCapability (sampleWorld 7) sampleThirdRandom sampleHash 1 2 3 500 sampleIssued = (Inr x, sampleRevoked))" by blast
  from sample_token_resolves obtain q2 where
    r: "resolveQRCapability sampleOpen sampleHash sampleToken sampleRevoked = (Inr q2, sampleRevoked)" ..
  from revoked_never_resolves [OF sample_issued_wf d q rtranclp.rtrancl_refl r] r
  show "\<exists>q. resolveQRCapability sampleOpen sampleHash sampleToken sampleRevoked = (Inr q, sampleRevoked) \<and> q_id q \<noteq> 500" by blast
  let ?s = "snd sampleRotated" and ?t = "base64RawURL (replicate 32 11)"
  have "case fst sampleRotated of Inl err \<Rightarrow> False | Inr x \<Rightarrow> True" by code_simp
  then obtain x where "fst sampleRotated = Inr x" by (cases "fst sampleRotated") simp_all
  then have "sampleRotated = (Inr x, ?s)" by (metis prod.collapse)
  then have x: "(\<exists>q. RevokeTableQRCapability (sampleWorld 7) 1 2 3 500 sampleIssued = (Inr q, ?s)) \<or>
      (\<exists>x. RotateTableQRCapability (sampleWorld 7) sampleThirdRandom sampleHash 1 2 3 500 sampleIssued = (Inr x, ?s))"
    unfolding sampleRotated_def by blast
  have "case fst (resolveQRCapability sampleOpen sampleHash ?t ?s) of Inl err \<Rightarrow> False | Inr q \<Rightarrow> True" by code_simp
  with resolveQRCapability_snd [of sampleOpen sampleHash ?t ?s] obtain q3 where
    r: "resolveQRCapability sampleOpen sampleHash ?t ?s = (Inr q3, ?s)"
    by (cases "resolveQRCapability sampleOpen sampleHash ?t ?s") (auto split: sum.splits simp del: resolveQRCapability_snd)
  from revoked_never_resolves [OF sample_issued_wf d x rtranclp.rtrancl_refl r] r
  show "\<exists>q. resolveQRCapability sampleOpen sampleHash ?t ?s = (Inr q, ?s) \<and> q_id q \<noteq> 500" by blast
qed

text \<open>Example: the sample token opens a capability with its hash.\<close>
theorem resolved_token_sound_witness:
  "\<exists>q. resolveQRCapability sampleOpen sampleHash sampleToken sampleRevoked = (Inr q, sampleRevoked) \<and>
     q_token_hash q = sampleHash (trimSpace sampleToken)"
proof -
  from sample_token_resolves obtain q where
    r: "resolveQRCapability sampleOpen sampleHash sampleToken sampleRevoked = (Inr q, sampleRevoked)" ..
  from resolved_token_sound [OF r] r show ?thesis by blast
qed

text \<open>Example: the token that resolves without row security does not resolve with it.\<close>
theorem tokens_unresolvable_under_row_security_witness:
  "(\<exists>q. fst (resolveQRCapability sampleOpen sampleHash sampleToken sampleRevoked) = Inr q) \<and>
   (\<nexists>q. fst (resolveQRCapability sampleEnv sampleHash sampleToken sampleRevoked) = Inr q)"
proof -
  have "rls sampleEnv" by (simp add: sampleEnv_def)
  from tokens_unresolvable_under_row_security [OF this] sample_token_resolves show ?thesis by force
qed


section \<open>Admission of guest requests\<close>

lemma find_sort_first:
  "find P (sort_key f xs) = Some x \<Longrightarrow> y \<in> set xs \<Longrightarrow> P y \<Longrightarrow> f x \<le> f y" for f :: "'a \<Rightarrow> 'b :: linorder"
proof -
  have "find P zs = Some x \<Longrightarrow> sorted (map f zs) \<Longrightarrow> y \<in> set zs \<Longrightarrow> P y \<Longrightarrow> f x \<le> f y" for zs
    by (induction zs) (auto split: if_splits)
  then show "find P (sort_key f xs) = Some x \<Longrightarrow> y \<in> set xs \<Longrightarrow> P y \<Longrightarrow> f x \<le> f y" by simp
qed

lemma guestRequestCommand_answer:
  assumes "guestRequestCommand e q key i h enc s = (Inr (Some (r, new), rep), s')"
  obtains s1 s2 rs where "createGuestInTx e q key (tenant_context (q_org q) (q_loc q)) s = Inr ((r, new), s1)"
    and "s2 = (if new then with_event e (guestRequestEvent q key i r) s1 else s1)"
    and "s' = s2\<lparr>api_idempotency_records := rs\<rparr>"
  using assms unfolding guestRequestCommand_def runGuestCommand_def
  by (rule command_parts) (auto split: if_splits dest!: writeOperationalEvent_Inr(1) intro: that)

lemma CreateGuestRequest_answer:
  assumes "CreateGuestRequest e0 e sha arg enc s = (Inr (Some (r, new), rep), s')"
  obtains q where "resolveQRCapability e0 sha (gr_Token arg) s = (Inr q, s)"
    and "guestRequestCommand e q (trimSpace (gr_ActionKey arg)) (gr_IdempotencyKey arg) (gr_PayloadHash arg) enc s =
           (Inr (Some (r, new), rep), s')"
  using assms resolveQRCapability_snd [of e0 sha "gr_Token arg" s]
  by (auto simp: CreateGuestRequest_def Let_def split: if_splits sum.splits prod.splits simp del: resolveQRCapability_snd)

text \<open>
  C7. A guest request is admitted by the rules of the location. When a request creates a row, its token
  resolved to a capability whose location offers the action; the capability's table is occupied, and
  the new row is a pending request of the table's current session; no request of this session and
  action was pending, and every resolved or cancelled one is at least two minutes old.
\<close>
theorem guest_request_admission:
  assumes "CreateGuestRequest e0 e sha arg enc s = (Inr (Some (r, True), rep), s')"
  shows "\<exists>q l occ i. resolveQRCapability e0 sha (gr_Token arg) s = (Inr q, s) \<and>
    l \<in> set (locations s) \<and> l_id l = q_loc q \<and> guestActionEnabled (l_operating_config l) (trimSpace (gr_ActionKey arg)) \<and>
    occ \<in> set (table_occupancy s) \<and> o_table occ = q_table q \<and> o_status occ = TableStatusOccupied \<and>
    o_current_session occ = Some i \<and> sameGuestKey q i (trimSpace (gr_ActionKey arg)) r \<and> a_status r = AssistStatusPending \<and>
    assist_requests s' = assist_requests s @ [r] \<and>
    (\<forall>x \<in> set (assist_requests s). sameGuestKey q i (trimSpace (gr_ActionKey arg)) x \<longrightarrow>
       a_status x \<noteq> AssistStatusPending \<and>
       (a_status x \<in> {AssistStatusResolved, AssistStatusCancelled} \<longrightarrow>
          a_requested_at x * 1000 + defaultGuestCooldown \<le> wall e))"
proof -
  let ?key = "trimSpace (gr_ActionKey arg)"
  from assms obtain q where q: "resolveQRCapability e0 sha (gr_Token arg) s = (Inr q, s)"
    and cmd: "guestRequestCommand e q ?key (gr_IdempotencyKey arg) (gr_PayloadHash arg) enc s = (Inr (Some (r, True), rep), s')"
    by (rule CreateGuestRequest_answer)
  from cmd obtain s1 rs where
    cr: "createGuestInTx e q ?key (tenant_context (q_org q) (q_loc q)) s = Inr ((r, True), s1)"
    and s': "s' = (with_event e (guestRequestEvent q ?key (gr_IdempotencyKey arg) r) s1)\<lparr>api_idempotency_records := rs\<rparr>"
    by (rule guestRequestCommand_answer) simp
  from cr show ?thesis
  proof (cases rule: createGuestInTx_InrE)
    case (created l occ i)
    note c = CreateAssistRequest_Inr [OF created(14)]
    let ?T = "\<lambda>x. sameGuestKey q i ?key x \<and> a_status x \<in> {AssistStatusResolved, AssistStatusCancelled}"
    have cool: "a_requested_at x * 1000 + defaultGuestCooldown \<le> wall e" if x: "x \<in> set (assist_requests s)" "?T x" for x
    proof (cases "find ?T (sort_key (\<lambda>r. - a_requested_at r) (assist_requests s))")
      case None
      with x show ?thesis by (auto simp: find_None_iff)
    next
      case (Some y)
      have "- a_requested_at y \<le> - a_requested_at x" using find_sort_first [OF Some x] .
      with Some created(13) show ?thesis by simp
    qed
    have "sameGuestKey q i ?key r" "a_status r = AssistStatusPending" using c(1) by (simp_all add: sameGuestKey_def)
    moreover have "assist_requests s' = assist_requests s @ [r]" using c(2) s' by simp
    ultimately show ?thesis using q created(2,3,5,6,7,10,11,12) cool by blast
  qed simp
qed

text \<open>
  A repeated guest request joins the pending one: when the answer is not a new row, it is a pending
  request of the same table and action, and the assist requests are as before.
\<close>
theorem guest_request_joins_pending:
  assumes "CreateGuestRequest e0 e sha arg enc s = (Inr (Some (r, False), rep), s')"
  shows "\<exists>q i. resolveQRCapability e0 sha (gr_Token arg) s = (Inr q, s) \<and> r \<in> set (assist_requests s) \<and>
    sameGuestKey q i (trimSpace (gr_ActionKey arg)) r \<and> a_status r = AssistStatusPending \<and>
    assist_requests s' = assist_requests s \<and> operational_events s' = operational_events s"
proof -
  from assms obtain q where q: "resolveQRCapability e0 sha (gr_Token arg) s = (Inr q, s)"
    and cmd: "guestRequestCommand e q (trimSpace (gr_ActionKey arg)) (gr_IdempotencyKey arg) (gr_PayloadHash arg) enc s =
      (Inr (Some (r, False), rep), s')"
    by (rule CreateGuestRequest_answer)
  from cmd obtain s1 rs where
    cr: "createGuestInTx e q (trimSpace (gr_ActionKey arg)) (tenant_context (q_org q) (q_loc q)) s = Inr ((r, False), s1)"
    and s': "s' = s1\<lparr>api_idempotency_records := rs\<rparr>"
    by (rule guestRequestCommand_answer) simp
  from cr show ?thesis
    by (cases rule: createGuestInTx_InrE) (use q s' in auto)
qed

definition sampleGuest :: "uuid \<Rightarrow> GuestRequestParams" where
  "sampleGuest i =
     \<lparr>gr_Token = sampleToken, gr_ActionKey = '' call_waiter '', gr_IdempotencyKey = i, gr_PayloadHash = replicate 32 1\<rparr>"

definition sampleEncode :: "AssistRequest \<Rightarrow> string + int \<times> string" where
  "sampleEncode r = Inr (201, ''{}'')"

definition sampleCalled :: db where
  "sampleCalled = snd (CreateGuestRequest sampleOpen (sampleWorld 8) sampleHash (sampleGuest 900) sampleEncode sampleRevoked)"

text \<open>Witness of C7: the guest of the sample table calls the waiter.\<close>
theorem guest_request_admission_witness:
  "\<exists>r rep. CreateGuestRequest sampleOpen (sampleWorld 8) sampleHash (sampleGuest 900) sampleEncode sampleRevoked =
     (Inr (Some (r, True), rep), sampleCalled) \<and> assist_requests sampleCalled = assist_requests sampleRevoked @ [r]"
proof -
  let ?r = "CreateGuestRequest sampleOpen (sampleWorld 8) sampleHash (sampleGuest 900) sampleEncode sampleRevoked"
  have "case fst ?r of Inr (Some (r, True), rep) \<Rightarrow> True | _ \<Rightarrow> False" by code_simp
  then obtain r rep where r: "?r = (Inr (Some (r, True), rep), sampleCalled)"
    by (cases ?r) (auto simp: sampleCalled_def split: sum.splits option.splits bool.splits prod.splits)
  from guest_request_admission [OF r] r show ?thesis by blast
qed

text \<open>Example: calling again, with another key, answers the request that is pending.\<close>
theorem guest_request_joins_pending_witness:
  "\<exists>r rep s'. CreateGuestRequest sampleOpen (sampleWorld 9) sampleHash (sampleGuest 901) sampleEncode sampleCalled =
     (Inr (Some (r, False), rep), s') \<and> assist_requests s' = assist_requests sampleCalled"
proof -
  let ?r = "CreateGuestRequest sampleOpen (sampleWorld 9) sampleHash (sampleGuest 901) sampleEncode sampleCalled"
  have "case fst ?r of Inr (Some (r, False), rep) \<Rightarrow> True | _ \<Rightarrow> False" by code_simp
  then obtain r rep where r: "?r = (Inr (Some (r, False), rep), snd ?r)"
    by (cases ?r) (auto split: sum.splits option.splits bool.splits prod.splits)
  from guest_request_joins_pending [OF r] r show ?thesis by blast
qed

end
