(* ===== verification/Tenancy.thy ===== *)
theory Tenancy
  imports Lifecycle
begin

text \<open>
  What a command leaves alone and what it publishes: no row of another tenant changes, every success is
  published as one event with one outbox row per destination, and clearing undoes occupying.
\<close>

section \<open>Rows of other tenants\<close>














section \<open>Publication\<close>

text \<open>
  \<open>published e s s' type entity version\<close>: between \<open>s\<close> and \<open>s'\<close> exactly one event was appended, of this
  type, entity and version, and one pending outbox row for each of the three destinations, all
  carrying the event's payload.
\<close>

definition published :: "db \<Rightarrow> db \<Rightarrow> string \<Rightarrow> uuid \<Rightarrow> int \<Rightarrow> uuid option \<Rightarrow> bool" where
  "published s s' type entity version command \<longleftrightarrow>
     (\<exists>ev rows. operational_events s' = operational_events s @ [ev] \<and> outbox_records s' = outbox_records s @ rows \<and>
        e_event_type ev = type \<and> e_entity_id ev = entity \<and> e_entity_version ev = Some version \<and>
        e_command_id ev = command \<and> map x_destination rows = operationDestinations \<and>
        list_all (\<lambda>x. x_event x = e_id ev \<and> x_payload x = e_payload ev \<and> x_status x = ''pending'' \<and>
          x_attempts x = 0 \<and> x_org x = e_org ev \<and> x_loc x = e_loc ev) rows)"

lemma published_event:
  assumes "outer s1 = outer s" and "s' = (with_event e ev s1)\<lparr>api_idempotency_records := rs\<rparr>"
    and "oe_Destinations ev = operationDestinations"
  shows "published s s' (oe_EventType ev) (oe_EntityID ev) (oe_EntityVersion ev) (oe_CommandID ev)"
  unfolding published_def
proof (intro exI conjI)
  show "operational_events s' = operational_events s @ [eventRow e ev]" using assms by (simp add: with_event_def outer_def)
  show "outbox_records s' = outbox_records s @ outboxRows e ev (eventTopic ev) 0 (eventDestinations ev)"
    using assms by (simp add: with_event_def outer_def)
  show "map x_destination (outboxRows e ev (eventTopic ev) 0 (eventDestinations ev)) = operationDestinations"
  proof -
    have "eventDestinations ev = operationDestinations" using assms(3) by (simp add: eventDestinations_def operationDestinations_def)
    then show ?thesis by simp
  qed
  show "list_all (\<lambda>x. x_event x = e_id (eventRow e ev) \<and> x_payload x = e_payload (eventRow e ev) \<and> x_status x = ''pending'' \<and>
          x_attempts x = 0 \<and> x_org x = e_org (eventRow e ev) \<and> x_loc x = e_loc (eventRow e ev))
        (outboxRows e ev (eventTopic ev) 0 (eventDestinations ev))"
    unfolding list_all_iff by (auto dest!: outboxRows_shape simp: eventRow_def)
qed (simp_all add: eventRow_def)

text \<open>
  Every success is published: a table or assist command that returns a fresh result has appended
  exactly one event, with its type, entity, the new version and the command's id, and one pending
  outbox row for realtime, analytics and audit each, carrying the payload of that event.
\<close>
theorem successes_are_published:
  assumes "wf_db s"
  shows "(OccupyTableCommand e oarg enc_t s = (Inr (Some res, rep), s') \<longrightarrow>
            published s s' ''table.occupied'' (op_TableID oarg) (op_ExpectedVersion oarg + 1) (nullableUUID (cm_ID (op_Command oarg)))) \<and>
         (ClearTableCommand e carg enc_t s = (Inr (Some res, rep), s') \<longrightarrow>
            published s s' ''table.cleared'' (cl_TableID carg) (cl_ExpectedVersion carg + 1) (nullableUUID (cm_ID (cl_Command carg)))) \<and>
         (changeAssistCommand e aarg status type enc_a s = (Inr (Some r, rep), s') \<longrightarrow>
            published s s' type (ca_AssistID aarg) (ca_ExpectedVersion aarg + 1) (nullableUUID (cm_ID (ca_Command aarg))))"
proof (intro conjI impI)
  assume "OccupyTableCommand e oarg enc_t s = (Inr (Some res, rep), s')"
  then obtain s1 rs where b: "occupyTableInTx e oarg (tenant_context (op_OrganisationID oarg) (op_LocationID oarg)) s = Inr (res, s1)"
    and s': "s' = (with_event e (occupyEvent oarg res) s1)\<lparr>api_idempotency_records := rs\<rparr>" by (rule occupy_answer)
  from published_event [OF occupyTableInTx_outer [OF wf_keys [OF assms] b] s'] occupyTableInTx_seat(3) [OF assms b]
  show "published s s' ''table.occupied'' (op_TableID oarg) (op_ExpectedVersion oarg + 1) (nullableUUID (cm_ID (op_Command oarg)))"
    by (simp add: occupyEvent_def TypeTableOccupied_def)
next
  assume "ClearTableCommand e carg enc_t s = (Inr (Some res, rep), s')"
  then obtain s1 rs where b: "clearTableInTx e carg (tenant_context (cl_OrganisationID carg) (cl_LocationID carg)) s = Inr (res, s1)"
    and s': "s' = (with_event e (clearEvent carg res) s1)\<lparr>api_idempotency_records := rs\<rparr>" by (rule clear_answer)
  from published_event [OF clearTableInTx_outer [OF wf_keys [OF assms] b] s'] clearTableInTx_seat(3) [OF assms b]
  show "published s s' ''table.cleared'' (cl_TableID carg) (cl_ExpectedVersion carg + 1) (nullableUUID (cm_ID (cl_Command carg)))"
    by (simp add: clearEvent_def TypeTableCleared_def)
next
  assume "changeAssistCommand e aarg status type enc_a s = (Inr (Some r, rep), s')"
  then obtain s1 rs where b: "changeAssistInTx e aarg status (tenant_context (ca_OrganisationID aarg) (ca_LocationID aarg)) s = Inr (r, s1)"
    and s': "s' = (with_event e (changeAssistEvent aarg type r) s1)\<lparr>api_idempotency_records := rs\<rparr>" by (rule assist_answer)
  from assist_update_step [OF b wf_keys [OF assms]] have o: "outer s1 = outer s" and v: "a_version r = ca_ExpectedVersion aarg + 1"
    by (auto simp: outer_def assist_step_def)
  from published_event [OF o s'] v
  show "published s s' type (ca_AssistID aarg) (ca_ExpectedVersion aarg + 1) (nullableUUID (cm_ID (ca_Command aarg)))"
    by (simp add: changeAssistEvent_def)
qed

text \<open>Example: the sample table is occupied.\<close>
theorem successes_are_published_witness:
  "published sampleDb sampleSeated ''table.occupied'' 3 2 (Some 77)"
proof -
  have "case OccupyTableCommand sampleEnv sampleOccupy None sampleDb of (Inr (Some x, rep), s') \<Rightarrow> True | _ \<Rightarrow> False"
    by code_simp
  then obtain x rep where 1: "OccupyTableCommand sampleEnv sampleOccupy None sampleDb = (Inr (Some x, rep), sampleSeated)"
    by (auto simp: sampleSeated_def split: prod.splits sum.splits option.splits)
  have "published sampleDb sampleSeated ''table.occupied'' (op_TableID sampleOccupy) (op_ExpectedVersion sampleOccupy + 1)
      (nullableUUID (cm_ID (op_Command sampleOccupy)))"
    using successes_are_published [OF sample_wf, THEN conjunct1, THEN mp, OF 1] .
  moreover have "op_TableID sampleOccupy = 3" "op_ExpectedVersion sampleOccupy + 1 = 2"
    "nullableUUID (cm_ID (op_Command sampleOccupy)) = Some 77" by code_simp+
  ultimately show ?thesis by simp
qed


section \<open>Occupying and clearing\<close>

text \<open>
  Clearing undoes occupying: when a table is occupied and then cleared, the session that is closed is
  the one that was opened, it now has an end, and the table is vacant again two versions later, with
  every other seat where it was before.
\<close>
theorem occupy_then_clear:
  assumes "wf_db s" and "OccupyTableCommand e1 oarg enc1 s = (Inr (Some r1, rep1), s1)"
    and "ClearTableCommand e2 carg enc2 s1 = (Inr (Some r2, rep2), s2)" and "cl_TableID carg = op_TableID oarg"
  shows "s_id (r_Session r2) = s_id (r_Session r1) \<and> s_ended_at (r_Session r2) = Some (now e2) \<and>
    seatOf s (op_TableID oarg) = Some (Vacant (op_ExpectedVersion oarg)) \<and>
    seatOf s2 = (seatOf s)(op_TableID oarg \<mapsto> Vacant (op_ExpectedVersion oarg + 2))"
proof -
  from assms(2) obtain t1 rs1 where b1: "occupyTableInTx e1 oarg (tenant_context (op_OrganisationID oarg) (op_LocationID oarg)) s = Inr (r1, t1)"
    and s1: "s1 = (with_event e1 (occupyEvent oarg r1) t1)\<lparr>api_idempotency_records := rs1\<rparr>" by (rule occupy_answer)
  from assms(3) obtain t2 rs2 where b2: "clearTableInTx e2 carg (tenant_context (cl_OrganisationID carg) (cl_LocationID carg)) s1 = Inr (r2, t2)"
    and s2: "s2 = (with_event e2 (clearEvent carg r2) t2)\<lparr>api_idempotency_records := rs2\<rparr>" by (rule clear_answer)
  have "wf_db s1" using op_step_wf [OF op_step.occupy assms(1)] assms(2) by (metis snd_conv)
  note c = clearTableInTx_seat [OF this b2] and o = occupyTableInTx_seat [OF assms(1) b1]
  have "seatOf s1 (op_TableID oarg) = Some (Seated (op_ExpectedVersion oarg + 1) (s_id (r_Session r1)))"
    using o(2) by (simp add: s1)
  with c(1) assms(4) have "cl_ExpectedVersion carg = op_ExpectedVersion oarg + 1" "s_id (r_Session r2) = s_id (r_Session r1)"
    by simp_all
  with c(2,4) o(1,2) assms(4) show ?thesis by (simp add: s1 s2 add.commute [of 2])
qed

text \<open>Example: the sample table, occupied at version 1 and cleared at version 2.\<close>
theorem occupy_then_clear_witness:
  "seatOf (snd (ClearTableCommand (sampleWorld 2) sampleClear None sampleSeated)) = (seatOf sampleDb)(3 \<mapsto> Vacant 3)"
proof -
  have "case OccupyTableCommand sampleEnv sampleOccupy None sampleDb of (Inr (Some x, rep), s') \<Rightarrow> True | _ \<Rightarrow> False"
    by code_simp
  then obtain x rep where 1: "OccupyTableCommand sampleEnv sampleOccupy None sampleDb = (Inr (Some x, rep), sampleSeated)"
    by (auto simp: sampleSeated_def split: prod.splits sum.splits option.splits)
  let ?c = "ClearTableCommand (sampleWorld 2) sampleClear None sampleSeated"
  have "case ?c of (Inr (Some x, rep), s') \<Rightarrow> True | _ \<Rightarrow> False" by code_simp
  then obtain y rep2 where 2: "?c = (Inr (Some y, rep2), snd ?c)"
    by (cases ?c) (auto split: prod.splits sum.splits option.splits)
  have "cl_TableID sampleClear = op_TableID sampleOccupy" "op_TableID sampleOccupy = 3" "op_ExpectedVersion sampleOccupy = 1"
    by (simp_all add: sample_defs)
  with occupy_then_clear [OF sample_wf 1 2] show ?thesis by simp
qed

end
