(* ===== verification/Outbox.thy ===== *)
theory Outbox
  imports GuestConfig
begin

text \<open>
  The outbox worker, \<^verbatim>\<open>internal/outbox/outbox.go\<close>: claiming a batch of records, delivering a record to
  the consumers of its destination with one idempotency record per consumer and event, and marking it
  processed, due for a retry, or failed. Every transaction has its own \<open>env\<close>. A consumer is an
  interface: its \<^verbatim>\<open>Handle\<close> answers an error message or nothing, and each call is an entry of the trace
  of effects, as is each call of the metrics recorder. Durations are nanoseconds.
\<close>

section \<open>Data\<close>

definition StatusPending :: string where "StatusPending = ''pending''"
definition StatusProcessing :: string where "StatusProcessing = ''processing''"
definition StatusProcessed :: string where "StatusProcessed = ''processed''"
definition StatusFailed :: string where "StatusFailed = ''failed''"

lemmas outbox_status_defs =
  StatusPending_def StatusProcessing_def StatusProcessed_def StatusFailed_def

lemma outbox_status_distinct [simp]:
  "StatusPending \<noteq> StatusProcessing" "StatusProcessing \<noteq> StatusPending"
  "StatusPending \<noteq> StatusProcessed" "StatusProcessed \<noteq> StatusPending"
  "StatusPending \<noteq> StatusFailed" "StatusFailed \<noteq> StatusPending"
  "StatusProcessing \<noteq> StatusProcessed" "StatusProcessed \<noteq> StatusProcessing"
  "StatusProcessing \<noteq> StatusFailed" "StatusFailed \<noteq> StatusProcessing"
  "StatusProcessed \<noteq> StatusFailed" "StatusFailed \<noteq> StatusProcessed"
  by (simp_all add: outbox_status_defs)

text \<open>What a claim returns of a row.\<close>

record Record =
  rc_ID :: uuid
  rc_OrganisationID :: uuid
  rc_LocationID :: uuid
  rc_EventID :: uuid
  rc_Destination :: string
  rc_Topic :: string
  rc_Payload :: payload
  rc_Attempts :: int
  rc_CreatedAt :: timestamp

record Stats =
  st_PendingCount :: int
  st_OldestPendingAge :: int

record Consumer =
  cn_Name :: string
  cn_Handle :: "env \<Rightarrow> Envelope \<Rightarrow> string option"

record ConsumerFunc =
  cf_ConsumerName :: string
  cf_Fn :: "(env \<Rightarrow> Envelope \<Rightarrow> string option) option"

text \<open>\<^verbatim>\<open>ConsumerFunc\<close> as a \<^verbatim>\<open>Consumer\<close>: a nil function answers nil.\<close>

definition asConsumer :: "ConsumerFunc \<Rightarrow> Consumer" where
  "asConsumer f =
     \<lparr>cn_Name = cf_ConsumerName f,
      cn_Handle = (\<lambda>e ev. case cf_Fn f of None \<Rightarrow> None | Some fn \<Rightarrow> fn e ev)\<rparr>"

record WorkerConfig =
  cfg_InstanceID :: string
  cfg_BatchSize :: int
  cfg_Concurrency :: int
  cfg_MaxAttempts :: int
  cfg_PollInterval :: int
  cfg_BackoffBase :: int
  cfg_BackoffMax :: int
  cfg_ClaimTimeout :: int
  cfg_Metrics :: bool

text \<open>
  \<^verbatim>\<open>consumerMap\<close> is a Go map: an association list with distinct keys, read with \<open>map_of\<close>. \<open>metrics\<close>
  says whether a recorder is installed.
\<close>

record Worker =
  consumerMap :: "(string \<times> Consumer list) list"
  destinations :: "string list"
  instanceID :: string
  batchSize :: int
  concurrency :: int
  maxAttempts :: int
  pollInterval :: int
  backoffBase :: int
  backoffMax :: int
  claimTimeout :: int
  metrics :: bool

definition positiveOr :: "int \<Rightarrow> int \<Rightarrow> int" where
  "positiveOr v fallback = (if v \<le> 0 then fallback else v)"

text \<open>\<open>fresh\<close> is the identifier \<^verbatim>\<open>uuid.NewString()\<close> names an anonymous worker with.\<close>

definition NewWorker :: "uuid \<Rightarrow> (string \<times> Consumer list) list \<Rightarrow> WorkerConfig \<Rightarrow> Worker" where
  "NewWorker fresh consumers cfg =
     \<lparr>consumerMap = consumers,
      destinations = map fst consumers,
      instanceID = (if cfg_InstanceID cfg = '''' then ''worker-'' @ uuidString fresh else cfg_InstanceID cfg),
      batchSize = positiveOr (cfg_BatchSize cfg) 25,
      concurrency = positiveOr (cfg_Concurrency cfg) 4,
      maxAttempts = positiveOr (cfg_MaxAttempts cfg) 8,
      pollInterval = positiveOr (cfg_PollInterval cfg) second,
      backoffBase = positiveOr (cfg_BackoffBase cfg) second,
      backoffMax = positiveOr (cfg_BackoffMax cfg) (60 * second),
      claimTimeout = positiveOr (cfg_ClaimTimeout cfg) (5 * 60 * second),
      metrics = cfg_Metrics cfg\<rparr>"

text \<open>What the worker does to the world beside the database.\<close>

datatype effect =
    Called string Envelope bool
  | RecordClaimed string string
  | RecordProcessed string string
  | RecordRetried string string
  | RecordFailed string string
  | RecordConsumerFailed string

definition emit :: "Worker \<Rightarrow> effect \<Rightarrow> effect list" where
  "emit w x = (if metrics w then [x] else [])"


section \<open>Errors\<close>

text \<open>
  An error of the worker is a \<open>string fail\<close>: \<open>Err m\<close> is an opaque error with the text \<open>m\<close>. Wrapping an
  error prefixes its text; \<open>within\<close> puts the prefix into the statement's name.
\<close>

definition within :: "string \<Rightarrow> string \<Rightarrow> string" where
  "within prefix site =
     (if prefix = '''' then site else if site = '''' then prefix else prefix @ '': '' @ site)"

text \<open>\<^verbatim>\<open>err.Error()\<close>; \<open>driver\<close> is the text of an error of the database driver.\<close>

fun errorText :: "(db_error \<Rightarrow> string) \<Rightarrow> string fail \<Rightarrow> string" where
  "errorText driver (Err m) = m"
| "errorText driver (Wrapped site err) = within site (driver err)"
| "errorText driver (Joined a b) = errorText driver a @ [CHR 0x0A] @ errorText driver b"

definition milliseconds :: "int \<Rightarrow> int" where
  "milliseconds d = (if 0 \<le> d then d div 10 ^ 6 else - (- d div 10 ^ 6))"


section \<open>Backoff\<close>

text \<open>
  \<^verbatim>\<open>float64(n)\<close> of a positive integer: 53 bits, ties to even. The product with a power of two is exact,
  or infinite; its conversion to \<^verbatim>\<open>int64\<close> is implementation-specific when it does not fit, and then is
  the argument \<open>overflow\<close> (the least int64 on amd64, the greatest on arm64).
\<close>

fun excessBits :: "nat \<Rightarrow> nat" where
  "excessBits n = (if n < 2 ^ 53 then 0 else Suc (excessBits (n div 2)))"

declare excessBits.simps [simp del]

definition float64 :: "nat \<Rightarrow> nat" where
  "float64 n =
     (let k = excessBits n; q = n div 2 ^ k; r = n mod 2 ^ k
      in (if 2 * r < 2 ^ k \<or> (2 * r = 2 ^ k \<and> even q) then q else Suc q) * 2 ^ k)"

definition wrap32 :: "int \<Rightarrow> int" where
  "wrap32 n = (n + 2 ^ 31) mod 2 ^ 32 - 2 ^ 31"

definition backoff :: "int \<Rightarrow> Worker \<Rightarrow> int \<Rightarrow> int" where
  "backoff overflow w attempt =
     (let exponent = max 0 (wrap32 (attempt - 1));
          product = int (float64 (nat (backoffBase w))) * 2 ^ nat exponent;
          delay = (if product < 2 ^ 63 then product else overflow)
      in if delay > backoffMax w then backoffMax w else delay)"

lemma float64_small: "n < 2 ^ 53 \<Longrightarrow> float64 n = n"
  by (subst float64_def, subst excessBits.simps) simp

lemma wrap32_id: "- (2 ^ 31) \<le> n \<Longrightarrow> n < 2 ^ 31 \<Longrightarrow> wrap32 n = n"
  by (simp add: wrap32_def)


section \<open>Claiming\<close>

definition claimable :: "env \<Rightarrow> ctx \<Rightarrow> Worker \<Rightarrow> OutboxRecord \<Rightarrow> bool" where
  "claimable e c w x \<longleftrightarrow>
     visible e c (x_org x) (x_loc x) \<and>
     ((x_status x = StatusPending \<and> x_available_at x \<le> now e) \<or>
      (x_status x = StatusProcessing \<and>
       (case x_locked_at x of
          None \<Rightarrow> False
        | Some t \<Rightarrow> t < now e - milliseconds (claimTimeout w) * 1000))) \<and>
     (destinations w = [] \<or> x_destination x \<in> set (destinations w) \<or> x_topic x \<in> set (destinations w))"

text \<open>
  \<open>busy\<close> are the rows another transaction has locked, which \<^verbatim>\<open>SKIP LOCKED\<close> passes over. The order in
  which RETURNING lists the rows is not specified; it is the order of the CTE here.
\<close>

definition claimedRows :: "env \<Rightarrow> ctx \<Rightarrow> (uuid \<Rightarrow> bool) \<Rightarrow> Worker \<Rightarrow> db \<Rightarrow> OutboxRecord list" where
  "claimedRows e c busy w s =
     take (nat (batchSize w))
       (sort_key (\<lambda>x. (x_created_at x, x_id x))
          (filter (\<lambda>x. claimable e c w x \<and> \<not> busy (x_id x)) (outbox_records s)))"

definition claimRow :: "env \<Rightarrow> Worker \<Rightarrow> OutboxRecord \<Rightarrow> OutboxRecord" where
  "claimRow e w x =
     x\<lparr>x_status := StatusProcessing, x_locked_at := Some (now e), x_locked_by := Some (instanceID w),
       x_attempts := x_attempts x + 1, x_last_error := None, x_updated_at := now e\<rparr>"

definition toRecord :: "OutboxRecord \<Rightarrow> Record" where
  "toRecord x =
     \<lparr>rc_ID = x_id x, rc_OrganisationID = x_org x, rc_LocationID = x_loc x, rc_EventID = x_event x,
      rc_Destination = x_destination x, rc_Topic = x_topic x, rc_Payload = x_payload x,
      rc_Attempts = x_attempts x, rc_CreatedAt = x_created_at x\<rparr>"

definition claimStatement ::
  "env \<Rightarrow> ctx \<Rightarrow> (uuid \<Rightarrow> bool) \<Rightarrow> Worker \<Rightarrow> db \<Rightarrow> db_error + Record list \<times> db" where
  "claimStatement e c busy w s =
     (let claimed = claimedRows e c busy w s
      in if \<exists>x \<in> set claimed. x_attempts x = maxInt32 then Inl (PgError ''22003'')
         else Inr (map (toRecord \<circ> claimRow e w) claimed,
                   s\<lparr>outbox_records :=
                       map (\<lambda>x. if x_id x \<in> x_id ` set claimed then claimRow e w x else x) (outbox_records s)\<rparr>))"

definition claim :: "env \<Rightarrow> (uuid \<Rightarrow> bool) \<Rightarrow> Worker \<Rightarrow> db \<Rightarrow> (string fail + Record list) \<times> db" where
  "claim e busy w s =
     (if fault e ''beginning outbox claim transaction''
      then (Inl (Wrapped ''beginning outbox claim transaction'' ConnFailure), s)
      else if fault e ''setting worker database context''
      then (Inl (rollback e (Wrapped ''setting worker database context'' ConnFailure)), s)
      else case runQuery e ''claiming outbox records'' None (claimStatement e admin_context busy w) s of
             Inl err \<Rightarrow> (Inl (rollback e err), s)
           | Inr (records, s') \<Rightarrow>
               if fault e ''scanning claimed outbox record'' \<and> records \<noteq> []
               then (Inl (rollback e (Wrapped ''scanning claimed outbox record'' ConnFailure)), s)
               else if fault e ''iterating claimed outbox records''
               then (Inl (rollback e (Wrapped ''iterating claimed outbox records'' ConnFailure)), s)
               else commitTx e ''committing outbox claim transaction'' records s s')"


section \<open>Statements in a transaction of their own\<close>

definition adminExec ::
  "env \<Rightarrow> string \<Rightarrow> (ctx \<Rightarrow> db \<Rightarrow> db_error + unit \<times> db) \<Rightarrow> db \<Rightarrow> string fail option \<times> db" where
  "adminExec e prefix sql s =
     (if fault e (within prefix ''beginning admin transaction'')
      then (Some (Wrapped (within prefix ''beginning admin transaction'') ConnFailure), s)
      else if fault e (within prefix ''setting admin database context'')
      then (Some (rollback e (Wrapped (within prefix ''setting admin database context'') ConnFailure)), s)
      else case runQuery e prefix None (sql admin_context) s of
             Inl err \<Rightarrow> (Some (rollback e err), s)
           | Inr (u, s') \<Rightarrow>
               (case commitTx e (within prefix ''committing admin transaction'') () s s' of
                  (Inl err, s'') \<Rightarrow> (Some err, s'')
                | (Inr u, s'') \<Rightarrow> (None, s'')))"

text \<open>\<^verbatim>\<open>UPDATE outbox_records SET ... WHERE id = $1\<close>: no row is not an error.\<close>

definition updateRecord ::
  "env \<Rightarrow> uuid \<Rightarrow> (OutboxRecord \<Rightarrow> OutboxRecord) \<Rightarrow> ctx \<Rightarrow> db \<Rightarrow> db_error + unit \<times> db" where
  "updateRecord e i f c s =
     Inr ((), s\<lparr>outbox_records :=
       map (\<lambda>x. if visible e c (x_org x) (x_loc x) \<and> x_id x = i then f x else x) (outbox_records s)\<rparr>)"

text \<open>Row security of \<^verbatim>\<open>consumer_event_records\<close> follows the event's.\<close>

definition eventVisible :: "env \<Rightarrow> ctx \<Rightarrow> db \<Rightarrow> uuid \<Rightarrow> bool" where
  "eventVisible e c s eventID \<longleftrightarrow>
     (rls e \<longrightarrow> platform_admin c \<or>
        (\<exists>r \<in> set (operational_events s). e_id r = eventID \<and> seatd_has_location_access c (e_org r) (e_loc r)))"

definition updateConsumerRecord ::
  "env \<Rightarrow> string \<Rightarrow> uuid \<Rightarrow> (ConsumerEventRecord \<Rightarrow> ConsumerEventRecord) \<Rightarrow> ctx \<Rightarrow> db \<Rightarrow> db_error + unit \<times> db" where
  "updateConsumerRecord e consumer eventID f c s =
     Inr ((), s\<lparr>consumer_event_records :=
       map (\<lambda>r. if eventVisible e c s (c_event r) \<and> c_consumer r = consumer \<and> c_event r = eventID then f r else r)
         (consumer_event_records s)\<rparr>)"

definition markProcessedRow :: "env \<Rightarrow> OutboxRecord \<Rightarrow> OutboxRecord" where
  "markProcessedRow e x =
     x\<lparr>x_status := StatusProcessed, x_processed_at := Some (now e), x_locked_at := None, x_locked_by := None,
       x_updated_at := now e\<rparr>"

definition retryRow :: "env \<Rightarrow> int \<Rightarrow> string \<Rightarrow> OutboxRecord \<Rightarrow> OutboxRecord" where
  "retryRow e delay text x =
     x\<lparr>x_status := StatusPending, x_available_at := now e + milliseconds delay * 1000, x_locked_at := None,
       x_locked_by := None, x_last_error := Some text, x_updated_at := now e\<rparr>"

definition failRow :: "env \<Rightarrow> string \<Rightarrow> OutboxRecord \<Rightarrow> OutboxRecord" where
  "failRow e text x =
     x\<lparr>x_status := StatusFailed, x_locked_at := None, x_locked_by := None, x_last_error := Some text,
       x_updated_at := now e\<rparr>"

definition markProcessed :: "Worker \<Rightarrow> env \<Rightarrow> Record \<Rightarrow> db \<Rightarrow> string fail option \<times> db \<times> effect list" where
  "markProcessed w e r s =
     (case adminExec e '''' (updateRecord e (rc_ID r) (markProcessedRow e)) s of
        (Some err, s') \<Rightarrow> (Some err, s', [])
      | (None, s') \<Rightarrow> (None, s', emit w (RecordProcessed (rc_Destination r) (rc_Topic r))))"

definition markConsumerProcessed :: "env \<Rightarrow> string \<Rightarrow> uuid \<Rightarrow> db \<Rightarrow> string fail option \<times> db" where
  "markConsumerProcessed e consumer eventID =
     adminExec e ''marking consumer event processed''
       (updateConsumerRecord e consumer eventID
          (\<lambda>r. r\<lparr>c_status := StatusProcessed, c_processed_at := Some (now e), c_last_error := None\<rparr>))"

definition markConsumerFailed :: "env \<Rightarrow> string \<Rightarrow> uuid \<Rightarrow> string \<Rightarrow> db \<Rightarrow> string fail option \<times> db" where
  "markConsumerFailed e consumer eventID cause =
     adminExec e ''marking consumer event failed''
       (updateConsumerRecord e consumer eventID
          (\<lambda>r. r\<lparr>c_status := StatusFailed, c_last_error := Some cause\<rparr>))"

text \<open>\<open>driver\<close> renders a driver error and \<open>overflow\<close> converts an out-of-range duration, as above.\<close>

record platform =
  driver :: "db_error \<Rightarrow> string"
  overflow :: int

definition markFailed ::
  "platform \<Rightarrow> Worker \<Rightarrow> env \<Rightarrow> Record \<Rightarrow> string fail \<Rightarrow> db \<Rightarrow> string fail option \<times> db \<times> effect list" where
  "markFailed p w e r cause s =
     (case adminExec e ''marking outbox record failed''
             (updateRecord e (rc_ID r) (failRow e (errorText (driver p) cause))) s of
        (Some err, s') \<Rightarrow> (Some err, s', [])
      | (None, s') \<Rightarrow> (Some cause, s', emit w (RecordFailed (rc_Destination r) (rc_Topic r))))"

definition retryOrFail ::
  "platform \<Rightarrow> Worker \<Rightarrow> env \<Rightarrow> Record \<Rightarrow> string fail \<Rightarrow> db \<Rightarrow> string fail option \<times> db \<times> effect list" where
  "retryOrFail p w e r cause s =
     (if rc_Attempts r \<ge> maxAttempts w then markFailed p w e r cause s
      else case adminExec e ''scheduling outbox retry''
                  (updateRecord e (rc_ID r)
                     (retryRow e (backoff (overflow p) w (rc_Attempts r)) (errorText (driver p) cause))) s of
             (Some err, s') \<Rightarrow> (Some err, s', [])
           | (None, s') \<Rightarrow> (Some cause, s', emit w (RecordRetried (rc_Destination r) (rc_Topic r))))"


section \<open>Delivering to a consumer\<close>

text \<open>\<^verbatim>\<open>INSERT ... ON CONFLICT DO NOTHING RETURNING true\<close>: whether a row was inserted.\<close>

definition insertConsumerRecord ::
  "env \<Rightarrow> string \<Rightarrow> uuid \<Rightarrow> uuid \<Rightarrow> ctx \<Rightarrow> db \<Rightarrow> db_error + bool \<times> db" where
  "insertConsumerRecord e consumer eventID recordID c s =
     (case firstViolation
             [(consumer \<noteq> '''', ''23514''),
              (eventVisible e c s eventID, ''42501'')] of
        Some state \<Rightarrow> Inl (PgError state)
      | None \<Rightarrow>
          if \<exists>r \<in> set (consumer_event_records s). c_consumer r = consumer \<and> c_event r = eventID then Inr (False, s)
          else case firstViolation
                      [(eventID \<in> e_id ` set (operational_events s), ''23503''),
                       (recordID \<in> x_id ` set (outbox_records s), ''23503'')] of
                 Some state \<Rightarrow> Inl (PgError state)
               | None \<Rightarrow>
                   Inr (True, s\<lparr>consumer_event_records := consumer_event_records s @
                     [\<lparr>c_consumer = consumer, c_event = eventID, c_outbox_record = recordID,
                       c_status = StatusProcessing, c_first_seen_at = now e, c_processed_at = None,
                       c_last_error = None\<rparr>]\<rparr>))"

definition consumerStatus :: "env \<Rightarrow> string \<Rightarrow> uuid \<Rightarrow> ctx \<Rightarrow> db \<Rightarrow> db_error + string" where
  "consumerStatus e consumer eventID c s =
     map_sum id c_status
       (selectOne (\<lambda>r. eventVisible e c s (c_event r) \<and> c_consumer r = consumer \<and> c_event r = eventID)
          (consumer_event_records s))"

text \<open>The transaction before the call: its value says whether the consumer already has the event.\<close>

definition startConsumer :: "env \<Rightarrow> Record \<Rightarrow> Consumer \<Rightarrow> db \<Rightarrow> (string fail + bool) \<times> db" where
  "startConsumer e r consumer s =
     (if fault e ''beginning consumer idempotency transaction''
      then (Inl (Wrapped ''beginning consumer idempotency transaction'' ConnFailure), s)
      else if fault e ''setting consumer database context''
      then (Inl (rollback e (Wrapped ''setting consumer database context'' ConnFailure)), s)
      else case runQuery e ''recording consumer idempotency start'' None
                  (insertConsumerRecord e (cn_Name consumer) (rc_EventID r) (rc_ID r) admin_context) s of
             Inl err \<Rightarrow> (Inl (rollback e err), s)
           | Inr (True, s') \<Rightarrow> commitTx e ''committing consumer idempotency start'' False s s'
           | Inr (False, s') \<Rightarrow>
               (case runQuery e ''reading consumer idempotency status'' None
                       (reading (consumerStatus e (cn_Name consumer) (rc_EventID r) admin_context)) s' of
                  Inl err \<Rightarrow> (Inl (rollback e err), s)
                | Inr (status, s'') \<Rightarrow>
                    if status = StatusProcessed
                    then commitTx e ''committing consumer idempotency skip'' True s s''
                    else commitTx e ''committing consumer idempotency start'' False s s''))"

definition consumerError :: "Consumer \<Rightarrow> Record \<Rightarrow> string \<Rightarrow> string fail" where
  "consumerError consumer r m =
     Err (''consumer '' @ cn_Name consumer @ '' handling event '' @ uuidString (rc_EventID r) @ '': '' @ m)"

text \<open>What follows the call: \<open>answer\<close> is what \<^verbatim>\<open>Handle\<close> returned.\<close>

definition finishConsumer ::
  "env \<Rightarrow> Record \<Rightarrow> Consumer \<Rightarrow> string option \<Rightarrow> db \<Rightarrow> string fail option \<times> db" where
  "finishConsumer e r consumer answer s =
     (case answer of
        Some m \<Rightarrow>
          (Some (consumerError consumer r m), snd (markConsumerFailed e (cn_Name consumer) (rc_EventID r) m s))
      | None \<Rightarrow> markConsumerProcessed e (cn_Name consumer) (rc_EventID r) s)"

definition callEffects :: "Worker \<Rightarrow> Consumer \<Rightarrow> Envelope \<Rightarrow> string option \<Rightarrow> effect list" where
  "callEffects w consumer event answer =
     Called (cn_Name consumer) event (answer = None) #
     (if answer = None then [] else emit w (RecordConsumerFailed (cn_Name consumer)))"

definition handleConsumer ::
  "Worker \<Rightarrow> env \<Rightarrow> env \<Rightarrow> Record \<Rightarrow> Envelope \<Rightarrow> Consumer \<Rightarrow> db \<Rightarrow> string fail option \<times> db \<times> effect list" where
  "handleConsumer w e1 e2 r event consumer s =
     (case startConsumer e1 r consumer s of
        (Inl err, s') \<Rightarrow> (Some err, s', [])
      | (Inr True, s') \<Rightarrow> (None, s', [])
      | (Inr False, s') \<Rightarrow>
          let answer = cn_Handle consumer e2 event;
              (err, s'') = finishConsumer e2 r consumer answer s'
          in (err, s'', callEffects w consumer event answer))"


section \<open>Processing a record and a batch\<close>

definition consumersOf :: "Worker \<Rightarrow> string \<Rightarrow> Consumer list" where
  "consumersOf w k = (case map_of (consumerMap w) k of None \<Rightarrow> [] | Some cs \<Rightarrow> cs)"

definition recordConsumers :: "Worker \<Rightarrow> Record \<Rightarrow> Consumer list" where
  "recordConsumers w r =
     (if consumersOf w (rc_Destination r) = [] then consumersOf w (rc_Topic r)
      else consumersOf w (rc_Destination r))"

text \<open>The loop over the consumers; consumer \<open>k\<close> runs in the worlds \<open>es (2 * k)\<close> and \<open>es (2 * k + 1)\<close>.\<close>

fun deliver ::
  "Worker \<Rightarrow> (nat \<Rightarrow> env) \<Rightarrow> nat \<Rightarrow> Record \<Rightarrow> Envelope \<Rightarrow> Consumer list \<Rightarrow> db \<Rightarrow>
     string fail option \<times> db \<times> effect list" where
  "deliver w es k r event [] s = (None, s, [])"
| "deliver w es k r event (consumer # rest) s =
     (case handleConsumer w (es (2 * k)) (es (2 * k + 1)) r event consumer s of
        (Some err, s', t) \<Rightarrow> (Some err, s', t)
      | (None, s', t) \<Rightarrow>
          (case deliver w es (Suc k) r event rest s' of
             (res, s'', t') \<Rightarrow> (res, s'', t @ t')))"

definition decodeError :: "string \<Rightarrow> string fail" where
  "decodeError m = Err (''decoding event payload: '' @ m)"

definition processRecord ::
  "platform \<Rightarrow> Worker \<Rightarrow> env \<Rightarrow> (nat \<Rightarrow> env) \<Rightarrow> Record \<Rightarrow> db \<Rightarrow> string fail option \<times> db \<times> effect list" where
  "processRecord p w e es r s =
     (case rc_Payload r of
        Undecodable m \<Rightarrow> markFailed p w e r (decodeError m) s
      | Encoded event \<Rightarrow>
          (case deliver w es 0 r event (recordConsumers w r) s of
             (Some err, s', t) \<Rightarrow>
               (case retryOrFail p w e r err s' of (res, s'', t') \<Rightarrow> (res, s'', t @ t'))
           | (None, s', t) \<Rightarrow>
               (case markProcessed w e r s' of (res, s'', t') \<Rightarrow> (res, s'', t @ t'))))"

text \<open>A context that is cancelled: every call of the driver fails.\<close>

definition cancelled :: "env \<Rightarrow> env" where
  "cancelled e = e\<lparr>fault := (\<lambda>site. True)\<rparr>"

text \<open>
  The group of a batch when the records run one after the other, as they do with a concurrency of one:
  the first error cancels the context the remaining records run in, and is the group's error. Record
  \<open>k\<close> runs in the worlds \<open>ws k\<close>. Interleaved executions are the step relation of \<open>OutboxSteps\<close>.
\<close>

fun runGroup ::
  "platform \<Rightarrow> Worker \<Rightarrow> (nat \<Rightarrow> env \<times> (nat \<Rightarrow> env)) \<Rightarrow> nat \<Rightarrow> string fail option \<Rightarrow> Record list \<Rightarrow> db \<Rightarrow>
     string fail option \<times> db \<times> effect list" where
  "runGroup p w ws k failed [] s = (failed, s, [])"
| "runGroup p w ws k failed (r # rest) s =
     (let (e, es) = ws k;
          e' = (if failed = None then e else cancelled e);
          es' = (if failed = None then es else cancelled \<circ> es);
          (res, s', t) = processRecord p w e' es' r s;
          (res', s'', t') = runGroup p w ws (Suc k) (if failed = None then res else failed) rest s'
      in (res', s'', t @ t'))"

definition claimEffects :: "Worker \<Rightarrow> Record list \<Rightarrow> effect list" where
  "claimEffects w records = concat (map (\<lambda>r. emit w (RecordClaimed (rc_Destination r) (rc_Topic r))) records)"

definition ProcessBatch ::
  "platform \<Rightarrow> Worker \<Rightarrow> env \<Rightarrow> (uuid \<Rightarrow> bool) \<Rightarrow> (nat \<Rightarrow> env \<times> (nat \<Rightarrow> env)) \<Rightarrow> db \<Rightarrow>
     int \<times> string fail option \<times> db \<times> effect list" where
  "ProcessBatch p w e busy ws s =
     (case claim e busy w s of
        (Inl err, s') \<Rightarrow> (0, Some err, s', [])
      | (Inr records, s') \<Rightarrow>
          (case runGroup p w ws 0 None records s' of
             (err, s'', t) \<Rightarrow>
               (int (length records), err, s'', claimEffects w records @ t)))"

text \<open>\<^verbatim>\<open>Run\<close> after a batch: return, start the next batch at once, or wait for the ticker.\<close>

datatype next_action = Return "string fail" | Again | AwaitTick

definition afterBatch :: "(string fail \<Rightarrow> bool) \<Rightarrow> int \<Rightarrow> string fail option \<Rightarrow> next_action" where
  "afterBatch isCanceled processed err =
     (case err of
        Some x \<Rightarrow> if isCanceled x then Return x else if processed > 0 then Again else AwaitTick
      | None \<Rightarrow> if processed > 0 then Again else AwaitTick)"

text \<open>\<^verbatim>\<open>Stats\<close>: how many records wait, and for how long the oldest.\<close>

definition statsRow :: "env \<Rightarrow> ctx \<Rightarrow> db \<Rightarrow> int \<times> timestamp option" where
  "statsRow e c s =
     (let waiting = filter (\<lambda>x. visible e c (x_org x) (x_loc x) \<and> x_status x = StatusPending) (outbox_records s)
      in (int (length waiting),
          if waiting = [] then None else Some (fold min (map x_created_at (tl waiting)) (x_created_at (hd waiting)))))"

definition WorkerStats :: "env \<Rightarrow> db \<Rightarrow> string fail + Stats" where
  "WorkerStats e s =
     (if fault e ''querying outbox stats: beginning admin query transaction''
      then Inl (Wrapped ''querying outbox stats: beginning admin query transaction'' ConnFailure)
      else if fault e ''querying outbox stats: setting admin database context''
      then Inl (rollback e (Wrapped ''querying outbox stats: setting admin database context'' ConnFailure))
      else case runQuery e ''querying outbox stats'' None (reading (\<lambda>s. Inr (statsRow e admin_context s))) s of
             Inl err \<Rightarrow> Inl (rollback e err)
           | Inr ((count, oldest), s') \<Rightarrow>
               if commit e \<noteq> Committed
               then Inl (Wrapped ''querying outbox stats: committing admin query transaction'' ConnFailure)
               else Inr \<lparr>st_PendingCount = count,
                         st_OldestPendingAge = (case oldest of None \<Rightarrow> 0 | Some t \<Rightarrow> wall e - t * 1000)\<rparr>)"

end
