(* ===== verification/OutboxSteps.thy ===== *)
theory OutboxSteps
  imports Outbox Tenancy
begin

text \<open>
  Workers as a transition system: any number of worker processes claim records and work on them in any
  interleaving of their transactions, a process may stop at any point, and the operations service keeps
  writing events meanwhile. A job is a claimed record with the point its processing has reached. The
  invariants of this system are what the outbox promises: nothing is marked processed that was not
  delivered, nothing is delivered to a consumer it was not meant for.
\<close>

section \<open>Jobs\<close>

datatype job =
    Received Record
  | Deliver Record Envelope "Consumer list"
  | Calling Record Envelope Consumer "Consumer list"
  | Answered Record Envelope Consumer "Consumer list" "string option"
  | Stopping Record "string fail"

text \<open>One transaction, or one call of a consumer, of \<^verbatim>\<open>processRecord\<close>.\<close>

fun jobStep :: "platform \<Rightarrow> Worker \<Rightarrow> env \<Rightarrow> job \<Rightarrow> db \<Rightarrow> job option \<times> db \<times> effect list" where
  "jobStep p w e (Received r) s =
     (case rc_Payload r of
        Undecodable m \<Rightarrow> (None, snd (markFailed p w e r (decodeError m) s))
      | Encoded event \<Rightarrow> (Some (Deliver r event (recordConsumers w r)), s, []))"
| "jobStep p w e (Deliver r event []) s = (None, snd (markProcessed w e r s))"
| "jobStep p w e (Deliver r event (c # cs)) s =
     (case startConsumer e r c s of
        (Inl err, s') \<Rightarrow> (Some (Stopping r err), s', [])
      | (Inr True, s') \<Rightarrow> (Some (Deliver r event cs), s', [])
      | (Inr False, s') \<Rightarrow> (Some (Calling r event c cs), s', []))"
| "jobStep p w e (Calling r event c cs) s =
     (let answer = cn_Handle c e event
      in (Some (Answered r event c cs answer), s, callEffects w c event answer))"
| "jobStep p w e (Answered r event c cs answer) s =
     (case finishConsumer e r c answer s of
        (Some err, s') \<Rightarrow> (Some (Stopping r err), s', [])
      | (None, s') \<Rightarrow> (Some (Deliver r event cs), s', []))"
| "jobStep p w e (Stopping r err) s = (None, snd (retryOrFail p w e r err s))"

text \<open>
  The worker processes of all deployments: each has its own instance identifier and claims the
  destinations \<open>ds\<close> it serves; \<open>w\<close> holds the settings and the consumers of every destination.
\<close>

inductive worker_step ::
  "platform \<Rightarrow> Worker \<Rightarrow> db \<times> job list \<times> effect list \<Rightarrow> db \<times> job list \<times> effect list \<Rightarrow> bool"
  for p :: platform and w :: Worker where
  claimed: "claim e busy (w\<lparr>instanceID := i, destinations := ds\<rparr>) s = (Inr rs, s') \<Longrightarrow>
     worker_step p w (s, js, t) (s', js @ map Received rs, t @ claimEffects w rs)"
| unclaimed: "claim e busy (w\<lparr>instanceID := i, destinations := ds\<rparr>) s = (Inl err, s') \<Longrightarrow>
     worker_step p w (s, js, t) (s', js, t)"
| worked: "jobStep p w e j s = (follow, s', t') \<Longrightarrow>
     worker_step p w (s, js @ j # js', t) (s', js @ (case follow of None \<Rightarrow> [] | Some j' \<Rightarrow> [j']) @ js', t @ t')"
| crashed: "worker_step p w (s, js @ j # js', t) (s, js @ js', t)"
| service: "op_step s s' \<Longrightarrow> worker_step p w (s, js, t) (s', js, t)"



section \<open>What the worker promises\<close>

text \<open>A successful call of the consumer with the event.\<close>

definition delivered :: "effect list \<Rightarrow> string \<Rightarrow> uuid \<Rightarrow> bool" where
  "delivered t consumer eventID \<longleftrightarrow> (\<exists>event. Called consumer event True \<in> set t \<and> ev_ID event = eventID)"

definition rowConsumers :: "Worker \<Rightarrow> OutboxRecord \<Rightarrow> Consumer list" where
  "rowConsumers w x = recordConsumers w (toRecord x)"

definition payloadOk :: "OutboxRecord \<Rightarrow> bool" where
  "payloadOk x \<longleftrightarrow> (case x_payload x of Encoded event \<Rightarrow> ev_ID event = x_event x | Undecodable m \<Rightarrow> True)"

definition rowDelivered :: "Worker \<Rightarrow> effect list \<Rightarrow> OutboxRecord \<Rightarrow> bool" where
  "rowDelivered w t x \<longleftrightarrow> list_all (\<lambda>c. delivered t (cn_Name c) (x_event x)) (rowConsumers w x)"

definition deadLetter :: "Worker \<Rightarrow> OutboxRecord \<Rightarrow> bool" where
  "deadLetter w x \<longleftrightarrow> (case x_payload x of Encoded event \<Rightarrow> maxAttempts w \<le> x_attempts x | Undecodable m \<Rightarrow> True)"

definition rowOk :: "Worker \<Rightarrow> effect list \<Rightarrow> OutboxRecord \<Rightarrow> bool" where
  "rowOk w t x \<longleftrightarrow>
     payloadOk x \<and> (x_status x = StatusProcessed \<longrightarrow> rowDelivered w t x) \<and>
     (x_status x = StatusFailed \<longrightarrow> deadLetter w x)"

definition rowKey :: "OutboxRecord \<Rightarrow> uuid \<times> uuid \<times> string \<times> string \<times> payload" where
  "rowKey x = (x_id x, x_event x, x_destination x, x_topic x, x_payload x)"

definition recordKey :: "Record \<Rightarrow> uuid \<times> uuid \<times> string \<times> string \<times> payload" where
  "recordKey r = (rc_ID r, rc_EventID r, rc_Destination r, rc_Topic r, rc_Payload r)"

text \<open>\<open>x\<close> is the row a claim returned \<open>r\<close> of, possibly claimed again since.\<close>

definition tracks :: "Record \<Rightarrow> OutboxRecord \<Rightarrow> bool" where
  "tracks r x \<longleftrightarrow> recordKey r = rowKey x \<and> rc_Attempts r \<le> x_attempts x"

fun jobRecord :: "job \<Rightarrow> Record" where
  "jobRecord (Received r) = r"
| "jobRecord (Deliver r event cs) = r"
| "jobRecord (Calling r event c cs) = r"
| "jobRecord (Answered r event c cs answer) = r"
| "jobRecord (Stopping r err) = r"

definition deliveredUpTo :: "Worker \<Rightarrow> effect list \<Rightarrow> Record \<Rightarrow> Envelope \<Rightarrow> Consumer list \<Rightarrow> bool" where
  "deliveredUpTo w t r event rest \<longleftrightarrow>
     rc_Payload r = Encoded event \<and>
     (\<exists>before. recordConsumers w r = before @ rest \<and>
        list_all (\<lambda>c. delivered t (cn_Name c) (rc_EventID r)) before)"

fun progress :: "Worker \<Rightarrow> effect list \<Rightarrow> job \<Rightarrow> bool" where
  "progress w t (Received r) = True"
| "progress w t (Deliver r event cs) = deliveredUpTo w t r event cs"
| "progress w t (Calling r event c cs) = deliveredUpTo w t r event (c # cs)"
| "progress w t (Answered r event c cs answer) =
     (deliveredUpTo w t r event (c # cs) \<and> (answer = None \<longrightarrow> delivered t (cn_Name c) (rc_EventID r)))"
| "progress w t (Stopping r err) = (\<exists>event. rc_Payload r = Encoded event)"

definition jobOk :: "Worker \<Rightarrow> effect list \<Rightarrow> OutboxRecord list \<Rightarrow> job \<Rightarrow> bool" where
  "jobOk w t xs j \<longleftrightarrow> (\<exists>x \<in> set xs. tracks (jobRecord j) x) \<and> progress w t j"

definition callsRouted :: "Worker \<Rightarrow> effect list \<Rightarrow> OutboxRecord list \<Rightarrow> bool" where
  "callsRouted w t xs \<longleftrightarrow>
     (\<forall>consumer event ok. Called consumer event ok \<in> set t \<longrightarrow>
        (\<exists>x \<in> set xs. x_payload x = Encoded event \<and> consumer \<in> cn_Name ` set (rowConsumers w x)))"

definition consumersOk :: "effect list \<Rightarrow> ConsumerEventRecord list \<Rightarrow> bool" where
  "consumersOk t rs \<longleftrightarrow> (\<forall>r \<in> set rs. c_status r = StatusProcessed \<longrightarrow> delivered t (c_consumer r) (c_event r))"

definition outboxOk :: "Worker \<Rightarrow> effect list \<Rightarrow> OutboxRecord list \<Rightarrow> bool" where
  "outboxOk w t xs \<longleftrightarrow> distinct (map x_id xs) \<and> (\<forall>x \<in> set xs. rowOk w t x)"

fun workerInv :: "Worker \<Rightarrow> db \<times> job list \<times> effect list \<Rightarrow> bool" where
  "workerInv w (s, js, t) \<longleftrightarrow>
     wf_db s \<and> outboxOk w t (outbox_records s) \<and> consumersOk t (consumer_event_records s) \<and>
     (\<forall>j \<in> set js. jobOk w t (outbox_records s) j) \<and> callsRouted w t (outbox_records s)"

text \<open>Rows stay, keep what they say about the event, and count their attempts upwards.\<close>

definition rowsKept :: "OutboxRecord list \<Rightarrow> OutboxRecord list \<Rightarrow> bool" where
  "rowsKept xs xs' \<longleftrightarrow> (\<forall>x \<in> set xs. \<exists>x' \<in> set xs'. rowKey x' = rowKey x \<and> x_attempts x \<le> x_attempts x')"

lemma delivered_mono: "delivered t c i \<Longrightarrow> delivered (t @ t') c i"
  by (auto simp: delivered_def)

lemma rowOk_mono: "rowOk w t x \<Longrightarrow> rowOk w (t @ t') x"
  by (auto simp: rowOk_def rowDelivered_def list_all_iff delivered_mono)

lemma outboxOk_mono: "outboxOk w t xs \<Longrightarrow> outboxOk w (t @ t') xs"
  by (simp add: outboxOk_def rowOk_mono)

lemma consumersOk_mono: "consumersOk t rs \<Longrightarrow> consumersOk (t @ t') rs"
  by (simp add: consumersOk_def delivered_mono)

lemma deliveredUpTo_mono: "deliveredUpTo w t r ev cs \<Longrightarrow> deliveredUpTo w (t @ t') r ev cs"
  by (auto simp: deliveredUpTo_def list_all_iff delivered_mono)

lemma progress_mono: "progress w t j \<Longrightarrow> progress w (t @ t') j"
  by (cases j) (auto simp: deliveredUpTo_mono delivered_mono)

lemma rowConsumers_key: "rowKey x' = rowKey x \<Longrightarrow> rowConsumers w x' = rowConsumers w x"
  by (simp add: rowKey_def rowConsumers_def recordConsumers_def toRecord_def)

lemma tracks_kept:
  assumes "x \<in> set xs" and "tracks r x" and "rowsKept xs xs'"
  shows "\<exists>x' \<in> set xs'. tracks r x'"
proof -
  from assms(1,3) obtain x' where "x' \<in> set xs'" "rowKey x' = rowKey x" "x_attempts x \<le> x_attempts x'"
    unfolding rowsKept_def by blast
  with assms(2) show ?thesis by (auto simp: tracks_def intro!: bexI [of _ x'])
qed

lemma jobOk_mono: "jobOk w t xs j \<Longrightarrow> rowsKept xs xs' \<Longrightarrow> jobOk w (t @ t') xs' j"
  unfolding jobOk_def using progress_mono tracks_kept by blast

lemma callsRouted_kept:
  assumes "callsRouted w t xs" and "rowsKept xs xs'"
  shows "callsRouted w t xs'"
  unfolding callsRouted_def
proof (intro allI impI)
  fix consumer event ok
  assume "Called consumer event ok \<in> set t"
  with assms(1) obtain x where "x \<in> set xs" "x_payload x = Encoded event" "consumer \<in> cn_Name ` set (rowConsumers w x)"
    unfolding callsRouted_def by blast
  moreover from this(1) assms(2) obtain x' where "x' \<in> set xs'" "rowKey x' = rowKey x" unfolding rowsKept_def by blast
  ultimately show "\<exists>x \<in> set xs'. x_payload x = Encoded event \<and> consumer \<in> cn_Name ` set (rowConsumers w x)"
    using rowConsumers_key [of x' x w] by (auto simp: rowKey_def)
qed

lemma rowsKept_refl [simp]: "rowsKept xs xs"
  by (auto simp: rowsKept_def)

lemma rowsKept_append [simp]: "rowsKept xs (xs @ ys)"
  by (auto simp: rowsKept_def)

lemma rowsKept_map:
  "(\<And>x. rowKey (f x) = rowKey x \<and> x_attempts x \<le> x_attempts (f x)) \<Longrightarrow> rowsKept xs (map f xs)"
  by (auto simp: rowsKept_def)

text \<open>Updating rows: the keys stay distinct, and only the changed rows have to be looked at.\<close>

lemma outboxOk_map:
  assumes "outboxOk w t xs" and "\<And>x. rowKey (f x) = rowKey x"
    and "\<And>x. x \<in> set xs \<Longrightarrow> rowOk w t x \<Longrightarrow> rowOk w t (f x)"
  shows "outboxOk w t (map f xs)"
proof -
  have "map x_id (map f xs) = map x_id xs" using assms(2) by (simp add: rowKey_def)
  with assms(1,3) show ?thesis by (auto simp: outboxOk_def simp del: map_map)
qed

lemma rowOk_status:
  assumes "rowOk w t x" and "rowKey x' = rowKey x" and "x_status x' \<noteq> StatusProcessed" and "x_status x' \<noteq> StatusFailed"
  shows "rowOk w t x'"
  using assms by (auto simp: rowOk_def payloadOk_def rowKey_def split: payload.splits)


section \<open>What a transaction of the worker changes\<close>

lemma adminExec_cases:
  assumes "adminExec e prefix sql s = (res, s')"
  obtains (unchanged) "res \<noteq> None" and "s' = s" | (changed) u where "sql admin_context s = Inr (u, s')"
  using assms
  by (auto simp: adminExec_def commitTx_def runQuery_Inr
      split: if_splits sum.splits prod.splits commit_outcome.splits)

lemma updateRecord_admin [simp]:
  "updateRecord e i f admin_context s =
     Inr ((), s\<lparr>outbox_records := map (\<lambda>x. if x_id x = i then f x else x) (outbox_records s)\<rparr>)"
  by (simp add: updateRecord_def)

lemma eventVisible_admin [simp]: "eventVisible e admin_context s i"
  by (simp add: eventVisible_def admin_context_def)

lemma updateConsumerRecord_admin [simp]:
  "updateConsumerRecord e consumer i f admin_context s =
     Inr ((), s\<lparr>consumer_event_records :=
       map (\<lambda>r. if c_consumer r = consumer \<and> c_event r = i then f r else r) (consumer_event_records s)\<rparr>)"
  by (simp add: updateConsumerRecord_def)

lemma wf_outbox_rows [simp]: "wf_db (s\<lparr>outbox_records := xs\<rparr>) = wf_db s"
  by (rule wf_db_core) (simp add: core_def)

lemma wf_consumer_rows [simp]: "wf_db (s\<lparr>consumer_event_records := xs\<rparr>) = wf_db s"
  by (rule wf_db_core) (simp add: core_def)

lemma startConsumer_cases:
  assumes "startConsumer e r c s = (res, s')"
  obtains (skipped) "s' = s" and "res \<noteq> Inr True"
  | (replayed) "s' = s" and "res = Inr True"
      and "\<exists>x \<in> set (consumer_event_records s). c_consumer x = cn_Name c \<and> c_event x = rc_EventID r \<and> c_status x = StatusProcessed"
  | (inserted) x where "s' = s\<lparr>consumer_event_records := consumer_event_records s @ [x]\<rparr>" and "res \<noteq> Inr True"
      and "c_status x = StatusProcessing"
proof -
  let ?ins = "runQuery e ''recording consumer idempotency start'' None
    (insertConsumerRecord e (cn_Name c) (rc_EventID r) (rc_ID r) admin_context) s :: string fail + bool \<times> db"
  have new: "s1 = (if b then s\<lparr>consumer_event_records := consumer_event_records s @
                     [\<lparr>c_consumer = cn_Name c, c_event = rc_EventID r, c_outbox_record = rc_ID r,
                       c_status = StatusProcessing, c_first_seen_at = now e, c_processed_at = None,
                       c_last_error = None\<rparr>]\<rparr> else s)" if "?ins = Inr (b, s1)" for b s1
    using that by (auto simp: runQuery_Inr insertConsumerRecord_def split: option.splits if_splits)
  consider (stop) "s' = s" "\<exists>err. res = Inl err"
    | (ins) s1 where "?ins = Inr (True, s1)" "(res, s') = commitTx e ''committing consumer idempotency start'' False s s1"
    | (old) s1 status s2 where "?ins = Inr (False, s1)"
        "reading (consumerStatus e (cn_Name c) (rc_EventID r) admin_context) s1 = Inr (status, s2)"
        "(res, s') = (if status = StatusProcessed then commitTx e ''committing consumer idempotency skip'' True s s2
                      else commitTx e ''committing consumer idempotency start'' False s s2)"
    using assms by (auto simp: startConsumer_def runQuery_Inr split: if_splits sum.splits bool.splits)
  then show thesis
  proof cases
    case stop
    then show thesis by (intro skipped) auto
  next
    case ins
    from new [OF ins(1)] ins(2) show thesis
      by (auto simp: commitTx_def split: if_splits commit_outcome.splits intro: skipped inserted)
  next
    case old
    from new [OF old(1)] have "s1 = s" by simp
    with old(2) have "s2 = s" and st: "consumerStatus e (cn_Name c) (rc_EventID r) admin_context s = Inr status"
      by (simp_all add: reading_Inr)
    show thesis
    proof (cases "res = Inr True")
      case True
      with old(3) \<open>s2 = s\<close> have "status = StatusProcessed" "s' = s"
        by (auto simp: commitTx_def split: if_splits commit_outcome.splits)
      with st True show thesis
        by (intro replayed) (auto simp: consumerStatus_def row_simps dest!: find_SomeD elim!: map_sum_InrE)
    next
      case False
      with old(3) \<open>s2 = s\<close> show thesis
        by (intro skipped) (auto simp: commitTx_def split: if_splits commit_outcome.splits)
    qed
  qed
qed

lemma claim_cases:
  assumes "claim e busy w s = (res, s')"
  obtains (none) err where "res = Inl err" and "s' = s"
  | (some) rows where "set rows \<subseteq> set (outbox_records s)" and "\<forall>x \<in> set rows. claimable e admin_context w x"
      and "s' = s\<lparr>outbox_records :=
             map (\<lambda>x. if x_id x \<in> x_id ` set rows then claimRow e w x else x) (outbox_records s)\<rparr>"
      and "\<forall>rs. res = Inr rs \<longrightarrow> rs = map (toRecord \<circ> claimRow e w) rows"
proof -
  let ?rows = "claimedRows e admin_context busy w s"
  have sub: "set ?rows \<subseteq> set (outbox_records s)" "\<forall>x \<in> set ?rows. claimable e admin_context w x"
    by (auto simp: claimedRows_def dest!: in_set_takeD)
  from assms consider "\<exists>err. res = Inl err" "s' = s"
    | rs s1 where "claimStatement e admin_context busy w s = Inr (rs, s1)" "s' = s1" "\<forall>rs'. res = Inr rs' \<longrightarrow> rs' = rs"
    unfolding claim_def
    by (auto simp: runQuery_Inr commitTx_def split: if_splits sum.splits commit_outcome.splits)
  then show thesis
  proof cases
    case 1
    then show thesis using none by blast
  next
    case 2
    then show thesis using sub by (intro some [of ?rows]) (auto simp: claimStatement_def Let_def split: if_splits)
  qed
qed


definition noCalls :: "effect list \<Rightarrow> bool" where
  "noCalls t \<longleftrightarrow> (\<forall>c event ok. Called c event ok \<notin> set t)"

lemma noCalls_emit [simp]:
  "noCalls []" "noCalls (emit w (RecordProcessed d k))" "noCalls (emit w (RecordRetried d k))"
  "noCalls (emit w (RecordFailed d k))" "noCalls (emit w (RecordConsumerFailed c))" "noCalls (claimEffects w rs)"
  by (auto simp: noCalls_def emit_def claimEffects_def)

lemma callsRouted_quiet: "noCalls t' \<Longrightarrow> callsRouted w (t @ t') xs = callsRouted w t xs"
  by (auto simp: callsRouted_def noCalls_def)

definition rowUpdate :: "uuid \<Rightarrow> (OutboxRecord \<Rightarrow> OutboxRecord) \<Rightarrow> db \<Rightarrow> db" where
  "rowUpdate i f s = s\<lparr>outbox_records := map (\<lambda>x. if x_id x = i then f x else x) (outbox_records s)\<rparr>"

lemma adminExec_row:
  assumes "adminExec e prefix (updateRecord e' i f) s = (res, s')"
  shows "s' = s \<or> s' = rowUpdate i f s"
  using assms by (rule adminExec_cases) (simp_all add: rowUpdate_def)

lemma markProcessed_cases:
  assumes "markProcessed w e r s = (res, s', t)"
  shows "(s' = s \<or> s' = rowUpdate (rc_ID r) (markProcessedRow e) s) \<and> noCalls t"
  using assms by (auto simp: markProcessed_def split: prod.splits option.splits dest: adminExec_row)

lemma markFailed_cases:
  assumes "markFailed p w e r cause s = (res, s', t)"
  shows "(s' = s \<or> (\<exists>text. s' = rowUpdate (rc_ID r) (failRow e text) s)) \<and> noCalls t"
  using assms by (auto simp: markFailed_def split: prod.splits option.splits dest!: adminExec_row)

lemma retryOrFail_cases:
  assumes "retryOrFail p w e r cause s = (res, s', t)"
  shows "(s' = s \<or> (\<exists>text. maxAttempts w \<le> rc_Attempts r \<and> s' = rowUpdate (rc_ID r) (failRow e text) s) \<or>
      (\<exists>delay text. s' = rowUpdate (rc_ID r) (retryRow e delay text) s)) \<and> noCalls t"
proof (cases "maxAttempts w \<le> rc_Attempts r")
  case True
  with assms show ?thesis using markFailed_cases [of p w e r cause s res s' t] by (auto simp: retryOrFail_def)
next
  case False
  with assms show ?thesis
    by (auto simp: retryOrFail_def split: prod.splits option.splits dest!: adminExec_row)
qed

lemma finishConsumer_cases:
  assumes "finishConsumer e r c answer s = (res, s')"
  obtains (unchanged) "s' = s" and "res \<noteq> None"
  | (failed) cause where "answer \<noteq> None" and "res \<noteq> None"
      and "s' = s\<lparr>consumer_event_records :=
        map (\<lambda>x. if c_consumer x = cn_Name c \<and> c_event x = rc_EventID r
                 then x\<lparr>c_status := StatusFailed, c_last_error := Some cause\<rparr> else x) (consumer_event_records s)\<rparr>"
  | (processed) "answer = None"
      and "s' = s\<lparr>consumer_event_records :=
        map (\<lambda>x. if c_consumer x = cn_Name c \<and> c_event x = rc_EventID r
                 then x\<lparr>c_status := StatusProcessed, c_processed_at := Some (now e), c_last_error := None\<rparr> else x)
          (consumer_event_records s)\<rparr>"
proof (cases answer)
  case None
  with assms have "adminExec e ''marking consumer event processed''
       (updateConsumerRecord e (cn_Name c) (rc_EventID r)
          (\<lambda>r. r\<lparr>c_status := StatusProcessed, c_processed_at := Some (now e), c_last_error := None\<rparr>)) s = (res, s')"
    by (simp add: finishConsumer_def markConsumerProcessed_def)
  then show thesis by (rule adminExec_cases) (use None in \<open>auto intro: unchanged processed\<close>)
next
  case (Some m)
  obtain res1 where "adminExec e ''marking consumer event failed''
       (updateConsumerRecord e (cn_Name c) (rc_EventID r) (\<lambda>r. r\<lparr>c_status := StatusFailed, c_last_error := Some m\<rparr>)) s =
       (res1, s')" and "res \<noteq> None"
    using assms Some by (auto simp: finishConsumer_def markConsumerFailed_def prod_eq_iff)
  from this(1) show thesis by (rule adminExec_cases) (use Some \<open>res \<noteq> None\<close> in \<open>auto intro: unchanged failed\<close>)
qed


section \<open>Preservation\<close>

lemma tracks_unique:
  assumes "distinct (map x_id xs)" and "x \<in> set xs" and "tracks r x" and "y \<in> set xs" and "x_id y = rc_ID r"
  shows "tracks r y"
proof -
  from assms(3,5) have "x_id y = x_id x" by (simp add: tracks_def recordKey_def rowKey_def)
  with assms(1,2,4) have "y = x" by (blast intro: distinct_key_eq)
  with assms(3) show ?thesis by simp
qed

lemma tracks_same:
  assumes "tracks r x"
  shows "x_payload x = rc_Payload r" "x_event x = rc_EventID r" "x_id x = rc_ID r" "rc_Attempts r \<le> x_attempts x"
    "rowConsumers w x = recordConsumers w r"
  using assms by (simp_all add: tracks_def recordKey_def rowKey_def rowConsumers_def recordConsumers_def toRecord_def)

lemma rowUpdate_frame [simp]:
  "wf_db (rowUpdate i f s) = wf_db s" "consumer_event_records (rowUpdate i f s) = consumer_event_records s"
  by (simp_all add: rowUpdate_def)

lemma rowUpdate_ok:
  assumes ok: "outboxOk w t (outbox_records s)" and x: "x \<in> set (outbox_records s)" "tracks r x"
    and f: "\<And>y. rowKey (f y) = rowKey y \<and> x_attempts y \<le> x_attempts (f y)"
    and new: "\<And>y. tracks r y \<Longrightarrow> rowOk w t y \<Longrightarrow> rowOk w t (f y)"
  shows "outboxOk w t (outbox_records (rowUpdate (rc_ID r) f s))"
    and "rowsKept (outbox_records s) (outbox_records (rowUpdate (rc_ID r) f s))"
proof -
  have d: "distinct (map x_id (outbox_records s))" using ok by (simp add: outboxOk_def)
  show "outboxOk w t (outbox_records (rowUpdate (rc_ID r) f s))"
    unfolding rowUpdate_def db.simps db.select_convs
    using f new tracks_unique [OF d x] by (auto intro: outboxOk_map [OF ok])
  show "rowsKept (outbox_records s) (outbox_records (rowUpdate (rc_ID r) f s))"
    using f by (auto simp: rowUpdate_def intro!: rowsKept_map)
qed

lemma row_changes [simp]:
  "rowKey (markProcessedRow e y) = rowKey y" "x_attempts (markProcessedRow e y) = x_attempts y"
  "rowKey (failRow e text y) = rowKey y" "x_attempts (failRow e text y) = x_attempts y"
  "rowKey (retryRow e delay text y) = rowKey y" "x_attempts (retryRow e delay text y) = x_attempts y"
  "rowKey (claimRow e w y) = rowKey y" "x_attempts (claimRow e w y) = x_attempts y + 1"
  "x_status (markProcessedRow e y) = StatusProcessed" "x_status (failRow e text y) = StatusFailed"
  "x_status (retryRow e delay text y) = StatusPending" "x_status (claimRow e w y) = StatusProcessing"
  by (simp_all add: rowKey_def markProcessedRow_def failRow_def retryRow_def claimRow_def)

lemma rowOk_failed:
  assumes "rowOk w t y" and "deadLetter w y"
  shows "rowOk w t (failRow e text y)"
  using assms by (simp add: rowOk_def payloadOk_def deadLetter_def failRow_def split: payload.splits)

lemma rowOk_processed:
  assumes "rowOk w t y" and "list_all (\<lambda>c. delivered t (cn_Name c) (x_event y)) (rowConsumers w y)"
  shows "rowOk w t (markProcessedRow e y)"
  using assms rowConsumers_key [OF row_changes(1), of w e y]
  by (auto simp: rowOk_def payloadOk_def rowDelivered_def markProcessedRow_def split: payload.splits)


lemma workerInv_advance:
  assumes inv: "workerInv w (s, js @ j # js', t)" and wf: "wf_db s'"
    and ok: "outboxOk w (t @ t') (outbox_records s')" and kept: "rowsKept (outbox_records s) (outbox_records s')"
    and cons: "consumersOk (t @ t') (consumer_event_records s')"
    and nxt: "\<And>j'. follow = Some j' \<Longrightarrow> jobOk w (t @ t') (outbox_records s') j'"
    and calls: "callsRouted w (t @ t') (outbox_records s)"
  shows "workerInv w (s', js @ (case follow of None \<Rightarrow> [] | Some j' \<Rightarrow> [j']) @ js', t @ t')"
proof -
  have "jobOk w (t @ t') (outbox_records s') j" if "j \<in> set (js @ (case follow of None \<Rightarrow> [] | Some j' \<Rightarrow> [j']) @ js')" for j
    using that inv nxt jobOk_mono [OF _ kept] by (auto split: option.splits)
  with wf ok cons callsRouted_kept [OF calls kept] show ?thesis by simp
qed

lemma workerInv_parts:
  assumes "workerInv w (s, js @ j # js', t)"
  shows "wf_db s" "outboxOk w t (outbox_records s)" "consumersOk t (consumer_event_records s)"
    "\<exists>x \<in> set (outbox_records s). tracks (jobRecord j) x" "progress w t j" "callsRouted w t (outbox_records s)"
  using assms by (auto simp: jobOk_def)

declare workerInv.simps [simp del]

text \<open>A step that leaves the rows alone and makes no call.\<close>

lemma workerInv_same:
  assumes inv: "workerInv w (s, js @ j # js', t)"
    and "\<And>j'. follow = Some j' \<Longrightarrow> jobRecord j' = jobRecord j \<and> progress w t j'"
  shows "workerInv w (s, js @ (case follow of None \<Rightarrow> [] | Some j' \<Rightarrow> [j']) @ js', t)"
proof -
  note P = workerInv_parts [OF inv]
  have "workerInv w (s, js @ (case follow of None \<Rightarrow> [] | Some j' \<Rightarrow> [j']) @ js', t @ [])"
    using P assms(2) by (intro workerInv_advance [OF inv]) (simp_all add: jobOk_def)
  then show ?thesis by simp
qed

text \<open>A step that updates the row of the job's record, and ends the job.\<close>

lemma workerInv_row:
  assumes inv: "workerInv w (s, js @ j # js', t)" and quiet: "noCalls t'"
    and s': "s' = s \<or> s' = rowUpdate (rc_ID (jobRecord j)) f s"
    and f: "\<And>y. rowKey (f y) = rowKey y \<and> x_attempts y \<le> x_attempts (f y)"
    and new: "\<And>y. tracks (jobRecord j) y \<Longrightarrow> rowOk w t y \<Longrightarrow> rowOk w t (f y)"
  shows "workerInv w (s', js @ (case None of None \<Rightarrow> [] | Some j' \<Rightarrow> [j']) @ js', t @ t')"
proof -
  note P = workerInv_parts [OF inv]
  obtain x where x: "x \<in> set (outbox_records s)" "tracks (jobRecord j) x" using P(4) by blast
  have "outboxOk w t (outbox_records s')" "rowsKept (outbox_records s) (outbox_records s')"
    "wf_db s'" "consumer_event_records s' = consumer_event_records s"
    using s' P(1,2) rowUpdate_ok [OF P(2) x f new] by auto
  with P quiet show ?thesis
    by (intro workerInv_advance [OF inv]) (auto simp: outboxOk_mono consumersOk_mono callsRouted_quiet)
qed

lemma workerInv_consumers:
  assumes inv: "workerInv w (s, js @ j # js', t)" and "consumersOk t rs"
    and "\<And>j'. follow = Some j' \<Longrightarrow> jobRecord j' = jobRecord j \<and> progress w t j'"
  shows "workerInv w (s\<lparr>consumer_event_records := rs\<rparr>, js @ (case follow of None \<Rightarrow> [] | Some j' \<Rightarrow> [j']) @ js', t)"
proof -
  note P = workerInv_parts [OF inv]
  have "workerInv w (s\<lparr>consumer_event_records := rs\<rparr>, js @ (case follow of None \<Rightarrow> [] | Some j' \<Rightarrow> [j']) @ js', t @ [])"
    using P assms(2,3) by (intro workerInv_advance [OF inv]) (simp_all add: jobOk_def)
  then show ?thesis by simp
qed

lemma deliveredUpTo_next:
  assumes "deliveredUpTo w t r event (c # cs)" and "delivered t (cn_Name c) (rc_EventID r)"
  shows "deliveredUpTo w t r event cs"
proof -
  from assms(1) obtain b where "rc_Payload r = Encoded event" "recordConsumers w r = (b @ [c]) @ cs"
    "list_all (\<lambda>c. delivered t (cn_Name c) (rc_EventID r)) b" by (auto simp: deliveredUpTo_def)
  with assms(2) show ?thesis unfolding deliveredUpTo_def by (intro conjI exI [of _ "b @ [c]"]) simp_all
qed

lemma deliveredUpTo_consumer: "deliveredUpTo w t r event (c # cs) \<Longrightarrow> c \<in> set (recordConsumers w r)"
  by (auto simp: deliveredUpTo_def)

lemma inv_received:
  assumes inv: "workerInv w (s, js @ Received r # js', t)" and st: "jobStep p w e (Received r) s = (follow, s', t')"
  shows "workerInv w (s', js @ (case follow of None \<Rightarrow> [] | Some j' \<Rightarrow> [j']) @ js', t @ t')"
proof (cases "rc_Payload r")
  case (Encoded event)
  with st have "follow = Some (Deliver r event (recordConsumers w r))" "s' = s" "t' = []" by simp_all
  with workerInv_same [OF inv, of follow] Encoded show ?thesis by (simp add: deliveredUpTo_def)
next
  case (Undecodable m)
  with st obtain res where res: "markFailed p w e r (decodeError m) s = (res, s', t')" and "follow = None"
    by (cases "markFailed p w e r (decodeError m) s") auto
  from markFailed_cases [OF res] obtain msg where "s' = s \<or> s' = rowUpdate (rc_ID r) (failRow e msg) s" and "noCalls t'" by blast
  with workerInv_row [OF inv, of t' s' "failRow e msg"] \<open>follow = None\<close> Undecodable show ?thesis
    by (simp add: rowOk_failed deadLetter_def tracks_same)
qed

lemma inv_stopping:
  assumes inv: "workerInv w (s, js @ Stopping r err # js', t)" and st: "jobStep p w e (Stopping r err) s = (follow, s', t')"
  shows "workerInv w (s', js @ (case follow of None \<Rightarrow> [] | Some j' \<Rightarrow> [j']) @ js', t @ t')"
proof -
  from st obtain res where res: "retryOrFail p w e r err s = (res, s', t')" and "follow = None"
    by (cases "retryOrFail p w e r err s") auto
  from workerInv_parts(5) [OF inv] obtain event where ev: "rc_Payload r = Encoded event" by auto
  from retryOrFail_cases [OF res] consider "s' = s" "noCalls t'"
    | msg where "maxAttempts w \<le> rc_Attempts r" "s' = rowUpdate (rc_ID r) (failRow e msg) s" "noCalls t'"
    | delay msg where "s' = rowUpdate (rc_ID r) (retryRow e delay msg) s" "noCalls t'" by blast
  then show ?thesis
  proof cases
    case 1
    with workerInv_row [OF inv, of t' s' "\<lambda>x. x"] \<open>follow = None\<close> show ?thesis by simp
  next
    case 2
    have "rowOk w t (failRow e msg y)" if "tracks r y" "rowOk w t y" for y
      using that 2(1) ev tracks_same [OF that(1)] by (intro rowOk_failed) (auto simp: deadLetter_def)
    with workerInv_row [OF inv, of t' s' "failRow e msg"] 2 \<open>follow = None\<close> show ?thesis by simp
  next
    case 3
    with workerInv_row [OF inv, of t' s' "retryRow e delay msg"] \<open>follow = None\<close> show ?thesis
      by (simp add: rowOk_status)
  qed
qed

lemma inv_finished:
  assumes inv: "workerInv w (s, js @ Deliver r event [] # js', t)" and st: "jobStep p w e (Deliver r event []) s = (follow, s', t')"
  shows "workerInv w (s', js @ (case follow of None \<Rightarrow> [] | Some j' \<Rightarrow> [j']) @ js', t @ t')"
proof -
  from st obtain res where res: "markProcessed w e r s = (res, s', t')" and "follow = None"
    by (cases "markProcessed w e r s") auto
  from workerInv_parts(5) [OF inv] have d: "list_all (\<lambda>c. delivered t (cn_Name c) (rc_EventID r)) (recordConsumers w r)"
    by (auto simp: deliveredUpTo_def)
  have "rowOk w t (markProcessedRow e y)" if "tracks r y" "rowOk w t y" for y
    using that d by (intro rowOk_processed) (simp_all add: tracks_same)
  with workerInv_row [OF inv, of t' s' "markProcessedRow e"] markProcessed_cases [OF res] \<open>follow = None\<close> show ?thesis by simp
qed

lemma inv_deliver:
  assumes inv: "workerInv w (s, js @ Deliver r event (c # cs) # js', t)"
    and st: "jobStep p w e (Deliver r event (c # cs)) s = (follow, s', t')"
  shows "workerInv w (s', js @ (case follow of None \<Rightarrow> [] | Some j' \<Rightarrow> [j']) @ js', t @ t')"
proof -
  note P = workerInv_parts [OF inv]
  obtain res where res: "startConsumer e r c s = (res, s')" by (cases "startConsumer e r c s") (use st in \<open>auto split: sum.splits bool.splits\<close>)
  have t': "t' = []" and follow: "follow = Some (case res of Inl err \<Rightarrow> Stopping r err
      | Inr True \<Rightarrow> Deliver r event cs | Inr False \<Rightarrow> Calling r event c cs)"
    using st res by (auto split: sum.splits bool.splits)
  have up: "deliveredUpTo w t r event (c # cs)" using P(5) by simp
  then have pay: "rc_Payload r = Encoded event" by (simp add: deliveredUpTo_def)
  have opn: "jobRecord j' = r \<and> progress w t j'" if "follow = Some j'" "res \<noteq> Inr True" for j'
    using that follow up pay by (auto split: sum.splits bool.splits)
  from res show ?thesis
  proof (cases rule: startConsumer_cases)
    case skipped
    have "workerInv w (s, js @ (case follow of None \<Rightarrow> [] | Some j' \<Rightarrow> [j']) @ js', t)"
      by (rule workerInv_same [OF inv]) (use opn [OF _ skipped(2)] in simp)
    with skipped(1) t' show ?thesis by simp
  next
    case replayed
    then obtain x where "x \<in> set (consumer_event_records s)" "c_consumer x = cn_Name c" "c_event x = rc_EventID r"
      "c_status x = StatusProcessed" by blast
    with P(3) have "delivered t (cn_Name c) (rc_EventID r)" by (auto simp: consumersOk_def)
    then have up': "deliveredUpTo w t r event cs" by (rule deliveredUpTo_next [OF up])
    have "workerInv w (s, js @ (case follow of None \<Rightarrow> [] | Some j' \<Rightarrow> [j']) @ js', t)"
      by (rule workerInv_same [OF inv]) (use up' follow replayed(2) in simp)
    with replayed(1) t' show ?thesis by simp
  next
    case (inserted x)
    have "consumersOk t (consumer_event_records s @ [x])" using P(3) inserted(3) by (simp add: consumersOk_def)
    from workerInv_consumers [OF inv this, of follow] opn [OF _ inserted(2)] inserted(1) t' show ?thesis by simp
  qed
qed

lemma inv_calling:
  assumes inv: "workerInv w (s, js @ Calling r event c cs # js', t)"
    and st: "jobStep p w e (Calling r event c cs) s = (follow, s', t')"
  shows "workerInv w (s', js @ (case follow of None \<Rightarrow> [] | Some j' \<Rightarrow> [j']) @ js', t @ t')"
proof -
  let ?a = "cn_Handle c e event"
  note P = workerInv_parts [OF inv]
  have s': "s' = s" and t': "t' = callEffects w c event ?a" and follow: "follow = Some (Answered r event c cs ?a)"
    using st by (simp_all add: Let_def)
  from P(5) have up: "deliveredUpTo w t r event (c # cs)" by simp
  then have pay: "rc_Payload r = Encoded event" by (simp add: deliveredUpTo_def)
  from P(4) obtain x where x: "x \<in> set (outbox_records s)" "tracks r x" by auto
  note same = tracks_same [OF x(2)]
  have "rowOk w t x" using P(2) x(1) by (simp add: outboxOk_def)
  with same pay have ev: "ev_ID event = rc_EventID r" by (simp add: rowOk_def payloadOk_def)
  have "delivered (t @ t') (cn_Name c) (rc_EventID r)" if "?a = None"
    using that ev by (auto simp: t' callEffects_def delivered_def)
  then have prog: "progress w (t @ t') (Answered r event c cs ?a)"
    using deliveredUpTo_mono [OF up] by simp
  have only: "Called consumer event' ok \<in> set t' \<longleftrightarrow> consumer = cn_Name c \<and> event' = event \<and> ok = (?a = None)"
    for consumer event' ok by (auto simp: t' callEffects_def emit_def)
  have "x_payload x = Encoded event \<and> cn_Name c \<in> cn_Name ` set (rowConsumers w x)"
    using deliveredUpTo_consumer [OF up] same pay by simp
  with P(6) x(1) have calls: "callsRouted w (t @ t') (outbox_records s)"
    unfolding callsRouted_def set_append Un_iff only by blast
  have "workerInv w (s, js @ (case follow of None \<Rightarrow> [] | Some j' \<Rightarrow> [j']) @ js', t @ t')"
    using P(1-3) calls x prog follow
    by (intro workerInv_advance [OF inv]) (auto simp: outboxOk_mono consumersOk_mono jobOk_def)
  with s' show ?thesis by simp
qed

lemma inv_answered:
  assumes inv: "workerInv w (s, js @ Answered r event c cs answer # js', t)"
    and st: "jobStep p w e (Answered r event c cs answer) s = (follow, s', t')"
  shows "workerInv w (s', js @ (case follow of None \<Rightarrow> [] | Some j' \<Rightarrow> [j']) @ js', t @ t')"
proof -
  note P = workerInv_parts [OF inv]
  obtain res where res: "finishConsumer e r c answer s = (res, s')" by (cases "finishConsumer e r c answer s") (use st in \<open>auto split: option.splits\<close>)
  have t': "t' = []" and follow: "follow = Some (case res of Some err \<Rightarrow> Stopping r err | None \<Rightarrow> Deliver r event cs)"
    using st res by (auto split: option.splits)
  from P(5) have up: "deliveredUpTo w t r event (c # cs)" by simp
  then have pay: "rc_Payload r = Encoded event" by (simp add: deliveredUpTo_def)
  have stop: "jobRecord j' = r \<and> progress w t j'" if "follow = Some j'" "res \<noteq> None" for j'
    using that follow pay by (auto split: option.splits)
  from res show ?thesis
  proof (cases rule: finishConsumer_cases)
    case unchanged
    have "workerInv w (s, js @ (case follow of None \<Rightarrow> [] | Some j' \<Rightarrow> [j']) @ js', t)"
      by (rule workerInv_same [OF inv]) (use stop [OF _ unchanged(2)] in simp)
    with unchanged(1) t' show ?thesis by simp
  next
    case (failed cause)
    have "consumersOk t (map (\<lambda>x. if c_consumer x = cn_Name c \<and> c_event x = rc_EventID r
                 then x\<lparr>c_status := StatusFailed, c_last_error := Some cause\<rparr> else x) (consumer_event_records s))"
      using P(3) by (auto simp: consumersOk_def)
    from workerInv_consumers [OF inv this, of follow] stop [OF _ failed(2)] failed(3) t' show ?thesis by simp
  next
    case processed
    from P(5) processed(1) have d: "delivered t (cn_Name c) (rc_EventID r)" by simp
    have "jobRecord j' = r \<and> progress w t j'" if "follow = Some j'" for j'
      using that follow pay deliveredUpTo_next [OF up d] by (auto split: option.splits)
    moreover have "consumersOk t (map (\<lambda>x. if c_consumer x = cn_Name c \<and> c_event x = rc_EventID r
                 then x\<lparr>c_status := StatusProcessed, c_processed_at := Some (now e), c_last_error := None\<rparr> else x)
          (consumer_event_records s))"
      using P(3) d by (auto simp: consumersOk_def)
    ultimately show ?thesis using workerInv_consumers [OF inv, of _ follow] processed(2) t' by simp
  qed
qed

lemma jobStep_inv:
  assumes "workerInv w (s, js @ j # js', t)" and "jobStep p w e j s = (follow, s', t')"
  shows "workerInv w (s', js @ (case follow of None \<Rightarrow> [] | Some j' \<Rightarrow> [j']) @ js', t @ t')"
proof (cases j)
  case (Deliver r event cs)
  with assms show ?thesis by (cases cs) (blast intro: inv_finished inv_deliver)+
qed (use assms in \<open>blast intro: inv_received inv_calling inv_answered inv_stopping\<close>)+

text \<open>The service appends rows that wait, with the envelope of their own event.\<close>

definition outboxGrows :: "db \<Rightarrow> db \<Rightarrow> bool" where
  "outboxGrows s s' \<longleftrightarrow>
     (\<exists>new. outbox_records s' = outbox_records s @ new \<and>
        (\<forall>x \<in> set new. x_status x = StatusPending \<and> payloadOk x)) \<and>
     (distinct (map x_id (outbox_records s)) \<longrightarrow> distinct (map x_id (outbox_records s'))) \<and>
     consumer_event_records s' = consumer_event_records s"

lemma outboxGrows_same:
  "outbox_records s' = outbox_records s \<Longrightarrow> consumer_event_records s' = consumer_event_records s \<Longrightarrow> outboxGrows s s'"
  by (simp add: outboxGrows_def)

lemma outboxGrows_trans:
  assumes "outboxGrows s s'" and "outboxGrows s' s''"
  shows "outboxGrows s s''"
proof -
  from assms obtain n1 n2 where "outbox_records s' = outbox_records s @ n1" "outbox_records s'' = (outbox_records s @ n1) @ n2"
    "\<forall>x \<in> set n1. x_status x = StatusPending \<and> payloadOk x" "\<forall>x \<in> set n2. x_status x = StatusPending \<and> payloadOk x"
    unfolding outboxGrows_def by force
  with assms show ?thesis unfolding outboxGrows_def by (intro conjI exI [of _ "n1 @ n2"]) auto
qed

lemma CreateAssistRequest_outbox:
  "CreateAssistRequest e c i org loc t si rb src nt ak s = Inr (r, s') \<Longrightarrow> outboxGrows s s'"
  by (drule CreateAssistRequest_Inr(2)) (simp add: outboxGrows_same)

lemma row_step_outbox: "row_step s s' \<Longrightarrow> keys_ok s \<Longrightarrow> outboxGrows s s'"
proof (induction rule: row_step.induct)
  case (occupied e oarg c s res s')
  then show ?case by (elim occupyTableInTx_InrE) (auto simp: outboxGrows_same)
next
  case (cleared e carg c s res s')
  then show ?case by (elim clearTableInTx_InrE) (auto simp: outboxGrows_same)
next
  case (changed e aarg status c s r s')
  from assist_update_step [OF this] show ?case by (auto simp: outboxGrows_same)
next
  case (created e c i org loc t si rb src nt s r s')
  from created(1) show ?case by (rule CreateAssistRequest_outbox)
next
  case (guest_created e q key s r s')
  from createGuestInTx_rows [OF guest_created(1)] show ?case by (auto simp: outboxGrows_same CreateAssistRequest_outbox)
next
  case (guest_cancelled e q i c s r s')
  from guest_cancel_step [OF this] show ?case by (auto simp: outboxGrows_same)
next
  case (event e ev s)
  then show ?case
    by (auto simp: outboxGrows_def eventFresh_def with_event_def payloadOk_def StatusPending_def eventEnvelope_def
        dest!: outboxRows_shape)
qed (simp_all add: outboxGrows_same)

lemma row_steps_outbox: "row_step\<^sup>*\<^sup>* s s' \<Longrightarrow> wf_db s \<Longrightarrow> outboxGrows s s'"
proof (induction rule: rtranclp_induct)
  case base
  then show ?case by (simp add: outboxGrows_same)
next
  case (step y z)
  then show ?case using row_steps_wf row_step_outbox outboxGrows_trans wf_keys by metis
qed

lemma inv_service:
  assumes inv: "workerInv w (s, js, t)" and "op_step s s'"
  shows "workerInv w (s', js, t)"
proof -
  have wf: "wf_db s" using inv by (simp add: workerInv.simps)
  from row_steps_outbox [OF op_step_rows [OF assms(2)] wf] obtain new where
    new: "outbox_records s' = outbox_records s @ new" "\<forall>x \<in> set new. x_status x = StatusPending \<and> payloadOk x"
    and d: "distinct (map x_id (outbox_records s)) \<longrightarrow> distinct (map x_id (outbox_records s'))"
    and c: "consumer_event_records s' = consumer_event_records s"
    unfolding outboxGrows_def by blast
  have kept: "rowsKept (outbox_records s) (outbox_records s')" by (simp add: new(1))
  have "jobOk w t (outbox_records s') j" if "j \<in> set js" for j
    using jobOk_mono [OF _ kept, of w t j "[]"] that inv by (simp add: workerInv.simps)
  moreover have "rowOk w t x" if "x \<in> set new" for x
    using that new(2) by (simp add: rowOk_def)
  ultimately show ?thesis
    using inv d c new(1) op_step_wf [OF assms(2) wf] callsRouted_kept [OF _ kept]
    by (auto simp: workerInv.simps outboxOk_def)
qed

lemma rowOk_claimed: "rowOk w t x \<Longrightarrow> rowOk w t (claimRow e v x)"
  by (rule rowOk_status) simp_all

lemma toRecord_tracks: "tracks (toRecord x) x"
  by (simp add: tracks_def toRecord_def recordKey_def rowKey_def)

lemma inv_claim:
  assumes inv: "workerInv w (s, js, t)" and cl: "claim e busy v s = (res, s')" and quiet: "noCalls t'"
  shows "workerInv w (s', js @ (case res of Inl err \<Rightarrow> [] | Inr rs \<Rightarrow> map Received rs), t @ t')"
  using cl
proof (cases rule: claim_cases)
  case (none err)
  with inv quiet show ?thesis
    using jobOk_mono [where xs = "outbox_records s" and xs' = "outbox_records s" and t' = t', OF _ rowsKept_refl]
    by (auto simp: workerInv.simps outboxOk_mono consumersOk_mono callsRouted_quiet)
next
  case (some rows)
  let ?f = "\<lambda>x. if x_id x \<in> x_id ` set rows then claimRow e v x else x"
  have out: "outbox_records s' = map ?f (outbox_records s)" "consumer_event_records s' = consumer_event_records s" "wf_db s' = wf_db s"
    using some(3) by simp_all
  have ok: "outboxOk w t (outbox_records s')" unfolding out
    using inv by (intro outboxOk_map) (auto simp: workerInv.simps rowOk_claimed)
  have kept: "rowsKept (outbox_records s) (outbox_records s')" unfolding out by (rule rowsKept_map) simp
  have "jobOk w (t @ t') (outbox_records s') j"
    if "j \<in> set (case res of Inl err \<Rightarrow> [] | Inr rs \<Rightarrow> map Received rs)" for j
  proof -
    from that some(4) obtain x where "x \<in> set rows" and j: "j = Received (toRecord (claimRow e v x))"
      by (auto split: sum.splits)
    with some(1) have "claimRow e v x \<in> set (outbox_records s')" unfolding out by force
    with j toRecord_tracks show ?thesis by (auto simp: jobOk_def)
  qed
  with inv ok out quiet jobOk_mono [OF _ kept] callsRouted_kept [OF _ kept] show ?thesis
    by (auto simp: workerInv.simps outboxOk_mono consumersOk_mono callsRouted_quiet)
qed

lemma worker_step_inv: "worker_step p w \<sigma> \<sigma>' \<Longrightarrow> workerInv w \<sigma> \<Longrightarrow> workerInv w \<sigma>'"
proof (induction rule: worker_step.induct)
  case (claimed e busy i ds s rs s' js t)
  from inv_claim [OF claimed(2,1), of "claimEffects w rs"] show ?case by simp
next
  case (unclaimed e busy i ds s err s' js t)
  from inv_claim [OF unclaimed(2,1), of "[]"] show ?case by simp
next
  case (worked e j s follow s' t' js js' t)
  from jobStep_inv [OF worked(2,1)] show ?case .
next
  case (crashed s js j js' t)
  then show ?case by (simp add: workerInv.simps)
next
  case (service s s' js t)
  then show ?case by (rule inv_service [rotated])
qed

lemma worker_steps_inv: "(worker_step p w)\<^sup>*\<^sup>* \<sigma> \<sigma>' \<Longrightarrow> workerInv w \<sigma> \<Longrightarrow> workerInv w \<sigma>'"
  by (induction rule: rtranclp_induct) (simp_all add: worker_step_inv)

text \<open>Where the workers start: sound tables, every record still waiting, no consumer has an event.\<close>

definition outboxStart :: "db \<Rightarrow> bool" where
  "outboxStart s \<longleftrightarrow>
     wf_db s \<and> distinct (map x_id (outbox_records s)) \<and>
     list_all (\<lambda>x. x_status x = StatusPending \<and> payloadOk x) (outbox_records s) \<and>
     list_all (\<lambda>r. c_status r \<noteq> StatusProcessed) (consumer_event_records s)"

lemma outboxStart_inv: "outboxStart s \<Longrightarrow> workerInv w (s, [], [])"
  by (auto simp: outboxStart_def workerInv.simps outboxOk_def consumersOk_def callsRouted_def rowOk_def list_all_iff)

text \<open>
  C10. Nothing is lost: however workers interleave, crash and retry while the service keeps writing, a
  record that is marked processed has been handed, successfully, to every consumer of its destination.
\<close>
theorem processed_was_delivered:
  assumes "outboxStart s0" and "(worker_step p w)\<^sup>*\<^sup>* (s0, [], []) (s, js, t)"
    and "x \<in> set (outbox_records s)" and "x_status x = StatusProcessed"
  shows "list_all (\<lambda>c. delivered t (cn_Name c) (x_event x)) (rowConsumers w x)"
  using worker_steps_inv [OF assms(2) outboxStart_inv [OF assms(1)]] assms(3,4)
  by (simp add: workerInv.simps outboxOk_def rowOk_def rowDelivered_def)

text \<open>
  Nothing goes astray: every call of a consumer passes the envelope stored in a record of the outbox
  whose destination, or topic, that consumer serves.
\<close>
theorem calls_are_routed:
  assumes "outboxStart s0" and "(worker_step p w)\<^sup>*\<^sup>* (s0, [], []) (s, js, t)" and "Called consumer event ok \<in> set t"
  shows "\<exists>x \<in> set (outbox_records s). x_payload x = Encoded event \<and> consumer \<in> cn_Name ` set (rowConsumers w x)"
  using worker_steps_inv [OF assms(2) outboxStart_inv [OF assms(1)]] assms(3)
  unfolding workerInv.simps callsRouted_def by blast

text \<open>
  Nothing is given up early: a record that is marked failed does not decode, or has been claimed at
  least the configured number of times.
\<close>
theorem failed_was_exhausted:
  assumes "outboxStart s0" and "(worker_step p w)\<^sup>*\<^sup>* (s0, [], []) (s, js, t)"
    and "x \<in> set (outbox_records s)" and "x_status x = StatusFailed" and "x_payload x = Encoded event"
  shows "maxAttempts w \<le> x_attempts x"
proof -
  have "rowOk w t x"
    using worker_steps_inv [OF assms(2) outboxStart_inv [OF assms(1)]] assms(3) by (simp add: workerInv.simps outboxOk_def)
  with assms(4,5) show ?thesis by (simp add: rowOk_def deadLetter_def)
qed

end
