(* ===== verification/WorkerMain.thy ===== *)
theory WorkerMain
  imports Outbox
begin

text \<open>
  How \<^verbatim>\<open>apps/worker/cmd/worker/main.go\<close> configures the outbox: the consumers of each destination and the
  settings read from environment variables. \<open>getenv\<close> is \<^verbatim>\<open>os.Getenv\<close>; \<open>parseDuration\<close> is
  \<^verbatim>\<open>time.ParseDuration\<close>, with \<open>None\<close> for its error. The analytics projector is an argument.
\<close>

section \<open>Consumers\<close>

definition logConsumer :: "string \<Rightarrow> Consumer" where
  "logConsumer name = asConsumer \<lparr>cf_ConsumerName = name, cf_Fn = Some (\<lambda>e event. None)\<rparr>"

definition consumers :: "Consumer \<Rightarrow> (string \<times> Consumer list) list" where
  "consumers projector =
     [(''analytics.operations'', [projector]), (''audit.operations'', [logConsumer ''audit-reporter''])]"


section \<open>Settings\<close>

text \<open>\<^verbatim>\<open>strconv.Atoi\<close>: an optional sign and at least one digit, within the range of int64.\<close>

definition digitValue :: "char \<Rightarrow> int" where
  "digitValue c = int (of_char c) - 48"

definition isDigit :: "char \<Rightarrow> bool" where
  "isDigit c \<longleftrightarrow> CHR ''0'' \<le> c \<and> c \<le> CHR ''9''"

definition Atoi :: "string \<Rightarrow> int option" where
  "Atoi s =
     (let digits = (if take 1 s = ''-'' \<or> take 1 s = ''+'' then drop 1 s else s);
          magnitude = fold (\<lambda>c n. n * 10 + digitValue c) digits 0;
          v = (if take 1 s = ''-'' then - magnitude else magnitude)
      in if digits = '''' \<or> \<not> list_all isDigit digits \<or> v < - (2 ^ 63) \<or> 2 ^ 63 \<le> v then None else Some v)"

text \<open>The message of an error; \<open>Inl\<close> is an error.\<close>

definition envInt :: "(string \<Rightarrow> string) \<Rightarrow> string \<Rightarrow> int \<Rightarrow> string + int" where
  "envInt getenv key fallback =
     (let value = getenv key
      in if value = '''' then Inr fallback
         else case Atoi value of
                None \<Rightarrow> Inl (key @ '' must be a positive integer'')
              | Some parsed \<Rightarrow> if parsed < 1 then Inl (key @ '' must be a positive integer'') else Inr parsed)"

definition envInt32 :: "(string \<Rightarrow> string) \<Rightarrow> string \<Rightarrow> int \<Rightarrow> string + int" where
  "envInt32 getenv key fallback =
     (case envInt getenv key fallback of
        Inl err \<Rightarrow> Inl err
      | Inr value \<Rightarrow> if value > maxInt32 then Inl (key @ '' is too large'') else Inr value)"

definition envDuration ::
  "(string \<Rightarrow> int option) \<Rightarrow> (string \<Rightarrow> string) \<Rightarrow> string \<Rightarrow> int \<Rightarrow> string + int" where
  "envDuration parseDuration getenv key fallback =
     (let value = getenv key
      in if value = '''' then Inr fallback
         else case parseDuration value of
                None \<Rightarrow> Inl (key @ '' must be a positive duration'')
              | Some parsed \<Rightarrow> if parsed \<le> 0 then Inl (key @ '' must be a positive duration'') else Inr parsed)"

definition sumBind :: "'e + 'a \<Rightarrow> ('a \<Rightarrow> 'e + 'b) \<Rightarrow> 'e + 'b" where
  "sumBind m f = (case m of Inl err \<Rightarrow> Inl err | Inr x \<Rightarrow> f x)"

lemma sumBind_Inr [simp]: "sumBind m f = Inr y \<longleftrightarrow> (\<exists>x. m = Inr x \<and> f x = Inr y)"
  by (auto simp: sumBind_def split: sum.splits)

definition loadOutboxConfig ::
  "(string \<Rightarrow> int option) \<Rightarrow> (string \<Rightarrow> string) \<Rightarrow> string + WorkerConfig" where
  "loadOutboxConfig parseDuration getenv =
     sumBind (envInt32 getenv ''SEATD_OUTBOX_BATCH_SIZE'' 25) (\<lambda>batch.
     sumBind (envInt getenv ''SEATD_OUTBOX_CONCURRENCY'' 4) (\<lambda>conc.
     sumBind (envInt32 getenv ''SEATD_OUTBOX_MAX_ATTEMPTS'' 8) (\<lambda>attempts.
     sumBind (envDuration parseDuration getenv ''SEATD_OUTBOX_POLL_INTERVAL'' second) (\<lambda>poll.
     sumBind (envDuration parseDuration getenv ''SEATD_OUTBOX_BACKOFF_BASE'' second) (\<lambda>base.
     sumBind (envDuration parseDuration getenv ''SEATD_OUTBOX_BACKOFF_MAX'' (60 * second)) (\<lambda>most.
     sumBind (envDuration parseDuration getenv ''SEATD_OUTBOX_CLAIM_TIMEOUT'' (5 * 60 * second)) (\<lambda>timeout.
       Inr \<lparr>cfg_InstanceID = '''', cfg_BatchSize = batch, cfg_Concurrency = conc, cfg_MaxAttempts = attempts,
            cfg_PollInterval = poll, cfg_BackoffBase = base, cfg_BackoffMax = most, cfg_ClaimTimeout = timeout,
            cfg_Metrics = False\<rparr>)))))))"

text \<open>\<^verbatim>\<open>main\<close>: the configuration with the metrics recorder, and the worker.\<close>

definition mainWorker ::
  "(string \<Rightarrow> int option) \<Rightarrow> (string \<Rightarrow> string) \<Rightarrow> uuid \<Rightarrow> Consumer \<Rightarrow> string + Worker" where
  "mainWorker parseDuration getenv fresh projector =
     sumBind (loadOutboxConfig parseDuration getenv)
       (\<lambda>cfg. Inr (NewWorker fresh (consumers projector) (cfg\<lparr>cfg_Metrics := True\<rparr>)))"

lemma envInt_range: "envInt getenv key fallback = Inr v \<Longrightarrow> 1 \<le> fallback \<Longrightarrow> 1 \<le> v"
  by (auto simp: envInt_def Let_def split: if_splits option.splits)

lemma envInt32_range:
  "envInt32 getenv key fallback = Inr v \<Longrightarrow> 1 \<le> fallback \<Longrightarrow> 1 \<le> v \<and> v \<le> maxInt32"
  by (auto simp: envInt32_def split: sum.splits if_splits dest: envInt_range)

lemma envDuration_range:
  "envDuration parseDuration getenv key fallback = Inr v \<Longrightarrow> 0 < fallback \<Longrightarrow> 0 < v"
  by (auto simp: envDuration_def Let_def split: if_splits option.splits)

text \<open>
  Whatever the environment variables say, a worker that starts has a positive batch size, attempt
  limit, concurrency and durations, within the range of their types.
\<close>
theorem started_worker_is_configured:
  assumes "mainWorker parseDuration getenv fresh projector = Inr w"
  shows "1 \<le> batchSize w \<and> batchSize w \<le> maxInt32 \<and> 1 \<le> maxAttempts w \<and> maxAttempts w \<le> maxInt32 \<and>
    1 \<le> concurrency w \<and> 0 < pollInterval w \<and> 0 < backoffBase w \<and> 0 < backoffMax w \<and> 0 < claimTimeout w \<and>
    instanceID w \<noteq> '''' \<and> destinations w = [''analytics.operations'', ''audit.operations'']"
proof -
  from assms obtain b c a po ba bm ct where
    b: "envInt32 getenv ''SEATD_OUTBOX_BATCH_SIZE'' 25 = Inr b" and c: "envInt getenv ''SEATD_OUTBOX_CONCURRENCY'' 4 = Inr c"
    and a: "envInt32 getenv ''SEATD_OUTBOX_MAX_ATTEMPTS'' 8 = Inr a"
    and po: "envDuration parseDuration getenv ''SEATD_OUTBOX_POLL_INTERVAL'' second = Inr po"
    and ba: "envDuration parseDuration getenv ''SEATD_OUTBOX_BACKOFF_BASE'' second = Inr ba"
    and bm: "envDuration parseDuration getenv ''SEATD_OUTBOX_BACKOFF_MAX'' (60 * second) = Inr bm"
    and ct: "envDuration parseDuration getenv ''SEATD_OUTBOX_CLAIM_TIMEOUT'' (5 * 60 * second) = Inr ct"
    and w: "w = NewWorker fresh (consumers projector) \<lparr>cfg_InstanceID = '''', cfg_BatchSize = b, cfg_Concurrency = c,
              cfg_MaxAttempts = a, cfg_PollInterval = po, cfg_BackoffBase = ba, cfg_BackoffMax = bm,
              cfg_ClaimTimeout = ct, cfg_Metrics = True\<rparr>"
    unfolding mainWorker_def loadOutboxConfig_def sumBind_Inr by auto
  have pos: "0 < second" by (simp add: second_def)
  from envInt32_range [OF b] envInt_range [OF c] envInt32_range [OF a] envDuration_range [OF po] envDuration_range [OF ba]
    envDuration_range [OF bm] envDuration_range [OF ct] pos
  show ?thesis by (simp add: w NewWorker_def positiveOr_def consumers_def)
qed

text \<open>Example: no variable is set.\<close>
theorem started_worker_is_configured_witness:
  "\<exists>w. mainWorker (\<lambda>s. None) (\<lambda>key. '''') 7 (logConsumer ''analytics'') = Inr w \<and> maxAttempts w = 8 \<and> 1 \<le> concurrency w"
proof -
  have "mainWorker (\<lambda>s. None) (\<lambda>key. '''') 7 (logConsumer ''analytics'') =
    Inr (NewWorker 7 (consumers (logConsumer ''analytics''))
      \<lparr>cfg_InstanceID = '''', cfg_BatchSize = 25, cfg_Concurrency = 4, cfg_MaxAttempts = 8, cfg_PollInterval = second,
       cfg_BackoffBase = second, cfg_BackoffMax = 60 * second, cfg_ClaimTimeout = 5 * 60 * second, cfg_Metrics = True\<rparr>)"
    by (simp add: mainWorker_def loadOutboxConfig_def sumBind_def envInt_def envInt32_def envDuration_def maxInt32_def)
  with started_worker_is_configured [OF this] show ?thesis by (simp add: NewWorker_def positiveOr_def)
qed

end
