(* ===== verification/OutboxBatch.thy ===== *)
theory OutboxBatch
  imports OutboxSteps WorkerMain
begin

text \<open>
  One worker's batch: \<^verbatim>\<open>ProcessBatch\<close> is an execution of the step relation, what a claim takes, how a
  record fares in it, when it is tried again, and the deployment's own consumers as an instance.
\<close>

section \<open>A batch is an execution\<close>

lemma worked_some:
  "jobStep p w e j s = (Some j', s', t') \<Longrightarrow> (worker_step p w)\<^sup>*\<^sup>* (s, a @ j # b, t) (s', a @ j' # b, t @ t')"
  using worker_step.worked [of p w e j s "Some j'" s' t' a b t] by auto

lemma worked_none:
  "jobStep p w e j s = (None, s', t') \<Longrightarrow> (worker_step p w)\<^sup>*\<^sup>* (s, a @ j # b, t) (s', a @ b, t @ t')"
  using worker_step.worked [of p w e j s None s' t' a b t] by auto

lemma handleConsumer_steps:
  assumes "handleConsumer w e1 e2 r event c s = (res, s', t')"
  shows "(worker_step p w)\<^sup>*\<^sup>* (s, a @ Deliver r event (c # cs) # b, t)
    (s', a @ (case res of None \<Rightarrow> Deliver r event cs | Some err \<Rightarrow> Stopping r err) # b, t @ t')"
proof -
  obtain st s1 where st: "startConsumer e1 r c s = (st, s1)" by (cases "startConsumer e1 r c s")
  consider (err) err where "st = Inl err" | (skip) "st = Inr True" | (call) "st = Inr False"
    by (cases st) auto
  then show ?thesis
  proof cases
    case err
    with assms st have "res = Some err" "s' = s1" "t' = []" by (simp_all add: handleConsumer_def)
    with worked_some [of p w e1 "Deliver r event (c # cs)" s "Stopping r err" s1 "[]" a b t] st err show ?thesis by simp
  next
    case skip
    with assms st have "res = None" "s' = s1" "t' = []" by (simp_all add: handleConsumer_def)
    with worked_some [of p w e1 "Deliver r event (c # cs)" s "Deliver r event cs" s1 "[]" a b t] st skip show ?thesis by simp
  next
    case call
    let ?ans = "cn_Handle c e2 event"
    from assms st call have fin: "finishConsumer e2 r c ?ans s1 = (res, s')" and t': "t' = callEffects w c event ?ans"
      by (simp_all add: handleConsumer_def Let_def split: prod.splits)
    have 1: "(worker_step p w)\<^sup>*\<^sup>* (s, a @ Deliver r event (c # cs) # b, t) (s1, a @ Calling r event c cs # b, t @ [])"
      by (rule worked_some [where e = e1]) (simp add: st call)
    have 2: "(worker_step p w)\<^sup>*\<^sup>* (s1, a @ Calling r event c cs # b, t @ []) (s1, a @ Answered r event c cs ?ans # b, (t @ []) @ t')"
      by (rule worked_some [where e = e2]) (simp add: t' Let_def)
    have 3: "(worker_step p w)\<^sup>*\<^sup>* (s1, a @ Answered r event c cs ?ans # b, (t @ []) @ t')
        (s', a @ (case res of None \<Rightarrow> Deliver r event cs | Some err \<Rightarrow> Stopping r err) # b, ((t @ []) @ t') @ [])"
      by (rule worked_some [where e = e2]) (simp add: fin split: option.splits)
    from rtranclp_trans [OF 1 rtranclp_trans [OF 2 3]] show ?thesis by simp
  qed
qed

lemma deliver_steps:
  assumes "deliver w es k r event cs s = (res, s', t')"
  shows "(worker_step p w)\<^sup>*\<^sup>* (s, a @ Deliver r event cs # b, t)
    (s', a @ (case res of None \<Rightarrow> Deliver r event [] | Some err \<Rightarrow> Stopping r err) # b, t @ t')"
  using assms
proof (induction cs arbitrary: k s t res s' t')
  case Nil
  then show ?case by simp
next
  case (Cons c cs)
  obtain r1 s1 t1 where h: "handleConsumer w (es (2 * k)) (es (2 * k + 1)) r event c s = (r1, s1, t1)"
    by (cases "handleConsumer w (es (2 * k)) (es (2 * k + 1)) r event c s") auto
  note 1 = handleConsumer_steps [OF h, of p a cs b t]
  show ?case
  proof (cases r1)
    case (Some err)
    with Cons.prems h have "res = Some err" "s' = s1" "t' = t1" by simp_all
    with 1 Some show ?thesis by simp
  next
    case None
    obtain r2 s2 t2 where d: "deliver w es (Suc k) r event cs s1 = (r2, s2, t2)"
      by (cases "deliver w es (Suc k) r event cs s1") auto
    from Cons.prems h None d have "res = r2" "s' = s2" "t' = t1 @ t2" by simp_all
    with 1 None Cons.IH [OF d, of "t @ t1"] show ?thesis by (auto intro: rtranclp_trans)
  qed
qed

lemma processRecord_steps:
  assumes "processRecord p w e es r s = (res, s', t')"
  shows "(worker_step p w)\<^sup>*\<^sup>* (s, a @ Received r # b, t) (s', a @ b, t @ t')"
proof (cases "rc_Payload r")
  case (Undecodable m)
  with assms show ?thesis by (intro worked_none [where e = e]) (simp add: processRecord_def)
next
  case (Encoded event)
  obtain r1 s1 t1 where d: "deliver w es 0 r event (recordConsumers w r) s = (r1, s1, t1)"
    by (cases "deliver w es 0 r event (recordConsumers w r) s") auto
  have 1: "(worker_step p w)\<^sup>*\<^sup>* (s, a @ Received r # b, t) (s, a @ Deliver r event (recordConsumers w r) # b, t @ [])"
    by (rule worked_some [where e = e]) (simp add: Encoded)
  have 2: "(worker_step p w)\<^sup>*\<^sup>* (s, a @ Deliver r event (recordConsumers w r) # b, t @ [])
      (s1, a @ (case r1 of None \<Rightarrow> Deliver r event [] | Some err \<Rightarrow> Stopping r err) # b, (t @ []) @ t1)"
    by (rule deliver_steps [OF d])
  obtain t2 where t': "t' = t1 @ t2"
    and "jobStep p w e (case r1 of None \<Rightarrow> Deliver r event [] | Some err \<Rightarrow> Stopping r err) s1 = (None, s', t2)"
    using assms Encoded d by (auto simp: processRecord_def split: option.splits prod.splits)
  from worked_none [OF this(2)] have
    "(worker_step p w)\<^sup>*\<^sup>* (s1, a @ (case r1 of None \<Rightarrow> Deliver r event [] | Some err \<Rightarrow> Stopping r err) # b, (t @ []) @ t1)
      (s', a @ b, ((t @ []) @ t1) @ t2)" .
  from rtranclp_trans [OF 1 rtranclp_trans [OF 2 this]] t' show ?thesis by simp
qed

lemma runGroup_steps:
  assumes "runGroup p w ws k failed rs s = (res, s', t')"
  shows "(worker_step p w)\<^sup>*\<^sup>* (s, map Received rs, t) (s', [], t @ t')"
  using assms
proof (induction rs arbitrary: k failed s t res s' t')
  case Nil
  then show ?case by simp
next
  case (Cons r rs)
  obtain e es where ws: "ws k = (e, es)" by (cases "ws k")
  obtain r1 s1 t1 where 1: "processRecord p w (if failed = None then e else cancelled e)
      (if failed = None then es else cancelled \<circ> es) r s = (r1, s1, t1)"
    using prod_cases3 by blast
  obtain r2 s2 t2 where 2: "runGroup p w ws (Suc k) (if failed = None then r1 else failed) rs s1 = (r2, s2, t2)"
    using prod_cases3 by blast
  from Cons.prems ws 1 2 have "s' = s2" "t' = t1 @ t2" by (simp_all add: Let_def)
  with processRecord_steps [OF 1, of "[]" "map Received rs" t] Cons.IH [OF 2, of "t @ t1"] show ?case
    by (auto intro: rtranclp_trans)
qed

lemma ProcessBatch_steps:
  assumes "ProcessBatch p w e busy ws s = (n, err, s', t)"
  shows "(worker_step p w)\<^sup>*\<^sup>* (s, [], []) (s', [], t)"
proof -
  have w: "w\<lparr>instanceID := instanceID w, destinations := destinations w\<rparr> = w" by simp
  obtain res s1 where cl: "claim e busy w s = (res, s1)" by (cases "claim e busy w s")
  show ?thesis
  proof (cases res)
    case (Inl x)
    with assms cl have "s' = s1" "t = []" by (simp_all add: ProcessBatch_def)
    with worker_step.unclaimed [where e = e and busy = busy and w = w and i = "instanceID w" and ds = "destinations w" and s = s and s' = s1 and err = x and p = p and js = "[]" and t = "[]"] cl Inl show ?thesis
      unfolding w by auto
  next
    case (Inr rs)
    obtain x s2 t2 where g: "runGroup p w ws 0 None rs s1 = (x, s2, t2)" using prod_cases3 by blast
    from assms cl Inr g have "s' = s2" "t = claimEffects w rs @ t2" by (simp_all add: ProcessBatch_def)
    moreover have "worker_step p w (s, [], []) (s1, [] @ map Received rs, [] @ claimEffects w rs)"
      using worker_step.claimed [where e = e and busy = busy and w = w and i = "instanceID w" and ds = "destinations w" and s = s and s' = s1 and rs = rs and p = p and js = "[]" and t = "[]"] cl Inr unfolding w by simp
    ultimately show ?thesis using runGroup_steps [OF g, of "claimEffects w rs"]
      by (metis append_Nil converse_rtranclp_into_rtranclp)
  qed
qed

text \<open>
  The batch function refines the step relation: claiming and working off a batch, in any worlds and
  with any failures, is one of its executions, and leaves no job behind.
\<close>
theorem batch_is_execution:
  "case ProcessBatch p w e busy ws s of
     (n, err, s', t) \<Rightarrow> (worker_step p w)\<^sup>*\<^sup>* (s, [], []) (s', [], t)"
  by (auto dest: ProcessBatch_steps split: prod.split)


section \<open>The sample restaurant's batch\<close>

definition sampleWorker :: Worker where
  "sampleWorker =
     NewWorker 7 (consumers (logConsumer ''analytics-projector''))
       \<lparr>cfg_InstanceID = '''', cfg_BatchSize = 0, cfg_Concurrency = 0, cfg_MaxAttempts = 0, cfg_PollInterval = 0,
        cfg_BackoffBase = 0, cfg_BackoffMax = 0, cfg_ClaimTimeout = 0, cfg_Metrics = False\<rparr>"

definition samplePlatform :: platform where
  "samplePlatform = \<lparr>driver = (\<lambda>err. ''driver''), overflow = - (2 ^ 63)\<rparr>"

text \<open>The database after the sample party sat down, and after a batch of the sample worker.\<close>

definition sampleQueue :: db where
  "sampleQueue = snd (OccupyTableCommand sampleEnv sampleOccupy None sampleDb)"

definition sampleBatch :: "Worker \<Rightarrow> int \<times> string fail option \<times> db \<times> effect list" where
  "sampleBatch w = ProcessBatch samplePlatform w sampleEnv (\<lambda>i. False) (\<lambda>k. (sampleEnv, \<lambda>n. sampleEnv)) sampleQueue"

definition batchDb :: "Worker \<Rightarrow> db" where "batchDb w = fst (snd (snd (sampleBatch w)))"
definition batchTrace :: "Worker \<Rightarrow> effect list" where "batchTrace w = snd (snd (snd (sampleBatch w)))"

lemma sample_queue:
  "map (\<lambda>x. (x_id x, x_destination x, x_status x)) (outbox_records sampleQueue) =
     [(102, ''realtime.operations'', ''pending''), (103, ''analytics.operations'', ''pending''),
      (104, ''audit.operations'', ''pending'')]"
  by code_simp

lemma sample_batch:
  "fst (sampleBatch sampleWorker) = 2 \<and> fst (snd (sampleBatch sampleWorker)) = None"
  "map (\<lambda>x. (x_id x, x_status x)) (outbox_records (batchDb sampleWorker)) =
     [(102, ''pending''), (103, ''processed''), (104, ''processed'')]"
  by code_simp+

lemma sample_start: "outboxStart sampleQueue"
proof -
  have "op_step sampleDb sampleQueue" unfolding sampleQueue_def by (rule op_step.occupy)
  then have "wf_db sampleQueue" by (rule op_step_wf) (rule sample_wf)
  moreover have "distinct (map x_id (outbox_records sampleQueue))"
    "list_all (\<lambda>x. x_status x = StatusPending \<and> payloadOk x) (outbox_records sampleQueue)"
    "list_all (\<lambda>r. c_status r \<noteq> StatusProcessed) (consumer_event_records sampleQueue)"
    by code_simp+
  ultimately show ?thesis by (simp add: outboxStart_def)
qed

lemma sample_steps: "(worker_step samplePlatform w)\<^sup>*\<^sup>* (sampleQueue, [], []) (batchDb w, [], batchTrace w)"
  unfolding batchDb_def batchTrace_def
  by (rule ProcessBatch_steps [of samplePlatform w sampleEnv "\<lambda>i. False" "\<lambda>k. (sampleEnv, \<lambda>n. sampleEnv)" sampleQueue
        "fst (sampleBatch w)" "fst (snd (sampleBatch w))"])
     (simp add: sampleBatch_def prod_eq_iff)
text \<open>Witness of C10: the audit reporter was handed the event of the record that is processed.\<close>
theorem processed_was_delivered_witness:
  "\<exists>x \<in> set (outbox_records (batchDb sampleWorker)). x_id x = 104 \<and> x_status x = StatusProcessed \<and>
     list_all (\<lambda>c. delivered (batchTrace sampleWorker) (cn_Name c) (x_event x)) (rowConsumers sampleWorker x)"
proof -
  have "(104, ''processed'') \<in> set (map (\<lambda>x. (x_id x, x_status x)) (outbox_records (batchDb sampleWorker)))"
    unfolding sample_batch(2) by simp
  then obtain x where x: "x \<in> set (outbox_records (batchDb sampleWorker))" "x_id x = 104" "x_status x = StatusProcessed"
    by (auto simp: StatusProcessed_def)
  from processed_was_delivered [OF sample_start sample_steps x(1,3)] x show ?thesis by blast
qed

lemma list_ex_Called:
  "list_ex (\<lambda>x. case x of Called c event ok \<Rightarrow> P c event ok | _ \<Rightarrow> False) t \<longleftrightarrow>
     (\<exists>c event ok. Called c event ok \<in> set t \<and> P c event ok)"
  by (induction t) (auto split: effect.splits)

text \<open>Example: the calls of the sample batch.\<close>
theorem calls_are_routed_witness:
  "\<exists>event. Called ''audit-reporter'' event True \<in> set (batchTrace sampleWorker) \<and>
     (\<exists>x \<in> set (outbox_records (batchDb sampleWorker)). x_payload x = Encoded event \<and>
        ''audit-reporter'' \<in> cn_Name ` set (rowConsumers sampleWorker x))"
proof -
  have "list_ex (\<lambda>x. case x of Called c event ok \<Rightarrow> c = ''audit-reporter'' \<and> ok | _ \<Rightarrow> False) (batchTrace sampleWorker)"
    by code_simp
  then obtain event where c: "Called ''audit-reporter'' event True \<in> set (batchTrace sampleWorker)"
    unfolding list_ex_Called by auto
  from calls_are_routed [OF sample_start sample_steps c] c show ?thesis by blast
qed

text \<open>A worker that gives a record up after one attempt, with a consumer that always fails.\<close>

definition sampleFailing :: Worker where
  "sampleFailing = sampleWorker\<lparr>maxAttempts := 1, destinations := [''audit.operations''],
     consumerMap := [(''audit.operations'', [\<lparr>cn_Name = ''broken'', cn_Handle = (\<lambda>e event. Some ''down'')\<rparr>])]\<rparr>"

text \<open>Example: the sample record that failed was claimed once, which is the limit.\<close>
theorem failed_was_exhausted_witness:
  "\<exists>x \<in> set (outbox_records (batchDb sampleFailing)). x_id x = 104 \<and> x_status x = StatusFailed \<and>
     maxAttempts sampleFailing \<le> x_attempts x"
proof -
  have "list_ex (\<lambda>x. x_id x = 104 \<and> x_status x = StatusFailed \<and> (case x_payload x of Encoded event \<Rightarrow> True | _ \<Rightarrow> False))
     (outbox_records (batchDb sampleFailing))" by code_simp
  then obtain x event where x: "x \<in> set (outbox_records (batchDb sampleFailing))" "x_id x = 104" "x_status x = StatusFailed"
    "x_payload x = Encoded event"
    unfolding list_ex_iff by (metis (no_types, lifting) payload.exhaust payload.simps(6))
  from failed_was_exhausted [OF sample_start sample_steps x(1,3,4)] x show ?thesis by blast
qed


section \<open>One failure stalls the batch\<close>

lemma adminExec_cancelled:
  "adminExec (cancelled e) prefix sql s =
     (Some (Wrapped (within prefix ''beginning admin transaction'') ConnFailure), s)"
  by (simp add: adminExec_def cancelled_def)

lemma deliver_cancelled: "\<exists>res. deliver w (cancelled \<circ> es) k r event cs s = (res, s, [])"
  by (cases cs) (simp_all add: handleConsumer_def startConsumer_def cancelled_def)

lemma processRecord_cancelled: "snd (processRecord p w (cancelled e) (cancelled \<circ> es) r s) = (s, [])"
proof (cases "rc_Payload r")
  case (Encoded event)
  obtain res where "deliver w (cancelled \<circ> es) 0 r event (recordConsumers w r) s = (res, s, [])"
    using deliver_cancelled by blast
  with Encoded show ?thesis
    by (cases res) (simp_all add: processRecord_def markFailed_def markProcessed_def retryOrFail_def adminExec_cancelled)
qed (simp add: processRecord_def markFailed_def adminExec_cancelled)

lemma runGroup_cancelled: "runGroup p w ws k (Some err) rs s = (Some err, s, [])"
proof (induction rs arbitrary: k)
  case (Cons r rs)
  obtain e es where ws: "ws k = (e, es)" by (cases "ws k")
  then show ?case using processRecord_cancelled [of p w e es r s] Cons
    by (auto simp: Let_def split: prod.splits)
qed simp

text \<open>
  One failing record stalls its batch: when the processing of a record returns an error, as it does
  when a consumer fails, the records of the batch that come after it are neither delivered nor marked.
  They stay claimed, until the claim times out.
\<close>
theorem failing_record_stalls_batch:
  assumes "processRecord p w (fst (ws k)) (snd (ws k)) r s = (Some err, s', t)"
  shows "runGroup p w ws k None (r # rest) s = (Some err, s', t)"
  using assms runGroup_cancelled [of p w ws "Suc k" err rest s'] by (cases "ws k") (simp add: Let_def)

definition sampleUndecodable :: Record where
  "sampleUndecodable =
     \<lparr>rc_ID = 104, rc_OrganisationID = 1, rc_LocationID = 2, rc_EventID = 101, rc_Destination = ''audit.operations'',
      rc_Topic = ''operations.table'', rc_Payload = Undecodable ''eof'', rc_Attempts = 1, rc_CreatedAt = 0\<rparr>"

text \<open>An instance: after a record that does not decode, the next record of the batch is left alone.\<close>
theorem failing_record_stalls_batch_witness:
  "\<exists>err. runGroup samplePlatform sampleWorker (\<lambda>k. (sampleEnv, \<lambda>n. sampleEnv)) 0 None
     [sampleUndecodable, sampleUndecodable\<lparr>rc_ID := 103\<rparr>] sampleDb = (Some err, sampleDb, [])"
proof -
  have "processRecord samplePlatform sampleWorker sampleEnv (\<lambda>n. sampleEnv) sampleUndecodable sampleDb =
    (Some (decodeError ''eof''), sampleDb, [])"
    by code_simp
  with failing_record_stalls_batch [of samplePlatform sampleWorker "\<lambda>k. (sampleEnv, \<lambda>n. sampleEnv)" 0 sampleUndecodable sampleDb
      "decodeError ''eof''" sampleDb "[]" "[sampleUndecodable\<lparr>rc_ID := 103\<rparr>]"]
  show ?thesis by auto
qed

end
