(* ===== verification/OutboxRetry.thy ===== *)
theory OutboxRetry
  imports OutboxBatch
begin

text \<open>
  What a claim takes, how long a failed record waits, and how a record fares in a world without
  failures: the consumers that do not have the event yet are called in order until one fails, and the
  record is processed, due again, or given up. \<open>plan\<close> is that abstract account.
\<close>

section \<open>Backoff\<close>

lemma backoff_exact:
  assumes "1 \<le> n" and "n \<le> maxInt32" and "0 < backoffBase w" and "backoffBase w < 2 ^ 53"
    and "backoffBase w * 2 ^ nat (n - 1) < 2 ^ 63"
  shows "backoff ov w n = min (backoffBase w * 2 ^ nat (n - 1)) (backoffMax w)"
proof -
  have "float64 (nat (backoffBase w)) = nat (backoffBase w)" using assms(3,4) by (intro float64_small) simp
  moreover have "wrap32 (n - 1) = n - 1" using assms(1,2) by (intro wrap32_id) (simp_all add: maxInt32_def)
  ultimately show ?thesis using assms by (simp add: backoff_def Let_def min_def)
qed

text \<open>
  The delay before attempt \<open>n + 1\<close> is the base doubled \<open>n - 1\<close> times, capped by the maximum, as long as
  the doubled base fits an int64: the floating-point computation is exact.
\<close>
theorem backoff_is_capped_doubling:
  assumes "1 \<le> n" and "n \<le> maxInt32" and "0 < backoffBase w" and "backoffBase w < 2 ^ 53" and "0 < backoffMax w"
    and "backoffBase w * 2 ^ nat (n - 1) < 2 ^ 63"
  shows "backoff ov w n = min (backoffBase w * 2 ^ nat (n - 1)) (backoffMax w) \<and>
    0 < backoff ov w n \<and> backoff ov w n \<le> backoffMax w"
  using backoff_exact [OF assms(1-4,6)] assms(3,5) by simp

text \<open>Example: the third failure with the default settings waits four seconds.\<close>
theorem backoff_is_capped_doubling_witness: "backoff 0 sampleWorker 3 = 4 * second"
proof -
  have "backoffBase sampleWorker = 10 ^ 9" "backoffMax sampleWorker = 60 * 10 ^ 9" by code_simp+
  with backoff_is_capped_doubling [of 3 sampleWorker 0] show ?thesis by (simp add: maxInt32_def second_def)
qed

text \<open>
  Past that point the delay is not capped: on a platform whose conversion of an out-of-range float
  answers the least int64, as amd64 does, the delay is negative and the record is due at once.
\<close>
theorem backoff_overflow_is_immediate:
  assumes "1 \<le> n" and "n \<le> maxInt32" and "0 < backoffBase w" and "backoffBase w < 2 ^ 53" and "0 < backoffMax w"
    and "2 ^ 63 \<le> backoffBase w * 2 ^ nat (n - 1)"
  shows "backoff (- (2 ^ 63)) w n < 0 \<and> x_available_at (retryRow e (backoff (- (2 ^ 63)) w n) cause x) < now e"
proof -
  have "float64 (nat (backoffBase w)) = nat (backoffBase w)" using assms(3,4) by (intro float64_small) simp
  moreover have "wrap32 (n - 1) = n - 1" using assms(1,2) by (intro wrap32_id) (simp_all add: maxInt32_def)
  ultimately have "backoff (- (2 ^ 63)) w n = - (2 ^ 63)" using assms by (simp add: backoff_def Let_def)
  then show ?thesis by (simp add: retryRow_def milliseconds_def)
qed

text \<open>With the default base of one second, the delay after attempt 35.\<close>
theorem backoff_overflow_is_immediate_witness: "backoff (- (2 ^ 63)) sampleWorker 35 < 0"
proof -
  have "backoffBase sampleWorker = 10 ^ 9" "backoffMax sampleWorker = 60 * 10 ^ 9" by code_simp+
  with backoff_overflow_is_immediate [of 35 sampleWorker] show ?thesis by (simp add: maxInt32_def)
qed


section \<open>Claims\<close>

lemma claim_Inr:
  assumes "claim e busy w s = (Inr rs, s')"
  shows "rs = map (toRecord \<circ> claimRow e w) (claimedRows e admin_context busy w s)"
    and "s' = s\<lparr>outbox_records := map (\<lambda>x. if x_id x \<in> x_id ` set (claimedRows e admin_context busy w s)
               then claimRow e w x else x) (outbox_records s)\<rparr>"
  using assms
  by (auto simp: claim_def runQuery_Inr claimStatement_def Let_def commitTx_def
      split: if_splits sum.splits commit_outcome.splits)

lemma sorted_take_drop:
  assumes "sorted (map f xs)" and "x \<in> set (take n xs)" and "y \<in> set (drop n xs)"
  shows "f x \<le> f y"
proof -
  have "sorted (map f (take n xs @ drop n xs))" using assms(1) by simp
  with assms(2,3) show ?thesis unfolding map_append sorted_append by auto
qed

abbreviation age :: "OutboxRecord \<Rightarrow> timestamp \<times> uuid" where
  "age x \<equiv> (x_created_at x, x_id x)"

text \<open>
  A claim takes the oldest records that may be claimed, at most a batch of them: every record it
  returns was claimable and unlocked and has been counted, and a claimable unlocked record it leaves out
  is not older than any it takes, and there was no room for it.
\<close>
theorem claim_takes_oldest:
  assumes "claim e busy w s = (Inr rs, s')"
  shows "length rs \<le> nat (batchSize w) \<and> sorted (map (\<lambda>r. (rc_CreatedAt r, rc_ID r)) rs) \<and>
    (\<forall>r \<in> set rs. \<exists>x \<in> set (outbox_records s). claimable e admin_context w x \<and> \<not> busy (x_id x) \<and>
       r = toRecord (claimRow e w x) \<and> rc_Attempts r = x_attempts x + 1 \<and> claimRow e w x \<in> set (outbox_records s')) \<and>
    (\<forall>x \<in> set (outbox_records s). claimable e admin_context w x \<and> \<not> busy (x_id x) \<and> x_id x \<notin> rc_ID ` set rs \<longrightarrow>
       length rs = nat (batchSize w) \<and> (\<forall>r \<in> set rs. (rc_CreatedAt r, rc_ID r) \<le> age x))"
proof -
  define cand where "cand = sort_key age (filter (\<lambda>x. claimable e admin_context w x \<and> \<not> busy (x_id x)) (outbox_records s))"
  define n where "n = nat (batchSize w)"
  have rows: "claimedRows e admin_context busy w s = take n cand" by (simp add: claimedRows_def cand_def n_def)
  note c = claim_Inr [OF assms, unfolded rows]
  have srt: "sorted (map age cand)" by (simp add: cand_def)
  have cset: "x \<in> set cand \<longleftrightarrow> x \<in> set (outbox_records s) \<and> claimable e admin_context w x \<and> \<not> busy (x_id x)" for x
    by (auto simp: cand_def)
  have keep: "(rc_CreatedAt r, rc_ID r) = age x" "rc_Attempts r = x_attempts x + 1"
    if "r = toRecord (claimRow e w x)" for r x
    using that by (simp_all add: toRecord_def claimRow_def)
  have ages: "map (\<lambda>r. (rc_CreatedAt r, rc_ID r)) rs = map age (take n cand)"
    by (simp add: c(1) toRecord_def claimRow_def)
  have "sorted (map (\<lambda>r. (rc_CreatedAt r, rc_ID r)) rs)"
    unfolding ages using srt by (simp add: take_map [symmetric] sorted_wrt_take)
  moreover have "\<exists>x \<in> set (outbox_records s). claimable e admin_context w x \<and> \<not> busy (x_id x) \<and>
       r = toRecord (claimRow e w x) \<and> rc_Attempts r = x_attempts x + 1 \<and> claimRow e w x \<in> set (outbox_records s')"
    if "r \<in> set rs" for r
  proof -
    from that c(1) obtain x where x: "x \<in> set (take n cand)" "r = toRecord (claimRow e w x)" by auto
    then have "x \<in> set cand" by (auto dest: in_set_takeD)
    moreover from this x(1) c(2) cset have "claimRow e w x \<in> set (outbox_records s')" by auto
    ultimately show ?thesis using x(2) keep cset by blast
  qed
  moreover have "length rs = n \<and> (\<forall>r \<in> set rs. (rc_CreatedAt r, rc_ID r) \<le> age x)"
    if "x \<in> set (outbox_records s)" "claimable e admin_context w x" "\<not> busy (x_id x)" "x_id x \<notin> rc_ID ` set rs" for x
  proof -
    have "x \<notin> set (take n cand)" using that(4) by (auto simp: c(1) toRecord_def claimRow_def image_image)
    with that cset have d: "x \<in> set (drop n cand)" by (metis Un_iff append_take_drop_id set_append)
    then have "n < length cand" by (cases "n < length cand") auto
    then have "length rs = n" by (simp add: c(1))
    moreover have "(rc_CreatedAt r, rc_ID r) \<le> age x" if "r \<in> set rs" for r
    proof -
      from that c(1) obtain y where y: "y \<in> set (take n cand)" "r = toRecord (claimRow e w y)" by auto
      from sorted_take_drop [OF srt y(1) d] show ?thesis unfolding keep(1) [OF y(2)] .
    qed
    ultimately show ?thesis by blast
  qed
  moreover have "length rs \<le> n" by (simp add: c(1))
  ultimately show ?thesis unfolding n_def by blast
qed

text \<open>Example: the sample worker claims the analytics and the audit record.\<close>
theorem claim_takes_oldest_witness:
  "\<exists>rs s'. claim sampleEnv (\<lambda>i. False) sampleWorker sampleQueue = (Inr rs, s') \<and> length rs = 2 \<and>
     sorted (map (\<lambda>r. (rc_CreatedAt r, rc_ID r)) rs)"
proof -
  have "case claim sampleEnv (\<lambda>i. False) sampleWorker sampleQueue of (Inl err, s') \<Rightarrow> False | (Inr rs, s') \<Rightarrow> length rs = 2"
    by code_simp
  then obtain rs s' where c: "claim sampleEnv (\<lambda>i. False) sampleWorker sampleQueue = (Inr rs, s')" and "length rs = 2"
    by (auto split: prod.splits sum.splits)
  with claim_takes_oldest [OF c] show ?thesis by blast
qed

text \<open>
  A claim is exclusive while it lasts: a record one worker has claimed is not claimed by another
  before the claim timeout of the latter has passed.
\<close>
theorem claims_are_exclusive:
  assumes "claim e1 busy1 w1 s = (Inr rs1, s1)" and "claim e2 busy2 w2 s1 = (Inr rs2, s2)"
    and "now e2 - milliseconds (claimTimeout w2) * 1000 \<le> now e1"
  shows "rc_ID ` set rs1 \<inter> rc_ID ` set rs2 = {}"
proof (rule ccontr)
  note c1 = claim_Inr [OF assms(1)] and c2 = claim_Inr [OF assms(2)]
  assume "rc_ID ` set rs1 \<inter> rc_ID ` set rs2 \<noteq> {}"
  then obtain i where i: "i \<in> rc_ID ` set rs1" "i \<in> rc_ID ` set rs2" by blast
  have "rc_ID ` set rs2 = x_id ` set (claimedRows e2 admin_context busy2 w2 s1)"
    unfolding c2(1) by (simp add: toRecord_def claimRow_def image_image)
  with i(2) have "i \<in> x_id ` set (claimedRows e2 admin_context busy2 w2 s1)" by simp
  then obtain x where x: "x \<in> set (claimedRows e2 admin_context busy2 w2 s1)" and "i = x_id x" by (rule imageE)
  with i(1) have xi: "x_id x \<in> rc_ID ` set rs1" by simp
  from x have cl: "claimable e2 admin_context w2 x" and "x \<in> set (outbox_records s1)"
    by (auto simp: claimedRows_def dest!: in_set_takeD)
  then obtain z where "z \<in> set (outbox_records s)"
    and z: "x = (if x_id z \<in> x_id ` set (claimedRows e1 admin_context busy1 w1 s) then claimRow e1 w1 z else z)"
    by (auto simp: c1(2))
  from xi have "x_id x \<in> x_id ` set (claimedRows e1 admin_context busy1 w1 s)"
    by (auto simp: c1(1) toRecord_def claimRow_def)
  with z have "x = claimRow e1 w1 z" by (auto simp: claimRow_def split: if_splits)
  with cl assms(3) show False by (auto simp: claimable_def claimRow_def)
qed

text \<open>Example: two claims of the sample worker in a row; the second finds nothing.\<close>
theorem claims_are_exclusive_witness:
  "\<exists>rs1 s1 rs2 s2. claim sampleEnv (\<lambda>i. False) sampleWorker sampleQueue = (Inr rs1, s1) \<and>
     claim sampleEnv (\<lambda>i. False) sampleWorker s1 = (Inr rs2, s2) \<and> rc_ID ` set rs1 = {103, 104} \<and> 103 \<notin> rc_ID ` set rs2"
proof -
  have "case claim sampleEnv (\<lambda>i. False) sampleWorker sampleQueue of (Inl err, s1) \<Rightarrow> False
    | (Inr rs, s1) \<Rightarrow> map rc_ID rs = [103, 104] \<and>
        (case claim sampleEnv (\<lambda>i. False) sampleWorker s1 of (Inl err, s2) \<Rightarrow> False | (Inr rs2, s2) \<Rightarrow> True)"
    by code_simp
  then obtain rs1 s1 rs2 s2 where c: "claim sampleEnv (\<lambda>i. False) sampleWorker sampleQueue = (Inr rs1, s1)"
    "claim sampleEnv (\<lambda>i. False) sampleWorker s1 = (Inr rs2, s2)" and ids: "map rc_ID rs1 = [103, 104]"
    by (auto split: prod.splits sum.splits)
  have "now sampleEnv - milliseconds (claimTimeout sampleWorker) * 1000 \<le> now sampleEnv" by code_simp
  from claims_are_exclusive [OF c this] ids have "103 \<notin> rc_ID ` set rs2" "rc_ID ` set rs1 = {103, 104}"
    by (auto simp flip: set_map)
  with c show ?thesis by blast
qed

section \<open>A record in a world without failures\<close>

definition quietWorld :: "env \<Rightarrow> bool" where
  "quietWorld e \<longleftrightarrow> no_faults e \<and> commit e = Committed"

definition hasEvent :: "db \<Rightarrow> uuid \<Rightarrow> string \<Rightarrow> bool" where
  "hasEvent s i consumer \<longleftrightarrow>
     (\<exists>q \<in> set (consumer_event_records s). c_consumer q = consumer \<and> c_event q = i \<and> c_status q = StatusProcessed)"

text \<open>The record's rows are there, and a consumer has at most one row per event.\<close>

definition deliverable :: "db \<Rightarrow> Record \<Rightarrow> bool" where
  "deliverable s r \<longleftrightarrow>
     deferredConstraints s \<and> distinct (map (\<lambda>q. (c_consumer q, c_event q)) (consumer_event_records s)) \<and>
     rc_EventID r \<in> e_id ` set (operational_events s) \<and> rc_ID r \<in> x_id ` set (outbox_records s)"

lemma deferred_rows [simp]:
  "deferredConstraints (s\<lparr>consumer_event_records := rs\<rparr>) = deferredConstraints s"
  "deferredConstraints (s\<lparr>outbox_records := xs\<rparr>) = deferredConstraints s"
  by (simp_all add: deferredConstraints_def split: option.splits)

lemma commitTx_quiet [simp]: "quietWorld e \<Longrightarrow> deferredConstraints s' \<Longrightarrow> commitTx e site v s s' = (Inr v, s')"
  by (simp add: commitTx_def quietWorld_def)

lemma quietWorldD [simp]: "quietWorld e \<Longrightarrow> \<not> fault e site"
  by (simp add: quietWorld_def)

lemma adminExec_quiet:
  "quietWorld e \<Longrightarrow> sql admin_context s = Inr ((), s') \<Longrightarrow> deferredConstraints s' \<Longrightarrow> adminExec e prefix sql s = (None, s')"
  by (simp add: adminExec_def)

definition onlyConsumers :: "db \<Rightarrow> db \<Rightarrow> bool" where
  "onlyConsumers s s' \<longleftrightarrow> s' = s\<lparr>consumer_event_records := consumer_event_records s'\<rparr>"

lemma onlyConsumers_trans: "onlyConsumers s s' \<Longrightarrow> onlyConsumers s' s'' \<Longrightarrow> onlyConsumers s s''"
  unfolding onlyConsumers_def by (metis db.fold_congs(10) db.update_convs(10) db.surjective)

lemma onlyConsumers_rows:
  assumes "onlyConsumers s s'"
  shows "outbox_records s' = outbox_records s" "operational_events s' = operational_events s"
    "deferredConstraints s' = deferredConstraints s"
  using assms unfolding onlyConsumers_def by (metis db.select_convs deferred_rows(1) db.surjective db.update_convs)+

lemma startConsumer_skip:
  assumes q: "quietWorld e" and d: "deliverable s r" and c: "cn_Name c \<noteq> ''''" and has: "hasEvent s (rc_EventID r) (cn_Name c)"
  shows "startConsumer e r c s = (Inr True, s)"
proof -
  from has obtain x where x: "x \<in> set (consumer_event_records s)" "c_consumer x = cn_Name c" "c_event x = rc_EventID r"
    "c_status x = StatusProcessed" by (auto simp: hasEvent_def)
  have "find (\<lambda>r'. c_consumer r' = cn_Name c \<and> c_event r' = rc_EventID r) (consumer_event_records s) = Some x"
    by (rule find_distinct_key [where k = "\<lambda>q. (c_consumer q, c_event q)"])
      (use d x in \<open>simp_all add: deliverable_def\<close>)
  then have "consumerStatus e (cn_Name c) (rc_EventID r) admin_context s = Inr StatusProcessed"
    by (simp add: consumerStatus_def selectOne_def x(4))
  moreover have "insertConsumerRecord e (cn_Name c) (rc_EventID r) (rc_ID r) admin_context s = Inr (False, s)"
    using x c by (auto simp: insertConsumerRecord_def firstViolation.simps)
  ultimately show ?thesis using q d by (simp add: startConsumer_def deliverable_def)
qed

lemma startConsumer_open:
  assumes q: "quietWorld e" and d: "deliverable s r" and c: "cn_Name c \<noteq> ''''" and new: "\<not> hasEvent s (rc_EventID r) (cn_Name c)"
  obtains s' where "startConsumer e r c s = (Inr False, s')" and "deliverable s' r" and "onlyConsumers s s'"
    and "hasEvent s' = hasEvent s"
    and "\<exists>x \<in> set (consumer_event_records s'). c_consumer x = cn_Name c \<and> c_event x = rc_EventID r"
proof (cases "\<exists>x \<in> set (consumer_event_records s). c_consumer x = cn_Name c \<and> c_event x = rc_EventID r")
  case True
  then obtain x where x: "x \<in> set (consumer_event_records s)" "c_consumer x = cn_Name c" "c_event x = rc_EventID r" by blast
  have "find (\<lambda>r'. c_consumer r' = cn_Name c \<and> c_event r' = rc_EventID r) (consumer_event_records s) = Some x"
    by (rule find_distinct_key [where k = "\<lambda>q. (c_consumer q, c_event q)"])
      (use d x in \<open>simp_all add: deliverable_def\<close>)
  then have "consumerStatus e (cn_Name c) (rc_EventID r) admin_context s = Inr (c_status x)"
    by (simp add: consumerStatus_def selectOne_def)
  moreover have "insertConsumerRecord e (cn_Name c) (rc_EventID r) (rc_ID r) admin_context s = Inr (False, s)"
    using x c by (auto simp: insertConsumerRecord_def firstViolation.simps)
  moreover have "c_status x \<noteq> StatusProcessed" using new x by (auto simp: hasEvent_def)
  ultimately have "startConsumer e r c s = (Inr False, s)" using q d by (simp add: startConsumer_def deliverable_def)
  from that [OF this d _ _ True] show thesis by (simp add: onlyConsumers_def)
next
  case False
  define s' where "s' = s\<lparr>consumer_event_records := consumer_event_records s @
                     [\<lparr>c_consumer = cn_Name c, c_event = rc_EventID r, c_outbox_record = rc_ID r,
                       c_status = StatusProcessing, c_first_seen_at = now e, c_processed_at = None,
                       c_last_error = None\<rparr>]\<rparr>"
  have "insertConsumerRecord e (cn_Name c) (rc_EventID r) (rc_ID r) admin_context s = Inr (True, s')"
    using False d c by (auto simp: insertConsumerRecord_def firstViolation.simps deliverable_def s'_def)
  moreover have "deferredConstraints s'" using d by (simp add: s'_def deliverable_def)
  ultimately have "startConsumer e r c s = (Inr False, s')" using q by (simp add: startConsumer_def)
  moreover have "deliverable s' r" using False d by (auto simp: s'_def deliverable_def)
  moreover have "onlyConsumers s s'" by (simp add: onlyConsumers_def s'_def)
  moreover have "hasEvent s' = hasEvent s" by (auto simp: fun_eq_iff hasEvent_def s'_def)
  ultimately show thesis by (rule that) (simp add: s'_def)
qed

lemma consumer_rows_update:
  assumes d: "deliverable s r" and f: "\<And>x. c_consumer (f x) = c_consumer x \<and> c_event (f x) = c_event x"
    and s': "s' = s\<lparr>consumer_event_records := map (\<lambda>x. if c_consumer x = n \<and> c_event x = i then f x else x) (consumer_event_records s)\<rparr>"
  shows "deliverable s' r" "onlyConsumers s s'" "deferredConstraints s'"
proof -
  have "map (\<lambda>q. (c_consumer q, c_event q)) (consumer_event_records s') = map (\<lambda>q. (c_consumer q, c_event q)) (consumer_event_records s)"
    unfolding s' db.select_convs(10) db.update_convs(10) using f by simp
  then have "distinct (map (\<lambda>q. (c_consumer q, c_event q)) (consumer_event_records s'))"
    using d by (simp only: deliverable_def)
  with d show "deliverable s' r" by (simp add: deliverable_def s' del: map_map)
  then show "onlyConsumers s s'" "deferredConstraints s'" by (simp_all add: s' onlyConsumers_def deliverable_def)
qed

lemma handleConsumer_quiet:
  assumes q: "quietWorld e" and d: "deliverable s r" and c: "cn_Name c \<noteq> ''''" and new: "\<not> hasEvent s (rc_EventID r) (cn_Name c)"
  obtains s' where "handleConsumer w e e r event c s =
      (map_option (consumerError c r) (cn_Handle c e event), s', callEffects w c event (cn_Handle c e event))"
    and "deliverable s' r" and "onlyConsumers s s'"
    and "\<And>n. hasEvent s' (rc_EventID r) n \<longleftrightarrow>
           hasEvent s (rc_EventID r) n \<or> (cn_Handle c e event = None \<and> n = cn_Name c)"
proof -
  from startConsumer_open [OF q d c new] obtain s1 where s1: "startConsumer e r c s = (Inr False, s1)" "deliverable s1 r"
    "onlyConsumers s s1" "hasEvent s1 = hasEvent s"
    "\<exists>x \<in> set (consumer_event_records s1). c_consumer x = cn_Name c \<and> c_event x = rc_EventID r" by blast
  define f where "f x = (case cn_Handle c e event of
       Some m \<Rightarrow> x\<lparr>c_status := StatusFailed, c_last_error := Some m\<rparr>
     | None \<Rightarrow> x\<lparr>c_status := StatusProcessed, c_processed_at := Some (now e), c_last_error := None\<rparr>)" for x :: ConsumerEventRecord
  define s2 where "s2 = s1\<lparr>consumer_event_records :=
     map (\<lambda>x. if c_consumer x = cn_Name c \<and> c_event x = rc_EventID r then f x else x) (consumer_event_records s1)\<rparr>"
  have f: "c_consumer (f x) = c_consumer x \<and> c_event (f x) = c_event x" for x by (simp add: f_def split: option.splits)
  note k = consumer_rows_update [OF s1(2) f s2_def]
  have "finishConsumer e r c (cn_Handle c e event) s1 = (map_option (consumerError c r) (cn_Handle c e event), s2)"
    using adminExec_quiet [OF q _ k(3)]
    by (cases "cn_Handle c e event")
      (simp_all add: finishConsumer_def markConsumerFailed_def markConsumerProcessed_def s2_def f_def [abs_def])
  with s1(1) have "handleConsumer w e e r event c s =
      (map_option (consumerError c r) (cn_Handle c e event), s2, callEffects w c event (cn_Handle c e event))"
    by (simp add: handleConsumer_def Let_def)
  moreover have "hasEvent s2 (rc_EventID r) n \<longleftrightarrow>
           hasEvent s (rc_EventID r) n \<or> (cn_Handle c e event = None \<and> n = cn_Name c)" for n
  proof (cases "n = cn_Name c")
    case True
    have st: "c_status (f x) = StatusProcessed \<longleftrightarrow> cn_Handle c e event = None" for x
      by (simp add: f_def split: option.splits)
    from s1(5) obtain x where x: "x \<in> set (consumer_event_records s1)" "c_consumer x = cn_Name c" "c_event x = rc_EventID r"
      by blast
    show ?thesis
    proof (cases "cn_Handle c e event = None")
      case True
      with x have "hasEvent s2 (rc_EventID r) (cn_Name c)" unfolding hasEvent_def s2_def
        by (auto simp: st f intro!: bexI [of _ "f x"] image_eqI [of _ _ x])
      with True \<open>n = cn_Name c\<close> show ?thesis by simp
    next
      case False
      then have "\<not> hasEvent s2 (rc_EventID r) (cn_Name c)" unfolding hasEvent_def s2_def by (auto simp: st f)
      with False new s1(4) \<open>n = cn_Name c\<close> show ?thesis by simp
    qed
  next
    case False
    then have "hasEvent s2 (rc_EventID r) n = hasEvent s1 (rc_EventID r) n"
      by (auto simp: hasEvent_def s2_def f split: if_splits)
    with False s1(4) show ?thesis by simp
  qed
  ultimately show thesis by (rule that [OF _ k(1) onlyConsumers_trans [OF s1(3) k(2)]])
qed


text \<open>
  The abstract account of a delivery: which consumer stopped it, and who was called. \<open>done\<close> are the
  consumers that have the event, \<open>answer\<close> is what a consumer would answer.
\<close>

fun plan :: "(string \<Rightarrow> bool) \<Rightarrow> (Consumer \<Rightarrow> string option) \<Rightarrow> Consumer list \<Rightarrow>
     (Consumer \<times> string) option \<times> Consumer list" where
  "plan has answer [] = (None, [])"
| "plan has answer (c # cs) =
     (if has (cn_Name c) then plan has answer cs
      else case answer c of
             Some m \<Rightarrow> (Some (c, m), [c])
           | None \<Rightarrow>
               (let (stop, called) = plan (has(cn_Name c := True)) answer cs in (stop, c # called)))"

lemma deliver_quiet:
  assumes "quietWorld e" and "deliverable s r" and "list_all (\<lambda>c. cn_Name c \<noteq> '''') cs"
    and "plan (hasEvent s (rc_EventID r)) (\<lambda>c. cn_Handle c e event) cs = (stop, called)"
  shows "\<exists>s'. deliver w (\<lambda>n. e) k r event cs s =
      (map_option (\<lambda>(c, m). consumerError c r m) stop, s',
       concat (map (\<lambda>c. callEffects w c event (cn_Handle c e event)) called)) \<and>
    deliverable s' r \<and> onlyConsumers s s'"
  using assms
proof (induction cs arbitrary: k s stop called)
  case Nil
  then show ?case by (auto simp: onlyConsumers_def)
next
  case (Cons c cs)
  show ?case
  proof (cases "hasEvent s (rc_EventID r) (cn_Name c)")
    case True
    with Cons.prems have "handleConsumer w e e r event c s = (None, s, [])"
      by (simp add: handleConsumer_def startConsumer_skip)
    with True Cons.prems Cons.IH [of s stop called "Suc k"] show ?thesis by auto
  next
    case False
    have nm: "cn_Name c \<noteq> ''''" using Cons.prems(3) by simp
    obtain s1 where h: "handleConsumer w e e r event c s =
      (map_option (consumerError c r) (cn_Handle c e event), s1, callEffects w c event (cn_Handle c e event))"
      and d: "deliverable s1 r" "onlyConsumers s s1"
      and has: "\<And>n. hasEvent s1 (rc_EventID r) n \<longleftrightarrow>
           hasEvent s (rc_EventID r) n \<or> (cn_Handle c e event = None \<and> n = cn_Name c)"
      using handleConsumer_quiet [OF Cons.prems(1,2) nm False, where w = w and event = event] by blast
    show ?thesis
    proof (cases "cn_Handle c e event")
      case (Some m)
      with h d False Cons.prems(4) show ?thesis by auto
    next
      case None
      obtain stop1 called1 where p: "plan ((hasEvent s (rc_EventID r))(cn_Name c := True)) (\<lambda>c. cn_Handle c e event) cs = (stop1, called1)"
        by fastforce
      have "hasEvent s1 (rc_EventID r) = (hasEvent s (rc_EventID r))(cn_Name c := True)"
        using has None by (auto simp: fun_eq_iff)
      then have p': "plan (hasEvent s1 (rc_EventID r)) (\<lambda>c. cn_Handle c e event) cs = (stop1, called1)" by (simp only: p)
      have "list_all (\<lambda>c. cn_Name c \<noteq> '''') cs" using Cons.prems(3) by simp
      from Cons.IH [OF Cons.prems(1) d(1) this p', of "Suc k"] obtain s2 where
        "deliver w (\<lambda>n. e) (Suc k) r event cs s1 =
          (map_option (\<lambda>(c, m). consumerError c r m) stop1, s2,
           concat (map (\<lambda>c. callEffects w c event (cn_Handle c e event)) called1))"
        "deliverable s2 r" "onlyConsumers s1 s2" by blast
      moreover from p None False Cons.prems(4) have "stop = stop1" "called = c # called1" by simp_all
      ultimately show ?thesis using h None onlyConsumers_trans [OF d(2)] by auto
    qed
  qed
qed

text \<open>What becomes of the record's row.\<close>

definition settle :: "platform \<Rightarrow> Worker \<Rightarrow> env \<Rightarrow> Record \<Rightarrow> (Consumer \<times> string) option \<Rightarrow> OutboxRecord \<Rightarrow> OutboxRecord" where
  "settle p w e r stop =
     (case stop of
        None \<Rightarrow> markProcessedRow e
      | Some (c, m) \<Rightarrow>
          (let text = errorText (driver p) (consumerError c r m)
           in if rc_Attempts r \<ge> maxAttempts w then failRow e text
              else retryRow e (backoff (overflow p) w (rc_Attempts r)) text))"

definition callsIn :: "effect list \<Rightarrow> effect list" where
  "callsIn t = filter (\<lambda>x. case x of Called c event ok \<Rightarrow> True | _ \<Rightarrow> False) t"

lemma callsIn_emit [simp]:
  "callsIn (emit w (RecordProcessed d k)) = []" "callsIn (emit w (RecordRetried d k)) = []"
  "callsIn (emit w (RecordFailed d k)) = []" "callsIn (emit w (RecordConsumerFailed c)) = []"
  by (simp_all add: callsIn_def emit_def)

lemma callsIn_append [simp]: "callsIn (t @ t') = callsIn t @ callsIn t'"
  by (simp add: callsIn_def)

lemma callsIn_effects:
  "callsIn (concat (map (\<lambda>c. callEffects w c event (answer c)) cs)) =
     map (\<lambda>c. Called (cn_Name c) event (answer c = None)) cs"
proof (induction cs)
  case (Cons c cs)
  have "callsIn (callEffects w c event (answer c)) = [Called (cn_Name c) event (answer c = None)]"
    by (simp add: callEffects_def callsIn_def emit_def)
  with Cons show ?case by simp
qed (simp add: callsIn_def)

lemma row_exec_quiet:
  "quietWorld e \<Longrightarrow> deferredConstraints s \<Longrightarrow> adminExec e prefix (updateRecord e i f) s = (None, rowUpdate i f s)"
  by (rule adminExec_quiet) (simp_all add: rowUpdate_def)

text \<open>
  C11. Without failures \<^verbatim>\<open>processRecord\<close> implements the plan: it calls, in order, the consumers of the record
  that do not have the event, up to the first that fails, and settles the record's row: processed when
  none failed, and otherwise due after the backoff, or failed when its attempts are used up. Every other
  row of the outbox is left alone, and a second delivery of a processed record calls nobody.
\<close>
theorem processRecord_refines_plan:
  assumes "quietWorld e" and "deliverable s r" and "rc_Payload r = Encoded event"
    and "list_all (\<lambda>c. cn_Name c \<noteq> '''') (recordConsumers w r)"
    and "plan (hasEvent s (rc_EventID r)) (\<lambda>c. cn_Handle c e event) (recordConsumers w r) = (stop, called)"
  shows "\<exists>s' t. processRecord p w e (\<lambda>n. e) r s = (map_option (\<lambda>(c, m). consumerError c r m) stop, s', t) \<and>
    callsIn t = map (\<lambda>c. Called (cn_Name c) event (cn_Handle c e event = None)) called \<and>
    outbox_records s' = map (\<lambda>x. if x_id x = rc_ID r then settle p w e r stop x else x) (outbox_records s)"
proof -
  from deliver_quiet [OF assms(1,2,4,5), where k = 0] obtain s1 where
    dl: "deliver w (\<lambda>n. e) 0 r event (recordConsumers w r) s =
      (map_option (\<lambda>(c, m). consumerError c r m) stop, s1,
       concat (map (\<lambda>c. callEffects w c event (cn_Handle c e event)) called))"
    and s1: "deferredConstraints s1" "onlyConsumers s s1" by (auto simp: deliverable_def)
  note ex = row_exec_quiet [OF assms(1) s1(1)] and same = onlyConsumers_rows(1) [OF s1(2)]
  show ?thesis
  proof (cases stop)
    case None
    with dl assms(3) ex same show ?thesis
      by (simp add: processRecord_def markProcessed_def callsIn_effects settle_def rowUpdate_def)
  next
    case (Some cm)
    obtain c m where "cm = (c, m)" by (cases cm)
    with Some dl assms(3) ex same show ?thesis
      by (simp add: processRecord_def retryOrFail_def markFailed_def callsIn_effects settle_def Let_def rowUpdate_def)
  qed
qed

definition sampleEnvelope :: Envelope where
  "sampleEnvelope =
     \<lparr>ev_ID = 101, ev_Type = TypeTableOccupied, ev_SchemaVersion = 1, ev_OccurredAt = 5000000000, ev_OrganisationID = 1,
      ev_LocationID = 2, ev_ActorRef = ''alice'', ev_DeviceID = None, ev_EntityType = ''table'', ev_EntityID = 3,
      ev_EntityVersion = Some 2, ev_CommandID = Some 77, ev_CorrelationID = Some 77, ev_Traceparent = '''',
      ev_Tracestate = '''', ev_Data = JObj []\<rparr>"

text \<open>Witness of C11: the consumer of the audit record fails at the last attempt.\<close>
theorem processRecord_refines_plan_witness:
  "\<exists>s' t. processRecord samplePlatform sampleFailing sampleEnv (\<lambda>n. sampleEnv)
       (sampleUndecodable\<lparr>rc_Payload := Encoded sampleEnvelope\<rparr>) sampleQueue =
     (Some (consumerError \<lparr>cn_Name = ''broken'', cn_Handle = (\<lambda>e event. Some ''down'')\<rparr> sampleUndecodable ''down''), s', t) \<and>
     callsIn t = [Called ''broken'' sampleEnvelope False]"
proof -
  let ?r = "sampleUndecodable\<lparr>rc_Payload := Encoded sampleEnvelope\<rparr>"
  let ?c = "\<lparr>cn_Name = ''broken'', cn_Handle = (\<lambda>e event. Some ''down'')\<rparr> :: Consumer"
  have cs: "recordConsumers sampleFailing ?r = [?c]"
    by (simp add: recordConsumers_def consumersOf_def sampleFailing_def sampleUndecodable_def)
  have q: "quietWorld sampleEnv" by (simp add: quietWorld_def no_faults_def sampleEnv_def)
  have none: "consumer_event_records sampleQueue = []" by code_simp
  have "e_id ` set (operational_events sampleQueue) = {101}" "104 \<in> x_id ` set (outbox_records sampleQueue)" by code_simp+
  then have d: "deliverable sampleQueue ?r"
    using sample_start none wf_deferred by (simp add: deliverable_def outboxStart_def sampleUndecodable_def)
  have "plan (hasEvent sampleQueue (rc_EventID ?r)) (\<lambda>c. cn_Handle c sampleEnv sampleEnvelope) (recordConsumers sampleFailing ?r) =
    (Some (?c, ''down''), [?c])" by (simp add: cs hasEvent_def none)
  from processRecord_refines_plan [OF q d _ _ this, where p = samplePlatform] show ?thesis
    by (auto simp: cs consumerError_def)
qed

end
