(* ===== verification/OutboxLiveness.thy ===== *)
theory OutboxLiveness
  imports OutboxRetry
begin

text \<open>
  Retries come to an end: what successive runs of \<^verbatim>\<open>ProcessBatch\<close> make of the oldest record that waits for a worker.
  A batch is worked off in the order of age and a failing record cancels those after it, so the oldest record is
  the one that is sure of its turn; when it is settled, the next one is the oldest.
\<close>

section \<open>What a batch leaves alone\<close>

text \<open>The fields that rank and route a record.\<close>

abbreviation place :: "OutboxRecord \<Rightarrow> (timestamp \<times> uuid) \<times> string \<times> string" where
  "place x \<equiv> (age x, x_destination x, x_topic x)"

text \<open>Only the rows in \<open>I\<close> change, and of these neither the place nor the number of attempts.\<close>

definition queueFrame :: "uuid set \<Rightarrow> db \<Rightarrow> db \<Rightarrow> bool" where
  "queueFrame I s s' \<longleftrightarrow>
     deferredConstraints s' = deferredConstraints s \<and>
     (\<exists>f. outbox_records s' = map f (outbox_records s) \<and>
        (\<forall>x. place (f x) = place x \<and> x_attempts (f x) = x_attempts x \<and> (x_id x \<notin> I \<longrightarrow> f x = x)))"

lemma queueFrame_same: "outbox_records s' = outbox_records s \<Longrightarrow> deferredConstraints s' = deferredConstraints s \<Longrightarrow> queueFrame I s s'"
  unfolding queueFrame_def by (intro conjI exI [of _ id]) simp_all

lemma queueFrame_trans:
  assumes "queueFrame I s s'" and "queueFrame J s' s''"
  shows "queueFrame (I \<union> J) s s''"
proof -
  from assms obtain f g where f: "outbox_records s' = map f (outbox_records s)"
      "\<forall>x. place (f x) = place x \<and> x_attempts (f x) = x_attempts x \<and> (x_id x \<notin> I \<longrightarrow> f x = x)"
    and g: "outbox_records s'' = map g (outbox_records s')"
      "\<forall>x. place (g x) = place x \<and> x_attempts (g x) = x_attempts x \<and> (x_id x \<notin> J \<longrightarrow> g x = x)"
    unfolding queueFrame_def by blast
  have "outbox_records s'' = map (g \<circ> f) (outbox_records s)" using f(1) g(1) by simp
  moreover have "place ((g \<circ> f) x) = place x \<and> x_attempts ((g \<circ> f) x) = x_attempts x \<and> (x_id x \<notin> I \<union> J \<longrightarrow> (g \<circ> f) x = x)" for x
    using f(2) g(2) by auto
  ultimately show ?thesis using assms unfolding queueFrame_def by blast
qed

lemma queueFrame_row: "queueFrame I s s' \<Longrightarrow> x \<in> set (outbox_records s) \<Longrightarrow> x_id x \<notin> I \<Longrightarrow> x \<in> set (outbox_records s')"
  unfolding queueFrame_def by (metis image_eqI image_set)

lemma queueFrame_rowUpdate:
  assumes "\<And>x. place (f x) = place x \<and> x_attempts (f x) = x_attempts x"
  shows "queueFrame {i} s (rowUpdate i f s)"
  unfolding queueFrame_def rowUpdate_def
  by (intro conjI exI [of _ "\<lambda>x. if x_id x = i then f x else x"]) (use assms in simp_all)

lemma place_changes [simp]:
  "x_created_at (markProcessedRow e x) = x_created_at x" "x_id (markProcessedRow e x) = x_id x" "x_destination (markProcessedRow e x) = x_destination x" "x_topic (markProcessedRow e x) = x_topic x"
  "x_created_at (retryRow e delay text x) = x_created_at x" "x_id (retryRow e delay text x) = x_id x" "x_destination (retryRow e delay text x) = x_destination x" "x_topic (retryRow e delay text x) = x_topic x"
  "x_created_at (failRow e text x) = x_created_at x" "x_id (failRow e text x) = x_id x" "x_destination (failRow e text x) = x_destination x" "x_topic (failRow e text x) = x_topic x"
  "x_created_at (claimRow e w x) = x_created_at x" "x_id (claimRow e w x) = x_id x" "x_destination (claimRow e w x) = x_destination x" "x_topic (claimRow e w x) = x_topic x"
  by (simp_all add: markProcessedRow_def retryRow_def failRow_def claimRow_def)

text \<open>The consumers see the outbox only through their records, in any world.\<close>

lemma handleConsumer_rows:
  assumes "handleConsumer w e1 e2 r event c s = (res, s', t)"
  shows "outbox_records s' = outbox_records s \<and> deferredConstraints s' = deferredConstraints s"
proof -
  obtain st s1 where st: "startConsumer e1 r c s = (st, s1)" by (cases "startConsumer e1 r c s")
  have 1: "outbox_records s1 = outbox_records s \<and> deferredConstraints s1 = deferredConstraints s"
    using st by (cases rule: startConsumer_cases) simp_all
  show ?thesis
  proof (cases "s' = s1")
    case False
    then obtain answer err where "finishConsumer e2 r c answer s1 = (err, s')"
      using assms st by (auto simp: handleConsumer_def Let_def split: sum.splits bool.splits prod.splits)
    then have "outbox_records s' = outbox_records s1 \<and> deferredConstraints s' = deferredConstraints s1"
      by (cases rule: finishConsumer_cases) simp_all
    with 1 show ?thesis by simp
  qed (use 1 in simp)
qed

lemma deliver_rows:
  "deliver w es k r event cs s = (res, s', t) \<Longrightarrow>
     outbox_records s' = outbox_records s \<and> deferredConstraints s' = deferredConstraints s"
proof (induction cs arbitrary: k s res s' t)
  case (Cons c cs)
  obtain r1 s1 t1 where h: "handleConsumer w (es (2 * k)) (es (2 * k + 1)) r event c s = (r1, s1, t1)"
    by (cases "handleConsumer w (es (2 * k)) (es (2 * k + 1)) r event c s") auto
  obtain r2 s2 t2 where d: "deliver w es (Suc k) r event cs s1 = (r2, s2, t2)"
    by (cases "deliver w es (Suc k) r event cs s1") auto
  show ?case using Cons.prems h d handleConsumer_rows [OF h] Cons.IH [OF d] by (cases r1) auto
qed simp

lemma processRecord_frame:
  assumes "processRecord p w e es r s = (res, s', t)"
  shows "queueFrame {rc_ID r} s s'"
proof -
  have same: "queueFrame {rc_ID r} s1 s1" for s1 by (rule queueFrame_same) simp_all
  have fail: "queueFrame {rc_ID r} s1 s2" if "markFailed p w e r cause s1 = (err, s2, t2)" for cause s1 err s2 t2
    using markFailed_cases [OF that] same by (auto intro: queueFrame_rowUpdate)
  have retry: "queueFrame {rc_ID r} s1 s2" if "retryOrFail p w e r cause s1 = (err, s2, t2)" for cause s1 err s2 t2
    using retryOrFail_cases [OF that] same by (auto intro: queueFrame_rowUpdate)
  have settled: "queueFrame {rc_ID r} s1 s2" if "markProcessed w e r s1 = (err, s2, t2)" for s1 err s2 t2
    using markProcessed_cases [OF that] same by (auto intro: queueFrame_rowUpdate)
  show ?thesis
  proof (cases "rc_Payload r")
    case (Undecodable m)
    with assms show ?thesis by (auto simp: processRecord_def intro: fail)
  next
    case (Encoded event)
    obtain err s1 t1 where d: "deliver w es 0 r event (recordConsumers w r) s = (err, s1, t1)"
      by (cases "deliver w es 0 r event (recordConsumers w r) s") auto
    have "queueFrame {} s s1" using deliver_rows [OF d] by (intro queueFrame_same) simp_all
    moreover have "queueFrame {rc_ID r} s1 s'"
      using assms Encoded d by (auto simp: processRecord_def split: option.splits prod.splits intro: retry settled)
    ultimately show ?thesis using queueFrame_trans [of "{}" s s1 "{rc_ID r}" s'] by simp
  qed
qed

lemma runGroup_frame: "runGroup p w ws k failed rs s = (res, s', t) \<Longrightarrow> queueFrame (rc_ID ` set rs) s s'"
proof (induction rs arbitrary: k failed s res s' t)
  case (Cons r rs)
  obtain e es where ws: "ws k = (e, es)" by (cases "ws k")
  obtain r1 s1 t1 where 1: "processRecord p w (if failed = None then e else cancelled e)
      (if failed = None then es else cancelled \<circ> es) r s = (r1, s1, t1)" using prod_cases3 by blast
  obtain r2 s2 t2 where 2: "runGroup p w ws (Suc k) (if failed = None then r1 else failed) rs s1 = (r2, s2, t2)"
    using prod_cases3 by blast
  from Cons.prems ws 1 2 have "s' = s2" by (simp add: Let_def)
  with queueFrame_trans [OF processRecord_frame [OF 1] Cons.IH [OF 2]] show ?case by simp
qed (simp add: queueFrame_same)


section \<open>The record whose turn it is\<close>

definition finished :: "OutboxRecord \<Rightarrow> bool" where
  "finished x \<longleftrightarrow> x_status x \<in> {StatusProcessed, StatusFailed}"

definition routed :: "Worker \<Rightarrow> OutboxRecord \<Rightarrow> bool" where
  "routed w x \<longleftrightarrow> destinations w = [] \<or> x_destination x \<in> set (destinations w) \<or> x_topic x \<in> set (destinations w)"

lemma claimable_unfinished: "claimable e c w x \<Longrightarrow> routed w x \<and> \<not> finished x"
  by (auto simp: claimable_def routed_def finished_def)

lemma routed_place: "place y = place x \<Longrightarrow> routed w y = routed w x"
  by (simp add: routed_def)

lemma backoff_max: "backoff ov w n \<le> backoffMax w"
  by (simp add: backoff_def Let_def)

lemma milliseconds_mono: "a \<le> b \<Longrightarrow> milliseconds a \<le> milliseconds b"
  unfolding milliseconds_def by (auto simp: zdiv_mono1 intro: order_trans [of _ 0])

text \<open>The outcome of an attempt: settled, or due again soon while attempts are left.\<close>

definition attempted :: "Worker \<Rightarrow> timestamp \<Rightarrow> int \<Rightarrow> OutboxRecord \<Rightarrow> bool" where
  "attempted w t n x \<longleftrightarrow>
     finished x \<or>
     x_status x = StatusPending \<and> n < maxAttempts w \<and> x_available_at x \<le> t + milliseconds (backoffMax w) * 1000"

text \<open>
  A record is settled or due again whatever its consumers answer and whatever goes wrong with their transactions, when
  the transaction that settles it goes through.
\<close>

lemma processRecord_attempt:
  assumes run: "processRecord p w e es r s = (res, s', t)" and q: "quietWorld e" and d: "deferredConstraints s"
  shows "\<exists>f. outbox_records s' = map (\<lambda>x. if x_id x = rc_ID r then f x else x) (outbox_records s) \<and>
    (\<forall>x. place (f x) = place x \<and> x_attempts (f x) = x_attempts x \<and> attempted w (now e) (rc_Attempts r) (f x))"
proof -
  have again: "attempted w (now e) n (retryRow e (backoff ov w n) msg x)" if "n < maxAttempts w" for n ov msg x
    using that milliseconds_mono [OF backoff_max [of ov w n]] by (simp add: attempted_def retryRow_def)
  have step: "\<exists>f. outbox_records s2 = map (\<lambda>x. if x_id x = rc_ID r then f x else x) (outbox_records s1) \<and>
      (\<forall>x. place (f x) = place x \<and> x_attempts (f x) = x_attempts x \<and> attempted w (now e) (rc_Attempts r) (f x))"
    if "s2 = rowUpdate (rc_ID r) f s1" "\<And>x. place (f x) = place x \<and> x_attempts (f x) = x_attempts x"
      "\<And>x. attempted w (now e) (rc_Attempts r) (f x)" for s1 s2 f
    using that by (intro exI [of _ f]) (simp add: rowUpdate_def)
  have fail: "s2 = rowUpdate (rc_ID r) (failRow e (errorText (driver p) cause)) s1"
    if "markFailed p w e r cause s1 = (err, s2, t2)" "deferredConstraints s1" for cause s1 err s2 t2
    using that row_exec_quiet [OF q that(2)] by (simp add: markFailed_def)
  show ?thesis
  proof (cases "rc_Payload r")
    case (Undecodable m)
    with run have "markFailed p w e r (decodeError m) s = (res, s', t)" by (simp add: processRecord_def)
    then show ?thesis by (intro step [OF fail [OF _ d]]) (simp_all add: attempted_def finished_def)
  next
    case (Encoded event)
    obtain err s1 t1 where dl: "deliver w es 0 r event (recordConsumers w r) s = (err, s1, t1)"
      by (cases "deliver w es 0 r event (recordConsumers w r) s") auto
    have rows: "outbox_records s1 = outbox_records s" and d1: "deferredConstraints s1" using deliver_rows [OF dl] d by simp_all
    show ?thesis
    proof (cases err)
      case None
      then have "s' = rowUpdate (rc_ID r) (markProcessedRow e) s1"
        using run Encoded dl row_exec_quiet [OF q d1] by (simp add: processRecord_def markProcessed_def)
      then show ?thesis unfolding rows [symmetric] by (rule step) (simp_all add: attempted_def finished_def)
    next
      case (Some cause)
      then obtain t2 where rf: "retryOrFail p w e r cause s1 = (res, s', t2)"
        using run Encoded dl by (auto simp: processRecord_def split: prod.splits)
      show ?thesis
      proof (cases "maxAttempts w \<le> rc_Attempts r")
        case True
        with rf have "markFailed p w e r cause s1 = (res, s', t2)" by (simp add: retryOrFail_def)
        then show ?thesis unfolding rows [symmetric] by (intro step [OF fail [OF _ d1]]) (simp_all add: attempted_def finished_def)
      next
        case False
        then have "s' = rowUpdate (rc_ID r) (retryRow e (backoff (overflow p) w (rc_Attempts r)) (errorText (driver p) cause)) s1"
          using rf row_exec_quiet [OF q d1] by (simp add: retryOrFail_def)
        then show ?thesis unfolding rows [symmetric] by (rule step) (use False in \<open>simp_all add: again\<close>)
      qed
    qed
  qed
qed

lemma claim_quiet:
  assumes "quietWorld e" and "deferredConstraints s" and "\<forall>x \<in> set (outbox_records s). x_attempts x < maxInt32"
  shows "claim e busy w s =
    (Inr (map (toRecord \<circ> claimRow e w) (claimedRows e admin_context busy w s)),
     s\<lparr>outbox_records := map (\<lambda>x. if x_id x \<in> x_id ` set (claimedRows e admin_context busy w s) then claimRow e w x else x)
                           (outbox_records s)\<rparr>)"
proof -
  have "\<forall>x \<in> set (claimedRows e admin_context busy w s). x_attempts x \<noteq> maxInt32"
    using assms(3) by (force simp: claimedRows_def dest!: in_set_takeD)
  then show ?thesis using assms(1,2) by (auto simp: claim_def claimStatement_def Let_def runQuery_def)
qed

text \<open>The claim lists first the oldest of the rows it may take.\<close>

lemma oldest_claimed:
  assumes "distinct (map x_id (outbox_records s))" and "x \<in> set (outbox_records s)" and "claimable e admin_context w x" and "\<not> busy (x_id x)"
    and "\<And>y. y \<in> set (outbox_records s) \<Longrightarrow> claimable e admin_context w y \<Longrightarrow> age x \<le> age y" and "0 < batchSize w"
  shows "\<exists>rest. claimedRows e admin_context busy w s = x # rest \<and> x_id x \<notin> x_id ` set rest"
proof -
  let ?xs = "filter (\<lambda>x. claimable e admin_context w x \<and> \<not> busy (x_id x)) (outbox_records s)"
  let ?ys = "sort_key age ?xs"
  have "x \<in> set ?ys" using assms(2-4) by simp
  then obtain y ys where ys: "?ys = y # ys" by (cases ?ys) auto
  have "distinct (map x_id ?xs)" using assms(1) by (rule distinct_map_filter)
  then have d: "distinct (map x_id ?ys)" by (simp add: distinct_map)
  have y: "y \<in> set (outbox_records s)" "claimable e admin_context w y" using ys set_sort [of age ?xs] by auto
  have "age y \<le> age x"
  proof (cases "x = y")
    case False
    then have "x \<in> set ys" using \<open>x \<in> set ?ys\<close> ys by simp
    moreover have "sorted (map age (y # ys))" using ys sorted_sort_key [of age ?xs] by metis
    ultimately show ?thesis by auto
  qed simp
  then have "x = y" using assms(5) [OF y] distinct_key_eq [OF assms(1) assms(2) y(1)] by (metis antisym snd_conv)
  obtain n where n: "nat (batchSize w) = Suc n" using assms(6) by (cases "nat (batchSize w)") auto
  have "claimedRows e admin_context busy w s = x # take n ys" by (simp only: claimedRows_def ys n take_Suc_Cons \<open>x = y\<close>)
  moreover have "x_id x \<notin> x_id ` set (take n ys)" using d unfolding ys \<open>x = y\<close> by (auto dest: in_set_takeD)
  ultimately show ?thesis by blast
qed

text \<open>
  A batch changes no place and finishes no record twice; a record gains at most one attempt.
\<close>

lemma batch_frame:
  assumes run: "ProcessBatch p w e busy ws s = (n, err, s', t)" and d: "distinct (map x_id (outbox_records s))"
  shows "deferredConstraints s' = deferredConstraints s \<and>
    (\<exists>f. outbox_records s' = map f (outbox_records s) \<and>
       (\<forall>x \<in> set (outbox_records s). place (f x) = place x \<and> x_attempts (f x) \<le> x_attempts x + 1 \<and> (finished x \<longrightarrow> f x = x)))"
proof -
  have same: ?thesis if "s' = s" using that by (intro conjI exI [of _ id]) simp_all
  obtain res s1 where cl: "claim e busy w s = (res, s1)" by (cases "claim e busy w s")
  then show ?thesis
  proof (cases rule: claim_cases)
    case (none err)
    with run cl same show ?thesis by (simp add: ProcessBatch_def)
  next
    case (some rows)
    let ?I = "x_id ` set rows" and ?g = "\<lambda>x. if x_id x \<in> x_id ` set rows then claimRow e w x else x"
    have waiting: "x_id x \<notin> ?I" if x: "x \<in> set (outbox_records s)" "finished x" for x
    proof
      assume "x_id x \<in> ?I"
      then obtain z where z: "z \<in> set rows" "x_id x = x_id z" by auto
      then have "x = z" using some(1) by (intro distinct_key_eq [OF d x(1)]) auto
      with z x(2) some(2) show False by (auto dest: claimable_unfinished)
    qed
    have "queueFrame ?I s1 s'"
    proof (cases res)
      case (Inl err)
      with run cl show ?thesis by (simp add: ProcessBatch_def queueFrame_same)
    next
      case (Inr rs)
      then have "rc_ID ` set rs = ?I" using some(4) by (simp add: toRecord_def image_image)
      moreover obtain x s2 t2 where g: "runGroup p w ws 0 None rs s1 = (x, s2, t2)" using prod_cases3 by blast
      ultimately show ?thesis using run cl Inr runGroup_frame [OF g] by (simp add: ProcessBatch_def)
    qed
    then obtain f where f: "deferredConstraints s' = deferredConstraints s1" "outbox_records s' = map f (outbox_records s1)"
      "\<forall>x. place (f x) = place x \<and> x_attempts (f x) = x_attempts x \<and> (x_id x \<notin> ?I \<longrightarrow> f x = x)"
      unfolding queueFrame_def by blast
    show ?thesis
    proof (intro conjI exI [of _ "f \<circ> ?g"] ballI)
      show "deferredConstraints s' = deferredConstraints s" "outbox_records s' = map (f \<circ> ?g) (outbox_records s)"
        using f(1,2) by (simp_all add: some(3))
      show "place ((f \<circ> ?g) x) = place x" for x using f(3) by simp
      show "x_attempts ((f \<circ> ?g) x) \<le> x_attempts x + 1" for x using f(3) by simp
      show "finished x \<longrightarrow> (f \<circ> ?g) x = x" if "x \<in> set (outbox_records s)" for x using f(3) waiting [OF that] by simp
    qed
  qed
qed

text \<open>The oldest waiting record gets its turn.\<close>

lemma oldest_attempted:
  assumes run: "ProcessBatch p w e busy ws s = (n, err, s', t)" and q: "quietWorld e" "quietWorld (fst (ws 0))"
    and ok: "deferredConstraints s" "distinct (map x_id (outbox_records s))" "\<forall>y \<in> set (outbox_records s). x_attempts y < maxInt32"
    and x: "x \<in> set (outbox_records s)" "claimable e admin_context w x" "\<not> busy (x_id x)" "0 < batchSize w"
    and oldest: "\<And>y. y \<in> set (outbox_records s) \<Longrightarrow> claimable e admin_context w y \<Longrightarrow> age x \<le> age y"
  shows "\<exists>y \<in> set (outbox_records s'). place y = place x \<and> x_attempts y = x_attempts x + 1 \<and>
    attempted w (now (fst (ws 0))) (x_attempts x + 1) y"
proof -
  obtain rest where rows: "claimedRows e admin_context busy w s = x # rest" and new: "x_id x \<notin> x_id ` set rest"
    using oldest_claimed [OF ok(2) x(1,2), of busy] oldest x(3,4) by blast
  let ?r = "toRecord (claimRow e w x)" and ?rs = "map (toRecord \<circ> claimRow e w) rest"
  obtain s1 where cl: "claim e busy w s = (Inr (?r # ?rs), s1)" and s1: "claimRow e w x \<in> set (outbox_records s1)" "deferredConstraints s1"
    using claim_quiet [OF q(1) ok(1,3), of busy w] x(1) ok(1) by (auto simp: rows)
  obtain e1 es1 where ws: "ws 0 = (e1, es1)" by (cases "ws 0")
  obtain r2 s2 t2 where 2: "processRecord p w e1 es1 ?r s1 = (r2, s2, t2)" using prod_cases3 by blast
  obtain r3 s3 t3 where 3: "runGroup p w ws (Suc 0) r2 ?rs s2 = (r3, s3, t3)" using prod_cases3 by blast
  have s': "s' = s3" using run cl ws 2 3 by (simp add: ProcessBatch_def Let_def)
  obtain f where f: "outbox_records s2 = map (\<lambda>x. if x_id x = rc_ID ?r then f x else x) (outbox_records s1)"
    "\<forall>x. place (f x) = place x \<and> x_attempts (f x) = x_attempts x \<and> attempted w (now e1) (rc_Attempts ?r) (f x)"
    using processRecord_attempt [OF 2 _ s1(2)] q(2) ws by auto
  have id: "rc_ID ?r = x_id x" "rc_Attempts ?r = x_attempts x + 1" by (simp_all add: toRecord_def)
  let ?y = "f (claimRow e w x)"
  have y: "place ?y = place x" "x_attempts ?y = x_attempts x + 1" "attempted w (now e1) (x_attempts x + 1) ?y"
    using f(2) id(2) by simp_all
  have "?y \<in> set (outbox_records s2)" using f(1) s1(1) id(1) by force
  moreover have "x_id ?y \<notin> rc_ID ` set ?rs" using y(1) new by (simp add: toRecord_def image_image)
  ultimately have "?y \<in> set (outbox_records s')" unfolding s' by (rule queueFrame_row [OF runGroup_frame [OF 3]])
  then show ?thesis using y ws by auto
qed


section \<open>Retries come to an end\<close>

text \<open>
  The loop of \<^verbatim>\<open>Run\<close>, one run of \<^verbatim>\<open>ProcessBatch\<close> after the other: of each the world of its claim, the rows that other
  transactions lock meanwhile, and the worlds of its records.
\<close>

type_synonym batch_run = "env \<times> (uuid \<Rightarrow> bool) \<times> (nat \<Rightarrow> env \<times> (nat \<Rightarrow> env))"

primrec runBatches :: "platform \<Rightarrow> Worker \<Rightarrow> batch_run list \<Rightarrow> db \<Rightarrow> db" where
  "runBatches p w [] s = s"
| "runBatches p w (run # runs) s =
     (case run of (e, busy, ws) \<Rightarrow> runBatches p w runs (fst (snd (snd (ProcessBatch p w e busy ws s)))))"

text \<open>
  Runs in which the record \<open>i\<close>, due at \<open>t\<close>, gets its chance: it is due at the claim, nobody else holds it, and the claim
  and the transaction that settles the first record of the batch go through; the next run is at least the longest
  backoff later. Nothing is asked of the transactions of the consumers, of their answers or of the other records.
\<close>

primrec timely :: "Worker \<Rightarrow> uuid \<Rightarrow> timestamp \<Rightarrow> batch_run list \<Rightarrow> bool" where
  "timely w i t [] = True"
| "timely w i t (run # runs) =
     (case run of (e, busy, ws) \<Rightarrow>
        quietWorld e \<and> t \<le> now e \<and> \<not> busy i \<and> quietWorld (fst (ws 0)) \<and>
        timely w i (now (fst (ws 0)) + milliseconds (backoffMax w) * 1000) runs)"

lemma finished_stays:
  "distinct (map x_id (outbox_records s)) \<Longrightarrow> x \<in> set (outbox_records s) \<Longrightarrow> finished x \<Longrightarrow>
     x \<in> set (outbox_records (runBatches p w runs s))"
proof (induction runs arbitrary: s)
  case (Cons run runs)
  obtain e busy ws where run: "run = (e, busy, ws)" by (cases run)
  obtain n err s1 t where b: "ProcessBatch p w e busy ws s = (n, err, s1, t)" using prod_cases4 by blast
  obtain f where f: "outbox_records s1 = map f (outbox_records s)"
    "\<forall>x \<in> set (outbox_records s). place (f x) = place x \<and> x_attempts (f x) \<le> x_attempts x + 1 \<and> (finished x \<longrightarrow> f x = x)"
    using batch_frame [OF b Cons.prems(1)] by blast
  have "map x_id (outbox_records s1) = map x_id (outbox_records s)" using f by simp
  moreover have "x \<in> set (outbox_records s1)" using f Cons.prems(2,3) by force
  ultimately show ?case using Cons.IH [of s1] Cons.prems by (simp add: run b)
qed simp

lemma oldest_progress:
  assumes "deferredConstraints s" and "distinct (map x_id (outbox_records s))" and "0 < batchSize w"
    and "x \<in> set (outbox_records s)" and "routed w x" and "x_status x = StatusPending" and "x_attempts x < maxAttempts w"
    and "x_available_at x \<le> t" and "timely w (x_id x) t runs"
    and "\<forall>y \<in> set (outbox_records s). x_attempts y + int (length runs) \<le> maxInt32 \<and> (routed w y \<and> \<not> finished y \<longrightarrow> age x \<le> age y)"
  shows "\<exists>y \<in> set (outbox_records (runBatches p w runs s)). x_id y = x_id x \<and>
    (finished y \<and> x_attempts x < x_attempts y \<and> x_attempts y \<le> maxAttempts w \<or>
     x_attempts y = x_attempts x + int (length runs) \<and> x_attempts y < maxAttempts w)"
  using assms
proof (induction runs arbitrary: s x t)
  case Nil
  then show ?case by auto
next
  case (Cons run runs)
  obtain e busy ws where run: "run = (e, busy, ws)" by (cases run)
  obtain n err s1 tr where b: "ProcessBatch p w e busy ws s = (n, err, s1, tr)" using prod_cases4 by blast
  have q: "quietWorld e" "t \<le> now e" "\<not> busy (x_id x)" "quietWorld (fst (ws 0))"
    and later: "timely w (x_id x) (now (fst (ws 0)) + milliseconds (backoffMax w) * 1000) runs"
    using Cons.prems(9) by (simp_all add: run)
  have "claimable e admin_context w x" using Cons.prems(5,6,8) q(2) by (auto simp: claimable_def routed_def visible_admin)
  moreover have "age x \<le> age y" if "y \<in> set (outbox_records s)" "claimable e admin_context w y" for y
    using that Cons.prems(10) claimable_unfinished by blast
  moreover have "\<forall>y \<in> set (outbox_records s). x_attempts y < maxInt32" using Cons.prems(10) by force
  ultimately obtain y where y: "y \<in> set (outbox_records s1)" "place y = place x" "x_attempts y = x_attempts x + 1"
    and turn: "attempted w (now (fst (ws 0))) (x_attempts x + 1) y"
    using oldest_attempted [OF b q(1,4) Cons.prems(1,2) _ Cons.prems(4) _ q(3) Cons.prems(3)] by blast
  obtain f where f: "outbox_records s1 = map f (outbox_records s)" and d1: "deferredConstraints s1"
    and step: "\<forall>x \<in> set (outbox_records s). place (f x) = place x \<and> x_attempts (f x) \<le> x_attempts x + 1 \<and> (finished x \<longrightarrow> f x = x)"
    using batch_frame [OF b Cons.prems(2)] Cons.prems(1) by auto
  have "map x_id (outbox_records s1) = map x_id (outbox_records s)" using f step by simp
  then have d: "distinct (map x_id (outbox_records s1))" using Cons.prems(2) by simp
  have rest: "runBatches p w (run # runs) s = runBatches p w runs s1" by (simp add: run b)
  show ?case
  proof (cases "finished y")
    case True
    then have "y \<in> set (outbox_records (runBatches p w runs s1))" by (rule finished_stays [OF d y(1)])
    with True y Cons.prems(7) show ?thesis unfolding rest by (intro bexI [of _ y]) auto
  next
    case False
    then have wait: "x_status y = StatusPending" "x_attempts y < maxAttempts w"
      "x_available_at y \<le> now (fst (ws 0)) + milliseconds (backoffMax w) * 1000"
      using turn y(3) by (auto simp: attempted_def)
    have "x_attempts z' + int (length runs) \<le> maxInt32 \<and> (routed w z' \<and> \<not> finished z' \<longrightarrow> age y \<le> age z')"
      if "z' \<in> set (outbox_records s1)" for z'
    proof -
      from that f obtain z where z: "z \<in> set (outbox_records s)" "z' = f z" by auto
      have "place z' = place z" "x_attempts z' \<le> x_attempts z + 1" "finished z \<Longrightarrow> z' = z" using step z by auto
      moreover from this(1) have "routed w z' = routed w z" by (rule routed_place)
      ultimately show ?thesis using Cons.prems(10) z(1) y(2) by auto
    qed
    then obtain u where u: "u \<in> set (outbox_records (runBatches p w runs s1))" "x_id u = x_id y"
      "finished u \<and> x_attempts y < x_attempts u \<and> x_attempts u \<le> maxAttempts w \<or>
       x_attempts u = x_attempts y + int (length runs) \<and> x_attempts u < maxAttempts w"
      using Cons.IH [OF d1 d Cons.prems(3) y(1) _ wait] later y(2) routed_place [OF y(2)] Cons.prems(5) by auto
    then show ?thesis unfolding rest using y by (intro bexI [of _ u]) auto
  qed
qed

text \<open>
  C12. Retries come to an end: the oldest record that waits for a worker is processed or failed after at most as many runs
  of \<^verbatim>\<open>ProcessBatch\<close> as it has attempts left, and is never claimed more often than allowed, whatever its consumers
  answer, whatever happens to their transactions and whatever becomes of the other records, as long as the claims and
  the transactions that settle the record go through and each run finds it due.
\<close>
theorem retries_terminate:
  assumes "deferredConstraints s \<and> distinct (map x_id (outbox_records s)) \<and> 0 < batchSize w"
    and "x \<in> set (outbox_records s) \<and> routed w x \<and> x_status x = StatusPending \<and> x_attempts x < maxAttempts w"
    and "\<forall>y \<in> set (outbox_records s). x_attempts y + int (length runs) \<le> maxInt32 \<and> (routed w y \<and> \<not> finished y \<longrightarrow> age x \<le> age y)"
    and "timely w (x_id x) (x_available_at x) runs" and "maxAttempts w - x_attempts x \<le> int (length runs)"
  shows "\<exists>y \<in> set (outbox_records (runBatches p w runs s)). x_id y = x_id x \<and>
    x_status y \<in> {StatusProcessed, StatusFailed} \<and> x_attempts x < x_attempts y \<and> x_attempts y \<le> maxAttempts w"
  using oldest_progress [of s w x "x_available_at x" runs p] assms by (auto simp: finished_def)

text \<open>A worker that gives up after two attempts, and two runs a minute apart.\<close>

definition sampleStubborn :: Worker where
  "sampleStubborn = sampleFailing\<lparr>maxAttempts := 2\<rparr>"

definition sampleRun :: "timestamp \<Rightarrow> batch_run" where
  "sampleRun t = (sampleEnv\<lparr>now := t\<rparr>, \<lambda>i. False, \<lambda>k. (sampleEnv\<lparr>now := t\<rparr>, \<lambda>n. sampleEnv\<lparr>now := t\<rparr>))"

definition sampleRuns :: "batch_run list" where
  "sampleRuns = [sampleRun 5000000, sampleRun 65000000]"

text \<open>Witness of C12: the audit record of the sample, whose consumer always fails, is given up after two runs.\<close>
theorem retries_terminate_witness:
  "\<exists>y \<in> set (outbox_records (runBatches samplePlatform sampleStubborn sampleRuns sampleQueue)).
     x_id y = 104 \<and> x_status y \<in> {StatusProcessed, StatusFailed} \<and> x_attempts y \<le> 2"
proof -
  have rows: "list_ex (\<lambda>x. x_id x = 104 \<and> routed sampleStubborn x \<and> x_status x = StatusPending \<and> x_attempts x = 0 \<and>
       x_available_at x \<le> 5000000) (outbox_records sampleQueue)"
    "list_all (\<lambda>y. x_attempts y = 0 \<and> (routed sampleStubborn y \<longrightarrow> x_id y = 104)) (outbox_records sampleQueue)" by code_simp+
  then obtain x where x: "x \<in> set (outbox_records sampleQueue)" "x_id x = 104" "routed sampleStubborn x" "x_status x = StatusPending"
    "x_attempts x = 0" "x_available_at x \<le> 5000000" by (auto simp: list_ex_iff)
  have ok: "deferredConstraints sampleQueue" "distinct (map x_id (outbox_records sampleQueue))"
    using sample_start wf_deferred by (simp_all add: outboxStart_def)
  have w: "maxAttempts sampleStubborn = 2" "0 < batchSize sampleStubborn" "milliseconds (backoffMax sampleStubborn) * 1000 \<le> 60000000"
    by code_simp+
  have "quietWorld (sampleEnv\<lparr>now := t\<rparr>)" for t by (simp add: quietWorld_def no_faults_def sampleEnv_def)
  then have "timely sampleStubborn (x_id x) (x_available_at x) sampleRuns"
    using x(6) w(3) by (simp add: sampleRuns_def sampleRun_def)
  moreover have "\<forall>y \<in> set (outbox_records sampleQueue). x_attempts y + 2 \<le> maxInt32 \<and>
      (routed sampleStubborn y \<and> \<not> finished y \<longrightarrow> age x \<le> age y)"
  proof
    fix y
    assume y: "y \<in> set (outbox_records sampleQueue)"
    then have "x_attempts y = 0" "routed sampleStubborn y \<Longrightarrow> x_id y = 104" using rows(2) by (auto simp: list_all_iff)
    moreover from this(2) have "routed sampleStubborn y \<Longrightarrow> y = x" using distinct_key_eq [OF ok(2) y x(1)] x(2) by simp
    ultimately show "x_attempts y + 2 \<le> maxInt32 \<and> (routed sampleStubborn y \<and> \<not> finished y \<longrightarrow> age x \<le> age y)"
      by (auto simp: maxInt32_def)
  qed
  moreover have "length sampleRuns = 2" by (simp add: sampleRuns_def)
  ultimately have "\<exists>y \<in> set (outbox_records (runBatches samplePlatform sampleStubborn sampleRuns sampleQueue)). x_id y = x_id x \<and>
      x_status y \<in> {StatusProcessed, StatusFailed} \<and> x_attempts x < x_attempts y \<and> x_attempts y \<le> maxAttempts sampleStubborn"
    using ok w x by (intro retries_terminate) simp_all
  then show ?thesis unfolding w(1) x(2) by blast
qed

end
