(* ===== verification/Identity.thy ===== *)
theory Identity
  imports Guest
begin

text \<open>
  Devices and their credentials: the device operations of \<^verbatim>\<open>internal/domain/identity/service.go\<close>, \<^verbatim>\<open>tokens.go\<close>,
  and the statements of \<^verbatim>\<open>internal/store/db/security.sql.go\<close> they run, with the constraints and row-security
  policies of the migrations. SHA-256 is the argument \<open>sha\<close>, the random source the argument \<open>rnd\<close>. The
  identifiers drawn are \<open>gen e 0\<close> for the device or pairing code and \<open>gen e 1\<close> for the credential.
\<close>

section \<open>Constants and rows\<close>

definition PermissionOperationsRead :: string where "PermissionOperationsRead = ''operations.read''"
definition PermissionDeviceManage :: string where "PermissionDeviceManage = ''device.manage''"

definition DeviceTypeWaiterMobile :: string where "DeviceTypeWaiterMobile = ''waiter_mobile''"
definition DeviceTypeManagerTablet :: string where "DeviceTypeManagerTablet = ''manager_tablet''"
definition DeviceTypeDisplay :: string where "DeviceTypeDisplay = ''display''"
definition DeviceTypeHostDevice :: string where "DeviceTypeHostDevice = ''host_device''"

definition DeviceTrustPending :: string where "DeviceTrustPending = ''pending''"
definition DeviceTrustTrusted :: string where "DeviceTrustTrusted = ''trusted''"
definition DeviceTrustRevoked :: string where "DeviceTrustRevoked = ''revoked''"

lemma trust_distinct [simp]:
  "DeviceTrustPending \<noteq> DeviceTrustTrusted" "DeviceTrustTrusted \<noteq> DeviceTrustPending"
  "DeviceTrustPending \<noteq> DeviceTrustRevoked" "DeviceTrustRevoked \<noteq> DeviceTrustPending"
  "DeviceTrustTrusted \<noteq> DeviceTrustRevoked" "DeviceTrustRevoked \<noteq> DeviceTrustTrusted"
  by (simp_all add: DeviceTrustPending_def DeviceTrustTrusted_def DeviceTrustRevoked_def)

record Organisation =
  g_id :: uuid
  g_slug :: string
  g_name :: string
  g_status :: string
  g_legacy_restaurant_id :: "string option"
  g_created_at :: timestamp
  g_updated_at :: timestamp
  g_onboarded_at :: "timestamp option"

record UserProfile =
  u_id :: uuid
  u_display_name :: string
  u_email :: "string option"
  u_status :: string
  u_created_at :: timestamp
  u_updated_at :: timestamp

record OrganisationMembership =
  om_id :: uuid
  om_org :: uuid
  om_member_ref :: string
  om_role :: string
  om_created_at :: timestamp
  om_updated_at :: timestamp
  om_user_profile :: "uuid option"
  om_disabled_at :: "timestamp option"

record LocationMembership =
  lm_id :: uuid
  lm_org :: uuid
  lm_loc :: uuid
  lm_member_ref :: string
  lm_role :: string
  lm_created_at :: timestamp
  lm_updated_at :: timestamp
  lm_user_profile :: "uuid option"
  lm_disabled_at :: "timestamp option"

record DeviceCredential =
  dc_id :: uuid
  dc_org :: uuid
  dc_device :: uuid
  dc_lookup_prefix :: string
  dc_credential_hash :: bytes
  dc_issued_at :: timestamp
  dc_last_used_at :: "timestamp option"
  dc_expires_at :: "timestamp option"
  dc_revoked_at :: "timestamp option"
  dc_created_at :: timestamp
  dc_updated_at :: timestamp

record DevicePairingCode =
  pc_id :: uuid
  pc_org :: uuid
  pc_loc :: uuid
  pc_created_by :: string
  pc_device_type :: string
  pc_lookup_prefix :: string
  pc_hash :: bytes
  pc_expires_at :: timestamp
  pc_consumed_at :: "timestamp option"
  pc_consumed_by_device :: "uuid option"
  pc_created_at :: timestamp
  pc_updated_at :: timestamp

text \<open>The tables of the identity service around those it shares; \<open>role_permissions\<close> are pairs of names.\<close>

record idb =
  core :: db
  organisations :: "Organisation list"
  user_profiles :: "UserProfile list"
  organisation_memberships :: "OrganisationMembership list"
  location_memberships :: "LocationMembership list"
  role_permissions :: "(string \<times> string) list"
  device_credentials :: "DeviceCredential list"
  device_pairing_codes :: "DevicePairingCode list"

datatype id_error =
    ErrIdentityNotFound
  | ErrUnauthorized
  | ErrForbidden
  | ErrAlreadyExists
  | ErrAlreadyRevoked
  | ErrValidation
  | ErrInvalidSecret

type_synonym 'a id_body = "(id_error fail, idb, 'a) body"
type_synonym 'a id_result = "(id_error fail + 'a) \<times> idb"


section \<open>Secrets\<close>

definition LookupPrefixLength :: nat where "LookupPrefixLength = 16"
definition PairingCodeLookupLength :: nat where "PairingCodeLookupLength = 4"
definition PairingCodeRandomBytes :: nat where "PairingCodeRandomBytes = 5"
definition SecretBytes :: nat where "SecretBytes = 32"

definition randError :: db_error where
  "randError = OtherError ''rand''"

definition GenerateOpaqueSecret :: "(nat \<Rightarrow> bytes option) \<Rightarrow> db_error + string" where
  "GenerateOpaqueSecret rnd =
     (case rnd SecretBytes of None \<Rightarrow> Inl randError | Some buf \<Rightarrow> Inr (base64RawURL buf))"

text \<open>
  \<^verbatim>\<open>strings.ToUpper\<close> maps the letters of an ASCII string; what it does to another string is the argument
  \<open>upper\<close>.
\<close>

definition toUpper :: "(string \<Rightarrow> string) \<Rightarrow> string \<Rightarrow> string" where
  "toUpper upper s =
     (if list_all (\<lambda>ch. ch < CHR 0x80) s
      then map (\<lambda>ch. if CHR ''a'' \<le> ch \<and> ch \<le> CHR ''z'' then char_of (of_char ch - 32 :: nat) else ch) s
      else upper s)"

definition base64RawStd :: "bytes \<Rightarrow> string" where
  "base64RawStd bs =
     map (\<lambda>ch. if ch = CHR ''-'' then CHR ''+'' else if ch = CHR ''_'' then CHR ''/'' else ch) (base64RawURL bs)"

definition GeneratePairingCode :: "(string \<Rightarrow> string) \<Rightarrow> (nat \<Rightarrow> bytes option) \<Rightarrow> db_error + string" where
  "GeneratePairingCode upper rnd =
     (case rnd PairingCodeRandomBytes of None \<Rightarrow> Inl randError | Some buf \<Rightarrow> Inr (toUpper upper (base64RawStd buf)))"

definition LookupPrefix :: "string \<Rightarrow> id_error fail + string" where
  "LookupPrefix secret =
     (let secret = trimSpace secret
      in if length secret < LookupPrefixLength then Inl (Err ErrInvalidSecret)
         else Inr (take LookupPrefixLength secret))"

definition NormalizePairingCode :: "(string \<Rightarrow> string) \<Rightarrow> string \<Rightarrow> string" where
  "NormalizePairingCode upper code = toUpper upper (filter (\<lambda>ch. ch \<noteq> CHR ''-'') (trimSpace code))"

definition PairingCodeLookupPrefix :: "(string \<Rightarrow> string) \<Rightarrow> string \<Rightarrow> id_error fail + string" where
  "PairingCodeLookupPrefix upper code =
     (let code = NormalizePairingCode upper code
      in if length code < PairingCodeLookupLength then Inl (Err ErrInvalidSecret)
         else Inr (take PairingCodeLookupLength code))"

definition HashSecret :: "(string \<Rightarrow> bytes) \<Rightarrow> string \<Rightarrow> id_error fail + bytes" where
  "HashSecret sha secret =
     (let secret = trimSpace secret
      in if secret = '''' then Inl (Err ErrInvalidSecret) else Inr (sha secret))"

definition SecretMatches :: "(string \<Rightarrow> bytes) \<Rightarrow> string \<Rightarrow> bytes \<Rightarrow> id_error fail + bool" where
  "SecretMatches sha secret expectedHash =
     (case HashSecret sha secret of Inl err \<Rightarrow> Inl err | Inr actualHash \<Rightarrow> Inr (actualHash = expectedHash))"

text \<open>Lifting a fallible pure function into a transaction body.\<close>

definition txLift :: "'e + 'a \<Rightarrow> ('e, 's, 'a) body" where
  "txLift r = (\<lambda>s. case r of Inl err \<Rightarrow> Inl err | Inr v \<Rightarrow> Inr (v, s))"

lemma txLift_Inr [tx_iffs]: "txLift r s = Inr (v, s') \<longleftrightarrow> r = Inr v \<and> s' = s"
  by (auto simp: txLift_def split: sum.splits)

section \<open>Statements\<close>

text \<open>A \<^verbatim>\<open>json.RawMessage\<close>: absent, not JSON, or a document.\<close>

datatype rawJSON = NoBytes | Malformed | Raw json

fun jsonbOf :: "rawJSON \<Rightarrow> json option" where
  "jsonbOf (Raw j) = Some j"
| "jsonbOf v = None"

definition defaultJSONObject :: "rawJSON \<Rightarrow> rawJSON" where
  "defaultJSONObject v = (if v = NoBytes then Raw (JObj []) else v)"

text \<open>\<^verbatim>\<open>json.Unmarshal\<close> into a map accepts an object, and null.\<close>

fun jsonObject :: "rawJSON \<Rightarrow> bool" where
  "jsonObject (Raw (JObj fs)) = True"
| "jsonObject (Raw JNull) = True"
| "jsonObject v = False"

definition validDeviceType :: "string \<Rightarrow> bool" where
  "validDeviceType v \<longleftrightarrow>
     v \<in> {DeviceTypeWaiterMobile, DeviceTypeManagerTablet, DeviceTypeDisplay, DeviceTypeHostDevice}"

definition setDevices :: "Device list \<Rightarrow> idb \<Rightarrow> idb" where
  "setDevices ds s = s\<lparr>core := (core s)\<lparr>devices := ds\<rparr>\<rparr>"

definition deviceCheck :: "Device \<Rightarrow> string option" where
  "deviceCheck d = firstViolation
     [(validDeviceType (d_device_type d), ''23514''),
      (d_platform d \<noteq> '''', ''23514''),
      (d_app_version d \<noteq> '''', ''23514''),
      (d_trust_state d \<in> {DeviceTrustPending, DeviceTrustTrusted, DeviceTrustRevoked}, ''23514''),
      ((d_trust_state d = DeviceTrustRevoked) = (d_revoked_at d \<noteq> None), ''23514''),
      (d_name d \<noteq> Some '''', ''23514''),
      (jsonb_typeof (d_capabilities d) = ''object'', ''23514''),
      (jsonb_typeof (d_configuration d) = ''object'', ''23514''),
      (0 < d_heartbeat_interval d, ''23514'')]"

definition RegisterDeviceRow ::
  "env \<Rightarrow> ctx \<Rightarrow> uuid \<Rightarrow> uuid \<Rightarrow> uuid option \<Rightarrow> uuid option \<Rightarrow> string \<Rightarrow> string \<Rightarrow> string \<Rightarrow> string option \<Rightarrow>
     rawJSON \<Rightarrow> rawJSON \<Rightarrow> int \<Rightarrow> idb \<Rightarrow> db_error + Device \<times> idb" where
  "RegisterDeviceRow e c newID org loc user deviceType platform appVersion name capabilities configuration heartbeat s =
     (case (jsonbOf capabilities, jsonbOf configuration) of
        (Some cap, Some conf) \<Rightarrow>
          (let d = \<lparr>d_id = newID, d_org = org, d_loc = loc, d_user_profile = user, d_device_type = deviceType,
                    d_platform = platform, d_app_version = appVersion, d_trust_state = DeviceTrustPending,
                    d_registered_at = now e, d_last_seen_at = None, d_revoked_at = None, d_created_at = now e,
                    d_updated_at = now e, d_name = name, d_capabilities = cap, d_configuration = conf,
                    d_assigned_at = (if loc = None then None else Some (now e)), d_last_heartbeat_at = None,
                    d_heartbeat_interval = heartbeat\<rparr>
           in map_sum id (\<lambda>(d', ds). (d', setDevices ds s))
                (insertRow (\<lambda>x y. d_id x = d_id y)
                   (case deviceCheck d of
                      Some state \<Rightarrow> Some state
                    | None \<Rightarrow> firstViolation
                        [(visible_org e c org, ''42501''),
                         (org \<in> g_id ` set (organisations s), ''23503''),
                         (case loc of None \<Rightarrow> True | Some l \<Rightarrow> locationExists (core s) org l, ''23503''),
                         (case user of None \<Rightarrow> True | Some u \<Rightarrow> u \<in> u_id ` set (user_profiles s), ''23503'')])
                   d (devices (core s))))
      | _ \<Rightarrow> Inl (PgError ''22P02''))"

text \<open>The UPDATEs of one device that return it; \<open>P\<close> is what the WHERE clause asks besides the key.\<close>

definition updateDevice ::
  "env \<Rightarrow> ctx \<Rightarrow> uuid \<Rightarrow> uuid \<Rightarrow> (Device \<Rightarrow> bool) \<Rightarrow> (Device \<Rightarrow> Device) \<Rightarrow> idb \<Rightarrow> db_error + Device \<times> idb" where
  "updateDevice e c i org P f s =
     map_sum id (\<lambda>(d, ds). (d, setDevices ds s))
       (updateOne (\<lambda>d. visible_org e c (d_org d) \<and> d_id d = i \<and> d_org d = org \<and> P d) deviceCheck f (devices (core s)))"

definition TrustDeviceRow :: "env \<Rightarrow> ctx \<Rightarrow> uuid \<Rightarrow> uuid \<Rightarrow> idb \<Rightarrow> db_error + Device \<times> idb" where
  "TrustDeviceRow e c i org =
     updateDevice e c i org (\<lambda>d. d_revoked_at d = None)
       (\<lambda>d. d\<lparr>d_trust_state := DeviceTrustTrusted, d_updated_at := now e\<rparr>)"

definition RevokeDeviceRow :: "env \<Rightarrow> ctx \<Rightarrow> uuid \<Rightarrow> uuid \<Rightarrow> idb \<Rightarrow> db_error + Device \<times> idb" where
  "RevokeDeviceRow e c i org =
     updateDevice e c i org (\<lambda>d. d_revoked_at d = None)
       (\<lambda>d. d\<lparr>d_trust_state := DeviceTrustRevoked, d_revoked_at := Some (now e), d_updated_at := now e\<rparr>)"

definition trustedDevice :: "Device \<Rightarrow> bool" where
  "trustedDevice d \<longleftrightarrow> d_trust_state d = DeviceTrustTrusted \<and> d_revoked_at d = None"

definition MarkDeviceSeen :: "env \<Rightarrow> ctx \<Rightarrow> uuid \<Rightarrow> uuid \<Rightarrow> idb \<Rightarrow> db_error + Device \<times> idb" where
  "MarkDeviceSeen e c i org =
     updateDevice e c i org trustedDevice (\<lambda>d. d\<lparr>d_last_seen_at := Some (now e), d_updated_at := now e\<rparr>)"

definition RecordDeviceHeartbeat ::
  "env \<Rightarrow> ctx \<Rightarrow> uuid \<Rightarrow> uuid \<Rightarrow> string \<Rightarrow> rawJSON \<Rightarrow> idb \<Rightarrow> db_error + Device \<times> idb" where
  "RecordDeviceHeartbeat e c i org appVersion capabilities s =
     (case jsonbOf capabilities of
        None \<Rightarrow> Inl (PgError ''22P02'')
      | Some cap \<Rightarrow>
          updateDevice e c i org trustedDevice
            (\<lambda>d. d\<lparr>d_last_seen_at := Some (now e), d_last_heartbeat_at := Some (now e), d_app_version := appVersion,
                   d_capabilities := cap, d_updated_at := now e\<rparr>) s)"

definition GetDevice :: "env \<Rightarrow> ctx \<Rightarrow> uuid \<Rightarrow> uuid \<Rightarrow> idb \<Rightarrow> db_error + Device" where
  "GetDevice e c i org s =
     selectOne (\<lambda>d. visible_org e c (d_org d) \<and> d_id d = i \<and> d_org d = org) (devices (core s))"

definition ListDevicesByOrganisation :: "env \<Rightarrow> ctx \<Rightarrow> uuid \<Rightarrow> idb \<Rightarrow> Device list" where
  "ListDevicesByOrganisation e c org s =
     sort_key (\<lambda>d. - d_registered_at d) (filter (\<lambda>d. visible_org e c (d_org d) \<and> d_org d = org) (devices (core s)))"

definition ListDevicesByLocation :: "env \<Rightarrow> ctx \<Rightarrow> uuid \<Rightarrow> uuid \<Rightarrow> idb \<Rightarrow> Device list" where
  "ListDevicesByLocation e c org loc s =
     sort_key (\<lambda>d. - d_registered_at d)
       (filter (\<lambda>d. visible_org e c (d_org d) \<and> d_org d = org \<and> d_loc d = Some loc) (devices (core s)))"

definition CreateDeviceCredential ::
  "env \<Rightarrow> ctx \<Rightarrow> uuid \<Rightarrow> uuid \<Rightarrow> uuid \<Rightarrow> string \<Rightarrow> bytes \<Rightarrow> timestamp option \<Rightarrow> idb \<Rightarrow> db_error + DeviceCredential \<times> idb" where
  "CreateDeviceCredential e c newID org deviceID prefix hash expiresAt s =
     (let k = \<lparr>dc_id = newID, dc_org = org, dc_device = deviceID, dc_lookup_prefix = prefix, dc_credential_hash = hash,
               dc_issued_at = now e, dc_last_used_at = None, dc_expires_at = expiresAt, dc_revoked_at = None,
               dc_created_at = now e, dc_updated_at = now e\<rparr>
      in map_sum id (\<lambda>(k', ks). (k', s\<lparr>device_credentials := ks\<rparr>))
           (insertRow (\<lambda>x y. dc_id x = dc_id y \<or> dc_lookup_prefix x = dc_lookup_prefix y)
              (firstViolation
                 [(prefix \<noteq> '''', ''23514''),
                  (32 \<le> length hash, ''23514''),
                  (case expiresAt of None \<Rightarrow> True | Some t \<Rightarrow> now e < t, ''23514''),
                  (visible_org e c org, ''42501''),
                  (org \<in> g_id ` set (organisations s), ''23503''),
                  (deviceID \<in> d_id ` set (devices (core s)), ''23503'')])
              k (device_credentials s)))"

definition activeCredential :: "env \<Rightarrow> ctx \<Rightarrow> DeviceCredential \<Rightarrow> bool" where
  "activeCredential e c k \<longleftrightarrow>
     visible_org e c (dc_org k) \<and> dc_revoked_at k = None \<and>
     (case dc_expires_at k of None \<Rightarrow> True | Some t \<Rightarrow> now e < t)"

definition GetDeviceCredentialByPrefix :: "env \<Rightarrow> ctx \<Rightarrow> string \<Rightarrow> idb \<Rightarrow> db_error + DeviceCredential \<times> Device" where
  "GetDeviceCredentialByPrefix e c prefix s =
     selectOne (\<lambda>(k, d). dc_lookup_prefix k = prefix \<and> activeCredential e c k \<and>
                  visible_org e c (d_org d) \<and> d_id d = dc_device k \<and> trustedDevice d)
       (List.product (device_credentials s) (devices (core s)))"

definition TouchDeviceCredential :: "env \<Rightarrow> ctx \<Rightarrow> uuid \<Rightarrow> idb \<Rightarrow> db_error + unit \<times> idb" where
  "TouchDeviceCredential e c i s =
     Inr ((), s\<lparr>device_credentials :=
       map (\<lambda>k. if visible_org e c (dc_org k) \<and> dc_id k = i \<and> dc_revoked_at k = None
                then k\<lparr>dc_last_used_at := Some (now e), dc_updated_at := now e\<rparr> else k) (device_credentials s)\<rparr>)"

definition RevokeDeviceCredentials :: "env \<Rightarrow> ctx \<Rightarrow> uuid \<Rightarrow> uuid \<Rightarrow> idb \<Rightarrow> db_error + unit \<times> idb" where
  "RevokeDeviceCredentials e c org deviceID s =
     Inr ((), s\<lparr>device_credentials :=
       map (\<lambda>k. if visible_org e c (dc_org k) \<and> dc_org k = org \<and> dc_device k = deviceID \<and> dc_revoked_at k = None
                then k\<lparr>dc_revoked_at := Some (now e), dc_updated_at := now e\<rparr> else k) (device_credentials s)\<rparr>)"

definition CreateDevicePairingCode ::
  "env \<Rightarrow> ctx \<Rightarrow> uuid \<Rightarrow> uuid \<Rightarrow> uuid \<Rightarrow> string \<Rightarrow> string \<Rightarrow> string \<Rightarrow> bytes \<Rightarrow> timestamp \<Rightarrow>
     idb \<Rightarrow> db_error + DevicePairingCode \<times> idb" where
  "CreateDevicePairingCode e c newID org loc createdBy deviceType prefix hash expiresAt s =
     (let p = \<lparr>pc_id = newID, pc_org = org, pc_loc = loc, pc_created_by = createdBy, pc_device_type = deviceType,
               pc_lookup_prefix = prefix, pc_hash = hash, pc_expires_at = expiresAt, pc_consumed_at = None,
               pc_consumed_by_device = None, pc_created_at = now e, pc_updated_at = now e\<rparr>
      in map_sum id (\<lambda>(p', ps). (p', s\<lparr>device_pairing_codes := ps\<rparr>))
           (insertRow (\<lambda>x y. pc_id x = pc_id y \<or> pc_lookup_prefix x = pc_lookup_prefix y)
              (firstViolation
                 [(createdBy \<noteq> '''', ''23514''),
                  (validDeviceType deviceType, ''23514''),
                  (prefix \<noteq> '''', ''23514''),
                  (32 \<le> length hash, ''23514''),
                  (now e < expiresAt, ''23514''),
                  (visible e c org loc, ''42501''),
                  (org \<in> g_id ` set (organisations s), ''23503''),
                  (locationExists (core s) org loc, ''23503'')])
              p (device_pairing_codes s)))"

definition openPairingCode :: "env \<Rightarrow> ctx \<Rightarrow> DevicePairingCode \<Rightarrow> bool" where
  "openPairingCode e c p \<longleftrightarrow> visible e c (pc_org p) (pc_loc p) \<and> pc_consumed_at p = None \<and> now e < pc_expires_at p"

definition GetDevicePairingCodeByPrefix :: "env \<Rightarrow> ctx \<Rightarrow> string \<Rightarrow> idb \<Rightarrow> db_error + DevicePairingCode" where
  "GetDevicePairingCodeByPrefix e c prefix s =
     selectOne (\<lambda>p. pc_lookup_prefix p = prefix \<and> openPairingCode e c p \<and>
                  (\<exists>l \<in> set (locations (core s)). visible e c (l_org l) (l_id l) \<and> l_id l = pc_loc p \<and> l_org l = pc_org p \<and>
                     l_status l = ''active''))
       (device_pairing_codes s)"

definition ConsumeDevicePairingCode :: "env \<Rightarrow> ctx \<Rightarrow> uuid \<Rightarrow> uuid option \<Rightarrow> idb \<Rightarrow> db_error + DevicePairingCode \<times> idb" where
  "ConsumeDevicePairingCode e c i deviceID s =
     map_sum id (\<lambda>(p, ps). (p, s\<lparr>device_pairing_codes := ps\<rparr>))
       (updateOne (\<lambda>p. openPairingCode e c p \<and> pc_id p = i)
          (\<lambda>p. firstViolation [(case deviceID of None \<Rightarrow> True | Some d \<Rightarrow> d \<in> d_id ` set (devices (core s)), ''23503'')])
          (\<lambda>p. p\<lparr>pc_consumed_at := Some (now e), pc_consumed_by_device := deviceID, pc_updated_at := now e\<rparr>)
          (device_pairing_codes s))"

text \<open>Whether an active membership that \<open>P\<close> or \<open>Q\<close> picks has a role with the permission.\<close>

definition memberPermission ::
  "(LocationMembership \<Rightarrow> bool) \<Rightarrow> (OrganisationMembership \<Rightarrow> bool) \<Rightarrow> string \<Rightarrow> idb \<Rightarrow> bool" where
  "memberPermission P Q permission s \<longleftrightarrow>
     (\<exists>m \<in> set (location_memberships s). P m \<and> lm_disabled_at m = None \<and> (lm_role m, permission) \<in> set (role_permissions s)) \<or>
     (\<exists>m \<in> set (organisation_memberships s). Q m \<and> om_disabled_at m = None \<and> (om_role m, permission) \<in> set (role_permissions s))"

definition ActorHasLocationPermission ::
  "env \<Rightarrow> ctx \<Rightarrow> uuid \<Rightarrow> uuid \<Rightarrow> string \<Rightarrow> string \<Rightarrow> idb \<Rightarrow> bool" where
  "ActorHasLocationPermission e c org loc ref permission =
     memberPermission
       (\<lambda>m. visible e c (lm_org m) (lm_loc m) \<and> lm_org m = org \<and> lm_loc m = loc \<and> lm_member_ref m = ref)
       (\<lambda>m. visible_org e c (om_org m) \<and> om_org m = org \<and> om_member_ref m = ref) permission"

definition ActorHasOrganisationPermission :: "env \<Rightarrow> ctx \<Rightarrow> uuid \<Rightarrow> string \<Rightarrow> string \<Rightarrow> idb \<Rightarrow> bool" where
  "ActorHasOrganisationPermission e c org ref permission =
     memberPermission (\<lambda>m. False)
       (\<lambda>m. visible_org e c (om_org m) \<and> om_org m = org \<and> om_member_ref m = ref) permission"

definition UserHasLocationPermission ::
  "env \<Rightarrow> ctx \<Rightarrow> uuid \<Rightarrow> uuid \<Rightarrow> uuid option \<Rightarrow> string \<Rightarrow> idb \<Rightarrow> bool" where
  "UserHasLocationPermission e c org loc user permission =
     memberPermission
       (\<lambda>m. visible e c (lm_org m) (lm_loc m) \<and> lm_org m = org \<and> lm_loc m = loc \<and> user \<noteq> None \<and> lm_user_profile m = user)
       (\<lambda>m. visible_org e c (om_org m) \<and> om_org m = org \<and> user \<noteq> None \<and> om_user_profile m = user) permission"

definition UserHasOrganisationPermission :: "env \<Rightarrow> ctx \<Rightarrow> uuid \<Rightarrow> uuid option \<Rightarrow> string \<Rightarrow> idb \<Rightarrow> bool" where
  "UserHasOrganisationPermission e c org user permission =
     memberPermission (\<lambda>m. False)
       (\<lambda>m. visible_org e c (om_org m) \<and> om_org m = org \<and> user \<noteq> None \<and> om_user_profile m = user) permission"


section \<open>Transactions and permissions\<close>

text \<open>
  No statement here touches the row the deferred constraint is about. The tables a transaction reads and writes are a
  parameter: the service runs its transactions on more tables than this theory has.
\<close>

definition commitIdentity :: "env \<Rightarrow> 'a \<Rightarrow> 's \<Rightarrow> 's \<Rightarrow> (id_error fail + 'a) \<times> 's" where
  "commitIdentity e v before after =
     (case commit e of
        Committed \<Rightarrow> (Inr v, after)
      | CommitFailed \<Rightarrow> (Inl (Wrapped ''committing transaction'' ConnFailure), before)
      | CommitUnacked \<Rightarrow> (Inl (Wrapped ''committing transaction'' ConnFailure), after))"

definition identityTx :: "env \<Rightarrow> (id_error fail, 's, 'a) body \<Rightarrow> 's \<Rightarrow> (id_error fail + 'a) \<times> 's" where
  "identityTx e fn s =
     (if fault e ''beginning transaction'' then (Inl (Wrapped ''beginning transaction'' ConnFailure), s)
      else case fn s of
             Inl err \<Rightarrow> (Inl (rollback e err), s)
           | Inr (v, s') \<Rightarrow> commitIdentity e v s s')"

definition inAdminTx :: "env \<Rightarrow> (ctx \<Rightarrow> (id_error fail, 's, 'a) body) \<Rightarrow> 's \<Rightarrow> (id_error fail + 'a) \<times> 's" where
  "inAdminTx e fn =
     identityTx e (txGuard (fault e ''setting platform admin context'')
                     (Wrapped ''setting platform admin context'' ConnFailure) (fn admin_context))"

definition actorContext :: "uuid \<Rightarrow> uuid \<Rightarrow> ctx" where
  "actorContext org loc =
     \<lparr>platform_admin = False, current_organisation = Some org, current_location = nullableUUID loc\<rparr>"

definition inIdentityTenantTx ::
  "env \<Rightarrow> uuid \<Rightarrow> uuid \<Rightarrow> (ctx \<Rightarrow> (id_error fail, 's, 'a) body) \<Rightarrow> 's \<Rightarrow> (id_error fail + 'a) \<times> 's" where
  "inIdentityTenantTx e org loc fn =
     identityTx e (txGuard (fault e ''setting tenant context'')
                     (Wrapped ''setting tenant context'' ConnFailure) (fn (actorContext org loc)))"

record TenantActor =
  ta_OrganisationID :: uuid
  ta_LocationID :: uuid
  ta_ActorRef :: string

definition normalizeTenantActor :: "TenantActor \<Rightarrow> TenantActor" where
  "normalizeTenantActor actor = actor\<lparr>ta_ActorRef := trimSpace (ta_ActorRef actor)\<rparr>"

definition validateTenantActor :: "TenantActor \<Rightarrow> bool \<Rightarrow> id_error option" where
  "validateTenantActor actor requireLocation =
     (if ta_OrganisationID actor = uuid_Nil \<or> (requireLocation \<and> ta_LocationID actor = uuid_Nil) then Some ErrValidation
      else if ta_ActorRef actor = '''' then Some ErrForbidden
      else None)"

definition requireOrganisationPermission :: "env \<Rightarrow> ctx \<Rightarrow> TenantActor \<Rightarrow> string \<Rightarrow> unit id_body" where
  "requireOrganisationPermission e c actor permission =
     txBind (runQuery e ''checking organisation permission'' None
               (reading (\<lambda>s. Inr (ActorHasOrganisationPermission e c (ta_OrganisationID actor) (ta_ActorRef actor) permission s))))
       (\<lambda>allowed. txGuard (\<not> allowed) (Err ErrForbidden) (txReturn ()))"

definition requireLocationPermission :: "env \<Rightarrow> ctx \<Rightarrow> TenantActor \<Rightarrow> string \<Rightarrow> unit id_body" where
  "requireLocationPermission e c actor permission =
     txGuard (ta_LocationID actor = uuid_Nil) (Err ErrForbidden) (
     txBind (runQuery e ''checking location permission'' None
               (reading (\<lambda>s. Inr (ActorHasLocationPermission e c (ta_OrganisationID actor) (ta_LocationID actor)
                                    (ta_ActorRef actor) permission s))))
       (\<lambda>allowed. txGuard (\<not> allowed) (Err ErrForbidden) (txReturn ())))"

definition HasOrganisationPermission :: "env \<Rightarrow> uuid \<Rightarrow> uuid \<Rightarrow> string \<Rightarrow> idb \<Rightarrow> bool id_result" where
  "HasOrganisationPermission e org user permission =
     inIdentityTenantTx e org uuid_Nil (\<lambda>c.
       runQuery e ''checking organisation permission'' None
         (reading (\<lambda>s. Inr (UserHasOrganisationPermission e c org (Some user) permission s))))"

definition HasLocationPermission :: "env \<Rightarrow> uuid \<Rightarrow> uuid \<Rightarrow> uuid \<Rightarrow> string \<Rightarrow> idb \<Rightarrow> bool id_result" where
  "HasLocationPermission e org loc user permission =
     inIdentityTenantTx e org loc (\<lambda>c.
       runQuery e ''checking location permission'' None
         (reading (\<lambda>s. Inr (UserHasLocationPermission e c org loc (Some user) permission s))))"

section \<open>Operations on devices\<close>

text \<open>Durations are nanoseconds; \<open>rd_ExpiresAt\<close> is a Go instant.\<close>

record RegisterDeviceParams =
  rd_OrganisationID :: uuid
  rd_LocationID :: uuid
  rd_UserProfileID :: uuid
  rd_DeviceType :: string
  rd_Platform :: string
  rd_AppVersion :: string
  rd_Name :: string
  rd_Capabilities :: rawJSON
  rd_Configuration :: rawJSON
  rd_HeartbeatEvery :: int
  rd_ExpiresAt :: int

record RegisterDeviceResult =
  rr_Device :: Device
  rr_Credential :: DeviceCredential
  rr_Secret :: string

record CreatePairingCodeParams =
  cp_Actor :: TenantActor
  cp_DeviceType :: string
  cp_TTL :: int

record CreatePairingCodeResult =
  cpr_PairingCode :: DevicePairingCode
  cpr_Code :: string

record PairDeviceParams =
  pd_Code :: string
  pd_Platform :: string
  pd_AppVersion :: string
  pd_Name :: string
  pd_Capabilities :: rawJSON
  pd_Configuration :: rawJSON

record HeartbeatParams =
  hp_Secret :: string
  hp_AppVersion :: string
  hp_Capabilities :: rawJSON

definition nullableTime :: "int \<Rightarrow> timestamp option" where
  "nullableTime t = (if t = zeroTime then None else Some (t div 1000))"

definition normalizeRegisterDeviceParams :: "RegisterDeviceParams \<Rightarrow> RegisterDeviceParams" where
  "normalizeRegisterDeviceParams arg =
     arg\<lparr>rd_DeviceType := trimSpace (rd_DeviceType arg), rd_Platform := trimSpace (rd_Platform arg),
         rd_AppVersion := trimSpace (rd_AppVersion arg), rd_Name := trimSpace (rd_Name arg),
         rd_Capabilities := defaultJSONObject (rd_Capabilities arg),
         rd_Configuration := defaultJSONObject (rd_Configuration arg),
         rd_HeartbeatEvery := (if rd_HeartbeatEvery arg \<le> 0 then 60 * second else rd_HeartbeatEvery arg)\<rparr>"

definition validRegisterDeviceParams :: "RegisterDeviceParams \<Rightarrow> bool" where
  "validRegisterDeviceParams arg \<longleftrightarrow>
     \<not> (rd_OrganisationID arg = uuid_Nil \<or> \<not> validDeviceType (rd_DeviceType arg) \<or> rd_Platform arg = '''' \<or>
        rd_AppVersion arg = '''') \<and>
     jsonObject (rd_Capabilities arg) \<and> jsonObject (rd_Configuration arg) \<and>
     \<not> (rd_HeartbeatEvery arg < second \<or> rd_HeartbeatEvery arg > 3600 * second)"

text \<open>A fresh secret with its lookup prefix and its hash.\<close>

definition freshSecret ::
  "(nat \<Rightarrow> bytes option) \<Rightarrow> (string \<Rightarrow> bytes) \<Rightarrow> string \<Rightarrow> id_error fail + string \<times> string \<times> bytes" where
  "freshSecret rnd sha site =
     (case GenerateOpaqueSecret rnd of
        Inl err \<Rightarrow> Inl (Wrapped site err)
      | Inr secret \<Rightarrow>
          (case LookupPrefix secret of
             Inl err \<Rightarrow> Inl err
           | Inr prefix \<Rightarrow>
               (case HashSecret sha secret of
                  Inl err \<Rightarrow> Inl err
                | Inr hash \<Rightarrow> Inr (secret, prefix, hash))))"

definition RegisterDevice ::
  "env \<Rightarrow> (nat \<Rightarrow> bytes option) \<Rightarrow> (string \<Rightarrow> bytes) \<Rightarrow> RegisterDeviceParams \<Rightarrow> idb \<Rightarrow> RegisterDeviceResult id_result" where
  "RegisterDevice e rnd sha arg s =
     (let arg = normalizeRegisterDeviceParams arg
      in if \<not> validRegisterDeviceParams arg then (Inl (Err ErrValidation), s)
         else case freshSecret rnd sha ''generating device credential'' of
                Inl err \<Rightarrow> (Inl err, s)
              | Inr (secret, prefix, hash) \<Rightarrow>
                  inIdentityTenantTx e (rd_OrganisationID arg) (rd_LocationID arg) (\<lambda>c.
                    txBind (runQuery e ''registering device'' None
                              (RegisterDeviceRow e c (gen e 0) (rd_OrganisationID arg) (nullableUUID (rd_LocationID arg))
                                 (nullableUUID (rd_UserProfileID arg)) (rd_DeviceType arg) (rd_Platform arg) (rd_AppVersion arg)
                                 (nullableText (rd_Name arg)) (rd_Capabilities arg) (rd_Configuration arg)
                                 (rd_HeartbeatEvery arg div second))) (\<lambda>device.
                    txBind (runQuery e ''creating device credential'' None
                              (CreateDeviceCredential e c (gen e 1) (rd_OrganisationID arg) (d_id device) prefix hash
                                 (nullableTime (rd_ExpiresAt arg)))) (\<lambda>credential.
                    txReturn \<lparr>rr_Device = device, rr_Credential = credential, rr_Secret = secret\<rparr>))) s)"

definition CreatePairingCode ::
  "env \<Rightarrow> (string \<Rightarrow> string) \<Rightarrow> (nat \<Rightarrow> bytes option) \<Rightarrow> (string \<Rightarrow> bytes) \<Rightarrow> CreatePairingCodeParams \<Rightarrow>
     idb \<Rightarrow> CreatePairingCodeResult id_result" where
  "CreatePairingCode e upper rnd sha arg s =
     (let actor = normalizeTenantActor (cp_Actor arg);
          deviceType = (if cp_DeviceType arg = '''' then DeviceTypeDisplay else cp_DeviceType arg);
          ttl = (if cp_TTL arg \<le> 0 then 600 * second else cp_TTL arg)
      in case validateTenantActor actor True of
           Some err \<Rightarrow> (Inl (Err err), s)
         | None \<Rightarrow>
             if \<not> validDeviceType deviceType then (Inl (Err ErrValidation), s)
             else if ttl > 3600 * second then (Inl (Err ErrValidation), s)
             else case GeneratePairingCode upper rnd of
                    Inl err \<Rightarrow> (Inl (Wrapped ''generating pairing code'' err), s)
                  | Inr code \<Rightarrow>
                      (case PairingCodeLookupPrefix upper code of
                         Inl err \<Rightarrow> (Inl err, s)
                       | Inr prefix \<Rightarrow>
                           (case HashSecret sha (NormalizePairingCode upper code) of
                              Inl err \<Rightarrow> (Inl err, s)
                            | Inr hash \<Rightarrow>
                                inIdentityTenantTx e (ta_OrganisationID actor) (ta_LocationID actor) (\<lambda>c.
                                  txBind (requireLocationPermission e c actor PermissionDeviceManage) (\<lambda>_.
                                  txBind (runQuery e ''creating device pairing code'' None
                                            (CreateDevicePairingCode e c (gen e 0) (ta_OrganisationID actor) (ta_LocationID actor)
                                               (ta_ActorRef actor) deviceType prefix hash ((wall e + ttl) div 1000))) (\<lambda>pairingCode.
                                  txReturn \<lparr>cpr_PairingCode = pairingCode, cpr_Code = code\<rparr>))) s)))"

text \<open>The transaction of \<^verbatim>\<open>PairDevice\<close>.\<close>

definition pairInTx ::
  "env \<Rightarrow> (string \<Rightarrow> bytes) \<Rightarrow> string \<Rightarrow> string \<Rightarrow> PairDeviceParams \<Rightarrow> string \<Rightarrow> string \<Rightarrow> bytes \<Rightarrow> ctx \<Rightarrow>
     RegisterDeviceResult id_body" where
  "pairInTx e sha code prefix arg secret credentialPrefix credentialHash c =
     txBind (runQuery e ''getting device pairing code'' (Some ErrUnauthorized)
               (reading (GetDevicePairingCodeByPrefix e c prefix))) (\<lambda>pairingCode.
     txBind (txLift (SecretMatches sha code (pc_hash pairingCode))) (\<lambda>ok.
     txGuard (\<not> ok) (Err ErrUnauthorized) (
     txBind (runQuery e ''registering paired device'' None
               (RegisterDeviceRow e c (gen e 0) (pc_org pairingCode) (nullableUUID (pc_loc pairingCode)) None
                  (pc_device_type pairingCode) (pd_Platform arg) (pd_AppVersion arg) (nullableText (pd_Name arg))
                  (pd_Capabilities arg) (pd_Configuration arg) 60)) (\<lambda>device.
     txBind (runQuery e ''consuming device pairing code'' (Some ErrUnauthorized)
               (ConsumeDevicePairingCode e c (pc_id pairingCode) (nullableUUID (d_id device)))) (\<lambda>consumed.
     txBind (runQuery e ''trusting paired device'' None (TrustDeviceRow e c (d_id device) (pc_org pairingCode))) (\<lambda>device.
     txBind (runQuery e ''creating paired device credential'' None
               (CreateDeviceCredential e c (gen e 1) (pc_org pairingCode) (d_id device) credentialPrefix credentialHash None)) (\<lambda>credential.
     txReturn \<lparr>rr_Device = device, rr_Credential = credential, rr_Secret = secret\<rparr>)))))))"

definition PairDevice ::
  "env \<Rightarrow> (string \<Rightarrow> string) \<Rightarrow> (nat \<Rightarrow> bytes option) \<Rightarrow> (string \<Rightarrow> bytes) \<Rightarrow> PairDeviceParams \<Rightarrow>
     idb \<Rightarrow> RegisterDeviceResult id_result" where
  "PairDevice e upper rnd sha arg s =
     (let code = NormalizePairingCode upper (pd_Code arg);
          arg = arg\<lparr>pd_Platform := trimSpace (pd_Platform arg), pd_AppVersion := trimSpace (pd_AppVersion arg),
                    pd_Name := trimSpace (pd_Name arg), pd_Capabilities := defaultJSONObject (pd_Capabilities arg),
                    pd_Configuration := defaultJSONObject (pd_Configuration arg)\<rparr>
      in case PairingCodeLookupPrefix upper code of
           Inl err \<Rightarrow> (Inl (Err ErrUnauthorized), s)
         | Inr prefix \<Rightarrow>
             if pd_Platform arg = '''' \<or> pd_AppVersion arg = '''' then (Inl (Err ErrValidation), s)
             else if \<not> jsonObject (pd_Capabilities arg) \<or> \<not> jsonObject (pd_Configuration arg) then (Inl (Err ErrValidation), s)
             else case freshSecret rnd sha ''generating device credential'' of
                    Inl err \<Rightarrow> (Inl err, s)
                  | Inr (secret, credentialPrefix, credentialHash) \<Rightarrow>
                      inAdminTx e (pairInTx e sha code prefix arg secret credentialPrefix credentialHash) s)"

definition AuthenticateDeviceCredential ::
  "env \<Rightarrow> (string \<Rightarrow> bytes) \<Rightarrow> string \<Rightarrow> idb \<Rightarrow> Device id_result" where
  "AuthenticateDeviceCredential e sha secret s =
     (case LookupPrefix secret of
        Inl err \<Rightarrow> (Inl err, s)
      | Inr prefix \<Rightarrow>
          inAdminTx e (\<lambda>c.
            txBind (runQuery e ''getting device credential'' (Some ErrUnauthorized)
                      (reading (GetDeviceCredentialByPrefix e c prefix))) (\<lambda>(credential, device).
            txBind (txLift (SecretMatches sha secret (dc_credential_hash credential))) (\<lambda>ok.
            txGuard (\<not> ok) (Err ErrUnauthorized) (
            txBind (runQuery e ''marking device seen'' None (MarkDeviceSeen e c (d_id device) (d_org device))) (\<lambda>seen.
            txBind (runQuery e ''touching device credential'' None (TouchDeviceCredential e c (dc_id credential))) (\<lambda>_.
            txReturn device)))))) s)"

definition nullableUUIDValue :: "uuid option \<Rightarrow> uuid" where
  "nullableUUIDValue v = (case v of None \<Rightarrow> uuid_Nil | Some u \<Rightarrow> u)"

text \<open>Two transactions: the authentication in world \<open>e0\<close>, the heartbeat in world \<open>e\<close>.\<close>

definition RecordHeartbeat ::
  "env \<Rightarrow> env \<Rightarrow> (string \<Rightarrow> bytes) \<Rightarrow> HeartbeatParams \<Rightarrow> idb \<Rightarrow> Device id_result" where
  "RecordHeartbeat e0 e sha arg s =
     (let appVersion = trimSpace (hp_AppVersion arg);
          capabilities = defaultJSONObject (hp_Capabilities arg)
      in if appVersion = '''' then (Inl (Err ErrValidation), s)
         else if \<not> jsonObject capabilities then (Inl (Err ErrValidation), s)
         else case AuthenticateDeviceCredential e0 sha (hp_Secret arg) s of
                (Inl err, s') \<Rightarrow> (Inl err, s')
              | (Inr device, s') \<Rightarrow>
                  inIdentityTenantTx e (d_org device) (nullableUUIDValue (d_loc device)) (\<lambda>c.
                    runQuery e ''recording device heartbeat'' (Some ErrUnauthorized)
                      (RecordDeviceHeartbeat e c (d_id device) (d_org device) appVersion capabilities)) s')"

definition requireDeviceManage :: "env \<Rightarrow> ctx \<Rightarrow> TenantActor \<Rightarrow> uuid option \<Rightarrow> unit id_body" where
  "requireDeviceManage e c actor loc =
     (case loc of
        None \<Rightarrow> requireOrganisationPermission e c actor PermissionDeviceManage
      | Some l \<Rightarrow> requireLocationPermission e c (actor\<lparr>ta_LocationID := l\<rparr>) PermissionDeviceManage)"

definition ListDevices :: "env \<Rightarrow> TenantActor \<Rightarrow> idb \<Rightarrow> Device list id_result" where
  "ListDevices e actor s =
     (let actor = normalizeTenantActor actor
      in case validateTenantActor actor False of
           Some err \<Rightarrow> (Inl (Err err), s)
         | None \<Rightarrow>
             inIdentityTenantTx e (ta_OrganisationID actor) (ta_LocationID actor) (\<lambda>c.
               txBind (requireDeviceManage e c actor (nullableUUID (ta_LocationID actor))) (\<lambda>_.
               runQuery e ''listing devices'' None
                 (reading (\<lambda>s. Inr (case nullableUUID (ta_LocationID actor) of
                                      None \<Rightarrow> ListDevicesByOrganisation e c (ta_OrganisationID actor) s
                                    | Some loc \<Rightarrow> ListDevicesByLocation e c (ta_OrganisationID actor) loc s))))) s)"

definition TrustDevice :: "env \<Rightarrow> uuid \<Rightarrow> uuid \<Rightarrow> idb \<Rightarrow> Device id_result" where
  "TrustDevice e org deviceID =
     inIdentityTenantTx e org uuid_Nil (\<lambda>c.
       runQuery e ''trusting device'' (Some ErrIdentityNotFound) (TrustDeviceRow e c deviceID org))"

definition RevokeDevice :: "env \<Rightarrow> TenantActor \<Rightarrow> uuid \<Rightarrow> idb \<Rightarrow> Device id_result" where
  "RevokeDevice e actor deviceID s =
     (let actor = normalizeTenantActor actor
      in case validateTenantActor actor False of
           Some err \<Rightarrow> (Inl (Err err), s)
         | None \<Rightarrow>
             inIdentityTenantTx e (ta_OrganisationID actor) uuid_Nil (\<lambda>c.
               txBind (runQuery e ''getting device'' (Some ErrIdentityNotFound)
                         (reading (GetDevice e c deviceID (ta_OrganisationID actor)))) (\<lambda>current.
               txBind (requireDeviceManage e c actor (d_loc current)) (\<lambda>_.
               txBind (runQuery e ''revoking device credentials'' None
                         (RevokeDeviceCredentials e c (ta_OrganisationID actor) deviceID)) (\<lambda>_.
               runQuery e ''revoking device'' (Some ErrAlreadyRevoked)
                 (RevokeDeviceRow e c deviceID (ta_OrganisationID actor)))))) s)"

end
