(* ===== verification/Evolve.thy ===== *)
theory Evolve
  imports Prelude
begin

text \<open>
  How the rows of a table may evolve when rows are inserted under fresh keys and updated along an order
  \<open>moves\<close>, but never deleted. A key all of whose rows are frozen stays so for ever.
\<close>

lemma map_update_none: "\<forall>x \<in> set xs. \<not> P x \<Longrightarrow> map (\<lambda>x. if P x then f x else x) xs = xs"
  by (induction xs) auto

definition evolves :: "('r \<Rightarrow> 'k) \<Rightarrow> ('r \<Rightarrow> 'r \<Rightarrow> bool) \<Rightarrow> 'r list \<Rightarrow> 'r list \<Rightarrow> bool" where
  "evolves key moves rs rs' \<longleftrightarrow>
     (\<forall>r' \<in> set rs'. (\<exists>r \<in> set rs. moves r r') \<or> key r' \<notin> key ` set rs) \<and>
     (\<forall>r \<in> set rs. \<exists>r' \<in> set rs'. moves r r')"

text \<open>Evolution carries over to a projection of the rows.\<close>

lemma evolves_image:
  assumes "evolves key moves rs rs'" and "\<And>r r'. moves r r' \<Longrightarrow> moves' (g r) (g r')" and "\<And>r. key' (g r) = key r"
  shows "evolves key' moves' (map g rs) (map g rs')"
  unfolding evolves_def
proof (intro conjI ballI)
  fix y
  assume "y \<in> set (map g rs')"
  then obtain r' where r': "r' \<in> set rs'" "y = g r'" by auto
  with assms(1) consider r where "r \<in> set rs" "moves r r'" | "key r' \<notin> key ` set rs" unfolding evolves_def by blast
  then show "(\<exists>r \<in> set (map g rs). moves' r y) \<or> key' y \<notin> key' ` set (map g rs)"
  proof cases
    case 1
    then show ?thesis using assms(2) r'(2) by auto
  next
    case 2
    then show ?thesis using assms(3) r'(2) by (simp add: image_image)
  qed
next
  fix x
  assume "x \<in> set (map g rs)"
  then obtain r where "r \<in> set rs" "x = g r" by auto
  then show "\<exists>r' \<in> set (map g rs'). moves' x r'" using assms(1,2) unfolding evolves_def by (metis image_eqI set_map)
qed

locale evolution =
  fixes key :: "'r \<Rightarrow> 'k" and moves :: "'r \<Rightarrow> 'r \<Rightarrow> bool" and frozen :: "'r \<Rightarrow> bool"
  assumes moves_refl: "moves r r"
    and moves_trans: "moves r1 r2 \<Longrightarrow> moves r2 r3 \<Longrightarrow> moves r1 r3"
    and moves_key: "moves r1 r2 \<Longrightarrow> key r2 = key r1"
    and moves_frozen: "moves r1 r2 \<Longrightarrow> frozen r1 \<Longrightarrow> r2 = r1"
begin

lemma evolves_refl: "evolves key moves rs rs"
  unfolding evolves_def using moves_refl by blast

lemma evolves_keys: "evolves key moves rs rs' \<Longrightarrow> k \<in> key ` set rs \<Longrightarrow> k \<in> key ` set rs'"
proof (elim imageE)
  fix r
  assume "evolves key moves rs rs'" and r: "k = key r" "r \<in> set rs"
  then obtain r' where "r' \<in> set rs'" "moves r r'" unfolding evolves_def by blast
  then show "k \<in> key ` set rs'" using moves_key r(1) by (intro image_eqI [where x = r']) simp_all
qed

lemma evolves_trans:
  assumes "evolves key moves rs1 rs2" and "evolves key moves rs2 rs3"
  shows "evolves key moves rs1 rs3"
  unfolding evolves_def
proof
  show "\<forall>r' \<in> set rs3. (\<exists>r \<in> set rs1. moves r r') \<or> key r' \<notin> key ` set rs1"
  proof
    fix r3
    assume "r3 \<in> set rs3"
    then consider r2 where "r2 \<in> set rs2" "moves r2 r3" | "key r3 \<notin> key ` set rs2"
      using assms(2) unfolding evolves_def by blast
    then show "(\<exists>r \<in> set rs1. moves r r3) \<or> key r3 \<notin> key ` set rs1"
    proof cases
      case 1
      then consider r1 where "r1 \<in> set rs1" "moves r1 r2" | "key r2 \<notin> key ` set rs1"
        using assms(1) unfolding evolves_def by blast
      then show ?thesis using 1 moves_trans moves_key by cases (blast, simp)
    next
      case 2
      then show ?thesis using evolves_keys [OF assms(1)] by blast
    qed
  qed
  show "\<forall>r \<in> set rs1. \<exists>r' \<in> set rs3. moves r r'"
    using assms moves_trans unfolding evolves_def by meson
qed

lemma evolves_insert: "key r \<notin> key ` set rs \<Longrightarrow> evolves key moves rs (rs @ [r])"
  unfolding evolves_def using moves_refl by auto

lemma evolves_map: "(\<And>r. r \<in> set rs \<Longrightarrow> moves r (f r)) \<Longrightarrow> evolves key moves rs (map f rs)"
  unfolding evolves_def by auto

lemma evolves_distinct_map: "(\<And>r. key (f r) = key r) \<Longrightarrow> distinct (map key rs) \<Longrightarrow> distinct (map key (map f rs))"
  by (simp add: comp_def)

text \<open>A frozen row stays in the table, and a key whose rows are all frozen gets no other rows.\<close>

lemma evolves_frozen:
  assumes "evolves key moves rs rs'" and "r \<in> set rs" and "frozen r"
  shows "r \<in> set rs'"
  using assms moves_frozen unfolding evolves_def by blast

lemma evolves_gone:
  assumes ev: "evolves key moves rs rs'" and ex: "k \<in> key ` set rs"
    and all: "\<forall>r \<in> set rs. key r = k \<longrightarrow> frozen r"
  shows "\<forall>r \<in> set rs'. key r = k \<longrightarrow> frozen r \<and> r \<in> set rs"
proof (intro ballI impI)
  fix r'
  assume r': "r' \<in> set rs'" "key r' = k"
  with ev ex obtain r where "r \<in> set rs" "moves r r'" unfolding evolves_def by blast
  then show "frozen r' \<and> r' \<in> set rs" using all r'(2) moves_key moves_frozen by metis
qed

end

end
