(* ===== verification/Devices.thy ===== *)
theory Devices
  imports Identity Evolve
begin

text \<open>
  What the device operations keep: the keys and constraints of their tables, the one-way course of a
  device's trust, of a credential and of a pairing code. The statements and operations are shown to keep
  them once, compositionally; the properties follow for every sequence of operations, under all faults.
\<close>

section \<open>How the rows move\<close>

definition trustRank :: "string \<Rightarrow> nat" where
  "trustRank state = (if state = DeviceTrustPending then 0 else if state = DeviceTrustTrusted then 1 else 2)"

definition deviceMoves :: "Device \<Rightarrow> Device \<Rightarrow> bool" where
  "deviceMoves d d' \<longleftrightarrow>
     d_id d' = d_id d \<and> d_org d' = d_org d \<and> d_loc d' = d_loc d \<and> d_device_type d' = d_device_type d \<and>
     d_registered_at d' = d_registered_at d \<and> trustRank (d_trust_state d) \<le> trustRank (d_trust_state d') \<and>
     (d_revoked_at d \<noteq> None \<longrightarrow> d' = d)"

definition credentialMoves :: "DeviceCredential \<Rightarrow> DeviceCredential \<Rightarrow> bool" where
  "credentialMoves k k' \<longleftrightarrow>
     dc_id k' = dc_id k \<and> dc_org k' = dc_org k \<and> dc_device k' = dc_device k \<and> dc_lookup_prefix k' = dc_lookup_prefix k \<and>
     dc_credential_hash k' = dc_credential_hash k \<and> dc_expires_at k' = dc_expires_at k \<and>
     (dc_revoked_at k \<noteq> None \<longrightarrow> k' = k)"

definition codeMoves :: "DevicePairingCode \<Rightarrow> DevicePairingCode \<Rightarrow> bool" where
  "codeMoves p p' \<longleftrightarrow>
     pc_id p' = pc_id p \<and> pc_org p' = pc_org p \<and> pc_loc p' = pc_loc p \<and> pc_device_type p' = pc_device_type p \<and>
     pc_lookup_prefix p' = pc_lookup_prefix p \<and> pc_hash p' = pc_hash p \<and> pc_expires_at p' = pc_expires_at p \<and>
     (pc_consumed_at p \<noteq> None \<longrightarrow> p' = p)"

interpretation devs: evolution d_id deviceMoves "\<lambda>d. d_revoked_at d \<noteq> None"
  by unfold_locales (auto simp: deviceMoves_def)

interpretation creds: evolution dc_lookup_prefix credentialMoves "\<lambda>k. dc_revoked_at k \<noteq> None"
  by unfold_locales (auto simp: credentialMoves_def)

interpretation codes: evolution pc_lookup_prefix codeMoves "\<lambda>p. pc_consumed_at p \<noteq> None"
  by unfold_locales (auto simp: codeMoves_def)

definition advances :: "idb \<Rightarrow> idb \<Rightarrow> bool" where
  "advances s s' \<longleftrightarrow>
     evolves d_id deviceMoves (devices (core s)) (devices (core s')) \<and>
     evolves dc_lookup_prefix credentialMoves (device_credentials s) (device_credentials s') \<and>
     evolves pc_lookup_prefix codeMoves (device_pairing_codes s) (device_pairing_codes s')"

definition tablesOk :: "idb \<Rightarrow> bool" where
  "tablesOk s \<longleftrightarrow>
     distinct (map d_id (devices (core s))) \<and> list_all (\<lambda>d. deviceCheck d = None) (devices (core s)) \<and>
     distinct (map dc_id (device_credentials s)) \<and> distinct (map dc_lookup_prefix (device_credentials s)) \<and>
     distinct (map pc_id (device_pairing_codes s)) \<and> distinct (map pc_lookup_prefix (device_pairing_codes s))"

lemma advances_refl [simp]: "advances s s"
  by (simp add: advances_def devs.evolves_refl creds.evolves_refl codes.evolves_refl)

lemma advances_trans: "advances s1 s2 \<Longrightarrow> advances s2 s3 \<Longrightarrow> advances s1 s3"
  unfolding advances_def by (blast intro: devs.evolves_trans creds.evolves_trans codes.evolves_trans)


section \<open>Bodies that follow a preorder\<close>

text \<open>
  \<open>follows rel m\<close>: whenever the body \<open>m\<close> succeeds, its final state is \<open>rel\<close>-above the initial one. For a
  preorder this is a property of the statements a body is made of, and it carries over to transactions.
\<close>

named_theorems keeps_intros \<open>bodies and transactions that follow a preorder\<close>

definition follows :: "('s \<Rightarrow> 's \<Rightarrow> bool) \<Rightarrow> ('s \<Rightarrow> 'e + 'a \<times> 's) \<Rightarrow> bool" where
  "follows rel m \<longleftrightarrow> (\<forall>s v s'. m s = Inr (v, s') \<longrightarrow> rel s s')"

definition followsTx :: "('s \<Rightarrow> 's \<Rightarrow> bool) \<Rightarrow> ('s \<Rightarrow> 'r \<times> 's) \<Rightarrow> bool" where
  "followsTx rel op \<longleftrightarrow> (\<forall>s. rel s (snd (op s)))"

lemma followsI: "(\<And>s v s'. m s = Inr (v, s') \<Longrightarrow> rel s s') \<Longrightarrow> follows rel m"
  by (simp add: follows_def)

lemma followsD: "follows rel m \<Longrightarrow> m s = Inr (v, s') \<Longrightarrow> rel s s'"
  by (simp add: follows_def)

locale body_order =
  fixes rel :: "'s \<Rightarrow> 's \<Rightarrow> bool"
  assumes rel_refl: "rel s s"
    and rel_trans: "rel s1 s2 \<Longrightarrow> rel s2 s3 \<Longrightarrow> rel s1 s3"
begin

lemma return_follows [keeps_intros]: "follows rel (txReturn v)"
  by (auto intro!: followsI rel_refl)

lemma fail_follows [keeps_intros]: "follows rel (txFail err)"
  by (auto intro!: followsI)

lemma lift_follows [keeps_intros]: "follows rel (txLift r)"
  by (auto intro!: followsI rel_refl simp: txLift_Inr)

lemma reading_follows [keeps_intros]: "follows rel (reading q)"
  by (auto intro!: followsI rel_refl simp: reading_Inr)

lemma query_follows [keeps_intros]: "follows rel q \<Longrightarrow> follows rel (runQuery e site nr q)"
  by (auto intro!: followsI dest: followsD simp: runQuery_Inr)

lemma guard_follows [keeps_intros]: "follows rel m \<Longrightarrow> follows rel (txGuard bad err m)"
  by (cases bad) (auto intro: fail_follows)

lemma bind_follows [keeps_intros]:
  assumes "follows rel m" and "\<And>x. follows rel (f x)"
  shows "follows rel (txBind m f)"
  by (rule followsI, erule txBind_InrE) (rule rel_trans [OF followsD [OF assms(1)] followsD [OF assms(2)]])

lemma option_follows [keeps_intros]:
  "follows rel m \<Longrightarrow> (\<And>x. follows rel (f x)) \<Longrightarrow> follows rel (case z of None \<Rightarrow> m | Some x \<Rightarrow> f x)"
  by (cases z) simp_all

lemma prod_follows [keeps_intros]: "(\<And>x y. follows rel (f x y)) \<Longrightarrow> follows rel (case z of (x, y) \<Rightarrow> f x y)"
  by (cases z) simp

lemma const_follows [keeps_intros]: "followsTx rel (\<lambda>s. (r, s))"
  by (simp add: followsTx_def rel_refl)

lemma if_follows [keeps_intros]: "followsTx rel f \<Longrightarrow> followsTx rel g \<Longrightarrow> followsTx rel (\<lambda>s. if b then f s else g s)"
  by (cases b) simp_all

lemma sum_follows [keeps_intros]:
  "(\<And>x. followsTx rel (f x)) \<Longrightarrow> (\<And>y. followsTx rel (g y)) \<Longrightarrow> followsTx rel (\<lambda>s. case z of Inl x \<Rightarrow> f x s | Inr y \<Rightarrow> g y s)"
  by (cases z) simp_all

lemma optionTx_follows [keeps_intros]:
  "followsTx rel f \<Longrightarrow> (\<And>y. followsTx rel (g y)) \<Longrightarrow> followsTx rel (\<lambda>s. case z of None \<Rightarrow> f s | Some y \<Rightarrow> g y s)"
  by (cases z) simp_all

lemma prodTx_follows [keeps_intros]: "(\<And>x y. followsTx rel (f x y)) \<Longrightarrow> followsTx rel (\<lambda>s. case z of (x, y) \<Rightarrow> f x y s)"
  by (cases z) simp

lemma then_follows:
  "followsTx rel f \<Longrightarrow> (\<And>x. followsTx rel (g x)) \<Longrightarrow>
     followsTx rel (\<lambda>s. case f s of (Inl err, s') \<Rightarrow> (Inl err, s') | (Inr x, s') \<Rightarrow> g x s')"
  unfolding followsTx_def by (auto split: prod.splits sum.splits) (metis rel_trans snd_conv)+

end

text \<open>The transactions of the identity service, on whatever tables they run.\<close>

locale identity_order = body_order rel
  for rel :: "'s \<Rightarrow> 's \<Rightarrow> bool"
begin

lemma identityTx_follows: "follows rel m \<Longrightarrow> followsTx rel (identityTx e m)"
  by (auto simp: followsTx_def identityTx_def commitIdentity_def rel_refl split: sum.splits commit_outcome.splits dest: followsD)

lemma inAdminTx_follows [keeps_intros]: "(\<And>c. follows rel (m c)) \<Longrightarrow> followsTx rel (inAdminTx e m)"
  unfolding inAdminTx_def by (intro identityTx_follows guard_follows)

lemma inIdentityTenantTx_follows [keeps_intros]: "(\<And>c. follows rel (m c)) \<Longrightarrow> followsTx rel (inIdentityTenantTx e org loc m)"
  unfolding inIdentityTenantTx_def by (intro identityTx_follows guard_follows)

end

text \<open>The tables stay sound and their rows advance.\<close>

definition tableRel :: "idb \<Rightarrow> idb \<Rightarrow> bool" where
  "tableRel s s' \<longleftrightarrow> (tablesOk s \<longrightarrow> tablesOk s' \<and> advances s s')"

interpretation tab: identity_order tableRel
  by unfold_locales (auto simp: tableRel_def intro: advances_trans)

abbreviation keeps :: "(idb \<Rightarrow> 'e + 'a \<times> idb) \<Rightarrow> bool" where
  "keeps \<equiv> follows tableRel"

lemma keepsI: "(\<And>s v s'. tablesOk s \<Longrightarrow> m s = Inr (v, s') \<Longrightarrow> tablesOk s' \<and> advances s s') \<Longrightarrow> keeps m"
  by (simp add: follows_def tableRel_def)

lemma keeps_updateDevice:
  assumes "\<And>d. deviceCheck d = None \<Longrightarrow> P d \<Longrightarrow> deviceMoves d (f d)"
  shows "keeps (updateDevice e c i org P f)"
proof (rule keepsI)
  fix s v s'
  assume ok: "tablesOk s" and run: "updateDevice e c i org P f s = Inr (v, s')"
  let ?ds = "devices (core s)"
  from ok have d: "distinct (map d_id ?ds)" and chk: "\<And>d. d \<in> set ?ds \<Longrightarrow> deviceCheck d = None"
    by (auto simp: tablesOk_def list_all_iff)
  from run obtain ds where u: "updateOne (\<lambda>d. visible_org e c (d_org d) \<and> d_id d = i \<and> d_org d = org \<and> P d) deviceCheck f ?ds = Inr (v, ds)"
    and s': "s' = setDevices ds s" unfolding updateDevice_def by (auto elim!: map_sum_InrE)
  from u obtain r where r: "r \<in> set ?ds" "P r" "d_id r = i" "v = f r" "deviceCheck v = None"
    and ds: "ds = map (\<lambda>x. if d_id x = i then v else x) ?ds"
    by (rule updateOne_keyE [where k = d_id and i = i]) (use d in auto)
  have move: "deviceMoves r v" using assms chk r by blast
  then have key: "d_id v = i" using r(3) by (simp add: deviceMoves_def)
  have "evolves d_id deviceMoves ?ds ds" unfolding ds
  proof (rule devs.evolves_map)
    fix x
    assume "x \<in> set ?ds"
    then show "deviceMoves x (if d_id x = i then v else x)"
      using move distinct_key_eq [OF d _ r(1)] r(3) devs.moves_refl by auto
  qed
  moreover have "distinct (map d_id ds)" unfolding ds by (rule devs.evolves_distinct_map) (use key d in auto)
  moreover have "list_all (\<lambda>d. deviceCheck d = None) ds" using chk r(5) by (auto simp: ds list_all_iff)
  ultimately show "tablesOk s' \<and> advances s s'"
    using ok by (simp add: s' setDevices_def tablesOk_def advances_def creds.evolves_refl codes.evolves_refl)
qed

lemma deviceCheck_states:
  "deviceCheck d = None \<Longrightarrow> d_revoked_at d = None \<Longrightarrow> trustRank (d_trust_state d) \<le> 1"
  by (auto simp: deviceCheck_def firstViolation_None trustRank_def)

lemma keeps_TrustDeviceRow [keeps_intros]: "keeps (TrustDeviceRow e c i org)"
  unfolding TrustDeviceRow_def
  by (rule keeps_updateDevice) (use deviceCheck_states in \<open>auto simp: deviceMoves_def trustRank_def\<close>)

lemma keeps_RevokeDeviceRow [keeps_intros]: "keeps (RevokeDeviceRow e c i org)"
  unfolding RevokeDeviceRow_def
  by (rule keeps_updateDevice) (auto simp: deviceMoves_def trustRank_def)

lemma keeps_MarkDeviceSeen [keeps_intros]: "keeps (MarkDeviceSeen e c i org)"
  unfolding MarkDeviceSeen_def by (rule keeps_updateDevice) (auto simp: deviceMoves_def trustedDevice_def)

lemma keeps_RecordDeviceHeartbeat [keeps_intros]: "keeps (RecordDeviceHeartbeat e c i org appVersion cap)"
proof (cases "jsonbOf cap")
  case None
  then show ?thesis by (intro keepsI) (simp add: RecordDeviceHeartbeat_def)
next
  case (Some j)
  have "keeps (updateDevice e c i org trustedDevice
     (\<lambda>d. d\<lparr>d_last_seen_at := Some (now e), d_last_heartbeat_at := Some (now e), d_app_version := appVersion,
            d_capabilities := j, d_updated_at := now e\<rparr>))"
    by (rule keeps_updateDevice) (auto simp: deviceMoves_def trustedDevice_def)
  then show ?thesis unfolding follows_def RecordDeviceHeartbeat_def using Some by simp
qed

lemma keeps_RegisterDeviceRow [keeps_intros]:
  "keeps (RegisterDeviceRow e c i org loc user deviceType platform appVersion name cap conf heartbeat)"
proof (rule keepsI)
  fix s v s'
  assume ok: "tablesOk s" and run: "RegisterDeviceRow e c i org loc user deviceType platform appVersion name cap conf heartbeat s = Inr (v, s')"
  from run have "deviceCheck v = None" and new: "d_id v \<notin> d_id ` set (devices (core s))"
    and s': "s' = setDevices (devices (core s) @ [v]) s"
    by (auto simp: RegisterDeviceRow_def Let_def insertRow_Inr split: option.splits elim!: map_sum_InrE)
  then show "tablesOk s' \<and> advances s s'"
    using ok devs.evolves_insert [OF new]
    by (simp add: s' setDevices_def tablesOk_def advances_def creds.evolves_refl codes.evolves_refl)
qed

lemma keeps_CreateDeviceCredential [keeps_intros]: "keeps (CreateDeviceCredential e c i org d prefix hash expires)"
proof (rule keepsI)
  fix s v s'
  assume ok: "tablesOk s" and run: "CreateDeviceCredential e c i org d prefix hash expires s = Inr (v, s')"
  from run have new: "dc_lookup_prefix v \<notin> dc_lookup_prefix ` set (device_credentials s)" and "dc_id v \<notin> dc_id ` set (device_credentials s)"
    and s': "s' = s\<lparr>device_credentials := device_credentials s @ [v]\<rparr>"
    by (auto simp: CreateDeviceCredential_def Let_def insertRow_Inr elim!: map_sum_InrE)
  then show "tablesOk s' \<and> advances s s'"
    using ok creds.evolves_insert [OF new] by (simp add: tablesOk_def advances_def devs.evolves_refl codes.evolves_refl)
qed

lemma keeps_credentials:
  assumes "\<And>k. credentialMoves k (f k)"
  shows "keeps (\<lambda>s. Inr ((), s\<lparr>device_credentials := map f (device_credentials s)\<rparr>))"
proof (rule keepsI)
  fix s v s'
  assume ok: "tablesOk s" and run: "Inr ((), s\<lparr>device_credentials := map f (device_credentials s)\<rparr>) = Inr (v, s')"
  have "dc_id (f k) = dc_id k" "dc_lookup_prefix (f k) = dc_lookup_prefix k" for k using assms [of k] by (auto simp: credentialMoves_def)
  then show "tablesOk s' \<and> advances s s'"
    using ok run creds.evolves_map [OF assms]
    by (auto simp: tablesOk_def advances_def devs.evolves_refl codes.evolves_refl comp_def)
qed

lemma keeps_TouchDeviceCredential [keeps_intros]: "keeps (TouchDeviceCredential e c i)"
  unfolding TouchDeviceCredential_def by (rule keeps_credentials) (auto simp: credentialMoves_def)

lemma keeps_RevokeDeviceCredentials [keeps_intros]: "keeps (RevokeDeviceCredentials e c org d)"
  unfolding RevokeDeviceCredentials_def by (rule keeps_credentials) (auto simp: credentialMoves_def)

lemma keeps_CreateDevicePairingCode [keeps_intros]:
  "keeps (CreateDevicePairingCode e c i org loc createdBy deviceType prefix hash expires)"
proof (rule keepsI)
  fix s v s'
  assume ok: "tablesOk s" and run: "CreateDevicePairingCode e c i org loc createdBy deviceType prefix hash expires s = Inr (v, s')"
  from run have new: "pc_lookup_prefix v \<notin> pc_lookup_prefix ` set (device_pairing_codes s)" and "pc_id v \<notin> pc_id ` set (device_pairing_codes s)"
    and s': "s' = s\<lparr>device_pairing_codes := device_pairing_codes s @ [v]\<rparr>"
    by (auto simp: CreateDevicePairingCode_def Let_def insertRow_Inr elim!: map_sum_InrE)
  then show "tablesOk s' \<and> advances s s'"
    using ok codes.evolves_insert [OF new] by (simp add: tablesOk_def advances_def devs.evolves_refl creds.evolves_refl)
qed

lemma keeps_ConsumeDevicePairingCode [keeps_intros]: "keeps (ConsumeDevicePairingCode e c i d)"
proof (rule keepsI)
  fix s v s'
  assume ok: "tablesOk s" and run: "ConsumeDevicePairingCode e c i d s = Inr (v, s')"
  define f where "f p = (if openPairingCode e c p \<and> pc_id p = i
      then p\<lparr>pc_consumed_at := Some (now e), pc_consumed_by_device := d, pc_updated_at := now e\<rparr> else p)" for p
  from run have s': "s' = s\<lparr>device_pairing_codes := map f (device_pairing_codes s)\<rparr>"
    unfolding f_def by (auto simp: ConsumeDevicePairingCode_def elim!: map_sum_InrE updateOne_InrE)
  have moves: "codeMoves p (f p)" for p by (auto simp: f_def codeMoves_def openPairingCode_def)
  then have "pc_id (f p) = pc_id p" "pc_lookup_prefix (f p) = pc_lookup_prefix p" for p by (auto simp: codeMoves_def)
  then show "tablesOk s' \<and> advances s s'"
    using ok codes.evolves_map [OF moves] by (auto simp: s' tablesOk_def advances_def devs.evolves_refl creds.evolves_refl comp_def)
qed


section \<open>The operations as steps\<close>

lemma keeps_permission [keeps_intros]:
  "keeps (requireOrganisationPermission e c actor permission)" "keeps (requireLocationPermission e c actor permission)"
  "keeps (requireDeviceManage e c actor loc)"
  unfolding requireDeviceManage_def requireOrganisationPermission_def requireLocationPermission_def
  by (intro keeps_intros)+

lemma RegisterDevice_keeps: "followsTx tableRel (RegisterDevice e rnd sha arg)"
  unfolding RegisterDevice_def Let_def by (intro keeps_intros)

lemma CreatePairingCode_keeps: "followsTx tableRel (CreatePairingCode e upper rnd sha arg)"
  unfolding CreatePairingCode_def Let_def by (intro keeps_intros)

lemma PairDevice_keeps: "followsTx tableRel (PairDevice e upper rnd sha arg)"
  unfolding PairDevice_def Let_def pairInTx_def by (intro keeps_intros)

lemma AuthenticateDeviceCredential_keeps: "followsTx tableRel (AuthenticateDeviceCredential e sha secret)"
  unfolding AuthenticateDeviceCredential_def by (intro keeps_intros)

lemma TrustDevice_keeps: "followsTx tableRel (TrustDevice e org i)"
  unfolding TrustDevice_def by (intro keeps_intros)

lemma RevokeDevice_keeps: "followsTx tableRel (RevokeDevice e actor i)"
  unfolding RevokeDevice_def Let_def by (intro keeps_intros)

lemma RecordHeartbeat_keeps: "followsTx tableRel (RecordHeartbeat e0 e sha arg)"
  unfolding RecordHeartbeat_def Let_def
  by (intro keeps_intros tab.then_follows AuthenticateDeviceCredential_keeps)

section \<open>What the compound operations do\<close>

lemma RegisterDeviceRow_Inr:
  assumes "RegisterDeviceRow e c i org loc user deviceType platform appVersion name cap conf heartbeat s = Inr (d, s')"
  shows "s' = setDevices (devices (core s) @ [d]) s" and "d_id d \<notin> d_id ` set (devices (core s))"
    and "d_id d = i" and "d_org d = org" and "d_loc d = loc" and "d_device_type d = deviceType"
    and "d_trust_state d = DeviceTrustPending" and "d_revoked_at d = None"
  using assms by (auto simp: RegisterDeviceRow_def Let_def insertRow_Inr split: option.splits elim!: map_sum_InrE)

lemma CreateDeviceCredential_Inr:
  assumes "CreateDeviceCredential e c i org d prefix hash expires s = Inr (k, s')"
  shows "s' = s\<lparr>device_credentials := device_credentials s @ [k]\<rparr>" and "dc_lookup_prefix k \<notin> dc_lookup_prefix ` set (device_credentials s)"
    and "dc_org k = org" and "dc_device k = d" and "dc_lookup_prefix k = prefix" and "dc_credential_hash k = hash"
    and "dc_expires_at k = expires" and "dc_revoked_at k = None"
  using assms by (auto simp: CreateDeviceCredential_def Let_def insertRow_Inr elim!: map_sum_InrE)

lemma devices_setDevices [simp]:
  "devices (core (setDevices ds s)) = ds" "device_credentials (setDevices ds s) = device_credentials s"
  "device_pairing_codes (setDevices ds s) = device_pairing_codes s"
  by (simp_all add: setDevices_def)

text \<open>What one successful pairing does to the three tables.\<close>

definition paired ::
  "env \<Rightarrow> ctx \<Rightarrow> (string \<Rightarrow> bytes) \<Rightarrow> string \<Rightarrow> string \<Rightarrow> idb \<Rightarrow> idb \<Rightarrow> DevicePairingCode \<Rightarrow> Device \<Rightarrow> DeviceCredential \<Rightarrow> bool" where
  "paired e c sha code prefix s s' p d k \<longleftrightarrow>
     p \<in> set (device_pairing_codes s) \<and> pc_lookup_prefix p = prefix \<and> openPairingCode e c p \<and> pc_hash p = sha (trimSpace code) \<and>
     devices (core s') = devices (core s) @ [d] \<and> d_id d \<notin> d_id ` set (devices (core s)) \<and>
     d_org d = pc_org p \<and> d_loc d = nullableUUID (pc_loc p) \<and> d_device_type d = pc_device_type p \<and> trustedDevice d \<and>
     device_credentials s' = device_credentials s @ [k] \<and> dc_org k = pc_org p \<and> dc_device k = d_id d \<and> dc_revoked_at k = None \<and>
     dc_expires_at k = None \<and> dc_lookup_prefix k \<notin> dc_lookup_prefix ` set (device_credentials s) \<and>
     device_pairing_codes s' = map (\<lambda>x. if openPairingCode e c x \<and> pc_id x = pc_id p
        then x\<lparr>pc_consumed_at := Some (now e), pc_consumed_by_device := nullableUUID (d_id d), pc_updated_at := now e\<rparr> else x)
        (device_pairing_codes s)"

lemma TrustDeviceRow_new:
  assumes "TrustDeviceRow e c (d_id d0) org (setDevices (ds @ [d0]) s) = Inr (d, s')" and "d_id d0 \<notin> d_id ` set ds"
  shows "d = d0\<lparr>d_trust_state := DeviceTrustTrusted, d_updated_at := now e\<rparr>" and "s' = setDevices (ds @ [d]) s"
proof -
  let ?P = "\<lambda>x. visible_org e c (d_org x) \<and> d_id x = d_id d0 \<and> d_org x = org \<and> d_revoked_at x = None"
  let ?f = "\<lambda>x. x\<lparr>d_trust_state := DeviceTrustTrusted, d_updated_at := now e\<rparr>"
  from assms(1) obtain rs where u: "updateOne ?P deviceCheck ?f (ds @ [d0]) = Inr (d, rs)"
    and s': "s' = setDevices rs (setDevices (ds @ [d0]) s)"
    by (auto simp: TrustDeviceRow_def updateDevice_def elim!: map_sum_InrE)
  from u obtain r where r: "r \<in> set (ds @ [d0])" "?P r" "d = ?f r" and rs: "rs = map (\<lambda>x. if ?P x then ?f x else x) (ds @ [d0])"
    by (rule updateOne_InrE)
  have "r \<notin> set ds" using r(2) assms(2) by (metis imageI)
  then have rd: "r = d0" using r(1) by simp
  then show d: "d = ?f d0" using r(3) by simp
  have none: "\<forall>x \<in> set ds. \<not> ?P x"
  proof (intro ballI notI)
    fix x
    assume x: "x \<in> set ds" and px: "?P x"
    have "d_id d0 \<in> d_id ` set ds" by (rule image_eqI [where x = x]) (use x px in simp_all)
    then show False using assms(2) by simp
  qed
  have "map (\<lambda>x. if ?P x then ?f x else x) ds = ds" by (rule map_update_none [OF none])
  moreover have "?P d0" using r(2) rd by blast
  then have "(if ?P d0 then ?f d0 else d0) = d" unfolding d by (rule if_P)
  ultimately have "rs = ds @ [d]" unfolding rs by (simp only: map_append list.map)
  then show "s' = setDevices (ds @ [d]) s" by (simp add: s' setDevices_def)
qed

lemma pairInTx_Inr:
  assumes "pairInTx e sha code prefix arg secret cprefix chash c s = Inr (r, s')"
  shows "\<exists>p. paired e c sha code prefix s s' p (rr_Device r) (rr_Credential r)"
    and "rr_Secret r = secret" and "dc_lookup_prefix (rr_Credential r) = cprefix" and "dc_credential_hash (rr_Credential r) = chash"
proof -
  from assms obtain p d0 cons d k s1 s2 s3 where
    get: "GetDevicePairingCodeByPrefix e c prefix s = Inr p" and ok: "SecretMatches sha code (pc_hash p) = Inr True"
    and reg: "RegisterDeviceRow e c (gen e 0) (pc_org p) (nullableUUID (pc_loc p)) None (pc_device_type p) (pd_Platform arg)
      (pd_AppVersion arg) (nullableText (pd_Name arg)) (pd_Capabilities arg) (pd_Configuration arg) 60 s = Inr (d0, s1)"
    and con: "ConsumeDevicePairingCode e c (pc_id p) (nullableUUID (d_id d0)) s1 = Inr (cons, s2)"
    and tr: "TrustDeviceRow e c (d_id d0) (pc_org p) s2 = Inr (d, s3)"
    and cred: "CreateDeviceCredential e c (gen e 1) (pc_org p) (d_id d) cprefix chash None s3 = Inr (k, s')"
    and r: "r = \<lparr>rr_Device = d, rr_Credential = k, rr_Secret = secret\<rparr>"
    unfolding pairInTx_def by (auto simp: txBind_Inr_iff runQuery_Inr reading_Inr txLift_Inr txGuard_Inr_iff)
  note R = RegisterDeviceRow_Inr [OF reg]
  define cs where "cs = map (\<lambda>x. if openPairingCode e c x \<and> pc_id x = pc_id p
        then x\<lparr>pc_consumed_at := Some (now e), pc_consumed_by_device := nullableUUID (d_id d0), pc_updated_at := now e\<rparr> else x)
        (device_pairing_codes s)"
  from con have s2: "s2 = setDevices (devices (core s) @ [d0]) (s\<lparr>device_pairing_codes := cs\<rparr>)"
    unfolding cs_def by (auto simp: ConsumeDevicePairingCode_def R(1) setDevices_def elim!: map_sum_InrE updateOne_InrE)
  note T = TrustDeviceRow_new [OF tr [unfolded s2] R(2)]
  note C = CreateDeviceCredential_Inr [OF cred]
  from get have p: "p \<in> set (device_pairing_codes s)" "pc_lookup_prefix p = prefix" "openPairingCode e c p"
    by (auto simp: GetDevicePairingCodeByPrefix_def selectOne_Inr dest!: find_SomeD)
  from ok have "pc_hash p = sha (trimSpace code)" by (auto simp: SecretMatches_def HashSecret_def Let_def split: sum.splits if_splits)
  then have "paired e c sha code prefix s s' p d k"
    using p R T C by (simp add: paired_def cs_def trustedDevice_def)
  then show "\<exists>p. paired e c sha code prefix s s' p (rr_Device r) (rr_Credential r)" by (auto simp: r)
  show "rr_Secret r = secret" "dc_lookup_prefix (rr_Credential r) = cprefix" "dc_credential_hash (rr_Credential r) = chash"
    using C by (simp_all add: r)
qed

end
