(* ===== verification/Trust.thy ===== *)
theory Trust
  imports Devices Sample
begin

text \<open>
  The properties of devices: who authenticates, and what revocation, pairing and the permission checks
  guarantee, for every sequence of device operations in any world. \<open>linkOk\<close> ties the credentials to
  their devices.
\<close>

section \<open>Steps\<close>

inductive device_step :: "idb \<Rightarrow> idb \<Rightarrow> bool" where
  register: "device_step s (snd (RegisterDevice e rnd sha rarg s))"
| pairing_code: "device_step s (snd (CreatePairingCode e upper rnd sha carg s))"
| pair: "device_step s (snd (PairDevice e upper rnd sha parg s))"
| authenticate: "device_step s (snd (AuthenticateDeviceCredential e sha secret s))"
| heartbeat: "device_step s (snd (RecordHeartbeat e0 e sha harg s))"
| trust: "device_step s (snd (TrustDevice e org i s))"
| revoke: "device_step s (snd (RevokeDevice e actor i s))"

lemma device_step_tables: "device_step s s' \<Longrightarrow> tableRel s s'"
  by (induction rule: device_step.induct)
    (simp_all add: RegisterDevice_keeps [unfolded followsTx_def] CreatePairingCode_keeps [unfolded followsTx_def]
      PairDevice_keeps [unfolded followsTx_def] AuthenticateDeviceCredential_keeps [unfolded followsTx_def]
      RecordHeartbeat_keeps [unfolded followsTx_def] TrustDevice_keeps [unfolded followsTx_def]
      RevokeDevice_keeps [unfolded followsTx_def])

lemma device_steps_tables: "device_step\<^sup>*\<^sup>* s s' \<Longrightarrow> tableRel s s'"
  by (induction rule: rtranclp_induct) (blast intro: tab.rel_refl tab.rel_trans device_step_tables)+


section \<open>Credentials belong to their devices\<close>

definition linkOk :: "idb \<Rightarrow> bool" where
  "linkOk s \<longleftrightarrow>
     (\<forall>k \<in> set (device_credentials s). \<exists>d \<in> set (devices (core s)).
        d_id d = dc_device k \<and> d_org d = dc_org k \<and> (d_revoked_at d \<noteq> None \<longrightarrow> dc_revoked_at k \<noteq> None))"

definition linkRel :: "idb \<Rightarrow> idb \<Rightarrow> bool" where
  "linkRel s s' \<longleftrightarrow> (tablesOk s \<and> linkOk s \<longrightarrow> tablesOk s' \<and> linkOk s')"

interpretation link: identity_order linkRel
  by unfold_locales (auto simp: linkRel_def)

lemma linkRelI:
  assumes "keeps m" and "\<And>s v s'. tablesOk s \<Longrightarrow> linkOk s \<Longrightarrow> m s = Inr (v, s') \<Longrightarrow> linkOk s'"
  shows "follows linkRel m"
  using assms by (auto simp: follows_def linkRel_def tableRel_def)

text \<open>An update of a device that keeps its key, organisation and revocation.\<close>

lemma link_updateDevice:
  assumes "keeps (updateDevice e c i org P f)"
    and "\<And>d. d_id (f d) = d_id d \<and> d_org (f d) = d_org d \<and> d_revoked_at (f d) = d_revoked_at d"
  shows "follows linkRel (updateDevice e c i org P f)"
proof (rule linkRelI [OF assms(1)])
  fix s v s'
  assume ok: "linkOk s" and run: "updateDevice e c i org P f s = Inr (v, s')"
  from run obtain g where s': "s' = setDevices (map g (devices (core s))) s"
    and g: "\<And>d. d_id (g d) = d_id d \<and> d_org (g d) = d_org d \<and> d_revoked_at (g d) = d_revoked_at d"
  proof -
    define g where "g d = (if visible_org e c (d_org d) \<and> d_id d = i \<and> d_org d = org \<and> P d then f d else d)" for d
    have "s' = setDevices (map g (devices (core s))) s"
      using run unfolding g_def by (auto simp: updateDevice_def elim!: map_sum_InrE updateOne_InrE)
    then show ?thesis by (rule that) (simp add: g_def assms(2))
  qed
  show "linkOk s'" using ok unfolding linkOk_def s' by (simp add: g)
qed

lemma link_TrustDeviceRow [keeps_intros]: "follows linkRel (TrustDeviceRow e c i org)"
  using keeps_TrustDeviceRow [of e c i org] unfolding TrustDeviceRow_def by (rule link_updateDevice) simp

lemma link_MarkDeviceSeen [keeps_intros]: "follows linkRel (MarkDeviceSeen e c i org)"
  using keeps_MarkDeviceSeen [of e c i org] unfolding MarkDeviceSeen_def by (rule link_updateDevice) simp

lemma link_RecordDeviceHeartbeat [keeps_intros]: "follows linkRel (RecordDeviceHeartbeat e c i org appVersion cap)"
proof (cases "jsonbOf cap")
  case None
  then show ?thesis by (auto simp: follows_def RecordDeviceHeartbeat_def)
next
  case (Some j)
  have eq: "RecordDeviceHeartbeat e c i org appVersion cap = updateDevice e c i org trustedDevice
     (\<lambda>d. d\<lparr>d_last_seen_at := Some (now e), d_last_heartbeat_at := Some (now e), d_app_version := appVersion,
            d_capabilities := j, d_updated_at := now e\<rparr>)"
    using Some by (simp add: RecordDeviceHeartbeat_def fun_eq_iff)
  show ?thesis using keeps_RecordDeviceHeartbeat [of e c i org appVersion cap] unfolding eq by (rule link_updateDevice) simp
qed

lemma link_credentials:
  assumes "keeps m" and m: "m = (\<lambda>s. Inr ((), s\<lparr>device_credentials := map f (device_credentials s)\<rparr>))"
    and f: "\<And>k. dc_device (f k) = dc_device k \<and> dc_org (f k) = dc_org k \<and> (dc_revoked_at k \<noteq> None \<longrightarrow> dc_revoked_at (f k) \<noteq> None)"
  shows "follows linkRel m"
  using assms(1)
proof (rule linkRelI)
  fix s v s'
  assume ok: "linkOk s" and "m s = Inr (v, s')"
  then have "device_credentials s' = map f (device_credentials s)" "core s' = core s" by (auto simp: m)
  then show "linkOk s'" using ok f unfolding linkOk_def by (simp del: not_None_eq) metis
qed

lemma link_TouchDeviceCredential [keeps_intros]: "follows linkRel (TouchDeviceCredential e c i)"
  by (rule link_credentials [OF keeps_TouchDeviceCredential ext]) (rule TouchDeviceCredential_def, simp)

lemma link_RevokeDeviceCredentials [keeps_intros]: "follows linkRel (RevokeDeviceCredentials e c org d)"
  by (rule link_credentials [OF keeps_RevokeDeviceCredentials ext]) (rule RevokeDeviceCredentials_def, simp)

lemma link_CreateDevicePairingCode [keeps_intros]:
  "follows linkRel (CreateDevicePairingCode e c i org loc createdBy deviceType prefix hash expires)"
  by (rule linkRelI [OF keeps_CreateDevicePairingCode])
    (auto simp: CreateDevicePairingCode_def Let_def linkOk_def insertRow_Inr elim!: map_sum_InrE)

lemma link_permission [keeps_intros]:
  "follows linkRel (requireOrganisationPermission e c actor permission)"
  "follows linkRel (requireLocationPermission e c actor permission)"
  "follows linkRel (requireDeviceManage e c actor loc)"
  unfolding requireDeviceManage_def requireOrganisationPermission_def requireLocationPermission_def
  by (intro keeps_intros)+

text \<open>A new device together with its credential.\<close>

lemma linkOk_pair:
  assumes "linkOk s" and "devices (core s') = devices (core s) @ [d]" and "device_credentials s' = device_credentials s @ [k]"
    and "dc_org k = d_org d" and "dc_device k = d_id d" and "d_revoked_at d = None"
  shows "linkOk s'"
  using assms unfolding linkOk_def by auto

lemma CreatePairingCode_link: "followsTx linkRel (CreatePairingCode e upper rnd sha arg)"
  unfolding CreatePairingCode_def Let_def by (intro keeps_intros)

lemma AuthenticateDeviceCredential_link: "followsTx linkRel (AuthenticateDeviceCredential e sha secret)"
  unfolding AuthenticateDeviceCredential_def by (intro keeps_intros)

lemma TrustDevice_link: "followsTx linkRel (TrustDevice e org i)"
  unfolding TrustDevice_def by (intro keeps_intros)

lemma RecordHeartbeat_link: "followsTx linkRel (RecordHeartbeat e0 e sha arg)"
  unfolding RecordHeartbeat_def Let_def
  by (intro keeps_intros link.then_follows AuthenticateDeviceCredential_link)

lemma register_link:
  "follows linkRel
     (txBind (runQuery e site1 None
        (RegisterDeviceRow e c i org loc user deviceType platform appVersion name cap conf heartbeat)) (\<lambda>device.
      txBind (runQuery e site2 None (CreateDeviceCredential e c j org (d_id device) prefix hash expires)) (\<lambda>credential.
      txReturn (r device credential))))"
proof (rule linkRelI)
  show "keeps (txBind (runQuery e site1 None
        (RegisterDeviceRow e c i org loc user deviceType platform appVersion name cap conf heartbeat)) (\<lambda>device.
      txBind (runQuery e site2 None (CreateDeviceCredential e c j org (d_id device) prefix hash expires)) (\<lambda>credential.
      txReturn (r device credential))))"
    by (intro keeps_intros)
next
  fix s v s'
  assume ok: "linkOk s" and "txBind (runQuery e site1 None
        (RegisterDeviceRow e c i org loc user deviceType platform appVersion name cap conf heartbeat)) (\<lambda>device.
      txBind (runQuery e site2 None (CreateDeviceCredential e c j org (d_id device) prefix hash expires)) (\<lambda>credential.
      txReturn (r device credential))) s = Inr (v, s')"
  then obtain d k s1 where
    reg: "RegisterDeviceRow e c i org loc user deviceType platform appVersion name cap conf heartbeat s = Inr (d, s1)"
    and cred: "CreateDeviceCredential e c j org (d_id d) prefix hash expires s1 = Inr (k, s')"
    by (auto simp: txBind_Inr_iff runQuery_Inr)
  note R = RegisterDeviceRow_Inr [OF reg] and C = CreateDeviceCredential_Inr [OF cred]
  show "linkOk s'" by (rule linkOk_pair [OF ok, where d = d and k = k]) (simp_all add: R C)
qed

lemma RegisterDevice_link: "followsTx linkRel (RegisterDevice e rnd sha arg)"
  unfolding RegisterDevice_def Let_def
  by (intro link.if_follows link.sum_follows link.prodTx_follows link.const_follows link.inIdentityTenantTx_follows register_link)

lemma pair_link: "follows linkRel (pairInTx e sha code prefix arg secret cprefix chash c)"
proof (rule linkRelI)
  show "keeps (pairInTx e sha code prefix arg secret cprefix chash c)"
    unfolding pairInTx_def by (intro keeps_intros)
next
  fix s v s'
  assume ok: "linkOk s" and "pairInTx e sha code prefix arg secret cprefix chash c s = Inr (v, s')"
  from pairInTx_Inr(1) [OF this(2)] obtain p where "paired e c sha code prefix s s' p (rr_Device v) (rr_Credential v)" by blast
  then show "linkOk s'"
    by (intro linkOk_pair [OF ok, where d = "rr_Device v" and k = "rr_Credential v"]) (simp_all add: paired_def trustedDevice_def)
qed

lemma PairDevice_link: "followsTx linkRel (PairDevice e upper rnd sha arg)"
  unfolding PairDevice_def Let_def
  by (intro link.if_follows link.sum_follows link.prodTx_follows link.const_follows link.inAdminTx_follows pair_link)

lemma RevokeDeviceRow_Inr:
  assumes "RevokeDeviceRow e c i org s = Inr (d, s')"
  obtains d0 where "d0 \<in> set (devices (core s))" and "d_id d0 = i" and "d_org d0 = org" and "visible_org e c org"
    and "d = d0\<lparr>d_trust_state := DeviceTrustRevoked, d_revoked_at := Some (now e), d_updated_at := now e\<rparr>"
    and "distinct (map d_id (devices (core s))) \<Longrightarrow>
      s' = setDevices (map (\<lambda>x. if d_id x = i then d else x) (devices (core s))) s"
proof -
  from assms obtain ds where u: "updateOne (\<lambda>d. visible_org e c (d_org d) \<and> d_id d = i \<and> d_org d = org \<and> d_revoked_at d = None) deviceCheck
      (\<lambda>d. d\<lparr>d_trust_state := DeviceTrustRevoked, d_revoked_at := Some (now e), d_updated_at := now e\<rparr>) (devices (core s)) = Inr (d, ds)"
    and s': "s' = setDevices ds s"
    unfolding RevokeDeviceRow_def updateDevice_def by (auto elim!: map_sum_InrE)
  show ?thesis by (rule updateOne_keyE [OF u, where k = d_id and i = i]) (use that s' in auto)
qed

lemma revoke_link:
  "follows linkRel
     (txBind (runQuery e site1 None (RevokeDeviceCredentials e c org i)) (\<lambda>_.
      runQuery e site2 nr (RevokeDeviceRow e c i org)))" (is "follows linkRel ?m")
proof (rule linkRelI)
  show "keeps ?m" by (intro keeps_intros)
next
  fix s v s'
  assume ok: "tablesOk s" "linkOk s" and "?m s = Inr (v, s')"
  then obtain s1 where cred: "RevokeDeviceCredentials e c org i s = Inr ((), s1)" and rev: "RevokeDeviceRow e c i org s1 = Inr (v, s')"
    by (auto simp: txBind_Inr_iff runQuery_Inr)
  define f where "f k = (if visible_org e c (dc_org k) \<and> dc_org k = org \<and> dc_device k = i \<and> dc_revoked_at k = None
      then k\<lparr>dc_revoked_at := Some (now e), dc_updated_at := now e\<rparr> else k)" for k :: DeviceCredential
  from cred have s1: "s1 = s\<lparr>device_credentials := map f (device_credentials s)\<rparr>"
    unfolding f_def RevokeDeviceCredentials_def by simp
  let ?ds = "devices (core s)"
  from ok have d: "distinct (map d_id ?ds)" by (simp add: tablesOk_def)
  from rev obtain d0 where d0: "d0 \<in> set ?ds" "d_id d0 = i" "d_org d0 = org" "visible_org e c org"
    and v: "v = d0\<lparr>d_trust_state := DeviceTrustRevoked, d_revoked_at := Some (now e), d_updated_at := now e\<rparr>"
    and s': "s' = setDevices (map (\<lambda>x. if d_id x = i then v else x) ?ds) s1"
    by (rule RevokeDeviceRow_Inr) (use d s1 in auto)
  show "linkOk s'" unfolding linkOk_def
  proof
    fix k'
    assume "k' \<in> set (device_credentials s')"
    then obtain k where k: "k \<in> set (device_credentials s)" and k': "k' = f k" by (auto simp: s' s1)
    from ok(2) k obtain x where x: "x \<in> set ?ds" "d_id x = dc_device k" "d_org x = dc_org k"
      "d_revoked_at x \<noteq> None \<longrightarrow> dc_revoked_at k \<noteq> None" unfolding linkOk_def by blast
    show "\<exists>d \<in> set (devices (core s')). d_id d = dc_device k' \<and> d_org d = dc_org k' \<and> (d_revoked_at d \<noteq> None \<longrightarrow> dc_revoked_at k' \<noteq> None)"
    proof (cases "d_id x = i")
      case True
      then have "x = d0" using distinct_key_eq [OF d x(1) d0(1)] d0(2) by simp
      then have "dc_revoked_at k' \<noteq> None" using x True d0 by (auto simp: k' f_def)
      moreover have "dc_device k' = dc_device k" "dc_org k' = dc_org k" by (simp_all add: k' f_def)
      ultimately show ?thesis using x True d0(1,2) \<open>x = d0\<close> by (intro bexI [where x = v]) (auto simp: s' v intro!: image_eqI [where x = d0])
    next
      case False
      then have "k' = k" using x by (auto simp: k' f_def)
      then show ?thesis using x False by (intro bexI [where x = x]) (auto simp: s' intro!: image_eqI [where x = x])
    qed
  qed
qed

lemma RevokeDevice_link: "followsTx linkRel (RevokeDevice e actor i)"
  unfolding RevokeDevice_def Let_def
  by (intro link.optionTx_follows link.const_follows link.inIdentityTenantTx_follows link.bind_follows [OF link.query_follows]
    link.reading_follows link.bind_follows [OF link_permission(3)] revoke_link)

lemma device_step_link: "device_step s s' \<Longrightarrow> linkRel s s'"
  by (induction rule: device_step.induct)
    (simp_all add: RegisterDevice_link [unfolded followsTx_def] CreatePairingCode_link [unfolded followsTx_def]
      PairDevice_link [unfolded followsTx_def] AuthenticateDeviceCredential_link [unfolded followsTx_def]
      RecordHeartbeat_link [unfolded followsTx_def] TrustDevice_link [unfolded followsTx_def]
      RevokeDevice_link [unfolded followsTx_def])

lemma device_steps_link: "device_step\<^sup>*\<^sup>* s s' \<Longrightarrow> linkRel s s'"
  by (induction rule: rtranclp_induct) (blast intro: link.rel_refl link.rel_trans device_step_link)+

section \<open>What the operations answer\<close>

lemma inAdminTx_Inr:
  "inAdminTx e m s = (Inr v, s') \<longleftrightarrow>
     \<not> fault e ''beginning transaction'' \<and> \<not> fault e ''setting platform admin context'' \<and>
     m admin_context s = Inr (v, s') \<and> commit e = Committed"
  by (auto simp: inAdminTx_def identityTx_def commitIdentity_def txGuard_def split: sum.splits commit_outcome.splits)

lemma inIdentityTenantTx_Inr:
  "inIdentityTenantTx e org loc m s = (Inr v, s') \<longleftrightarrow>
     \<not> fault e ''beginning transaction'' \<and> \<not> fault e ''setting tenant context'' \<and>
     m (actorContext org loc) s = Inr (v, s') \<and> commit e = Committed"
  by (auto simp: inIdentityTenantTx_def identityTx_def commitIdentity_def txGuard_def split: sum.splits commit_outcome.splits)

lemma inAdminTx_Inl: "m admin_context s = Inl err \<Longrightarrow> \<exists>err'. inAdminTx e m s = (Inl err', s)"
  by (auto simp: inAdminTx_def identityTx_def txGuard_def)

lemma freshSecret_Inr:
  "freshSecret rnd sha site = Inr (secret, prefix, hash) \<Longrightarrow>
     LookupPrefix secret = Inr prefix \<and> HashSecret sha secret = Inr hash"
  by (auto simp: freshSecret_def split: sum.splits)

lemma PairDevice_Inr:
  assumes "PairDevice e upper rnd sha arg s = (Inr r, s')"
  obtains prefix p where "PairingCodeLookupPrefix upper (NormalizePairingCode upper (pd_Code arg)) = Inr prefix"
    and "paired e admin_context sha (NormalizePairingCode upper (pd_Code arg)) prefix s s' p (rr_Device r) (rr_Credential r)"
    and "LookupPrefix (rr_Secret r) = Inr (dc_lookup_prefix (rr_Credential r))"
    and "HashSecret sha (rr_Secret r) = Inr (dc_credential_hash (rr_Credential r))"
proof -
  from assms obtain prefix arg' secret cp ch where pre: "PairingCodeLookupPrefix upper (NormalizePairingCode upper (pd_Code arg)) = Inr prefix"
    and fresh: "freshSecret rnd sha ''generating device credential'' = Inr (secret, cp, ch)"
    and run: "pairInTx e sha (NormalizePairingCode upper (pd_Code arg)) prefix arg' secret cp ch admin_context s = Inr (r, s')"
    unfolding PairDevice_def Let_def by (auto simp: inAdminTx_Inr split: sum.splits if_splits prod.splits)
  from pairInTx_Inr(1) [OF run] obtain p
    where "paired e admin_context sha (NormalizePairingCode upper (pd_Code arg)) prefix s s' p (rr_Device r) (rr_Credential r)" by blast
  then show ?thesis by (rule that [OF pre]) (use pairInTx_Inr(2-) [OF run] freshSecret_Inr [OF fresh] in simp_all)
qed

lemma AuthenticateDeviceCredential_Inr:
  assumes "AuthenticateDeviceCredential e sha secret s = (Inr d, s')"
  obtains k where "k \<in> set (device_credentials s)" and "d \<in> set (devices (core s))" and "d_id d = dc_device k"
    and "LookupPrefix secret = Inr (dc_lookup_prefix k)" and "HashSecret sha secret = Inr (dc_credential_hash k)"
    and "activeCredential e admin_context k" and "trustedDevice d"
proof -
  from assms obtain prefix k ok where "LookupPrefix secret = Inr prefix"
    and "GetDeviceCredentialByPrefix e admin_context prefix s = Inr (k, d)"
    and "SecretMatches sha secret (dc_credential_hash k) = Inr ok" and ok
    unfolding AuthenticateDeviceCredential_def
    by (auto simp: inAdminTx_Inr txBind_Inr_iff runQuery_Inr reading_Inr txLift_Inr txGuard_Inr_iff split: sum.splits)
  then show ?thesis
    by (intro that [of k])
      (auto simp: GetDeviceCredentialByPrefix_def SecretMatches_def selectOne_Inr split: sum.splits dest!: find_SomeD)
qed

text \<open>A key of which all devices are revoked, or all codes consumed, stays so.\<close>

lemma revoked_stays:
  assumes "device_step\<^sup>*\<^sup>* s s'" and "tablesOk s" and "d \<in> set (devices (core s))" and "d_revoked_at d \<noteq> None"
    and "d' \<in> set (devices (core s'))" and "d_id d' = d_id d"
  shows "d_revoked_at d' \<noteq> None"
proof -
  have ev: "evolves d_id deviceMoves (devices (core s)) (devices (core s'))"
    using device_steps_tables [OF assms(1)] assms(2) by (simp add: tableRel_def advances_def)
  have "\<forall>x \<in> set (devices (core s)). d_id x = d_id d \<longrightarrow> d_revoked_at x \<noteq> None"
    using assms(2-4) distinct_key_eq [of d_id "devices (core s)"] unfolding tablesOk_def by metis
  from devs.evolves_gone [OF ev imageI [OF assms(3)] this] show ?thesis using assms(5,6) by blast
qed

lemma consumed_stays:
  assumes "device_step\<^sup>*\<^sup>* s s'" and "tablesOk s" and "p \<in> set (device_pairing_codes s)" and "pc_consumed_at p \<noteq> None"
    and "p' \<in> set (device_pairing_codes s')" and "pc_lookup_prefix p' = pc_lookup_prefix p"
  shows "pc_consumed_at p' \<noteq> None"
proof -
  have ev: "evolves pc_lookup_prefix codeMoves (device_pairing_codes s) (device_pairing_codes s')"
    using device_steps_tables [OF assms(1)] assms(2) by (simp add: tableRel_def advances_def)
  have "\<forall>x \<in> set (device_pairing_codes s). pc_lookup_prefix x = pc_lookup_prefix p \<longrightarrow> pc_consumed_at x \<noteq> None"
    using assms(2-4) distinct_key_eq [of pc_lookup_prefix "device_pairing_codes s"] unfolding tablesOk_def by metis
  from codes.evolves_gone [OF ev imageI [OF assms(3)] this] show ?thesis using assms(5,6) by blast
qed

lemma RevokeDevice_Inr:
  assumes "RevokeDevice e actor i s = (Inr d, s')"
  obtains current s1 where "GetDevice e (actorContext (ta_OrganisationID actor) uuid_Nil) i (ta_OrganisationID actor) s = Inr current"
    and "requireDeviceManage e (actorContext (ta_OrganisationID actor) uuid_Nil) (normalizeTenantActor actor) (d_loc current) s = Inr ((), s)"
    and "RevokeDeviceCredentials e (actorContext (ta_OrganisationID actor) uuid_Nil) (ta_OrganisationID actor) i s = Inr ((), s1)"
    and "RevokeDeviceRow e (actorContext (ta_OrganisationID actor) uuid_Nil) i (ta_OrganisationID actor) s1 = Inr (d, s')"
proof -
  from assms obtain current s0 s1 where
    get: "GetDevice e (actorContext (ta_OrganisationID actor) uuid_Nil) i (ta_OrganisationID actor) s = Inr current"
    and req: "requireDeviceManage e (actorContext (ta_OrganisationID actor) uuid_Nil) (normalizeTenantActor actor) (d_loc current) s = Inr ((), s0)"
    and cred: "RevokeDeviceCredentials e (actorContext (ta_OrganisationID actor) uuid_Nil) (ta_OrganisationID actor) i s0 = Inr ((), s1)"
    and rev: "RevokeDeviceRow e (actorContext (ta_OrganisationID actor) uuid_Nil) i (ta_OrganisationID actor) s1 = Inr (d, s')"
    unfolding RevokeDevice_def Let_def
    by (auto simp: inIdentityTenantTx_Inr txBind_Inr_iff runQuery_Inr reading_Inr normalizeTenantActor_def split: option.splits)
  have "s0 = s"
    using req unfolding requireDeviceManage_def requireOrganisationPermission_def requireLocationPermission_def
    by (auto simp: txBind_Inr_iff runQuery_Inr reading_Inr txGuard_Inr_iff split: option.splits)
  then show ?thesis using that get req cred rev by simp
qed

lemma RevokeDevice_revokes:
  assumes "RevokeDevice e actor i s = (Inr d, s1)" and "tablesOk s"
  shows "tablesOk s1" and "d \<in> set (devices (core s1)) \<and> d_id d = i \<and> d_revoked_at d \<noteq> None"
proof -
  have "device_step s s1" using device_step.revoke [of s e actor i] assms(1) by simp
  then show "tablesOk s1" using device_step_tables assms(2) unfolding tableRel_def by blast
  from assms(1) obtain c sa where cred: "RevokeDeviceCredentials e c (ta_OrganisationID actor) i s = Inr ((), sa)"
    and rev: "RevokeDeviceRow e c i (ta_OrganisationID actor) sa = Inr (d, s1)"
    by (rule RevokeDevice_Inr)
  from cred have sa: "core sa = core s" by (auto simp: RevokeDeviceCredentials_def)
  from rev show "d \<in> set (devices (core s1)) \<and> d_id d = i \<and> d_revoked_at d \<noteq> None"
    by (rule RevokeDeviceRow_Inr) (use assms(2) in \<open>auto simp: sa tablesOk_def\<close>)
qed

lemma find_only:
  assumes "x \<in> set xs" and "P x" and only: "\<And>y. y \<in> set xs \<Longrightarrow> P y \<Longrightarrow> y = x"
  shows "find P xs = Some x"
proof (cases "find P xs")
  case None
  then show ?thesis using assms(1,2) by (simp add: find_None_iff)
next
  case (Some y)
  then have "y = x" using only find_SomeD [OF Some] by blast
  then show ?thesis using Some by simp
qed

lemma visible_org_admin [simp]: "visible_org e admin_context org"
  by (simp add: visible_org_def seatd_has_organisation_access_def admin_context_def)

lemma MarkDeviceSeen_trusted:
  assumes "tablesOk s" and "d \<in> set (devices (core s))" and "trustedDevice d" and "visible_org e c (d_org d)"
  shows "\<exists>v s'. MarkDeviceSeen e c (d_id d) (d_org d) s = Inr (v, s')"
proof -
  let ?P = "\<lambda>x. visible_org e c (d_org x) \<and> d_id x = d_id d \<and> d_org x = d_org d \<and> trustedDevice x"
  let ?f = "\<lambda>x. x\<lparr>d_last_seen_at := Some (now e), d_updated_at := now e\<rparr>"
  have "deviceCheck d = None" using assms(1,2) by (simp add: tablesOk_def list_all_iff)
  then have "deviceCheck (?f d) = None" by (simp add: deviceCheck_def)
  then have "updateOne ?P deviceCheck ?f (devices (core s)) = Inr (?f d, map (\<lambda>x. if ?P x then ?f x else x) (devices (core s)))"
    using assms by (intro updateOne_unique [where k = d_id]) (auto simp: tablesOk_def)
  then show ?thesis by (simp add: MarkDeviceSeen_def updateDevice_def)
qed

section \<open>Properties\<close>

text \<open>
  C18. Authentication is sound: a secret authenticates a device only when it is the secret of a credential
  of that device that is neither revoked nor expired, and the device is trusted and not revoked.
\<close>
theorem authentication_sound:
  assumes "AuthenticateDeviceCredential e sha secret s = (Inr d, s')"
  shows "\<exists>k \<in> set (device_credentials s). d \<in> set (devices (core s)) \<and> dc_device k = d_id d \<and>
    d_trust_state d = DeviceTrustTrusted \<and> d_revoked_at d = None \<and> dc_revoked_at k = None \<and>
    (case dc_expires_at k of None \<Rightarrow> True | Some t \<Rightarrow> now e < t) \<and>
    dc_lookup_prefix k = take 16 (trimSpace secret) \<and> dc_credential_hash k = sha (trimSpace secret)"
  using assms
  by (rule AuthenticateDeviceCredential_Inr)
    (auto simp: activeCredential_def trustedDevice_def LookupPrefix_def HashSecret_def Let_def LookupPrefixLength_def split: if_splits)

text \<open>
  C17. A revoked device is out: after a successful \<^verbatim>\<open>RevokeDevice\<close>, no sequence of device operations, under
  any failures, lets any secret authenticate that device again.
\<close>
theorem revoked_device_is_out:
  assumes "RevokeDevice e actor i s = (Inr d, s1)" and "tablesOk s" and "device_step\<^sup>*\<^sup>* s1 s2"
  shows "case fst (AuthenticateDeviceCredential e' sha secret s2) of Inl err \<Rightarrow> True | Inr d' \<Rightarrow> d_id d' \<noteq> i"
proof (cases "AuthenticateDeviceCredential e' sha secret s2")
  case (Pair res s3)
  have ok: "tablesOk s1" and rev: "d \<in> set (devices (core s1))" "d_id d = i" "d_revoked_at d \<noteq> None"
    using RevokeDevice_revokes [OF assms(1,2)] by simp_all
  have "d_id d' \<noteq> i" if "res = Inr d'" for d'
    using Pair [unfolded that] revoked_stays [OF assms(3) ok rev(1,3), of d'] rev(2)
    by (auto simp: trustedDevice_def elim!: AuthenticateDeviceCredential_Inr)
  then show ?thesis by (simp add: Pair split: sum.split)
qed

text \<open>
  C19. A pairing code pairs one device: once \<^verbatim>\<open>PairDevice\<close> has accepted a code, the same code is refused for
  ever, and the refusal changes nothing.
\<close>
theorem pairing_code_single_use:
  assumes "PairDevice e upper rnd sha arg s = (Inr r, s1)" and "tablesOk s" and "device_step\<^sup>*\<^sup>* s1 s2"
    and "NormalizePairingCode upper (pd_Code arg') = NormalizePairingCode upper (pd_Code arg)"
  shows "\<exists>err. PairDevice e' upper rnd' sha' arg' s2 = (Inl err, s2)"
proof -
  have "device_step s s1" using device_step.pair [of s e upper rnd sha arg] assms(1) by simp
  then have ok: "tablesOk s1" using device_step_tables assms(2) unfolding tableRel_def by blast
  from assms(1) obtain prefix p where pre: "PairingCodeLookupPrefix upper (NormalizePairingCode upper (pd_Code arg)) = Inr prefix"
    and paired: "paired e admin_context sha (NormalizePairingCode upper (pd_Code arg)) prefix s s1 p (rr_Device r) (rr_Credential r)"
    by (rule PairDevice_Inr)
  let ?p = "p\<lparr>pc_consumed_at := Some (now e), pc_consumed_by_device := nullableUUID (d_id (rr_Device r)), pc_updated_at := now e\<rparr>"
  have used: "?p \<in> set (device_pairing_codes s1)" "pc_consumed_at ?p \<noteq> None" "pc_lookup_prefix ?p = prefix"
    using paired unfolding paired_def by (auto simp: image_iff intro!: bexI [where x = p])
  have gone: "GetDevicePairingCodeByPrefix e' admin_context prefix s2 = Inl ErrNoRows"
    unfolding GetDevicePairingCodeByPrefix_def selectOne_Inl
    using consumed_stays [OF assms(3) ok used(1,2)] used(3) by (auto simp: openPairingCode_def)
  have "\<exists>err. pairInTx e' sha' code prefix arg'' secret cp ch admin_context s2 = Inl err" for code arg'' secret cp ch
    unfolding pairInTx_def
    by (cases "fault e' ''getting device pairing code''") (auto simp: txBind_def runQuery_def reading_def gone)
  then have "\<exists>err. inAdminTx e' (pairInTx e' sha' code prefix arg'' secret cp ch) s2 = (Inl err, s2)" for code arg'' secret cp ch
    using inAdminTx_Inl by metis
  then show ?thesis
    unfolding PairDevice_def Let_def assms(4) pre by (auto split: sum.splits prod.splits)
qed

text \<open>
  The course of a device: whatever the operations do, a device keeps its identity, organisation,
  location and type, its trust only goes from pending to trusted to revoked, and the row of a revoked device
  never changes again.
\<close>
theorem device_lifecycle:
  assumes "device_step\<^sup>*\<^sup>* s s'" and "tablesOk s" and "d \<in> set (devices (core s))"
  shows "\<exists>d' \<in> set (devices (core s')). d_id d' = d_id d \<and> d_org d' = d_org d \<and> d_loc d' = d_loc d \<and>
    d_device_type d' = d_device_type d \<and> trustRank (d_trust_state d) \<le> trustRank (d_trust_state d') \<and>
    (d_revoked_at d \<noteq> None \<longrightarrow> d' = d)"
proof -
  have "evolves d_id deviceMoves (devices (core s)) (devices (core s'))"
    using device_steps_tables [OF assms(1)] assms(2) by (simp add: tableRel_def advances_def)
  then obtain d' where "d' \<in> set (devices (core s'))" "deviceMoves d d'" using assms(3) unfolding evolves_def by blast
  then show ?thesis unfolding deviceMoves_def by blast
qed

text \<open>
  The credentials follow their device: in every reachable state each credential belongs to a device of
  its own organisation, and a device that is revoked has only revoked credentials.
\<close>
theorem credentials_follow_device:
  assumes "device_step\<^sup>*\<^sup>* s s'" and "tablesOk s" and "linkOk s" and "k \<in> set (device_credentials s')"
  shows "\<exists>d \<in> set (devices (core s')). d_id d = dc_device k \<and> d_org d = dc_org k \<and>
    (d_revoked_at d \<noteq> None \<longrightarrow> dc_revoked_at k \<noteq> None)"
  using device_steps_link [OF assms(1)] assms(2-4) by (auto simp: linkRel_def linkOk_def)

text \<open>
  Round trip of pairing: the secret that \<^verbatim>\<open>PairDevice\<close> returns authenticates the paired device, in any
  later world without failures.
\<close>
theorem paired_device_authenticates:
  assumes "PairDevice e upper rnd sha arg s = (Inr r, s1)" and "tablesOk s" and "quiet e'"
  shows "fst (AuthenticateDeviceCredential e' sha (rr_Secret r) s1) = Inr (rr_Device r)"
proof -
  have "device_step s s1" using device_step.pair [of s e upper rnd sha arg] assms(1) by simp
  then have ok: "tablesOk s1" using device_step_tables assms(2) unfolding tableRel_def by blast
  let ?d = "rr_Device r" and ?k = "rr_Credential r"
  from assms(1) obtain prefix p where
    paired: "paired e admin_context sha (NormalizePairingCode upper (pd_Code arg)) prefix s s1 p ?d ?k"
    and lookup: "LookupPrefix (rr_Secret r) = Inr (dc_lookup_prefix ?k)"
    and hash: "HashSecret sha (rr_Secret r) = Inr (dc_credential_hash ?k)"
    by (rule PairDevice_Inr)
  have rows: "?d \<in> set (devices (core s1))" "?k \<in> set (device_credentials s1)" "dc_device ?k = d_id ?d" "trustedDevice ?d"
    and act: "activeCredential e' admin_context ?k"
    using paired by (auto simp: paired_def activeCredential_def)
  have find: "GetDeviceCredentialByPrefix e' admin_context (dc_lookup_prefix ?k) s1 = Inr (?k, ?d)"
    unfolding GetDeviceCredentialByPrefix_def selectOne_Inr
  proof (rule find_only)
    show "(?k, ?d) \<in> set (List.product (device_credentials s1) (devices (core s1)))" using rows by simp
    show "case (?k, ?d) of (k, d) \<Rightarrow> dc_lookup_prefix k = dc_lookup_prefix ?k \<and> activeCredential e' admin_context k \<and>
        visible_org e' admin_context (d_org d) \<and> d_id d = dc_device k \<and> trustedDevice d" using rows act by simp
  next
    fix y
    assume "y \<in> set (List.product (device_credentials s1) (devices (core s1)))" and "case y of (k, d) \<Rightarrow>
        dc_lookup_prefix k = dc_lookup_prefix ?k \<and> activeCredential e' admin_context k \<and>
        visible_org e' admin_context (d_org d) \<and> d_id d = dc_device k \<and> trustedDevice d"
    then show "y = (?k, ?d)"
      using ok rows distinct_key_eq [of dc_lookup_prefix "device_credentials s1" "fst y" ?k]
        distinct_key_eq [of d_id "devices (core s1)" "snd y" ?d]
      by (auto simp: tablesOk_def)
  qed
  have "\<exists>v s2. MarkDeviceSeen e' admin_context (d_id ?d) (d_org ?d) s1 = Inr (v, s2)"
    by (rule MarkDeviceSeen_trusted [OF ok rows(1,4)]) simp
  then obtain v s2 where seen: "MarkDeviceSeen e' admin_context (d_id ?d) (d_org ?d) s1 = Inr (v, s2)" by blast
  then show ?thesis
    using assms(3) lookup find hash
    by (simp add: AuthenticateDeviceCredential_def inAdminTx_def identityTx_def commitIdentity_def quiet_def no_faults_def
        runQuery_def reading_def txLift_def txBind_def SecretMatches_def TouchDeviceCredential_def)
qed

text \<open>
  Devices are managed by those who may: \<^verbatim>\<open>RevokeDevice\<close> succeeds only for a device of the caller's
  organisation, and only when the caller has \<^verbatim>\<open>device.manage\<close> at the location of the device (in the
  organisation, for a device without location).
\<close>
theorem device_management_authorised:
  assumes "RevokeDevice e actor i s = (Inr d, s')"
  shows "\<exists>x \<in> set (devices (core s)). d_id x = i \<and> d_org x = ta_OrganisationID actor \<and>
    (case d_loc x of
       None \<Rightarrow> ActorHasOrganisationPermission e (actorContext (ta_OrganisationID actor) uuid_Nil) (ta_OrganisationID actor)
                 (trimSpace (ta_ActorRef actor)) PermissionDeviceManage s
     | Some l \<Rightarrow> ActorHasLocationPermission e (actorContext (ta_OrganisationID actor) uuid_Nil) (ta_OrganisationID actor) l
                 (trimSpace (ta_ActorRef actor)) PermissionDeviceManage s)"
  using assms
proof (rule RevokeDevice_Inr)
  fix x
  assume get: "GetDevice e (actorContext (ta_OrganisationID actor) uuid_Nil) i (ta_OrganisationID actor) s = Inr x"
    and req: "requireDeviceManage e (actorContext (ta_OrganisationID actor) uuid_Nil) (normalizeTenantActor actor) (d_loc x) s = Inr ((), s)"
  from get have "x \<in> set (devices (core s))" "d_id x = i" "d_org x = ta_OrganisationID actor"
    by (auto simp: GetDevice_def selectOne_Inr dest!: find_SomeD)
  with req show ?thesis
    by (intro bexI [where x = x])
      (auto simp: requireDeviceManage_def requireOrganisationPermission_def requireLocationPermission_def normalizeTenantActor_def
        txBind_Inr_iff runQuery_Inr reading_Inr txGuard_Inr_iff split: option.splits)
qed

section \<open>Witnesses\<close>

definition sampleSha :: "string \<Rightarrow> bytes" where
  "sampleSha secret = replicate 24 0 @ map of_char (take 8 secret)"

definition sampleBytes :: "nat \<Rightarrow> bytes option" where
  "sampleBytes n = Some (replicate n 7)"

definition sampleIdb :: idb where
  "sampleIdb =
     \<lparr>core = sampleDb,
      organisations = [\<lparr>g_id = 1, g_slug = ''cafe'', g_name = ''Cafe'', g_status = ''active'', g_legacy_restaurant_id = None,
        g_created_at = 0, g_updated_at = 0, g_onboarded_at = None\<rparr>],
      user_profiles = [],
      organisation_memberships = [\<lparr>om_id = 11, om_org = 1, om_member_ref = ''alice'', om_role = ''owner'', om_created_at = 0,
        om_updated_at = 0, om_user_profile = None, om_disabled_at = None\<rparr>],
      location_memberships = [], role_permissions = [(''owner'', ''device.manage''), (''owner'', ''operations.read'')], device_credentials = [],
      device_pairing_codes = [\<lparr>pc_id = 12, pc_org = 1, pc_loc = 2, pc_created_by = ''alice'', pc_device_type = ''display'',
        pc_lookup_prefix = ''ABCD'', pc_hash = sampleSha ''ABCDEFGH'', pc_expires_at = 9000000, pc_consumed_at = None,
        pc_consumed_by_device = None, pc_created_at = 0, pc_updated_at = 0\<rparr>]\<rparr>"

definition samplePairing :: PairDeviceParams where
  "samplePairing =
     \<lparr>pd_Code = ''abcd-efgh'', pd_Platform = ''web'', pd_AppVersion = ''1.0'', pd_Name = '''', pd_Capabilities = NoBytes,
      pd_Configuration = NoBytes\<rparr>"

definition samplePair :: "RegisterDeviceResult id_result" where
  "samplePair = PairDevice sampleEnv id sampleBytes sampleSha samplePairing sampleIdb"

definition sampleManager :: TenantActor where
  "sampleManager = \<lparr>ta_OrganisationID = 1, ta_LocationID = 0, ta_ActorRef = ''alice''\<rparr>"

definition sampleAfter :: env where
  "sampleAfter = sampleEnv\<lparr>now := 6000000\<rparr>"

definition sampleRevoke :: "Device id_result" where
  "sampleRevoke = RevokeDevice sampleAfter sampleManager 100 (snd samplePair)"

lemma sampleIdb_ok: "tablesOk sampleIdb" "linkOk sampleIdb"
  by (simp_all add: tablesOk_def linkOk_def sampleIdb_def sampleDb_def)

lemma samplePair_run:
  "case fst samplePair of Inr r \<Rightarrow> d_id (rr_Device r) = 100 \<and> length (rr_Secret r) = 43 | Inl err \<Rightarrow> False"
  by code_simp

lemma sampleRevoke_run: "case fst sampleRevoke of Inr d \<Rightarrow> d_id d = 100 | Inl err \<Rightarrow> False"
  by code_simp

lemma samplePair_obtain:
  obtains r where "PairDevice sampleEnv id sampleBytes sampleSha samplePairing sampleIdb = (Inr r, snd samplePair)"
    and "d_id (rr_Device r) = 100"
  using samplePair_run by (cases samplePair) (auto simp: samplePair_def split: sum.splits)

lemma sampleRevoke_obtain:
  obtains d where "RevokeDevice sampleAfter sampleManager 100 (snd samplePair) = (Inr d, snd sampleRevoke)"
  using sampleRevoke_run by (cases sampleRevoke) (auto simp: sampleRevoke_def split: sum.splits)

lemma samplePair_step: "device_step sampleIdb (snd samplePair)"
  unfolding samplePair_def by (rule device_step.pair)

lemma samplePair_ok: "tablesOk (snd samplePair)"
  using device_step_tables [OF samplePair_step] sampleIdb_ok by (simp add: tableRel_def)

definition sampleSecret :: string where
  "sampleSecret = base64RawURL (replicate 32 7)"

text \<open>Witness of C18: the secret of the sample device authenticates it.\<close>
theorem authentication_sound_witness:
  "\<exists>d. fst (AuthenticateDeviceCredential sampleAfter sampleSha sampleSecret (snd samplePair)) = Inr d \<and>
     d_trust_state d = DeviceTrustTrusted \<and> d_id d = 100"
proof -
  let ?r = "AuthenticateDeviceCredential sampleAfter sampleSha sampleSecret (snd samplePair)"
  have "case fst ?r of Inr d \<Rightarrow> d_id d = 100 | Inl err \<Rightarrow> False" by code_simp
  then obtain d where d: "?r = (Inr d, snd ?r)" "d_id d = 100" by (cases ?r) (auto split: sum.splits)
  from authentication_sound [OF d(1)] d show ?thesis by (metis fst_conv)
qed

text \<open>Witness of C17: another device registers, is trusted and authenticates after the first is revoked.\<close>

definition sampleLater :: env where
  "sampleLater = sampleAfter\<lparr>gen := (\<lambda>n. 200 + of_nat n)\<rparr>"

definition sampleOtherBytes :: "nat \<Rightarrow> bytes option" where
  "sampleOtherBytes n = Some (replicate n 8)"

definition sampleRegistered :: "RegisterDeviceResult id_result" where
  "sampleRegistered = RegisterDevice sampleLater sampleOtherBytes sampleSha
     \<lparr>rd_OrganisationID = 1, rd_LocationID = 0, rd_UserProfileID = 0, rd_DeviceType = ''display'', rd_Platform = ''web'',
       rd_AppVersion = ''1.0'', rd_Name = ''wall'', rd_Capabilities = NoBytes, rd_Configuration = NoBytes,
       rd_HeartbeatEvery = 0, rd_ExpiresAt = zeroTime\<rparr> (snd sampleRevoke)"

definition sampleTrusted :: idb where
  "sampleTrusted = snd (TrustDevice sampleLater 1 200 (snd sampleRegistered))"

theorem revoked_device_is_out_witness:
  "(case fst (AuthenticateDeviceCredential sampleAfter sampleSha (base64RawURL (replicate 32 8)) sampleTrusted) of
      Inl err \<Rightarrow> True | Inr d' \<Rightarrow> d_id d' \<noteq> 100) \<and>
   (case fst (AuthenticateDeviceCredential sampleAfter sampleSha (base64RawURL (replicate 32 8)) sampleTrusted) of
      Inl err \<Rightarrow> False | Inr d' \<Rightarrow> d_id d' = 200) \<and>
   fst (AuthenticateDeviceCredential sampleAfter sampleSha sampleSecret sampleTrusted) = Inl (Err ErrUnauthorized)"
proof (intro conjI)
  obtain d where d: "RevokeDevice sampleAfter sampleManager 100 (snd samplePair) = (Inr d, snd sampleRevoke)"
    by (rule sampleRevoke_obtain)
  have "device_step\<^sup>*\<^sup>* (snd sampleRevoke) (snd sampleRegistered)"
    unfolding sampleRegistered_def by (intro r_into_rtranclp device_step.register)
  also have "device_step (snd sampleRegistered) sampleTrusted" unfolding sampleTrusted_def by (rule device_step.trust)
  finally show "case fst (AuthenticateDeviceCredential sampleAfter sampleSha (base64RawURL (replicate 32 8)) sampleTrusted) of
      Inl err \<Rightarrow> True | Inr d' \<Rightarrow> d_id d' \<noteq> 100"
    by (rule revoked_device_is_out [OF d samplePair_ok])
qed code_simp+

text \<open>Witness of C19: the code of the sample is refused the second time, however it is typed.\<close>
theorem pairing_code_single_use_witness:
  "\<exists>err. PairDevice sampleAfter id sampleOtherBytes sampleSha (samplePairing\<lparr>pd_Code := '' ABCDEFGH ''\<rparr>) (snd samplePair) =
     (Inl err, snd samplePair)"
proof -
  obtain r where "PairDevice sampleEnv id sampleBytes sampleSha samplePairing sampleIdb = (Inr r, snd samplePair)"
    by (rule samplePair_obtain)
  then show ?thesis using sampleIdb_ok(1) by (rule pairing_code_single_use) (simp, code_simp)
qed

text \<open>Example: the paired device is still there after it is revoked.\<close>
theorem device_lifecycle_witness:
  "\<exists>d' \<in> set (devices (core (snd sampleRevoke))). d_id d' = 100 \<and> d_loc d' = Some 2"
proof -
  let ?d = "hd (devices (core (snd samplePair)))"
  have d: "?d \<in> set (devices (core (snd samplePair)))" "d_id ?d = 100" "d_loc ?d = Some 2"
    by code_simp+
  have "device_step\<^sup>*\<^sup>* (snd samplePair) (snd sampleRevoke)"
    unfolding sampleRevoke_def by (intro r_into_rtranclp device_step.revoke)
  from device_lifecycle [OF this samplePair_ok d(1)] d(2,3) show ?thesis by metis
qed

text \<open>Example: the credential of the revoked sample device is revoked.\<close>
theorem credentials_follow_device_witness:
  "\<exists>k \<in> set (device_credentials (snd sampleRevoke)). \<exists>d \<in> set (devices (core (snd sampleRevoke))). d_id d = dc_device k \<and>
     d_org d = dc_org k \<and> d_revoked_at d \<noteq> None \<and> dc_revoked_at k \<noteq> None"
proof -
  let ?k = "hd (device_credentials (snd sampleRevoke))"
  have k: "?k \<in> set (device_credentials (snd sampleRevoke))" by code_simp
  have all: "\<forall>d \<in> set (devices (core (snd sampleRevoke))). d_revoked_at d \<noteq> None" by code_simp
  have "device_step\<^sup>*\<^sup>* sampleIdb (snd samplePair)" using samplePair_step by blast
  also have "device_step (snd samplePair) (snd sampleRevoke)" unfolding sampleRevoke_def by (rule device_step.revoke)
  finally have "\<exists>d \<in> set (devices (core (snd sampleRevoke))). d_id d = dc_device ?k \<and> d_org d = dc_org ?k \<and>
      (d_revoked_at d \<noteq> None \<longrightarrow> dc_revoked_at ?k \<noteq> None)"
    by (rule credentials_follow_device) (rule sampleIdb_ok sampleIdb_ok k)+
  then show ?thesis using k all by blast
qed

text \<open>Example: the pairing of the sample device.\<close>
theorem paired_device_authenticates_witness:
  "\<exists>r. fst samplePair = Inr r \<and> fst (AuthenticateDeviceCredential sampleAfter sampleSha (rr_Secret r) (snd samplePair)) = Inr (rr_Device r)"
proof -
  obtain r where r: "PairDevice sampleEnv id sampleBytes sampleSha samplePairing sampleIdb = (Inr r, snd samplePair)"
    by (rule samplePair_obtain)
  have "quiet sampleAfter" by (simp add: quiet_def no_faults_def sampleAfter_def sampleEnv_def)
  note auth = paired_device_authenticates [OF r sampleIdb_ok(1) this]
  have "fst samplePair = Inr r" using arg_cong [OF r, of fst] by (simp only: samplePair_def fst_conv)
  with auth show ?thesis by blast
qed

text \<open>Example: the owner of the sample organisation revokes the device.\<close>
theorem device_management_authorised_witness:
  "\<exists>x \<in> set (devices (core (snd samplePair))). d_id x = 100 \<and> d_org x = 1"
proof -
  obtain d where d: "RevokeDevice sampleAfter sampleManager 100 (snd samplePair) = (Inr d, snd sampleRevoke)"
    by (rule sampleRevoke_obtain)
  show ?thesis using device_management_authorised [OF d] by (auto simp: sampleManager_def)
qed

end
