(* ===== verification/Frames.thy ===== *)
theory Frames
  imports Guest
begin

unbundle bit_operations_syntax

text \<open>
  WebSocket frames, \<^verbatim>\<open>internal/realtime/websocket.go\<close>: reading a client's frame from the buffered
  connection, writing a server frame, the loop that answers pings, and the upgrade of a request. A
  connection's input is the bytes that will arrive before it ends; its output is the list of writes,
  the \<open>n\<close>-th of which may fail.
\<close>

section \<open>Reading a frame\<close>

definition opText :: "8 word" where "opText = 1"
definition opClose :: "8 word" where "opClose = 8"
definition opPing :: "8 word" where "opPing = 9"
definition opPong :: "8 word" where "opPong = 10"

definition maxFrameSize :: "64 word" where "maxFrameSize = push_bit 20 1"

datatype ws_error = EOF | UnexpectedEOF | WsError string | Cancelled

text \<open>\<^verbatim>\<open>io.ReadFull\<close>\<close>

definition readFull :: "nat \<Rightarrow> bytes \<Rightarrow> ws_error + bytes \<times> bytes" where
  "readFull n s =
     (if n \<le> length s then Inr (take n s, drop n s) else if s = [] then Inl EOF else Inl UnexpectedEOF)"

text \<open>\<^verbatim>\<open>binary.BigEndian\<close>, read into a uint64 and written from one.\<close>

definition bigEndian :: "bytes \<Rightarrow> 64 word" where
  "bigEndian bs = fold (\<lambda>b n. n * 256 + ucast b) bs 0"

definition putBigEndian :: "nat \<Rightarrow> nat \<Rightarrow> bytes" where
  "putBigEndian k n = map (\<lambda>i. word_of_nat (n div 256 ^ (k - 1 - i))) [0..<k]"

text \<open>\<^verbatim>\<open>payload[i] ^= mask[i%4]\<close>\<close>

definition xorMask :: "bytes \<Rightarrow> bytes \<Rightarrow> bytes" where
  "xorMask msk payload = map (\<lambda>(i, b). b XOR msk ! (i mod 4)) (enumerate 0 payload)"

text \<open>The switch on the seven-bit length.\<close>

definition readLength :: "64 word \<Rightarrow> bytes \<Rightarrow> ws_error + 64 word \<times> bytes" where
  "readLength len s =
     (if len = 126 then map_sum id (\<lambda>(ext, rest). (bigEndian ext, rest)) (readFull 2 s)
      else if len = 127 then map_sum id (\<lambda>(ext, rest). (bigEndian ext, rest)) (readFull 8 s)
      else Inr (len, s))"

definition readFrame :: "int \<Rightarrow> bytes \<Rightarrow> ws_error + (8 word \<times> bytes) \<times> bytes" where
  "readFrame readLimit s =
     (case readFull 2 s of
        Inl err \<Rightarrow> Inl err
      | Inr (header, s1) \<Rightarrow>
          if (header ! 0) AND 0x80 = 0 then Inl (WsError ''fragmented websocket frames are not supported'')
          else if (header ! 1) AND 0x80 = 0 then Inl (WsError ''client websocket frame is not masked'')
          else case readLength (ucast ((header ! 1) AND 0x7f)) s1 of
                 Inl err \<Rightarrow> Inl err
               | Inr (len, s2) \<Rightarrow>
                   if len > word_of_int readLimit \<or> len > maxFrameSize
                   then Inl (WsError ''websocket frame exceeds read limit'')
                   else case readFull 4 s2 of
                          Inl err \<Rightarrow> Inl err
                        | Inr (msk, s3) \<Rightarrow>
                            (case readFull (unat len) s3 of
                               Inl err \<Rightarrow> Inl err
                             | Inr (payload, s4) \<Rightarrow> Inr (((header ! 0) AND 0x0f, xorMask msk payload), s4)))"


section \<open>Writing a frame\<close>

definition frameHeader :: "8 word \<Rightarrow> nat \<Rightarrow> bytes" where
  "frameHeader op len =
     [0x80 OR op] @
     (if len < 126 then [word_of_nat len]
      else if len \<le> 65535 then 126 # putBigEndian 2 len
      else 127 # putBigEndian 8 len)"

definition connWrite :: "(nat \<Rightarrow> bool) \<Rightarrow> bytes \<Rightarrow> bytes list \<Rightarrow> bytes list option" where
  "connWrite fails b out = (if fails (length out) then None else Some (out @ [b]))"

definition writeFrame ::
  "(nat \<Rightarrow> bool) \<Rightarrow> 8 word \<Rightarrow> bytes \<Rightarrow> bytes list \<Rightarrow> ws_error option \<times> bytes list" where
  "writeFrame fails op payload out =
     (case connWrite fails (frameHeader op (length payload)) out of
        None \<Rightarrow> (Some (WsError ''writing websocket frame header''), out)
      | Some out1 \<Rightarrow>
          if payload = [] then (None, out1)
          else case connWrite fails payload out1 of
                 None \<Rightarrow> (Some (WsError ''writing websocket frame payload''), out1)
               | Some out2 \<Rightarrow> (None, out2))"

text \<open>What a frame is on the wire, and what a client sends for it: the same frame, masked (RFC 6455, 5.3).\<close>

definition frameBytes :: "8 word \<Rightarrow> bytes \<Rightarrow> bytes" where
  "frameBytes op payload = frameHeader op (length payload) @ payload"

definition clientFrame :: "bytes \<Rightarrow> 8 word \<Rightarrow> bytes \<Rightarrow> bytes" where
  "clientFrame msk op payload =
     (let h = frameHeader op (length payload)
      in h[1 := h ! 1 OR 0x80] @ msk @ xorMask msk payload)"

lemma writeFrame_bytes: "\<exists>out'. writeFrame (\<lambda>n. False) op payload out = (None, out') \<and> concat out' = concat out @ frameBytes op payload"
  by (auto simp: writeFrame_def connWrite_def frameBytes_def)

lemma length_xorMask [simp]: "length (xorMask msk p) = length p"
  by (simp add: xorMask_def)

lemma xorMask_invol [simp]: "xorMask msk (xorMask msk p) = p"
proof (rule nth_equalityI)
  fix i
  assume "i < length (xorMask msk (xorMask msk p))"
  then show "xorMask msk (xorMask msk p) ! i = p ! i"
    by (simp add: xorMask_def nth_enumerate_eq ac_simps flip: xor.assoc)
qed simp

lemma readFull_append [simp]: "length a = n \<Longrightarrow> readFull n (a @ b) = Inr (a, b)"
  by (auto simp: readFull_def)

lemma readFull_InrD:
  assumes "readFull n s = Inr (a, b)"
  shows "s = a @ b" "length a = n"
  using assms by (auto simp: readFull_def split: if_splits)

lemma bit7:
  fixes w :: "8 word"
  assumes "w < 128"
  shows "(w OR 0x80) AND 0x7f = w" "(w OR 0x80) AND 0x80 \<noteq> 0"
proof -
  have "unat (take_bit 7 w) = unat w"
    using assms by (simp add: unsigned_take_bit_eq take_bit_eq_mod word_less_nat_alt unat_mod)
  then have t: "take_bit 7 w = w" by (simp add: word_unat_eq_iff)
  have "(w OR 0x80) AND 0x7f = take_bit 7 (w OR 0x80)" by (simp add: take_bit_eq_mask mask_eq_exp_minus_1)
  also have "\<dots> = take_bit 7 w OR take_bit 7 0x80" by (rule take_bit_or)
  also have "take_bit 7 (0x80 :: 8 word) = 0" by simp
  finally show "(w OR 0x80) AND 0x7f = w" using t by simp
  have "bit (w OR 0x80) 7" by (simp add: bit_simps)
  then show "(w OR 0x80) AND 0x80 \<noteq> 0" using and_exp_eq_0_iff_not_bit [of "w OR 0x80" 7] by simp
qed

lemma bit4:
  fixes op :: "8 word"
  assumes "op < 16"
  shows "(0x80 OR op) AND 0x0f = op" "(0x80 OR op) AND 0x80 \<noteq> 0"
proof -
  have "unat (take_bit 4 op) = unat op"
    using assms by (simp add: unsigned_take_bit_eq take_bit_eq_mod word_less_nat_alt unat_mod)
  then have t: "take_bit 4 op = op" by (simp add: word_unat_eq_iff)
  have "(0x80 OR op) AND 0x0f = take_bit 4 (0x80 OR op)" by (simp add: take_bit_eq_mask mask_eq_exp_minus_1)
  also have "\<dots> = take_bit 4 0x80 OR take_bit 4 op" by (rule take_bit_or)
  also have "take_bit 4 (0x80 :: 8 word) = 0" by simp
  finally show "(0x80 OR op) AND 0x0f = op" using t by simp
  have "bit (0x80 OR op) 7" by (simp add: bit_simps)
  then show "(0x80 OR op) AND 0x80 \<noteq> 0" using and_exp_eq_0_iff_not_bit [of "0x80 OR op" 7] by simp
qed

lemma length_putBigEndian [simp]: "length (putBigEndian k n) = k"
  by (simp add: putBigEndian_def)

lemma putBigEndian_Suc: "putBigEndian (Suc k) n = word_of_nat (n div 256 ^ k) # putBigEndian k n"
proof -
  have "[0..<Suc k] = 0 # map Suc [0..<k]" by (simp add: upt_conv_Cons map_Suc_upt del: upt_Suc)
  then show ?thesis by (simp add: putBigEndian_def comp_def del: upt_Suc)
qed

lemma bigEndian_put_acc:
  "fold (\<lambda>b m. m * 256 + ucast b) (putBigEndian k n) (word_of_nat a :: 64 word) =
     word_of_nat (a * 256 ^ k + n mod 256 ^ k)"
proof (induction k arbitrary: a)
  case 0
  then show ?case by (simp add: putBigEndian_def)
next
  case (Suc k)
  have "ucast (word_of_nat (n div 256 ^ k) :: 8 word) = (word_of_nat ((n div 256 ^ k) mod 256) :: 64 word)"
    by (simp add: unsigned_of_nat take_bit_eq_mod)
  then have "fold (\<lambda>b m. m * 256 + ucast b) (putBigEndian (Suc k) n) (word_of_nat a :: 64 word) =
    fold (\<lambda>b m. m * 256 + ucast b) (putBigEndian k n) (word_of_nat (a * 256 + (n div 256 ^ k) mod 256))"
    by (simp add: putBigEndian_Suc)
  also have "\<dots> = word_of_nat ((a * 256 + (n div 256 ^ k) mod 256) * 256 ^ k + n mod 256 ^ k)" by (rule Suc.IH)
  also have "(a * 256 + (n div 256 ^ k) mod 256) * 256 ^ k + n mod 256 ^ k = a * 256 ^ Suc k + n mod 256 ^ Suc k"
    using mod_mult2_eq [of n "256 ^ k" 256] by (simp add: algebra_simps)
  finally show ?case .
qed

lemma bigEndian_put: "n < 256 ^ k \<Longrightarrow> bigEndian (putBigEndian k n) = word_of_nat n"
  using bigEndian_put_acc [of k n 0] by (simp add: bigEndian_def)

text \<open>The header of a client's frame, split as \<^verbatim>\<open>readFrame\<close> reads it.\<close>

lemma clientHeader:
  assumes "len < 2 ^ 64"
  obtains l ext where "frameHeader op len = [0x80 OR op, l] @ ext" and "l < 128"
    and "readLength (ucast l) (ext @ s) = Inr (word_of_nat len, s)"
proof -
  consider "len < 126" | "126 \<le> len" "len \<le> 65535" | "65535 < len" by linarith
  then show thesis
  proof cases
    case 1
    then have "unat (word_of_nat len :: 8 word) = len" by (simp add: unsigned_of_nat take_bit_eq_mod)
    then have "(word_of_nat len :: 8 word) < 128" "ucast (word_of_nat len :: 8 word) = (word_of_nat len :: 64 word)"
      using 1 of_nat_unat [of "word_of_nat len :: 8 word", where ?'a = "64 word"] by (simp_all add: word_less_nat_alt)
    moreover have "(word_of_nat len :: 64 word) \<noteq> 126 \<and> (word_of_nat len :: 64 word) \<noteq> 127"
      using 1 by (simp add: word_unat_eq_iff unsigned_of_nat take_bit_eq_mod)
    ultimately show thesis using 1 by (intro that [of "word_of_nat len" "[]"]) (simp_all add: frameHeader_def readLength_def)
  next
    case 2
    then show thesis
      using bigEndian_put [of len 2]
      by (intro that [of 126 "putBigEndian 2 len"]) (simp_all add: frameHeader_def readLength_def)
  next
    case 3
    then show thesis
      using bigEndian_put [of len 8] assms
      by (intro that [of 127 "putBigEndian 8 len"]) (simp_all add: frameHeader_def readLength_def)
  qed
qed

lemma readFrame_client:
  assumes op: "op < 16" and msk: "length msk = 4" and len: "length payload < 2 ^ 63"
  shows "readFrame limit (clientFrame msk op payload @ rest) =
     (if word_of_nat (length payload) > (word_of_int limit :: 64 word) \<or> length payload > 2 ^ 20
      then Inl (WsError ''websocket frame exceeds read limit'') else Inr ((op, payload), rest))"
proof -
  let ?n = "length payload"
  obtain l ext where h: "frameHeader op ?n = [0x80 OR op, l] @ ext" "l < 128"
    "readLength (ucast l) (ext @ msk @ xorMask msk payload @ rest) = Inr (word_of_nat ?n, msk @ xorMask msk payload @ rest)"
  proof (rule clientHeader [of ?n op "msk @ xorMask msk payload @ rest"])
    show "?n < 2 ^ 64" using len by simp
  qed (rule that)
  have fr: "clientFrame msk op payload @ rest = [0x80 OR op, l OR 0x80] @ (ext @ msk @ xorMask msk payload @ rest)"
    by (simp add: clientFrame_def h(1) Let_def)
  have n: "unat (word_of_nat ?n :: 64 word) = ?n" using len by (simp add: unsigned_of_nat take_bit_eq_mod)
  have big: "(word_of_nat ?n > maxFrameSize) = (?n > 2 ^ 20)"
    using n by (simp add: word_less_nat_alt maxFrameSize_def)
  have r: "readFull 2 ([0x80 OR op, l OR 0x80] @ (ext @ msk @ xorMask msk payload @ rest)) =
      Inr ([0x80 OR op, l OR 0x80], ext @ msk @ xorMask msk payload @ rest)"
    "readFull 4 (msk @ xorMask msk payload @ rest) = Inr (msk, xorMask msk payload @ rest)"
    "readFull ?n (xorMask msk payload @ rest) = Inr (xorMask msk payload, rest)"
    by (rule readFull_append, simp add: msk)+
  show ?thesis
    unfolding readFrame_def fr r(1) using bit4 [OF op] bit7 [OF h(2)] h(3) n big r(2,3) by simp
qed

lemma readFrame_InrD:
  assumes "readFrame limit s = Inr ((op, payload), rest)"
  shows "word_of_nat (length payload) \<le> (word_of_int limit :: 64 word)" and "length payload \<le> 2 ^ 20"
    and "length rest + length payload + 6 \<le> length s" and "op < 16"
proof -
  from assms obtain header s1 len s2 msk s3 p where
    1: "readFull 2 s = Inr (header, s1)" and 2: "readLength (ucast ((header ! 1) AND 0x7f)) s1 = Inr (len, s2)"
    and 3: "readFull 4 s2 = Inr (msk, s3)" and 4: "readFull (unat len) s3 = Inr (p, rest)"
    and op: "op = (header ! 0) AND 0x0f" and p: "payload = xorMask msk p"
    and l: "\<not> word_of_int limit < len" "\<not> maxFrameSize < len"
    by (auto simp: readFrame_def split: sum.splits if_splits)
  note R = readFull_InrD [OF 1] readFull_InrD [OF 3] readFull_InrD [OF 4]
  have pl: "length payload = unat len" using p R by simp
  then show "word_of_nat (length payload) \<le> (word_of_int limit :: 64 word)" using l(1) by simp
  show "length payload \<le> 2 ^ 20" using l(2) pl by (simp add: word_less_nat_alt maxFrameSize_def)
  have "length s2 \<le> length s1"
    using 2 by (auto simp: readLength_def readFull_def split: if_splits)
  with R pl show "length rest + length payload + 6 \<le> length s" using p by simp
  have "op \<le> 0x0f" unfolding op by (rule word_and_le1)
  then show "op < 16" by (simp add: word_le_nat_alt word_less_nat_alt)
qed

text \<open>
  C14. Frames survive the wire: a masked frame that a client builds with the server's own framing is read
  back with its opcode and payload, and nothing of what follows it is consumed; a frame larger than the
  read limit or the maximum frame size is refused.
\<close>
theorem frame_roundtrip:
  assumes "op < 16" and "length msk = 4" and "0 \<le> limit" and "limit < 2 ^ 63" and "length payload < 2 ^ 63"
  shows "readFrame limit (clientFrame msk op payload @ rest) =
     (if limit < int (length payload) \<or> 2 ^ 20 < length payload
      then Inl (WsError ''websocket frame exceeds read limit'') else Inr ((op, payload), rest))"
proof -
  have "unat (word_of_int limit :: 64 word) = nat limit"
    using assms(3,4) by (simp add: unsigned_of_int take_bit_int_eq_self)
  moreover have "unat (word_of_nat (length payload) :: 64 word) = length payload"
    using assms(5) by (simp add: unsigned_of_nat take_bit_eq_mod)
  ultimately have "((word_of_int limit :: 64 word) < word_of_nat (length payload)) = (limit < int (length payload))"
    using assms(3) by (simp add: word_less_nat_alt) linarith
  with readFrame_client [OF assms(1,2,5), of limit rest] show ?thesis by simp
qed

text \<open>Witness of C14: a masked ping of three bytes, with the default read limit.\<close>
theorem frame_roundtrip_witness:
  "readFrame 4096 (clientFrame [1, 2, 3, 4] opPing [7, 8, 9] @ [99]) = Inr ((opPing, [7, 8, 9]), [99])"
  using frame_roundtrip [of opPing "[1, 2, 3, 4]" 4096 "[7, 8, 9]" "[99]"] by (simp add: opPing_def)

text \<open>
  Whatever a client sends, a frame the server accepts has a payload within the read limit and the
  maximum frame size, and an opcode of four bits, and reading it has consumed at least a masked header.
\<close>
theorem accepted_frame_bounds:
  assumes "readFrame limit s = Inr ((op, payload), rest)" and "0 \<le> limit" and "limit < 2 ^ 63"
  shows "int (length payload) \<le> limit \<and> length payload \<le> 2 ^ 20 \<and> unat op < 16 \<and>
    length rest + length payload + 6 \<le> length s"
proof -
  note R = readFrame_InrD [OF assms(1)]
  have "unat (word_of_int limit :: 64 word) = nat limit"
    using assms(2,3) by (simp add: unsigned_of_int take_bit_int_eq_self)
  moreover have "unat (word_of_nat (length payload) :: 64 word) = length payload"
    using R(2) by (simp add: unsigned_of_nat take_bit_eq_mod)
  ultimately have "int (length payload) \<le> limit" using R(1) assms(2) by (simp add: word_le_nat_alt)
  with R show ?thesis by (simp add: word_less_nat_alt)
qed

text \<open>Example: a masked text frame of one byte.\<close>
theorem accepted_frame_bounds_witness:
  "\<exists>op payload rest. readFrame 4096 [0x81, 0x81, 0, 0, 0, 0, 65] = Inr ((op, payload), rest) \<and> int (length payload) \<le> 4096"
proof -
  have "readFrame 4096 [0x81, 0x81, 0, 0, 0, 0, 65] = Inr ((1, [65]), [])" by code_simp
  from accepted_frame_bounds [OF this] this show ?thesis by auto
qed


section \<open>The loops of a connection\<close>

text \<open>
  \<^verbatim>\<open>ReadLoop\<close>: \<open>cancelled k\<close> says whether the context is done after the \<open>k\<close>-th frame. The result is the
  error it returns, with what it has written.
\<close>

function readLoop ::
  "(nat \<Rightarrow> bool) \<Rightarrow> (nat \<Rightarrow> bool) \<Rightarrow> int \<Rightarrow> nat \<Rightarrow> bytes \<Rightarrow> bytes list \<Rightarrow> ws_error \<times> bytes list" where
  "readLoop fails cancelled limit k s out =
     (case readFrame limit s of
        Inl err \<Rightarrow> (err, out)
      | Inr ((op, payload), rest) \<Rightarrow>
          if op = opClose then (EOF, snd (writeFrame fails opClose [] out))
          else if op = opPing then
            (case writeFrame fails opPong payload out of
               (Some err, out') \<Rightarrow> (err, out')
             | (None, out') \<Rightarrow> if cancelled k then (Cancelled, out') else readLoop fails cancelled limit (Suc k) rest out')
          else if op = opPong \<or> op = opText then
            (if cancelled k then (Cancelled, out) else readLoop fails cancelled limit (Suc k) rest out)
          else (WsError ''unsupported websocket opcode'', out))"
  by pat_completeness auto
termination
  by (relation "measure (\<lambda>(fails, cancelled, limit, k, s, out). length s)") (auto dest: readFrame_InrD(3))

declare readLoop.simps [simp del]

text \<open>
  \<^verbatim>\<open>WriteLoop\<close>: what its select sees, in order. \<open>encode\<close> is \<^verbatim>\<open>json.Marshal\<close> of a message.
\<close>

datatype 'm loop_event = ContextDone | Received 'm | ChannelClosed | Tick

fun writeLoop ::
  "(nat \<Rightarrow> bool) \<Rightarrow> ('m \<Rightarrow> string + bytes) \<Rightarrow> 'm loop_event list \<Rightarrow> bytes list \<Rightarrow> ws_error option option \<times> bytes list" where
  "writeLoop fails encode [] out = (None, out)"
| "writeLoop fails encode (ContextDone # evs) out = (Some (Some Cancelled), out)"
| "writeLoop fails encode (ChannelClosed # evs) out = (Some None, snd (writeFrame fails opClose [] out))"
| "writeLoop fails encode (Received m # evs) out =
     (case encode m of
        Inl err \<Rightarrow> (Some (Some (WsError (''encoding realtime message: '' @ err))), out)
      | Inr body \<Rightarrow>
          (case writeFrame fails opText body out of
             (Some err, out') \<Rightarrow> (Some (Some err), out')
           | (None, out') \<Rightarrow> writeLoop fails encode evs out'))"
| "writeLoop fails encode (Tick # evs) out =
     (case writeFrame fails opPing [] out of
        (Some err, out') \<Rightarrow> (Some (Some err), out')
      | (None, out') \<Rightarrow> writeLoop fails encode evs out')"

text \<open>The frames of a conversation: masks, opcodes and payloads, each within the limits.\<close>

definition conversational :: "int \<Rightarrow> bytes \<times> 8 word \<times> bytes \<Rightarrow> bool" where
  "conversational limit = (\<lambda>(msk, op, payload).
     length msk = 4 \<and> op \<in> {opText, opPing, opPong} \<and> int (length payload) \<le> limit \<and> length payload \<le> 2 ^ 20)"

lemma readLoop_conversation:
  assumes "0 \<le> limit" and "limit < 2 ^ 63" and "list_all (conversational limit) fs"
  shows "\<exists>out'. readLoop (\<lambda>n. False) (\<lambda>k. False) limit k (concat (map (\<lambda>(msk, op, p). clientFrame msk op p) fs)) out = (EOF, out') \<and>
    concat out' = concat out @ concat (map (\<lambda>(msk, op, p). frameBytes opPong p) (filter (\<lambda>(msk, op, p). op = opPing) fs))"
  using assms(3)
proof (induction fs arbitrary: k out)
  case Nil
  have "readFrame limit [] = Inl EOF" by (simp add: readFrame_def readFull_def)
  then show ?case by (simp add: readLoop.simps)
next
  case (Cons f fs)
  obtain msk op p where f: "f = (msk, op, p)" by (cases f)
  from Cons.prems f have ok: "length msk = 4" "op = opText \<or> op = opPing \<or> op = opPong" "int (length p) \<le> limit" "length p \<le> 2 ^ 20"
    by (auto simp: conversational_def)
  let ?rest = "concat (map (\<lambda>(msk, op, p). clientFrame msk op p) fs)"
  have "op < 16" using ok(2) by (auto simp: opText_def opPing_def opPong_def)
  moreover have "\<not> (word_of_nat (length p) > (word_of_int limit :: 64 word))"
  proof -
    have "unat (word_of_int limit :: 64 word) = nat limit"
      using assms(1,2) by (simp add: unsigned_of_int take_bit_int_eq_self)
    moreover have "unat (word_of_nat (length p) :: 64 word) = length p"
      using ok(4) by (simp add: unsigned_of_nat take_bit_eq_mod)
    ultimately show ?thesis using ok(3) assms(1) by (simp add: word_less_nat_alt)
  qed
  ultimately have rd: "readFrame limit (clientFrame msk op p @ ?rest) = Inr ((op, p), ?rest)"
    using readFrame_client [of op msk p limit ?rest] ok(1,4) by simp
  obtain out1 where w: "writeFrame (\<lambda>n. False) opPong p out = (None, out1)" "concat out1 = concat out @ frameBytes opPong p"
    using writeFrame_bytes by blast
  have ops: "opText \<noteq> opClose" "opPing \<noteq> opClose" "opPong \<noteq> opClose" "opText \<noteq> opPing" "opPong \<noteq> opPing"
    by (simp_all add: opText_def opPing_def opPong_def opClose_def)
  show ?case
  proof (cases "op = opPing")
    case True
    have "readLoop (\<lambda>n. False) (\<lambda>k. False) limit k (concat (map (\<lambda>(msk, op, p). clientFrame msk op p) (f # fs))) out =
      readLoop (\<lambda>n. False) (\<lambda>k. False) limit (Suc k) ?rest out1"
      using rd True f ops w(1) by (subst readLoop.simps) simp
    with Cons.IH [of "Suc k" out1] Cons.prems w(2) True f show ?thesis by auto
  next
    case False
    have "readLoop (\<lambda>n. False) (\<lambda>k. False) limit k (concat (map (\<lambda>(msk, op, p). clientFrame msk op p) (f # fs))) out =
      readLoop (\<lambda>n. False) (\<lambda>k. False) limit (Suc k) ?rest out"
      using rd False ok(2) f ops by (subst readLoop.simps) auto
    with Cons.IH [of "Suc k" out] Cons.prems False f show ?thesis by auto
  qed
qed

text \<open>
  A conversation without failures: for any sequence of text, ping and pong frames a client sends
  before the connection ends, the read loop answers exactly the pings, in order and with their payloads,
  writes nothing else, and then reports the end of the input.
\<close>
theorem pings_are_answered:
  assumes "0 \<le> limit" and "limit < 2 ^ 63" and "list_all (conversational limit) fs"
  shows "fst (readLoop (\<lambda>n. False) (\<lambda>k. False) limit 0 (concat (map (\<lambda>(msk, op, p). clientFrame msk op p) fs)) []) = EOF \<and>
    concat (snd (readLoop (\<lambda>n. False) (\<lambda>k. False) limit 0 (concat (map (\<lambda>(msk, op, p). clientFrame msk op p) fs)) [])) =
      concat (map (\<lambda>(msk, op, p). frameBytes opPong p) (filter (\<lambda>(msk, op, p). op = opPing) fs))"
  using readLoop_conversation [OF assms, of 0 "[]"] by auto

text \<open>Example: a text frame and two pings.\<close>
theorem pings_are_answered_witness:
  "concat (snd (readLoop (\<lambda>n. False) (\<lambda>k. False) 4096 0
     (clientFrame [1, 2, 3, 4] opPing [5] @ clientFrame [0, 0, 0, 0] opText [65] @ clientFrame [9, 9, 9, 9] opPing []) [])) =
   frameBytes opPong [5] @ frameBytes opPong []"
proof -
  have "list_all (conversational 4096) [([1, 2, 3, 4], opPing, [5]), ([0, 0, 0, 0], opText, [65]), ([9, 9, 9, 9], opPing, [])]"
    by (simp add: conversational_def)
  from pings_are_answered [OF _ _ this] show ?thesis by (simp add: opText_def opPing_def)
qed


section \<open>The upgrade\<close>

definition wsGUID :: string where
  "wsGUID = ''258EAFA5-E914-47DA-95CA-C5AB0DC85B11''"

text \<open>\<^verbatim>\<open>base64.StdEncoding\<close>, from the URL alphabet without padding.\<close>

definition base64Std :: "bytes \<Rightarrow> string" where
  "base64Std bs =
     map (\<lambda>c. if c = CHR ''-'' then CHR ''+'' else if c = CHR ''_'' then CHR ''/'' else c) (base64RawURL bs) @
     replicate ((3 - length bs mod 3) mod 3) CHR ''=''"

definition websocketAccept :: "(string \<Rightarrow> bytes) \<Rightarrow> string \<Rightarrow> string" where
  "websocketAccept sha1 key = base64Std (sha1 (key @ wsGUID))"

text \<open>\<^verbatim>\<open>strings.Split\<close> at one byte, and \<^verbatim>\<open>strings.EqualFold\<close> with an ASCII string.\<close>

fun splitAt :: "char \<Rightarrow> string \<Rightarrow> string list" where
  "splitAt sep [] = [[]]"
| "splitAt sep (c # cs) =
     (if c = sep then [] # splitAt sep cs
      else case splitAt sep cs of [] \<Rightarrow> [[c]] | part # parts \<Rightarrow> (c # part) # parts)"

definition equalFold :: "string \<Rightarrow> string \<Rightarrow> bool" where
  "equalFold s t \<longleftrightarrow> foldName s = foldName t"

text \<open>\<open>header\<close> gives the values of a header of the request.\<close>

definition headerGet :: "(string \<Rightarrow> string list) \<Rightarrow> string \<Rightarrow> string" where
  "headerGet header key = (case header key of [] \<Rightarrow> '''' | value # rest \<Rightarrow> value)"

definition headerHasToken :: "(string \<Rightarrow> string list) \<Rightarrow> string \<Rightarrow> string \<Rightarrow> bool" where
  "headerHasToken header key token \<longleftrightarrow>
     list_ex (\<lambda>value. list_ex (\<lambda>part. equalFold (trimSpace part) token) (splitAt CHR '','' value)) (header key)"

text \<open>A refused upgrade: the response written, if one is, and the error. \<open>fails\<close> names what goes wrong.\<close>

definition crlf :: string where "crlf = [CHR 0x0D, CHR 0x0A]"

definition upgrade ::
  "(string \<Rightarrow> bool) \<Rightarrow> (string \<Rightarrow> bytes) \<Rightarrow> (string \<Rightarrow> string list) \<Rightarrow> ((nat \<times> string) option \<times> string) + string" where
  "upgrade fails sha1 header =
     (let key = trimSpace (headerGet header ''Sec-WebSocket-Key'')
      in if \<not> headerHasToken header ''Connection'' ''upgrade'' \<or> \<not> equalFold (headerGet header ''Upgrade'') ''websocket''
         then Inl (Some (426, ''upgrade required''), ''request is not a websocket upgrade'')
         else if headerGet header ''Sec-WebSocket-Version'' \<noteq> ''13''
         then Inl (Some (400, ''unsupported websocket version''), ''unsupported websocket version'')
         else if key = '''' then Inl (Some (400, ''websocket key required''), ''websocket key required'')
         else if fails ''websocket unsupported''
         then Inl (Some (500, ''websocket unsupported''), ''response writer does not support hijacking'')
         else if fails ''hijacking connection'' then Inl (None, ''hijacking connection'')
         else if fails ''writing upgrade response'' then Inl (None, ''writing upgrade response'')
         else if fails ''flushing upgrade response'' then Inl (None, ''flushing upgrade response'')
         else Inr (''HTTP/1.1 101 Switching Protocols'' @ crlf @ ''Upgrade: websocket'' @ crlf @
                   ''Connection: Upgrade'' @ crlf @ ''Sec-WebSocket-Accept: '' @ websocketAccept sha1 key @ crlf @ crlf))"

lemma splitAt_nonempty: "splitAt sep s \<noteq> []"
  by (cases s) (auto split: list.splits)

end
