(* ===== verification/Hub.thy ===== *)
theory Hub
  imports Frames WorkerMain "HOL-Library.Sublist"
begin

text \<open>
  The realtime hub, \<^verbatim>\<open>internal/realtime/hub.go\<close>: clients subscribe to the events of a location, the
  outbox consumer of \<^verbatim>\<open>apps/realtime/cmd/realtime/main.go\<close> publishes to them, and a client whose buffer
  is full is closed. A client is named by its position in the list of all clients ever subscribed. The
  map of maps \<open>clients\<close> is the list of its pairs; Go iterates it in no fixed order, and the effect of
  \<open>Publish\<close> on each client does not depend on the others.
\<close>

section \<open>Data\<close>

definition DestinationOperations :: string where
  "DestinationOperations = ''realtime.operations''"

record Scope =
  sc_OrganisationID :: uuid
  sc_LocationID :: uuid

record Message =
  ms_Type :: string
  ms_EventID :: string
  ms_OrganisationID :: string
  ms_LocationID :: string
  ms_EntityType :: string
  ms_EntityID :: string
  ms_Version :: "int option"
  ms_OccurredAt :: string
  ms_Data :: json

text \<open>
  \<open>k_send\<close> are the messages in the channel, \<open>k_taken\<close> those its write loop has taken out of it;
  \<open>k_closed\<close> is \<^verbatim>\<open>closed\<close>, with both channels closed; \<open>k_once\<close> is whether \<^verbatim>\<open>closeOnce\<close> has run.
\<close>

record Client =
  k_scope :: Scope
  k_actorRef :: string
  k_deviceID :: uuid
  k_buffer :: nat
  k_send :: "Message list"
  k_taken :: "Message list"
  k_closed :: bool
  k_once :: bool

record Hub =
  subscribers :: "(Scope \<times> nat) list"
  everyone :: "Client list"
  ConnectionsAccepted :: int
  ConnectionsClosed :: int
  MessagesPublished :: int
  MessagesDropped :: int
  BackpressureCloses :: int

record Snapshot =
  sn_ActiveConnections :: int
  sn_ConnectionsAccepted :: int
  sn_ConnectionsClosed :: int
  sn_MessagesPublished :: int
  sn_MessagesDropped :: int
  sn_BackpressureCloses :: int

definition NewHub :: Hub where
  "NewHub = \<lparr>subscribers = [], everyone = [], ConnectionsAccepted = 0, ConnectionsClosed = 0, MessagesPublished = 0,
     MessagesDropped = 0, BackpressureCloses = 0\<rparr>"


section \<open>Operations\<close>

definition Subscribe :: "Scope \<Rightarrow> string \<Rightarrow> uuid \<Rightarrow> int \<Rightarrow> Hub \<Rightarrow> nat \<times> Hub" where
  "Subscribe scope actorRef deviceID buffer h =
     (let i = length (everyone h);
          client = \<lparr>k_scope = scope, k_actorRef = actorRef, k_deviceID = deviceID,
                    k_buffer = nat (if buffer \<le> 0 then 32 else buffer), k_send = [], k_taken = [],
                    k_closed = False, k_once = False\<rparr>
      in (i, h\<lparr>subscribers := subscribers h @ [(scope, i)], everyone := everyone h @ [client],
               ConnectionsAccepted := ConnectionsAccepted h + 1\<rparr>))"

definition closeClient :: "Client \<Rightarrow> Client" where
  "closeClient c = (if k_closed c then c else c\<lparr>k_closed := True\<rparr>)"

definition Unsubscribe :: "nat \<Rightarrow> Hub \<Rightarrow> Hub" where
  "Unsubscribe i h =
     (let c = everyone h ! i
      in if k_once c then h
         else h\<lparr>subscribers := filter (\<lambda>p. p \<noteq> (k_scope c, i)) (subscribers h),
                everyone := (everyone h)[i := (closeClient c)\<lparr>k_once := True\<rparr>],
                ConnectionsClosed := ConnectionsClosed h + 1\<rparr>)"

definition trySend :: "Message \<Rightarrow> Client \<Rightarrow> bool \<times> Client" where
  "trySend message c =
     (if k_closed c then (False, c)
      else if length (k_send c) < k_buffer c then (True, c\<lparr>k_send := k_send c @ [message]\<rparr>)
      else (False, c))"

text \<open>\<open>rfc3339\<close> is \<^verbatim>\<open>UTC().Format(time.RFC3339Nano)\<close>.\<close>

definition MessageFromEvent :: "(int \<Rightarrow> string) \<Rightarrow> Envelope \<Rightarrow> Message" where
  "MessageFromEvent rfc3339 event =
     \<lparr>ms_Type = ev_Type event, ms_EventID = uuidString (ev_ID event),
      ms_OrganisationID = uuidString (ev_OrganisationID event), ms_LocationID = uuidString (ev_LocationID event),
      ms_EntityType = ev_EntityType event, ms_EntityID = uuidString (ev_EntityID event),
      ms_Version = ev_EntityVersion event, ms_OccurredAt = rfc3339 (ev_OccurredAt event), ms_Data = ev_Data event\<rparr>"

definition eventScope :: "Envelope \<Rightarrow> Scope" where
  "eventScope event = \<lparr>sc_OrganisationID = ev_OrganisationID event, sc_LocationID = ev_LocationID event\<rparr>"

text \<open>One turn of the loop over the clients.\<close>

definition publishTo :: "Message \<Rightarrow> nat \<Rightarrow> Hub \<Rightarrow> Hub" where
  "publishTo message i h =
     (case trySend message (everyone h ! i) of
        (True, c) \<Rightarrow> h\<lparr>everyone := (everyone h)[i := c]\<rparr>
      | (False, c) \<Rightarrow>
          Unsubscribe i (h\<lparr>everyone := (everyone h)[i := c], MessagesDropped := MessagesDropped h + 1,
                           BackpressureCloses := BackpressureCloses h + 1\<rparr>))"

definition scopeClients :: "Hub \<Rightarrow> Scope \<Rightarrow> nat list" where
  "scopeClients h scope = map snd (filter (\<lambda>p. fst p = scope) (subscribers h))"

definition Publish :: "(int \<Rightarrow> string) \<Rightarrow> Envelope \<Rightarrow> Hub \<Rightarrow> Hub" where
  "Publish rfc3339 event h =
     fold (publishTo (MessageFromEvent rfc3339 event)) (scopeClients h (eventScope event))
       (h\<lparr>MessagesPublished := MessagesPublished h + 1\<rparr>)"

definition MetricsSnapshot :: "Hub \<Rightarrow> Snapshot" where
  "MetricsSnapshot h =
     \<lparr>sn_ActiveConnections = int (length (subscribers h)), sn_ConnectionsAccepted = ConnectionsAccepted h,
      sn_ConnectionsClosed = ConnectionsClosed h, sn_MessagesPublished = MessagesPublished h,
      sn_MessagesDropped = MessagesDropped h, sn_BackpressureCloses = BackpressureCloses h\<rparr>"

text \<open>The write loop receives from the channel; a closed channel is drained first.\<close>

definition receive :: "nat \<Rightarrow> Hub \<Rightarrow> Message loop_event option \<times> Hub" where
  "receive i h =
     (let c = everyone h ! i
      in case k_send c of
           m # ms \<Rightarrow> (Some (Received m), h\<lparr>everyone := (everyone h)[i := c\<lparr>k_send := ms, k_taken := k_taken c @ [m]\<rparr>]\<rparr>)
         | [] \<Rightarrow> (if k_closed c then Some ChannelClosed else None, h))"

text \<open>
  The hub's outbox consumer publishes the event and answers nil. What the outbox worker needs of a consumer is its
  answer; the calls of the worker's trace, in their order, are what it does to the hub.
\<close>

definition realtimeHandle :: "(int \<Rightarrow> string) \<Rightarrow> Envelope \<Rightarrow> Hub \<Rightarrow> string option \<times> Hub" where
  "realtimeHandle rfc3339 event hub = (None, Publish rfc3339 event hub)"

definition realtimeConsumer :: "(int \<Rightarrow> string) \<Rightarrow> Hub \<Rightarrow> Consumer" where
  "realtimeConsumer rfc3339 hub =
     asConsumer \<lparr>cf_ConsumerName = ''realtime-gateway'', cf_Fn = Some (\<lambda>e event. fst (realtimeHandle rfc3339 event hub))\<rparr>"

primrec hubAfter :: "(int \<Rightarrow> string) \<Rightarrow> effect list \<Rightarrow> Hub \<Rightarrow> Hub" where
  "hubAfter rfc3339 [] hub = hub"
| "hubAfter rfc3339 (x # t) hub =
     hubAfter rfc3339 t
       (case x of
          Called name event ok \<Rightarrow> if name = ''realtime-gateway'' then snd (realtimeHandle rfc3339 event hub) else hub
        | _ \<Rightarrow> hub)"


section \<open>The hub as a transition system\<close>

text \<open>
  Two auxiliary variables: \<open>log\<close> are the messages published so far, with their scopes, and \<open>spans\<close> says of every client
  how many they were when it subscribed and, once it is closed, when it was closed. They record what happens and
  decide nothing.
\<close>

type_synonym span = "nat \<times> nat option"

definition endSpan :: "nat \<Rightarrow> span \<Rightarrow> Client \<Rightarrow> span" where
  "endSpan n sp c = (fst sp, if snd sp = None \<and> k_closed c then Some n else snd sp)"

definition endSpans :: "nat \<Rightarrow> Hub \<Rightarrow> span list \<Rightarrow> span list" where
  "endSpans n h spans = map2 (endSpan n) spans (everyone h)"

inductive hub_step ::
  "(int \<Rightarrow> string) \<Rightarrow> Hub \<times> (Scope \<times> Message) list \<times> span list \<Rightarrow> Hub \<times> (Scope \<times> Message) list \<times> span list \<Rightarrow> bool"
  for rfc3339 :: "int \<Rightarrow> string" where
  subscribe: "hub_step rfc3339 (h, log, spans) (snd (Subscribe scope actorRef deviceID buffer h), log, spans @ [(length log, None)])"
| unsubscribe: "i < length (everyone h) \<Longrightarrow>
    hub_step rfc3339 (h, log, spans) (Unsubscribe i h, log, endSpans (length log) (Unsubscribe i h) spans)"
| publish: "hub_step rfc3339 (h, log, spans)
    (Publish rfc3339 event h, log @ [(eventScope event, MessageFromEvent rfc3339 event)],
     endSpans (length log) (Publish rfc3339 event h) spans)"
| receive: "i < length (everyone h) \<Longrightarrow> hub_step rfc3339 (h, log, spans) (snd (receive i h), log, spans)"

text \<open>What a client is owed that subscribed after the first \<open>n\<close> of the publications \<open>log\<close>.\<close>

definition owed :: "Scope \<Rightarrow> nat \<Rightarrow> (Scope \<times> Message) list \<Rightarrow> Message list" where
  "owed scope n log = map snd (filter (\<lambda>p. fst p = scope) (drop n log))"

text \<open>An open client has been sent all it is owed, a closed one all it was owed when it was closed.\<close>

definition clientOk :: "(Scope \<times> Message) list \<Rightarrow> span \<Rightarrow> Client \<Rightarrow> bool" where
  "clientOk log sp c \<longleftrightarrow>
     length (k_send c) \<le> k_buffer c \<and> k_once c = k_closed c \<and> fst sp \<le> length log \<and>
     (case snd sp of
        None \<Rightarrow> \<not> k_closed c \<and> k_taken c @ k_send c = owed (k_scope c) (fst sp) log
      | Some n \<Rightarrow> k_closed c \<and> n \<le> length log \<and> k_taken c @ k_send c = owed (k_scope c) (fst sp) (take n log))"

definition openClients :: "Hub \<Rightarrow> (Scope \<times> nat) list" where
  "openClients h = map (\<lambda>i. (k_scope (everyone h ! i), i)) (filter (\<lambda>i. \<not> k_closed (everyone h ! i)) [0..<length (everyone h)])"

definition hubOk :: "Hub \<times> (Scope \<times> Message) list \<times> span list \<Rightarrow> bool" where
  "hubOk = (\<lambda>(h, log, spans).
     list_all2 (clientOk log) spans (everyone h) \<and> subscribers h = openClients h \<and>
     ConnectionsAccepted h = int (length (everyone h)) \<and>
     ConnectionsClosed h = int (length (filter k_closed (everyone h))) \<and>
     MessagesDropped h = BackpressureCloses h \<and> 0 \<le> BackpressureCloses h \<and> BackpressureCloses h \<le> ConnectionsClosed h \<and>
     MessagesPublished h = int (length log))"

section \<open>Invariants of the hub\<close>

definition hubCounts :: "Hub \<Rightarrow> bool" where
  "hubCounts h \<longleftrightarrow>
     subscribers h = openClients h \<and> ConnectionsAccepted h = int (length (everyone h)) \<and>
     ConnectionsClosed h = int (length (filter k_closed (everyone h))) \<and>
     MessagesDropped h = BackpressureCloses h \<and> 0 \<le> BackpressureCloses h \<and> BackpressureCloses h \<le> ConnectionsClosed h"

lemma hubOk_iff:
  "hubOk (h, log, spans) \<longleftrightarrow>
     length spans = length (everyone h) \<and> (\<forall>i < length (everyone h). clientOk log (spans ! i) (everyone h ! i)) \<and>
     hubCounts h \<and> MessagesPublished h = int (length log)"
  by (auto simp: hubOk_def hubCounts_def list_all2_conv_all_nth)

lemma endSpans_nth: "length spans = length (everyone h) \<Longrightarrow> i < length (everyone h) \<Longrightarrow>
    endSpans n h spans ! i = endSpan n (spans ! i) (everyone h ! i)"
  by (simp add: endSpans_def)

lemma length_endSpans [simp]: "length spans = length (everyone h) \<Longrightarrow> length (endSpans n h spans) = length (everyone h)"
  by (simp add: endSpans_def)

lemma length_filter_update:
  assumes "i < length xs"
  shows "length (filter P (xs[i := x])) + (if P (xs ! i) then 1 else 0) = length (filter P xs) + (if P x then 1 else 0)"
proof -
  have "filter P xs = filter P (take i xs @ xs ! i # drop (Suc i) xs)" using assms by (simp add: id_take_nth_drop [symmetric])
  then show ?thesis using assms by (simp add: upd_conv_take_nth_drop)
qed

lemma openClients_cong:
  assumes "length (everyone h') = length (everyone h)"
    and "\<And>i. i < length (everyone h) \<Longrightarrow> k_scope (everyone h' ! i) = k_scope (everyone h ! i) \<and> k_closed (everyone h' ! i) = k_closed (everyone h ! i)"
  shows "openClients h' = openClients h"
proof -
  have "filter (\<lambda>i. \<not> k_closed (everyone h' ! i)) [0..<length (everyone h)] = filter (\<lambda>i. \<not> k_closed (everyone h ! i)) [0..<length (everyone h)]"
    by (rule filter_cong) (use assms(2) in auto)
  then show ?thesis unfolding openClients_def assms(1) by (auto simp: assms(2))
qed

lemma openClients_close:
  assumes "i < length (everyone h)" and "everyone h' = (everyone h)[i := c]" and "k_closed c" and "k_scope c = k_scope (everyone h ! i)"
  shows "openClients h' = filter (\<lambda>p. p \<noteq> (k_scope (everyone h ! i), i)) (openClients h)"
proof -
  have "filter (\<lambda>j. \<not> k_closed ((everyone h)[i := c] ! j)) [0..<length (everyone h)] =
    filter (\<lambda>j. j \<noteq> i) (filter (\<lambda>j. \<not> k_closed (everyone h ! j)) [0..<length (everyone h)])"
    unfolding filter_filter by (rule filter_cong) (use assms in \<open>auto simp: nth_list_update\<close>)
  then have "openClients h' = map (\<lambda>j. (k_scope ((everyone h)[i := c] ! j), j))
      (filter (\<lambda>j. j \<noteq> i) (filter (\<lambda>j. \<not> k_closed (everyone h ! j)) [0..<length (everyone h)]))"
    by (simp add: openClients_def assms(2))
  also have "\<dots> = map (\<lambda>j. (k_scope (everyone h ! j), j))
      (filter (\<lambda>j. j \<noteq> i) (filter (\<lambda>j. \<not> k_closed (everyone h ! j)) [0..<length (everyone h)]))"
    by (rule map_cong) auto
  also have "\<dots> = filter (\<lambda>p. p \<noteq> (k_scope (everyone h ! i), i)) (openClients h)"
    unfolding openClients_def filter_map comp_def by (rule arg_cong [where f = "map _"]) (rule filter_cong, auto)
  finally show ?thesis .
qed

lemma owed_append: "n \<le> length log \<Longrightarrow> owed sc n (log @ [(sc', m)]) = owed sc n log @ (if sc' = sc then [m] else [])"
  by (simp add: owed_def)

text \<open>How the span of a client fares: it is kept while nothing closes the client, and ends when it is closed.\<close>

lemma endSpan_kept [simp]: "clientOk log sp c \<Longrightarrow> endSpan n sp c = sp"
  by (cases sp) (auto simp: clientOk_def endSpan_def split: option.splits)

lemma clientOk_closed: "clientOk log sp c \<Longrightarrow> k_closed c \<Longrightarrow> clientOk (log @ [x]) sp c"
  by (auto simp: clientOk_def split: option.splits)

lemma clientOk_other: "clientOk log sp c \<Longrightarrow> sc \<noteq> k_scope c \<Longrightarrow> clientOk (log @ [(sc, m)]) sp c"
  by (auto simp: clientOk_def owed_append split: option.splits)

lemma clientOk_close:
  assumes "clientOk log sp c" and "\<not> k_closed c"
  shows "clientOk log (endSpan (length log) sp (c\<lparr>k_closed := True, k_once := True\<rparr>)) (c\<lparr>k_closed := True, k_once := True\<rparr>)"
  using assms by (cases sp) (auto simp: clientOk_def endSpan_def split: option.splits)

lemma clientOk_send:
  assumes "clientOk log sp c" and "\<not> k_closed c" and "length (k_send c) < k_buffer c"
  shows "clientOk (log @ [(k_scope c, m)]) sp (c\<lparr>k_send := k_send c @ [m]\<rparr>)"
  using assms by (auto simp: clientOk_def owed_append split: option.splits simp flip: append_assoc)

lemma Unsubscribe_open:
  assumes "i < length (everyone h)" and "\<not> k_once (everyone h ! i)" and "\<not> k_closed (everyone h ! i)"
  shows "everyone (Unsubscribe i h) = (everyone h)[i := (everyone h ! i)\<lparr>k_closed := True, k_once := True\<rparr>]"
    "subscribers (Unsubscribe i h) = filter (\<lambda>p. p \<noteq> (k_scope (everyone h ! i), i)) (subscribers h)"
    "ConnectionsClosed (Unsubscribe i h) = ConnectionsClosed h + 1"
    "ConnectionsAccepted (Unsubscribe i h) = ConnectionsAccepted h"
    "MessagesDropped (Unsubscribe i h) = MessagesDropped h"
    "BackpressureCloses (Unsubscribe i h) = BackpressureCloses h"
    "MessagesPublished (Unsubscribe i h) = MessagesPublished h"
  using assms by (simp_all add: Unsubscribe_def closeClient_def Let_def)

lemma closed_count:
  assumes "i < length xs" and "\<not> k_closed (xs ! i)" and "k_closed c"
  shows "length (filter k_closed (xs[i := c])) = Suc (length (filter k_closed xs))"
  using length_filter_update [OF assms(1), of k_closed c] assms(2,3) by simp

lemma Unsubscribe_ok:
  assumes "hubOk (h, log, spans)" and "i < length (everyone h)"
  shows "hubOk (Unsubscribe i h, log, endSpans (length log) (Unsubscribe i h) spans)"
proof -
  from assms have n: "length spans = length (everyone h)" and ok: "\<And>j. j < length (everyone h) \<Longrightarrow> clientOk log (spans ! j) (everyone h ! j)"
    by (simp_all add: hubOk_iff)
  show ?thesis
  proof (cases "k_once (everyone h ! i)")
    case True
    then have "Unsubscribe i h = h" by (simp add: Unsubscribe_def Let_def)
    moreover have "endSpans (length log) h spans = spans"
      by (rule nth_equalityI) (simp_all add: n endSpans_nth endSpan_kept [OF ok])
    ultimately show ?thesis using assms by simp
  next
    case False
    with ok [OF assms(2)] have nc: "\<not> k_closed (everyone h ! i)" by (simp add: clientOk_def)
    note U = Unsubscribe_open [OF assms(2) False nc]
    have "openClients (Unsubscribe i h) = subscribers (Unsubscribe i h)"
      using openClients_close [OF assms(2) U(1)] U(2) assms(1) by (simp add: hubOk_iff hubCounts_def)
    moreover have "clientOk log (endSpans (length log) (Unsubscribe i h) spans ! j) (everyone (Unsubscribe i h) ! j)"
      if "j < length (everyone h)" for j
      using that n ok [OF that] clientOk_close [OF ok [OF assms(2)] nc] by (cases "j = i") (simp_all add: endSpans_nth U(1))
    ultimately show ?thesis using assms U nc closed_count [OF assms(2) nc] n by (simp add: hubOk_iff hubCounts_def)
  qed
qed

text \<open>
  In the middle of a publication: the clients in \<open>ids\<close> are still to be sent the message, the others are
  up to date with the extended log.
\<close>

definition publishing :: "(Scope \<times> Message) list \<Rightarrow> span list \<Rightarrow> Scope \<Rightarrow> Message \<Rightarrow> nat list \<Rightarrow> Hub \<Rightarrow> bool" where
  "publishing log spans sc m ids h \<longleftrightarrow>
     hubCounts h \<and> MessagesPublished h = int (length log) + 1 \<and> distinct ids \<and> length spans = length (everyone h) \<and>
     (\<forall>i < length (everyone h).
        if i \<in> set ids then clientOk log (spans ! i) (everyone h ! i) \<and> \<not> k_closed (everyone h ! i) \<and> k_scope (everyone h ! i) = sc
        else clientOk (log @ [(sc, m)]) (endSpan (length log) (spans ! i) (everyone h ! i)) (everyone h ! i)) \<and>
     (\<forall>i \<in> set ids. i < length (everyone h))"

lemma publishTo_step:
  assumes "publishing log spans sc m (i # ids) h"
  shows "publishing log spans sc m ids (publishTo m i h)"
proof -
  let ?c = "everyone h ! i"
  from assms have i: "i < length (everyone h)" "i \<notin> set ids" and ok: "clientOk log (spans ! i) ?c" "\<not> k_closed ?c" "k_scope ?c = sc"
    and cnt: "hubCounts h" and pub: "MessagesPublished h = int (length log) + 1"
    by (force simp: publishing_def)+
  have once: "\<not> k_once ?c" using ok(1,2) by (simp add: clientOk_def)
  have others: "if j \<in> set ids then clientOk log (spans ! j) (everyone h ! j) \<and> \<not> k_closed (everyone h ! j) \<and> k_scope (everyone h ! j) = sc
      else clientOk (log @ [(sc, m)]) (endSpan (length log) (spans ! j) (everyone h ! j)) (everyone h ! j)" if "j < length (everyone h)" "j \<noteq> i" for j
    using assms that unfolding publishing_def by (metis set_ConsD list.set_intros(2))
  show ?thesis
  proof (cases "length (k_send ?c) < k_buffer ?c")
    case True
    define h' where "h' = h\<lparr>everyone := (everyone h)[i := ?c\<lparr>k_send := k_send ?c @ [m]\<rparr>]\<rparr>"
    have h': "publishTo m i h = h'" using True ok(2) by (simp add: publishTo_def trySend_def h'_def)
    have "openClients h' = openClients h" using i(1) by (intro openClients_cong) (auto simp: h'_def nth_list_update)
    moreover have "length (filter k_closed (everyone h')) = length (filter k_closed (everyone h))"
      using length_filter_update [OF i(1), of k_closed "?c\<lparr>k_send := k_send ?c @ [m]\<rparr>"] ok(2) by (simp add: h'_def)
    ultimately have "hubCounts h'" using cnt by (simp add: hubCounts_def h'_def)
    moreover have "clientOk (log @ [(sc, m)]) (spans ! i) (?c\<lparr>k_send := k_send ?c @ [m]\<rparr>)" using clientOk_send [OF ok(1,2) True] ok(3) by simp
    ultimately show ?thesis unfolding h' using others i assms pub
      by (auto simp: publishing_def h'_def nth_list_update)
  next
    case False
    define h1 where "h1 = h\<lparr>everyone := (everyone h)[i := ?c], MessagesDropped := MessagesDropped h + 1,
                           BackpressureCloses := BackpressureCloses h + 1\<rparr>"
    define h' where "h' = Unsubscribe i h1"
    have h': "publishTo m i h = h'" using False ok(2) by (simp add: publishTo_def trySend_def h'_def h1_def)
    have e1: "everyone h1 = everyone h" by (simp add: h1_def)
    note U = Unsubscribe_open [of i h1, unfolded e1, OF i(1) once ok(2), folded h'_def]
    have "openClients h' = subscribers h'"
      using openClients_close [OF i(1) U(1)] U(2) cnt by (simp add: hubCounts_def h1_def)
    then have "hubCounts h'" using U cnt closed_count [OF i(1) ok(2)] by (simp add: hubCounts_def h1_def)
    moreover have "clientOk (log @ [(sc, m)]) (endSpan (length log) (spans ! i) (?c\<lparr>k_closed := True, k_once := True\<rparr>))
        (?c\<lparr>k_closed := True, k_once := True\<rparr>)"
      using clientOk_closed [OF clientOk_close [OF ok(1,2)]] by simp
    ultimately show ?thesis unfolding h' using others i assms pub U
      by (auto simp: publishing_def h1_def nth_list_update)
  qed
qed

lemma publishing_fold: "publishing log spans sc m ids h \<Longrightarrow> publishing log spans sc m [] (fold (publishTo m) ids h)"
  by (induction ids arbitrary: h) (simp_all add: publishTo_step)

lemma scopeClients_open:
  assumes "subscribers h = openClients h"
  shows "distinct (scopeClients h sc)"
    and "i \<in> set (scopeClients h sc) \<longleftrightarrow> i < length (everyone h) \<and> \<not> k_closed (everyone h ! i) \<and> k_scope (everyone h ! i) = sc"
  unfolding scopeClients_def assms openClients_def by (auto simp: distinct_map filter_map comp_def inj_on_def image_iff)

lemma Publish_ok:
  assumes "hubOk (h, log, spans)"
  shows "hubOk (Publish rfc3339 event h, log @ [(eventScope event, MessageFromEvent rfc3339 event)],
    endSpans (length log) (Publish rfc3339 event h) spans)"
proof -
  let ?sc = "eventScope event" and ?m = "MessageFromEvent rfc3339 event"
  define h1 where "h1 = h\<lparr>MessagesPublished := MessagesPublished h + 1\<rparr>"
  from assms have sub: "subscribers h = openClients h" and cl: "\<And>i. i < length (everyone h) \<Longrightarrow> clientOk log (spans ! i) (everyone h ! i)"
    by (auto simp: hubOk_iff hubCounts_def)
  note S = scopeClients_open [OF sub, where sc = ?sc]
  have "openClients h1 = openClients h" by (rule openClients_cong) (simp_all add: h1_def)
  then have "hubCounts h1" using assms by (simp add: hubOk_iff hubCounts_def h1_def)
  moreover have "clientOk (log @ [(?sc, ?m)]) (spans ! i) (everyone h ! i)" if "i < length (everyone h)" "i \<notin> set (scopeClients h ?sc)" for i
    using that S(2) [where i = i] cl [OF that(1)] clientOk_closed clientOk_other by metis
  ultimately have "publishing log spans ?sc ?m (scopeClients h ?sc) h1"
    using S cl assms by (simp add: publishing_def h1_def hubOk_iff endSpan_kept [OF cl])
  from publishing_fold [OF this] show ?thesis
    by (auto simp: Publish_def h1_def publishing_def hubOk_iff endSpans_nth)
qed

text \<open>A publication closes only clients of its scope whose buffer is full.\<close>

lemma publishTo_spares:
  assumes "i < length (everyone h)" and "k_once (everyone h ! i) \<longrightarrow> k_closed (everyone h ! i)"
  shows "length (everyone (publishTo m i h)) = length (everyone h)" and "j \<noteq> i \<Longrightarrow> everyone (publishTo m i h) ! j = everyone h ! j"
    and "k_closed (everyone (publishTo m i h) ! i) \<Longrightarrow>
           k_closed (everyone h ! i) \<or> \<not> length (k_send (everyone h ! i)) < k_buffer (everyone h ! i)"
  using assms by (auto simp: publishTo_def trySend_def Unsubscribe_def Let_def)

lemma publish_spares:
  assumes "distinct ids" and "\<And>i. i \<in> set ids \<Longrightarrow> i < length (everyone h) \<and> (k_once (everyone h ! i) \<longrightarrow> k_closed (everyone h ! i))"
    and "k_closed (everyone (fold (publishTo m) ids h) ! j)"
  shows "k_closed (everyone h ! j) \<or> j \<in> set ids \<and> \<not> length (k_send (everyone h ! j)) < k_buffer (everyone h ! j)"
  using assms
proof (induction ids arbitrary: h)
  case (Cons i ids)
  let ?h = "publishTo m i h"
  have i: "i < length (everyone h)" "k_once (everyone h ! i) \<longrightarrow> k_closed (everyone h ! i)" "i \<notin> set ids" "distinct ids"
    using Cons.prems by auto
  note P = publishTo_spares [OF i(1,2), where m = m]
  have "k < length (everyone ?h) \<and> (k_once (everyone ?h ! k) \<longrightarrow> k_closed (everyone ?h ! k))" if "k \<in> set ids" for k
    using that i(3) P(2) [where j = k] Cons.prems(2) [of k] by (cases "k = i") (auto simp: P(1))
  moreover have "k_closed (everyone (fold (publishTo m) ids ?h) ! j)" using Cons.prems(3) by simp
  ultimately have "k_closed (everyone ?h ! j) \<or> j \<in> set ids \<and> \<not> length (k_send (everyone ?h ! j)) < k_buffer (everyone ?h ! j)"
    by (rule Cons.IH [OF i(4)])
  then show ?case using P(2) [where j = j] P(3) i(3) by (cases "j = i") auto
qed simp

lemma Publish_spares:
  assumes "hubOk (h, log, spans)" and "i < length (everyone h)" and "k_closed (everyone (Publish rfc3339 event h) ! i)"
  shows "k_closed (everyone h ! i) \<or>
    k_scope (everyone h ! i) = eventScope event \<and> length (k_send (everyone h ! i)) = k_buffer (everyone h ! i)"
proof -
  from assms(1) have sub: "subscribers h = openClients h" and cl: "\<And>i. i < length (everyone h) \<Longrightarrow> clientOk log (spans ! i) (everyone h ! i)"
    by (auto simp: hubOk_iff hubCounts_def)
  note S = scopeClients_open [OF sub, where sc = "eventScope event"]
  let ?h = "h\<lparr>MessagesPublished := MessagesPublished h + 1\<rparr>"
  have closed: "k_closed (everyone (fold (publishTo (MessageFromEvent rfc3339 event)) (scopeClients h (eventScope event)) ?h) ! i)"
    using assms(3) by (simp add: Publish_def)
  have "j < length (everyone ?h) \<and> (k_once (everyone ?h ! j) \<longrightarrow> k_closed (everyone ?h ! j))"
    if "j \<in> set (scopeClients h (eventScope event))" for j
    using S(2) [of j] that cl [of j] by (simp add: clientOk_def)
  from publish_spares [OF S(1) this closed] have "k_closed (everyone h ! i) \<or>
      i \<in> set (scopeClients h (eventScope event)) \<and> \<not> length (k_send (everyone h ! i)) < k_buffer (everyone h ! i)" by simp
  moreover have "length (k_send (everyone h ! i)) \<le> k_buffer (everyone h ! i)" using cl [OF assms(2)] by (simp add: clientOk_def)
  ultimately show ?thesis using S(2) [of i] by auto
qed

lemma Subscribe_ok:
  assumes "hubOk (h, log, spans)"
  shows "hubOk (snd (Subscribe scope actorRef deviceID buffer h), log, spans @ [(length log, None)])"
proof -
  define c where "c = \<lparr>k_scope = scope, k_actorRef = actorRef, k_deviceID = deviceID,
                    k_buffer = nat (if buffer \<le> 0 then 32 else buffer), k_send = [], k_taken = [],
                    k_closed = False, k_once = False\<rparr>"
  define h' where "h' = h\<lparr>subscribers := subscribers h @ [(scope, length (everyone h))], everyone := everyone h @ [c],
               ConnectionsAccepted := ConnectionsAccepted h + 1\<rparr>"
  have h': "snd (Subscribe scope actorRef deviceID buffer h) = h'" by (simp add: Subscribe_def Let_def h'_def c_def)
  have "filter (\<lambda>i. \<not> k_closed ((everyone h @ [c]) ! i)) [0..<length (everyone h)] =
    filter (\<lambda>i. \<not> k_closed (everyone h ! i)) [0..<length (everyone h)]" by (rule filter_cong) (auto simp: nth_append)
  then have "openClients h' = openClients h @ [(scope, length (everyone h))]"
    by (auto simp: openClients_def h'_def nth_append c_def)
  moreover have "clientOk log (length log, None) c"
    unfolding clientOk_def by (simp add: c_def owed_def)
  ultimately show ?thesis using assms unfolding h'
    by (simp add: hubOk_iff hubCounts_def h'_def nth_append less_Suc_eq) (simp add: c_def)
qed

lemma receive_ok:
  assumes "hubOk (h, log, spans)" and "i < length (everyone h)"
  shows "hubOk (snd (receive i h), log, spans)"
proof (cases "k_send (everyone h ! i)")
  case Nil
  with assms show ?thesis by (simp add: receive_def Let_def)
next
  case (Cons m ms)
  let ?c = "everyone h ! i"
  let ?c' = "?c\<lparr>k_send := ms, k_taken := k_taken ?c @ [m]\<rparr>"
  define h' where "h' = h\<lparr>everyone := (everyone h)[i := ?c']\<rparr>"
  have h': "snd (receive i h) = h'" using Cons by (simp add: receive_def Let_def h'_def)
  from assms have "clientOk log (spans ! i) ?c" by (auto simp: hubOk_iff)
  then have "clientOk log (spans ! i) ?c'" using Cons by (auto simp: clientOk_def split: option.splits)
  then have "\<forall>j < length (everyone h'). clientOk log (spans ! j) (everyone h' ! j)"
    using assms by (simp add: hubOk_iff h'_def nth_list_update)
  moreover have "openClients h' = openClients h" using assms(2) by (intro openClients_cong) (auto simp: h'_def nth_list_update)
  moreover have "length (filter k_closed (everyone h')) = length (filter k_closed (everyone h))"
    using length_filter_update [OF assms(2), of k_closed ?c'] by (simp add: h'_def split: if_splits)
  ultimately show ?thesis using assms unfolding h' by (simp add: hubOk_iff hubCounts_def h'_def)
qed

lemma hub_step_ok: "hub_step rfc3339 \<sigma> \<sigma>' \<Longrightarrow> hubOk \<sigma> \<Longrightarrow> hubOk \<sigma>'"
  by (induction rule: hub_step.induct) (simp_all add: Subscribe_ok Unsubscribe_ok Publish_ok receive_ok)

lemma hub_steps_ok: "(hub_step rfc3339)\<^sup>*\<^sup>* \<sigma> \<sigma>' \<Longrightarrow> hubOk \<sigma> \<Longrightarrow> hubOk \<sigma>'"
  by (induction rule: rtranclp_induct) (auto dest: hub_step_ok)

lemma NewHub_ok: "hubOk (NewHub, [], [])"
  by (simp add: hubOk_iff hubCounts_def NewHub_def openClients_def)

text \<open>
  C13. No gaps, no strangers' messages, no needless closure: whatever the sequence of subscriptions, publications,
  receptions and closures, a client that is open has been sent, in order, exactly the messages published for its own
  organisation and location since the moment it subscribed, and a closed one exactly those between its subscription and
  the moment it was closed; its buffer is never overrun; and a publication closes only clients of its own scope
  whose buffer is full.
\<close>
theorem hub_is_gap_free:
  assumes "(hub_step rfc3339)\<^sup>*\<^sup>* (NewHub, [], []) (h, log, spans)"
  shows "list_all2
      (\<lambda>(start, stop) c.
         k_taken c @ k_send c =
           map snd (filter (\<lambda>(sc, m). sc = k_scope c)
             (drop start (case stop of None \<Rightarrow> log | Some n \<Rightarrow> take n log))) \<and>
         (k_closed c \<longleftrightarrow> stop \<noteq> None) \<and> length (k_send c) \<le> k_buffer c)
      spans (everyone h) \<and>
    (\<forall>event i. i < length (everyone h) \<and> k_closed (everyone (Publish rfc3339 event h) ! i) \<longrightarrow>
       k_closed (everyone h ! i) \<or>
       k_scope (everyone h ! i) = eventScope event \<and> length (k_send (everyone h ! i)) = k_buffer (everyone h ! i))"
proof (intro conjI)
  have ok: "hubOk (h, log, spans)" by (rule hub_steps_ok [OF assms NewHub_ok])
  then have "list_all2 (clientOk log) spans (everyone h)" by (simp add: hubOk_def)
  then show "list_all2
      (\<lambda>(start, stop) c.
         k_taken c @ k_send c =
           map snd (filter (\<lambda>(sc, m). sc = k_scope c)
             (drop start (case stop of None \<Rightarrow> log | Some n \<Rightarrow> take n log))) \<and>
         (k_closed c \<longleftrightarrow> stop \<noteq> None) \<and> length (k_send c) \<le> k_buffer c)
      spans (everyone h)"
    by (rule list_all2_mono) (auto simp: clientOk_def owed_def case_prod_unfold split: option.splits)
  show "\<forall>event i. i < length (everyone h) \<and> k_closed (everyone (Publish rfc3339 event h) ! i) \<longrightarrow>
       k_closed (everyone h ! i) \<or>
       k_scope (everyone h ! i) = eventScope event \<and> length (k_send (everyone h ! i)) = k_buffer (everyone h ! i)"
    using Publish_spares [OF ok] by blast
qed

text \<open>The calls of an outbox worker are publications of the hub.\<close>

definition publishedBy :: "(int \<Rightarrow> string) \<Rightarrow> effect list \<Rightarrow> (Scope \<times> Message) list" where
  "publishedBy rfc3339 t =
     concat (map (\<lambda>x. case x of
         Called name event ok \<Rightarrow> if name = ''realtime-gateway'' then [(eventScope event, MessageFromEvent rfc3339 event)] else []
       | _ \<Rightarrow> []) t)"

lemma calls_are_publications:
  "\<exists>spans'. (hub_step rfc3339)\<^sup>*\<^sup>* (h, log, spans) (hubAfter rfc3339 t h, log @ publishedBy rfc3339 t, spans')"
proof (induction t arbitrary: h log spans)
  case Nil
  then show ?case by (auto simp: publishedBy_def)
next
  case (Cons x t)
  show ?case
  proof (cases "\<exists>event ok. x = Called ''realtime-gateway'' event ok")
    case True
    then obtain event ok where x: "x = Called ''realtime-gateway'' event ok" by blast
    let ?l = "log @ [(eventScope event, MessageFromEvent rfc3339 event)]" and ?h = "Publish rfc3339 event h"
    obtain spans' where "(hub_step rfc3339)\<^sup>*\<^sup>* (?h, ?l, endSpans (length log) ?h spans) (hubAfter rfc3339 t ?h, ?l @ publishedBy rfc3339 t, spans')"
      using Cons.IH by blast
    then have "(hub_step rfc3339)\<^sup>*\<^sup>* (h, log, spans) (hubAfter rfc3339 t ?h, ?l @ publishedBy rfc3339 t, spans')"
      by (rule converse_rtranclp_into_rtranclp [rotated]) (rule hub_step.publish)
    then show ?thesis by (auto simp: x publishedBy_def realtimeHandle_def)
  next
    case False
    then have "hubAfter rfc3339 (x # t) h = hubAfter rfc3339 t h" "publishedBy rfc3339 (x # t) = publishedBy rfc3339 t"
      by (auto simp: publishedBy_def split: effect.splits)
    then show ?thesis using Cons.IH by simp
  qed
qed

text \<open>
  The hub's counters add up: the active connections are the accepted ones less the closed ones, every
  dropped message closed its client, and every publication is counted.
\<close>
theorem hub_metrics_add_up:
  assumes "(hub_step rfc3339)\<^sup>*\<^sup>* (NewHub, [], []) (h, log, spans)"
  shows "sn_ActiveConnections (MetricsSnapshot h) = sn_ConnectionsAccepted (MetricsSnapshot h) - sn_ConnectionsClosed (MetricsSnapshot h) \<and>
    sn_MessagesDropped (MetricsSnapshot h) = sn_BackpressureCloses (MetricsSnapshot h) \<and>
    sn_BackpressureCloses (MetricsSnapshot h) \<le> sn_ConnectionsClosed (MetricsSnapshot h) \<and>
    sn_MessagesPublished (MetricsSnapshot h) = int (length log)"
proof -
  have ok: "hubOk (h, log, spans)" using hub_steps_ok [OF assms NewHub_ok] .
  have "length (openClients h) = length (filter (\<lambda>c. \<not> k_closed c) (everyone h))"
    unfolding openClients_def length_map by (simp add: length_filter_conv_card cong: conj_cong)
  moreover have "length (filter k_closed (everyone h)) + length (filter (\<lambda>c. \<not> k_closed c) (everyone h)) = length (everyone h)"
    by (rule sum_length_filter_compl)
  ultimately show ?thesis using ok by (simp add: hubOk_iff hubCounts_def MetricsSnapshot_def)
qed

text \<open>A sample hub: two clients of the sample location, one of them with a buffer of one message.\<close>

definition sampleScope :: Scope where
  "sampleScope = \<lparr>sc_OrganisationID = 1, sc_LocationID = 2\<rparr>"

definition sampleSeatedEvent :: Envelope where
  "sampleSeatedEvent =
     \<lparr>ev_ID = 101, ev_Type = ''table.occupied'', ev_SchemaVersion = 1, ev_OccurredAt = 0, ev_OrganisationID = 1,
      ev_LocationID = 2, ev_ActorRef = '''', ev_DeviceID = None, ev_EntityType = ''table'', ev_EntityID = 3,
      ev_EntityVersion = Some 2, ev_CommandID = None, ev_CorrelationID = None, ev_Traceparent = '''',
      ev_Tracestate = '''', ev_Data = JObj []\<rparr>"

definition sampleTime :: "int \<Rightarrow> string" where "sampleTime t = ''1970-01-01T00:00:00Z''"

definition sampleHub2 :: Hub where
  "sampleHub2 = snd (Subscribe sampleScope ''b'' 2 8 (snd (Subscribe sampleScope ''a'' 1 1 NewHub)))"

definition sampleHub :: Hub where
  "sampleHub = Publish sampleTime sampleSeatedEvent (Publish sampleTime sampleSeatedEvent sampleHub2)"

definition sampleLog :: "(Scope \<times> Message) list" where
  "sampleLog = replicate 2 (eventScope sampleSeatedEvent, MessageFromEvent sampleTime sampleSeatedEvent)"

lemma sampleHub_steps: "(hub_step sampleTime)\<^sup>*\<^sup>* (NewHub, [], []) (sampleHub, sampleLog, [(0, Some 1), (0, None)])"
proof -
  let ?h1 = "snd (Subscribe sampleScope ''a'' 1 1 NewHub)" and ?e = "(eventScope sampleSeatedEvent, MessageFromEvent sampleTime sampleSeatedEvent)"
  let ?h3 = "Publish sampleTime sampleSeatedEvent sampleHub2"
  have 1: "hub_step sampleTime (NewHub, [], []) (?h1, [], [(0, None)])" using hub_step.subscribe [of sampleTime NewHub "[]" "[]"] by simp
  have 2: "hub_step sampleTime (?h1, [], [(0, None)]) (sampleHub2, [], [(0, None), (0, None)])"
    using hub_step.subscribe [of sampleTime ?h1 "[]" "[(0, None)]" sampleScope "''b''" 2 8] by (simp add: sampleHub2_def)
  have "endSpans 0 ?h3 [(0, None), (0, None)] = [(0, None), (0, None)]" "endSpans 1 sampleHub [(0, None), (0, None)] = [(0, Some 1), (0, None)]"
    by code_simp+
  then have 3: "hub_step sampleTime (sampleHub2, [], [(0, None), (0, None)]) (?h3, [?e], [(0, None), (0, None)])"
    and 4: "hub_step sampleTime (?h3, [?e], [(0, None), (0, None)]) (sampleHub, [?e, ?e], [(0, Some 1), (0, None)])"
    using hub_step.publish [of sampleTime sampleHub2 "[]" "[(0, None), (0, None)]" sampleSeatedEvent]
      hub_step.publish [of sampleTime ?h3 "[?e]" "[(0, None), (0, None)]" sampleSeatedEvent] by (simp_all add: sampleHub_def)
  have "sampleLog = [?e, ?e]" by (simp add: sampleLog_def numeral_2_eq_2)
  with 1 2 3 4 show ?thesis by (metis (no_types, lifting) converse_rtranclp_into_rtranclp rtranclp.rtrancl_refl)
qed

text \<open>Witness of C13: after two publications the client with the small buffer is closed with one message, the other has both.\<close>
theorem hub_is_gap_free_witness:
  "map (\<lambda>c. k_taken c @ k_send c) (everyone sampleHub) = [map snd (take 1 sampleLog), map snd sampleLog] \<and>
   map k_closed (everyone sampleHub) = [True, False]"
proof -
  obtain c d where two: "everyone sampleHub = [c, d]" and sc: "k_scope c = eventScope sampleSeatedEvent" "k_scope d = eventScope sampleSeatedEvent"
  proof -
    have "map k_scope (everyone sampleHub) = [eventScope sampleSeatedEvent, eventScope sampleSeatedEvent]" by code_simp
    then show thesis using that by (auto simp: map_eq_Cons_conv)
  qed
  show ?thesis
    using hub_is_gap_free [OF sampleHub_steps] sc by (simp add: two sampleLog_def numeral_2_eq_2)
qed

text \<open>Example: the counters of the sample hub.\<close>
theorem hub_metrics_add_up_witness:
  "sn_ActiveConnections (MetricsSnapshot sampleHub) = 1 \<and> sn_BackpressureCloses (MetricsSnapshot sampleHub) \<le> 1 \<and>
   sn_MessagesPublished (MetricsSnapshot sampleHub) = 2"
proof -
  have "sn_ConnectionsAccepted (MetricsSnapshot sampleHub) = 2" "sn_ConnectionsClosed (MetricsSnapshot sampleHub) = 1" by code_simp+
  with hub_metrics_add_up [OF sampleHub_steps] show ?thesis by (simp add: sampleLog_def)
qed

end
