(* ===== verification/Sync.thy ===== *)
theory Sync
  imports Hub Tokens
begin

text \<open>
  The catch-up side of the realtime gateway, \<^verbatim>\<open>internal/realtime/sync.go\<close> and the cursor, snapshot and
  event handlers of \<^verbatim>\<open>http.go\<close>: a device reads a snapshot of its location with a cursor, then pages
  through the events after it. Cursor times are Go instants in nanoseconds, event times are
  microseconds. The encoding of a cursor as JSON is concrete except for the text of an instant, the
  argument \<open>rfc3339\<close>; parsing JSON is the argument \<open>unmarshal\<close>.
\<close>

section \<open>Base64 URL decoding\<close>

definition base64Alphabet :: string where
  "base64Alphabet = ''ABCDEFGHIJKLMNOPQRSTUVWXYZabcdefghijklmnopqrstuvwxyz0123456789-_''"

definition base64Value :: "char \<Rightarrow> nat option" where
  "base64Value ch = map_of (zip base64Alphabet [0..<64]) ch"

text \<open>
  \<^verbatim>\<open>base64.RawURLEncoding.DecodeString\<close>: carriage returns and newlines are skipped, the unused bits of
  a last incomplete group are ignored, one left-over character is an error.
\<close>

fun base64Groups :: "nat list \<Rightarrow> bytes option" where
  "base64Groups [] = Some []"
| "base64Groups [p] = None"
| "base64Groups [p, q] = Some [word_of_nat (p * 4 + q div 16)]"
| "base64Groups [p, q, r] = Some [word_of_nat (p * 4 + q div 16), word_of_nat (q mod 16 * 16 + r div 4)]"
| "base64Groups (p # q # r # t # rest) =
     map_option (\<lambda>bs. word_of_nat (p * 4 + q div 16) # word_of_nat (q mod 16 * 16 + r div 4) # word_of_nat (r mod 4 * 64 + t) # bs)
       (base64Groups rest)"

definition base64Decode :: "string \<Rightarrow> bytes option" where
  "base64Decode s =
     (let values = map base64Value (filter (\<lambda>ch. ch \<noteq> CHR 0x0A \<and> ch \<noteq> CHR 0x0D) s)
      in if None \<in> set values then None else base64Groups (map the values))"

lemma base64Value_char [simp]:
  assumes "n < 64"
  shows "base64Value (base64Char n) = Some n"
proof -
  have "length base64Alphabet = 64" "distinct base64Alphabet" by code_simp+
  then have "map_of (zip base64Alphabet [0..<64]) (base64Alphabet ! n) = Some ([0..<64] ! n)"
    using assms by (intro map_of_zip_nth) (simp_all del: upt_rec_numeral)
  then show ?thesis
    using assms by (simp add: base64Value_def base64Char_def base64Alphabet_def del: upt_rec_numeral)
qed

lemma unat8 [simp]: "unat (a :: 8 word) < 256"
  using unsigned_less [of a] by simp

text \<open>The six-bit groups of a byte string; the characters are their digits.\<close>

fun sixBits :: "bytes \<Rightarrow> nat list" where
  "sixBits [] = []"
| "sixBits [a] = [unat a div 4, unat a mod 4 * 16]"
| "sixBits [a, b] = [unat a div 4, unat a mod 4 * 16 + unat b div 16, unat b mod 16 * 4]"
| "sixBits (a # b # c # rest) =
     [unat a div 4, unat a mod 4 * 16 + unat b div 16, unat b mod 16 * 4 + unat c div 64, unat c mod 64] @ sixBits rest"

lemma sixBits_bounds:
  "unat (a :: 8 word) div 4 < 64" "unat a mod 4 * 16 < 64" "unat b mod 16 * 4 < 64"
  "unat a mod 4 * 16 + unat (b :: 8 word) div 16 < 64" "unat b mod 16 * 4 + unat (c :: 8 word) div 64 < 64"
  using unat8 [of a] unat8 [of b] unat8 [of c] by linarith+

lemma sixBits_less: "\<forall>n \<in> set (sixBits bs). n < 64"
  by (induction bs rule: sixBits.induct) (simp_all add: sixBits_bounds)

lemma base64RawURL_sixBits: "base64RawURL bs = map base64Char (sixBits bs)"
  by (induction bs rule: sixBits.induct) simp_all

lemma join_high: "y < 16 \<Longrightarrow> (x div 4) * 4 + (x mod 4 * 16 + y) div 16 = (x :: nat)"
  by simp

lemma join_mid: "z < 4 \<Longrightarrow> y < 256 \<Longrightarrow> (w * 16 + y div 16) mod 16 * 16 + (y mod 16 * 4 + z) div 4 = (y :: nat)"
  by simp

lemma join_low: "(w * 4 + z div 64) mod 4 * 64 + z mod 64 = (z :: nat)" if "z < 256"
proof -
  have "z div 64 < 4" using that by simp
  then show ?thesis by simp
qed

lemma joinBytes:
  "(unat (a :: 8 word) div 4) * 4 + (unat a mod 4 * 16 + unat (b :: 8 word) div 16) div 16 = unat a"
  "(unat a mod 4 * 16 + unat b div 16) mod 16 * 16 + (unat b mod 16 * 4 + unat (c :: 8 word) div 64) div 4 = unat b"
  "(unat b mod 16 * 4 + unat c div 64) mod 4 * 64 + unat c mod 64 = unat c"
  "(unat a div 4) * 4 + (unat a mod 4 * 16) div 16 = unat a"
  "(unat a mod 4 * 16 + unat b div 16) mod 16 * 16 + (unat b mod 16 * 4) div 4 = unat b"
  using join_high [of "unat b div 16" "unat a"] join_high [of 0 "unat a"] unat8 [of a] unat8 [of b] unat8 [of c]
    join_mid [of "unat c div 64" "unat b" "unat a mod 4"] join_mid [of 0 "unat b" "unat a mod 4"]
    join_low [of "unat c" "unat b mod 16"] by simp_all

lemma base64Groups_sixBits: "base64Groups (sixBits bs) = Some bs"
  by (induction bs rule: sixBits.induct) (simp_all only: sixBits.simps append_Cons append_Nil base64Groups.simps joinBytes
    of_nat_unat ucast_id option.map)

lemma base64Char_printable: "n < 64 \<Longrightarrow> base64Char n \<noteq> CHR 0x0A \<and> base64Char n \<noteq> CHR 0x0D"
proof -
  have "list_all (\<lambda>n. base64Char n \<noteq> CHR 0x0A \<and> base64Char n \<noteq> CHR 0x0D) [0..<64]" by code_simp
  then show "n < 64 \<Longrightarrow> base64Char n \<noteq> CHR 0x0A \<and> base64Char n \<noteq> CHR 0x0D"
    unfolding list_all_iff set_upt by (meson atLeastLessThan_iff zero_le)
qed

lemma base64_roundtrip: "base64Decode (base64RawURL bs) = Some bs"
proof -
  have f: "filter (\<lambda>ch. ch \<noteq> CHR 0x0A \<and> ch \<noteq> CHR 0x0D) (base64RawURL bs) = base64RawURL bs"
    using sixBits_less base64Char_printable by (simp add: base64RawURL_sixBits filter_id_conv)
  have v: "map base64Value (base64RawURL bs) = map Some (sixBits bs)"
    using sixBits_less by (simp add: base64RawURL_sixBits)
  show ?thesis unfolding base64Decode_def f v Let_def by (simp add: comp_def base64Groups_sixBits image_iff)
qed

section \<open>Cursors\<close>

record Cursor =
  cu_OccurredAt :: int
  cu_EventID :: uuid

definition zeroCursor :: Cursor where
  "zeroCursor = \<lparr>cu_OccurredAt = zeroTime, cu_EventID = uuid_Nil\<rparr>"

definition incomplete :: "Cursor \<Rightarrow> bool" where
  "incomplete c \<longleftrightarrow> cu_OccurredAt c = zeroTime \<or> cu_EventID c = uuid_Nil"

definition cursorFrom :: "timestamp \<Rightarrow> uuid \<Rightarrow> Cursor" where
  "cursorFrom occurredAt eventID =
     (if eventID = uuid_Nil then zeroCursor else \<lparr>cu_OccurredAt = occurredAt * 1000, cu_EventID = eventID\<rparr>)"

text \<open>A parameter of type \<^verbatim>\<open>timestamptz\<close> is sent in whole microseconds.\<close>

definition cursorTime :: "Cursor \<Rightarrow> timestamp option" where
  "cursorTime c = (if cu_OccurredAt c = zeroTime then None else Some (cu_OccurredAt c div 1000))"

definition cursorUUID :: "Cursor \<Rightarrow> uuid option" where
  "cursorUUID c = (if cu_EventID c = uuid_Nil then None else Some (cu_EventID c))"

text \<open>\<^verbatim>\<open>json.Marshal\<close> refuses an instant outside the years 0 to 9999.\<close>

definition marshalledYear :: "int \<Rightarrow> bool" where
  "marshalledYear t \<longleftrightarrow> - 62167219200 * 10 ^ 9 \<le> t \<and> t < 253402300800 * 10 ^ 9"

definition asBytes :: "string \<Rightarrow> bytes" where
  "asBytes s = map of_char s"

definition cursorJSON :: "(int \<Rightarrow> string) \<Rightarrow> Cursor \<Rightarrow> bytes" where
  "cursorJSON rfc3339 c =
     (let q = [CHR 0x22]
      in asBytes (''{'' @ q @ ''occurredAt'' @ q @ '':'' @ q @ rfc3339 (cu_OccurredAt c) @ q @ '','' @
                  q @ ''eventId'' @ q @ '':'' @ q @ uuidString (cu_EventID c) @ q @ ''}''))"

definition Encode :: "(int \<Rightarrow> string) \<Rightarrow> Cursor \<Rightarrow> string" where
  "Encode rfc3339 c =
     (if incomplete c then '''' else base64RawURL (if marshalledYear (cu_OccurredAt c) then cursorJSON rfc3339 c else []))"

definition DecodeCursor :: "(bytes \<Rightarrow> Cursor option) \<Rightarrow> string \<Rightarrow> string + Cursor" where
  "DecodeCursor unmarshal value =
     (if value = '''' then Inr zeroCursor
      else case base64Decode value of
             None \<Rightarrow> Inl ''illegal base64 data''
           | Some body \<Rightarrow>
               (case unmarshal body of
                  None \<Rightarrow> Inl ''invalid JSON''
                | Some cursor \<Rightarrow> if incomplete cursor then Inl ''cursor is incomplete'' else Inr cursor))"


section \<open>Statements\<close>

record requestContext =
  rq_OrganisationID :: uuid
  rq_LocationID :: uuid
  rq_ActorRef :: string
  rq_DeviceID :: uuid

datatype rt_error = errUnauthorized | errForbidden

type_synonym 'a rt_body = "(rt_error fail, db, 'a) body"

definition eventKey :: "OperationalEvent \<Rightarrow> timestamp \<times> uuid" where
  "eventKey r = (e_occurred_at r, e_id r)"

definition locationEvents :: "env \<Rightarrow> ctx \<Rightarrow> requestContext \<Rightarrow> db \<Rightarrow> OperationalEvent list" where
  "locationEvents e c req s =
     filter (\<lambda>r. visible e c (e_org r) (e_loc r) \<and> e_org r = rq_OrganisationID req \<and> e_loc r = rq_LocationID req)
       (operational_events s)"

text \<open>\<^verbatim>\<open>ORDER BY occurred_at DESC, id DESC LIMIT 1\<close>\<close>

definition lastEvent :: "env \<Rightarrow> ctx \<Rightarrow> requestContext \<Rightarrow> db \<Rightarrow> OperationalEvent option" where
  "lastEvent e c req s =
     (case rev (sort_key eventKey (locationEvents e c req s)) of [] \<Rightarrow> None | r # rest \<Rightarrow> Some r)"

definition loadCurrentCursor :: "env \<Rightarrow> ctx \<Rightarrow> requestContext \<Rightarrow> Cursor rt_body" where
  "loadCurrentCursor e c req =
     txBind (runQuery e ''loading current event cursor'' None (reading (\<lambda>s. Inr (lastEvent e c req s)))) (\<lambda>row.
     txReturn (case row of None \<Rightarrow> zeroCursor | Some r \<Rightarrow> cursorFrom (e_occurred_at r) (e_id r)))"

text \<open>\<^verbatim>\<open>(occurred_at, id) > ($3, $4)\<close>, a comparison of rows in which $4 may be NULL; no row is after NULL.\<close>

definition afterCursor :: "Cursor \<Rightarrow> OperationalEvent \<Rightarrow> bool" where
  "afterCursor cursor r \<longleftrightarrow>
     (case cursorTime cursor of
        None \<Rightarrow> True
      | Some t \<Rightarrow> t < e_occurred_at r \<or>
          (t = e_occurred_at r \<and> (case cursorUUID cursor of None \<Rightarrow> False | Some i \<Rightarrow> i < e_id r)))"

definition EventsAfter :: "env \<Rightarrow> ctx \<Rightarrow> requestContext \<Rightarrow> Cursor \<Rightarrow> int \<Rightarrow> db \<Rightarrow> OperationalEvent list" where
  "EventsAfter e c req cursor limit s =
     take (nat limit) (sort_key eventKey (filter (afterCursor cursor) (locationEvents e c req s)))"

definition eventMessage :: "(int \<Rightarrow> string) \<Rightarrow> requestContext \<Rightarrow> OperationalEvent \<Rightarrow> Message" where
  "eventMessage rfc3339 req r =
     \<lparr>ms_Type = e_event_type r, ms_EventID = uuidString (e_id r),
      ms_OrganisationID = uuidString (rq_OrganisationID req), ms_LocationID = uuidString (rq_LocationID req),
      ms_EntityType = e_entity_type r, ms_EntityID = uuidString (e_entity_id r), ms_Version = e_entity_version r,
      ms_OccurredAt = rfc3339 (e_occurred_at r * 1000), ms_Data = e_event_data r\<rparr>"

definition loadEventsAfter ::
  "env \<Rightarrow> (int \<Rightarrow> string) \<Rightarrow> ctx \<Rightarrow> requestContext \<Rightarrow> Cursor \<Rightarrow> int \<Rightarrow> (Message list \<times> Cursor) rt_body" where
  "loadEventsAfter e rfc3339 c req cursor limit =
     txBind (runQuery e ''loading realtime events after cursor'' None
               (reading (\<lambda>s. Inr (EventsAfter e c req cursor limit s)))) (\<lambda>rows.
     txGuard (fault e ''iterating realtime events'') (Wrapped ''iterating realtime events'' ConnFailure)
       (txReturn (map (eventMessage rfc3339 req) rows,
                  fold (\<lambda>r next. cursorFrom (e_occurred_at r) (e_id r)) rows cursor)))"

record tableDTO =
  td_ID :: string
  td_FloorID :: string
  td_ZoneID :: string
  td_Label :: string
  td_CapacityLabel :: string
  td_Shape :: string
  td_Geometry :: json
  td_Version :: int

record occupancyDTO =
  od_Status :: string
  od_CurrentSessionID :: "string option"
  od_Version :: int
  od_UpdatedAt :: string

record tableStateDTO =
  ts_Table :: tableDTO
  ts_Occupancy :: occupancyDTO

record assistDTO =
  ad_ID :: string
  ad_TableID :: string
  ad_TableSessionID :: "string option"
  ad_Status :: string
  ad_RequestedAt :: string
  ad_Version :: int
  ad_Note :: "string option"

text \<open>\<open>collate\<close> ranks labels as the collation of the database orders them.\<close>

definition tableStateRows ::
  "env \<Rightarrow> (string \<Rightarrow> int) \<Rightarrow> ctx \<Rightarrow> requestContext \<Rightarrow> db \<Rightarrow> (Table \<times> TableOccupancy) list" where
  "tableStateRows e collate c req s =
     sort_key (\<lambda>(t, r). collate (t_label t))
       (filter (\<lambda>(t, r). visible e c (t_org t) (t_loc t) \<and> visible e c (o_org r) (o_loc r) \<and> o_table r = t_id t \<and>
                  t_org t = rq_OrganisationID req \<and> t_loc t = rq_LocationID req \<and> liveTable t)
         (List.product (tables s) (table_occupancy s)))"

definition tableState :: "(int \<Rightarrow> string) \<Rightarrow> Table \<times> TableOccupancy \<Rightarrow> tableStateDTO" where
  "tableState rfc3339 = (\<lambda>(t, r).
     \<lparr>ts_Table =
        \<lparr>td_ID = uuidString (t_id t), td_FloorID = uuidString (t_floor t), td_ZoneID = uuidString (t_zone t),
         td_Label = t_label t, td_CapacityLabel = t_capacity_label t, td_Shape = t_shape t,
         td_Geometry = t_geometry t, td_Version = t_version t\<rparr>,
      ts_Occupancy =
        \<lparr>od_Status = o_status r, od_CurrentSessionID = map_option uuidString (o_current_session r),
         od_Version = o_version r, od_UpdatedAt = rfc3339 (o_updated_at r * 1000)\<rparr>\<rparr>)"

definition loadTableStates ::
  "env \<Rightarrow> (int \<Rightarrow> string) \<Rightarrow> (string \<Rightarrow> int) \<Rightarrow> ctx \<Rightarrow> requestContext \<Rightarrow> tableStateDTO list rt_body" where
  "loadTableStates e rfc3339 collate c req =
     txBind (runQuery e ''loading location table states'' None (reading (\<lambda>s. Inr (tableStateRows e collate c req s)))) (\<lambda>rows.
     txGuard (fault e ''iterating location table states'') (Wrapped ''iterating location table states'' ConnFailure)
       (txReturn (map (tableState rfc3339) rows)))"

definition activeAssistRows :: "env \<Rightarrow> ctx \<Rightarrow> requestContext \<Rightarrow> db \<Rightarrow> AssistRequest list" where
  "activeAssistRows e c req s =
     sort_key (\<lambda>a. (a_requested_at a, a_id a))
       (filter (\<lambda>a. visible e c (a_org a) (a_loc a) \<and> a_org a = rq_OrganisationID req \<and> a_loc a = rq_LocationID req \<and>
                  a_status a \<in> {AssistStatusPending, AssistStatusAcknowledged})
         (assist_requests s))"

definition assistState :: "(int \<Rightarrow> string) \<Rightarrow> AssistRequest \<Rightarrow> assistDTO" where
  "assistState rfc3339 a =
     \<lparr>ad_ID = uuidString (a_id a), ad_TableID = uuidString (a_table a),
      ad_TableSessionID = map_option uuidString (a_session a), ad_Status = a_status a,
      ad_RequestedAt = rfc3339 (a_requested_at a * 1000), ad_Version = a_version a, ad_Note = a_note a\<rparr>"

definition loadActiveAssists :: "env \<Rightarrow> (int \<Rightarrow> string) \<Rightarrow> ctx \<Rightarrow> requestContext \<Rightarrow> assistDTO list rt_body" where
  "loadActiveAssists e rfc3339 c req =
     txBind (runQuery e ''loading active assists'' None (reading (\<lambda>s. Inr (activeAssistRows e c req s)))) (\<lambda>rows.
     txGuard (fault e ''iterating active assists'') (Wrapped ''iterating active assists'' ConnFailure)
       (txReturn (map (assistState rfc3339) rows)))"

section \<open>Handlers\<close>

text \<open>An answer is the status, code and message of an error, or the body of a 200.\<close>

datatype 'a response = HttpError nat string string | HttpOK 'a

fun isNoRows :: "'e fail \<Rightarrow> bool" where
  "isNoRows (Err x) = False"
| "isNoRows (Wrapped site err) = (err = ErrNoRows)"
| "isNoRows (Joined a b) = (isNoRows a \<or> isNoRows b)"

definition writeDBError :: "'e fail \<Rightarrow> 'a response" where
  "writeDBError err =
     (if isNoRows err then HttpError 404 ''not_found'' ''resource not found''
      else HttpError 500 ''internal_error'' ''internal server error'')"

definition realtimeTenantTx ::
  "env \<Rightarrow> requestContext \<Rightarrow> (ctx \<Rightarrow> 'a rt_body) \<Rightarrow> db \<Rightarrow> (rt_error fail + 'a) \<times> db" where
  "realtimeTenantTx e req fn s =
     (if fault e ''beginning transaction'' then (Inl (Wrapped ''beginning transaction'' ConnFailure), s)
      else if fault e ''setting tenant context''
        then (Inl (rollback e (Wrapped ''setting tenant context'' ConnFailure)), s)
      else case fn (tenant_context (rq_OrganisationID req) (rq_LocationID req)) s of
             Inl err \<Rightarrow> (Inl (rollback e err), s)
           | Inr (v, s') \<Rightarrow> commitTx e ''committing transaction'' v s s')"

record locationSnapshot =
  ls_OrganisationID :: string
  ls_LocationID :: string
  ls_Cursor :: string
  ls_Tables :: "tableStateDTO list"
  ls_Assists :: "assistDTO list"

definition snapshotInTx ::
  "env \<Rightarrow> (int \<Rightarrow> string) \<Rightarrow> (string \<Rightarrow> int) \<Rightarrow> requestContext \<Rightarrow> ctx \<Rightarrow> locationSnapshot rt_body" where
  "snapshotInTx e rfc3339 collate req c =
     txBind (loadCurrentCursor e c req) (\<lambda>cursor.
     txBind (loadTableStates e rfc3339 collate c req) (\<lambda>states.
     txBind (loadActiveAssists e rfc3339 c req) (\<lambda>assists.
     txReturn \<lparr>ls_OrganisationID = uuidString (rq_OrganisationID req), ls_LocationID = uuidString (rq_LocationID req),
               ls_Cursor = Encode rfc3339 cursor, ls_Tables = states, ls_Assists = assists\<rparr>)))"

text \<open>The handlers, after the request was authorised as \<open>req\<close>.\<close>

definition getLocationSnapshot ::
  "env \<Rightarrow> (int \<Rightarrow> string) \<Rightarrow> (string \<Rightarrow> int) \<Rightarrow> requestContext \<Rightarrow> db \<Rightarrow> locationSnapshot response \<times> db" where
  "getLocationSnapshot e rfc3339 collate req s =
     (case realtimeTenantTx e req (snapshotInTx e rfc3339 collate req) s of
        (Inl err, s') \<Rightarrow> (writeDBError err, s')
      | (Inr snapshot, s') \<Rightarrow> (HttpOK snapshot, s'))"

definition eventsLimit :: "string \<Rightarrow> int option" where
  "eventsLimit param =
     (let raw = trimSpace param
      in if raw = '''' then Some 200
         else case Atoi raw of
                None \<Rightarrow> None
              | Some parsed \<Rightarrow> if parsed < 1 \<or> parsed > 500 then None else Some parsed)"

definition listEvents ::
  "env \<Rightarrow> (int \<Rightarrow> string) \<Rightarrow> (bytes \<Rightarrow> Cursor option) \<Rightarrow> requestContext \<Rightarrow> string \<Rightarrow> string \<Rightarrow> db \<Rightarrow>
     (Message list \<times> string) response \<times> db" where
  "listEvents e rfc3339 unmarshal req limitParam afterParam s =
     (case eventsLimit limitParam of
        None \<Rightarrow> (HttpError 400 ''validation_failed'' ''limit must be between 1 and 500'', s)
      | Some limit \<Rightarrow>
          (case DecodeCursor unmarshal (trimSpace afterParam) of
             Inl err \<Rightarrow> (HttpError 400 ''validation_failed'' ''after cursor is invalid'', s)
           | Inr after \<Rightarrow>
               (case realtimeTenantTx e req (\<lambda>c. txBind (loadEventsAfter e rfc3339 c req after limit) (\<lambda>(events, cursor).
                       txReturn (events, Encode rfc3339 cursor))) s of
                  (Inl err, s') \<Rightarrow> (writeDBError err, s')
                | (Inr body, s') \<Rightarrow> (HttpOK body, s'))))"

text \<open>What a device does with the answers: it asks for the next page until a page is empty.\<close>

primrec followPages :: "nat \<Rightarrow> (string \<Rightarrow> (Message list \<times> string) response) \<Rightarrow> string \<Rightarrow> Message list" where
  "followPages 0 fetch after = []"
| "followPages (Suc n) fetch after =
     (case fetch after of
        HttpError status code msg \<Rightarrow> []
      | HttpOK (events, cursor) \<Rightarrow> if events = [] then [] else events @ followPages n fetch cursor)"

section \<open>Cursors survive the wire\<close>

lemma trimSpace_Nil [simp]: "trimSpace [] = []"
  using length_trimSpace [of "[]"] by simp

lemma trimSpace_base64: "trimSpace (base64RawURL bs) = base64RawURL bs"
proof (cases "base64RawURL bs = []")
  case False
  then show ?thesis using base64_tokens [of bs] by (simp add: trimSpace_token list_all_iff)
qed simp

lemma trimSpace_Encode [simp]: "trimSpace (Encode rfc3339 c) = Encode rfc3339 c"
  by (simp add: Encode_def trimSpace_base64)

lemma base64RawURL_Nil_iff [simp]: "base64RawURL bs = [] \<longleftrightarrow> bs = []"
  by (cases bs rule: base64RawURL.cases) simp_all

lemma cursorJSON_not_Nil [simp]: "cursorJSON rfc3339 c \<noteq> []"
  by (simp add: cursorJSON_def asBytes_def Let_def)

text \<open>A cursor that the server has handed out: the start, or the position of an event.\<close>

definition servedCursor :: "(int \<Rightarrow> string) \<Rightarrow> (bytes \<Rightarrow> Cursor option) \<Rightarrow> Cursor \<Rightarrow> bool" where
  "servedCursor rfc3339 unmarshal c \<longleftrightarrow>
     c = zeroCursor \<or>
     (\<not> incomplete c \<and> marshalledYear (cu_OccurredAt c) \<and> unmarshal (cursorJSON rfc3339 c) = Some c)"

lemma incomplete_zero [simp]: "incomplete zeroCursor"
  by (simp add: incomplete_def zeroCursor_def)

lemma Decode_Encode: "servedCursor rfc3339 unmarshal c \<Longrightarrow> DecodeCursor unmarshal (Encode rfc3339 c) = Inr c"
  by (auto simp: servedCursor_def Encode_def DecodeCursor_def base64_roundtrip)

text \<open>
  Cursors round-trip: the cursor of an event, encoded for the client, is decoded to the same cursor,
  whatever its time and identifier, as long as the JSON decoder inverts the encoder on it; and decoding
  yields the start or a complete cursor, never one with half of its fields.
\<close>
theorem cursor_roundtrip:
  assumes "cu_EventID c \<noteq> uuid_Nil" and "cu_OccurredAt c \<noteq> zeroTime" and "marshalledYear (cu_OccurredAt c)"
    and "unmarshal (cursorJSON rfc3339 c) = Some c"
  shows "DecodeCursor unmarshal (Encode rfc3339 c) = Inr c \<and>
    (\<forall>value d. DecodeCursor unmarshal value = Inr d \<longrightarrow> (d = zeroCursor \<longleftrightarrow> value = '''') \<and> (\<not> incomplete d \<longleftrightarrow> value \<noteq> ''''))"
proof
  show "DecodeCursor unmarshal (Encode rfc3339 c) = Inr c"
    using assms by (intro Decode_Encode) (simp add: servedCursor_def incomplete_def)
  show "\<forall>value d. DecodeCursor unmarshal value = Inr d \<longrightarrow> (d = zeroCursor \<longleftrightarrow> value = '''') \<and> (\<not> incomplete d \<longleftrightarrow> value \<noteq> '''')"
    by (auto simp: DecodeCursor_def split: option.splits if_splits)
qed

definition sampleCursor :: Cursor where
  "sampleCursor = \<lparr>cu_OccurredAt = 5000, cu_EventID = 101\<rparr>"

definition sampleUnmarshal :: "Cursor list \<Rightarrow> (int \<Rightarrow> string) \<Rightarrow> bytes \<Rightarrow> Cursor option" where
  "sampleUnmarshal cs rfc3339 body = find (\<lambda>c. cursorJSON rfc3339 c = body) cs"

text \<open>Example: the cursor of an event.\<close>
theorem cursor_roundtrip_witness:
  "DecodeCursor (sampleUnmarshal [sampleCursor] sampleTime) (Encode sampleTime sampleCursor) = Inr sampleCursor"
  using cursor_roundtrip [of sampleCursor "sampleUnmarshal [sampleCursor] sampleTime" sampleTime]
  by (simp add: sampleCursor_def uuid_Nil_def zeroTime_def marshalledYear_def sampleUnmarshal_def)


section \<open>Paging\<close>

text \<open>An event whose position is a complete cursor that survives the wire.\<close>

definition addressable :: "(int \<Rightarrow> string) \<Rightarrow> (bytes \<Rightarrow> Cursor option) \<Rightarrow> OperationalEvent \<Rightarrow> bool" where
  "addressable rfc3339 unmarshal r \<longleftrightarrow>
     e_id r \<noteq> uuid_Nil \<and> e_occurred_at r * 1000 \<noteq> zeroTime \<and> marshalledYear (e_occurred_at r * 1000) \<and>
     unmarshal (cursorJSON rfc3339 (cursorFrom (e_occurred_at r) (e_id r))) = Some (cursorFrom (e_occurred_at r) (e_id r))"

lemma addressable_served:
  "addressable rfc3339 unmarshal r \<Longrightarrow> servedCursor rfc3339 unmarshal (cursorFrom (e_occurred_at r) (e_id r))"
  by (auto simp: addressable_def servedCursor_def cursorFrom_def incomplete_def)

lemma afterCursor_event:
  "addressable rfc3339 unmarshal r \<Longrightarrow> afterCursor (cursorFrom (e_occurred_at r) (e_id r)) x \<longleftrightarrow> eventKey r < eventKey x"
  by (auto simp: addressable_def afterCursor_def cursorFrom_def cursorTime_def cursorUUID_def eventKey_def less_prod_def')

lemma afterCursor_zero [simp]: "afterCursor zeroCursor = (\<lambda>r. True)"
  by (simp add: afterCursor_def zeroCursor_def cursorTime_def fun_eq_iff)

lemma afterCursor_mono:
  assumes "afterCursor cursor r" and "eventKey r < eventKey x"
  shows "afterCursor cursor x"
  using assms by (auto simp: afterCursor_def eventKey_def less_prod_def' split: option.splits)

text \<open>The rows a page is cut from.\<close>

definition pendingRows :: "env \<Rightarrow> ctx \<Rightarrow> requestContext \<Rightarrow> Cursor \<Rightarrow> db \<Rightarrow> OperationalEvent list" where
  "pendingRows e c req cursor s = filter (afterCursor cursor) (sort_key eventKey (locationEvents e c req s))"

lemma EventsAfter_pending: "EventsAfter e c req cursor limit s = take (nat limit) (pendingRows e c req cursor s)"
  by (simp add: EventsAfter_def pendingRows_def filter_sort)

lemma pending_strict:
  assumes "distinct (map e_id (operational_events s))"
  shows "sorted_wrt (<) (map eventKey (pendingRows e c req cursor s))"
proof -
  let ?rows = "pendingRows e c req cursor s"
  have "distinct (map e_id (locationEvents e c req s))" using assms by (simp add: locationEvents_def distinct_map_filter)
  then have "inj_on e_id (set (locationEvents e c req s))" and "distinct (locationEvents e c req s)" by (auto simp: distinct_map)
  then have "inj_on eventKey (set ?rows)" and "distinct ?rows"
    by (auto simp: pendingRows_def eventKey_def inj_on_def)
  then have "distinct (map eventKey ?rows)" by (simp add: distinct_map)
  moreover have "sorted (map eventKey ?rows)" unfolding pendingRows_def by (rule sorted_filter) simp
  ultimately show ?thesis by (simp add: strict_sorted_iff)
qed

lemma pending_next:
  assumes st: "sorted_wrt (<) (map eventKey (pendingRows e c req cursor s))"
    and cut: "pendingRows e c req cursor s = xs @ r # ys" and ok: "addressable rfc3339 unmarshal r"
  shows "pendingRows e c req (cursorFrom (e_occurred_at r) (e_id r)) s = ys"
proof -
  let ?rows = "sort_key eventKey (locationEvents e c req s)"
  have "r \<in> set (pendingRows e c req cursor s)" unfolding cut by simp
  then have r: "afterCursor cursor r" by (simp add: pendingRows_def)
  have "filter (afterCursor (cursorFrom (e_occurred_at r) (e_id r))) ?rows = filter (\<lambda>x. eventKey r < eventKey x) ?rows"
    by (rule filter_cong) (simp_all add: afterCursor_event [OF ok])
  also have "\<dots> = filter (\<lambda>x. eventKey r < eventKey x) (filter (afterCursor cursor) ?rows)"
    unfolding filter_filter by (rule filter_cong) (auto intro: afterCursor_mono [OF r])
  also have "filter (afterCursor cursor) ?rows = xs @ r # ys" using cut by (simp add: pendingRows_def)
  also have "filter (\<lambda>x. eventKey r < eventKey x) (xs @ r # ys) = ys"
    using st unfolding cut by (auto simp: sorted_wrt_append filter_id_conv filter_empty_conv less_imp_not_less)
  finally show ?thesis by (simp add: pendingRows_def)
qed

lemma fold_last: "fold (\<lambda>r next. f r) xs a = (if xs = [] then a else f (last xs))"
  by (induction xs arbitrary: a) auto

lemma realtimeTenantTx_quiet:
  assumes "quiet e" and "deferredConstraints s" and "fn (tenant_context (rq_OrganisationID req) (rq_LocationID req)) s = Inr (v, s)"
  shows "realtimeTenantTx e req fn s = (Inr v, s)"
  using assms by (simp add: realtimeTenantTx_def quiet_def no_faults_def commitTx_def)

definition tenantOf :: "requestContext \<Rightarrow> ctx" where
  "tenantOf req = tenant_context (rq_OrganisationID req) (rq_LocationID req)"

lemma listEvents_quiet:
  fixes req :: requestContext
  assumes "quiet e" and "deferredConstraints s" and "eventsLimit param = Some limit" and "servedCursor rfc3339 unmarshal cursor"
  defines "page \<equiv> take (nat limit) (pendingRows e (tenantOf req) req cursor s)"
  shows "listEvents e rfc3339 unmarshal req param (Encode rfc3339 cursor) s =
    (HttpOK (map (eventMessage rfc3339 req) page,
       Encode rfc3339 (if page = [] then cursor else cursorFrom (e_occurred_at (last page)) (e_id (last page)))), s)"
proof -
  have "\<not> fault e site" for site using assms(1) by (simp add: quiet_def no_faults_def)
  then have "realtimeTenantTx e req (\<lambda>c. txBind (loadEventsAfter e rfc3339 c req cursor limit) (\<lambda>(events, cursor).
      txReturn (events, Encode rfc3339 cursor))) s =
    (Inr (map (eventMessage rfc3339 req) page,
       Encode rfc3339 (if page = [] then cursor else cursorFrom (e_occurred_at (last page)) (e_id (last page)))), s)"
    by (intro realtimeTenantTx_quiet [OF assms(1,2)])
      (simp add: loadEventsAfter_def txBind_def runQuery_def reading_def EventsAfter_pending page_def tenantOf_def fold_last)
  then show ?thesis using assms(3) Decode_Encode [OF assms(4)] by (simp add: listEvents_def)
qed

lemma followPages_pending:
  assumes "quiet e" and "deferredConstraints s" and limit: "eventsLimit param = Some limit"
    and dist: "distinct (map e_id (operational_events s))"
    and ok: "list_all (addressable rfc3339 unmarshal) (locationEvents e (tenantOf req) req s)"
  shows "servedCursor rfc3339 unmarshal cursor \<Longrightarrow> length (pendingRows e (tenantOf req) req cursor s) < n \<Longrightarrow>
    followPages n (\<lambda>after. fst (listEvents e rfc3339 unmarshal req param after s)) (Encode rfc3339 cursor) =
      map (eventMessage rfc3339 req) (pendingRows e (tenantOf req) req cursor s)"
proof (induction n arbitrary: cursor)
  case 0
  then show ?case by simp
next
  case (Suc n)
  let ?rows = "pendingRows e (tenantOf req) req cursor s"
  let ?page = "take (nat limit) ?rows"
  have l: "0 < nat limit" using limit by (auto simp: eventsLimit_def Let_def split: if_splits option.splits)
  note L = listEvents_quiet [OF assms(1,2) limit Suc.prems(1), of req]
  show ?case
  proof (cases "?rows = []")
    case True
    then show ?thesis using L by simp
  next
    case False
    then have ne: "?page \<noteq> []" using l by simp
    define r where "r = last ?page"
    have cut: "?rows = butlast ?page @ r # drop (nat limit) ?rows"
      using append_take_drop_id [of "nat limit" ?rows] ne by (metis append_butlast_last_id append.assoc append_Cons append_Nil r_def)
    have "r \<in> set ?rows" unfolding r_def using ne by (meson in_set_takeD last_in_set)
    then have r: "addressable rfc3339 unmarshal r" using ok by (auto simp: pendingRows_def list_all_iff)
    have "pendingRows e (tenantOf req) req (cursorFrom (e_occurred_at r) (e_id r)) s = drop (nat limit) ?rows"
      by (rule pending_next [OF pending_strict [OF dist] cut r])
    moreover from this have "length (pendingRows e (tenantOf req) req (cursorFrom (e_occurred_at r) (e_id r)) s) < n"
      using Suc.prems(2) diff_less [OF l length_greater_0_conv [THEN iffD2, OF False]] by (simp only: length_drop)
    ultimately have "followPages n (\<lambda>after. fst (listEvents e rfc3339 unmarshal req param after s))
        (Encode rfc3339 (cursorFrom (e_occurred_at r) (e_id r))) = map (eventMessage rfc3339 req) (drop (nat limit) ?rows)"
      using Suc.IH [OF addressable_served [OF r]] by simp
    then show ?thesis using L ne by (simp add: r_def [symmetric] append_take_drop_id flip: map_append)
  qed
qed

text \<open>The events of the location of a request, in the order of their time and identifier.\<close>

definition history :: "requestContext \<Rightarrow> db \<Rightarrow> OperationalEvent list" where
  "history req s =
     sort_key eventKey (filter (\<lambda>r. e_org r = rq_OrganisationID req \<and> e_loc r = rq_LocationID req) (operational_events s))"

lemma locationEvents_tenant:
  "locationEvents e (tenantOf req) req s =
     filter (\<lambda>r. e_org r = rq_OrganisationID req \<and> e_loc r = rq_LocationID req) (operational_events s)"
  unfolding locationEvents_def tenantOf_def by (rule filter_cong) auto

lemma pendingRows_history: "pendingRows e (tenantOf req) req cursor s = filter (afterCursor cursor) (history req s)"
  by (simp add: pendingRows_def locationEvents_tenant history_def)

text \<open>
  C16. Paging is complete: a device that starts without a cursor and follows the cursors of the pages,
  with any page size the gateway accepts, receives exactly the events of its location, each once, in the
  order of their times, and has them after at most one page more than there are events.
\<close>
theorem events_are_paged:
  assumes "quiet e" and "deferredConstraints s" and "eventsLimit param = Some limit"
    and "distinct (map e_id (operational_events s))"
    and "list_all (addressable rfc3339 unmarshal) (history req s)" and "length (history req s) < n"
  shows "followPages n (\<lambda>after. fst (listEvents e rfc3339 unmarshal req param after s)) '''' =
    map (eventMessage rfc3339 req) (history req s)"
proof -
  have "list_all (addressable rfc3339 unmarshal) (locationEvents e (tenantOf req) req s)"
    using assms(5) by (simp add: locationEvents_tenant history_def list_all_iff)
  from followPages_pending [OF assms(1,2,3,4) this, of zeroCursor n] assms(6)
  show ?thesis by (simp add: servedCursor_def Encode_def pendingRows_history)
qed

lemma getLocationSnapshot_quiet:
  assumes "quiet e" and "deferredConstraints s"
  shows "getLocationSnapshot e rfc3339 collate req s =
    (HttpOK \<lparr>ls_OrganisationID = uuidString (rq_OrganisationID req), ls_LocationID = uuidString (rq_LocationID req),
       ls_Cursor = Encode rfc3339 (if history req s = [] then zeroCursor
                     else cursorFrom (e_occurred_at (last (history req s))) (e_id (last (history req s)))),
       ls_Tables = map (tableState rfc3339) (tableStateRows e collate (tenantOf req) req s),
       ls_Assists = map (assistState rfc3339) (activeAssistRows e (tenantOf req) req s)\<rparr>, s)"
proof -
  have nf: "\<not> fault e site" for site using assms(1) by (simp add: quiet_def no_faults_def)
  have "(case lastEvent e (tenantOf req) req s of None \<Rightarrow> zeroCursor | Some r \<Rightarrow> cursorFrom (e_occurred_at r) (e_id r)) =
    (if history req s = [] then zeroCursor else cursorFrom (e_occurred_at (last (history req s))) (e_id (last (history req s))))"
    by (cases "history req s" rule: rev_cases) (simp_all add: lastEvent_def locationEvents_tenant history_def)
  then show ?thesis
    using nf realtimeTenantTx_quiet [OF assms, of "snapshotInTx e rfc3339 collate req" req]
    by (simp add: getLocationSnapshot_def snapshotInTx_def loadCurrentCursor_def loadTableStates_def loadActiveAssists_def
        txBind_def runQuery_def reading_def flip: tenantOf_def)
qed

definition ofLocation :: "requestContext \<Rightarrow> OperationalEvent \<Rightarrow> bool" where
  "ofLocation req r \<longleftrightarrow> e_org r = rq_OrganisationID req \<and> e_loc r = rq_LocationID req"

lemma history_alt: "history req s = sort_key eventKey (filter (ofLocation req) (operational_events s))"
  unfolding history_def by (rule arg_cong [where f = "sort_key eventKey"]) (rule filter_cong, simp_all add: ofLocation_def)

lemma last_history_max:
  assumes "history req s \<noteq> []" and "r \<in> set (history req s)"
  shows "eventKey r \<le> eventKey (last (history req s))"
proof -
  have "sorted (map eventKey (history req s))" by (simp add: history_def)
  moreover have "history req s = butlast (history req s) @ [last (history req s)]" using assms(1) by simp
  ultimately have "sorted (map eventKey (butlast (history req s) @ [last (history req s)]))" by metis
  moreover have "r \<in> set (butlast (history req s)) \<or> r = last (history req s)"
    using assms by (metis append_butlast_last_id in_set_butlastD in_set_conv_decomp_last Un_iff set_append set_ConsD list.set(1) empty_iff)
  ultimately show ?thesis by (auto simp: sorted_append)
qed

text \<open>The cursor of a snapshot, and the events after it in a later database.\<close>

definition snapshotCursor :: "requestContext \<Rightarrow> db \<Rightarrow> Cursor" where
  "snapshotCursor req s =
     (if history req s = [] then zeroCursor
      else cursorFrom (e_occurred_at (last (history req s))) (e_id (last (history req s))))"

lemma snapshotCursor_served:
  assumes "operational_events s2 = operational_events s1 @ new"
    and "list_all (addressable rfc3339 unmarshal) (history req s2)"
  shows "servedCursor rfc3339 unmarshal (snapshotCursor req s1)"
    and "history req s1 \<noteq> [] \<Longrightarrow> addressable rfc3339 unmarshal (last (history req s1))"
proof -
  show *: "addressable rfc3339 unmarshal (last (history req s1))" if "history req s1 \<noteq> []"
    using last_in_set [OF that] assms by (simp add: history_alt list_all_iff)
  show "servedCursor rfc3339 unmarshal (snapshotCursor req s1)"
    using * by (cases "history req s1 = []") (simp_all add: snapshotCursor_def addressable_served, simp add: servedCursor_def)
qed

lemma events_after_snapshot:
  assumes later: "operational_events s2 = operational_events s1 @ new"
    and ok: "list_all (addressable rfc3339 unmarshal) (history req s2)"
    and ordered: "list_all (\<lambda>x. list_all (\<lambda>r. eventKey r < eventKey x) (history req s1)) (filter (ofLocation req) new)"
  shows "filter (afterCursor (snapshotCursor req s1)) (history req s2) = sort_key eventKey (filter (ofLocation req) new)"
proof (cases "history req s1 = []")
  case True
  then have "filter (ofLocation req) (operational_events s1) = []" unfolding history_alt by (metis length_0_conv length_sort)
  with True show ?thesis by (simp add: snapshotCursor_def history_alt later)
next
  case False
  define r where "r = last (history req s1)"
  have r: "addressable rfc3339 unmarshal r" unfolding r_def by (rule snapshotCursor_served(2) [OF later ok False])
  have c: "snapshotCursor req s1 = cursorFrom (e_occurred_at r) (e_id r)" using False by (simp add: snapshotCursor_def r_def)
  have "\<not> afterCursor (snapshotCursor req s1) x" if "x \<in> set (filter (ofLocation req) (operational_events s1))" for x
    using last_history_max [OF False, of x, folded r_def] that unfolding c afterCursor_event [OF r] by (simp add: history_alt)
  then have old: "filter (afterCursor (snapshotCursor req s1)) (filter (ofLocation req) (operational_events s1)) = []"
    unfolding filter_empty_conv by blast
  have "afterCursor (snapshotCursor req s1) x" if "x \<in> set (filter (ofLocation req) new)" for x
    using ordered that last_in_set [OF False, folded r_def] unfolding c afterCursor_event [OF r] list_all_iff by blast
  then have "filter (afterCursor (snapshotCursor req s1)) (filter (ofLocation req) new) = filter (ofLocation req) new"
    unfolding filter_id_conv by blast
  with old show ?thesis by (simp add: history_alt later filter_sort del: filter_filter)
qed

text \<open>
  C15. A snapshot is a synchronisation point: if every event that is recorded after the snapshot was taken
  is later, in time and identifier, than those before it, a device that takes the snapshot and then pages
  from its cursor receives exactly the location's new events, in order.
\<close>
theorem snapshot_is_sync_point:
  assumes "quiet e1" and "deferredConstraints s1" and "quiet e2" and "deferredConstraints s2"
    and "eventsLimit param = Some limit" and "operational_events s2 = operational_events s1 @ new"
    and "distinct (map e_id (operational_events s2))"
    and "list_all (addressable rfc3339 unmarshal) (history req s2)" and "length (history req s2) < n"
    and "list_all (\<lambda>x. list_all (\<lambda>r. eventKey r < eventKey x) (history req s1)) (filter (ofLocation req) new)"
    and "fst (getLocationSnapshot e1 rfc3339 collate req s1) = HttpOK snapshot"
  shows "followPages n (\<lambda>after. fst (listEvents e2 rfc3339 unmarshal req param after s2)) (ls_Cursor snapshot) =
    map (eventMessage rfc3339 req) (sort_key eventKey (filter (ofLocation req) new))"
proof -
  have cur: "ls_Cursor snapshot = Encode rfc3339 (snapshotCursor req s1)"
    using assms(11) getLocationSnapshot_quiet [OF assms(1,2), of rfc3339 collate req] by (auto simp: snapshotCursor_def)
  have loc: "list_all (addressable rfc3339 unmarshal) (locationEvents e2 (tenantOf req) req s2)"
    using assms(8) by (simp add: locationEvents_tenant history_def list_all_iff)
  note pend = events_after_snapshot [OF assms(6,8,10)]
  have "length (pendingRows e2 (tenantOf req) req (snapshotCursor req s1) s2) < n"
    unfolding pendingRows_history using le_less_trans [OF length_filter_le assms(9)] .
  from followPages_pending [OF assms(3,4,5,7) loc snapshotCursor_served(1) [OF assms(6,8)] this]
  show ?thesis by (simp add: cur pendingRows_history pend)
qed

section \<open>Samples\<close>

definition sampleReq :: requestContext where
  "sampleReq = \<lparr>rq_OrganisationID = 1, rq_LocationID = 2, rq_ActorRef = ''alice'', rq_DeviceID = 9\<rparr>"

definition sampleEventRow :: "uuid \<Rightarrow> timestamp \<Rightarrow> OperationalEvent" where
  "sampleEventRow i t =
     \<lparr>e_id = i, e_org = 1, e_loc = 2, e_event_type = ''table.occupied'', e_aggregate_type = ''table'', e_aggregate_id = 3,
      e_aggregate_version = Some 2, e_actor_ref = ''alice'', e_device_id = None, e_command_id = None,
      e_payload = Undecodable '''', e_occurred_at = t, e_schema_version = 1, e_entity_type = ''table'',
      e_entity_id = 3, e_entity_version = Some 2, e_correlation_id = None, e_event_data = JObj []\<rparr>"

definition sampleEventDb :: "(uuid \<times> timestamp) list \<Rightarrow> db" where
  "sampleEventDb rs = sampleDb\<lparr>operational_events := map (\<lambda>(i, t). sampleEventRow i t) rs\<rparr>"

definition sampleInstant :: "int \<Rightarrow> string" where
  "sampleInstant t = (if t < 1500000 then ''a'' else if t < 2500000 then ''b'' else ''c'')"

definition sampleDecoder :: "bytes \<Rightarrow> Cursor option" where
  "sampleDecoder = sampleUnmarshal [cursorFrom 1000 101, cursorFrom 2000 102, cursorFrom 3000 103] sampleInstant"

lemma sample_addressable:
  "list_all (addressable sampleInstant sampleDecoder) [sampleEventRow 101 1000, sampleEventRow 102 2000, sampleEventRow 103 3000]"
proof -
  have "cursorJSON sampleInstant (cursorFrom 1000 101) \<noteq> cursorJSON sampleInstant (cursorFrom 2000 102)"
    "cursorJSON sampleInstant (cursorFrom 1000 101) \<noteq> cursorJSON sampleInstant (cursorFrom 3000 103)"
    "cursorJSON sampleInstant (cursorFrom 2000 102) \<noteq> cursorJSON sampleInstant (cursorFrom 3000 103)"
    by code_simp+
  then show ?thesis
    by (simp add: addressable_def sampleEventRow_def sampleDecoder_def sampleUnmarshal_def zeroTime_def marshalledYear_def
        uuid_Nil_def)
qed

lemma sample_history:
  "history sampleReq (sampleEventDb [(102, 2000), (101, 1000), (103, 3000)]) =
     [sampleEventRow 101 1000, sampleEventRow 102 2000, sampleEventRow 103 3000]"
  "history sampleReq (sampleEventDb [(101, 1000)]) = [sampleEventRow 101 1000]"
  "history sampleReq (sampleEventDb [(101, 1000), (103, 3000), (102, 2000)]) =
     [sampleEventRow 101 1000, sampleEventRow 102 2000, sampleEventRow 103 3000]"
  by (simp_all add: history_def sampleEventDb_def sampleEventRow_def sampleReq_def eventKey_def)

lemma sampleEnv_quiet: "quiet sampleEnv"
  by (simp add: quiet_def no_faults_def sampleEnv_def)

lemma sampleEventDb_facts [simp]:
  "deferredConstraints (sampleEventDb rs)" "map e_id (operational_events (sampleEventDb rs)) = map fst rs"
  by (simp_all add: sampleEventDb_def sampleDb_def sampleOccupancy_def deferredConstraints_def comp_def sampleEventRow_def split_def)

lemma sampleLimit: "eventsLimit ''2'' = Some 2"
  by code_simp

text \<open>Witness of C16: three events in pages of two.\<close>
theorem events_are_paged_witness:
  "followPages 4 (\<lambda>after. fst (listEvents sampleEnv sampleInstant sampleDecoder sampleReq ''2'' after
      (sampleEventDb [(102, 2000), (101, 1000), (103, 3000)]))) '''' =
     map (eventMessage sampleInstant sampleReq) [sampleEventRow 101 1000, sampleEventRow 102 2000, sampleEventRow 103 3000]"
  using events_are_paged [where s = "sampleEventDb [(102, 2000), (101, 1000), (103, 3000)]" and n = 4 and req = sampleReq
      and ?rfc3339.0 = sampleInstant and unmarshal = sampleDecoder and e = sampleEnv, OF sampleEnv_quiet _ sampleLimit]
    sample_addressable by (simp add: sample_history)

text \<open>Witness of C15: a snapshot after the first event, then two more events.\<close>
theorem snapshot_is_sync_point_witness:
  "\<exists>snapshot. fst (getLocationSnapshot sampleEnv sampleInstant (\<lambda>l. 0) sampleReq (sampleEventDb [(101, 1000)])) = HttpOK snapshot \<and>
     followPages 4 (\<lambda>after. fst (listEvents sampleEnv sampleInstant sampleDecoder sampleReq ''2'' after
        (sampleEventDb [(101, 1000), (103, 3000), (102, 2000)]))) (ls_Cursor snapshot) =
     map (eventMessage sampleInstant sampleReq) [sampleEventRow 102 2000, sampleEventRow 103 3000]"
proof -
  let ?s1 = "sampleEventDb [(101, 1000)]" and ?s2 = "sampleEventDb [(101, 1000), (103, 3000), (102, 2000)]"
  let ?new = "[sampleEventRow 103 3000, sampleEventRow 102 2000]"
  obtain snapshot where sn: "fst (getLocationSnapshot sampleEnv sampleInstant (\<lambda>l. 0) sampleReq ?s1) = HttpOK snapshot"
    using getLocationSnapshot_quiet [OF sampleEnv_quiet, of ?s1] by simp
  have "followPages 4 (\<lambda>after. fst (listEvents sampleEnv sampleInstant sampleDecoder sampleReq ''2'' after ?s2)) (ls_Cursor snapshot) =
    map (eventMessage sampleInstant sampleReq) (sort_key eventKey (filter (ofLocation sampleReq) ?new))"
  proof (rule snapshot_is_sync_point [OF sampleEnv_quiet _ sampleEnv_quiet _ sampleLimit _ _ _ _ _ sn])
    show "operational_events ?s2 = operational_events ?s1 @ ?new" by (simp add: sampleEventDb_def)
    show "list_all (addressable sampleInstant sampleDecoder) (history sampleReq ?s2)"
      using sample_addressable by (simp add: sample_history)
    show "list_all (\<lambda>x. list_all (\<lambda>r. eventKey r < eventKey x) (history sampleReq ?s1)) (filter (ofLocation sampleReq) ?new)"
      unfolding sample_history by (simp add: eventKey_def sampleEventRow_def ofLocation_def sampleReq_def)
  qed (simp_all add: sample_history)
  moreover have "sort_key eventKey (filter (ofLocation sampleReq) ?new) = [sampleEventRow 102 2000, sampleEventRow 103 3000]"
    by (simp add: ofLocation_def sampleEventRow_def sampleReq_def eventKey_def)
  ultimately show ?thesis using sn by auto
qed

text \<open>
  Without the order the snapshot is no synchronisation point. \<open>occurred_at\<close> is the clock of the server
  that wrote the event, read before its transaction commits, so an event may be recorded after a snapshot
  and yet be earlier than its cursor: no page ever contains it.
\<close>
theorem late_event_is_skipped:
  "\<exists>snapshot. fst (getLocationSnapshot sampleEnv sampleInstant (\<lambda>l. 0) sampleReq (sampleEventDb [(102, 2000)])) = HttpOK snapshot \<and>
     sampleEventRow 101 1000 \<in> set (history sampleReq (sampleEventDb [(102, 2000), (101, 1000)])) \<and>
     (\<forall>n. followPages n (\<lambda>after. fst (listEvents sampleEnv sampleInstant sampleDecoder sampleReq ''2'' after
        (sampleEventDb [(102, 2000), (101, 1000)]))) (ls_Cursor snapshot) = [])"
proof -
  let ?s1 = "sampleEventDb [(102, 2000)]" and ?s2 = "sampleEventDb [(102, 2000), (101, 1000)]"
  have h1: "history sampleReq ?s1 = [sampleEventRow 102 2000]"
    and h2: "history sampleReq ?s2 = [sampleEventRow 101 1000, sampleEventRow 102 2000]"
    by (simp_all add: history_def sampleEventDb_def sampleEventRow_def sampleReq_def eventKey_def)
  obtain snapshot where sn: "fst (getLocationSnapshot sampleEnv sampleInstant (\<lambda>l. 0) sampleReq ?s1) = HttpOK snapshot"
    and cur: "ls_Cursor snapshot = Encode sampleInstant (cursorFrom 2000 102)"
    using getLocationSnapshot_quiet [OF sampleEnv_quiet, of ?s1] by (simp add: h1) (simp add: sampleEventRow_def)
  have r: "addressable sampleInstant sampleDecoder (sampleEventRow 102 2000)" using sample_addressable by simp
  from addressable_served [OF this] have served: "servedCursor sampleInstant sampleDecoder (cursorFrom 2000 102)" by (simp add: sampleEventRow_def)
  have "pendingRows sampleEnv (tenantOf sampleReq) sampleReq (cursorFrom 2000 102) ?s2 = []"
    using afterCursor_event [OF r] by (simp add: pendingRows_history h2) (simp add: sampleEventRow_def eventKey_def)
  then have "followPages n (\<lambda>after. fst (listEvents sampleEnv sampleInstant sampleDecoder sampleReq ''2'' after ?s2))
      (Encode sampleInstant (cursorFrom 2000 102)) = []" for n
    using listEvents_quiet [OF sampleEnv_quiet _ sampleLimit served, of ?s2 sampleReq] by (cases n) simp_all
  then show ?thesis using sn by (auto simp: cur h2)
qed

end
