(* ===== verification/Gateway.thy ===== *)
theory Gateway
  imports Trust Sync Hub Frames
begin

text \<open>
  Access to the realtime gateway: how \<^verbatim>\<open>internal/realtime/http.go\<close> authorises a request by a device credential
  or by headers, the handlers around it, the admission of a WebSocket to the hub, and the settings of
  \<^verbatim>\<open>apps/realtime\<close>. \<open>header\<close> gives the values of a header and \<open>parseUUID\<close> is \<^verbatim>\<open>uuid.Parse\<close>. A bearer request
  runs two transactions, in the worlds \<open>e0\<close> and \<open>e\<close>.
\<close>

section \<open>Requests\<close>

definition headerOrganisationID :: string where "headerOrganisationID = ''X-Seatd-Organisation-ID''"
definition headerLocationID :: string where "headerLocationID = ''X-Seatd-Location-ID''"
definition headerActorRef :: string where "headerActorRef = ''X-Seatd-Actor-Ref''"
definition headerDeviceID :: string where "headerDeviceID = ''X-Seatd-Device-ID''"

text \<open>\<^verbatim>\<open>strings.Cut(value, " ")\<close>\<close>

definition cutSpace :: "string \<Rightarrow> (string \<times> string) option" where
  "cutSpace value =
     (case dropWhile (\<lambda>ch. ch \<noteq> CHR '' '') value of
        [] \<Rightarrow> None
      | ch # after \<Rightarrow> Some (takeWhile (\<lambda>ch. ch \<noteq> CHR '' '') value, after))"

definition bearerCredential :: "(string \<Rightarrow> string list) \<Rightarrow> string" where
  "bearerCredential header =
     (let value = trimSpace (headerGet header ''Authorization'')
      in if value = '''' then ''''
         else case cutSpace value of
                None \<Rightarrow> ''''
              | Some (scheme, credential) \<Rightarrow> if \<not> equalFold scheme ''Bearer'' then '''' else trimSpace credential)"

definition deviceAllowsOperationsRead :: "string \<Rightarrow> bool" where
  "deviceAllowsOperationsRead deviceType \<longleftrightarrow>
     deviceType \<in> {DeviceTypeDisplay, DeviceTypeWaiterMobile, DeviceTypeManagerTablet, DeviceTypeHostDevice}"

definition validationFailed :: "string \<Rightarrow> 'a response" where
  "validationFailed msg = HttpError 400 ''validation_failed'' msg"

definition responseBind :: "'a response \<Rightarrow> ('a \<Rightarrow> 'b response) \<Rightarrow> 'b response" where
  "responseBind r f = (case r of HttpError status code msg \<Rightarrow> HttpError status code msg | HttpOK v \<Rightarrow> f v)"

definition parseHeaderUUID :: "(string \<Rightarrow> uuid option) \<Rightarrow> (string \<Rightarrow> string list) \<Rightarrow> string \<Rightarrow> uuid response" where
  "parseHeaderUUID parseUUID header name =
     (let value = trimSpace (headerGet header name)
      in if value = '''' then validationFailed (name @ '' is required'')
         else case parseUUID value of
                None \<Rightarrow> validationFailed (name @ '' must be a UUID'')
              | Some i \<Rightarrow> HttpOK i)"

definition parseRequestContext :: "(string \<Rightarrow> uuid option) \<Rightarrow> (string \<Rightarrow> string list) \<Rightarrow> requestContext response" where
  "parseRequestContext parseUUID header =
     responseBind (parseHeaderUUID parseUUID header headerOrganisationID) (\<lambda>orgID.
     responseBind (parseHeaderUUID parseUUID header headerLocationID) (\<lambda>locationID.
     responseBind (parseHeaderUUID parseUUID header headerDeviceID) (\<lambda>deviceID.
     (let actorRef = trimSpace (headerGet header headerActorRef)
      in if actorRef = '''' then validationFailed (headerActorRef @ '' is required'')
         else HttpOK \<lparr>rq_OrganisationID = orgID, rq_LocationID = locationID, rq_ActorRef = actorRef, rq_DeviceID = deviceID\<rparr>))))"

lemma responseBind_OK: "responseBind r f = HttpOK v \<longleftrightarrow> (\<exists>x. r = HttpOK x \<and> f x = HttpOK v)"
  by (auto simp: responseBind_def split: response.splits)


section \<open>Authorisation\<close>

text \<open>The transactions in the platform context; a failure to begin or commit is named as in the code.\<close>

definition gatewayTx ::
  "env \<Rightarrow> string \<Rightarrow> string \<Rightarrow> (ctx \<Rightarrow> (rt_error fail, idb, unit) body) \<Rightarrow> idb \<Rightarrow> (rt_error fail + unit) \<times> idb" where
  "gatewayTx e beginning committing fn s =
     (if fault e beginning then (Inl (Wrapped beginning ConnFailure), s)
      else if fault e ''setting authorization database context''
        then (Inl (rollback e (Wrapped ''setting authorization database context'' ConnFailure)), s)
      else case fn admin_context s of
             Inl err \<Rightarrow> (Inl (rollback e err), s)
           | Inr (v, s') \<Rightarrow>
               (case commit e of
                  Committed \<Rightarrow> (Inr v, s')
                | CommitFailed \<Rightarrow> (Inl (Wrapped committing ConnFailure), s)
                | CommitUnacked \<Rightarrow> (Inl (Wrapped committing ConnFailure), s')))"

definition realtimeDevice :: "env \<Rightarrow> ctx \<Rightarrow> requestContext \<Rightarrow> idb \<Rightarrow> bool" where
  "realtimeDevice e c req s \<longleftrightarrow>
     (\<exists>d \<in> set (devices (core s)). visible_org e c (d_org d) \<and> d_id d = rq_DeviceID req \<and> d_org d = rq_OrganisationID req \<and>
        (d_loc d = None \<or> d_loc d = Some (rq_LocationID req)) \<and> trustedDevice d)"

definition realtimeStaff :: "env \<Rightarrow> ctx \<Rightarrow> requestContext \<Rightarrow> idb \<Rightarrow> bool" where
  "realtimeStaff e c req =
     memberPermission
       (\<lambda>m. visible e c (lm_org m) (lm_loc m) \<and> lm_org m = rq_OrganisationID req \<and> lm_loc m = rq_LocationID req \<and>
            lm_member_ref m = rq_ActorRef req)
       (\<lambda>m. visible_org e c (om_org m) \<and> om_org m = rq_OrganisationID req \<and> om_member_ref m = rq_ActorRef req)
       ''operations.read''"

definition realtimeSeen :: "env \<Rightarrow> ctx \<Rightarrow> requestContext \<Rightarrow> idb \<Rightarrow> db_error + unit \<times> idb" where
  "realtimeSeen e c req s =
     Inr ((), setDevices
       (map (\<lambda>d. if visible_org e c (d_org d) \<and> d_id d = rq_DeviceID req \<and> d_org d = rq_OrganisationID req
                 then d\<lparr>d_last_seen_at := Some (now e), d_updated_at := now e\<rparr> else d) (devices (core s))) s)"

definition authorize :: "env \<Rightarrow> requestContext \<Rightarrow> idb \<Rightarrow> (rt_error fail + unit) \<times> idb" where
  "authorize e req =
     gatewayTx e ''beginning authorization transaction'' ''committing authorization transaction'' (\<lambda>c.
       txBind (runQuery e ''checking realtime device authorization'' None (reading (\<lambda>s. Inr (realtimeDevice e c req s)))) (\<lambda>deviceOK.
       txGuard (\<not> deviceOK) (Err errUnauthorized) (
       txBind (runQuery e ''checking realtime staff authorization'' None (reading (\<lambda>s. Inr (realtimeStaff e c req s)))) (\<lambda>permissionOK.
       txGuard (\<not> permissionOK) (Err errForbidden) (
       runQuery e ''marking realtime device seen'' None (realtimeSeen e c req))))))"

definition markDeviceSeen :: "env \<Rightarrow> requestContext \<Rightarrow> idb \<Rightarrow> (rt_error fail + unit) \<times> idb" where
  "markDeviceSeen e req =
     gatewayTx e ''beginning device seen transaction'' ''committing device seen transaction'' (\<lambda>c.
       runQuery e ''marking realtime device seen'' None (realtimeSeen e c req))"

definition authorizeBearerDevice ::
  "env \<Rightarrow> env \<Rightarrow> (string \<Rightarrow> bytes) \<Rightarrow> string \<Rightarrow> idb \<Rightarrow> requestContext response \<times> idb" where
  "authorizeBearerDevice e0 e sha credential s =
     (case AuthenticateDeviceCredential e0 sha credential s of
        (Inl err, s1) \<Rightarrow>
          (if errorsIs (\<lambda>x. x = ErrUnauthorized) err
           then (HttpError 401 ''unauthorized'' ''realtime authorization failed'', s1) else (writeDBError err, s1))
      | (Inr device, s1) \<Rightarrow>
          (case d_loc device of
             None \<Rightarrow> (HttpError 403 ''forbidden'' ''device is not assigned to a location'', s1)
           | Some loc \<Rightarrow>
               if \<not> deviceAllowsOperationsRead (d_device_type device)
               then (HttpError 403 ''forbidden'' ''realtime access is not allowed'', s1)
               else let req = \<lparr>rq_OrganisationID = d_org device, rq_LocationID = loc,
                               rq_ActorRef = ''device:'' @ uuidString (d_id device), rq_DeviceID = d_id device\<rparr>
                    in case markDeviceSeen e req s1 of
                         (Inl err, s2) \<Rightarrow> (writeDBError err, s2)
                       | (Inr u, s2) \<Rightarrow> (HttpOK req, s2)))"

text \<open>\<open>pool\<close> says whether the handler has a database.\<close>

definition authorizeRequest ::
  "bool \<Rightarrow> env \<Rightarrow> env \<Rightarrow> (string \<Rightarrow> bytes) \<Rightarrow> (string \<Rightarrow> uuid option) \<Rightarrow> (string \<Rightarrow> string list) \<Rightarrow>
     idb \<Rightarrow> requestContext response \<times> idb" where
  "authorizeRequest pool e0 e sha parseUUID header s =
     (if \<not> pool then (HttpError 503 ''database_unavailable'' ''database is unavailable'', s)
      else let credential = bearerCredential header
      in if credential \<noteq> '''' then authorizeBearerDevice e0 e sha credential s
         else if trimSpace (headerGet header ''Authorization'') \<noteq> ''''
           then (HttpError 401 ''unauthorized'' ''realtime authorization failed'', s)
         else case parseRequestContext parseUUID header of
                HttpError status code msg \<Rightarrow> (HttpError status code msg, s)
              | HttpOK req \<Rightarrow>
                  (case authorize e req s of
                     (Inl err, s1) \<Rightarrow>
                       (if errorsIs (\<lambda>x. x = errUnauthorized) err
                        then HttpError 401 ''unauthorized'' ''realtime authorization failed''
                        else if errorsIs (\<lambda>x. x = errForbidden) err
                        then HttpError 403 ''forbidden'' ''realtime access is not allowed''
                        else writeDBError err, s1)
                   | (Inr u, s1) \<Rightarrow> (HttpOK req, s1)))"


section \<open>Handlers\<close>

definition onCore :: "(db \<Rightarrow> 'r \<times> db) \<Rightarrow> idb \<Rightarrow> 'r \<times> idb" where
  "onCore op s = (case op (core s) of (r, d) \<Rightarrow> (r, s\<lparr>core := d\<rparr>))"

lemma onCore_read: "snd (op (core s)) = core s \<Longrightarrow> onCore op s = (fst (op (core s)), s)"
  by (cases "op (core s)") (simp add: onCore_def)

text \<open>The handlers of the snapshot and of the events; \<open>param\<close> gives the query parameters. The last world is that of the query.\<close>

definition authorized ::
  "requestContext response \<times> idb \<Rightarrow> (requestContext \<Rightarrow> idb \<Rightarrow> 'a response \<times> idb) \<Rightarrow> 'a response \<times> idb" where
  "authorized r handler =
     (case r of (HttpError status code msg, s) \<Rightarrow> (HttpError status code msg, s) | (HttpOK req, s) \<Rightarrow> handler req s)"

definition handleSnapshot ::
  "bool \<Rightarrow> env \<Rightarrow> env \<Rightarrow> env \<Rightarrow> (string \<Rightarrow> bytes) \<Rightarrow> (string \<Rightarrow> uuid option) \<Rightarrow> (int \<Rightarrow> string) \<Rightarrow> (string \<Rightarrow> int) \<Rightarrow>
     (string \<Rightarrow> string list) \<Rightarrow> idb \<Rightarrow> locationSnapshot response \<times> idb" where
  "handleSnapshot pool e0 e1 e sha parseUUID rfc3339 collate header s =
     authorized (authorizeRequest pool e0 e1 sha parseUUID header s)
       (\<lambda>req. onCore (getLocationSnapshot e rfc3339 collate req))"

definition handleEvents ::
  "bool \<Rightarrow> env \<Rightarrow> env \<Rightarrow> env \<Rightarrow> (string \<Rightarrow> bytes) \<Rightarrow> (string \<Rightarrow> uuid option) \<Rightarrow> (int \<Rightarrow> string) \<Rightarrow>
     (bytes \<Rightarrow> Cursor option) \<Rightarrow> (string \<Rightarrow> string) \<Rightarrow> (string \<Rightarrow> string list) \<Rightarrow> idb \<Rightarrow> (Message list \<times> string) response \<times> idb" where
  "handleEvents pool e0 e1 e sha parseUUID rfc3339 unmarshal param header s =
     authorized (authorizeRequest pool e0 e1 sha parseUUID header s)
       (\<lambda>req. onCore (listEvents e rfc3339 unmarshal req (param ''limit'') (param ''after'')))"

definition getMetrics :: "Hub \<Rightarrow> Snapshot response" where
  "getMetrics h = HttpOK (MetricsSnapshot h)"

section \<open>WebSockets\<close>

record WebSocketConfig =
  wc_SendBuffer :: int
  wc_ReadLimit :: int
  wc_Heartbeat :: int
  wc_ConnectionLimit :: int

text \<open>\<^verbatim>\<open>NewHandler\<close> fills in what is not set.\<close>

definition handlerConfig :: "WebSocketConfig \<Rightarrow> WebSocketConfig" where
  "handlerConfig ws =
     \<lparr>wc_SendBuffer = (if wc_SendBuffer ws \<le> 0 then 64 else wc_SendBuffer ws),
      wc_ReadLimit = (if wc_ReadLimit ws \<le> 0 then 4096 else wc_ReadLimit ws),
      wc_Heartbeat = (if wc_Heartbeat ws \<le> 0 then 25 * second else wc_Heartbeat ws),
      wc_ConnectionLimit = (if wc_ConnectionLimit ws \<le> 0 then 5000 else wc_ConnectionLimit ws)\<rparr>"

text \<open>
  The answer to an upgrade request: an error, the plain text of a refused upgrade (or nothing, when the
  connection broke), or the connection of a new client with the server's handshake.
\<close>

datatype ws_answer = WsError nat string string | WsFailed "(nat \<times> string) option" | WsConnected nat string

definition serveWebSocket ::
  "bool \<Rightarrow> WebSocketConfig \<Rightarrow> env \<Rightarrow> env \<Rightarrow> (string \<Rightarrow> bytes) \<Rightarrow> (string \<Rightarrow> uuid option) \<Rightarrow> (string \<Rightarrow> bool) \<Rightarrow>
     (string \<Rightarrow> bytes) \<Rightarrow> (string \<Rightarrow> string list) \<Rightarrow> idb \<times> Hub \<Rightarrow> ws_answer \<times> idb \<times> Hub" where
  "serveWebSocket pool ws e0 e sha parseUUID fails sha1 header = (\<lambda>(s, h).
     case authorizeRequest pool e0 e sha parseUUID header s of
       (HttpError status code msg, s') \<Rightarrow> (WsError status code msg, s', h)
     | (HttpOK req, s') \<Rightarrow>
         if sn_ActiveConnections (MetricsSnapshot h) \<ge> wc_ConnectionLimit ws
         then (WsError 503 ''connection_limit'' ''realtime connection limit reached'', s', h)
         else case upgrade fails sha1 header of
                Inl (answer, err) \<Rightarrow> (WsFailed answer, s', h)
              | Inr reply \<Rightarrow>
                  (case Subscribe \<lparr>sc_OrganisationID = rq_OrganisationID req, sc_LocationID = rq_LocationID req\<rparr>
                          (rq_ActorRef req) (rq_DeviceID req) (wc_SendBuffer ws) h of
                     (i, h') \<Rightarrow> (WsConnected i reply, s', h')))"

text \<open>When the handler returns, its client is unsubscribed.\<close>

definition closeWebSocket :: "nat \<Rightarrow> Hub \<Rightarrow> Hub" where
  "closeWebSocket i = Unsubscribe i"


section \<open>Settings\<close>

definition envInt64 :: "(string \<Rightarrow> string) \<Rightarrow> string \<Rightarrow> int \<Rightarrow> string + int" where
  "envInt64 getenv key fallback =
     (let value = getenv key
      in if value = '''' then Inr fallback
         else case Atoi value of
                None \<Rightarrow> Inl (key @ '' must be a positive integer'')
              | Some parsed \<Rightarrow> if parsed < 1 then Inl (key @ '' must be a positive integer'') else Inr parsed)"

definition loadRealtimeConfig :: "(string \<Rightarrow> int option) \<Rightarrow> (string \<Rightarrow> string) \<Rightarrow> string + WebSocketConfig" where
  "loadRealtimeConfig parseDuration getenv =
     sumBind (envInt getenv ''SEATD_REALTIME_SEND_BUFFER'' 64) (\<lambda>sendBuffer.
     sumBind (envInt64 getenv ''SEATD_REALTIME_READ_LIMIT'' 4096) (\<lambda>readLimit.
     sumBind (envDuration parseDuration getenv ''SEATD_REALTIME_HEARTBEAT'' (25 * second)) (\<lambda>heartbeat.
     sumBind (envInt getenv ''SEATD_REALTIME_CONNECTION_LIMIT'' 5000) (\<lambda>connectionLimit.
       Inr \<lparr>wc_SendBuffer = sendBuffer, wc_ReadLimit = readLimit, wc_Heartbeat = heartbeat,
            wc_ConnectionLimit = connectionLimit\<rparr>))))"

text \<open>The outbox worker inside the gateway, which delivers to the hub.\<close>

definition gatewayWorker :: "(int \<Rightarrow> string) \<Rightarrow> Hub \<Rightarrow> string \<Rightarrow> uuid \<Rightarrow> Worker" where
  "gatewayWorker rfc3339 hub versionCommit fresh =
     NewWorker fresh [(DestinationOperations, [realtimeConsumer rfc3339 hub])]
       \<lparr>cfg_InstanceID = ''realtime-'' @ versionCommit, cfg_BatchSize = 50, cfg_Concurrency = 4, cfg_MaxAttempts = 0,
        cfg_PollInterval = second, cfg_BackoffBase = 0, cfg_BackoffMax = 0, cfg_ClaimTimeout = 0, cfg_Metrics = True\<rparr>"

lemma row_step_devices: "row_step s s' \<Longrightarrow> devices s' = devices s"
proof (induction rule: row_step.induct)
  case (occupied e oarg c s res s')
  then show ?case
    by (auto simp: occupyTableInTx_def tx_iffs lockTableOccupancy_def CreateTableSession_def MarkTableOccupied_def Let_def
        elim!: map_sum_InrE split: if_splits)
next
  case (cleared e carg c s res s')
  then show ?case
    by (auto simp: clearTableInTx_def tx_iffs lockTableOccupancy_def CloseTableSession_def MarkTableAvailable_def Let_def
        elim!: map_sum_InrE split: if_splits option.splits)
next
  case (changed e aarg status c s r s')
  then show ?case
    by (auto simp: changeAssistInTx_def tx_iffs AcknowledgeAssistRequest_def ResolveAssistRequest_def CancelAssistRequest_def changeAssistRow_def
        elim!: map_sum_InrE split: if_splits)
next
  case (created e c i org loc t si rb src nt s r s')
  then show ?case by (auto simp: CreateAssistRequest_def Let_def elim!: map_sum_InrE)
next
  case (guest_created e q key s r s')
  then show ?case
    by (auto simp: createGuestInTx_def tx_iffs lockTableOccupancy_def CreateAssistRequest_def Let_def elim!: map_sum_InrE split: if_splits option.splits)
next
  case (guest_cancelled e q i c s r s')
  then show ?case
    by (auto simp: cancelGuestInTx_def tx_iffs CancelPendingGuestAssistRequest_def changeAssistRow_def elim!: map_sum_InrE split: if_splits)
qed auto

lemma op_step_devices:
  assumes "op_step s s'"
  shows "devices s' = devices s"
  using op_step_rows [OF assms] by (induction rule: rtranclp_induct) (auto dest: row_step_devices)


section \<open>The system around the devices\<close>

text \<open>
  Everything that happens to the tables the gateway reads: the identity service's device operations, the
  operations service, the gateway's own transactions and its queries.
\<close>

inductive system_step :: "idb \<Rightarrow> idb \<Rightarrow> bool" where
  identity: "device_step s s' \<Longrightarrow> system_step s s'"
| operations: "op_step (core s) d \<Longrightarrow> system_step s (s\<lparr>core := d\<rparr>)"
| authorization: "system_step s (snd (authorize e req s))"
| seen: "system_step s (snd (markDeviceSeen e req s))"
| snapshot: "system_step s (snd (onCore (getLocationSnapshot e rfc3339 collate req) s))"
| events: "system_step s (snd (onCore (listEvents e rfc3339 unmarshal req limit after) s))"

text \<open>The gateway touches revoked devices too, so only the revocation itself is frozen.\<close>

definition revocations :: "idb \<Rightarrow> (uuid \<times> timestamp option) list" where
  "revocations s = map (\<lambda>d. (d_id d, d_revoked_at d)) (devices (core s))"

definition revocationMoves :: "uuid \<times> timestamp option \<Rightarrow> uuid \<times> timestamp option \<Rightarrow> bool" where
  "revocationMoves p p' \<longleftrightarrow> fst p' = fst p \<and> (snd p \<noteq> None \<longrightarrow> p' = p)"

interpretation revs: evolution fst revocationMoves "\<lambda>p. snd p \<noteq> None"
  by unfold_locales (auto simp: revocationMoves_def)

definition systemRel :: "idb \<Rightarrow> idb \<Rightarrow> bool" where
  "systemRel s s' \<longleftrightarrow> (tablesOk s \<longrightarrow> tablesOk s' \<and> evolves fst revocationMoves (revocations s) (revocations s'))"

lemma evolves_revocations:
  "evolves d_id deviceMoves ds ds' \<Longrightarrow>
     evolves fst revocationMoves (map (\<lambda>d. (d_id d, d_revoked_at d)) ds) (map (\<lambda>d. (d_id d, d_revoked_at d)) ds')"
  by (rule evolves_image [where key = d_id and moves = deviceMoves])
    (auto simp: revocationMoves_def deviceMoves_def)

lemma systemRel_refl: "systemRel s s"
  by (simp add: systemRel_def revs.evolves_refl)

lemma systemRel_trans: "systemRel s1 s2 \<Longrightarrow> systemRel s2 s3 \<Longrightarrow> systemRel s1 s3"
  unfolding systemRel_def using revs.evolves_trans by blast

lemma systemRel_core:
  assumes "devices d = devices (core s)"
  shows "systemRel s (s\<lparr>core := d\<rparr>)"
  using assms by (simp add: systemRel_def tablesOk_def revocations_def revs.evolves_refl)

lemma systemRel_seen:
  assumes "realtimeSeen e c req s = Inr (u, s')"
  shows "systemRel s s'"
proof -
  define f where "f d = (if visible_org e c (d_org d) \<and> d_id d = rq_DeviceID req \<and> d_org d = rq_OrganisationID req
      then d\<lparr>d_last_seen_at := Some (now e), d_updated_at := now e\<rparr> else d)" for d :: Device
  from assms have s': "s' = setDevices (map f (devices (core s))) s" unfolding realtimeSeen_def f_def by simp
  have f: "d_id (f d) = d_id d" "d_revoked_at (f d) = d_revoked_at d" "deviceCheck (f d) = deviceCheck d" for d
    by (simp_all add: f_def deviceCheck_def)
  then have "revocations s' = revocations s" by (simp add: revocations_def s')
  moreover have "tablesOk s \<Longrightarrow> tablesOk s'" by (simp add: tablesOk_def s' comp_def f list_all_iff)
  ultimately show ?thesis by (simp add: systemRel_def revs.evolves_refl)
qed

lemma systemRel_gatewayTx:
  assumes "\<And>u s'. fn admin_context s = Inr (u, s') \<Longrightarrow> systemRel s s'"
  shows "systemRel s (snd (gatewayTx e beginning committing fn s))"
  using assms by (auto simp: gatewayTx_def systemRel_refl split: sum.splits commit_outcome.splits)

lemma realtimeTenantTx_reads:
  assumes "\<And>v s'. fn (tenant_context (rq_OrganisationID req) (rq_LocationID req)) s = Inr (v, s') \<Longrightarrow> s' = s"
  shows "snd (realtimeTenantTx e req fn s) = s"
  using assms by (auto simp: realtimeTenantTx_def commitTx_def split: sum.splits commit_outcome.splits)

lemma getLocationSnapshot_reads [simp]: "snd (getLocationSnapshot e rfc3339 collate req s) = s"
proof -
  have "snd (realtimeTenantTx e req (snapshotInTx e rfc3339 collate req) s) = s"
    by (rule realtimeTenantTx_reads)
      (auto simp: snapshotInTx_def loadCurrentCursor_def loadTableStates_def loadActiveAssists_def tx_iffs)
  then show ?thesis by (auto simp: getLocationSnapshot_def split: prod.splits sum.splits)
qed

lemma answer_snd:
  "snd r = s \<Longrightarrow> snd (case r of (Inl err, s') \<Rightarrow> (f err, s') | (Inr body, s') \<Rightarrow> (g body, s')) = s"
  by (cases r) (auto split: sum.split)

lemma listEvents_reads [simp]: "snd (listEvents e rfc3339 unmarshal req limit after s) = s"
proof -
  have "snd (realtimeTenantTx e req (\<lambda>c. txBind (loadEventsAfter e rfc3339 c req cursor n) (\<lambda>(events, cursor).
      txReturn (events, Encode rfc3339 cursor))) s) = s" for cursor n
    by (rule realtimeTenantTx_reads) (auto simp: loadEventsAfter_def tx_iffs split: prod.splits)
  then have "snd (case realtimeTenantTx e req (\<lambda>c. txBind (loadEventsAfter e rfc3339 c req cursor n) (\<lambda>(events, cursor).
      txReturn (events, Encode rfc3339 cursor))) s of (Inl err, s') \<Rightarrow> (writeDBError err, s') | (Inr body, s') \<Rightarrow> (HttpOK body, s')) = s"
    for cursor n by (rule answer_snd)
  then show ?thesis by (auto simp: listEvents_def split: sum.splits option.splits)
qed

lemma system_step_rel: "system_step s s' \<Longrightarrow> systemRel s s'"
proof (induction rule: system_step.induct)
  case (identity s s')
  then show ?case
    using device_step_tables [of s s'] evolves_revocations
    by (auto simp: systemRel_def tableRel_def advances_def revocations_def)
next
  case (operations s d)
  then show ?case by (intro systemRel_core op_step_devices)
next
  case (authorization s e req)
  show ?case unfolding authorize_def
    by (rule systemRel_gatewayTx) (auto simp: tx_iffs intro: systemRel_seen)
next
  case (seen s e req)
  show ?case unfolding markDeviceSeen_def
    by (rule systemRel_gatewayTx) (auto simp: tx_iffs intro: systemRel_seen)
next
  case (snapshot s e rfc3339 collate req)
  show ?case by (simp add: onCore_read systemRel_refl)
next
  case (events s e rfc3339 unmarshal req limit after)
  show ?case by (simp add: onCore_read systemRel_refl)
qed

lemma system_steps_rel: "system_step\<^sup>*\<^sup>* s s' \<Longrightarrow> systemRel s s'"
  by (induction rule: rtranclp_induct) (blast intro: systemRel_refl systemRel_trans system_step_rel)+

section \<open>What an authorised request means\<close>

lemma writeDBError_OK [simp]: "writeDBError err \<noteq> HttpOK v"
  by (simp add: writeDBError_def)

lemma realtimeTenantTx_Inr:
  "realtimeTenantTx e req fn s = (Inr v, s') \<Longrightarrow> fn (tenant_context (rq_OrganisationID req) (rq_LocationID req)) s = Inr (v, s')"
  by (auto simp: realtimeTenantTx_def commitTx_def split: if_splits sum.splits commit_outcome.splits)

lemma listEvents_page:
  assumes "fst (listEvents e rfc3339 unmarshal req limit after s) = HttpOK (events, cursor)"
  shows "list_all (\<lambda>m. \<exists>r \<in> set (operational_events s). m = eventMessage rfc3339 req r \<and>
    e_org r = rq_OrganisationID req \<and> e_loc r = rq_LocationID req) events"
proof -
  from assms obtain c n s' where "realtimeTenantTx e req (\<lambda>ctx. txBind (loadEventsAfter e rfc3339 ctx req c n) (\<lambda>(events, cursor).
      txReturn (events, Encode rfc3339 cursor))) s = (Inr (events, cursor), s')"
    unfolding listEvents_def by (auto split: option.splits sum.splits prod.splits)
  from realtimeTenantTx_Inr [OF this] obtain ctx where "events = map (eventMessage rfc3339 req) (EventsAfter e ctx req c n s)"
    by (auto simp: loadEventsAfter_def tx_iffs split: prod.splits)
  then show ?thesis by (auto simp: list_all_iff EventsAfter_def locationEvents_def dest!: in_set_takeD)
qed

lemma gatewayTx_Inr:
  "gatewayTx e beginning committing fn s = (Inr u, s') \<Longrightarrow> fn admin_context s = Inr (u, s')"
  by (auto simp: gatewayTx_def split: if_splits sum.splits commit_outcome.splits)

lemma authorize_Inr:
  assumes "authorize e req s = (Inr u, s')"
  shows "realtimeDevice e admin_context req s" and "realtimeStaff e admin_context req s"
  using gatewayTx_Inr [OF assms [unfolded authorize_def]] by (auto simp: tx_iffs)

lemma authorizeBearerDevice_OK:
  assumes "authorizeBearerDevice e0 e sha credential s = (HttpOK req, s')"
  obtains d s1 where "AuthenticateDeviceCredential e0 sha credential s = (Inr d, s1)" and "d_loc d = Some (rq_LocationID req)"
    and "d_org d = rq_OrganisationID req" and "d_id d = rq_DeviceID req" and "deviceAllowsOperationsRead (d_device_type d)"
  using assms unfolding authorizeBearerDevice_def Let_def
  by (auto split: prod.splits sum.splits if_splits option.splits intro: that)

lemma authorizeRequest_OK:
  assumes "authorizeRequest pool e0 e sha parseUUID header s = (HttpOK req, s')"
  obtains (bearer) "bearerCredential header \<noteq> ''''" and "authorizeBearerDevice e0 e sha (bearerCredential header) s = (HttpOK req, s')"
  | (headers) "trimSpace (headerGet header ''Authorization'') = ''''" and "parseRequestContext parseUUID header = HttpOK req"
      and "realtimeDevice e admin_context req s" and "realtimeStaff e admin_context req s"
  using assms unfolding authorizeRequest_def Let_def
  by (auto split: prod.splits sum.splits if_splits response.splits dest: authorize_Inr)

text \<open>
  C20. Requests are authorised: a realtime request is admitted for a location only with the secret of a
  credential that is neither revoked nor expired, of a trusted, unrevoked device that is assigned to that location
  and of a type that may read operations, or, without an Authorization header, for a trusted, unrevoked device of
  the organisation that is not bound to another location, together with a member who has \<^verbatim>\<open>operations.read\<close> there.
\<close>
theorem requests_are_authorized:
  assumes "authorizeRequest pool e0 e sha parseUUID header s = (HttpOK req, s')"
  shows "(\<exists>d \<in> set (devices (core s)). \<exists>k \<in> set (device_credentials s).
      d_id d = rq_DeviceID req \<and> d_org d = rq_OrganisationID req \<and> d_loc d = Some (rq_LocationID req) \<and>
      d_trust_state d = DeviceTrustTrusted \<and> d_revoked_at d = None \<and> deviceAllowsOperationsRead (d_device_type d) \<and>
      dc_device k = d_id d \<and> dc_revoked_at k = None \<and> (case dc_expires_at k of None \<Rightarrow> True | Some t \<Rightarrow> now e0 < t) \<and>
      dc_lookup_prefix k = take 16 (trimSpace (bearerCredential header)) \<and>
      dc_credential_hash k = sha (trimSpace (bearerCredential header)) \<and> bearerCredential header \<noteq> '''') \<or>
    (trimSpace (headerGet header ''Authorization'') = '''' \<and>
     (\<exists>d \<in> set (devices (core s)). d_id d = rq_DeviceID req \<and> d_org d = rq_OrganisationID req \<and>
        (d_loc d = None \<or> d_loc d = Some (rq_LocationID req)) \<and> d_trust_state d = DeviceTrustTrusted \<and> d_revoked_at d = None) \<and>
     ((\<exists>m \<in> set (location_memberships s). lm_org m = rq_OrganisationID req \<and> lm_loc m = rq_LocationID req \<and>
         lm_member_ref m = rq_ActorRef req \<and> lm_disabled_at m = None \<and> (lm_role m, ''operations.read'') \<in> set (role_permissions s)) \<or>
      (\<exists>m \<in> set (organisation_memberships s). om_org m = rq_OrganisationID req \<and>
         om_member_ref m = rq_ActorRef req \<and> om_disabled_at m = None \<and> (om_role m, ''operations.read'') \<in> set (role_permissions s))))"
  using assms
proof (cases rule: authorizeRequest_OK)
  case bearer
  from bearer(2) obtain d s1 where auth: "AuthenticateDeviceCredential e0 sha (bearerCredential header) s = (Inr d, s1)"
    and d: "d_loc d = Some (rq_LocationID req)" "d_org d = rq_OrganisationID req" "d_id d = rq_DeviceID req"
      "deviceAllowsOperationsRead (d_device_type d)"
    by (rule authorizeBearerDevice_OK)
  from auth obtain k where "k \<in> set (device_credentials s)" "d \<in> set (devices (core s))" "d_id d = dc_device k"
    "LookupPrefix (bearerCredential header) = Inr (dc_lookup_prefix k)"
    "HashSecret sha (bearerCredential header) = Inr (dc_credential_hash k)" "activeCredential e0 admin_context k" "trustedDevice d"
    by (rule AuthenticateDeviceCredential_Inr)
  then show ?thesis
    using bearer(1) d by (intro disjI1 bexI [where x = d] bexI [where x = k])
      (auto simp: activeCredential_def trustedDevice_def HashSecret_def LookupPrefix_def LookupPrefixLength_def Let_def split: if_splits)
next
  case headers
  then show ?thesis by (intro disjI2) (auto simp: realtimeDevice_def trustedDevice_def realtimeStaff_def memberPermission_def)
qed

text \<open>
  C21. Revocation closes the gateway: after \<^verbatim>\<open>RevokeDevice\<close> succeeds, whatever the services and the gateway do
  in between, no request with that device's credential or identifier is admitted.
\<close>
theorem revoked_device_loses_access:
  assumes "RevokeDevice ea actor i s = (Inr d, s1)" and "tablesOk s" and "system_step\<^sup>*\<^sup>* s1 s2"
  shows "case fst (authorizeRequest pool e0 e sha parseUUID header s2) of
      HttpError status code msg \<Rightarrow> True | HttpOK req \<Rightarrow> rq_DeviceID req \<noteq> i"
proof -
  have ok: "tablesOk s1" and rev: "d \<in> set (devices (core s1))" "d_id d = i" "d_revoked_at d \<noteq> None"
    using RevokeDevice_revokes [OF assms(1,2)] by simp_all
  have ev: "evolves fst revocationMoves (revocations s1) (revocations s2)"
    using system_steps_rel [OF assms(3)] ok by (simp add: systemRel_def)
  have i: "i \<in> fst ` set (revocations s1)" using rev(1,2) by (auto simp: revocations_def image_image)
  have all: "\<forall>p \<in> set (revocations s1). fst p = i \<longrightarrow> snd p \<noteq> None"
  proof (intro ballI impI)
    fix p
    assume "p \<in> set (revocations s1)" and "fst p = i"
    then obtain x where x: "x \<in> set (devices (core s1))" "d_id x = i" "p = (d_id x, d_revoked_at x)"
      by (auto simp: revocations_def)
    have "distinct (map d_id (devices (core s1)))" using ok by (simp add: tablesOk_def)
    from distinct_key_eq [OF this x(1) rev(1)] have "x = d" using x(2) rev(2) by simp
    then show "snd p \<noteq> None" using x(3) rev(3) by simp
  qed
  have gone: "d_revoked_at x \<noteq> None" if "x \<in> set (devices (core s2))" "d_id x = i" for x
  proof -
    have "(d_id x, d_revoked_at x) \<in> set (revocations s2)" using that(1) by (simp add: revocations_def)
    then show ?thesis using revs.evolves_gone [OF ev i all] that(2) by fastforce
  qed
  have "rq_DeviceID req \<noteq> i" if run: "authorizeRequest pool e0 e sha parseUUID header s2 = (HttpOK req, s3)" for req s3
    using run
  proof (cases rule: authorizeRequest_OK)
    case bearer
    from bearer(2) obtain d' sx where "AuthenticateDeviceCredential e0 sha (bearerCredential header) s2 = (Inr d', sx)"
      and id: "d_id d' = rq_DeviceID req" by (rule authorizeBearerDevice_OK)
    then obtain k where "d' \<in> set (devices (core s2))" "trustedDevice d'" by (elim AuthenticateDeviceCredential_Inr)
    then show ?thesis using gone [of d'] id by (auto simp: trustedDevice_def)
  next
    case headers
    then obtain d' where "d' \<in> set (devices (core s2))" "trustedDevice d'" "d_id d' = rq_DeviceID req"
      by (auto simp: realtimeDevice_def)
    then show ?thesis using gone [of d'] by (auto simp: trustedDevice_def)
  qed
  then show ?thesis by (cases "authorizeRequest pool e0 e sha parseUUID header s2") (auto split: response.split)
qed

lemma websocket_admission_cases:
  assumes "serveWebSocket pool ws e0 e sha parseUUID fails sha1 header (s, h) = (answer, s', h')"
  shows "h' = h \<or> (\<exists>p. subscribers h' = subscribers h @ [p] \<and> int (length (subscribers h)) < wc_ConnectionLimit ws)"
  using assms unfolding serveWebSocket_def
  by (auto simp: Subscribe_def Let_def MetricsSnapshot_def split: prod.splits response.splits if_splits sum.splits)

text \<open>
  Admission to the hub: a WebSocket that is connected was authorised, found the hub below its connection
  limit, and is subscribed as a new open client to exactly the location it was authorised for; any other answer
  leaves the hub as it was.
\<close>
theorem websocket_admission:
  assumes "serveWebSocket pool ws e0 e sha parseUUID fails sha1 header (s, h) = (answer, s', h')"
  shows "case answer of
      WsConnected i reply \<Rightarrow>
        (\<exists>req. authorizeRequest pool e0 e sha parseUUID header s = (HttpOK req, s') \<and>
           int (length (subscribers h)) < wc_ConnectionLimit ws \<and> i = length (everyone h) \<and>
           subscribers h' = subscribers h @ [(\<lparr>sc_OrganisationID = rq_OrganisationID req, sc_LocationID = rq_LocationID req\<rparr>, i)] \<and>
           k_deviceID (everyone h' ! i) = rq_DeviceID req \<and> \<not> k_closed (everyone h' ! i) \<and> k_send (everyone h' ! i) = [])
    | _ \<Rightarrow> h' = h"
  using assms unfolding serveWebSocket_def
  by (auto simp: Subscribe_def Let_def MetricsSnapshot_def nth_append
      split: prod.splits response.splits if_splits sum.splits ws_answer.splits)

text \<open>
  Events stay in their location: every message of a page answers an event stored for the location that the
  request was authorised for, and reading changes nothing but the device's last-seen time.
\<close>
theorem events_stay_in_location:
  assumes "handleEvents pool e0 e1 e sha parseUUID rfc3339 unmarshal param header s = (HttpOK (events, cursor), s')"
  shows "\<exists>req. authorizeRequest pool e0 e1 sha parseUUID header s = (HttpOK req, s') \<and>
    list_all (\<lambda>m. \<exists>r \<in> set (operational_events (core s')). m = eventMessage rfc3339 req r \<and>
      e_org r = rq_OrganisationID req \<and> e_loc r = rq_LocationID req) events"
proof -
  from assms obtain req s1 where auth: "authorizeRequest pool e0 e1 sha parseUUID header s = (HttpOK req, s1)"
    and run: "onCore (listEvents e rfc3339 unmarshal req (param ''limit'') (param ''after'')) s1 = (HttpOK (events, cursor), s')"
    unfolding handleEvents_def authorized_def by (auto split: prod.splits response.splits)
  have "snd (listEvents e rfc3339 unmarshal req (param ''limit'') (param ''after'') (core s1)) = core s1" by simp
  with run have page: "fst (listEvents e rfc3339 unmarshal req (param ''limit'') (param ''after'') (core s1)) = HttpOK (events, cursor)"
    and s': "s' = s1" by (auto simp: onCore_read)
  from listEvents_page [OF page] auth show ?thesis by (auto simp: s')
qed

text \<open>A bearer credential that is too short to hold a lookup prefix is answered as an internal error, not with 401.\<close>

lemma short_credential_is_internal_error:
  assumes "bearerCredential header \<noteq> ''''" and "length (trimSpace (bearerCredential header)) < 16"
  shows "authorizeRequest True e0 e sha parseUUID header s = (HttpError 500 ''internal_error'' ''internal server error'', s)"
  using assms
  by (simp add: authorizeRequest_def authorizeBearerDevice_def AuthenticateDeviceCredential_def LookupPrefix_def
      LookupPrefixLength_def writeDBError_def Let_def)

text \<open>Admissions that follow one another keep the connection limit.\<close>

lemma admission_below_limit:
  assumes "serveWebSocket pool ws e0 e sha parseUUID fails sha1 header (s, h) = (answer, s', h')"
    and "int (length (subscribers h)) \<le> wc_ConnectionLimit ws"
  shows "int (length (subscribers h')) \<le> wc_ConnectionLimit ws"
  using websocket_admission_cases [OF assms(1)] assms(2) by auto

text \<open>The settings of a gateway that starts are positive.\<close>

lemma started_gateway_is_configured:
  assumes "loadRealtimeConfig parseDuration getenv = Inr ws"
  shows "1 \<le> wc_SendBuffer ws" and "1 \<le> wc_ReadLimit ws" and "0 < wc_Heartbeat ws" and "1 \<le> wc_ConnectionLimit ws"
    and "handlerConfig ws = ws"
proof -
  have int64: "1 \<le> v" if "envInt64 getenv key fallback = Inr v" and "1 \<le> fallback" for key fallback v
    using that by (auto simp: envInt64_def Let_def split: if_splits option.splits)
  from assms show *: "1 \<le> wc_SendBuffer ws" "1 \<le> wc_ReadLimit ws" "0 < wc_Heartbeat ws" "1 \<le> wc_ConnectionLimit ws"
    by (auto simp: loadRealtimeConfig_def second_def dest!: envInt_range envDuration_range int64)
  then show "handlerConfig ws = ws" by (simp add: handlerConfig_def)
qed

section \<open>Witnesses\<close>

definition sampleHeader :: "string \<Rightarrow> string list" where
  "sampleHeader key =
     (if key = ''Authorization'' then [''Bearer '' @ sampleSecret] else if key = ''Connection'' then [''keep-alive, Upgrade'']
      else if key = ''Upgrade'' then [''websocket''] else if key = ''Sec-WebSocket-Version'' then [''13'']
      else if key = ''Sec-WebSocket-Key'' then [''key''] else [])"

definition sampleStaffHeader :: "string \<Rightarrow> string list" where
  "sampleStaffHeader key =
     (if key = headerOrganisationID then [''one''] else if key = headerLocationID then [''two'']
      else if key = headerDeviceID then ['' other ''] else if key = headerActorRef then [''alice''] else [])"

definition sampleParse :: "string \<Rightarrow> uuid option" where
  "sampleParse value = map_of [(''one'', 1), (''two'', 2), (''other'', 200)] value"

text \<open>Witness of C20: the paired sample device asks with its secret.\<close>
theorem requests_are_authorized_witness:
  "\<exists>req. fst (authorizeRequest True sampleAfter sampleAfter sampleSha sampleParse sampleHeader (snd samplePair)) = HttpOK req \<and>
     (\<exists>d \<in> set (devices (core (snd samplePair))). \<exists>k \<in> set (device_credentials (snd samplePair)).
        d_id d = rq_DeviceID req \<and> d_loc d = Some 2 \<and> d_trust_state d = DeviceTrustTrusted \<and> dc_device k = d_id d \<and>
        (case dc_expires_at k of None \<Rightarrow> True | Some t \<Rightarrow> now sampleAfter < t))"
proof -
  let ?r = "authorizeRequest True sampleAfter sampleAfter sampleSha sampleParse sampleHeader (snd samplePair)"
  have "case fst ?r of HttpOK req \<Rightarrow> rq_LocationID req = 2 | _ \<Rightarrow> False" by code_simp
  then obtain req where req: "?r = (HttpOK req, snd ?r)" "rq_LocationID req = 2" by (cases ?r) (auto split: response.splits)
  have "trimSpace (headerGet sampleHeader ''Authorization'') \<noteq> ''''" by code_simp
  then have "\<exists>d \<in> set (devices (core (snd samplePair))). \<exists>k \<in> set (device_credentials (snd samplePair)).
      d_id d = rq_DeviceID req \<and> d_loc d = Some (rq_LocationID req) \<and> d_trust_state d = DeviceTrustTrusted \<and> dc_device k = d_id d \<and>
      (case dc_expires_at k of None \<Rightarrow> True | Some t \<Rightarrow> now sampleAfter < t)"
    using requests_are_authorized [OF req(1)] by blast
  moreover have "fst ?r = HttpOK req" using arg_cong [OF req(1), of fst] by (simp only: fst_conv)
  ultimately show ?thesis unfolding req(2) by blast
qed

text \<open>Witness of C21: after the sample device is revoked, the device registered later is admitted, by headers.\<close>
theorem revoked_device_loses_access_witness:
  "case fst (authorizeRequest True sampleAfter sampleAfter sampleSha sampleParse sampleStaffHeader sampleTrusted) of
      HttpError status code msg \<Rightarrow> False | HttpOK req \<Rightarrow> rq_DeviceID req = 200 \<and> rq_DeviceID req \<noteq> 100"
proof -
  let ?r = "fst (authorizeRequest True sampleAfter sampleAfter sampleSha sampleParse sampleStaffHeader sampleTrusted)"
  obtain d where d: "RevokeDevice sampleAfter sampleManager 100 (snd samplePair) = (Inr d, snd sampleRevoke)"
    by (rule sampleRevoke_obtain)
  have "system_step\<^sup>*\<^sup>* (snd sampleRevoke) (snd sampleRegistered)"
    unfolding sampleRegistered_def by (intro r_into_rtranclp system_step.identity device_step.register)
  also have "system_step (snd sampleRegistered) sampleTrusted"
    unfolding sampleTrusted_def by (intro system_step.identity device_step.trust)
  finally have "case ?r of HttpError status code msg \<Rightarrow> True | HttpOK req \<Rightarrow> rq_DeviceID req \<noteq> 100"
    by (rule revoked_device_loses_access [OF d samplePair_ok])
  moreover have "case ?r of HttpError status code msg \<Rightarrow> False | HttpOK req \<Rightarrow> rq_DeviceID req = 200" by code_simp
  ultimately show ?thesis by (cases ?r) simp_all
qed

definition sampleConfig :: WebSocketConfig where
  "sampleConfig = handlerConfig \<lparr>wc_SendBuffer = 0, wc_ReadLimit = 0, wc_Heartbeat = 0, wc_ConnectionLimit = 1\<rparr>"

text \<open>Example: the sample device connects to an empty hub.\<close>
theorem websocket_admission_witness:
  "\<exists>i reply s' h'. serveWebSocket True sampleConfig sampleAfter sampleAfter sampleSha sampleParse (\<lambda>site. False) (\<lambda>key. [])
       sampleHeader (snd samplePair, NewHub) = (WsConnected i reply, s', h') \<and> length (subscribers h') = 1"
proof -
  let ?r = "serveWebSocket True sampleConfig sampleAfter sampleAfter sampleSha sampleParse (\<lambda>site. False) (\<lambda>key. [])
       sampleHeader (snd samplePair, NewHub)"
  have "case fst ?r of WsConnected i reply \<Rightarrow> True | _ \<Rightarrow> False" by code_simp
  then obtain i reply s' h' where r: "?r = (WsConnected i reply, s', h')"
    by (cases ?r) (auto split: ws_answer.splits)
  from websocket_admission [OF r] have "length (subscribers h') = 1" by (auto simp: NewHub_def)
  with r show ?thesis by blast
qed

definition sampleBusy :: idb where
  "sampleBusy = (snd samplePair)\<lparr>core := (core (snd samplePair))\<lparr>operational_events := [sampleEventRow 60 1000]\<rparr>\<rparr>"

text \<open>Example: the sample device reads the event of its location.\<close>
theorem events_stay_in_location_witness:
  "\<exists>events cursor s'. handleEvents True sampleAfter sampleAfter sampleAfter sampleSha sampleParse sampleInstant sampleDecoder
      (\<lambda>name. []) sampleHeader sampleBusy = (HttpOK (events, cursor), s') \<and> events \<noteq> [] \<and>
      list_all (\<lambda>m. \<exists>r \<in> set (operational_events (core s')). \<exists>req. m = eventMessage sampleInstant req r) events"
proof -
  let ?r = "handleEvents True sampleAfter sampleAfter sampleAfter sampleSha sampleParse sampleInstant sampleDecoder
      (\<lambda>name. []) sampleHeader sampleBusy"
  have "case fst ?r of HttpOK (events, cursor) \<Rightarrow> events \<noteq> [] | _ \<Rightarrow> False" by code_simp
  then obtain events cursor where r: "?r = (HttpOK (events, cursor), snd ?r)" "events \<noteq> []"
    by (cases ?r) (auto split: response.splits)
  from events_stay_in_location [OF r(1)] obtain req where
    "list_all (\<lambda>m. \<exists>x \<in> set (operational_events (core (snd ?r))). m = eventMessage sampleInstant req x \<and>
       e_org x = rq_OrganisationID req \<and> e_loc x = rq_LocationID req) events" by blast
  then have "list_all (\<lambda>m. \<exists>r \<in> set (operational_events (core (snd ?r))). \<exists>req. m = eventMessage sampleInstant req r) events"
    by (rule list.pred_mono_strong) blast
  with r show ?thesis by blast
qed

end
