(* ===== verification/Calendar.thy ===== *)
theory Calendar
  imports WorkerMain Complex_Main
begin

text \<open>
  Times of the analytics service: \<^verbatim>\<open>service_period.go\<close>, the date windows of \<^verbatim>\<open>service.go\<close> and the formulas of
  \<^verbatim>\<open>formulas.go\<close>. A date is the number of days since 1 January 1970. A time zone is what the \<^verbatim>\<open>time\<close> package
  takes from it: the wall clock of an instant, and the instant of a wall clock time. Instants and times of day
  are nanoseconds. A float64 is the rational it stands for; \<open>fl\<close> rounds a result to the nearest one.
\<close>

section \<open>Times\<close>

record tz =
  civil :: "int \<Rightarrow> int \<times> int"
  instantOf :: "int \<Rightarrow> int \<Rightarrow> int"

record gotime =
  instant :: int
  zone :: tz

definition hourNanos :: int where "hourNanos = 3600 * second"
definition dayNanos :: int where "dayNanos = 24 * hourNanos"

text \<open>\<^verbatim>\<open>time.FixedZone\<close>: the offset counts seconds east of Greenwich.\<close>

definition fixedZone :: "int \<Rightarrow> tz" where
  "fixedZone offset =
     \<lparr>civil = (\<lambda>t. ((t + offset * second) div dayNanos, (t + offset * second) mod dayNanos)),
      instantOf = (\<lambda>d n. d * dayNanos + n - offset * second)\<rparr>"

definition UTC :: tz where
  "UTC = fixedZone 0"

text \<open>\<^verbatim>\<open>time.Date\<close>, which normalises the time of day; \<^verbatim>\<open>In\<close>, \<^verbatim>\<open>Date\<close> and \<^verbatim>\<open>AddDate(0, 0, n)\<close>.\<close>

definition goDate :: "int \<Rightarrow> int \<Rightarrow> tz \<Rightarrow> gotime" where
  "goDate d n z = \<lparr>instant = instantOf z (d + n div dayNanos) (n mod dayNanos), zone = z\<rparr>"

definition inZone :: "gotime \<Rightarrow> tz \<Rightarrow> gotime" where
  "inZone t z = t\<lparr>zone := z\<rparr>"

definition dateOf :: "gotime \<Rightarrow> int" where
  "dateOf t = fst (civil (zone t) (instant t))"

definition AddDate :: "gotime \<Rightarrow> int \<Rightarrow> gotime" where
  "AddDate t n = goDate (dateOf t + n) (snd (civil (zone t) (instant t))) (zone t)"

definition Weekday :: "gotime \<Rightarrow> int" where
  "Weekday t = (dateOf t + 4) mod 7"

definition calendarDateInLocation :: "gotime \<Rightarrow> tz \<Rightarrow> gotime" where
  "calendarDateInLocation date location = goDate (dateOf date) 0 location"

definition localDateWindow :: "gotime \<Rightarrow> tz \<Rightarrow> gotime \<times> gotime" where
  "localDateWindow date location =
     (let start = goDate (dateOf (inZone date location)) 0 location
      in (inZone start UTC, inZone (AddDate start 1) UTC))"

definition localCalendarDateWindow :: "gotime \<Rightarrow> tz \<Rightarrow> gotime \<times> gotime" where
  "localCalendarDateWindow date location =
     (let start = goDate (dateOf (calendarDateInLocation date location)) 0 location
      in (inZone start UTC, inZone (AddDate start 1) UTC))"

text \<open>
  The days from \<open>d\<close> until \<open>stop\<close>: the loop \<^verbatim>\<open>for day := d; day.Before(stop); day = day.AddDate(0, 0, 1)\<close>, or
  \<^verbatim>\<open>None\<close> when it takes more than \<open>n\<close> turns.
\<close>

primrec daysUntil :: "nat \<Rightarrow> gotime \<Rightarrow> gotime \<Rightarrow> gotime list option" where
  "daysUntil 0 d stop = (if instant d < instant stop then None else Some [])"
| "daysUntil (Suc n) d stop =
     (if instant d < instant stop then map_option ((#) d) (daysUntil n (AddDate d 1) stop) else Some [])"

text \<open>The hours from \<open>start\<close> to \<open>stop\<close>, the last one cut off.\<close>

function hoursUntil :: "int \<Rightarrow> int \<Rightarrow> (int \<times> int) list" where
  "hoursUntil start stop =
     (if start < stop then (start, min (start + hourNanos) stop) # hoursUntil (start + hourNanos) stop else [])"
  by pat_completeness auto
termination by (relation "measure (\<lambda>(start, stop). nat (stop - start))") (auto simp: hourNanos_def second_def)

declare hoursUntil.simps [simp del]


section \<open>Clock times\<close>

text \<open>A \<^verbatim>\<open>pgtype.Time\<close> is NULL or the microseconds since midnight, which are not negative.\<close>

definition timeParts :: "int \<Rightarrow> int \<times> int \<times> int \<times> int" where
  "timeParts microseconds =
     (let duration = microseconds * 1000;
          h = duration div hourNanos; duration = duration - h * hourNanos;
          m = duration div (60 * second); duration = duration - m * (60 * second);
          s = duration div second; duration = duration - s * second
      in (h, m, s, duration))"

definition digitChar :: "int \<Rightarrow> char" where
  "digitChar n = char_of (nat (48 + n))"

fun decimal :: "nat \<Rightarrow> string" where
  "decimal n = (if n < 10 then [digitChar (int n)] else decimal (n div 10) @ [digitChar (int (n mod 10))])"

declare decimal.simps [simp del]

definition Itoa :: "int \<Rightarrow> string" where
  "Itoa v = (if v < 0 then CHR ''-'' # decimal (nat (- v)) else decimal (nat v))"

definition two :: "int \<Rightarrow> string" where
  "two v = (if v < 10 then ''0'' @ Itoa v else Itoa v)"

definition FormatClock :: "int option \<Rightarrow> string" where
  "FormatClock v =
     (case v of
        None \<Rightarrow> ''''
      | Some microseconds \<Rightarrow>
          (case timeParts microseconds of
             (h, m, s, n) \<Rightarrow> if s = 0 then two h @ '':'' @ two m else two h @ '':'' @ two m @ '':'' @ two s))"

text \<open>
  \<^verbatim>\<open>time.Parse\<close> with the layouts \<^verbatim>\<open>15:04\<close> and \<^verbatim>\<open>15:04:05\<close>: an hour of one or two digits, minutes and seconds of
  two, and a fraction of a second, which \<^verbatim>\<open>ParseClock\<close> drops.
\<close>

fun getnum :: "bool \<Rightarrow> string \<Rightarrow> (int \<times> string) option" where
  "getnum fixed [] = None"
| "getnum fixed [a] = (if \<not> isDigit a \<or> fixed then None else Some (digitValue a, []))"
| "getnum fixed (a # b # rest) =
     (if \<not> isDigit a then None
      else if isDigit b then Some (digitValue a * 10 + digitValue b, rest)
      else if fixed then None else Some (digitValue a, b # rest))"

definition below :: "int \<Rightarrow> (int \<times> string) option \<Rightarrow> (int \<times> string) option" where
  "below bound p = (case p of None \<Rightarrow> None | Some (n, rest) \<Rightarrow> if n < bound then Some (n, rest) else None)"

fun skipColon :: "string \<Rightarrow> string option" where
  "skipColon [] = None"
| "skipColon (ch # rest) = (if ch = CHR '':'' then Some rest else None)"

fun skipFraction :: "string \<Rightarrow> string" where
  "skipFraction (a # b # rest) =
     (if (a = CHR ''.'' \<or> a = CHR '','') \<and> isDigit b then dropWhile isDigit rest else a # b # rest)"
| "skipFraction s = s"

definition parseHM :: "string \<Rightarrow> ((int \<times> int) \<times> string) option" where
  "parseHM value =
     Option.bind (below 24 (getnum False value)) (\<lambda>(h, rest).
     Option.bind (skipColon rest) (\<lambda>rest.
     Option.bind (below 60 (getnum True rest)) (\<lambda>(m, rest). Some ((h, m), rest))))"

definition parseHMS :: "string \<Rightarrow> ((int \<times> int \<times> int) \<times> string) option" where
  "parseHMS value =
     Option.bind (parseHM value) (\<lambda>((h, m), rest).
     Option.bind (skipColon rest) (\<lambda>rest.
     Option.bind (below 60 (getnum True rest)) (\<lambda>(s, rest). Some ((h, m, s), skipFraction rest))))"

definition complete :: "('a \<times> string) option \<Rightarrow> 'a option" where
  "complete p = (case p of Some (v, []) \<Rightarrow> Some v | _ \<Rightarrow> None)"

definition ParseClock :: "string \<Rightarrow> int option" where
  "ParseClock value =
     (let value = trimSpace value;
          parsed = (case complete (parseHM value) of
                      Some (h, m) \<Rightarrow> Some (h, m, 0)
                    | None \<Rightarrow> complete (parseHMS value))
      in map_option (\<lambda>(h, m, s). h * 3600000000 + m * 60000000 + s * 1000000) parsed)"

definition containsDay :: "int list \<Rightarrow> int \<Rightarrow> bool" where
  "containsDay days d \<longleftrightarrow> list_ex (\<lambda>candidate. candidate = d) days"


section \<open>Service periods of a day\<close>

record ServicePeriodWindow =
  pw_Date :: gotime
  pw_Start :: gotime
  pw_End :: gotime

text \<open>
  \<^verbatim>\<open>Inl ()\<close> is \<^verbatim>\<open>ErrInvalidServicePeriod\<close>, \<^verbatim>\<open>Inr None\<close> a day without the period. A location that was loaded
  is not nil.
\<close>

definition ServicePeriodWindowForDate ::
  "gotime \<Rightarrow> tz \<Rightarrow> int list \<Rightarrow> int option \<Rightarrow> int option \<Rightarrow> unit + ServicePeriodWindow option" where
  "ServicePeriodWindowForDate date location daysOfWeek startTime endTime =
     (case (startTime, endTime) of
        (Some startMicros, Some endMicros) \<Rightarrow>
          (let localDate = goDate (dateOf (inZone date location)) 0 location
           in if \<not> containsDay daysOfWeek (Weekday localDate) then Inr None
              else case (timeParts startMicros, timeParts endMicros) of
                ((sh, sm, ss, sn), (eh, em, es, en)) \<Rightarrow>
                  (let start = goDate (dateOf localDate) (sh * hourNanos + sm * (60 * second) + ss * second + sn) location;
                       stop = goDate (dateOf localDate) (eh * hourNanos + em * (60 * second) + es * second + en) location;
                       stop = (if \<not> instant stop > instant start then AddDate stop 1 else stop)
                   in Inr (Some \<lparr>pw_Date = localDate, pw_Start = inZone start UTC, pw_End = inZone stop UTC\<rparr>)))
      | _ \<Rightarrow> Inl ())"


section \<open>Formulas\<close>

record Metric =
  ActiveTableCount :: int
  OccupancySeconds :: rat
  UtilisationBasisSeconds :: rat
  UtilisationRate :: rat
  CompletedSessionCount :: int
  TurnoverRate :: rat
  AvgSessionSeconds :: rat
  P50SessionSeconds :: rat
  P90SessionSeconds :: rat
  AssistRequestCount :: int
  AvgAssistResponseSeconds :: rat
  AvgAssistResolutionSeconds :: rat
  AnomalyCount :: int

definition FinalizeMetric :: "(rat \<Rightarrow> rat) \<Rightarrow> Metric \<Rightarrow> Metric" where
  "FinalizeMetric fl metric =
     (let metric = (if UtilisationBasisSeconds metric > 0
                    then metric\<lparr>UtilisationRate := fl (OccupancySeconds metric / UtilisationBasisSeconds metric)\<rparr> else metric)
      in if ActiveTableCount metric > 0
         then metric\<lparr>TurnoverRate := fl (fl (of_int (CompletedSessionCount metric)) / fl (of_int (ActiveTableCount metric)))\<rparr>
         else metric)"

text \<open>\<^verbatim>\<open>Duration.Seconds()\<close> of a duration that is not negative.\<close>

definition durationSeconds :: "(rat \<Rightarrow> rat) \<Rightarrow> int \<Rightarrow> rat" where
  "durationSeconds fl d = fl (fl (of_int (d div second)) + fl (fl (of_int (d mod second)) / fl (10 ^ 9)))"

text \<open>\<^verbatim>\<open>Time.Sub\<close> saturates at the bounds of int64.\<close>

definition timeSub :: "int \<Rightarrow> int \<Rightarrow> int" where
  "timeSub t u = max (- (2 ^ 63)) (min (2 ^ 63 - 1) (t - u))"

definition OverlapSeconds :: "(rat \<Rightarrow> rat) \<Rightarrow> int \<Rightarrow> int option \<Rightarrow> int \<Rightarrow> int \<Rightarrow> int \<Rightarrow> rat \<times> bool" where
  "OverlapSeconds fl start stop windowStart windowEnd asOf =
     (let sessionEnd = (case stop of None \<Rightarrow> asOf | Some t \<Rightarrow> t)
      in if sessionEnd < start then (0, False)
         else let overlapStart = max start windowStart; overlapEnd = min sessionEnd windowEnd
              in if \<not> overlapEnd > overlapStart then (0, True)
                 else (durationSeconds fl (timeSub overlapEnd overlapStart), True))"

definition Percentile :: "(rat \<Rightarrow> rat) \<Rightarrow> rat list \<Rightarrow> rat \<Rightarrow> rat" where
  "Percentile fl values percentile =
     (let sorted = sort values
      in case sorted of
           [] \<Rightarrow> 0
         | [v] \<Rightarrow> v
         | _ \<Rightarrow>
             (let position = fl (percentile * fl (of_nat (length sorted - 1)));
                  lower = nat \<lfloor>position\<rfloor>; upper = nat \<lceil>position\<rceil>
              in if lower = upper then sorted ! lower
                 else let weight = fl (position - fl (of_nat lower))
                      in fl (fl (sorted ! lower * fl (1 - weight)) + fl (sorted ! upper * weight))))"

section \<open>Clock times survive printing and parsing\<close>

lemma digitChar_zero: "digitChar 0 = CHR ''0''"
  by code_simp

lemma two_digits:
  assumes "0 \<le> n" and "n < 100"
  shows "two n = [digitChar (n div 10), digitChar (n mod 10)]"
proof (cases "n < 10")
  case True
  then have "nat n < 10" by linarith
  then show ?thesis using True assms by (simp add: two_def Itoa_def decimal.simps [of "nat n"] digitChar_zero)
next
  case False
  have "nat n div 10 < 10" "int (nat n div 10) = n div 10" "int (nat n mod 10) = n mod 10"
    using assms by (simp_all add: zdiv_int zmod_int)
  then show ?thesis
    using False assms by (simp add: two_def Itoa_def decimal.simps [of "nat n"] decimal.simps [of "nat n div 10"])
qed

lemma digitChar_facts:
  assumes "0 \<le> n" and "n < 10"
  shows "isDigit (digitChar n)" and "digitValue (digitChar n) = n" and "digitChar n \<noteq> CHR '':''" and "tokenByte (digitChar n)"
proof -
  have "nat n \<in> set [0..<10]" using assms by auto
  moreover have "list_all (\<lambda>k. isDigit (digitChar (int k)) \<and> digitValue (digitChar (int k)) = int k \<and> digitChar (int k) \<noteq> CHR '':'' \<and>
      tokenByte (digitChar (int k))) [0..<10]"
    by code_simp
  ultimately have "isDigit (digitChar (int (nat n))) \<and> digitValue (digitChar (int (nat n))) = int (nat n) \<and>
      digitChar (int (nat n)) \<noteq> CHR '':'' \<and> tokenByte (digitChar (int (nat n)))"
    unfolding list_all_iff by blast
  then show "isDigit (digitChar n)" "digitValue (digitChar n) = n" "digitChar n \<noteq> CHR '':''" "tokenByte (digitChar n)"
    using assms by simp_all
qed

lemma getnum_two: "0 \<le> n \<Longrightarrow> n < 100 \<Longrightarrow> getnum fixed (two n @ rest) = Some (n, rest)"
  using digitChar_facts [of "n div 10"] digitChar_facts [of "n mod 10"] by (simp add: two_digits)

lemma below_Some [simp]: "n < bound \<Longrightarrow> below bound (Some (n, rest)) = Some (n, rest)"
  by (simp add: below_def)

lemma parseHM_two:
  "0 \<le> h \<Longrightarrow> h < 24 \<Longrightarrow> 0 \<le> m \<Longrightarrow> m < 60 \<Longrightarrow> parseHM (two h @ '':'' @ two m @ rest) = Some ((h, m), rest)"
  by (simp add: parseHM_def getnum_two)

lemma parseHMS_two:
  "0 \<le> h \<Longrightarrow> h < 24 \<Longrightarrow> 0 \<le> m \<Longrightarrow> m < 60 \<Longrightarrow> 0 \<le> s \<Longrightarrow> s < 60 \<Longrightarrow>
     parseHMS (two h @ '':'' @ two m @ '':'' @ two s) = Some ((h, m, s), [])"
  using parseHM_two [of h m "'':'' @ two s"] getnum_two [of s True "[]"] by (simp add: parseHMS_def)

lemma trimSpace_clock:
  assumes "0 \<le> h" "h < 24" "0 \<le> m" "m < 60" "0 \<le> s" "s < 60"
  shows "trimSpace (two h @ '':'' @ two m) = two h @ '':'' @ two m"
    and "trimSpace (two h @ '':'' @ two m @ '':'' @ two s) = two h @ '':'' @ two m @ '':'' @ two s"
proof -
  have "tokenByte CHR '':''" by code_simp
  then have "\<forall>c \<in> set (two h @ '':'' @ two m @ '':'' @ two s). tokenByte c"
    using assms digitChar_facts(4) by (auto simp: two_digits)
  then show "trimSpace (two h @ '':'' @ two m @ '':'' @ two s) = two h @ '':'' @ two m @ '':'' @ two s"
    "trimSpace (two h @ '':'' @ two m) = two h @ '':'' @ two m"
    by (auto intro!: trimSpace_token)
qed

lemma timeParts_mod:
  "timeParts t =
     (t * 1000 div hourNanos, t * 1000 mod hourNanos div (60 * second), t * 1000 mod hourNanos mod (60 * second) div second,
      t * 1000 mod hourNanos mod (60 * second) mod second)"
  by (simp add: timeParts_def Let_def minus_div_mult_eq_mod)

lemma nanos: "hourNanos = 3600000000000" "60 * second = 60000000000" "second = 1000000000" "dayNanos = 86400000000000"
  by (simp_all add: hourNanos_def dayNanos_def second_def)

lemma timeParts_bounds:
  assumes "0 \<le> t" and "t < 86400000000" and "timeParts t = (h, m, s, n)"
  shows "0 \<le> h \<and> h < 24" and "0 \<le> m \<and> m < 60" and "0 \<le> s \<and> s < 60" and "0 \<le> n \<and> n < second"
    and "t * 1000 = h * hourNanos + m * (60 * second) + s * second + n"
proof -
  have eq: "h = t * 1000 div hourNanos" "m = t * 1000 mod hourNanos div (60 * second)"
    "s = t * 1000 mod hourNanos mod (60 * second) div second" "n = t * 1000 mod hourNanos mod (60 * second) mod second"
    using assms(3) by (simp_all add: timeParts_mod)
  define r where "r = t * 1000 mod hourNanos"
  have r: "0 \<le> r" "r < hourNanos" by (simp_all add: r_def nanos)
  define q where "q = r mod (60 * second)"
  have q: "0 \<le> q" "q < 60 * second" by (simp_all add: q_def nanos)
  show "0 \<le> h \<and> h < 24" using assms(1,2) unfolding eq nanos by linarith
  show "0 \<le> m \<and> m < 60" using r [unfolded nanos(1)] unfolding eq r_def [symmetric] nanos(2) by linarith
  have "s = q div 1000000000" unfolding eq q_def r_def by (simp add: nanos(3))
  then show "0 \<le> s \<and> s < 60" using q [unfolded nanos(2)] by linarith
  show "0 \<le> n \<and> n < second" unfolding eq by (simp add: nanos)
  have "t * 1000 = h * hourNanos + r" unfolding eq r_def by (rule div_mult_mod_eq [symmetric])
  moreover have "r = m * (60 * second) + q" unfolding eq r_def [symmetric] q_def by (rule div_mult_mod_eq [symmetric])
  moreover have "q = s * second + n" unfolding eq r_def [symmetric] q_def [symmetric] by (rule div_mult_mod_eq [symmetric])
  ultimately show "t * 1000 = h * hourNanos + m * (60 * second) + s * second + n" by simp
qed

lemma ParseClock_FormatClock:
  assumes t: "0 \<le> t" "t < 86400000000" "t mod 1000000 = 0"
  shows "ParseClock (FormatClock (Some t)) = Some t"
proof -
  obtain h m s n where p: "timeParts t = (h, m, s, n)" by (cases "timeParts t")
  note b = timeParts_bounds [OF t(1,2) p]
  obtain k where "t = k * 1000000" using t(3) by (metis mod_0_imp_dvd dvd_div_mult_self)
  then have "n = 1000000000 * (k - h * 3600 - m * 60 - s)"
    using b(5) by (simp add: nanos algebra_simps)
  then have "n mod 1000000000 = 0" by simp
  then have n: "n = 0" using b(4) by (simp add: nanos)
  have sum: "h * 3600000000 + m * 60000000 + s * 1000000 = t" using b(5) by (simp add: n nanos)
  have none: "complete (parseHM (two h @ '':'' @ two m @ '':'' @ two s)) = None"
    using parseHM_two [of h m "'':'' @ two s"] b by (simp add: complete_def)
  have hm: "complete (parseHM (two h @ '':'' @ two m)) = Some (h, m)"
    using parseHM_two [of h m "[]"] b by (simp add: complete_def)
  have hms: "complete (parseHMS (two h @ '':'' @ two m @ '':'' @ two s)) = Some (h, m, s)"
    using parseHMS_two [of h m s] b by (simp add: complete_def)
  have trim: "trimSpace (two h @ '':'' @ two m) = two h @ '':'' @ two m"
    "trimSpace (two h @ '':'' @ two m @ '':'' @ two s) = two h @ '':'' @ two m @ '':'' @ two s"
    using trimSpace_clock [of h m s] b by simp_all
  show ?thesis
  proof (cases "s = 0")
    case True
    then have "FormatClock (Some t) = two h @ '':'' @ two m" by (simp add: FormatClock_def p)
    then show ?thesis using sum True by (simp only: ParseClock_def Let_def trim hm) simp
  next
    case False
    then have "FormatClock (Some t) = two h @ '':'' @ two m @ '':'' @ two s" by (simp add: FormatClock_def p)
    then show ?thesis using sum by (simp only: ParseClock_def Let_def trim none hms) simp
  qed
qed

lemma isDigit_value: "isDigit c \<Longrightarrow> 0 \<le> digitValue c"
  by (auto simp: isDigit_def digitValue_def less_eq_char_def)

lemma getnum_bounds: "getnum fixed v = Some (n, rest) \<Longrightarrow> 0 \<le> n"
  by (induction fixed v rule: getnum.induct) (auto simp: isDigit_value split: if_splits)

lemma below_bounds: "below bound (getnum fixed v) = Some (n, rest) \<Longrightarrow> 0 \<le> n \<and> n < bound"
  by (auto simp: below_def split: option.splits if_splits dest: getnum_bounds)

lemma parseHM_bounds: "parseHM v = Some ((h, m), rest) \<Longrightarrow> 0 \<le> h \<and> h < 24 \<and> 0 \<le> m \<and> m < 60"
  unfolding parseHM_def by (auto simp: bind_eq_Some_conv dest!: below_bounds)

lemma parseHMS_bounds: "parseHMS v = Some ((h, m, s), rest) \<Longrightarrow> 0 \<le> h \<and> h < 24 \<and> 0 \<le> m \<and> m < 60 \<and> 0 \<le> s \<and> s < 60"
  unfolding parseHMS_def by (auto simp: bind_eq_Some_conv dest!: parseHM_bounds below_bounds)

lemma complete_Some: "complete p = Some v \<longleftrightarrow> p = Some (v, [])"
  by (auto simp: complete_def split: option.splits list.splits)

lemma ParseClock_bounds:
  assumes "ParseClock v = Some u"
  shows "0 \<le> u \<and> u < 86400000000 \<and> u mod 1000000 = 0"
proof -
  have "\<exists>h m s. u = h * 3600000000 + m * 60000000 + s * 1000000 \<and> 0 \<le> h \<and> h < 24 \<and> 0 \<le> m \<and> m < 60 \<and> 0 \<le> s \<and> s < 60"
  proof (cases "complete (parseHM (trimSpace v))")
    case None
    with assms obtain h m s where "parseHMS (trimSpace v) = Some ((h, m, s), [])" "u = h * 3600000000 + m * 60000000 + s * 1000000"
      by (auto simp: ParseClock_def Let_def complete_Some)
    then show ?thesis using parseHMS_bounds by blast
  next
    case (Some p)
    with assms obtain h m where p: "parseHM (trimSpace v) = Some ((h, m), [])" "u = h * 3600000000 + m * 60000000"
      by (cases p) (auto simp: ParseClock_def Let_def complete_Some)
    then show ?thesis using parseHM_bounds [OF p(1)] by (intro exI [of _ h] exI [of _ m] exI [of _ 0]) simp
  qed
  then obtain h m s where u: "u = h * 3600000000 + m * 60000000 + s * 1000000"
    and b: "0 \<le> h \<and> h < 24 \<and> 0 \<le> m \<and> m < 60 \<and> 0 \<le> s \<and> s < 60" by blast
  have "u = (h * 3600 + m * 60 + s) * 1000000" by (simp add: u)
  then show ?thesis using b by simp
qed

text \<open>
  C27. Clock times survive the wire: a time of day in whole seconds that is printed is read back as itself, and
  whatever is read is a time of day in whole seconds.
\<close>
theorem clock_roundtrip:
  "(0 \<le> t \<and> t < 86400000000 \<and> t mod 1000000 = 0 \<longrightarrow> ParseClock (FormatClock (Some t)) = Some t) \<and>
   (ParseClock v = Some u \<longrightarrow> 0 \<le> u \<and> u < 86400000000 \<and> u mod 1000000 = 0)"
  by (intro conjI impI) (simp_all add: ParseClock_FormatClock ParseClock_bounds)

text \<open>Witness of C27: half past seven in the evening.\<close>
theorem clock_roundtrip_witness:
  "FormatClock (Some 70200000000) = ''19:30'' \<and> ParseClock (FormatClock (Some 70200000000)) = Some 70200000000 \<and>
   ParseClock '' 7:05:09,5 '' = Some 25509000000"
  using clock_roundtrip [of 70200000000 "''''" 0] by (intro conjI) (code_simp, simp, code_simp)

section \<open>Zones\<close>

text \<open>
  A zone whose clocks do not change at midnight: each midnight exists once, on a full second, and they follow
  one another.
\<close>

locale midnight_zone =
  fixes z :: tz
  assumes midnight: "civil z (instantOf z d 0) = (d, 0)"
    and forward: "instantOf z d 0 < instantOf z (d + 1) 0"
    and full_second: "second dvd instantOf z d 0"
begin

lemma dateOf_midnight [simp]: "dateOf (goDate d 0 z) = d"
  by (simp add: dateOf_def goDate_def midnight)

lemma AddDate_midnight [simp]: "AddDate (goDate d 0 z) n = goDate (d + n) 0 z"
  by (simp add: AddDate_def dateOf_def goDate_def midnight)

lemma midnights_forward: "0 < n \<Longrightarrow> instantOf z d 0 < instantOf z (d + int n) 0"
proof (induction n)
  case (Suc n)
  then show ?case using forward [of "d + int n"] forward [of d] by (cases "n = 0") (auto simp: ac_simps)
qed simp

lemma midnights_ordered: "instantOf z d 0 < instantOf z d' 0 \<longleftrightarrow> d < d'"
  using midnights_forward [of "nat (d' - d)" d] midnights_forward [of "nat (d - d')" d'] by (cases d d' rule: linorder_cases) auto

lemma instant_midnight [simp]: "instant (goDate d 0 z) = instantOf z d 0"
  by (simp add: goDate_def)

text \<open>The loop over the days ends after one turn per day, and visits the midnights.\<close>

lemma daysUntil_midnights:
  "nat (d' - d) \<le> n \<Longrightarrow> daysUntil n (goDate d 0 z) (goDate d' 0 z) = Some (map (\<lambda>k. goDate k 0 z) [d..d' - 1])"
proof (induction n arbitrary: d)
  case 0
  then show ?case by (simp add: midnights_ordered)
next
  case (Suc n)
  show ?case
  proof (cases "d < d'")
    case True
    then have "[d..d' - 1] = d # [d + 1..d' - 1]" by (simp add: upto_rec1)
    then show ?thesis using True Suc by (simp add: midnights_ordered)
  next
    case False
    then show ?thesis by (simp add: midnights_ordered)
  qed
qed

lemma calendarDate_midnight [simp]: "calendarDateInLocation (goDate d 0 z) z = goDate d 0 z"
  by (simp add: calendarDateInLocation_def)

lemma dayWindow_midnight:
  "localCalendarDateWindow (goDate d 0 z) z = (inZone (goDate d 0 z) UTC, inZone (goDate (d + 1) 0 z) UTC)"
  by (simp add: localCalendarDateWindow_def Let_def)

end

text \<open>
  A zone in which, besides, every time of a day is on that day and before every time of the next one; the
  clocks may change during the day, by full seconds.
\<close>

locale daily_zone = midnight_zone +
  assumes stays: "0 \<le> n \<Longrightarrow> n < dayNanos \<Longrightarrow> fst (civil z (instantOf z d n)) = d"
    and clock: "0 \<le> n \<Longrightarrow> n < dayNanos \<Longrightarrow> 0 \<le> snd (civil z (instantOf z d n)) \<and> snd (civil z (instantOf z d n)) < dayNanos"
    and later: "0 \<le> n \<Longrightarrow> n < dayNanos \<Longrightarrow> 0 \<le> k \<Longrightarrow> k < dayNanos \<Longrightarrow> instantOf z d n < instantOf z (d + 1) k"
    and whole: "second dvd instantOf z d n - n"
    and whole_clock: "second dvd snd (civil z (instantOf z d n)) - n"
begin

lemma dateOf_goDate: "0 \<le> n \<Longrightarrow> n < dayNanos \<Longrightarrow> dateOf (goDate d n z) = d"
  by (simp add: dateOf_def goDate_def stays)

lemma instant_goDate: "0 \<le> n \<Longrightarrow> n < dayNanos \<Longrightarrow> instant (goDate d n z) = instantOf z d n"
  by (simp add: goDate_def)

text \<open>The window of a service period is not empty, and starts on the day it is asked for.\<close>

lemma service_window:
  assumes w: "ServicePeriodWindowForDate date z days (Some s) (Some t) = Inr (Some w)"
    and s: "0 \<le> s" "s < 86400000000" and t: "0 \<le> t" "t < 86400000000"
  shows "instant (pw_Start w) = instantOf z (dateOf (inZone date z)) (s * 1000)"
    and "instant (pw_Start w) < instant (pw_End w)"
    and "dateOf (inZone (pw_Start w) z) = dateOf (inZone date z)"
    and "containsDay days (Weekday (goDate (dateOf (inZone date z)) 0 z))"
    and "instant (pw_End w) =
      (if instantOf z (dateOf (inZone date z)) (s * 1000) < instantOf z (dateOf (inZone date z)) (t * 1000)
       then instantOf z (dateOf (inZone date z)) (t * 1000)
       else instantOf z (dateOf (inZone date z) + 1) (snd (civil z (instantOf z (dateOf (inZone date z)) (t * 1000)))))"
proof -
  obtain h m c n where p: "timeParts s = (h, m, c, n)" by (cases "timeParts s")
  obtain h' m' c' n' where q: "timeParts t = (h', m', c', n')" by (cases "timeParts t")
  let ?d = "dateOf (inZone date z)"
  note sums = timeParts_bounds(5) [OF s p, symmetric] timeParts_bounds(5) [OF t q, symmetric]
  have b: "0 \<le> s * 1000" "s * 1000 < dayNanos" "0 \<le> t * 1000" "t * 1000 < dayNanos" "0 < dayNanos"
    using s t by (simp_all add: nanos)
  let ?k = "snd (civil z (instantOf z ?d (t * 1000)))"
  have next_day: "AddDate (goDate ?d (t * 1000) z) 1 = goDate (?d + 1) ?k z"
    using b by (simp add: AddDate_def dateOf_goDate) (simp add: goDate_def)
  have step: "ServicePeriodWindowForDate date z days (Some s) (Some t) =
     (let localDate = goDate ?d 0 z in
      if \<not> containsDay days (Weekday localDate) then Inr None
      else let start = goDate (dateOf localDate) (s * 1000) z; stop = goDate (dateOf localDate) (t * 1000) z;
             stop = (if \<not> instant stop > instant start then AddDate stop 1 else stop)
           in Inr (Some \<lparr>pw_Date = localDate, pw_Start = inZone start UTC, pw_End = inZone stop UTC\<rparr>))"
    by (simp only: ServicePeriodWindowForDate_def p q sums prod.case option.case)
  have w: "containsDay days (Weekday (goDate ?d 0 z))" "pw_Start w = inZone (goDate ?d (s * 1000) z) UTC"
    "pw_End w = inZone (if \<not> instantOf z ?d (t * 1000) > instantOf z ?d (s * 1000) then goDate (?d + 1) ?k z
                       else goDate ?d (t * 1000) z) UTC"
    using w b unfolding step Let_def by (auto simp: instant_goDate next_day split: if_splits)
  have k: "0 \<le> ?k" "?k < dayNanos" using clock b(3,4) by auto
  have [simp]: "instant (inZone x y) = instant x" for x y by (simp add: inZone_def)
  have [simp]: "inZone (inZone (goDate d k z) y) z = goDate d k z" for d k y by (simp add: inZone_def goDate_def)
  show "containsDay days (Weekday (goDate ?d 0 z))" by (rule w(1))
  show "instant (pw_Start w) = instantOf z ?d (s * 1000)" "dateOf (inZone (pw_Start w) z) = ?d"
    using b by (simp_all add: w(2) instant_goDate dateOf_goDate)
  show "instant (pw_Start w) < instant (pw_End w)"
    using b k later [OF b(1,2) k] by (simp add: w(2,3) instant_goDate)
  show "instant (pw_End w) =
      (if instantOf z ?d (s * 1000) < instantOf z ?d (t * 1000) then instantOf z ?d (t * 1000) else instantOf z (?d + 1) ?k)"
    using b k by (simp add: w(3) instant_goDate)
qed

end

text \<open>A zone whose clocks never change.\<close>

interpretation fixed: daily_zone "fixedZone offset" for offset
proof
  have day: "second dvd d * dayNanos" for d by (simp add: dayNanos_def hourNanos_def)
  show "second dvd instantOf (fixedZone offset) d n - n" for d n using day [of d] by (simp add: fixedZone_def)
  show "second dvd instantOf (fixedZone offset) d 0" for d using day [of d] by (simp add: fixedZone_def)
  show "second dvd snd (civil (fixedZone offset) (instantOf (fixedZone offset) d n)) - n" for d n
  proof -
    have "(d * dayNanos + n) mod dayNanos - n = - (n div dayNanos * dayNanos)"
      by (simp add: minus_div_mult_eq_mod [symmetric, of n])
    then show ?thesis using day [of "n div dayNanos"] by (simp add: fixedZone_def)
  qed
qed (auto simp: fixedZone_def nanos)

text \<open>
  The window of a service period: in a zone whose clocks do not change, it starts on the local date it is
  asked for, at the period's start time, on one of the period's weekdays, and lasts a positive time of at most a
  day, past midnight when the period ends before it starts.
\<close>
theorem service_window_bounds:
  assumes "ServicePeriodWindowForDate date (fixedZone offset) days (Some s) (Some t) = Inr (Some w)"
    and "0 \<le> s \<and> s < 86400000000 \<and> 0 \<le> t \<and> t < 86400000000"
  shows "instant (pw_Start w) < instant (pw_End w) \<and> instant (pw_End w) \<le> instant (pw_Start w) + dayNanos \<and>
    civil (fixedZone offset) (instant (pw_Start w)) = (dateOf (inZone date (fixedZone offset)), s * 1000) \<and>
    containsDay days (Weekday (inZone (pw_Start w) (fixedZone offset)))"
proof -
  have b: "0 \<le> s * 1000" "s * 1000 < dayNanos" "0 \<le> t * 1000" "t * 1000 < dayNanos" using assms(2) by (simp_all add: nanos)
  have r: "0 \<le> s" "s < 86400000000" "0 \<le> t" "t < 86400000000" using assms(2) by simp_all
  note f = fixed.service_window [OF assms(1) r]
  have [simp]: "civil (fixedZone offset) (instantOf (fixedZone offset) d k) = (d, k)" if "0 \<le> k" "k < dayNanos" for d k
    using that by (simp add: fixedZone_def)
  have i: "instantOf (fixedZone offset) d k = d * dayNanos + k - offset * second" for d k by (simp add: fixedZone_def)
  show ?thesis
    using f(2,4,5) b by (simp add: f(1) Weekday_def dateOf_def inZone_def goDate_def) (simp add: i algebra_simps)
qed

text \<open>Example: a Monday evening that ends at two in the morning, two hours east of Greenwich.\<close>
theorem service_window_bounds_witness:
  "\<exists>w. ServicePeriodWindowForDate (goDate 20003 0 UTC) (fixedZone 7200) [1] (Some 64800000000) (Some 7200000000) = Inr (Some w) \<and>
     instant (pw_Start w) < instant (pw_End w) \<and> instant (pw_End w) = instant (pw_Start w) + 8 * hourNanos"
proof -
  let ?r = "ServicePeriodWindowForDate (goDate 20003 0 UTC) (fixedZone 7200) [1] (Some 64800000000) (Some 7200000000)"
  have "case ?r of Inr (Some w) \<Rightarrow> instant (pw_End w) = instant (pw_Start w) + 8 * hourNanos | _ \<Rightarrow> False" by code_simp
  then obtain w where w: "?r = Inr (Some w)" "instant (pw_End w) = instant (pw_Start w) + 8 * hourNanos"
    by (auto split: sum.splits option.splits)
  from service_window_bounds [OF w(1)] w show ?thesis by simp
qed

end
