(* ===== verification/Analytics.thy ===== *)
theory Analytics
  imports Calendar Identity
begin

text \<open>
  The projector of \<^verbatim>\<open>internal/domain/analytics/projection.go\<close> and the statements it runs, on the tables of
  the migrations 000009 and 000013. A date column is the number of days since 1970, a \<^verbatim>\<open>timestamptz\<close> the
  microseconds. Instants of the code are nanoseconds. What depends on the floating-point unit, on the numeric
  type of the database or on its percentile aggregate is an argument, the record \<open>floats\<close>; \<open>collate\<close> ranks
  strings as the collation of the database does, and \<open>load\<close> is \<^verbatim>\<open>time.LoadLocation\<close>.
\<close>

section \<open>Rows and errors\<close>

datatype an_error = ErrForbidden | ErrValidation | ErrNotFound | ErrInvalidServicePeriod | OutOfTurns

text \<open>\<open>OutOfTurns\<close> is not an error of the code: it says that a loop took more turns than the bound it was given.\<close>

type_synonym 'a an_result_of = "an_error fail + 'a"

record Floor =
  f_id :: uuid
  f_org :: uuid
  f_loc :: uuid
  f_slug :: string
  f_name :: string
  f_sort_order :: int
  f_canvas :: json
  f_background_asset_ref :: "string option"
  f_is_active :: bool
  f_version :: int
  f_created_at :: timestamp
  f_updated_at :: timestamp

record Zone =
  z_id :: uuid
  z_org :: uuid
  z_loc :: uuid
  z_floor :: uuid
  z_name :: string
  z_sort_order :: int
  z_is_active :: bool
  z_version :: int
  z_created_at :: timestamp
  z_updated_at :: timestamp

record ServicePeriod =
  sp_id :: uuid
  sp_org :: uuid
  sp_loc :: uuid
  sp_name :: string
  sp_days_of_week :: "int list"
  sp_start_time :: int
  sp_end_time :: int
  sp_is_active :: bool
  sp_version :: int
  sp_created_at :: timestamp
  sp_updated_at :: timestamp

text \<open>
  One row of a metric table: \<open>mr_group\<close> is its table, zone, floor or service period (none for a location) and
  \<open>mr_date\<close> its date (none for an hourly row).
\<close>

record MetricRow =
  mr_org :: uuid
  mr_loc :: uuid
  mr_group :: "uuid option"
  mr_date :: "int option"
  mr_start :: timestamp
  mr_end :: timestamp
  mr_metric :: Metric
  mr_projected_at :: timestamp

datatype metric_table = HourlyTable | DailyTable | DailyZone | DailyFloor | DailyLocation | PeriodMetrics

record AnalyticsProjectorCheckpoint =
  k_projector_name :: string
  k_projector_version :: int
  k_cursor_occurred_at :: "timestamp option"
  k_cursor_event_id :: "uuid option"
  k_lag_seconds :: rat
  k_rebuild_status :: string
  k_rebuild_started_at :: "timestamp option"
  k_rebuild_completed_at :: "timestamp option"
  k_updated_at :: timestamp

record RebuildRun =
  run_ID :: uuid
  run_OrganisationID :: uuid
  run_LocationID :: uuid
  run_RequestedBy :: string
  run_RangeFrom :: int
  run_RangeTo :: int
  run_StartedAt :: timestamp
  run_CompletedAt :: "timestamp option"
  run_Status :: string
  run_DaysProcessed :: int
  run_LastError :: "string option"

record adb =
  shared :: idb
  floors :: "Floor list"
  zones :: "Zone list"
  service_periods :: "ServicePeriod list"
  metrics :: "metric_table \<Rightarrow> MetricRow list"
  checkpoints :: "AnalyticsProjectorCheckpoint list"
  rebuild_runs :: "RebuildRun list"

type_synonym 'a an_body = "(an_error fail, adb, 'a) body"
type_synonym 'a an_result = "(an_error fail + 'a) \<times> adb"

definition onShared :: "(idb \<Rightarrow> db_error + 'a) \<Rightarrow> adb \<Rightarrow> db_error + 'a \<times> adb" where
  "onShared q = reading (\<lambda>s. q (shared s))"

text \<open>\<^verbatim>\<open>time.Time\<close> as a \<^verbatim>\<open>timestamptz\<close> and as a \<^verbatim>\<open>date\<close>.\<close>

definition pgTime :: "int \<Rightarrow> timestamp" where
  "pgTime t = t div 1000"

definition pgDate :: "gotime \<Rightarrow> int" where
  "pgDate value = dateOf value"

text \<open>The checkpoints are for the platform only.\<close>

definition visible_platform :: "env \<Rightarrow> ctx \<Rightarrow> bool" where
  "visible_platform e c \<longleftrightarrow> rls e \<longrightarrow> platform_admin c"

record floats =
  fl :: "rat \<Rightarrow> rat"
  avgNumeric :: "rat list \<Rightarrow> rat"
  avgFloat :: "rat list \<Rightarrow> rat"
  sumFloat :: "rat list \<Rightarrow> rat"
  percentileCont :: "rat \<Rightarrow> rat list \<Rightarrow> rat"


section \<open>The metric of a window\<close>

text \<open>\<^verbatim>\<open>extract(epoch FROM a - b)\<close> of two \<^verbatim>\<open>timestamptz\<close> values.\<close>

definition epochOf :: "int \<Rightarrow> rat" where
  "epochOf microseconds = of_int microseconds / 10 ^ 6"

definition GroupByZone :: string where "GroupByZone = ''zone''"
definition GroupByFloor :: string where "GroupByFloor = ''floor''"
definition GroupByServicePeriod :: string where "GroupByServicePeriod = ''service_period''"

definition scopeFilter :: "string \<Rightarrow> uuid \<Rightarrow> Table \<Rightarrow> bool" where
  "scopeFilter scope groupID t \<longleftrightarrow>
     (if scope = ''table'' then t_id t = groupID
      else if scope = GroupByZone then t_zone t = groupID
      else if scope = GroupByFloor then t_floor t = groupID
      else True)"

definition activeTables :: "env \<Rightarrow> ctx \<Rightarrow> uuid \<Rightarrow> uuid \<Rightarrow> db \<Rightarrow> Table list" where
  "activeTables e c org loc s =
     filter (\<lambda>t. visible e c (t_org t) (t_loc t) \<and> t_org t = org \<and> t_loc t = loc \<and> liveTable t) (tables s)"

definition scopedTables :: "env \<Rightarrow> ctx \<Rightarrow> uuid \<Rightarrow> uuid \<Rightarrow> string \<Rightarrow> uuid \<Rightarrow> db \<Rightarrow> uuid list" where
  "scopedTables e c org loc scope groupID s = map t_id (filter (scopeFilter scope groupID) (activeTables e c org loc s))"

text \<open>\<^verbatim>\<open>table_sessions ts JOIN scoped_tables st ON st.id = ts.table_id\<close>, and the same for the assists.\<close>

definition scopedSessions :: "env \<Rightarrow> ctx \<Rightarrow> uuid list \<Rightarrow> db \<Rightarrow> TableSession list" where
  "scopedSessions e c ids s =
     filter (\<lambda>x. visible e c (s_org x) (s_loc x) \<and> s_table x \<in> set ids) (table_sessions s)"

definition scopedAssists :: "env \<Rightarrow> ctx \<Rightarrow> uuid list \<Rightarrow> db \<Rightarrow> AssistRequest list" where
  "scopedAssists e c ids s =
     filter (\<lambda>a. visible e c (a_org a) (a_loc a) \<and> a_table a \<in> set ids) (assist_requests s)"

definition sessionEnd :: "timestamp \<Rightarrow> TableSession \<Rightarrow> timestamp" where
  "sessionEnd asOf x = (case s_ended_at x of None \<Rightarrow> asOf | Some t \<Rightarrow> t)"

definition sessionOverlap :: "timestamp \<Rightarrow> timestamp \<Rightarrow> timestamp \<Rightarrow> TableSession list \<Rightarrow> rat" where
  "sessionOverlap windowStart windowEnd asOf xs =
     (\<Sum>x \<leftarrow> filter (\<lambda>x. s_started_at x < windowEnd \<and> sessionEnd asOf x > windowStart \<and> sessionEnd asOf x \<ge> s_started_at x) xs.
        max 0 (epochOf (min (sessionEnd asOf x) windowEnd - max (s_started_at x) windowStart)))"

definition completedDurations :: "(rat \<Rightarrow> rat) \<Rightarrow> timestamp \<Rightarrow> timestamp \<Rightarrow> TableSession list \<Rightarrow> rat list" where
  "completedDurations f windowStart windowEnd xs =
     concat (map (\<lambda>x. case s_ended_at x of
                        None \<Rightarrow> []
                      | Some t \<Rightarrow> if windowStart \<le> t \<and> t < windowEnd \<and> s_started_at x \<le> t
                                  then [f (epochOf (t - s_started_at x))] else []) xs)"

definition assistDelays :: "(AssistRequest \<Rightarrow> timestamp option) \<Rightarrow> AssistRequest list \<Rightarrow> rat list" where
  "assistDelays moment as =
     concat (map (\<lambda>a. case moment a of
                        None \<Rightarrow> []
                      | Some t \<Rightarrow> if a_requested_at a \<le> t then [epochOf (t - a_requested_at a)] else []) as)"

text \<open>\<^verbatim>\<open>coalesce(agg(x), 0)\<close>: an aggregate of no row is NULL.\<close>

definition coalesce0 :: "(rat list \<Rightarrow> rat) \<Rightarrow> rat list \<Rightarrow> rat" where
  "coalesce0 agg xs = (if xs = [] then 0 else agg xs)"

text \<open>The query, with its parameters as \<^verbatim>\<open>timestamptz\<close> values.\<close>

definition windowQuery ::
  "env \<Rightarrow> ctx \<Rightarrow> floats \<Rightarrow> uuid \<Rightarrow> uuid \<Rightarrow> uuid \<Rightarrow> string \<Rightarrow> timestamp \<Rightarrow> timestamp \<Rightarrow> timestamp \<Rightarrow> db \<Rightarrow> Metric" where
  "windowQuery e c F org loc groupID scope windowStart windowEnd asOf s =
     (let ids = scopedTables e c org loc scope groupID s;
          xs = scopedSessions e c ids s;
          durations = completedDurations (fl F) windowStart windowEnd xs;
          as = filter (\<lambda>a. windowStart \<le> a_requested_at a \<and> a_requested_at a < windowEnd) (scopedAssists e c ids s)
      in \<lparr>ActiveTableCount = int (length ids),
          OccupancySeconds = fl F (sessionOverlap windowStart windowEnd asOf xs),
          UtilisationBasisSeconds = fl F (fl F (of_nat (length ids)) * fl F (epochOf (windowEnd - windowStart))),
          UtilisationRate = 0,
          CompletedSessionCount = int (length durations),
          TurnoverRate = 0,
          AvgSessionSeconds = coalesce0 (avgFloat F) durations,
          P50SessionSeconds = coalesce0 (percentileCont F (5 / 10)) durations,
          P90SessionSeconds = coalesce0 (percentileCont F (9 / 10)) durations,
          AssistRequestCount = int (length as),
          AvgAssistResponseSeconds = fl F (coalesce0 (avgNumeric F) (assistDelays a_acknowledged_at as)),
          AvgAssistResolutionSeconds = fl F (coalesce0 (avgNumeric F) (assistDelays a_resolved_at as)),
          AnomalyCount = int (length (filter (\<lambda>x. case s_ended_at x of None \<Rightarrow> False | Some t \<Rightarrow> t < s_started_at x) xs))\<rparr>)"

definition windowMetric ::
  "env \<Rightarrow> ctx \<Rightarrow> floats \<Rightarrow> uuid \<Rightarrow> uuid \<Rightarrow> uuid \<Rightarrow> string \<Rightarrow> int \<Rightarrow> int \<Rightarrow> int \<Rightarrow> db \<Rightarrow> Metric" where
  "windowMetric e c F org loc groupID scope windowStart windowEnd asOf s =
     FinalizeMetric (fl F) (windowQuery e c F org loc groupID scope (pgTime windowStart) (pgTime windowEnd) (pgTime asOf) s)"

definition calculateWindowMetric ::
  "env \<Rightarrow> ctx \<Rightarrow> floats \<Rightarrow> uuid \<Rightarrow> uuid \<Rightarrow> uuid \<Rightarrow> string \<Rightarrow> int \<Rightarrow> int \<Rightarrow> int \<Rightarrow> Metric an_body" where
  "calculateWindowMetric e c F org loc groupID scope windowStart windowEnd asOf =
     runQuery e ''calculating analytics metric'' None
       (onShared (\<lambda>s. Inr (windowMetric e c F org loc groupID scope windowStart windowEnd asOf (core s))))"


section \<open>The metric tables\<close>

definition metricsKey :: "metric_table \<Rightarrow> MetricRow \<Rightarrow> uuid \<times> uuid \<times> uuid option \<times> int option" where
  "metricsKey p r = (mr_org r, mr_loc r, mr_group r, if p = HourlyTable then Some (mr_start r) else mr_date r)"

definition nonNegative :: "Metric \<Rightarrow> bool" where
  "nonNegative m \<longleftrightarrow>
     0 \<le> ActiveTableCount m \<and> 0 \<le> OccupancySeconds m \<and> 0 \<le> UtilisationBasisSeconds m \<and> 0 \<le> UtilisationRate m \<and>
     0 \<le> CompletedSessionCount m \<and> 0 \<le> TurnoverRate m \<and> 0 \<le> AssistRequestCount m \<and> 0 \<le> AnomalyCount m"

definition metricCheck :: "metric_table \<Rightarrow> MetricRow \<Rightarrow> bool" where
  "metricCheck p r \<longleftrightarrow> mr_start r < mr_end r \<and> (p = HourlyTable \<longrightarrow> nonNegative (mr_metric r))"

definition metricRefers :: "metric_table \<Rightarrow> MetricRow \<Rightarrow> adb \<Rightarrow> bool" where
  "metricRefers p r s \<longleftrightarrow>
     (case (p, mr_group r) of
        (HourlyTable, Some t) \<Rightarrow> tableExists (core (shared s)) t (mr_org r) (mr_loc r)
      | (DailyTable, Some t) \<Rightarrow> tableExists (core (shared s)) t (mr_org r) (mr_loc r)
      | (DailyZone, Some z) \<Rightarrow> z \<in> z_id ` set (zones s)
      | (DailyFloor, Some f) \<Rightarrow> \<exists>x \<in> set (floors s). f_id x = f \<and> f_org x = mr_org r \<and> f_loc x = mr_loc r
      | (DailyLocation, None) \<Rightarrow> locationExists (core (shared s)) (mr_org r) (mr_loc r)
      | (PeriodMetrics, Some i) \<Rightarrow> i \<in> sp_id ` set (service_periods s)
      | _ \<Rightarrow> False)"

definition setMetrics :: "metric_table \<Rightarrow> MetricRow list \<Rightarrow> adb \<Rightarrow> adb" where
  "setMetrics p rs s = s\<lparr>metrics := (metrics s)(p := rs)\<rparr>"

definition insertMetric :: "env \<Rightarrow> ctx \<Rightarrow> metric_table \<Rightarrow> MetricRow \<Rightarrow> adb \<Rightarrow> db_error + unit \<times> adb" where
  "insertMetric e c p r s =
     map_sum id (\<lambda>(r', rs). ((), setMetrics p rs s))
       (insertRow (\<lambda>x y. metricsKey p x = metricsKey p y)
          (firstViolation
             [(visible e c (mr_org r) (mr_loc r), ''42501''),
              (metricCheck p r, ''23514''),
              (metricRefers p r s, ''23503'')])
          r (metrics s p))"

text \<open>\<^verbatim>\<open>metricArgs\<close>, \<^verbatim>\<open>hourlyMetricArgs\<close> and \<^verbatim>\<open>metricValues\<close>: the columns in the order of the tables.\<close>

definition metricRow ::
  "env \<Rightarrow> uuid \<Rightarrow> uuid \<Rightarrow> uuid option \<Rightarrow> int option \<Rightarrow> int \<Rightarrow> int \<Rightarrow> Metric \<Rightarrow> MetricRow" where
  "metricRow e org loc groupID day start stop metric =
     \<lparr>mr_org = org, mr_loc = loc, mr_group = groupID, mr_date = day, mr_start = pgTime start, mr_end = pgTime stop,
      mr_metric = metric, mr_projected_at = now e\<rparr>"

section \<open>Projecting a day\<close>

primrec eachTx :: "('a \<Rightarrow> ('e, 's, unit) body) \<Rightarrow> 'a list \<Rightarrow> ('e, 's, unit) body" where
  "eachTx f [] = txReturn ()"
| "eachTx f (x # xs) = txBind (f x) (\<lambda>_. eachTx f xs)"

text \<open>A query that fails while its rows are read fails like the call that sends it.\<close>

definition projectLocation ::
  "env \<Rightarrow> ctx \<Rightarrow> floats \<Rightarrow> uuid \<Rightarrow> uuid \<Rightarrow> gotime \<Rightarrow> int \<Rightarrow> int \<Rightarrow> unit an_body" where
  "projectLocation e c F org loc day start stop =
     txBind (calculateWindowMetric e c F org loc uuid_Nil ''location'' start stop stop) (\<lambda>metric.
     runQuery e ''inserting daily location metric'' None
       (insertMetric e c DailyLocation (metricRow e org loc None (Some (pgDate day)) start stop metric)))"

definition projectGrouped ::
  "env \<Rightarrow> ctx \<Rightarrow> floats \<Rightarrow> uuid \<Rightarrow> uuid \<Rightarrow> gotime \<Rightarrow> int \<Rightarrow> int \<Rightarrow> string \<Rightarrow> unit an_body" where
  "projectGrouped e c F org loc day start stop groupBy =
     (let (idColumn, tableName) = (if groupBy = GroupByZone then (t_zone, DailyZone) else (t_floor, DailyFloor))
      in txBind (runQuery e ''listing analytics groups'' None
                   (onShared (\<lambda>s. Inr (sort (remdups (map idColumn (activeTables e c org loc (core s)))))))) (\<lambda>ids.
         eachTx (\<lambda>i.
           txBind (calculateWindowMetric e c F org loc i groupBy start stop stop) (\<lambda>metric.
           runQuery e ''inserting grouped analytics metric'' None
             (insertMetric e c tableName (metricRow e org loc (Some i) (Some (pgDate day)) start stop metric)))) ids))"

definition projectTables ::
  "env \<Rightarrow> ctx \<Rightarrow> floats \<Rightarrow> (string \<Rightarrow> int) \<Rightarrow> uuid \<Rightarrow> uuid \<Rightarrow> gotime \<Rightarrow> int \<Rightarrow> int \<Rightarrow> string \<Rightarrow> unit an_body" where
  "projectTables e c F collate org loc day start stop grain =
     txBind (runQuery e ''listing analytics tables'' None
               (onShared (\<lambda>s. Inr (map t_id (sort_key (\<lambda>t. collate (t_label t)) (activeTables e c org loc (core s))))))) (\<lambda>tableIDs.
     eachTx (\<lambda>tableID.
       txBind (calculateWindowMetric e c F org loc tableID ''table'' start stop stop) (\<lambda>metric.
       runQuery e ''inserting table analytics metric'' None
         (if grain = ''hour'' then insertMetric e c HourlyTable (metricRow e org loc (Some tableID) None start stop metric)
          else insertMetric e c DailyTable (metricRow e org loc (Some tableID) (Some (pgDate day)) start stop metric)))) tableIDs)"

definition insertServicePeriodMetric ::
  "env \<Rightarrow> ctx \<Rightarrow> uuid \<Rightarrow> uuid \<Rightarrow> uuid \<Rightarrow> gotime \<Rightarrow> int \<Rightarrow> int \<Rightarrow> Metric \<Rightarrow> unit an_body" where
  "insertServicePeriodMetric e c org loc periodID day start stop metric =
     runQuery e ''inserting service period analytics metric'' None
       (insertMetric e c PeriodMetrics (metricRow e org loc (Some periodID) (Some (pgDate day)) start stop metric))"

definition ListActiveServicePeriodsByLocation ::
  "env \<Rightarrow> ctx \<Rightarrow> (string \<Rightarrow> int) \<Rightarrow> uuid \<Rightarrow> uuid \<Rightarrow> adb \<Rightarrow> ServicePeriod list" where
  "ListActiveServicePeriodsByLocation e c collate org loc s =
     sort_key (\<lambda>p. collate (sp_name p))
       (filter (\<lambda>p. visible e c (sp_org p) (sp_loc p) \<and> sp_org p = org \<and> sp_loc p = loc \<and> sp_is_active p) (service_periods s))"

definition getLocation :: "env \<Rightarrow> ctx \<Rightarrow> string \<Rightarrow> an_error option \<Rightarrow> uuid \<Rightarrow> uuid \<Rightarrow> Location an_body" where
  "getLocation e c site noRows org loc = runQuery e site noRows (onShared (\<lambda>s. GetLocation e c loc org (core s)))"

definition loadZone :: "(string \<Rightarrow> tz option) \<Rightarrow> string \<Rightarrow> Location \<Rightarrow> tz an_body" where
  "loadZone load site l =
     (case load (l_timezone l) of
        None \<Rightarrow> txFail (Wrapped site (OtherError ''timezone''))
      | Some z \<Rightarrow> txReturn z)"

definition projectPeriod ::
  "env \<Rightarrow> ctx \<Rightarrow> floats \<Rightarrow> uuid \<Rightarrow> uuid \<Rightarrow> gotime \<Rightarrow> tz \<Rightarrow> ServicePeriod \<Rightarrow> unit an_body" where
  "projectPeriod e c F org loc day z period =
     (case ServicePeriodWindowForDate day z (sp_days_of_week period) (Some (sp_start_time period)) (Some (sp_end_time period)) of
        Inl () \<Rightarrow> txFail (Err ErrInvalidServicePeriod)
      | Inr None \<Rightarrow> txReturn ()
      | Inr (Some window) \<Rightarrow>
          txBind (calculateWindowMetric e c F org loc uuid_Nil ''location'' (instant (pw_Start window)) (instant (pw_End window))
                    (instant (pw_End window))) (\<lambda>metric.
          insertServicePeriodMetric e c org loc (sp_id period) day (instant (pw_Start window)) (instant (pw_End window)) metric))"

definition projectDay ::
  "env \<Rightarrow> ctx \<Rightarrow> floats \<Rightarrow> (string \<Rightarrow> int) \<Rightarrow> (string \<Rightarrow> tz option) \<Rightarrow> uuid \<Rightarrow> uuid \<Rightarrow> gotime \<Rightarrow> int \<Rightarrow> int \<Rightarrow> unit an_body" where
  "projectDay e c F collate load org loc day dayStart dayEnd =
     txBind (projectLocation e c F org loc day dayStart dayEnd) (\<lambda>_.
     txBind (projectGrouped e c F org loc day dayStart dayEnd GroupByFloor) (\<lambda>_.
     txBind (projectGrouped e c F org loc day dayStart dayEnd GroupByZone) (\<lambda>_.
     txBind (projectTables e c F collate org loc day dayStart dayEnd ''day'') (\<lambda>_.
     txBind (eachTx (\<lambda>(hourStart, hourEnd). projectTables e c F collate org loc day hourStart hourEnd ''hour'')
               (hoursUntil dayStart dayEnd)) (\<lambda>_.
     txBind (runQuery e ''listing projection service periods'' None
               (reading (\<lambda>s. Inr (ListActiveServicePeriodsByLocation e c collate org loc s)))) (\<lambda>periods.
     txBind (getLocation e c ''getting service period location'' None org loc) (\<lambda>location.
     txBind (loadZone load ''loading service period timezone'' location) (\<lambda>z.
     eachTx (projectPeriod e c F org loc day z) periods))))))))"

text \<open>The DELETE statements remove the rows of the day that the transaction sees.\<close>

definition dayRow :: "env \<Rightarrow> ctx \<Rightarrow> uuid \<Rightarrow> uuid \<Rightarrow> gotime \<Rightarrow> metric_table \<Rightarrow> MetricRow \<Rightarrow> bool" where
  "dayRow e c org loc day p r \<longleftrightarrow>
     visible e c (mr_org r) (mr_loc r) \<and> mr_org r = org \<and> mr_loc r = loc \<and>
     (if p = HourlyTable then pgTime (instant day) \<le> mr_start r \<and> mr_start r < pgTime (instant (AddDate day 1))
      else mr_date r = Some (pgDate day))"

definition deleteDay :: "env \<Rightarrow> ctx \<Rightarrow> uuid \<Rightarrow> uuid \<Rightarrow> gotime \<Rightarrow> metric_table \<Rightarrow> adb \<Rightarrow> db_error + unit \<times> adb" where
  "deleteDay e c org loc day p s = Inr ((), setMetrics p (filter (\<lambda>r. \<not> dayRow e c org loc day p r) (metrics s p)) s)"

definition clearProjectionDay :: "env \<Rightarrow> ctx \<Rightarrow> uuid \<Rightarrow> uuid \<Rightarrow> gotime \<Rightarrow> unit an_body" where
  "clearProjectionDay e c org loc day =
     txBind (runQuery e ''clearing hourly analytics projection'' None (deleteDay e c org loc day HourlyTable)) (\<lambda>_.
     eachTx (\<lambda>p. runQuery e ''clearing analytics projection'' None (deleteDay e c org loc day p))
       [DailyTable, DailyZone, DailyFloor, DailyLocation, PeriodMetrics])"


section \<open>The checkpoint\<close>

definition ProjectorName :: string where "ProjectorName = ''analytics-projector''"
definition ProjectorVersion :: int where "ProjectorVersion = 1"

text \<open>\<^verbatim>\<open>INSERT ... ON CONFLICT (projector_name) DO UPDATE\<close>.\<close>

definition upsertRow ::
  "env \<Rightarrow> ctx \<Rightarrow> AnalyticsProjectorCheckpoint \<Rightarrow> (AnalyticsProjectorCheckpoint \<Rightarrow> AnalyticsProjectorCheckpoint) \<Rightarrow>
     adb \<Rightarrow> db_error + unit \<times> adb" where
  "upsertRow e c new f s =
     (case firstViolation [(visible_platform e c, ''42501''), (0 \<le> k_lag_seconds new, ''23514'')] of
        Some state \<Rightarrow> Inl (PgError state)
      | None \<Rightarrow>
          Inr ((), s\<lparr>checkpoints :=
            (if k_projector_name new \<in> k_projector_name ` set (checkpoints s)
             then map (\<lambda>k. if k_projector_name k = k_projector_name new then f k else k) (checkpoints s)
             else checkpoints s @ [new])\<rparr>))"

definition markRebuildRunning :: "env \<Rightarrow> ctx \<Rightarrow> adb \<Rightarrow> db_error + unit \<times> adb" where
  "markRebuildRunning e c =
     upsertRow e c
       \<lparr>k_projector_name = ProjectorName, k_projector_version = ProjectorVersion, k_cursor_occurred_at = None,
        k_cursor_event_id = None, k_lag_seconds = 0, k_rebuild_status = ''running'', k_rebuild_started_at = Some (now e),
        k_rebuild_completed_at = None, k_updated_at = now e\<rparr>
       (\<lambda>k. k\<lparr>k_projector_version := ProjectorVersion, k_rebuild_status := ''running'', k_rebuild_started_at := Some (now e),
              k_updated_at := now e\<rparr>)"

definition markRebuildIdle :: "env \<Rightarrow> ctx \<Rightarrow> adb \<Rightarrow> db_error + unit \<times> adb" where
  "markRebuildIdle e c s =
     Inr ((), s\<lparr>checkpoints :=
       map (\<lambda>k. if visible_platform e c \<and> k_projector_name k = ProjectorName
                then k\<lparr>k_rebuild_status := ''idle'', k_rebuild_completed_at := Some (now e), k_updated_at := now e\<rparr> else k)
         (checkpoints s)\<rparr>)"

definition upsertCheckpoint :: "env \<Rightarrow> ctx \<Rightarrow> floats \<Rightarrow> Envelope \<Rightarrow> unit an_body" where
  "upsertCheckpoint e c F event =
     (let lag = max 0 (timeSub (wall e) (ev_OccurredAt event));
          seconds = durationSeconds (fl F) lag
      in runQuery e ''upserting analytics checkpoint'' None
           (upsertRow e c
              \<lparr>k_projector_name = ProjectorName, k_projector_version = ProjectorVersion,
               k_cursor_occurred_at = Some (pgTime (ev_OccurredAt event)), k_cursor_event_id = Some (ev_ID event),
               k_lag_seconds = seconds, k_rebuild_status = ''idle'', k_rebuild_started_at = None,
               k_rebuild_completed_at = None, k_updated_at = now e\<rparr>
              (\<lambda>k. k\<lparr>k_projector_version := ProjectorVersion, k_cursor_occurred_at := Some (pgTime (ev_OccurredAt event)),
                     k_cursor_event_id := Some (ev_ID event), k_lag_seconds := seconds, k_rebuild_status := ''idle'',
                     k_updated_at := now e\<rparr>)))"


section \<open>Rebuilding a range of days\<close>

text \<open>An error of \<^verbatim>\<open>rebuildRange\<close> comes with the number of days that were processed before it.\<close>

type_synonym 'a counted_body = "(an_error fail \<times> int, adb, 'a) body"

definition after :: "int \<Rightarrow> 'a an_body \<Rightarrow> 'a counted_body" where
  "after daysProcessed m = (\<lambda>s. map_sum (\<lambda>err. (err, daysProcessed)) id (m s))"

definition rebuildDay ::
  "env \<Rightarrow> ctx \<Rightarrow> floats \<Rightarrow> (string \<Rightarrow> int) \<Rightarrow> (string \<Rightarrow> tz option) \<Rightarrow> uuid \<Rightarrow> uuid \<Rightarrow> tz \<Rightarrow> gotime \<Rightarrow> unit an_body" where
  "rebuildDay e c F collate load org loc z day =
     (case localCalendarDateWindow day z of
        (dayStart, dayEnd) \<Rightarrow>
          txBind (clearProjectionDay e c org loc day) (\<lambda>_.
          projectDay e c F collate load org loc day (instant dayStart) (instant dayEnd)))"

primrec rebuildDays :: "(gotime \<Rightarrow> unit an_body) \<Rightarrow> gotime list \<Rightarrow> int \<Rightarrow> int counted_body" where
  "rebuildDays f [] daysProcessed = txReturn daysProcessed"
| "rebuildDays f (day # days) daysProcessed =
     txBind (after daysProcessed (f day)) (\<lambda>_. rebuildDays f days (daysProcessed + 1))"

text \<open>\<open>turns\<close> bounds the loop over the days.\<close>

definition rebuildRange ::
  "nat \<Rightarrow> env \<Rightarrow> ctx \<Rightarrow> floats \<Rightarrow> (string \<Rightarrow> int) \<Rightarrow> (string \<Rightarrow> tz option) \<Rightarrow> uuid \<Rightarrow> uuid \<Rightarrow> gotime \<Rightarrow> gotime \<Rightarrow> int counted_body" where
  "rebuildRange turns e c F collate load org loc from to =
     txBind (after 0 (getLocation e c ''getting rebuild location'' None org loc)) (\<lambda>location.
     txBind (after 0 (loadZone load ''loading rebuild timezone'' location)) (\<lambda>z.
     txBind (after 0 (runQuery e ''marking analytics rebuild running'' None (markRebuildRunning e c))) (\<lambda>_.
     (case daysUntil turns (calendarDateInLocation from z) (calendarDateInLocation to z) of
        None \<Rightarrow> txFail (Err OutOfTurns, 0)
      | Some days \<Rightarrow>
          txBind (rebuildDays (rebuildDay e c F collate load org loc z) days 0) (\<lambda>daysProcessed.
          txBind (after daysProcessed (runQuery e ''marking analytics rebuild complete'' None (markRebuildIdle e c))) (\<lambda>_.
          txReturn daysProcessed))))))"

definition uncounted :: "'a counted_body \<Rightarrow> 'a an_body" where
  "uncounted m = (\<lambda>s. map_sum fst id (m s))"

text \<open>The projector handles one event in one transaction of the platform.\<close>

definition handleInTx ::
  "nat \<Rightarrow> env \<Rightarrow> ctx \<Rightarrow> floats \<Rightarrow> (string \<Rightarrow> int) \<Rightarrow> (string \<Rightarrow> tz option) \<Rightarrow> Envelope \<Rightarrow> unit an_body" where
  "handleInTx turns e c F collate load event =
     txBind (getLocation e c ''getting projector location'' None (ev_OrganisationID event) (ev_LocationID event)) (\<lambda>location.
     txBind (loadZone load ''loading location timezone'' location) (\<lambda>z.
     (case localDateWindow \<lparr>instant = ev_OccurredAt event, zone = UTC\<rparr> z of
        (start, stop) \<Rightarrow>
          txBind (uncounted (rebuildRange turns e c F collate load (ev_OrganisationID event) (ev_LocationID event) start stop)) (\<lambda>_.
          upsertCheckpoint e c F event))))"

definition Handle ::
  "nat \<Rightarrow> env \<Rightarrow> floats \<Rightarrow> (string \<Rightarrow> int) \<Rightarrow> (string \<Rightarrow> tz option) \<Rightarrow> Envelope \<Rightarrow> adb \<Rightarrow> unit an_result" where
  "Handle turns e F collate load event s =
     (if fault e ''beginning analytics projection transaction''
      then (Inl (Wrapped ''beginning analytics projection transaction'' ConnFailure), s)
      else if fault e ''setting analytics projector context''
      then (Inl (rollback e (Wrapped ''setting analytics projector context'' ConnFailure)), s)
      else case handleInTx turns e admin_context F collate load event s of
             Inl err \<Rightarrow> (Inl (rollback e err), s)
           | Inr (v, s') \<Rightarrow>
               (case commit e of
                  Committed \<Rightarrow> (Inr v, s')
                | CommitFailed \<Rightarrow> (Inl (Wrapped ''committing analytics projection transaction'' ConnFailure), s)
                | CommitUnacked \<Rightarrow> (Inl (Wrapped ''committing analytics projection transaction'' ConnFailure), s')))"

end
