(* ===== verification/Projection.thy ===== *)
theory Projection
  imports Analytics Sample
begin

text \<open>
  What the projector computes: after a rebuild the metric tables hold, for every day of the range, exactly the
  rows that the operational tables determine (\<open>dayRows\<close>), and what they held for other days and locations.
\<close>

section \<open>The rows a day should have\<close>

definition viewRow ::
  "env \<Rightarrow> ctx \<Rightarrow> floats \<Rightarrow> uuid \<Rightarrow> uuid \<Rightarrow> adb \<Rightarrow> string \<Rightarrow> uuid \<Rightarrow> uuid option \<Rightarrow> int option \<Rightarrow> int \<Rightarrow> int \<Rightarrow> MetricRow" where
  "viewRow e c F org loc s scope i groupID day start stop =
     metricRow e org loc groupID day start stop (windowMetric e c F org loc i scope start stop stop (core (shared s)))"

definition tableIds :: "env \<Rightarrow> ctx \<Rightarrow> (string \<Rightarrow> int) \<Rightarrow> uuid \<Rightarrow> uuid \<Rightarrow> adb \<Rightarrow> uuid list" where
  "tableIds e c collate org loc s =
     map t_id (sort_key (\<lambda>t. collate (t_label t)) (activeTables e c org loc (core (shared s))))"

definition groupIds :: "env \<Rightarrow> ctx \<Rightarrow> uuid \<Rightarrow> uuid \<Rightarrow> adb \<Rightarrow> (Table \<Rightarrow> uuid) \<Rightarrow> uuid list" where
  "groupIds e c org loc s key = sort (remdups (map key (activeTables e c org loc (core (shared s)))))"

definition periodRows :: "env \<Rightarrow> ctx \<Rightarrow> floats \<Rightarrow> uuid \<Rightarrow> uuid \<Rightarrow> tz \<Rightarrow> adb \<Rightarrow> int \<Rightarrow> ServicePeriod \<Rightarrow> MetricRow list" where
  "periodRows e c F org loc z s d p =
     (case ServicePeriodWindowForDate (goDate d 0 z) z (sp_days_of_week p) (Some (sp_start_time p)) (Some (sp_end_time p)) of
        Inr (Some w) \<Rightarrow>
          [viewRow e c F org loc s ''location'' uuid_Nil (Some (sp_id p)) (Some d) (instant (pw_Start w)) (instant (pw_End w))]
      | _ \<Rightarrow> [])"

definition dayRows ::
  "env \<Rightarrow> ctx \<Rightarrow> floats \<Rightarrow> (string \<Rightarrow> int) \<Rightarrow> uuid \<Rightarrow> uuid \<Rightarrow> tz \<Rightarrow> adb \<Rightarrow> metric_table \<Rightarrow> int \<Rightarrow> MetricRow list" where
  "dayRows e c F collate org loc z s p d =
     (let a = instantOf z d 0; b = instantOf z (d + 1) 0
      in case p of
           DailyLocation \<Rightarrow> [viewRow e c F org loc s ''location'' uuid_Nil None (Some d) a b]
         | DailyFloor \<Rightarrow> map (\<lambda>i. viewRow e c F org loc s GroupByFloor i (Some i) (Some d) a b) (groupIds e c org loc s t_floor)
         | DailyZone \<Rightarrow> map (\<lambda>i. viewRow e c F org loc s GroupByZone i (Some i) (Some d) a b) (groupIds e c org loc s t_zone)
         | DailyTable \<Rightarrow> map (\<lambda>i. viewRow e c F org loc s ''table'' i (Some i) (Some d) a b) (tableIds e c collate org loc s)
         | HourlyTable \<Rightarrow>
             concat (map (\<lambda>(h, k). map (\<lambda>i. viewRow e c F org loc s ''table'' i (Some i) None h k) (tableIds e c collate org loc s))
                       (hoursUntil a b))
         | PeriodMetrics \<Rightarrow>
             concat (map (periodRows e c F org loc z s d) (ListActiveServicePeriodsByLocation e c collate org loc s)))"

text \<open>The rows of a location that belong to the days from \<open>d\<close> until \<open>d'\<close>.\<close>

definition rangeRow :: "uuid \<Rightarrow> uuid \<Rightarrow> tz \<Rightarrow> int \<Rightarrow> int \<Rightarrow> metric_table \<Rightarrow> MetricRow \<Rightarrow> bool" where
  "rangeRow org loc z d d' p r \<longleftrightarrow>
     mr_org r = org \<and> mr_loc r = loc \<and>
     (if p = HourlyTable then pgTime (instantOf z d 0) \<le> mr_start r \<and> mr_start r < pgTime (instantOf z d' 0)
      else case mr_date r of None \<Rightarrow> False | Some k \<Rightarrow> d \<le> k \<and> k < d')"

definition projected ::
  "env \<Rightarrow> ctx \<Rightarrow> floats \<Rightarrow> (string \<Rightarrow> int) \<Rightarrow> uuid \<Rightarrow> uuid \<Rightarrow> tz \<Rightarrow> adb \<Rightarrow> int \<Rightarrow> int \<Rightarrow>
     (metric_table \<Rightarrow> MetricRow list) \<Rightarrow> metric_table \<Rightarrow> MetricRow list" where
  "projected e c F collate org loc z s d d' g p =
     filter (\<lambda>r. \<not> rangeRow org loc z d d' p r) (g p) @ concat (map (dayRows e c F collate org loc z s p) [d..d' - 1])"


section \<open>Integrity\<close>

text \<open>The rounding of the floating-point unit keeps the order and zero.\<close>

definition rounding :: "(rat \<Rightarrow> rat) \<Rightarrow> bool" where
  "rounding f \<longleftrightarrow> mono f \<and> f 0 = 0"

definition layoutOk :: "adb \<Rightarrow> bool" where
  "layoutOk s \<longleftrightarrow>
     distinct (map t_id (tables (core (shared s)))) \<and>
     (\<forall>t \<in> set (tables (core (shared s))). \<exists>x \<in> set (zones s).
        z_id x = t_zone t \<and> z_org x = t_org t \<and> z_loc x = t_loc t \<and> z_floor x = t_floor t) \<and>
     (\<forall>x \<in> set (zones s). \<exists>f \<in> set (floors s). f_id f = z_floor x \<and> f_org f = z_org x \<and> f_loc f = z_loc x) \<and>
     distinct (map sp_id (service_periods s)) \<and>
     (\<forall>p \<in> set (service_periods s).
        0 \<le> sp_start_time p \<and> sp_start_time p < 86400000000 \<and> 0 \<le> sp_end_time p \<and> sp_end_time p < 86400000000)"

text \<open>The world in which a projection of the location goes through.\<close>

definition projectable :: "env \<Rightarrow> ctx \<Rightarrow> floats \<Rightarrow> (string \<Rightarrow> tz option) \<Rightarrow> uuid \<Rightarrow> uuid \<Rightarrow> tz \<Rightarrow> adb \<Rightarrow> bool" where
  "projectable e c F load org loc z s \<longleftrightarrow>
     (\<forall>site. \<not> fault e site) \<and> visible e c org loc \<and> rounding (fl F) \<and> layoutOk s \<and>
     (\<exists>l. GetLocation e c loc org (core (shared s)) = Inr l \<and> load (l_timezone l) = Some z)"

lemma projectable_no_fault [simp]: "projectable e c F load org loc z s \<Longrightarrow> \<not> fault e site"
  by (simp add: projectable_def)

lemma projectable_metrics [simp]:
  "projectable e c F load org loc z (s\<lparr>metrics := g\<rparr>) = projectable e c F load org loc z s"
  "projectable e c F load org loc z (s\<lparr>checkpoints := ks\<rparr>) = projectable e c F load org loc z s"
  by (simp_all add: projectable_def layoutOk_def)

lemma view_metrics [simp]:
  "viewRow e c F org loc (s\<lparr>metrics := g\<rparr>) = viewRow e c F org loc s"
  "viewRow e c F org loc (s\<lparr>checkpoints := ks\<rparr>) = viewRow e c F org loc s"
  "tableIds e c collate org loc (s\<lparr>metrics := g\<rparr>) = tableIds e c collate org loc s"
  "tableIds e c collate org loc (s\<lparr>checkpoints := ks\<rparr>) = tableIds e c collate org loc s"
  "groupIds e c org loc (s\<lparr>metrics := g\<rparr>) = groupIds e c org loc s"
  "groupIds e c org loc (s\<lparr>checkpoints := ks\<rparr>) = groupIds e c org loc s"
  "ListActiveServicePeriodsByLocation e c collate org loc (s\<lparr>metrics := g\<rparr>) = ListActiveServicePeriodsByLocation e c collate org loc s"
  "ListActiveServicePeriodsByLocation e c collate org loc (s\<lparr>checkpoints := ks\<rparr>) = ListActiveServicePeriodsByLocation e c collate org loc s"
  by (simp_all add: viewRow_def [abs_def] tableIds_def groupIds_def [abs_def] ListActiveServicePeriodsByLocation_def)

lemma periodRows_metrics [simp]:
  "periodRows e c F org loc z (s\<lparr>metrics := g\<rparr>) = periodRows e c F org loc z s"
  "periodRows e c F org loc z (s\<lparr>checkpoints := ks\<rparr>) = periodRows e c F org loc z s"
  by (intro ext; simp add: periodRows_def split: sum.splits option.splits)+

lemma dayRows_metrics [simp]:
  "dayRows e c F collate org loc z (s\<lparr>metrics := g\<rparr>) p = dayRows e c F collate org loc z s p"
  "dayRows e c F collate org loc z (s\<lparr>checkpoints := ks\<rparr>) p = dayRows e c F collate org loc z s p"
  by (intro ext; cases p; simp add: dayRows_def)+


section \<open>Inserting rows\<close>

definition addRows :: "metric_table \<Rightarrow> MetricRow list \<Rightarrow> (metric_table \<Rightarrow> MetricRow list) \<Rightarrow> metric_table \<Rightarrow> MetricRow list" where
  "addRows p rs g = g(p := g p @ rs)"

definition fresh :: "metric_table \<Rightarrow> MetricRow list \<Rightarrow> (metric_table \<Rightarrow> MetricRow list) \<Rightarrow> bool" where
  "fresh p rs g \<longleftrightarrow> distinct (map (metricsKey p) rs) \<and> metricsKey p ` set rs \<inter> metricsKey p ` set (g p) = {}"

lemma addRows_nil [simp]: "addRows p [] g = g"
  by (simp add: addRows_def)

lemma addRows_append: "addRows p ys (addRows p xs g) = addRows p (xs @ ys) g"
  by (simp add: addRows_def)

lemma addRows_apply: "addRows p rs g q = (if q = p then g p @ rs else g q)"
  by (simp add: addRows_def)

lemma fresh_append: "fresh p (xs @ ys) g \<longleftrightarrow> fresh p xs g \<and> fresh p ys (addRows p xs g)"
  by (auto simp: fresh_def addRows_def)

lemma fresh_other: "p \<noteq> q \<Longrightarrow> fresh p rs (addRows q xs g) = fresh p rs g"
  by (simp add: fresh_def addRows_def)

lemma metricRefers_metrics [simp]: "metricRefers p r (s\<lparr>metrics := g\<rparr>) = metricRefers p r s"
  by (simp add: metricRefers_def split: metric_table.splits option.splits)

definition goodRow :: "env \<Rightarrow> ctx \<Rightarrow> adb \<Rightarrow> metric_table \<Rightarrow> MetricRow \<Rightarrow> bool" where
  "goodRow e c s p r \<longleftrightarrow> visible e c (mr_org r) (mr_loc r) \<and> metricCheck p r \<and> metricRefers p r s"

lemma insertMetric_fresh:
  assumes "goodRow e c s p r" and "fresh p [r] g"
  shows "insertMetric e c p r (s\<lparr>metrics := g\<rparr>) = Inr ((), s\<lparr>metrics := addRows p [r] g\<rparr>)"
proof -
  have "firstViolation [(visible e c (mr_org r) (mr_loc r), ''42501''), (metricCheck p r, ''23514''), (metricRefers p r s, ''23503'')] = None"
    using assms(1) by (simp add: firstViolation_None goodRow_def)
  moreover have "\<forall>x \<in> set (g p). metricsKey p x \<noteq> metricsKey p r" using assms(2) unfolding fresh_def by simp (metis imageI)
  ultimately have "insertRow (\<lambda>x y. metricsKey p x = metricsKey p y)
      (firstViolation [(visible e c (mr_org r) (mr_loc r), ''42501''), (metricCheck p r, ''23514''), (metricRefers p r s, ''23503'')])
      r (g p) = Inr (r, g p @ [r])"
    by (simp add: insertRow_Inr)
  then show ?thesis by (simp add: insertMetric_def setMetrics_def addRows_def)
qed

lemma eachTx_rows:
  assumes "\<And>i g. i \<in> set ids \<Longrightarrow> fresh p (rows i) g \<Longrightarrow> f i (s\<lparr>metrics := g\<rparr>) = Inr ((), s\<lparr>metrics := addRows p (rows i) g\<rparr>)"
    and "fresh p (concat (map rows ids)) g"
  shows "eachTx f ids (s\<lparr>metrics := g\<rparr>) = Inr ((), s\<lparr>metrics := addRows p (concat (map rows ids)) g\<rparr>)"
  using assms
proof (induction ids arbitrary: g)
  case Nil
  then show ?case by simp
next
  case (Cons i ids)
  have fr: "fresh p (rows i) g" "fresh p (concat (map rows ids)) (addRows p (rows i) g)"
    using Cons.prems(2) by (simp_all add: fresh_append)
  have "f i (s\<lparr>metrics := g\<rparr>) = Inr ((), s\<lparr>metrics := addRows p (rows i) g\<rparr>)" using fr(1) by (intro Cons.prems(1)) simp_all
  moreover have "eachTx f ids (s\<lparr>metrics := addRows p (rows i) g\<rparr>) =
      Inr ((), s\<lparr>metrics := addRows p (concat (map rows ids)) (addRows p (rows i) g)\<rparr>)"
    using Cons.prems(1) fr(2) by (intro Cons.IH) simp_all
  ultimately show ?case by (simp add: addRows_append)
qed

section \<open>Every row is accepted\<close>

lemma hoursUntil_bounds:
  "(h, k) \<in> set (hoursUntil a b) \<Longrightarrow>
     a \<le> h \<and> h < k \<and> k \<le> b \<and> (second dvd a \<longrightarrow> second dvd b \<longrightarrow> second dvd h \<and> second dvd k)"
proof (induction a b rule: hoursUntil.induct)
  case (1 a b)
  have hour: "0 < hourNanos" "second dvd hourNanos" by (simp_all add: hourNanos_def second_def)
  show ?case
  proof (cases "a < b")
    case True
    with "1.prems" consider "h = a" "k = min (a + hourNanos) b" | "(h, k) \<in> set (hoursUntil (a + hourNanos) b)"
      by (auto simp: hoursUntil.simps [of a b])
    then show ?thesis
    proof cases
      case 1
      then show ?thesis using True hour by (auto simp: min_def)
    next
      case 2
      then show ?thesis using "1.IH" [OF True 2] hour by auto
    qed
  next
    case False
    with "1.prems" show ?thesis by (simp add: hoursUntil.simps [of a b])
  qed
qed

lemma hoursUntil_distinct: "distinct (map fst (hoursUntil a b))"
proof (induction a b rule: hoursUntil.induct)
  case (1 a b)
  have "0 < hourNanos" by (simp add: hourNanos_def second_def)
  then have "a \<notin> fst ` set (hoursUntil (a + hourNanos) b)"
    using hoursUntil_bounds [of _ _ "a + hourNanos" b] by fastforce
  then show ?case using 1 by (simp add: hoursUntil.simps [of a b])
qed

lemma thousand_dvd: "second dvd n \<Longrightarrow> 1000 dvd n"
  by (erule dvd_trans [rotated]) (simp add: second_def)

lemma pgTime_less: "1000 dvd a \<Longrightarrow> 1000 dvd b \<Longrightarrow> pgTime a < pgTime b \<longleftrightarrow> a < b"
  by (auto simp: pgTime_def)

lemma pgTime_mono: "a \<le> b \<Longrightarrow> pgTime a \<le> pgTime b"
  by (simp add: pgTime_def zdiv_mono1)

lemma rounding_nonneg: "rounding f \<Longrightarrow> 0 \<le> x \<Longrightarrow> 0 \<le> f x"
  by (metis rounding_def monoD)

lemma sessionOverlap_nonneg: "0 \<le> sessionOverlap a b asOf xs"
  unfolding sessionOverlap_def by (rule sum_list_nonneg) auto

lemma windowQuery_nonneg:
  assumes r: "rounding (fl F)" and "start \<le> stop"
  shows "nonNegative (windowQuery e c F org loc i scope start stop asOf s)"
proof -
  have "0 \<le> epochOf (stop - start)" using assms(2) by (simp add: epochOf_def)
  then show ?thesis
    unfolding nonNegative_def windowQuery_def Let_def
    by (simp add: rounding_nonneg [OF r] sessionOverlap_nonneg)
qed

lemma FinalizeMetric_nonneg: "rounding f \<Longrightarrow> nonNegative m \<Longrightarrow> nonNegative (FinalizeMetric f m)"
  by (simp add: nonNegative_def FinalizeMetric_def Let_def rounding_nonneg)

lemma windowMetric_nonneg:
  "rounding (fl F) \<Longrightarrow> start \<le> stop \<Longrightarrow> nonNegative (windowMetric e c F org loc i scope start stop asOf s)"
  unfolding windowMetric_def by (intro FinalizeMetric_nonneg windowQuery_nonneg pgTime_mono)

lemma viewRow_simps [simp]:
  "mr_org (viewRow e c F org loc s scope i g d a b) = org" "mr_loc (viewRow e c F org loc s scope i g d a b) = loc"
  "mr_group (viewRow e c F org loc s scope i g d a b) = g" "mr_date (viewRow e c F org loc s scope i g d a b) = d"
  "mr_start (viewRow e c F org loc s scope i g d a b) = pgTime a" "mr_end (viewRow e c F org loc s scope i g d a b) = pgTime b"
  "mr_metric (viewRow e c F org loc s scope i g d a b) = windowMetric e c F org loc i scope a b b (core (shared s))"
  by (simp_all add: viewRow_def metricRow_def)

lemma goodRow_view:
  assumes ok: "projectable e c F load org loc z s" and w: "a < b" "1000 dvd a" "1000 dvd b"
    and refs: "metricRefers p (viewRow e c F org loc s scope i g d a b) s"
  shows "goodRow e c s p (viewRow e c F org loc s scope i g d a b)"
proof -
  have "rounding (fl F)" "visible e c org loc" using ok by (simp_all add: projectable_def)
  then show ?thesis
    using windowMetric_nonneg [of F a b e c org loc i scope b "core (shared s)"] w refs
    by (simp add: goodRow_def metricCheck_def pgTime_less)
qed

lemma periodRowsE:
  assumes "r \<in> set (periodRows e c F org loc z s d q)"
  obtains w where "ServicePeriodWindowForDate (goDate d 0 z) z (sp_days_of_week q) (Some (sp_start_time q)) (Some (sp_end_time q)) = Inr (Some w)"
    and "r = viewRow e c F org loc s ''location'' uuid_Nil (Some (sp_id q)) (Some d) (instant (pw_Start w)) (instant (pw_End w))"
  using assms unfolding periodRows_def
  by (cases "ServicePeriodWindowForDate (goDate d 0 z) z (sp_days_of_week q) (Some (sp_start_time q)) (Some (sp_end_time q))")
    (auto split: option.splits)

text \<open>What the rows refer to exists.\<close>

lemma refers_tables:
  "i \<in> set (tableIds e c collate org loc s) \<Longrightarrow> tableExists (core (shared s)) i org loc"
  by (auto simp: tableIds_def activeTables_def tableExists_def)

lemma refers_zones:
  assumes "layoutOk s" and "i \<in> set (groupIds e c org loc s t_zone)"
  shows "i \<in> z_id ` set (zones s)"
proof -
  obtain t where t: "t \<in> set (tables (core (shared s)))" "t_zone t = i"
    using assms(2) by (auto simp: groupIds_def activeTables_def)
  with assms(1) obtain x where "x \<in> set (zones s)" "z_id x = i" unfolding layoutOk_def by blast
  then show ?thesis by blast
qed

lemma refers_floors:
  assumes "layoutOk s" and "i \<in> set (groupIds e c org loc s t_floor)"
  shows "\<exists>f \<in> set (floors s). f_id f = i \<and> f_org f = org \<and> f_loc f = loc"
proof -
  obtain t where t: "t \<in> set (tables (core (shared s)))" "t_floor t = i" "t_org t = org" "t_loc t = loc"
    using assms(2) by (auto simp: groupIds_def activeTables_def)
  with assms(1) obtain x where "x \<in> set (zones s)" "z_org x = org" "z_loc x = loc" "z_floor x = i"
    unfolding layoutOk_def by blast
  with assms(1) show ?thesis unfolding layoutOk_def by blast
qed

lemma refers_location:
  "projectable e c F load org loc z s \<Longrightarrow> locationExists (core (shared s)) org loc"
  by (auto simp: projectable_def GetLocation_def row_simps locationExists_def dest!: find_SomeD)

lemma refers_periods:
  "p \<in> set (ListActiveServicePeriodsByLocation e c collate org loc s) \<Longrightarrow> p \<in> set (service_periods s)"
  by (simp add: ListActiveServicePeriodsByLocation_def)


section \<open>The keys of the rows of a day\<close>

lemma distinct_tableIds: "layoutOk s \<Longrightarrow> distinct (tableIds e c collate org loc s)"
  by (auto simp: layoutOk_def tableIds_def activeTables_def distinct_map intro: inj_on_subset)

lemma distinct_groupIds: "distinct (groupIds e c org loc s key)"
  by (simp add: groupIds_def)

lemma distinct_periods:
  "layoutOk s \<Longrightarrow> distinct (map sp_id (ListActiveServicePeriodsByLocation e c collate org loc s))"
  by (auto simp: layoutOk_def ListActiveServicePeriodsByLocation_def distinct_map intro: inj_on_subset)

lemma distinct_product:
  assumes "distinct ids" and "distinct (map g hs)"
  shows "distinct (concat (map (\<lambda>h. map (\<lambda>i. (org, loc, Some i, Some (g h))) ids) hs))"
  using assms(2)
proof (induction hs)
  case (Cons h hs)
  then show ?case using assms(1) by (auto simp: distinct_map inj_on_def)
qed simp

lemma distinct_optional:
  assumes "distinct (map k ps)" and "\<And>p. p \<in> set ps \<Longrightarrow> f p = [] \<or> f p = [key (k p)]" and "inj key"
  shows "distinct (concat (map f ps))"
  using assms(1,2)
proof (induction ps)
  case (Cons p ps)
  have "key (k p) \<notin> \<Union> (set ` f ` set ps)"
  proof
    assume "key (k p) \<in> \<Union> (set ` f ` set ps)"
    then obtain q where q: "q \<in> set ps" "key (k p) \<in> set (f q)" by auto
    then have "f q = [key (k q)]" using Cons.prems(2) [of q] by auto
    then have "k p = k q" using q(2) assms(3) by (simp add: inj_eq)
    then show False using q(1) Cons.prems(1) by auto
  qed
  moreover have "f p = [] \<or> f p = [key (k p)]" by (rule Cons.prems(2)) simp
  moreover have "distinct (concat (map f ps))" using Cons by simp
  ultimately show ?case by auto
qed simp

context daily_zone
begin

lemma inZone_midnight [simp]: "inZone (goDate d 0 z) z = goDate d 0 z"
  by (simp add: inZone_def goDate_def)

lemma thousandths:
  assumes "1000 dvd n"
  shows "1000 dvd instantOf z d n" and "1000 dvd snd (civil z (instantOf z d n))"
  using dvd_add [OF thousand_dvd [OF whole [of d n]] assms] dvd_add [OF thousand_dvd [OF whole_clock [of d n]] assms] by simp_all

lemma midnight_thousand: "1000 dvd instantOf z d 0"
  by (rule thousandths) simp

lemma period_window:
  assumes "layoutOk s" and "p \<in> set (service_periods s)"
    and "ServicePeriodWindowForDate (goDate d 0 z) z (sp_days_of_week p) (Some (sp_start_time p)) (Some (sp_end_time p)) = Inr (Some w)"
  shows "instant (pw_Start w) < instant (pw_End w) \<and> 1000 dvd instant (pw_Start w) \<and> 1000 dvd instant (pw_End w)"
proof -
  have b: "0 \<le> sp_start_time p" "sp_start_time p < 86400000000" "0 \<le> sp_end_time p" "sp_end_time p < 86400000000"
    using assms(1,2) by (auto simp: layoutOk_def)
  note w = service_window [OF assms(3) b]
  show ?thesis using w(2) by (auto simp: w(1,5) thousandths)
qed

lemma dayRow_range:
  "visible e c org loc \<Longrightarrow> dayRow e c org loc (goDate d 0 z) p r = rangeRow org loc z d (d + 1) p r"
  by (auto simp: dayRow_def rangeRow_def pgDate_def split: option.splits)

lemma hour_window:
  assumes "(h, k) \<in> set (hoursUntil (instantOf z d 0) (instantOf z (d + 1) 0))"
  shows "h < k \<and> 1000 dvd h \<and> 1000 dvd k \<and> pgTime (instantOf z d 0) \<le> pgTime h \<and> pgTime h < pgTime (instantOf z (d + 1) 0)"
proof -
  have b: "instantOf z d 0 \<le> h" "h < k" "k \<le> instantOf z (d + 1) 0" "second dvd h" "second dvd k"
    using hoursUntil_bounds [OF assms] full_second by auto
  then have "1000 dvd h" "1000 dvd k" by (simp_all add: thousand_dvd)
  then show ?thesis using b by (auto simp: pgTime_less midnight_thousand pgTime_mono)
qed

lemma dayRows_good:
  assumes ok: "projectable e c F load org loc z s" and r: "r \<in> set (dayRows e c F collate org loc z s p d)"
  shows "goodRow e c s p r" and "rangeRow org loc z d (d + 1) p r"
proof -
  have l: "layoutOk s" using ok by (simp add: projectable_def)
  note good = goodRow_view [OF ok] and mid = midnight_thousand forward
  have "goodRow e c s p r \<and> rangeRow org loc z d (d + 1) p r"
  proof (cases p)
    case HourlyTable
    with r obtain h k i where r: "(h, k) \<in> set (hoursUntil (instantOf z d 0) (instantOf z (d + 1) 0))"
      "i \<in> set (tableIds e c collate org loc s)" "r = viewRow e c F org loc s ''table'' i (Some i) None h k"
      by (auto simp: dayRows_def Let_def)
    then show ?thesis using HourlyTable hour_window [OF r(1)]
      by (auto simp: rangeRow_def intro!: good) (simp add: metricRefers_def refers_tables)
  next
    case DailyTable
    with r obtain i where "i \<in> set (tableIds e c collate org loc s)"
      "r = viewRow e c F org loc s ''table'' i (Some i) (Some d) (instantOf z d 0) (instantOf z (d + 1) 0)"
      by (auto simp: dayRows_def Let_def)
    then show ?thesis using DailyTable by (auto simp: rangeRow_def intro!: good mid) (simp add: metricRefers_def refers_tables)
  next
    case DailyZone
    with r obtain i where "i \<in> set (groupIds e c org loc s t_zone)"
      "r = viewRow e c F org loc s GroupByZone i (Some i) (Some d) (instantOf z d 0) (instantOf z (d + 1) 0)"
      by (auto simp: dayRows_def Let_def)
    then show ?thesis using DailyZone refers_zones [OF l] by (auto simp: rangeRow_def metricRefers_def intro!: good mid)
  next
    case DailyFloor
    with r obtain i where "i \<in> set (groupIds e c org loc s t_floor)"
      "r = viewRow e c F org loc s GroupByFloor i (Some i) (Some d) (instantOf z d 0) (instantOf z (d + 1) 0)"
      by (auto simp: dayRows_def Let_def)
    then show ?thesis using DailyFloor refers_floors [OF l] by (auto simp: rangeRow_def metricRefers_def intro!: good mid)
  next
    case DailyLocation
    with r have "r = viewRow e c F org loc s ''location'' uuid_Nil None (Some d) (instantOf z d 0) (instantOf z (d + 1) 0)"
      by (simp add: dayRows_def Let_def)
    then show ?thesis using DailyLocation refers_location [OF ok] by (auto simp: rangeRow_def metricRefers_def intro!: good mid)
  next
    case PeriodMetrics
    with r obtain q where q: "q \<in> set (service_periods s)" "r \<in> set (periodRows e c F org loc z s d q)"
      by (auto simp: dayRows_def Let_def dest: refers_periods)
    from q(2) obtain w where w: "ServicePeriodWindowForDate (goDate d 0 z) z (sp_days_of_week q) (Some (sp_start_time q)) (Some (sp_end_time q)) = Inr (Some w)"
      "r = viewRow e c F org loc s ''location'' uuid_Nil (Some (sp_id q)) (Some d) (instant (pw_Start w)) (instant (pw_End w))"
      by (rule periodRowsE)
    then show ?thesis using PeriodMetrics q(1) period_window [OF l q(1) w(1)]
      by (auto simp: rangeRow_def metricRefers_def intro!: good)
  qed
  then show "goodRow e c s p r" "rangeRow org loc z d (d + 1) p r" by simp_all
qed

lemma dayRows_distinct:
  assumes l: "layoutOk s"
  shows "distinct (map (metricsKey p) (dayRows e c F collate org loc z s p d))"
proof (cases p)
  case HourlyTable
  let ?hs = "hoursUntil (instantOf z d 0) (instantOf z (d + 1) 0)"
  have "inj_on pgTime (fst ` set ?hs)"
  proof (rule inj_onI)
    fix x y
    assume "x \<in> fst ` set ?hs" "y \<in> fst ` set ?hs" "pgTime x = pgTime y"
    then have "1000 dvd x" "1000 dvd y" using hour_window [of _ _ d] by auto
    then show "x = y" using \<open>pgTime x = pgTime y\<close> by (auto simp: pgTime_def)
  qed
  then have "distinct (map (\<lambda>x. pgTime (fst x)) ?hs)"
    using hoursUntil_distinct [of "instantOf z d 0" "instantOf z (d + 1) 0"]
    by (simp add: distinct_map inj_on_def comp_def)
  from distinct_product [OF distinct_tableIds [OF l] this]
  show ?thesis using HourlyTable
    by (simp add: dayRows_def Let_def map_concat comp_def metricsKey_def case_prod_beta)
next
  case PeriodMetrics
  have "distinct (concat (map (\<lambda>q. map (metricsKey p) (periodRows e c F org loc z s d q))
      (ListActiveServicePeriodsByLocation e c collate org loc s)))"
    by (rule distinct_optional [OF distinct_periods [OF l], where key = "\<lambda>i. (org, loc, Some i, Some d)"])
      (auto simp: periodRows_def PeriodMetrics metricsKey_def inj_def split: sum.splits option.splits)
  then show ?thesis using PeriodMetrics by (simp add: dayRows_def Let_def map_concat comp_def)
qed (use distinct_tableIds [OF l] distinct_groupIds in
  \<open>auto simp: dayRows_def Let_def comp_def metricsKey_def distinct_map inj_on_def\<close>)

lemma key_range: "metricsKey p x = metricsKey p y \<Longrightarrow> rangeRow org loc z d d' p x = rangeRow org loc z d d' p y"
  by (auto simp: metricsKey_def rangeRow_def split: if_splits)

lemma dayRows_fresh:
  assumes "projectable e c F load org loc z s" and "\<And>r. r \<in> set (g p) \<Longrightarrow> \<not> rangeRow org loc z d (d + 1) p r"
  shows "fresh p (dayRows e c F collate org loc z s p d) g"
proof -
  have "metricsKey p x \<noteq> metricsKey p y" if "x \<in> set (dayRows e c F collate org loc z s p d)" "y \<in> set (g p)" for x y
    using dayRows_good(2) [OF assms(1) that(1)] assms(2) [OF that(2)] key_range [of p x y org loc d "d + 1"] by metis
  then have "metricsKey p ` set (dayRows e c F collate org loc z s p d) \<inter> metricsKey p ` set (g p) = {}" by blast
  moreover have "layoutOk s" using assms(1) by (simp add: projectable_def)
  ultimately show ?thesis using dayRows_distinct [of s p e c F collate org loc d] by (simp add: fresh_def)
qed

end

section \<open>The steps of the code add these rows\<close>

lemma txBind_step: "m s = Inr (x, s') \<Longrightarrow> f x s' = r \<Longrightarrow> txBind m f s = r"
  by (simp add: txBind_def)

lemma calculate_view:
  "projectable e c F load org loc z s \<Longrightarrow>
     calculateWindowMetric e c F org loc i scope a b b' (s\<lparr>metrics := g\<rparr>) =
       Inr (windowMetric e c F org loc i scope a b b' (core (shared s)), s\<lparr>metrics := g\<rparr>)"
  by (simp add: calculateWindowMetric_def onShared_def)

lemma insert_view:
  assumes ok: "projectable e c F load org loc z s"
    and "goodRow e c s p (viewRow e c F org loc s scope i gr day a b)" and "fresh p [viewRow e c F org loc s scope i gr day a b] g"
  shows "txBind (calculateWindowMetric e c F org loc i scope a b b)
      (\<lambda>metric. runQuery e site None (insertMetric e c p (metricRow e org loc gr day a b metric))) (s\<lparr>metrics := g\<rparr>) =
    Inr ((), s\<lparr>metrics := addRows p [viewRow e c F org loc s scope i gr day a b] g\<rparr>)"
  using insertMetric_fresh [OF assms(2,3)] ok by (simp add: calculate_view [OF ok] viewRow_def)

context daily_zone
begin

lemma pgDate_midnight [simp]: "pgDate (goDate d 0 z) = d"
  by (simp add: pgDate_def)

lemma projectLocation_day:
  assumes ok: "projectable e c F load org loc z s" and fr: "fresh DailyLocation (dayRows e c F collate org loc z s DailyLocation d) g"
  shows "projectLocation e c F org loc (goDate d 0 z) (instantOf z d 0) (instantOf z (d + 1) 0) (s\<lparr>metrics := g\<rparr>) =
    Inr ((), s\<lparr>metrics := addRows DailyLocation (dayRows e c F collate org loc z s DailyLocation d) g\<rparr>)"
  using insert_view [OF ok dayRows_good(1) [OF ok, of _ collate]] fr by (simp add: projectLocation_def dayRows_def Let_def)

lemma projectGrouped_day:
  assumes ok: "projectable e c F load org loc z s"
    and grouping: "gb = GroupByFloor \<and> p = DailyFloor \<or> gb = GroupByZone \<and> p = DailyZone"
    and fr: "fresh p (dayRows e c F collate org loc z s p d) g"
  shows "projectGrouped e c F org loc (goDate d 0 z) (instantOf z d 0) (instantOf z (d + 1) 0) gb (s\<lparr>metrics := g\<rparr>) =
    Inr ((), s\<lparr>metrics := addRows p (dayRows e c F collate org loc z s p d) g\<rparr>)"
proof -
  let ?key = "if gb = GroupByZone then t_zone else t_floor"
  let ?row = "\<lambda>i. viewRow e c F org loc s gb i (Some i) (Some d) (instantOf z d 0) (instantOf z (d + 1) 0)"
  let ?ids = "groupIds e c org loc s ?key"
  have ne: "GroupByFloor \<noteq> GroupByZone" by (simp add: GroupByFloor_def GroupByZone_def)
  have rows: "dayRows e c F collate org loc z s p d = concat (map (\<lambda>i. [?row i]) ?ids)"
    using grouping ne by (auto simp: dayRows_def Let_def)
  have each: "eachTx (\<lambda>i. txBind (calculateWindowMetric e c F org loc i gb (instantOf z d 0) (instantOf z (d + 1) 0) (instantOf z (d + 1) 0))
      (\<lambda>metric. runQuery e ''inserting grouped analytics metric'' None
        (insertMetric e c p (metricRow e org loc (Some i) (Some d) (instantOf z d 0) (instantOf z (d + 1) 0) metric)))) ?ids (s\<lparr>metrics := g\<rparr>) =
    Inr ((), s\<lparr>metrics := addRows p (concat (map (\<lambda>i. [?row i]) ?ids)) g\<rparr>)"
    using fr unfolding rows
    by (intro eachTx_rows insert_view [OF ok] dayRows_good(1) [OF ok, of _ collate p d]) (auto simp: rows)
  have unf: "projectGrouped e c F org loc (goDate d 0 z) (instantOf z d 0) (instantOf z (d + 1) 0) gb =
      txBind (runQuery e ''listing analytics groups'' None (onShared (\<lambda>s. Inr (sort (remdups (map ?key (activeTables e c org loc (core s))))))))
        (eachTx (\<lambda>i. txBind (calculateWindowMetric e c F org loc i gb (instantOf z d 0) (instantOf z (d + 1) 0) (instantOf z (d + 1) 0))
          (\<lambda>metric. runQuery e ''inserting grouped analytics metric'' None
            (insertMetric e c p (metricRow e org loc (Some i) (Some d) (instantOf z d 0) (instantOf z (d + 1) 0) metric)))))"
    using grouping ne by (auto simp: projectGrouped_def)
  have query: "runQuery e ''listing analytics groups'' None (onShared (\<lambda>s. Inr (sort (remdups (map ?key (activeTables e c org loc (core s)))))))
      (s\<lparr>metrics := g\<rparr>) = Inr (?ids, s\<lparr>metrics := g\<rparr>)"
    using ok by (simp add: onShared_def groupIds_def)
  show ?thesis unfolding unf rows by (rule txBind_step, rule query, rule each)
qed

lemma projectTables_rows:
  assumes ok: "projectable e c F load org loc z s"
    and grain: "grain = ''hour'' \<and> p = HourlyTable \<and> day = None \<or> grain = ''day'' \<and> p = DailyTable \<and> day = Some d"
    and rows: "rows = map (\<lambda>i. viewRow e c F org loc s ''table'' i (Some i) day a b) (tableIds e c collate org loc s)"
    and good: "\<And>r. r \<in> set rows \<Longrightarrow> goodRow e c s p r" and fr: "fresh p rows g"
  shows "projectTables e c F collate org loc (goDate d 0 z) a b grain (s\<lparr>metrics := g\<rparr>) = Inr ((), s\<lparr>metrics := addRows p rows g\<rparr>)"
proof -
  let ?row = "\<lambda>i. viewRow e c F org loc s ''table'' i (Some i) day a b"
  have rows': "rows = concat (map (\<lambda>i. [?row i]) (tableIds e c collate org loc s))" using rows by simp
  have each: "eachTx (\<lambda>i. txBind (calculateWindowMetric e c F org loc i ''table'' a b b)
      (\<lambda>metric. runQuery e ''inserting table analytics metric'' None (insertMetric e c p (metricRow e org loc (Some i) day a b metric))))
      (tableIds e c collate org loc s) (s\<lparr>metrics := g\<rparr>) = Inr ((), s\<lparr>metrics := addRows p rows g\<rparr>)"
    using fr good unfolding rows' by (intro eachTx_rows insert_view [OF ok]) (auto simp: rows)
  have unf: "projectTables e c F collate org loc (goDate d 0 z) a b grain =
      txBind (runQuery e ''listing analytics tables'' None
          (onShared (\<lambda>s. Inr (map t_id (sort_key (\<lambda>t. collate (t_label t)) (activeTables e c org loc (core s)))))))
        (eachTx (\<lambda>i. txBind (calculateWindowMetric e c F org loc i ''table'' a b b)
          (\<lambda>metric. runQuery e ''inserting table analytics metric'' None (insertMetric e c p (metricRow e org loc (Some i) day a b metric)))))"
    using grain by (auto simp: projectTables_def)
  have query: "runQuery e ''listing analytics tables'' None
      (onShared (\<lambda>s. Inr (map t_id (sort_key (\<lambda>t. collate (t_label t)) (activeTables e c org loc (core s)))))) (s\<lparr>metrics := g\<rparr>) =
      Inr (tableIds e c collate org loc s, s\<lparr>metrics := g\<rparr>)"
    using ok by (simp add: onShared_def tableIds_def)
  show ?thesis unfolding unf by (rule txBind_step, rule query, rule each)
qed

lemma projectTables_day:
  assumes ok: "projectable e c F load org loc z s" and fr: "fresh DailyTable (dayRows e c F collate org loc z s DailyTable d) g"
  shows "projectTables e c F collate org loc (goDate d 0 z) (instantOf z d 0) (instantOf z (d + 1) 0) ''day'' (s\<lparr>metrics := g\<rparr>) =
    Inr ((), s\<lparr>metrics := addRows DailyTable (dayRows e c F collate org loc z s DailyTable d) g\<rparr>)"
  by (rule projectTables_rows [OF ok, where day = "Some d"]) (use fr dayRows_good(1) [OF ok] in \<open>auto simp: dayRows_def Let_def\<close>)

lemma projectTables_hours:
  assumes ok: "projectable e c F load org loc z s" and fr: "fresh HourlyTable (dayRows e c F collate org loc z s HourlyTable d) g"
  shows "eachTx (\<lambda>(h, k). projectTables e c F collate org loc (goDate d 0 z) h k ''hour'')
      (hoursUntil (instantOf z d 0) (instantOf z (d + 1) 0)) (s\<lparr>metrics := g\<rparr>) =
    Inr ((), s\<lparr>metrics := addRows HourlyTable (dayRows e c F collate org loc z s HourlyTable d) g\<rparr>)"
proof -
  let ?rows = "\<lambda>(h, k). map (\<lambda>i. viewRow e c F org loc s ''table'' i (Some i) None h k) (tableIds e c collate org loc s)"
  let ?hs = "hoursUntil (instantOf z d 0) (instantOf z (d + 1) 0)"
  have rows: "dayRows e c F collate org loc z s HourlyTable d = concat (map ?rows ?hs)" by (simp add: dayRows_def Let_def)
  show ?thesis
    unfolding rows
  proof (rule eachTx_rows)
    show "fresh HourlyTable (concat (map ?rows ?hs)) g" using fr by (simp add: rows)
    fix i and g :: "metric_table \<Rightarrow> MetricRow list"
    assume i: "i \<in> set ?hs" and fr: "fresh HourlyTable (?rows i) g"
    obtain h k where hk: "i = (h, k)" by (cases i)
    have "goodRow e c s HourlyTable r" if "r \<in> set (?rows i)" for r
      using i that by (intro dayRows_good(1) [OF ok, of _ collate _ d]) (auto simp: rows)
    then show "(case i of (h, k) \<Rightarrow> projectTables e c F collate org loc (goDate d 0 z) h k ''hour'') (s\<lparr>metrics := g\<rparr>) =
        Inr ((), s\<lparr>metrics := addRows HourlyTable (?rows i) g\<rparr>)"
      using fr projectTables_rows [OF ok, of "''hour''" HourlyTable None d "?rows i" h k collate g] by (simp add: hk)
  qed
qed

lemma window_exists: "ServicePeriodWindowForDate date location days (Some a) (Some b) \<noteq> Inl u"
  by (simp add: ServicePeriodWindowForDate_def Let_def split: prod.splits)

lemma projectPeriods_day:
  assumes ok: "projectable e c F load org loc z s" and fr: "fresh PeriodMetrics (dayRows e c F collate org loc z s PeriodMetrics d) g"
  shows "eachTx (projectPeriod e c F org loc (goDate d 0 z) z) (ListActiveServicePeriodsByLocation e c collate org loc s) (s\<lparr>metrics := g\<rparr>) =
    Inr ((), s\<lparr>metrics := addRows PeriodMetrics (dayRows e c F collate org loc z s PeriodMetrics d) g\<rparr>)"
proof -
  let ?ps = "ListActiveServicePeriodsByLocation e c collate org loc s"
  have rows: "dayRows e c F collate org loc z s PeriodMetrics d = concat (map (periodRows e c F org loc z s d) ?ps)"
    by (simp add: dayRows_def Let_def)
  show ?thesis
    unfolding rows
  proof (rule eachTx_rows)
    show "fresh PeriodMetrics (concat (map (periodRows e c F org loc z s d) ?ps)) g" using fr by (simp add: rows)
    fix q and g :: "metric_table \<Rightarrow> MetricRow list"
    assume q: "q \<in> set ?ps" and fr: "fresh PeriodMetrics (periodRows e c F org loc z s d q) g"
    have good: "goodRow e c s PeriodMetrics r" if "r \<in> set (periodRows e c F org loc z s d q)" for r
      using q that by (intro dayRows_good(1) [OF ok, of _ collate _ d]) (auto simp: rows)
    show "projectPeriod e c F org loc (goDate d 0 z) z q (s\<lparr>metrics := g\<rparr>) =
        Inr ((), s\<lparr>metrics := addRows PeriodMetrics (periodRows e c F org loc z s d q) g\<rparr>)"
    proof (cases "ServicePeriodWindowForDate (goDate d 0 z) z (sp_days_of_week q) (Some (sp_start_time q)) (Some (sp_end_time q))")
      case (Inl u)
      then show ?thesis by (simp add: window_exists)
    next
      case (Inr w)
      show ?thesis
      proof (cases w)
        case None
        then show ?thesis by (simp add: projectPeriod_def periodRows_def Inr)
      next
        case (Some v)
        have r: "periodRows e c F org loc z s d q =
            [viewRow e c F org loc s ''location'' uuid_Nil (Some (sp_id q)) (Some d) (instant (pw_Start v)) (instant (pw_End v))]"
          by (simp add: periodRows_def Inr Some)
        show ?thesis
          using insert_view [OF ok good fr [unfolded r]] r
          by (simp add: projectPeriod_def insertServicePeriodMetric_def [abs_def] Inr Some)
      qed
    qed
  qed
qed

end

section \<open>A day, a range, an event\<close>

lemma getLocation_ok:
  "projectable e c F load org loc z s \<Longrightarrow>
     \<exists>l. getLocation e c site nr org loc (s\<lparr>metrics := g\<rparr>) = Inr (l, s\<lparr>metrics := g\<rparr>) \<and> loadZone load site' l = txReturn z"
  unfolding projectable_def by (auto simp: getLocation_def onShared_def loadZone_def)

lemma clear_step:
  "\<not> fault e site \<Longrightarrow> txBind (runQuery e site None (deleteDay e c org loc day p)) f s =
     f () (setMetrics p (filter (\<lambda>r. \<not> dayRow e c org loc day p r) (metrics s p)) s)"
  by (simp add: txBind_def runQuery_def deleteDay_def)

context daily_zone
begin

lemma projectDay_day:
  assumes ok: "projectable e c F load org loc z s" and fr: "\<And>p. fresh p (dayRows e c F collate org loc z s p d) g"
  shows "projectDay e c F collate load org loc (goDate d 0 z) (instantOf z d 0) (instantOf z (d + 1) 0) (s\<lparr>metrics := g\<rparr>) =
    Inr ((), s\<lparr>metrics := (\<lambda>p. g p @ dayRows e c F collate org loc z s p d)\<rparr>)"
proof -
  let ?R = "\<lambda>p. dayRows e c F collate org loc z s p d"
  let ?g1 = "addRows DailyLocation (?R DailyLocation) g"
  let ?g2 = "addRows DailyFloor (?R DailyFloor) ?g1"
  let ?g3 = "addRows DailyZone (?R DailyZone) ?g2"
  let ?g4 = "addRows DailyTable (?R DailyTable) ?g3"
  let ?g5 = "addRows HourlyTable (?R HourlyTable) ?g4"
  let ?g6 = "addRows PeriodMetrics (?R PeriodMetrics) ?g5"
  obtain l where l: "getLocation e c ''getting service period location'' None org loc (s\<lparr>metrics := ?g5\<rparr>) = Inr (l, s\<lparr>metrics := ?g5\<rparr>)"
    "loadZone load ''loading service period timezone'' l = txReturn z"
    using getLocation_ok [OF ok] by blast
  have 1: "projectLocation e c F org loc (goDate d 0 z) (instantOf z d 0) (instantOf z (d + 1) 0) (s\<lparr>metrics := g\<rparr>) =
      Inr ((), s\<lparr>metrics := ?g1\<rparr>)" by (rule projectLocation_day [OF ok fr])
  have 2: "projectGrouped e c F org loc (goDate d 0 z) (instantOf z d 0) (instantOf z (d + 1) 0) GroupByFloor (s\<lparr>metrics := ?g1\<rparr>) =
      Inr ((), s\<lparr>metrics := ?g2\<rparr>)" by (rule projectGrouped_day [OF ok]) (simp_all add: fresh_other fr)
  have 3: "projectGrouped e c F org loc (goDate d 0 z) (instantOf z d 0) (instantOf z (d + 1) 0) GroupByZone (s\<lparr>metrics := ?g2\<rparr>) =
      Inr ((), s\<lparr>metrics := ?g3\<rparr>)" by (rule projectGrouped_day [OF ok]) (simp_all add: fresh_other fr)
  have 4: "projectTables e c F collate org loc (goDate d 0 z) (instantOf z d 0) (instantOf z (d + 1) 0) ''day'' (s\<lparr>metrics := ?g3\<rparr>) =
      Inr ((), s\<lparr>metrics := ?g4\<rparr>)" by (rule projectTables_day [OF ok]) (simp add: fresh_other fr)
  have 5: "eachTx (\<lambda>(h, k). projectTables e c F collate org loc (goDate d 0 z) h k ''hour'')
      (hoursUntil (instantOf z d 0) (instantOf z (d + 1) 0)) (s\<lparr>metrics := ?g4\<rparr>) = Inr ((), s\<lparr>metrics := ?g5\<rparr>)"
    by (rule projectTables_hours [OF ok]) (simp add: fresh_other fr)
  have 6: "eachTx (projectPeriod e c F org loc (goDate d 0 z) z) (ListActiveServicePeriodsByLocation e c collate org loc s)
      (s\<lparr>metrics := ?g5\<rparr>) = Inr ((), s\<lparr>metrics := ?g6\<rparr>)"
    by (rule projectPeriods_day [OF ok]) (simp add: fresh_other fr)
  have 7: "runQuery e ''listing projection service periods'' None
      (reading (\<lambda>s. Inr (ListActiveServicePeriodsByLocation e c collate org loc s))) (s\<lparr>metrics := ?g5\<rparr>) =
      Inr (ListActiveServicePeriodsByLocation e c collate org loc s, s\<lparr>metrics := ?g5\<rparr>)"
    using ok by simp
  have g: "?g6 = (\<lambda>p. g p @ ?R p)"
  proof
    show "?g6 p = g p @ ?R p" for p by (cases p) (simp_all add: addRows_apply)
  qed
  have 8: "loadZone load ''loading service period timezone'' l (s\<lparr>metrics := ?g5\<rparr>) = Inr (z, s\<lparr>metrics := ?g5\<rparr>)" by (simp add: l(2))
  have "projectDay e c F collate load org loc (goDate d 0 z) (instantOf z d 0) (instantOf z (d + 1) 0) (s\<lparr>metrics := g\<rparr>) =
      Inr ((), s\<lparr>metrics := ?g6\<rparr>)"
    unfolding projectDay_def
    by (rule txBind_step, rule 1, rule txBind_step, rule 2, rule txBind_step, rule 3, rule txBind_step, rule 4,
        rule txBind_step, rule 5, rule txBind_step, rule 7, rule txBind_step, rule l(1), rule txBind_step, rule 8, rule 6)
  then show ?thesis by (simp only: g)
qed

lemma clear_day:
  assumes "projectable e c F load org loc z s"
  shows "clearProjectionDay e c org loc (goDate d 0 z) (s\<lparr>metrics := g\<rparr>) =
    Inr ((), s\<lparr>metrics := (\<lambda>p. filter (\<lambda>r. \<not> rangeRow org loc z d (d + 1) p r) (g p))\<rparr>)"
proof -
  have nf: "\<not> fault e site" for site using assms by simp
  have v: "visible e c org loc" using assms by (simp add: projectable_def)
  let ?k = "\<lambda>p. filter (\<lambda>r. \<not> rangeRow org loc z d (d + 1) p r) (g p)"
  have g: "g(HourlyTable := ?k HourlyTable, DailyTable := ?k DailyTable, DailyZone := ?k DailyZone, DailyFloor := ?k DailyFloor,
      DailyLocation := ?k DailyLocation, PeriodMetrics := ?k PeriodMetrics) = ?k"
  proof
    show "(g(HourlyTable := ?k HourlyTable, DailyTable := ?k DailyTable, DailyZone := ?k DailyZone, DailyFloor := ?k DailyFloor,
      DailyLocation := ?k DailyLocation, PeriodMetrics := ?k PeriodMetrics)) p = ?k p" for p by (cases p) simp_all
  qed
  have "clearProjectionDay e c org loc (goDate d 0 z) (s\<lparr>metrics := g\<rparr>) =
      Inr ((), s\<lparr>metrics := g(HourlyTable := ?k HourlyTable, DailyTable := ?k DailyTable, DailyZone := ?k DailyZone,
        DailyFloor := ?k DailyFloor, DailyLocation := ?k DailyLocation, PeriodMetrics := ?k PeriodMetrics)\<rparr>)"
    unfolding clearProjectionDay_def eachTx.simps clear_step [OF nf] by (simp add: setMetrics_def dayRow_range [OF v])
  then show ?thesis unfolding g .
qed

lemma rebuildDay_day:
  assumes ok: "projectable e c F load org loc z s"
  shows "rebuildDay e c F collate load org loc z (goDate d 0 z) (s\<lparr>metrics := g\<rparr>) =
    Inr ((), s\<lparr>metrics := projected e c F collate org loc z s d (d + 1) g\<rparr>)"
proof -
  let ?g = "\<lambda>p. filter (\<lambda>r. \<not> rangeRow org loc z d (d + 1) p r) (g p)"
  have "fresh p (dayRows e c F collate org loc z s p d) ?g" for p by (rule dayRows_fresh [OF ok]) simp
  then have "projectDay e c F collate load org loc (goDate d 0 z) (instantOf z d 0) (instantOf z (d + 1) 0) (s\<lparr>metrics := ?g\<rparr>) =
      Inr ((), s\<lparr>metrics := (\<lambda>p. ?g p @ dayRows e c F collate org loc z s p d)\<rparr>)"
    by (rule projectDay_day [OF ok])
  then show ?thesis
    unfolding rebuildDay_def dayWindow_midnight
    by (auto simp: inZone_def projected_def [abs_def] intro!: txBind_step clear_day [OF ok])
qed

lemma midnights_le: "d \<le> d' \<Longrightarrow> pgTime (instantOf z d 0) \<le> pgTime (instantOf z d' 0)"
  using midnights_ordered [of d d'] by (cases "d = d'") (auto intro: pgTime_mono)

lemma range_split:
  assumes "d \<le> m" and "m \<le> d'"
  shows "rangeRow org loc z d d' p r \<longleftrightarrow> rangeRow org loc z d m p r \<or> rangeRow org loc z m d' p r"
    and "rangeRow org loc z d m p r \<Longrightarrow> \<not> rangeRow org loc z m d' p r"
  using assms midnights_le [OF assms(1)] midnights_le [OF assms(2)] by (auto simp: rangeRow_def split: if_splits option.splits)

lemma range_empty: "\<not> rangeRow org loc z d d p r"
  by (simp add: rangeRow_def split: option.splits)

lemma projected_step:
  assumes ok: "projectable e c F load org loc z s" and "d < d'"
  shows "projected e c F collate org loc z s (d + 1) d' (projected e c F collate org loc z s d (d + 1) g) =
    projected e c F collate org loc z s d d' g"
proof
  fix p
  have "[d..d' - 1] = d # [d + 1..d' - 1]" using assms(2) by (simp add: upto_rec1)
  moreover have "filter (\<lambda>r. \<not> rangeRow org loc z (d + 1) d' p r) (dayRows e c F collate org loc z s p d) =
      dayRows e c F collate org loc z s p d"
    using dayRows_good(2) [OF ok] range_split(2) [of d "d + 1" d'] assms(2) by (auto intro!: filter_True)
  ultimately show "projected e c F collate org loc z s (d + 1) d' (projected e c F collate org loc z s d (d + 1) g) p =
      projected e c F collate org loc z s d d' g p"
    using range_split(1) [of d "d + 1" d' org loc p] assms(2) by (simp add: projected_def conj_commute)
qed

lemma rebuildDays_range:
  assumes ok: "projectable e c F load org loc z s"
  shows "d \<le> d' \<Longrightarrow>
    rebuildDays (rebuildDay e c F collate load org loc z) (map (\<lambda>k. goDate k 0 z) [d..d' - 1]) n (s\<lparr>metrics := g\<rparr>) =
      Inr (n + (d' - d), s\<lparr>metrics := projected e c F collate org loc z s d d' g\<rparr>)"
proof (induction "nat (d' - d)" arbitrary: d n g)
  case 0
  then show ?case by (simp add: projected_def [abs_def] range_empty)
next
  case (Suc k)
  then have d: "d < d'" by simp
  then have "[d..d' - 1] = d # [d + 1..d' - 1]" by (simp add: upto_rec1)
  moreover have "after n (rebuildDay e c F collate load org loc z (goDate d 0 z)) (s\<lparr>metrics := g\<rparr>) =
      Inr ((), s\<lparr>metrics := projected e c F collate org loc z s d (d + 1) g\<rparr>)"
    by (simp add: after_def rebuildDay_day [OF ok])
  ultimately show ?case
    using d Suc.hyps(1) [of "d + 1" "n + 1" "projected e c F collate org loc z s d (d + 1) g"] Suc.hyps(2)
    by (simp add: projected_step [OF ok d])
qed

end

section \<open>Properties\<close>

lemma upsert_ok:
  "visible_platform e c \<Longrightarrow> 0 \<le> k_lag_seconds new \<Longrightarrow> \<exists>ks. upsertRow e c new f s = Inr ((), s\<lparr>checkpoints := ks\<rparr>)"
  by (auto simp: upsertRow_def firstViolation_None [THEN iffD2])

lemma running_ok: "visible_platform e c \<Longrightarrow> \<exists>ks. markRebuildRunning e c s = Inr ((), s\<lparr>checkpoints := ks\<rparr>)"
  unfolding markRebuildRunning_def by (rule upsert_ok) simp_all

lemma after_Inr: "m s = Inr r \<Longrightarrow> after n m s = Inr r"
  by (cases r) (simp add: after_def)

context daily_zone
begin

lemma rebuildRange_projects:
  assumes ok: "projectable e c F load org loc z s" and adm: "visible_platform e c"
    and d: "dateOf from \<le> dateOf to" "dateOf to - dateOf from \<le> int turns"
  shows "\<exists>ks. rebuildRange turns e c F collate load org loc from to s =
    Inr (dateOf to - dateOf from,
         s\<lparr>metrics := projected e c F collate org loc z s (dateOf from) (dateOf to) (metrics s), checkpoints := ks\<rparr>)"
proof -
  let ?a = "dateOf from" and ?b = "dateOf to"
  obtain ks where ks: "markRebuildRunning e c s = Inr ((), s\<lparr>checkpoints := ks\<rparr>)" using running_ok [OF adm] by blast
  let ?s = "s\<lparr>checkpoints := ks\<rparr>"
  let ?t = "?s\<lparr>metrics := projected e c F collate org loc z s ?a ?b (metrics s)\<rparr>"
  have ok': "projectable e c F load org loc z ?s" using ok by simp
  obtain l where l: "getLocation e c ''getting rebuild location'' None org loc s = Inr (l, s)"
    "loadZone load ''loading rebuild timezone'' l = txReturn z"
    using getLocation_ok [OF ok, where g = "metrics s"] by fastforce
  have zone: "loadZone load ''loading rebuild timezone'' l s = Inr (z, s)" by (simp add: l(2))
  have days: "daysUntil turns (calendarDateInLocation from z) (calendarDateInLocation to z) = Some (map (\<lambda>k. goDate k 0 z) [?a..?b - 1])"
    using d(2) by (simp add: calendarDateInLocation_def daysUntil_midnights)
  have p: "projected e c F collate org loc z ?s = projected e c F collate org loc z s"
    by (intro ext) (simp add: projected_def)
  have run: "rebuildDays (rebuildDay e c F collate load org loc z) (map (\<lambda>k. goDate k 0 z) [?a..?b - 1]) 0 ?s = Inr (?b - ?a, ?t)"
    using rebuildDays_range [OF ok' d(1), of collate 0 "metrics s"] by (simp add: p)
  have nf: "\<not> fault e site" for site using ok by simp
  have running: "runQuery e ''marking analytics rebuild running'' None (markRebuildRunning e c) s = Inr ((), ?s)" by (simp add: nf ks)
  obtain ks' where "markRebuildIdle e c ?t = Inr ((), ?t\<lparr>checkpoints := ks'\<rparr>)" by (simp add: markRebuildIdle_def)
  then have idle: "runQuery e ''marking analytics rebuild complete'' None (markRebuildIdle e c) ?t = Inr ((), ?t\<lparr>checkpoints := ks'\<rparr>)"
    by (simp add: nf)
  have "rebuildRange turns e c F collate load org loc from to s = Inr (?b - ?a, ?t\<lparr>checkpoints := ks'\<rparr>)"
    unfolding rebuildRange_def
    by (rule txBind_step, rule after_Inr, rule l(1), rule txBind_step, rule after_Inr, rule zone, rule txBind_step,
        rule after_Inr, rule running, unfold days option.case, rule txBind_step, rule run, rule txBind_step, rule after_Inr,
        rule idle, rule txReturn_apply)
  then show ?thesis by (intro exI [of _ ks']) simp
qed

end

end
