(* ===== verification/Reporting.thy ===== *)
theory Reporting
  imports Analytics
begin

text \<open>
  The analytics service of \<^verbatim>\<open>internal/domain/analytics/service.go\<close>: the service periods, the manual rebuild with
  its durable run records, the summary of a day, the time series, the comparison of groups and the data quality
  figures. The tenant actor has the fields of the one of the identity service. Counts fit their columns: a table
  has fewer than \<open>2 ^ 31\<close> rows.
\<close>

definition PermissionAnalyticsRead :: string where "PermissionAnalyticsRead = ''analytics.read''"
definition PermissionLocationManage :: string where "PermissionLocationManage = ''location.manage''"

section \<open>Transactions and permissions\<close>

definition validActor :: "TenantActor \<Rightarrow> bool" where
  "validActor actor \<longleftrightarrow>
     \<not> (ta_OrganisationID actor = uuid_Nil \<or> ta_LocationID actor = uuid_Nil \<or> trimSpace (ta_ActorRef actor) = '''')"

definition inAnalyticsTx :: "env \<Rightarrow> TenantActor \<Rightarrow> (ctx \<Rightarrow> 'a an_body) \<Rightarrow> adb \<Rightarrow> 'a an_result" where
  "inAnalyticsTx e actor fn s =
     (if fault e ''beginning transaction'' then (Inl (Wrapped ''beginning transaction'' ConnFailure), s)
      else if fault e ''setting tenant context''
      then (Inl (rollback e (Wrapped ''setting tenant context'' ConnFailure)), s)
      else case fn (tenant_context (ta_OrganisationID actor) (ta_LocationID actor)) s of
             Inl err \<Rightarrow> (Inl (rollback e err), s)
           | Inr (v, s') \<Rightarrow>
               (case commit e of
                  Committed \<Rightarrow> (Inr v, s')
                | CommitFailed \<Rightarrow> (Inl (Wrapped ''committing transaction'' ConnFailure), s)
                | CommitUnacked \<Rightarrow> (Inl (Wrapped ''committing transaction'' ConnFailure), s')))"

definition requirePermission :: "env \<Rightarrow> ctx \<Rightarrow> string \<Rightarrow> TenantActor \<Rightarrow> string \<Rightarrow> unit an_body" where
  "requirePermission e c site actor permission =
     txBind (runQuery e site None
               (onShared (\<lambda>s. Inr (ActorHasLocationPermission e c (ta_OrganisationID actor) (ta_LocationID actor)
                                     (ta_ActorRef actor) permission s))))
       (\<lambda>allowed. txGuard (\<not> allowed) (Err ErrForbidden) (txReturn ()))"

definition requireRead :: "env \<Rightarrow> ctx \<Rightarrow> TenantActor \<Rightarrow> unit an_body" where
  "requireRead e c actor = requirePermission e c ''checking analytics permission'' actor PermissionAnalyticsRead"

definition requireManage :: "env \<Rightarrow> ctx \<Rightarrow> TenantActor \<Rightarrow> unit an_body" where
  "requireManage e c actor = requirePermission e c ''checking location permission'' actor PermissionLocationManage"


section \<open>Service periods\<close>

record ServicePeriodInput =
  in_Name :: string
  in_DaysOfWeek :: "int list"
  in_StartTime :: string
  in_EndTime :: string
  in_ExpectedVersion :: int

fun distinctDays :: "int list \<Rightarrow> int list \<Rightarrow> bool" where
  "distinctDays seen [] = True"
| "distinctDays seen (day # days) =
     (if day < 0 \<or> day > 6 \<or> day \<in> set seen then False else distinctDays (day # seen) days)"

definition validateServicePeriodInput ::
  "ServicePeriodInput \<Rightarrow> bool \<Rightarrow> (string \<times> int list \<times> int \<times> int) option" where
  "validateServicePeriodInput input requireVersion =
     (let name = trimSpace (in_Name input)
      in if name = '''' \<or> in_DaysOfWeek input = [] \<or> length (in_DaysOfWeek input) > 7 then None
         else if requireVersion \<and> in_ExpectedVersion input < 1 then None
         else if \<not> distinctDays [] (in_DaysOfWeek input) then None
         else case ParseClock (in_StartTime input) of
                None \<Rightarrow> None
              | Some start \<Rightarrow>
                  (case ParseClock (in_EndTime input) of
                     None \<Rightarrow> None
                   | Some stop \<Rightarrow> Some (name, in_DaysOfWeek input, start, stop)))"

text \<open>The constraints of \<^verbatim>\<open>service_periods\<close>, besides the unique name of a period at its location.\<close>

definition periodCheck :: "ServicePeriod \<Rightarrow> string option" where
  "periodCheck p = firstViolation
     [(sp_version p \<le> maxInt32, ''22003''),
      (sp_name p \<noteq> '''', ''23514''),
      (1 \<le> length (sp_days_of_week p) \<and> length (sp_days_of_week p) \<le> 7, ''23514''),
      (set (sp_days_of_week p) \<subseteq> {0, 1, 2, 3, 4, 5, 6}, ''23514''),
      (1 \<le> sp_version p, ''23514'')]"

definition sameName :: "ServicePeriod \<Rightarrow> ServicePeriod \<Rightarrow> bool" where
  "sameName x y \<longleftrightarrow> sp_loc x = sp_loc y \<and> sp_name x = sp_name y"

definition CreateServicePeriodRow ::
  "env \<Rightarrow> ctx \<Rightarrow> uuid \<Rightarrow> uuid \<Rightarrow> uuid \<Rightarrow> string \<Rightarrow> int list \<Rightarrow> int \<Rightarrow> int \<Rightarrow> adb \<Rightarrow> db_error + ServicePeriod \<times> adb" where
  "CreateServicePeriodRow e c newID org loc name days start stop s =
     (let p = \<lparr>sp_id = newID, sp_org = org, sp_loc = loc, sp_name = name, sp_days_of_week = days, sp_start_time = start,
               sp_end_time = stop, sp_is_active = True, sp_version = 1, sp_created_at = now e, sp_updated_at = now e\<rparr>
      in map_sum id (\<lambda>(p', ps). (p', s\<lparr>service_periods := ps\<rparr>))
           (insertRow (\<lambda>x y. sp_id x = sp_id y \<or> sameName x y)
              (if \<not> visible e c org loc then Some ''42501''
               else case periodCheck p of
                      Some state \<Rightarrow> Some state
                    | None \<Rightarrow> firstViolation [(locationExists (core (shared s)) org loc, ''23503'')])
              p (service_periods s)))"

definition updatePeriod ::
  "env \<Rightarrow> ctx \<Rightarrow> uuid \<Rightarrow> uuid \<Rightarrow> uuid \<Rightarrow> int \<Rightarrow> (ServicePeriod \<Rightarrow> ServicePeriod) \<Rightarrow> adb \<Rightarrow> db_error + ServicePeriod \<times> adb" where
  "updatePeriod e c i org loc version f s =
     map_sum id (\<lambda>(p, ps). (p, s\<lparr>service_periods := ps\<rparr>))
       (updateOne (\<lambda>p. visible e c (sp_org p) (sp_loc p) \<and> sp_id p = i \<and> sp_org p = org \<and> sp_loc p = loc \<and> sp_version p = version)
          (\<lambda>p. case periodCheck p of
                 Some state \<Rightarrow> Some state
               | None \<Rightarrow> firstViolation [(\<forall>x \<in> set (service_periods s). sp_id x \<noteq> sp_id p \<longrightarrow> \<not> sameName x p, ''23505'')])
          f (service_periods s))"

definition UpdateServicePeriodRow ::
  "env \<Rightarrow> ctx \<Rightarrow> uuid \<Rightarrow> uuid \<Rightarrow> uuid \<Rightarrow> string \<Rightarrow> int list \<Rightarrow> int \<Rightarrow> int \<Rightarrow> int \<Rightarrow> adb \<Rightarrow> db_error + ServicePeriod \<times> adb" where
  "UpdateServicePeriodRow e c i org loc name days start stop version =
     updatePeriod e c i org loc version
       (\<lambda>p. p\<lparr>sp_name := name, sp_days_of_week := days, sp_start_time := start, sp_end_time := stop,
              sp_version := sp_version p + 1, sp_updated_at := now e\<rparr>)"

definition ArchiveServicePeriodRow ::
  "env \<Rightarrow> ctx \<Rightarrow> uuid \<Rightarrow> uuid \<Rightarrow> uuid \<Rightarrow> int \<Rightarrow> adb \<Rightarrow> db_error + ServicePeriod \<times> adb" where
  "ArchiveServicePeriodRow e c i org loc version =
     updatePeriod e c i org loc version
       (\<lambda>p. p\<lparr>sp_is_active := False, sp_version := sp_version p + 1, sp_updated_at := now e\<rparr>)"

definition ListServicePeriodsByLocation ::
  "env \<Rightarrow> ctx \<Rightarrow> (string \<Rightarrow> int) \<Rightarrow> uuid \<Rightarrow> uuid \<Rightarrow> adb \<Rightarrow> ServicePeriod list" where
  "ListServicePeriodsByLocation e c collate org loc s =
     sort_key (\<lambda>p. if sp_is_active p then 0 else 1 :: int)
       (sort_key (\<lambda>p. collate (sp_name p))
          (filter (\<lambda>p. visible e c (sp_org p) (sp_loc p) \<and> sp_org p = org \<and> sp_loc p = loc) (service_periods s)))"

definition ListServicePeriods :: "env \<Rightarrow> (string \<Rightarrow> int) \<Rightarrow> TenantActor \<Rightarrow> adb \<Rightarrow> ServicePeriod list an_result" where
  "ListServicePeriods e collate actor s =
     (if \<not> validActor actor then (Inl (Err ErrValidation), s)
      else inAnalyticsTx e actor (\<lambda>c.
             txBind (requireRead e c actor) (\<lambda>_.
             runQuery e ''listing service periods'' None
               (reading (\<lambda>s. Inr (ListServicePeriodsByLocation e c collate (ta_OrganisationID actor) (ta_LocationID actor) s))))) s)"

definition CreateServicePeriod :: "env \<Rightarrow> TenantActor \<Rightarrow> ServicePeriodInput \<Rightarrow> adb \<Rightarrow> ServicePeriod an_result" where
  "CreateServicePeriod e actor input s =
     (if \<not> validActor actor then (Inl (Err ErrValidation), s)
      else case validateServicePeriodInput input False of
             None \<Rightarrow> (Inl (Err ErrValidation), s)
           | Some (name, days, start, stop) \<Rightarrow>
               inAnalyticsTx e actor (\<lambda>c.
                 txBind (requireManage e c actor) (\<lambda>_.
                 runQuery e ''creating service period'' None
                   (CreateServicePeriodRow e c (gen e 0) (ta_OrganisationID actor) (ta_LocationID actor) name days start stop))) s)"

definition UpdateServicePeriod :: "env \<Rightarrow> TenantActor \<Rightarrow> uuid \<Rightarrow> ServicePeriodInput \<Rightarrow> adb \<Rightarrow> ServicePeriod an_result" where
  "UpdateServicePeriod e actor i input s =
     (if \<not> validActor actor \<or> i = uuid_Nil then (Inl (Err ErrValidation), s)
      else case validateServicePeriodInput input True of
             None \<Rightarrow> (Inl (Err ErrValidation), s)
           | Some (name, days, start, stop) \<Rightarrow>
               inAnalyticsTx e actor (\<lambda>c.
                 txBind (requireManage e c actor) (\<lambda>_.
                 runQuery e ''updating service period'' (Some ErrNotFound)
                   (UpdateServicePeriodRow e c i (ta_OrganisationID actor) (ta_LocationID actor) name days start stop
                      (in_ExpectedVersion input)))) s)"

definition ArchiveServicePeriod :: "env \<Rightarrow> TenantActor \<Rightarrow> uuid \<Rightarrow> int \<Rightarrow> adb \<Rightarrow> ServicePeriod an_result" where
  "ArchiveServicePeriod e actor i expectedVersion s =
     (if \<not> validActor actor \<or> i = uuid_Nil \<or> expectedVersion < 1 then (Inl (Err ErrValidation), s)
      else inAnalyticsTx e actor (\<lambda>c.
             txBind (requireManage e c actor) (\<lambda>_.
             runQuery e ''archiving service period'' (Some ErrNotFound)
               (ArchiveServicePeriodRow e c i (ta_OrganisationID actor) (ta_LocationID actor) expectedVersion))) s)"


section \<open>The manual rebuild\<close>

record RebuildParams =
  rb_Actor :: TenantActor
  rb_LocationID :: uuid
  rb_From :: gotime
  rb_To :: gotime

definition runCheck :: "RebuildRun \<Rightarrow> string option" where
  "runCheck r = firstViolation
     [(run_RequestedBy r \<noteq> '''', ''23514''),
      (run_RangeFrom r < run_RangeTo r, ''23514''),
      (run_Status r \<in> {''running'', ''completed'', ''failed''}, ''23514''),
      (0 \<le> run_DaysProcessed r, ''23514'')]"

definition insertRebuildRun ::
  "env \<Rightarrow> ctx \<Rightarrow> uuid \<Rightarrow> TenantActor \<Rightarrow> int \<Rightarrow> int \<Rightarrow> adb \<Rightarrow> db_error + RebuildRun \<times> adb" where
  "insertRebuildRun e c newID actor from to s =
     (let r = \<lparr>run_ID = newID, run_OrganisationID = ta_OrganisationID actor, run_LocationID = ta_LocationID actor,
               run_RequestedBy = ta_ActorRef actor, run_RangeFrom = from, run_RangeTo = to, run_StartedAt = now e,
               run_CompletedAt = None, run_Status = ''running'', run_DaysProcessed = 0, run_LastError = None\<rparr>
      in map_sum id (\<lambda>(r', rs). (r', s\<lparr>rebuild_runs := rs\<rparr>))
           (insertRow (\<lambda>x y. run_ID x = run_ID y)
              (if \<not> visible e c (ta_OrganisationID actor) (ta_LocationID actor) then Some ''42501''
               else case runCheck r of
                      Some state \<Rightarrow> Some state
                    | None \<Rightarrow>
                        firstViolation [(locationExists (core (shared s)) (ta_OrganisationID actor) (ta_LocationID actor), ''23503'')])
              r (rebuild_runs s)))"

definition createRebuildRun :: "env \<Rightarrow> ctx \<Rightarrow> TenantActor \<Rightarrow> gotime \<Rightarrow> gotime \<Rightarrow> RebuildRun an_body" where
  "createRebuildRun e c actor from to =
     runQuery e ''creating analytics rebuild run'' None (insertRebuildRun e c (gen e 0) actor (pgDate from) (pgDate to))"

definition finishRebuildRun :: "env \<Rightarrow> ctx \<Rightarrow> uuid \<Rightarrow> string \<Rightarrow> int \<Rightarrow> string \<Rightarrow> RebuildRun an_body" where
  "finishRebuildRun e c runID status daysProcessed lastError =
     runQuery e ''finishing analytics rebuild run'' None (\<lambda>s.
       map_sum id (\<lambda>(r, rs). (r, s\<lparr>rebuild_runs := rs\<rparr>))
         (updateOne (\<lambda>r. visible e c (run_OrganisationID r) (run_LocationID r) \<and> run_ID r = runID) runCheck
            (\<lambda>r. r\<lparr>run_Status := status, run_CompletedAt := Some (now e), run_DaysProcessed := daysProcessed,
                   run_LastError := nullableText lastError\<rparr>)
            (rebuild_runs s)))"

definition latestRebuildRun :: "env \<Rightarrow> ctx \<Rightarrow> uuid \<Rightarrow> uuid \<Rightarrow> RebuildRun option an_body" where
  "latestRebuildRun e c org loc =
     runQuery e ''getting latest analytics rebuild run'' None
       (reading (\<lambda>s. Inr (case sort_key (\<lambda>r. - run_StartedAt r)
                                  (filter (\<lambda>r. visible e c (run_OrganisationID r) (run_LocationID r) \<and>
                                     run_OrganisationID r = org \<and> run_LocationID r = loc) (rebuild_runs s)) of
                            [] \<Rightarrow> None
                          | r # rs \<Rightarrow> Some r)))"

text \<open>
  \<^verbatim>\<open>daysProcessed\<close> after the rebuild transaction: the closure assigns it also when it fails, and not when it is
  not reached.
\<close>

definition daysProcessedBy :: "env \<Rightarrow> (an_error fail \<times> int) + (int \<times> adb) \<Rightarrow> int" where
  "daysProcessedBy e counted =
     (if fault e ''beginning transaction'' \<or> fault e ''setting tenant context'' then 0
      else case counted of Inl (err, n) \<Rightarrow> n | Inr (n, s) \<Rightarrow> n)"

text \<open>
  Four transactions, each in its own world: the permission check, the creation of the run, the rebuild and the
  end of the run. \<open>Error\<close> is the text of an error.
\<close>

definition Rebuild ::
  "nat \<Rightarrow> env \<Rightarrow> env \<Rightarrow> env \<Rightarrow> env \<Rightarrow> floats \<Rightarrow> (string \<Rightarrow> int) \<Rightarrow> (string \<Rightarrow> tz option) \<Rightarrow> (an_error fail \<Rightarrow> string) \<Rightarrow>
     RebuildParams \<Rightarrow> adb \<Rightarrow> RebuildRun an_result" where
  "Rebuild turns e1 e2 e3 e4 F collate load Error arg s =
     (let actor = rb_Actor arg
      in if \<not> validActor actor then (Inl (Err ErrValidation), s)
         else if rb_LocationID arg \<noteq> ta_LocationID actor \<or> \<not> instant (rb_From arg) < instant (rb_To arg)
         then (Inl (Err ErrValidation), s)
         else case inAnalyticsTx e1 actor (\<lambda>c. requireManage e1 c actor) s of
                (Inl err, s1) \<Rightarrow> (Inl err, s1)
              | (Inr allowed, s1) \<Rightarrow>
                  (case inAnalyticsTx e2 actor (\<lambda>c. createRebuildRun e2 c actor (rb_From arg) (rb_To arg)) s1 of
                     (Inl err, s2) \<Rightarrow> (Inl err, s2)
                   | (Inr run, s2) \<Rightarrow>
                       (let body = (\<lambda>c. rebuildRange turns e3 c F collate load (ta_OrganisationID actor) (rb_LocationID arg)
                                          (rb_From arg) (rb_To arg));
                            (rebuilt, s3) = inAnalyticsTx e3 actor (\<lambda>c. uncounted (body c)) s2;
                            days = daysProcessedBy e3 (body (tenant_context (ta_OrganisationID actor) (ta_LocationID actor)) s2);
                            (status, lastError) = (case rebuilt of
                                                     Inl err \<Rightarrow> (''failed'', Error err)
                                                   | Inr n \<Rightarrow> (''completed'', ''''));
                            (finished, s4) =
                              inAnalyticsTx e4 actor (\<lambda>c. finishRebuildRun e4 c (run_ID run) status days lastError) s3
                        in (case (rebuilt, finished) of
                              (Inl err, Inl err') \<Rightarrow> Inl (Joined err err')
                            | (Inl err, Inr r) \<Rightarrow> Inl err
                            | (Inr n, Inl err') \<Rightarrow> Inl err'
                            | (Inr n, Inr r) \<Rightarrow> Inr r, s4))))"


section \<open>Reports\<close>

record WindowMetric =
  wm_ID :: uuid
  wm_Name :: string
  wm_WindowStart :: int
  wm_WindowEnd :: int
  wm_Metric :: Metric

record DataQuality =
  dq_OpenSessionCount :: int
  dq_LongOpenSessionCount :: int
  dq_ImpossibleSessionCount :: int
  dq_MissingOccupancyCount :: int
  dq_StaleDeviceCount :: int
  dq_ProjectorLagSeconds :: rat
  dq_RebuildStatus :: string

record Summary =
  su_Location :: Location
  su_Date :: gotime
  su_Today :: WindowMetric
  su_CurrentServicePeriod :: "WindowMetric option"
  su_Checkpoint :: "AnalyticsProjectorCheckpoint option"
  su_DataQuality :: DataQuality
  su_LastRebuildRun :: "RebuildRun option"

record TimePoint =
  tp_BucketStart :: timestamp
  tp_BucketEnd :: timestamp
  tp_Metric :: Metric

record ComparisonPoint =
  co_GroupID :: uuid
  co_GroupName :: string
  co_MetricDate :: int
  co_WindowStart :: timestamp
  co_WindowEnd :: timestamp
  co_Metric :: Metric

definition GetAnalyticsProjectorCheckpoint :: "env \<Rightarrow> ctx \<Rightarrow> string \<Rightarrow> adb \<Rightarrow> db_error + AnalyticsProjectorCheckpoint" where
  "GetAnalyticsProjectorCheckpoint e c name s =
     selectOne (\<lambda>k. visible_platform e c \<and> k_projector_name k = name) (checkpoints s)"

definition getCheckpoint :: "env \<Rightarrow> ctx \<Rightarrow> AnalyticsProjectorCheckpoint option an_body" where
  "getCheckpoint e c =
     runQuery e ''getting analytics checkpoint'' None
       (reading (\<lambda>s. case GetAnalyticsProjectorCheckpoint e c ProjectorName s of
                        Inl ErrNoRows \<Rightarrow> Inr None
                      | Inl err \<Rightarrow> Inl err
                      | Inr k \<Rightarrow> Inr (Some k)))"

definition countRows :: "('r \<Rightarrow> bool) \<Rightarrow> 'r list \<Rightarrow> int" where
  "countRows P rs = int (length (filter P rs))"

definition dataQuality :: "env \<Rightarrow> ctx \<Rightarrow> TenantActor \<Rightarrow> DataQuality an_body" where
  "dataQuality e c actor =
     (let org = ta_OrganisationID actor; loc = ta_LocationID actor
      in txBind (runQuery e ''querying session data quality'' None
                   (onShared (\<lambda>s. Inr (filter (\<lambda>x. visible e c (s_org x) (s_loc x) \<and> s_org x = org \<and> s_loc x = loc)
                                         (table_sessions (core s)))))) (\<lambda>xs.
         txBind (runQuery e ''querying occupancy data quality'' None
                   (onShared (\<lambda>s. Inr (countRows (\<lambda>t. \<not> (\<exists>r \<in> set (table_occupancy (core s)).
                                                              visible e c (o_org r) (o_loc r) \<and> o_table r = t_id t))
                                         (activeTables e c org loc (core s)))))) (\<lambda>missing.
         txBind (runQuery e ''querying device data quality'' None
                   (onShared (\<lambda>s. Inr (countRows (\<lambda>d. visible_org e c (d_org d) \<and> d_org d = org \<and> d_loc d = Some loc \<and> trustedDevice d \<and>
                                           (case d_last_heartbeat_at d of
                                              None \<Rightarrow> True
                                            | Some t \<Rightarrow> t < now e - d_heartbeat_interval d * 2 * 1000000))
                                         (devices (core s)))))) (\<lambda>stale.
         txReturn
           \<lparr>dq_OpenSessionCount = countRows (\<lambda>x. s_ended_at x = None) xs,
            dq_LongOpenSessionCount = countRows (\<lambda>x. s_ended_at x = None \<and> s_started_at x < now e - 21600000000) xs,
            dq_ImpossibleSessionCount = countRows (\<lambda>x. case s_ended_at x of None \<Rightarrow> False | Some t \<Rightarrow> t < s_started_at x) xs,
            dq_MissingOccupancyCount = missing, dq_StaleDeviceCount = stale,
            dq_ProjectorLagSeconds = 0, dq_RebuildStatus = ''''\<rparr>))))"

definition withCheckpoint :: "AnalyticsProjectorCheckpoint option \<Rightarrow> DataQuality \<Rightarrow> DataQuality" where
  "withCheckpoint checkpoint quality =
     (case checkpoint of
        None \<Rightarrow> quality
      | Some k \<Rightarrow> quality\<lparr>dq_ProjectorLagSeconds := k_lag_seconds k, dq_RebuildStatus := k_rebuild_status k\<rparr>)"

text \<open>\<^verbatim>\<open>Service.DataQuality\<close>.\<close>

definition getDataQuality :: "env \<Rightarrow> TenantActor \<Rightarrow> adb \<Rightarrow> DataQuality an_result" where
  "getDataQuality e actor s =
     (if \<not> validActor actor then (Inl (Err ErrValidation), s)
      else inAnalyticsTx e actor (\<lambda>c.
             txBind (requireRead e c actor) (\<lambda>_.
             txBind (dataQuality e c actor) (\<lambda>quality.
             txBind (getCheckpoint e c) (\<lambda>checkpoint.
             txReturn (withCheckpoint checkpoint quality))))) s)"

text \<open>The first active service period whose window of the date contains the moment.\<close>

primrec currentPeriod ::
  "(ServicePeriod \<Rightarrow> ServicePeriodWindow \<Rightarrow> Metric an_body) \<Rightarrow> tz \<Rightarrow> gotime \<Rightarrow> int \<Rightarrow> ServicePeriod list \<Rightarrow> WindowMetric option an_body" where
  "currentPeriod calculate z date asOf [] = txReturn None"
| "currentPeriod calculate z date asOf (period # periods) =
     (case ServicePeriodWindowForDate date z (sp_days_of_week period) (Some (sp_start_time period)) (Some (sp_end_time period)) of
        Inl () \<Rightarrow> txFail (Err ErrInvalidServicePeriod)
      | Inr None \<Rightarrow> currentPeriod calculate z date asOf periods
      | Inr (Some window) \<Rightarrow>
          if asOf < instant (pw_Start window) \<or> \<not> asOf < instant (pw_End window)
          then currentPeriod calculate z date asOf periods
          else txBind (calculate period window) (\<lambda>metric.
               txReturn (Some \<lparr>wm_ID = sp_id period, wm_Name = sp_name period, wm_WindowStart = instant (pw_Start window),
                               wm_WindowEnd = instant (pw_End window), wm_Metric = metric\<rparr>)))"

definition currentServicePeriodMetric ::
  "env \<Rightarrow> ctx \<Rightarrow> floats \<Rightarrow> (string \<Rightarrow> int) \<Rightarrow> TenantActor \<Rightarrow> tz \<Rightarrow> gotime \<Rightarrow> int \<Rightarrow> WindowMetric option an_body" where
  "currentServicePeriodMetric e c F collate actor z date asOf =
     txBind (runQuery e ''listing active service periods'' None
               (reading (\<lambda>s. Inr (ListActiveServicePeriodsByLocation e c collate (ta_OrganisationID actor) (ta_LocationID actor) s))))
       (currentPeriod
          (\<lambda>period window. calculateWindowMetric e c F (ta_OrganisationID actor) (ta_LocationID actor) uuid_Nil ''location''
                             (instant (pw_Start window)) (instant (pw_End window)) asOf) z date asOf)"

definition GetSummary ::
  "env \<Rightarrow> floats \<Rightarrow> (string \<Rightarrow> int) \<Rightarrow> (string \<Rightarrow> tz option) \<Rightarrow> TenantActor \<Rightarrow> uuid \<Rightarrow> gotime \<Rightarrow> int \<Rightarrow> adb \<Rightarrow> Summary an_result" where
  "GetSummary e F collate load actor locationID date asOf s =
     (if \<not> validActor actor then (Inl (Err ErrValidation), s)
      else let actor = actor\<lparr>ta_LocationID := locationID\<rparr>; org = ta_OrganisationID actor
           in inAnalyticsTx e actor (\<lambda>c.
                txBind (requireRead e c actor) (\<lambda>_.
                txBind (getLocation e c ''getting analytics location'' (Some ErrNotFound) org locationID) (\<lambda>location.
                txBind (loadZone load ''loading location timezone'' location) (\<lambda>z.
                let localDate = calendarDateInLocation date z
                in case localCalendarDateWindow localDate z of
                  (start, stop) \<Rightarrow>
                    txBind (calculateWindowMetric e c F org locationID uuid_Nil ''location'' (instant start) (instant stop)
                              (min asOf (instant stop))) (\<lambda>metric.
                    txBind (currentServicePeriodMetric e c F collate actor z localDate asOf) (\<lambda>current.
                    txBind (dataQuality e c actor) (\<lambda>quality.
                    txBind (getCheckpoint e c) (\<lambda>checkpoint.
                    txBind (latestRebuildRun e c org locationID) (\<lambda>lastRun.
                    txReturn
                      \<lparr>su_Location = location, su_Date = localDate,
                       su_Today = \<lparr>wm_ID = uuid_Nil, wm_Name = '''', wm_WindowStart = instant start, wm_WindowEnd = instant stop,
                                   wm_Metric = metric\<rparr>,
                       su_CurrentServicePeriod = current, su_Checkpoint = checkpoint,
                       su_DataQuality = withCheckpoint checkpoint quality, su_LastRebuildRun = lastRun\<rparr>)))))))))
              s)"

section \<open>Time series and comparisons\<close>

definition GrainHour :: string where "GrainHour = ''hour''"
definition GrainDay :: string where "GrainDay = ''day''"

definition dateColumn :: "MetricRow \<Rightarrow> int" where
  "dateColumn r = (case mr_date r of None \<Rightarrow> 0 | Some d \<Rightarrow> d)"

definition rowsOfDates :: "env \<Rightarrow> ctx \<Rightarrow> metric_table \<Rightarrow> uuid \<Rightarrow> uuid \<Rightarrow> int \<Rightarrow> int \<Rightarrow> adb \<Rightarrow> MetricRow list" where
  "rowsOfDates e c p org loc from to s =
     filter (\<lambda>m. visible e c (mr_org m) (mr_loc m) \<and> mr_org m = org \<and> mr_loc m = loc \<and>
                 (case mr_date m of None \<Rightarrow> False | Some d \<Rightarrow> from \<le> d \<and> d < to)) (metrics s p)"

definition ListDailyLocationMetrics :: "env \<Rightarrow> ctx \<Rightarrow> uuid \<Rightarrow> uuid \<Rightarrow> int \<Rightarrow> int \<Rightarrow> adb \<Rightarrow> MetricRow list" where
  "ListDailyLocationMetrics e c org loc from to s =
     sort_key dateColumn (rowsOfDates e c DailyLocation org loc from to s)"

text \<open>The rows of a group table joined with their groups: the row, the sort order and the name of its group.\<close>

definition joinGroups ::
  "('g \<Rightarrow> bool) \<Rightarrow> ('g \<Rightarrow> uuid) \<Rightarrow> 'g list \<Rightarrow> MetricRow list \<Rightarrow> (MetricRow \<times> 'g) list" where
  "joinGroups seen key gs ms = filter (\<lambda>(m, g). seen g \<and> Some (key g) = mr_group m) (List.product ms gs)"

text \<open>\<^verbatim>\<open>ORDER BY sort_order, name, metric_date\<close>: the least significant key is sorted first.\<close>

definition ListDailyZoneMetrics ::
  "env \<Rightarrow> ctx \<Rightarrow> (string \<Rightarrow> int) \<Rightarrow> uuid \<Rightarrow> uuid \<Rightarrow> int \<Rightarrow> int \<Rightarrow> adb \<Rightarrow> (MetricRow \<times> Zone) list" where
  "ListDailyZoneMetrics e c collate org loc from to s =
     sort_key (\<lambda>(m, z). z_sort_order z) (sort_key (\<lambda>(m, z). collate (z_name z)) (sort_key (\<lambda>(m, z). dateColumn m)
       (joinGroups (\<lambda>z. visible e c (z_org z) (z_loc z)) z_id (zones s) (rowsOfDates e c DailyZone org loc from to s))))"

definition ListDailyFloorMetrics ::
  "env \<Rightarrow> ctx \<Rightarrow> (string \<Rightarrow> int) \<Rightarrow> uuid \<Rightarrow> uuid \<Rightarrow> int \<Rightarrow> int \<Rightarrow> adb \<Rightarrow> (MetricRow \<times> Floor) list" where
  "ListDailyFloorMetrics e c collate org loc from to s =
     sort_key (\<lambda>(m, f). f_sort_order f) (sort_key (\<lambda>(m, f). collate (f_name f)) (sort_key (\<lambda>(m, f). dateColumn m)
       (joinGroups (\<lambda>f. visible e c (f_org f) (f_loc f)) f_id (floors s) (rowsOfDates e c DailyFloor org loc from to s))))"

definition ListServicePeriodMetrics ::
  "env \<Rightarrow> ctx \<Rightarrow> (string \<Rightarrow> int) \<Rightarrow> uuid \<Rightarrow> uuid \<Rightarrow> int \<Rightarrow> int \<Rightarrow> adb \<Rightarrow> (MetricRow \<times> ServicePeriod) list" where
  "ListServicePeriodMetrics e c collate org loc from to s =
     sort_key (\<lambda>(m, p). collate (sp_name p)) (sort_key (\<lambda>(m, p). dateColumn m)
       (joinGroups (\<lambda>p. visible e c (sp_org p) (sp_loc p)) sp_id (service_periods s) (rowsOfDates e c PeriodMetrics org loc from to s)))"

text \<open>One row of the hourly query, \<^verbatim>\<open>GROUP BY bucket_start, bucket_end\<close>, as \<^verbatim>\<open>scanTimePoint\<close> reads it.\<close>

definition nonZero :: "rat list \<Rightarrow> rat list" where
  "nonZero = filter (\<lambda>v. v \<noteq> 0)"

definition hourPoint :: "floats \<Rightarrow> timestamp \<times> timestamp \<Rightarrow> MetricRow list \<Rightarrow> TimePoint" where
  "hourPoint F bucket rows =
     (let ms = map mr_metric rows;
          tableCount = length (remdups (map mr_group rows));
          occupancy = sumFloat F (map OccupancySeconds ms);
          basis = sumFloat F (map UtilisationBasisSeconds ms);
          completed = sum_list (map CompletedSessionCount ms)
      in \<lparr>tp_BucketStart = fst bucket, tp_BucketEnd = snd bucket,
          tp_Metric =
            \<lparr>ActiveTableCount = int tableCount,
             OccupancySeconds = occupancy,
             UtilisationBasisSeconds = basis,
             UtilisationRate = (if 0 < basis then fl F (occupancy / basis) else 0),
             CompletedSessionCount = completed,
             TurnoverRate = (if 0 < tableCount then fl F (fl F (of_int completed) / fl F (of_nat tableCount)) else 0),
             AvgSessionSeconds = coalesce0 (avgFloat F) (nonZero (map AvgSessionSeconds ms)),
             P50SessionSeconds = coalesce0 (percentileCont F (5 / 10)) (nonZero (map P50SessionSeconds ms)),
             P90SessionSeconds = coalesce0 (percentileCont F (9 / 10)) (nonZero (map P90SessionSeconds ms)),
             AssistRequestCount = sum_list (map AssistRequestCount ms),
             AvgAssistResponseSeconds = coalesce0 (avgFloat F) (nonZero (map AvgAssistResponseSeconds ms)),
             AvgAssistResolutionSeconds = coalesce0 (avgFloat F) (nonZero (map AvgAssistResolutionSeconds ms)),
             AnomalyCount = sum_list (map AnomalyCount ms)\<rparr>\<rparr>)"

definition hourlyPoints :: "env \<Rightarrow> ctx \<Rightarrow> floats \<Rightarrow> uuid \<Rightarrow> uuid \<Rightarrow> timestamp \<Rightarrow> timestamp \<Rightarrow> adb \<Rightarrow> TimePoint list" where
  "hourlyPoints e c F org loc from to s =
     (let rows = filter (\<lambda>m. visible e c (mr_org m) (mr_loc m) \<and> mr_org m = org \<and> mr_loc m = loc \<and>
                            from \<le> mr_start m \<and> mr_start m < to) (metrics s HourlyTable)
      in map (\<lambda>bucket. hourPoint F bucket (filter (\<lambda>m. (mr_start m, mr_end m) = bucket) rows))
           (sort_key fst (remdups (map (\<lambda>m. (mr_start m, mr_end m)) rows))))"

definition Timeseries ::
  "env \<Rightarrow> floats \<Rightarrow> TenantActor \<Rightarrow> gotime \<Rightarrow> gotime \<Rightarrow> string \<Rightarrow> adb \<Rightarrow> TimePoint list an_result" where
  "Timeseries e F actor from to grain s =
     (let org = ta_OrganisationID actor; loc = ta_LocationID actor
      in if \<not> validActor actor then (Inl (Err ErrValidation), s)
         else if \<not> instant from < instant to \<or> (grain \<noteq> GrainHour \<and> grain \<noteq> GrainDay) then (Inl (Err ErrValidation), s)
         else inAnalyticsTx e actor (\<lambda>c.
                txBind (requireRead e c actor) (\<lambda>_.
                if grain = GrainDay
                then txBind (runQuery e ''listing daily location metrics'' None
                               (reading (\<lambda>s. Inr (ListDailyLocationMetrics e c org loc (pgDate from) (pgDate to) s)))) (\<lambda>rows.
                     txReturn (map (\<lambda>row. \<lparr>tp_BucketStart = mr_start row, tp_BucketEnd = mr_end row, tp_Metric = mr_metric row\<rparr>) rows))
                else runQuery e ''listing hourly metrics'' None
                       (reading (\<lambda>s. Inr (hourlyPoints e c F org loc (pgTime (instant from)) (pgTime (instant to)) s))))) s)"

definition comparisonPoint :: "('g \<Rightarrow> uuid) \<Rightarrow> ('g \<Rightarrow> string) \<Rightarrow> MetricRow \<times> 'g \<Rightarrow> ComparisonPoint" where
  "comparisonPoint key name = (\<lambda>(m, g).
     \<lparr>co_GroupID = key g, co_GroupName = name g, co_MetricDate = dateColumn m, co_WindowStart = mr_start m,
      co_WindowEnd = mr_end m, co_Metric = mr_metric m\<rparr>)"

definition Comparison ::
  "env \<Rightarrow> (string \<Rightarrow> int) \<Rightarrow> TenantActor \<Rightarrow> gotime \<Rightarrow> gotime \<Rightarrow> string \<Rightarrow> adb \<Rightarrow> ComparisonPoint list an_result" where
  "Comparison e collate actor from to groupBy s =
     (let org = ta_OrganisationID actor; loc = ta_LocationID actor; a = pgDate from; b = pgDate to
      in if \<not> validActor actor then (Inl (Err ErrValidation), s)
         else if \<not> instant from < instant to then (Inl (Err ErrValidation), s)
         else inAnalyticsTx e actor (\<lambda>c.
                txBind (requireRead e c actor) (\<lambda>_.
                if groupBy = GroupByZone
                then runQuery e ''listing zone metrics'' None
                       (reading (\<lambda>s. Inr (map (comparisonPoint z_id z_name) (ListDailyZoneMetrics e c collate org loc a b s))))
                else if groupBy = GroupByFloor
                then runQuery e ''listing floor metrics'' None
                       (reading (\<lambda>s. Inr (map (comparisonPoint f_id f_name) (ListDailyFloorMetrics e c collate org loc a b s))))
                else if groupBy = GroupByServicePeriod
                then runQuery e ''listing service period metrics'' None
                       (reading (\<lambda>s. Inr (map (comparisonPoint sp_id sp_name) (ListServicePeriodMetrics e c collate org loc a b s))))
                else txFail (Err ErrValidation))) s)"

end
