(* ===== verification/SampleDay.thy ===== *)
theory SampleDay
  imports Projection Reporting Sample
begin

text \<open>
  The sample restaurant with a floor, a zone, a dinner period and an owner, on which the properties of the
  analytics service are exercised, and an arithmetic without rounding.
\<close>

definition samplePlan :: idb where
  "samplePlan =
     \<lparr>core = sampleDb,
      organisations = [\<lparr>g_id = 1, g_slug = ''cafe'', g_name = ''Cafe'', g_status = ''active'', g_legacy_restaurant_id = None,
        g_created_at = 0, g_updated_at = 0, g_onboarded_at = None\<rparr>],
      user_profiles = [],
      organisation_memberships = [\<lparr>om_id = 11, om_org = 1, om_member_ref = ''alice'', om_role = ''owner'', om_created_at = 0,
        om_updated_at = 0, om_user_profile = None, om_disabled_at = None\<rparr>],
      location_memberships = [], role_permissions = [(''owner'', ''location.manage''), (''owner'', ''analytics.read'')],
      device_credentials = [], device_pairing_codes = []\<rparr>"

definition sampleDinner :: ServicePeriod where
  "sampleDinner =
     \<lparr>sp_id = 9, sp_org = 1, sp_loc = 2, sp_name = ''Dinner'', sp_days_of_week = [4, 5], sp_start_time = 64800000000,
      sp_end_time = 7200000000, sp_is_active = True, sp_version = 1, sp_created_at = 0, sp_updated_at = 0\<rparr>"

definition sampleAdb :: adb where
  "sampleAdb =
     \<lparr>shared = samplePlan,
      floors = [\<lparr>f_id = 4, f_org = 1, f_loc = 2, f_slug = ''ground'', f_name = ''Ground'', f_sort_order = 0, f_canvas = JObj [],
        f_background_asset_ref = None, f_is_active = True, f_version = 1, f_created_at = 0, f_updated_at = 0\<rparr>],
      zones = [\<lparr>z_id = 5, z_org = 1, z_loc = 2, z_floor = 4, z_name = ''Bar'', z_sort_order = 0, z_is_active = True,
        z_version = 1, z_created_at = 0, z_updated_at = 0\<rparr>],
      service_periods = [sampleDinner], metrics = (\<lambda>p. []), checkpoints = [], rebuild_runs = []\<rparr>"

definition sampleFloats :: floats where
  "sampleFloats = \<lparr>fl = (\<lambda>x. x), avgNumeric = hd, avgFloat = hd, sumFloat = sum_list, percentileCont = (\<lambda>q. hd)\<rparr>"

definition sampleOwner :: TenantActor where
  "sampleOwner = \<lparr>ta_OrganisationID = 1, ta_LocationID = 2, ta_ActorRef = ''alice''\<rparr>"

lemma sampleAdb_projectable:
  assumes "e = sampleEnv" and "c = admin_context \<or> c = tenant_context 1 2" and "load ''UTC'' = Some z"
  shows "projectable e c sampleFloats load 1 2 z sampleAdb"
proof -
  have "visible e c 1 2"
    using assms(2) by (auto simp: visible_def tenant_context_def admin_context_def seatd_has_location_access_def seatd_has_organisation_access_def)
  moreover from this have "GetLocation e c 2 1 (core (shared sampleAdb)) = Inr sampleLocation"
    by (simp add: GetLocation_def selectOne_def sampleAdb_def samplePlan_def sampleDb_def sampleLocation_def)
  moreover have "layoutOk sampleAdb"
    by (simp add: layoutOk_def sampleAdb_def samplePlan_def sampleDinner_def sample_defs)
  ultimately show ?thesis
    using assms(1,3) by (simp add: projectable_def rounding_def sampleFloats_def mono_def sampleEnv_def sampleLocation_def)
qed

text \<open>A party that has been at the table since half past midnight.\<close>

definition sampleVisit :: TableSession where
  "sampleVisit =
     \<lparr>s_id = 20, s_org = 1, s_loc = 2, s_table = 3, s_started_at = 1800000000, s_ended_at = None, s_party_size = Some 2,
      s_opened_by = None, s_closed_by = None, s_source = ''staff'', s_created_at = 1800000000, s_updated_at = 1800000000\<rparr>"

definition sampleTaken :: db where
  "sampleTaken = sampleDb\<lparr>table_sessions := [sampleVisit]\<rparr>"

end
