(* ===== verification/Utilisation.thy ===== *)
theory Utilisation
  imports SampleDay
begin

text \<open>
  The utilisation of a window is a rate: when no two sessions of a table overlap, the tables are occupied for at
  most the time the window offers. The occupied time is counted as a set of microseconds of tables.
\<close>

text \<open>Rounding keeps the order and the integers a float64 holds exactly.\<close>

definition exactRounding :: "(rat \<Rightarrow> rat) \<Rightarrow> bool" where
  "exactRounding f \<longleftrightarrow> mono f \<and> (\<forall>n. 0 \<le> n \<longrightarrow> n \<le> 2 ^ 53 \<longrightarrow> f (of_int n) = of_int n)"

definition disjointSessions :: "timestamp \<Rightarrow> TableSession list \<Rightarrow> bool" where
  "disjointSessions asOf xs \<longleftrightarrow>
     distinct xs \<and>
     (\<forall>x \<in> set xs. \<forall>y \<in> set xs. x \<noteq> y \<longrightarrow> s_table x = s_table y \<longrightarrow>
        sessionEnd asOf x \<le> s_started_at y \<or> sessionEnd asOf y \<le> s_started_at x)"

text \<open>The microseconds of the window in which a session occupies its table.\<close>

definition occupied :: "timestamp \<Rightarrow> timestamp \<Rightarrow> timestamp \<Rightarrow> TableSession \<Rightarrow> (uuid \<times> timestamp) set" where
  "occupied a b asOf x = {s_table x} \<times> {max (s_started_at x) a ..< min (sessionEnd asOf x) b}"

lemma finite_occupied [simp]: "finite (occupied a b asOf x)"
  by (simp add: occupied_def)

lemma occupied_epoch:
  "max 0 (epochOf (min (sessionEnd asOf x) b - max (s_started_at x) a)) = of_nat (card (occupied a b asOf x)) / 10 ^ 6"
proof (cases "max (s_started_at x) a \<le> min (sessionEnd asOf x) b")
  case True
  then show ?thesis by (simp add: occupied_def epochOf_def card_cartesian_product max_def of_nat_nat)
next
  case False
  then have "epochOf (min (sessionEnd asOf x) b - max (s_started_at x) a) \<le> 0" "occupied a b asOf x = {}"
    unfolding epochOf_def occupied_def by (simp_all add: divide_le_0_iff not_le min_def max_def split: if_splits)
  then show ?thesis by simp
qed

lemma disjoint_occupied:
  assumes "disjointSessions asOf xs" and "x \<in> set xs" and "y \<in> set xs" and "x \<noteq> y"
  shows "occupied a b asOf x \<inter> occupied a b asOf y = {}"
  using assms by (fastforce simp: disjointSessions_def occupied_def)

lemma sessionOverlap_card:
  assumes "disjointSessions asOf xs"
  shows "\<exists>ys. set ys \<subseteq> set xs \<and>
    sessionOverlap a b asOf xs = of_nat (card (\<Union>x \<in> set ys. occupied a b asOf x)) / 10 ^ 6"
proof -
  let ?ys = "filter (\<lambda>x. s_started_at x < b \<and> sessionEnd asOf x > a \<and> sessionEnd asOf x \<ge> s_started_at x) xs"
  have "distinct ?ys" using assms by (simp add: disjointSessions_def)
  then have "sessionOverlap a b asOf xs = (\<Sum>x \<in> set ?ys. of_nat (card (occupied a b asOf x)) / 10 ^ 6)"
    unfolding sessionOverlap_def occupied_epoch by (rule sum_list_distinct_conv_sum_set)
  also have "\<dots> = of_nat (\<Sum>x \<in> set ?ys. card (occupied a b asOf x)) / 10 ^ 6"
    by (simp only: of_nat_sum sum_divide_distrib)
  also have "(\<Sum>x \<in> set ?ys. card (occupied a b asOf x)) = card (\<Union>x \<in> set ?ys. occupied a b asOf x)"
    using disjoint_occupied [OF assms] by (intro card_UN_disjoint [symmetric]) auto
  finally show ?thesis by (intro exI [of _ ?ys]) auto
qed

lemma sessionOverlap_le:
  assumes d: "disjointSessions asOf xs" and ids: "\<And>x. x \<in> set xs \<Longrightarrow> s_table x \<in> set ids" and "a \<le> b"
  shows "sessionOverlap a b asOf xs \<le> of_nat (length ids) * epochOf (b - a)"
proof -
  obtain ys where ys: "set ys \<subseteq> set xs" "sessionOverlap a b asOf xs = of_nat (card (\<Union>x \<in> set ys. occupied a b asOf x)) / 10 ^ 6"
    using sessionOverlap_card [OF d] by blast
  have "(\<Union>x \<in> set ys. occupied a b asOf x) \<subseteq> set ids \<times> {a ..< b}" using ids ys(1) by (auto simp: occupied_def)
  then have "card (\<Union>x \<in> set ys. occupied a b asOf x) \<le> card (set ids) * nat (b - a)"
    using card_mono [of "set ids \<times> {a ..< b}"] by (simp add: card_cartesian_product)
  also have "\<dots> \<le> length ids * nat (b - a)" by (simp add: card_length)
  finally have "(of_nat (card (\<Union>x \<in> set ys. occupied a b asOf x)) :: rat) \<le> of_nat (length ids * nat (b - a))" by (simp only: of_nat_le_iff)
  then show ?thesis using assms(3) by (simp add: ys(2) epochOf_def of_nat_nat divide_right_mono)
qed

lemma whole_seconds:
  assumes "second dvd start" and "second dvd stop"
  shows "epochOf (pgTime stop - pgTime start) = of_int ((stop - start) div second)"
proof -
  obtain i j where "start = second * i" "stop = second * j" using assms by (auto elim!: dvdE)
  moreover have "pgTime (second * k) = 1000000 * k" for k
    using nonzero_mult_div_cancel_left [of "1000 :: int" "1000000 * k"] by (simp add: pgTime_def second_def)
  moreover have "(second * j - second * i) div second = j - i"
    unfolding right_diff_distrib [symmetric] by (simp add: second_def)
  ultimately have "pgTime stop - pgTime start = 1000000 * (j - i)" "(stop - start) div second = j - i"
    by (simp_all add: right_diff_distrib)
  then show ?thesis by (simp add: epochOf_def)
qed

lemma exact_nonneg: "exactRounding f \<Longrightarrow> 0 \<le> x \<Longrightarrow> 0 \<le> f x"
proof -
  assume e: "exactRounding f" and x: "0 \<le> x"
  then have "f (of_int 0) \<le> f x" unfolding exactRounding_def by (intro monoD [of f]) simp_all
  moreover have "f (of_int 0) = of_int 0" using e unfolding exactRounding_def by (metis order_refl zero_le_power zero_le_numeral)
  ultimately show "0 \<le> f x" by simp
qed

text \<open>
  C25. In a window of full seconds in which no two sessions of a table overlap, the occupied time is at most the
  time the window offers, and the utilisation rate lies between 0 and 1, also after rounding.
\<close>
theorem utilisation_is_a_rate:
  assumes "exactRounding (fl F) \<and> disjointSessions (pgTime asOf) (table_sessions s)"
    and "start \<le> stop \<and> second dvd start \<and> second dvd stop"
    and "int (length (scopedTables e c org loc scope i s)) * ((stop - start) div second) \<le> 2 ^ 53"
  shows "let m = windowMetric e c F org loc i scope start stop asOf s
    in OccupancySeconds m \<le> UtilisationBasisSeconds m \<and> 0 \<le> UtilisationRate m \<and> UtilisationRate m \<le> 1"
proof -
  let ?ids = "scopedTables e c org loc scope i s" and ?S = "(stop - start) div second"
  let ?n = "int (length ?ids)"
  let ?xs = "scopedSessions e c ?ids s"
  define occ where "occ = fl F (sessionOverlap (pgTime start) (pgTime stop) (pgTime asOf) ?xs)"
  define basis where "basis = fl F (fl F (of_nat (length ?ids)) * fl F (epochOf (pgTime stop - pgTime start)))"
  have ex: "exactRounding (fl F)" and mono: "mono (fl F)" using assms(1) by (simp_all add: exactRounding_def)
  have exact: "fl F (of_int n) = of_int n" if "0 \<le> n" "n \<le> 2 ^ 53" for n using ex that by (simp add: exactRounding_def)
  have S: "0 \<le> ?S" using assms(2) pos_imp_zdiv_nonneg_iff [of second "stop - start"] by (simp add: second_def)
  have basis: "basis = of_int (?n * ?S)"
  proof (cases "?n = 0 \<or> ?S = 0")
    case True
    then have "fl F (of_nat (length ?ids)) * fl F (epochOf (pgTime stop - pgTime start)) = 0"
      using exact [of 0] assms(2) by (auto simp: whole_seconds)
    then show ?thesis using True exact [of 0] by (auto simp: basis_def)
  next
    case False
    then have "1 \<le> ?n" "1 \<le> ?S" using S by linarith+
    then have "?n \<le> ?n * ?S" "?S \<le> ?n * ?S" using S by (simp_all add: mult_le_cancel_left1 mult_le_cancel_right1)
    then have "?n \<le> 2 ^ 53" "?S \<le> 2 ^ 53" using assms(3) by linarith+
    then have "fl F (of_nat (length ?ids)) = of_int ?n" "fl F (epochOf (pgTime stop - pgTime start)) = of_int ?S"
      using exact [of ?n] exact [of ?S] S assms(2) by (simp_all add: whole_seconds)
    then show ?thesis using exact [of "?n * ?S"] S assms(3) by (simp add: basis_def)
  qed
  have "disjointSessions (pgTime asOf) ?xs" using assms(1) by (auto simp: disjointSessions_def scopedSessions_def)
  then have "sessionOverlap (pgTime start) (pgTime stop) (pgTime asOf) ?xs \<le> of_nat (length ?ids) * epochOf (pgTime stop - pgTime start)"
    using assms(2) by (intro sessionOverlap_le) (auto simp: scopedSessions_def pgTime_mono)
  also have "\<dots> = of_int (?n * ?S)" using assms(2) by (simp add: whole_seconds)
  finally have "occ \<le> fl F (of_int (?n * ?S))" unfolding occ_def by (rule monoD [OF mono])
  then have le: "occ \<le> basis" using exact [of "?n * ?S"] S assms(3) by (simp add: basis)
  have nonneg: "0 \<le> occ" unfolding occ_def by (intro exact_nonneg [OF ex] sessionOverlap_nonneg)
  have rate: "0 \<le> fl F (occ / basis) \<and> fl F (occ / basis) \<le> 1" if "0 < basis"
  proof
    show "0 \<le> fl F (occ / basis)" using nonneg that by (intro exact_nonneg [OF ex]) simp
    have "fl F (occ / basis) \<le> fl F (of_int 1)" using le that by (intro monoD [OF mono]) simp
    then show "fl F (occ / basis) \<le> 1" using exact [of 1] by simp
  qed
  show ?thesis
    using le rate
    by (simp add: windowMetric_def FinalizeMetric_def windowQuery_def Let_def occ_def [symmetric] basis_def [symmetric])
qed

text \<open>Witness of C25: one hour at a table that was taken for half of it.\<close>
theorem utilisation_is_a_rate_witness:
  "let m = windowMetric sampleEnv admin_context sampleFloats 1 2 0 ''location'' 0 (3600 * second) (3600 * second) sampleTaken
   in UtilisationRate m = 1 / 2 \<and> OccupancySeconds m \<le> UtilisationBasisSeconds m \<and> 0 \<le> UtilisationRate m \<and> UtilisationRate m \<le> 1"
proof -
  let ?m = "windowMetric sampleEnv admin_context sampleFloats 1 2 0 ''location'' 0 (3600 * second) (3600 * second) sampleTaken"
  have "exactRounding (fl sampleFloats) \<and> disjointSessions (pgTime (3600 * second)) (table_sessions sampleTaken)"
    by (simp add: exactRounding_def sampleFloats_def mono_def disjointSessions_def sampleTaken_def)
  moreover have "0 \<le> 3600 * second \<and> second dvd 0 \<and> second dvd 3600 * second" by (simp add: second_def)
  moreover have "int (length (scopedTables sampleEnv admin_context 1 2 ''location'' 0 sampleTaken)) * ((3600 * second - 0) div second) \<le> 2 ^ 53"
    by code_simp
  ultimately have "let m = ?m in OccupancySeconds m \<le> UtilisationBasisSeconds m \<and> 0 \<le> UtilisationRate m \<and> UtilisationRate m \<le> 1"
    by (rule utilisation_is_a_rate)
  moreover have "UtilisationRate ?m = 1 / 2" by code_simp
  ultimately show ?thesis by (simp add: Let_def)
qed

end
