(* ===== verification/Rebuilds.thy ===== *)
theory Rebuilds
  imports SampleDay Devices
begin

text \<open>
  The properties of the projector and of the manual rebuild: what a rebuild leaves in the metric tables, which day
  the projector rebuilds for an event, and what record a manual rebuild leaves, whatever fails.
\<close>

section \<open>A rebuild is a view\<close>

context daily_zone
begin

lemma projected_again:
  assumes ok: "projectable e c F load org loc z s" and d: "d \<le> d'"
  shows "projected e c F collate org loc z s d d' (projected e c F collate org loc z s d d' g) =
    projected e c F collate org loc z s d d' g"
proof
  fix p
  have "rangeRow org loc z d d' p r" if r: "r \<in> set (concat (map (dayRows e c F collate org loc z s p) [d..d' - 1]))" for r
  proof -
    obtain k where k: "d \<le> k" "k < d'" "r \<in> set (dayRows e c F collate org loc z s p k)" using r by auto
    then have "rangeRow org loc z k (k + 1) p r" using dayRows_good(2) [OF ok] by blast
    then have "rangeRow org loc z k d' p r" using k(2) range_split(1) [of k "k + 1" d'] by simp
    then show ?thesis using k range_split(1) [of d k d'] by simp
  qed
  then have "filter (\<lambda>r. \<not> rangeRow org loc z d d' p r) (concat (map (dayRows e c F collate org loc z s p) [d..d' - 1])) = []"
    by (auto simp: filter_empty_conv)
  then show "projected e c F collate org loc z s d d' (projected e c F collate org loc z s d d' g) p =
      projected e c F collate org loc z s d d' g p"
    by (simp add: projected_def)
qed

end

lemma projected_same [simp]:
  "projected e c F collate org loc z (s\<lparr>metrics := g, checkpoints := ks\<rparr>) = projected e c F collate org loc z s"
  by (intro ext) (simp add: projected_def)

text \<open>
  C22. After a rebuild the metric tables are a view of the operational tables: for every table, the rows of the
  location and of the days of the range are those \<open>dayRows\<close> derives, in that order, and all other rows and
  tables are as before. The rebuild processes every day of the range and succeeds, whatever the tables held.
\<close>
theorem rebuild_projects:
  assumes "daily_zone z \<and> projectable e c F load org loc z s \<and> visible_platform e c"
    and "dateOf from \<le> dateOf to \<and> dateOf to - dateOf from \<le> int turns"
  shows "\<exists>ks. rebuildRange turns e c F collate load org loc from to s =
    Inr (dateOf to - dateOf from,
         s\<lparr>metrics := projected e c F collate org loc z s (dateOf from) (dateOf to) (metrics s), checkpoints := ks\<rparr>)"
  using daily_zone.rebuildRange_projects [of z e c F load org loc s "from" to turns collate] assms by simp

text \<open>
  Rebuilding a range again in the same world changes nothing but the checkpoint.
\<close>
theorem rebuild_is_idempotent:
  assumes "daily_zone z \<and> projectable e c F load org loc z s \<and> visible_platform e c"
    and "dateOf from \<le> dateOf to \<and> dateOf to - dateOf from \<le> int turns"
    and "rebuildRange turns e c F collate load org loc from to s = Inr (n, s')"
  shows "\<exists>ks. rebuildRange turns e c F collate load org loc from to s' = Inr (n, s'\<lparr>checkpoints := ks\<rparr>)"
proof -
  let ?g = "projected e c F collate org loc z s (dateOf from) (dateOf to) (metrics s)"
  have z: "daily_zone z" and ok: "projectable e c F load org loc z s" and adm: "visible_platform e c" using assms(1) by simp_all
  note run = daily_zone.rebuildRange_projects [OF z _ adm, of F load org loc _ "from" to turns collate]
  obtain ks where s': "n = dateOf to - dateOf from" "s' = s\<lparr>metrics := ?g, checkpoints := ks\<rparr>"
    using run [OF ok] assms(2,3) by auto
  have ok': "projectable e c F load org loc z s'" using ok by (simp add: s'(2))
  obtain ks' where "rebuildRange turns e c F collate load org loc from to s' =
      Inr (n, s'\<lparr>metrics := projected e c F collate org loc z s' (dateOf from) (dateOf to) (metrics s'), checkpoints := ks'\<rparr>)"
    using run [OF ok'] assms(2) s'(1) by auto
  moreover have "projected e c F collate org loc z s' (dateOf from) (dateOf to) (metrics s') = metrics s'"
    using daily_zone.projected_again [OF z ok] assms(2) by (simp add: s'(2))
  ultimately show ?thesis by (intro exI [of _ ks']) simp
qed


section \<open>The day the projector rebuilds\<close>

lemma utc_date: "dateOf (inZone t UTC) = instant t div dayNanos"
  by (simp add: dateOf_def inZone_def UTC_def fixedZone_def)

text \<open>
  The date at Greenwich when a day begins at a place whose clocks are less than a day away: the same date, or
  the one before when the place is ahead of Greenwich at that moment.
\<close>

definition ahead :: "tz \<Rightarrow> int \<Rightarrow> bool" where
  "ahead z d \<longleftrightarrow> instantOf z d 0 < d * dayNanos"

lemma utc_midnight:
  assumes "\<bar>instantOf z d 0 - d * dayNanos\<bar> < dayNanos"
  shows "instantOf z d 0 div dayNanos = d - (if ahead z d then 1 else 0)"
proof (cases "ahead z d")
  case True
  have "instantOf z d 0 div dayNanos = d - 1"
    by (rule int_div_pos_eq [where r = "instantOf z d 0 - (d - 1) * dayNanos"])
      (use assms True in \<open>simp_all add: ahead_def algebra_simps\<close>)
  with True show ?thesis by simp
next
  case False
  have "instantOf z d 0 div dayNanos = d"
    by (rule int_div_pos_eq [where r = "instantOf z d 0 - d * dayNanos"])
      (use assms False in \<open>simp_all add: ahead_def algebra_simps\<close>)
  with False show ?thesis by simp
qed

context midnight_zone
begin

lemma utc_window:
  assumes "\<And>d. \<bar>instantOf z d 0 - d * dayNanos\<bar> < dayNanos" and "localDateWindow t z = (start, stop)"
  shows "dateOf start = dateOf (inZone t z) - (if ahead z (dateOf (inZone t z)) then 1 else 0)"
    and "dateOf stop = dateOf (inZone t z) + 1 - (if ahead z (dateOf (inZone t z) + 1) then 1 else 0)"
proof -
  have w: "start = inZone (goDate (dateOf (inZone t z)) 0 z) UTC" "stop = inZone (goDate (dateOf (inZone t z) + 1) 0 z) UTC"
    using assms(2) by (simp_all add: localDateWindow_def Let_def)
  show "dateOf start = dateOf (inZone t z) - (if ahead z (dateOf (inZone t z)) then 1 else 0)"
    "dateOf stop = dateOf (inZone t z) + 1 - (if ahead z (dateOf (inZone t z) + 1) then 1 else 0)"
    unfolding w utc_date instant_midnight by (rule utc_midnight [OF assms(1)])+
qed

end

lemma durationSeconds_nonneg: "rounding f \<Longrightarrow> 0 \<le> d \<Longrightarrow> 0 \<le> durationSeconds f d"
  by (simp add: durationSeconds_def rounding_nonneg second_def pos_imp_zdiv_nonneg_iff)

lemma checkpoint_ok:
  assumes "rounding (fl F)" and "visible_platform e c" and "\<And>site. \<not> fault e site"
  shows "\<exists>ks. upsertCheckpoint e c F event s = Inr ((), s\<lparr>checkpoints := ks\<rparr>)"
proof -
  have "0 \<le> durationSeconds (fl F) (max 0 (timeSub (wall e) (ev_OccurredAt event)))"
    by (rule durationSeconds_nonneg [OF assms(1)]) simp
  then have "\<exists>ks. upsertRow e c \<lparr>k_projector_name = a, k_projector_version = v, k_cursor_occurred_at = o1, k_cursor_event_id = o2,
      k_lag_seconds = durationSeconds (fl F) (max 0 (timeSub (wall e) (ev_OccurredAt event))), k_rebuild_status = st,
      k_rebuild_started_at = o3, k_rebuild_completed_at = o4, k_updated_at = u\<rparr> f s = Inr ((), s\<lparr>checkpoints := ks\<rparr>)"
    for a v o1 o2 st o3 o4 u f by (intro upsert_ok [OF assms(2)]) simp
  then show ?thesis unfolding upsertCheckpoint_def Let_def by (simp only: runQuery_Inr assms(3) simp_thms)
qed

lemma uncounted_Inr: "m s = Inr r \<Longrightarrow> uncounted m s = Inr r"
  by (cases r) (simp add: uncounted_def)

text \<open>
  C24. The days the projector rebuilds for an event, at a location whose clocks do not change at midnight and are
  less than a day away from Greenwich: from the day of the event at the location until the next, either end one day
  earlier when the location is ahead of Greenwich as that day begins, for the window is computed in UTC and the rebuild
  reads its dates as dates of the location. So it is the day of the event where both days begin at or after midnight at
  Greenwich, the day before where both begin before it, no day at all when the clocks went forward from Greenwich in
  between, and both days when they went back to Greenwich. Those days are projected afresh and all other metrics kept.
\<close>
theorem projector_day:
  assumes "projectable e admin_context F load (ev_OrganisationID event) (ev_LocationID event) z s"
    and "daily_zone z \<and> (\<forall>d. \<bar>instantOf z d 0 - d * dayNanos\<bar> < dayNanos)"
    and "2 \<le> turns \<and> commit e = Committed"
  shows "\<exists>ks. let day = fst (civil z (ev_OccurredAt event));
      first = (if instantOf z day 0 < day * dayNanos then day - 1 else day);
      stop = (if instantOf z (day + 1) 0 < (day + 1) * dayNanos then day else day + 1)
    in first \<le> stop \<and> stop \<le> first + 2 \<and>
       Handle turns e F collate load event s =
         (Inr (), s\<lparr>metrics := projected e admin_context F collate (ev_OrganisationID event) (ev_LocationID event) z s
                                 first stop (metrics s), checkpoints := ks\<rparr>)"
proof -
  let ?o = "ev_OrganisationID event" and ?l = "ev_LocationID event" and ?t = "\<lparr>instant = ev_OccurredAt event, zone = UTC\<rparr>"
  define day where "day = fst (civil z (ev_OccurredAt event))"
  define first where "first = (if instantOf z day 0 < day * dayNanos then day - 1 else day)"
  define stop where "stop = (if instantOf z (day + 1) 0 < (day + 1) * dayNanos then day else day + 1)"
  have z: "daily_zone z" "midnight_zone z" using assms(2) by (simp_all add: daily_zone_def)
  have adm: "visible_platform e admin_context" by (simp add: visible_platform_def admin_context_def)
  have nf: "\<not> fault e site" for site using assms(1) by simp
  obtain a b where w: "localDateWindow ?t z = (a, b)" by (cases "localDateWindow ?t z")
  have "dateOf (inZone ?t z) = day" by (simp add: day_def dateOf_def inZone_def)
  then have days: "dateOf a = first" "dateOf b = stop"
    using midnight_zone.utc_window [OF z(2) _ w] assms(2) by (simp_all add: first_def stop_def ahead_def)
  have range: "first \<le> stop" "stop \<le> first + 2" by (auto simp: first_def stop_def)
  let ?m = "projected e admin_context F collate ?o ?l z s first stop (metrics s)"
  obtain ks where run: "rebuildRange turns e admin_context F collate load ?o ?l a b s =
      Inr (stop - first, s\<lparr>metrics := ?m, checkpoints := ks\<rparr>)"
    using daily_zone.rebuildRange_projects [OF z(1) assms(1) adm, of a b turns collate] assms(3) days range by auto
  let ?s = "s\<lparr>metrics := ?m, checkpoints := ks\<rparr>"
  obtain l where l: "getLocation e admin_context ''getting projector location'' None ?o ?l s = Inr (l, s)"
    "loadZone load ''loading location timezone'' l s = Inr (z, s)"
    using getLocation_ok [OF assms(1), where g = "metrics s" and site = "''getting projector location''" and nr = None
        and site' = "''loading location timezone''"] by auto
  have "rounding (fl F)" using assms(1) by (simp add: projectable_def)
  then obtain ks' where up: "upsertCheckpoint e admin_context F event ?s = Inr ((), ?s\<lparr>checkpoints := ks'\<rparr>)"
    using checkpoint_ok [OF _ adm nf] by blast
  have "handleInTx turns e admin_context F collate load event s = Inr ((), ?s\<lparr>checkpoints := ks'\<rparr>)"
    unfolding handleInTx_def
    by (rule txBind_step, rule l(1), rule txBind_step, rule l(2), unfold w prod.case, rule txBind_step, rule uncounted_Inr,
        rule run, rule up)
  then have "Handle turns e F collate load event s = (Inr (), s\<lparr>metrics := ?m, checkpoints := ks'\<rparr>)"
    using assms(3) nf by (simp add: Handle_def)
  then show ?thesis unfolding Let_def using range unfolding first_def stop_def day_def by blast
qed

section \<open>What the bodies leave alone\<close>

text \<open>The bodies of the analytics service, for any order that bodies follow.\<close>

locale analytics_order = body_order rel for rel :: "adb \<Rightarrow> adb \<Rightarrow> bool"
begin

lemma each_follows [keeps_intros]: "(\<And>x. follows rel (f x)) \<Longrightarrow> follows rel (eachTx f xs)"
  by (induction xs) (auto intro: return_follows bind_follows)

lemma after_follows [keeps_intros]: "follows rel m \<Longrightarrow> follows rel (after n m)"
  by (rule followsI) (auto simp: after_def dest!: map_sum_InrE followsD elim!: map_sum_InrE)

lemma uncounted_follows [keeps_intros]: "follows rel m \<Longrightarrow> follows rel (uncounted m)"
  by (rule followsI) (auto simp: uncounted_def dest: followsD elim!: map_sum_InrE)

lemma unit_sum_follows [keeps_intros]:
  "(\<And>x. follows rel (f x)) \<Longrightarrow> (\<And>y. follows rel (g y)) \<Longrightarrow> follows rel (case z of Inl x \<Rightarrow> f x | Inr y \<Rightarrow> g y)"
  by (cases z) simp_all

lemma unit_follows [keeps_intros]: "follows rel m \<Longrightarrow> follows rel (case_unit m z)"
  by (metis old.unit.case old.unit.exhaust)

lemma shared_follows [keeps_intros]: "follows rel (onShared q)"
  unfolding onShared_def by (rule reading_follows)

lemma days_follows [keeps_intros]: "(\<And>day. follows rel (f day)) \<Longrightarrow> follows rel (rebuildDays f days n)"
  by (induction days arbitrary: n) (auto intro!: return_follows bind_follows after_follows)

end

text \<open>A rebuild writes the metric tables and the checkpoint only.\<close>

definition frameRel :: "adb \<Rightarrow> adb \<Rightarrow> bool" where
  "frameRel s s' \<longleftrightarrow> s' = s\<lparr>metrics := metrics s', checkpoints := checkpoints s'\<rparr>"

interpretation frame: analytics_order frameRel
proof
  show "frameRel s s" for s by (simp add: frameRel_def)
  show "frameRel s1 s3" if "frameRel s1 s2" "frameRel s2 s3" for s1 s2 s3
  proof -
    have "s2 = s1\<lparr>metrics := metrics s2, checkpoints := checkpoints s2\<rparr>" "s3 = s2\<lparr>metrics := metrics s3, checkpoints := checkpoints s3\<rparr>"
      using that by (simp_all add: frameRel_def)
    then have "s3 = s1\<lparr>metrics := metrics s2, checkpoints := checkpoints s2\<rparr>\<lparr>metrics := metrics s3, checkpoints := checkpoints s3\<rparr>"
      by metis
    then show ?thesis by (simp add: frameRel_def)
  qed
qed


lemma frame_insertMetric [keeps_intros]: "follows frameRel (insertMetric e c p r)"
  by (rule followsI) (auto simp: insertMetric_def setMetrics_def frameRel_def elim!: map_sum_InrE)

lemma frame_deleteDay [keeps_intros]: "follows frameRel (deleteDay e c org loc day p)"
  by (rule followsI) (auto simp: deleteDay_def setMetrics_def frameRel_def)

lemma frame_upsertRow [keeps_intros]: "follows frameRel (upsertRow e c new f)"
  by (rule followsI) (auto simp: upsertRow_def frameRel_def split: option.splits)

lemma frame_markRebuildIdle [keeps_intros]: "follows frameRel (markRebuildIdle e c)"
  by (rule followsI) (auto simp: markRebuildIdle_def frameRel_def)

lemma frame_if [keeps_intros]: "follows frameRel m \<Longrightarrow> follows frameRel m' \<Longrightarrow> follows frameRel (if b then m else m')"
  by simp

lemma frame_rebuildDay [keeps_intros]: "follows frameRel (rebuildDay e c F collate load org loc z day)"
  unfolding rebuildDay_def clearProjectionDay_def projectDay_def projectLocation_def projectGrouped_def projectTables_def
    projectPeriod_def insertServicePeriodMetric_def calculateWindowMetric_def getLocation_def loadZone_def Let_def
  by (intro keeps_intros)

lemma frame_rebuildRange: "follows frameRel (rebuildRange turns e c F collate load org loc from to)"
  unfolding rebuildRange_def getLocation_def loadZone_def markRebuildRunning_def
  by (intro keeps_intros)

section \<open>The record of a manual rebuild\<close>

lemma inAnalyticsTx_Inr:
  "inAnalyticsTx e actor fn s = (Inr v, s') \<Longrightarrow>
     fn (tenant_context (ta_OrganisationID actor) (ta_LocationID actor)) s = Inr (v, s')"
  by (auto simp: inAnalyticsTx_def split: if_splits sum.splits commit_outcome.splits)

lemma inAnalyticsTx_follows:
  assumes "body_order rel" and "\<And>c. follows rel (fn c)"
  shows "rel s (snd (inAnalyticsTx e actor fn s))"
  using followsD [OF assms(2)] body_order.rel_refl [OF assms(1)]
  by (auto simp: inAnalyticsTx_def split: sum.splits commit_outcome.splits)

definition healthy :: "env \<Rightarrow> bool" where
  "healthy e \<longleftrightarrow> (\<forall>site. \<not> fault e site) \<and> commit e = Committed"

lemma inAnalyticsTx_healthy:
  "healthy e \<Longrightarrow> fn (tenant_context (ta_OrganisationID actor) (ta_LocationID actor)) s = Inr (v, s') \<Longrightarrow>
     inAnalyticsTx e actor fn s = (Inr v, s')"
  by (simp add: inAnalyticsTx_def healthy_def)

lemma insertRebuildRun_Inr:
  assumes "insertRebuildRun e c i actor a b s = Inr (run, s')"
  shows "s' = s\<lparr>rebuild_runs := rebuild_runs s @ [run]\<rparr> \<and> run_ID run = i \<and> run_OrganisationID run = ta_OrganisationID actor \<and>
    run_LocationID run = ta_LocationID actor \<and> runCheck run = None \<and> i \<notin> run_ID ` set (rebuild_runs s)"
  using assms
  by (auto simp: insertRebuildRun_def Let_def insertRow_Inr elim!: map_sum_InrE split: if_splits option.splits)

lemma createRebuildRun_Inr:
  "createRebuildRun e c actor from to s = Inr (run, s') \<Longrightarrow>
     s' = s\<lparr>rebuild_runs := rebuild_runs s @ [run]\<rparr> \<and> run_ID run = gen e 0 \<and> run_OrganisationID run = ta_OrganisationID actor \<and>
     run_LocationID run = ta_LocationID actor \<and> runCheck run = None \<and> run_ID run \<notin> run_ID ` set (rebuild_runs s)"
  unfolding createRebuildRun_def runQuery_Inr by (drule conjunct2, drule insertRebuildRun_Inr) simp

text \<open>The number of days is never negative.\<close>

definition countedOk :: "(an_error fail \<times> int) + (int \<times> adb) \<Rightarrow> bool" where
  "countedOk r \<longleftrightarrow> (case r of Inl (err, k) \<Rightarrow> 0 \<le> k | Inr (k, s') \<Rightarrow> 0 \<le> k)"

lemma countedOk_after: "0 \<le> n \<Longrightarrow> (\<And>x s'. countedOk (f x s')) \<Longrightarrow> countedOk (txBind (after n m) f s)"
  by (cases "m s") (auto simp: txBind_def after_def countedOk_def [of "Inl (_, _)"])

lemma countedOk_bind: "countedOk (m s) \<Longrightarrow> (\<And>k s'. 0 \<le> k \<Longrightarrow> countedOk (f k s')) \<Longrightarrow> countedOk (txBind m f s)"
  by (cases "m s") (auto simp: txBind_def countedOk_def)

lemma rebuildDays_count: "0 \<le> n \<Longrightarrow> countedOk (rebuildDays f days n s)"
proof (induction days arbitrary: n s)
  case (Cons day days)
  show ?case unfolding rebuildDays.simps by (rule countedOk_after) (use Cons in simp_all)
qed (simp add: countedOk_def)

lemma rebuildRange_count: "countedOk (rebuildRange turns e c F collate load org loc from to s)"
proof -
  have "countedOk ((case daysUntil turns a b of
          None \<Rightarrow> txFail (Err OutOfTurns, 0)
        | Some days \<Rightarrow> txBind (rebuildDays f days 0) (\<lambda>n. txBind (after n m) (\<lambda>_. txReturn n))) s)"
    for a b f m and s :: adb
    by (cases "daysUntil turns a b") (auto intro!: countedOk_bind rebuildDays_count countedOk_after simp: countedOk_def [of "Inr (_, _)"] countedOk_def [of "Inl (_, _)"])
  then show ?thesis unfolding rebuildRange_def by (intro countedOk_after order_refl)
qed

lemma daysProcessedBy_nonneg: "countedOk r \<Longrightarrow> 0 \<le> daysProcessedBy e r"
  by (auto simp: daysProcessedBy_def countedOk_def split: sum.splits)

text \<open>The last transaction finds the run and finishes it.\<close>

lemma finish_healthy:
  assumes h: "healthy e" and runs: "rebuild_runs s = pre @ [run]" and fresh: "run_ID run \<notin> run_ID ` set pre"
    and run: "run_OrganisationID run = ta_OrganisationID actor" "run_LocationID run = ta_LocationID actor" "runCheck run = None"
    and args: "status \<in> {''completed'', ''failed''}" "0 \<le> days"
  shows "\<exists>run' s'. inAnalyticsTx e actor (\<lambda>c. finishRebuildRun e c (run_ID run) status days lastError) s = (Inr run', s') \<and>
    run' \<in> set (rebuild_runs s') \<and>
    run' = run\<lparr>run_Status := status, run_CompletedAt := Some (now e), run_DaysProcessed := days, run_LastError := nullableText lastError\<rparr>"
proof -
  let ?f = "\<lambda>r. r\<lparr>run_Status := status, run_CompletedAt := Some (now e), run_DaysProcessed := days, run_LastError := nullableText lastError\<rparr>"
  let ?c = "tenant_context (ta_OrganisationID actor) (ta_LocationID actor)"
  let ?P = "\<lambda>r. visible e ?c (run_OrganisationID r) (run_LocationID r) \<and> run_ID r = run_ID run"
  have "find ?P (pre @ [run]) = Some run"
    using fresh run by (induction pre) auto
  moreover have "runCheck (?f run) = None" using run(3) args by (auto simp: runCheck_def firstViolation_None)
  ultimately have "updateOne ?P runCheck ?f (pre @ [run]) = Inr (?f run, map (\<lambda>x. if ?P x then ?f x else x) (pre @ [run]))"
    by (simp add: updateOne_def)
  then have "finishRebuildRun e ?c (run_ID run) status days lastError s =
      Inr (?f run, s\<lparr>rebuild_runs := map (\<lambda>x. if ?P x then ?f x else x) (pre @ [run])\<rparr>)"
    using h by (simp add: finishRebuildRun_def healthy_def runs)
  then have "inAnalyticsTx e actor (\<lambda>c. finishRebuildRun e c (run_ID run) status days lastError) s =
      (Inr (?f run), s\<lparr>rebuild_runs := map (\<lambda>x. if ?P x then ?f x else x) (pre @ [run])\<rparr>)"
    by (rule inAnalyticsTx_healthy [OF h])
  then show ?thesis using run by auto
qed

text \<open>The other transactions leave the metric tables and the checkpoint alone.\<close>

definition keptRel :: "adb \<Rightarrow> adb \<Rightarrow> bool" where
  "keptRel s s' \<longleftrightarrow> metrics s' = metrics s \<and> checkpoints s' = checkpoints s"

interpretation kept: analytics_order keptRel
  by unfold_locales (auto simp: keptRel_def)

lemma kept_run [keeps_intros]:
  "follows keptRel (insertRebuildRun e c i actor a b)"
  "follows keptRel (\<lambda>s. map_sum id (\<lambda>(r, rs). (r, s\<lparr>rebuild_runs := rs\<rparr>)) (q s))"
  by (auto intro!: followsI simp: keptRel_def dest!: insertRebuildRun_Inr elim!: map_sum_InrE)

lemma kept_bodies:
  "follows keptRel (requireManage e c actor)" "follows keptRel (createRebuildRun e c actor from to)"
  "follows keptRel (finishRebuildRun e c i status days msg)"
  unfolding requireManage_def requirePermission_def createRebuildRun_def finishRebuildRun_def by (intro keeps_intros)+

lemma kept_tx:
  "keptRel s (snd (inAnalyticsTx e actor (\<lambda>c. requireManage e c actor) s))"
  "keptRel s (snd (inAnalyticsTx e actor (\<lambda>c. createRebuildRun e c actor from to) s))"
  "keptRel s (snd (inAnalyticsTx e actor (\<lambda>c. finishRebuildRun e c i status days msg) s))"
  by (rule inAnalyticsTx_follows [OF kept.body_order_axioms], rule kept_bodies)+

lemma Rebuild_unfold:
  assumes "validActor (rb_Actor arg) \<and> rb_LocationID arg = ta_LocationID (rb_Actor arg) \<and> instant (rb_From arg) < instant (rb_To arg)"
    and "inAnalyticsTx e1 (rb_Actor arg) (\<lambda>c. requireManage e1 c (rb_Actor arg)) s = (Inr (), s1)"
    and "inAnalyticsTx e2 (rb_Actor arg) (\<lambda>c. createRebuildRun e2 c (rb_Actor arg) (rb_From arg) (rb_To arg)) s1 = (Inr run, s2)"
  obtains rebuilt s3 days where
    "inAnalyticsTx e3 (rb_Actor arg) (\<lambda>c. uncounted (rebuildRange turns e3 c F collate load (ta_OrganisationID (rb_Actor arg))
       (rb_LocationID arg) (rb_From arg) (rb_To arg))) s2 = (rebuilt, s3)"
    and "0 \<le> days"
    and "Rebuild turns e1 e2 e3 e4 F collate load Error arg s =
      (case inAnalyticsTx e4 (rb_Actor arg) (\<lambda>c. finishRebuildRun e4 c (run_ID run)
              (case rebuilt of Inl err \<Rightarrow> ''failed'' | Inr n \<Rightarrow> ''completed'') days
              (case rebuilt of Inl err \<Rightarrow> Error err | Inr n \<Rightarrow> '''')) s3 of
         (finished, s4) \<Rightarrow>
           (case (rebuilt, finished) of
              (Inl err, Inl err') \<Rightarrow> Inl (Joined err err')
            | (Inl err, Inr r) \<Rightarrow> Inl err
            | (Inr n, Inl err') \<Rightarrow> Inl err'
            | (Inr n, Inr r) \<Rightarrow> Inr r, s4))"
proof -
  let ?body = "\<lambda>c. rebuildRange turns e3 c F collate load (ta_OrganisationID (rb_Actor arg)) (rb_LocationID arg) (rb_From arg) (rb_To arg)"
  obtain rebuilt s3 where t: "inAnalyticsTx e3 (rb_Actor arg) (\<lambda>c. uncounted (?body c)) s2 = (rebuilt, s3)"
    by (cases "inAnalyticsTx e3 (rb_Actor arg) (\<lambda>c. uncounted (?body c)) s2")
  let ?days = "daysProcessedBy e3 (?body (tenant_context (ta_OrganisationID (rb_Actor arg)) (ta_LocationID (rb_Actor arg))) s2)"
  have "0 \<le> ?days" by (intro daysProcessedBy_nonneg rebuildRange_count)
  moreover have "(case rebuilt of Inl err \<Rightarrow> (''failed'', Error err) | Inr n \<Rightarrow> (''completed'', '''')) =
      (case rebuilt of Inl err \<Rightarrow> ''failed'' | Inr n \<Rightarrow> ''completed'', case rebuilt of Inl err \<Rightarrow> Error err | Inr n \<Rightarrow> '''')"
    by (cases rebuilt) simp_all
  ultimately show ?thesis
    using that [OF t, of ?days] assms t by (simp add: Rebuild_def Let_def)
qed

text \<open>
  C23. A manual rebuild that was allowed and whose run was created leaves a finished record of that run, whatever
  the rebuild itself ran into, when the last transaction goes through: completed, without an error, exactly when
  the caller gets the run back; failed, with the text of the caller's error, otherwise, and then the metric tables
  are as before unless a commit was lost.
\<close>
theorem rebuild_attempt_recorded:
  assumes "validActor (rb_Actor arg) \<and> rb_LocationID arg = ta_LocationID (rb_Actor arg) \<and> instant (rb_From arg) < instant (rb_To arg)"
    and "inAnalyticsTx e1 (rb_Actor arg) (\<lambda>c. requireManage e1 c (rb_Actor arg)) s = (Inr (), s1)"
    and "inAnalyticsTx e2 (rb_Actor arg) (\<lambda>c. createRebuildRun e2 c (rb_Actor arg) (rb_From arg) (rb_To arg)) s1 = (Inr run, s2)"
    and "healthy e4 \<and> (\<forall>err. Error err \<noteq> '''')"
    and "Rebuild turns e1 e2 e3 e4 F collate load Error arg s = (r, s')"
  shows "\<exists>run'. run' \<in> set (rebuild_runs s') \<and> run_ID run' = run_ID run \<and> run_CompletedAt run' = Some (now e4) \<and>
    (case r of
       Inr v \<Rightarrow> v = run' \<and> run_Status run' = ''completed'' \<and> run_LastError run' = None
     | Inl err \<Rightarrow> run_Status run' = ''failed'' \<and> run_LastError run' = Some (Error err) \<and>
         (commit e3 \<noteq> CommitUnacked \<longrightarrow> metrics s' = metrics s))"
proof -
  let ?a = "rb_Actor arg"
  obtain rebuilt s3 days where t: "inAnalyticsTx e3 ?a (\<lambda>c. uncounted (rebuildRange turns e3 c F collate load (ta_OrganisationID ?a)
       (rb_LocationID arg) (rb_From arg) (rb_To arg))) s2 = (rebuilt, s3)" and days: "0 \<le> days"
    and R: "Rebuild turns e1 e2 e3 e4 F collate load Error arg s =
      (case inAnalyticsTx e4 ?a (\<lambda>c. finishRebuildRun e4 c (run_ID run)
              (case rebuilt of Inl err \<Rightarrow> ''failed'' | Inr n \<Rightarrow> ''completed'') days
              (case rebuilt of Inl err \<Rightarrow> Error err | Inr n \<Rightarrow> '''')) s3 of
         (finished, s4) \<Rightarrow>
           (case (rebuilt, finished) of
              (Inl err, Inl err') \<Rightarrow> Inl (Joined err err')
            | (Inl err, Inr r) \<Rightarrow> Inl err
            | (Inr n, Inl err') \<Rightarrow> Inl err'
            | (Inr n, Inr r) \<Rightarrow> Inr r, s4))"
    by (rule Rebuild_unfold [OF assms(1-3)])
  have run: "rebuild_runs s2 = rebuild_runs s1 @ [run]" "run_OrganisationID run = ta_OrganisationID ?a"
    "run_LocationID run = ta_LocationID ?a" "runCheck run = None" "run_ID run \<notin> run_ID ` set (rebuild_runs s1)"
    using createRebuildRun_Inr [OF inAnalyticsTx_Inr [OF assms(3)]] by auto
  have "frameRel s2 s3"
    using inAnalyticsTx_follows [OF frame.body_order_axioms, of _ s2 e3 ?a] t frame_rebuildRange frame.uncounted_follows by (metis snd_conv)
  then have s3: "rebuild_runs s3 = rebuild_runs s1 @ [run]" using run(1) unfolding frameRel_def
    by (metis adb.select_convs(7) adb.surjective adb.update_convs(5) adb.update_convs(6))
  let ?st = "case rebuilt of Inl err \<Rightarrow> ''failed'' | Inr n \<Rightarrow> ''completed''" and ?msg = "case rebuilt of Inl err \<Rightarrow> Error err | Inr n \<Rightarrow> ''''"
  have "?st \<in> {''completed'', ''failed''}" by (cases rebuilt) simp_all
  from finish_healthy [OF _ s3 run(5,2,3,4) this days, of e4 ?msg] assms(4)
  obtain run' s4 where f: "inAnalyticsTx e4 ?a (\<lambda>c. finishRebuildRun e4 c (run_ID run) ?st days ?msg) s3 = (Inr run', s4)"
    "run' \<in> set (rebuild_runs s4)"
    "run' = run\<lparr>run_Status := ?st, run_CompletedAt := Some (now e4), run_DaysProcessed := days, run_LastError := nullableText ?msg\<rparr>"
    by blast
  have s': "s' = s4" "r = (case rebuilt of Inl err \<Rightarrow> Inl err | Inr n \<Rightarrow> Inr run')"
    using R f(1) assms(5) by (auto split: sum.splits)
  have "metrics s4 = metrics s" if "rebuilt = Inl err" "commit e3 \<noteq> CommitUnacked" for err
  proof -
    have "s3 = s2" using t that by (auto simp: inAnalyticsTx_def split: if_splits sum.splits commit_outcome.splits)
    moreover have "keptRel s s1" "keptRel s1 s2" "keptRel s3 s4"
      using kept_tx(1) [of s e1 ?a] kept_tx(2) [of s1 e2 ?a] kept_tx(3) [of s3 e4 ?a] assms(2,3) f(1) by (metis snd_conv)+
    ultimately show ?thesis by (simp add: keptRel_def)
  qed
  then show ?thesis using f(2) assms(4)
    by (intro exI [of _ run']) (auto simp: s' f(3) nullableText_def split: sum.splits)
qed

text \<open>
  Under row security a manual rebuild never succeeds and changes no metric: the transaction runs in the
  tenant's context, and the first statement of the rebuild writes the checkpoint, which only the platform may.
\<close>
theorem manual_rebuild_refused:
  assumes "rls e3"
  shows "(\<exists>err. fst (Rebuild turns e1 e2 e3 e4 F collate load Error arg s) = Inl err) \<and>
    metrics (snd (Rebuild turns e1 e2 e3 e4 F collate load Error arg s)) = metrics s"
proof -
  let ?a = "rb_Actor arg"
  have no: "rebuildRange turns e3 (tenant_context org loc) F collate load org' loc' from to t \<noteq> Inr v" for org loc org' loc' "from" to t v
  proof
    assume "rebuildRange turns e3 (tenant_context org loc) F collate load org' loc' from to t = Inr v"
    then obtain t1 u t2 where "markRebuildRunning e3 (tenant_context org loc) t1 = Inr (u, t2)"
      unfolding rebuildRange_def by (auto simp: txBind_Inr_iff after_def runQuery_Inr elim!: map_sum_InrE)
    then show False
      using assms
      by (simp add: markRebuildRunning_def upsertRow_def visible_platform_def tenant_context_def firstViolation.simps)
  qed
  show ?thesis
  proof (cases "validActor ?a \<and> rb_LocationID arg = ta_LocationID ?a \<and> instant (rb_From arg) < instant (rb_To arg)")
    case False
    then show ?thesis by (auto simp: Rebuild_def Let_def)
  next
    case valid: True
    obtain r1 s1 where 1: "inAnalyticsTx e1 ?a (\<lambda>c. requireManage e1 c ?a) s = (r1, s1)"
      by (cases "inAnalyticsTx e1 ?a (\<lambda>c. requireManage e1 c ?a) s")
    have k1: "keptRel s s1" using kept_tx(1) [of s e1 ?a] by (simp add: 1)
    show ?thesis
    proof (cases r1)
      case (Inl err)
      then show ?thesis using valid 1 k1 by (simp add: Rebuild_def Let_def keptRel_def)
    next
      case (Inr u)
      then have ok1: "r1 = Inr ()" by simp
      obtain r2 s2 where 2: "inAnalyticsTx e2 ?a (\<lambda>c. createRebuildRun e2 c ?a (rb_From arg) (rb_To arg)) s1 = (r2, s2)"
        by (cases "inAnalyticsTx e2 ?a (\<lambda>c. createRebuildRun e2 c ?a (rb_From arg) (rb_To arg)) s1")
      have k2: "keptRel s1 s2" using kept_tx(2) [of s1 e2 ?a] by (metis 2 snd_conv)
      show ?thesis
      proof (cases r2)
        case (Inl err)
        then show ?thesis using valid 1 2 ok1 k1 k2 by (simp add: Rebuild_def Let_def keptRel_def)
      next
        case ok2: (Inr run)
        obtain rebuilt s3 days where t: "inAnalyticsTx e3 ?a (\<lambda>c. uncounted (rebuildRange turns e3 c F collate load (ta_OrganisationID ?a)
             (rb_LocationID arg) (rb_From arg) (rb_To arg))) s2 = (rebuilt, s3)"
          and R: "Rebuild turns e1 e2 e3 e4 F collate load Error arg s =
            (case inAnalyticsTx e4 ?a (\<lambda>c. finishRebuildRun e4 c (run_ID run)
                    (case rebuilt of Inl err \<Rightarrow> ''failed'' | Inr n \<Rightarrow> ''completed'') days
                    (case rebuilt of Inl err \<Rightarrow> Error err | Inr n \<Rightarrow> '''')) s3 of
               (finished, s4) \<Rightarrow>
                 (case (rebuilt, finished) of
                    (Inl err, Inl err') \<Rightarrow> Inl (Joined err err')
                  | (Inl err, Inr r) \<Rightarrow> Inl err
                  | (Inr n, Inl err') \<Rightarrow> Inl err'
                  | (Inr n, Inr r) \<Rightarrow> Inr r, s4))"
          by (rule Rebuild_unfold [OF valid 1 [unfolded ok1] 2 [unfolded ok2]])
        have "s3 = s2 \<and> (\<exists>err. rebuilt = Inl err)"
          using t no by (auto simp: inAnalyticsTx_def uncounted_def split: if_splits sum.splits commit_outcome.splits elim!: map_sum_InrE)
        then obtain err where failed: "s3 = s2" "rebuilt = Inl err" by blast
        show ?thesis
          using R failed kept_tx(3) [of s2 e4 ?a "run_ID run" "''failed''" days "Error err"] k1 k2
          by (auto simp: keptRel_def split: prod.splits sum.splits)
      qed
    qed
  qed
qed

section \<open>Witnesses\<close>

definition sampleZones :: "string \<Rightarrow> tz option" where
  "sampleZones name = (if name = ''UTC'' then Some (fixedZone 7200) else None)"

lemma sample_projectable:
  "projectable sampleEnv admin_context sampleFloats sampleZones 1 2 (fixedZone 7200) sampleAdb"
  by (rule sampleAdb_projectable) (simp_all add: sampleZones_def)

lemma sample_admin: "visible_platform sampleEnv admin_context"
  by (simp add: visible_platform_def admin_context_def)

lemma sample_daily: "daily_zone (fixedZone 7200)"
  by (rule fixed.daily_zone_axioms)

text \<open>Witness of C22: two days of the sample.\<close>
theorem rebuild_projects_witness:
  "\<exists>ks. rebuildRange 5 sampleEnv admin_context sampleFloats (\<lambda>name. 0) sampleZones 1 2 (goDate 20000 0 UTC) (goDate 20002 0 UTC) sampleAdb =
    Inr (2, sampleAdb\<lparr>metrics := projected sampleEnv admin_context sampleFloats (\<lambda>name. 0) 1 2 (fixedZone 7200) sampleAdb 20000 20002
                             (metrics sampleAdb), checkpoints := ks\<rparr>)"
proof -
  have "dateOf (goDate 20000 0 UTC) = 20000" "dateOf (goDate 20002 0 UTC) = 20002" by code_simp+
  then show ?thesis
    using rebuild_projects [of "fixedZone 7200" sampleEnv admin_context sampleFloats sampleZones 1 2 sampleAdb "goDate 20000 0 UTC"
        "goDate 20002 0 UTC" 5 "\<lambda>name. 0"] sample_projectable sample_admin sample_daily by simp
qed

text \<open>Example: the same two days, rebuilt again.\<close>
theorem rebuild_is_idempotent_witness:
  "\<exists>s' ks. rebuildRange 5 sampleEnv admin_context sampleFloats (\<lambda>name. 0) sampleZones 1 2 (goDate 20000 0 UTC) (goDate 20002 0 UTC) sampleAdb = Inr (2, s') \<and>
    rebuildRange 5 sampleEnv admin_context sampleFloats (\<lambda>name. 0) sampleZones 1 2 (goDate 20000 0 UTC) (goDate 20002 0 UTC) s' =
      Inr (2, s'\<lparr>checkpoints := ks\<rparr>)"
proof -
  have d: "dateOf (goDate 20000 0 UTC) = 20000" "dateOf (goDate 20002 0 UTC) = 20002" by code_simp+
  have ok: "daily_zone (fixedZone 7200) \<and> projectable sampleEnv admin_context sampleFloats sampleZones 1 2 (fixedZone 7200) sampleAdb \<and>
      visible_platform sampleEnv admin_context"
    using sample_projectable sample_admin sample_daily by simp
  have range: "dateOf (goDate 20000 0 UTC) \<le> dateOf (goDate 20002 0 UTC) \<and>
      dateOf (goDate 20002 0 UTC) - dateOf (goDate 20000 0 UTC) \<le> int 5"
    using d by simp
  obtain s' where s': "rebuildRange 5 sampleEnv admin_context sampleFloats (\<lambda>name. 0) sampleZones 1 2 (goDate 20000 0 UTC) (goDate 20002 0 UTC)
      sampleAdb = Inr (2, s')"
    using daily_zone.rebuildRange_projects [OF sample_daily sample_projectable sample_admin, of "goDate 20000 0 UTC" "goDate 20002 0 UTC" 5
        "\<lambda>name. 0"] d by auto
  then show ?thesis using rebuild_is_idempotent [OF ok range s'] by blast
qed

definition sampleEvent :: Envelope where
  "sampleEvent =
     \<lparr>ev_ID = 40, ev_Type = ''table.occupied'', ev_SchemaVersion = 1, ev_OccurredAt = 0, ev_OrganisationID = 1, ev_LocationID = 2,
      ev_ActorRef = ''alice'', ev_DeviceID = None, ev_EntityType = ''table'', ev_EntityID = 3, ev_EntityVersion = Some 2,
      ev_CommandID = None, ev_CorrelationID = None, ev_Traceparent = '''', ev_Tracestate = '''', ev_Data = JObj []\<rparr>"

text \<open>
  The clocks of a place on Greenwich time that goes one hour ahead at one in the morning of the first of January 1970, as
  London does in spring. A time the change leaves out is read with the offset before it, as \<^verbatim>\<open>time.Date\<close> does.
\<close>

definition springZone :: tz where
  "springZone =
     \<lparr>civil = (\<lambda>t. let u = (if t < hourNanos then t else t + hourNanos) in (u div dayNanos, u mod dayNanos)),
      instantOf = (\<lambda>d n. let u = d * dayNanos + n in if u < 2 * hourNanos then u else u - hourNanos)\<rparr>"

lemma springZone_instant: "instantOf springZone d n = (if d * dayNanos + n < 2 * hourNanos then d * dayNanos + n else d * dayNanos + n - hourNanos)"
  by (simp add: springZone_def Let_def)

lemma springZone_civil:
  "civil springZone t = ((if t < hourNanos then t else t + hourNanos) div dayNanos, (if t < hourNanos then t else t + hourNanos) mod dayNanos)"
  by (simp add: springZone_def Let_def)

interpretation spring: daily_zone springZone
proof
  have day: "second dvd d * dayNanos" "second dvd hourNanos" for d by (simp_all add: dayNanos_def hourNanos_def)
  have shown: "\<exists>u. civil springZone (instantOf springZone d n) = (u div dayNanos, u mod dayNanos) \<and>
      (u = d * dayNanos + n \<or> u = d * dayNanos + n + hourNanos \<and> d = 0 \<and> n < 2 * hourNanos)" if "0 \<le> n" "n < dayNanos" for d n
  proof (cases "d * dayNanos + n < hourNanos \<or> \<not> d * dayNanos + n < 2 * hourNanos")
    case True
    then show ?thesis
      by (intro exI [of _ "d * dayNanos + n"]) (auto simp: springZone_instant springZone_civil nanos)
  next
    case False
    then have "d = 0" using that by (simp add: nanos)
    with False show ?thesis
      by (intro exI [of _ "n + hourNanos"]) (simp add: springZone_instant springZone_civil nanos)
  qed
  show "civil springZone (instantOf springZone d 0) = (d, 0)" for d
    by (auto simp: springZone_instant springZone_civil nanos)
  show "instantOf springZone d 0 < instantOf springZone (d + 1) 0" for d by (auto simp: springZone_instant nanos)
  show "second dvd instantOf springZone d 0" for d using day(1) [of d] day(2) by (auto simp: springZone_instant)
  show "second dvd instantOf springZone d n - n" for d n using day(1) [of d] day(2) by (auto simp: springZone_instant)
  show "fst (civil springZone (instantOf springZone d n)) = d" if "0 \<le> n" "n < dayNanos" for d n
    using shown [OF that, of d] that by (auto simp: nanos)
  show "0 \<le> snd (civil springZone (instantOf springZone d n)) \<and> snd (civil springZone (instantOf springZone d n)) < dayNanos"
    if "0 \<le> n" "n < dayNanos" for d n using shown [OF that, of d] by (auto simp: nanos)
  show "instantOf springZone d n < instantOf springZone (d + 1) k" if "0 \<le> n" "n < dayNanos" "0 \<le> k" "k < dayNanos" for d n k
  proof -
    consider "0 \<le> d" | "d = - 1" | "d \<le> - 2" by linarith
    then show ?thesis using that by cases (auto simp: springZone_instant nanos)
  qed
  show "second dvd snd (civil springZone (instantOf springZone d n)) - n" for d n
  proof -
    obtain u where u: "snd (civil springZone (instantOf springZone d n)) = u mod dayNanos"
      "u = d * dayNanos + n \<or> u = d * dayNanos + n + hourNanos"
      by (auto simp: springZone_instant springZone_civil)
    have "u mod dayNanos = u - u div dayNanos * dayNanos" by (rule minus_div_mult_eq_mod [symmetric])
    then have "u mod dayNanos - n = d * dayNanos - u div dayNanos * dayNanos \<or>
        u mod dayNanos - n = d * dayNanos - u div dayNanos * dayNanos + hourNanos" using u(2) by auto
    then show ?thesis unfolding u(1) using day(1) [of d] day(1) [of "u div dayNanos"] day(2) by (metis dvd_add dvd_diff)
  qed
qed

text \<open>
  Witness of C24: two hours east of Greenwich an event of two in the morning of the first of January 1970 rebuilds the last
  day of 1969; where the clocks go forward that day, an event of that day rebuilds nothing.
\<close>
theorem projector_day_witness:
  "(\<exists>ks. Handle 3 sampleEnv sampleFloats (\<lambda>name. 0) sampleZones sampleEvent sampleAdb =
      (Inr (), sampleAdb\<lparr>metrics := projected sampleEnv admin_context sampleFloats (\<lambda>name. 0) 1 2 (fixedZone 7200) sampleAdb (- 1) 0
                                     (metrics sampleAdb), checkpoints := ks\<rparr>)) \<and>
   (\<exists>ks. Handle 3 sampleEnv sampleFloats (\<lambda>name. 0) (\<lambda>name. Some springZone) sampleEvent sampleAdb =
      (Inr (), sampleAdb\<lparr>checkpoints := ks\<rparr>))"
proof
  have e: "ev_OrganisationID sampleEvent = 1" "ev_LocationID sampleEvent = 2" "ev_OccurredAt sampleEvent = 0"
    by (simp_all add: sampleEvent_def)
  have c: "2 \<le> (3 :: nat) \<and> commit sampleEnv = Committed" by (simp add: sampleEnv_def)
  have east: "daily_zone (fixedZone 7200) \<and> (\<forall>d. \<bar>instantOf (fixedZone 7200) d 0 - d * dayNanos\<bar> < dayNanos)"
    using sample_daily by (simp add: fixedZone_def nanos)
  have "fst (civil (fixedZone 7200) 0) = 0" "instantOf (fixedZone 7200) 0 0 < 0" "instantOf (fixedZone 7200) 1 0 < dayNanos"
    by (simp_all add: fixedZone_def nanos)
  then show "\<exists>ks. Handle 3 sampleEnv sampleFloats (\<lambda>name. 0) sampleZones sampleEvent sampleAdb =
      (Inr (), sampleAdb\<lparr>metrics := projected sampleEnv admin_context sampleFloats (\<lambda>name. 0) 1 2 (fixedZone 7200) sampleAdb (- 1) 0
                                     (metrics sampleAdb), checkpoints := ks\<rparr>)"
    using projector_day [of sampleEnv sampleFloats sampleZones sampleEvent "fixedZone 7200" sampleAdb 3 "\<lambda>name. 0"] sample_projectable east c
    by (simp add: e)
  have spring: "daily_zone springZone \<and> (\<forall>d. \<bar>instantOf springZone d 0 - d * dayNanos\<bar> < dayNanos)"
    using spring.daily_zone_axioms by (simp add: springZone_instant nanos)
  have ok: "projectable sampleEnv admin_context sampleFloats (\<lambda>name. Some springZone) 1 2 springZone sampleAdb"
    by (rule sampleAdb_projectable) simp_all
  have "fst (civil springZone 0) = 0" "\<not> instantOf springZone 0 0 < 0" "instantOf springZone 1 0 < dayNanos"
    by (simp_all add: springZone_instant springZone_civil nanos)
  moreover have "projected sampleEnv admin_context sampleFloats (\<lambda>name. 0) 1 2 springZone sampleAdb 0 0 (metrics sampleAdb) = metrics sampleAdb"
    by (intro ext) (simp add: projected_def spring.range_empty)
  ultimately show "\<exists>ks. Handle 3 sampleEnv sampleFloats (\<lambda>name. 0) (\<lambda>name. Some springZone) sampleEvent sampleAdb =
      (Inr (), sampleAdb\<lparr>checkpoints := ks\<rparr>)"
    using projector_day [of sampleEnv sampleFloats "\<lambda>name. Some springZone" sampleEvent springZone sampleAdb 3 "\<lambda>name. 0"] ok spring c
    by (simp add: e)
qed

definition sampleRange :: RebuildParams where
  "sampleRange = \<lparr>rb_Actor = sampleOwner, rb_LocationID = 2, rb_From = goDate 20000 0 UTC, rb_To = goDate 20001 0 UTC\<rparr>"

definition sampleManual :: "RebuildRun an_result" where
  "sampleManual = Rebuild 3 sampleEnv sampleEnv sampleEnv sampleEnv sampleFloats (\<lambda>name. 0) sampleZones (\<lambda>err. ''refused'') sampleRange sampleAdb"

text \<open>Witness of C23: the manual rebuild of the sample is recorded as failed, with the text of its error.\<close>
theorem rebuild_attempt_recorded_witness:
  "\<exists>run' \<in> set (rebuild_runs (snd sampleManual)). run_Status run' = ''failed'' \<and> run_LastError run' = Some ''refused'' \<and> run_ID run' = 100"
proof -
  let ?t1 = "inAnalyticsTx sampleEnv (rb_Actor sampleRange) (\<lambda>c. requireManage sampleEnv c (rb_Actor sampleRange)) sampleAdb"
  let ?t2 = "inAnalyticsTx sampleEnv (rb_Actor sampleRange) (\<lambda>c. createRebuildRun sampleEnv c (rb_Actor sampleRange) (rb_From sampleRange) (rb_To sampleRange)) (snd ?t1)"
  have ok: "validActor (rb_Actor sampleRange) \<and> rb_LocationID sampleRange = ta_LocationID (rb_Actor sampleRange) \<and>
      instant (rb_From sampleRange) < instant (rb_To sampleRange)" by code_simp
  have "fst ?t1 = Inr ()" by code_simp
  then have 1: "?t1 = (Inr (), snd ?t1)" by (metis prod.collapse)
  have "case fst ?t2 of Inr run \<Rightarrow> run_ID run = 100 | Inl err \<Rightarrow> False" by code_simp
  then obtain run where 2: "?t2 = (Inr run, snd ?t2)" "run_ID run = 100" by (cases ?t2) (auto split: sum.splits)
  have h: "healthy sampleEnv \<and> (\<forall>err :: an_error fail. ''refused'' \<noteq> '''')" by (simp add: healthy_def sampleEnv_def)
  have failed: "case fst sampleManual of Inl err \<Rightarrow> True | Inr run \<Rightarrow> False" by code_simp
  then obtain err where "fst sampleManual = Inl err" by (cases "fst sampleManual") simp_all
  then have r: "sampleManual = (Inl err, snd sampleManual)" by (metis prod.collapse)
  from rebuild_attempt_recorded [OF ok 1 2(1) h r [unfolded sampleManual_def]] 2(2)
  show ?thesis unfolding sampleManual_def [symmetric] by auto
qed

text \<open>Example: row security is on in the sample.\<close>
theorem manual_rebuild_refused_witness:
  "(\<exists>err. fst sampleManual = Inl err) \<and> metrics (snd sampleManual) = metrics sampleAdb"
  unfolding sampleManual_def by (rule manual_rebuild_refused) (simp add: sampleEnv_def)

end
