(* ===== verification/Periods.thy ===== *)
theory Periods
  imports Rebuilds Lifecycle
begin

text \<open>
  The service periods over time: for every sequence of operations of the analytics service, in any worlds, their
  keys, names, weekdays and clock times stay sound, and of the changes that expect one version of a period at most
  one succeeds.
\<close>

section \<open>Sound periods\<close>

definition clockOk :: "int \<Rightarrow> bool" where
  "clockOk t \<longleftrightarrow> 0 \<le> t \<and> t < 86400000000"

definition periodsOk :: "ServicePeriod list \<Rightarrow> bool" where
  "periodsOk ps \<longleftrightarrow>
     distinct (map sp_id ps) \<and> distinct (map (\<lambda>p. (sp_loc p, sp_name p)) ps) \<and>
     (\<forall>p \<in> set ps. periodCheck p = None \<and> clockOk (sp_start_time p) \<and> clockOk (sp_end_time p))"

lemma ParseClock_clock: "ParseClock v = Some t \<Longrightarrow> clockOk t"
  by (drule ParseClock_bounds) (simp add: clockOk_def)

lemma validate_clock:
  "validateServicePeriodInput input b = Some (name, days, start, stop) \<Longrightarrow> clockOk start \<and> clockOk stop"
  by (auto simp: validateServicePeriodInput_def Let_def split: if_splits option.splits dest: ParseClock_clock)


section \<open>How periods move\<close>

definition periodMoves :: "ServicePeriod \<Rightarrow> ServicePeriod \<Rightarrow> bool" where
  "periodMoves p p' \<longleftrightarrow>
     sp_id p' = sp_id p \<and> sp_org p' = sp_org p \<and> sp_loc p' = sp_loc p \<and> sp_created_at p' = sp_created_at p \<and>
     sp_version p \<le> sp_version p' \<and> (sp_version p' = sp_version p \<longrightarrow> p' = p)"

interpretation periods: evolution sp_id periodMoves "\<lambda>p. False"
  by unfold_locales (auto simp: periodMoves_def)

definition periodRel :: "adb \<Rightarrow> adb \<Rightarrow> bool" where
  "periodRel s s' \<longleftrightarrow>
     (periodsOk (service_periods s) \<longrightarrow>
        periodsOk (service_periods s') \<and> evolves sp_id periodMoves (service_periods s) (service_periods s'))"

interpretation period: body_order periodRel
  by unfold_locales (auto simp: periodRel_def periods.evolves_refl intro: periods.evolves_trans)

lemma period_create:
  assumes "clockOk start" and "clockOk stop"
  shows "follows periodRel (CreateServicePeriodRow e c i org loc name days start stop)"
proof (rule followsI)
  fix s v s'
  assume "CreateServicePeriodRow e c i org loc name days start stop s = Inr (v, s')"
  then have "service_periods s' = service_periods s @ [v]" "periodCheck v = None" "sp_start_time v = start" "sp_end_time v = stop"
    "\<forall>x \<in> set (service_periods s). sp_id x \<noteq> sp_id v \<and> \<not> sameName x v"
    by (auto simp: CreateServicePeriodRow_def Let_def insertRow_Inr elim!: map_sum_InrE split: if_splits option.splits)
  then show "periodRel s s'" using assms
    by (auto simp: periodRel_def periodsOk_def sameName_def intro!: periods.evolves_insert)
qed

lemma updatePeriod_Inr:
  assumes "updatePeriod e c i org loc version f s = Inr (v, s')"
    and key: "\<And>p. sp_id (f p) = sp_id p" and d: "distinct (map sp_id (service_periods s))"
  obtains p where "p \<in> set (service_periods s)" and "sp_id p = i" and "sp_org p = org" and "sp_loc p = loc" and "sp_version p = version"
    and "v = f p" and "periodCheck v = None"
    and "service_periods s' = map (\<lambda>x. if sp_id x = i then v else x) (service_periods s)"
    and "\<And>x. x \<in> set (service_periods s) \<Longrightarrow> sp_id x \<noteq> i \<Longrightarrow> \<not> sameName x v"
proof -
  let ?P = "\<lambda>p. visible e c (sp_org p) (sp_loc p) \<and> sp_id p = i \<and> sp_org p = org \<and> sp_loc p = loc \<and> sp_version p = version"
  let ?chk = "\<lambda>p. case periodCheck p of
                 Some state \<Rightarrow> Some state
               | None \<Rightarrow> firstViolation [(\<forall>x \<in> set (service_periods s). sp_id x \<noteq> sp_id p \<longrightarrow> \<not> sameName x p, ''23505'')]"
  from assms(1) obtain ps where u: "updateOne ?P ?chk f (service_periods s) = Inr (v, ps)" "s' = s\<lparr>service_periods := ps\<rparr>"
    by (auto simp: updatePeriod_def elim!: map_sum_InrE)
  from u(1) obtain p where p: "p \<in> set (service_periods s)" "?P p" "v = f p" "?chk v = None"
    "distinct (map sp_id (service_periods s)) \<Longrightarrow> ps = map (\<lambda>x. if sp_id x = i then v else x) (service_periods s)"
    by (rule updateOne_keyE [where k = sp_id]) auto
  have chk: "periodCheck v = None" "\<forall>x \<in> set (service_periods s). sp_id x \<noteq> sp_id v \<longrightarrow> \<not> sameName x v"
    using p(4) by (auto simp: firstViolation_None split: option.splits)
  show ?thesis
    by (rule that [of p]) (use p chk u(2) d key in auto)
qed

text \<open>Replacing the row of a key keeps another key of the rows distinct that no other row shares.\<close>

lemma distinct_replace:
  assumes "distinct (map key xs)" and "distinct (map g xs)" and "\<And>x. x \<in> set xs \<Longrightarrow> key x \<noteq> i \<Longrightarrow> g x \<noteq> g v"
  shows "distinct (map g (map (\<lambda>x. if key x = i then v else x) xs))"
  using assms
proof (induction xs)
  case (Cons x xs)
  have "key y \<noteq> key x" if "y \<in> set xs" for y using Cons.prems(1) that by (metis distinct.simps(2) image_eqI list.set_map list.simps(9))
  then show ?case using Cons by (auto simp: image_iff) metis+
qed simp

lemma period_update:
  assumes f: "\<And>p. sp_id (f p) = sp_id p \<and> sp_org (f p) = sp_org p \<and> sp_loc (f p) = sp_loc p \<and> sp_created_at (f p) = sp_created_at p \<and>
      sp_version (f p) = sp_version p + 1"
    and clock: "\<And>p. clockOk (sp_start_time p) \<and> clockOk (sp_end_time p) \<Longrightarrow> clockOk (sp_start_time (f p)) \<and> clockOk (sp_end_time (f p))"
  shows "follows periodRel (updatePeriod e c i org loc version f)"
proof (rule followsI)
  fix s v s'
  assume run: "updatePeriod e c i org loc version f s = Inr (v, s')"
  show "periodRel s s'"
    unfolding periodRel_def
  proof
    assume ok: "periodsOk (service_periods s)"
    let ?ps = "service_periods s"
    have d: "distinct (map sp_id ?ps)" "distinct (map (\<lambda>p. (sp_loc p, sp_name p)) ?ps)" using ok by (simp_all add: periodsOk_def)
    obtain p where p: "p \<in> set ?ps" "sp_id p = i" "v = f p" "periodCheck v = None"
      and ps': "service_periods s' = map (\<lambda>x. if sp_id x = i then v else x) ?ps"
      and name: "\<And>x. x \<in> set ?ps \<Longrightarrow> sp_id x \<noteq> i \<Longrightarrow> \<not> sameName x v"
      by (rule updatePeriod_Inr [OF run _ d(1)]) (use f in auto)
    have only: "x = p" if "x \<in> set ?ps" "sp_id x = i" for x using distinct_key_eq [OF d(1) that(1) p(1)] that(2) p(2) by simp
    have "distinct (map sp_id (service_periods s'))"
    proof -
      have "map sp_id (service_periods s') = map sp_id ?ps" using p f by (auto simp: ps' intro!: map_cong)
      then show ?thesis using d(1) by simp
    qed
    moreover have "distinct (map (\<lambda>p. (sp_loc p, sp_name p)) (service_periods s'))"
      unfolding ps' by (rule distinct_replace [OF d]) (use name in \<open>auto simp: sameName_def\<close>)
    ultimately have "periodsOk (service_periods s')"
      using ok p clock [of p] by (auto simp: periodsOk_def ps')
    moreover have "evolves sp_id periodMoves ?ps (service_periods s')"
      unfolding ps' using only f [of p] p(3) by (intro periods.evolves_map) (auto simp: periodMoves_def)
    ultimately show "periodsOk (service_periods s') \<and> evolves sp_id periodMoves ?ps (service_periods s')" ..
  qed
qed

text \<open>Every operation of the service and of the projector keeps the periods sound.\<close>

definition sameRel :: "adb \<Rightarrow> adb \<Rightarrow> bool" where
  "sameRel s s' \<longleftrightarrow> service_periods s' = service_periods s"

interpretation same: analytics_order sameRel
  by unfold_locales (auto simp: sameRel_def)

lemma follows_mono: "follows rel m \<Longrightarrow> (\<And>s s'. rel s s' \<Longrightarrow> rel' s s') \<Longrightarrow> follows rel' m"
  by (auto simp: follows_def)

lemma same_period: "sameRel s s' \<Longrightarrow> periodRel s s'"
  by (simp add: sameRel_def periodRel_def periods.evolves_refl)

lemma frame_same: "frameRel s s' \<Longrightarrow> sameRel s s'"
  unfolding frameRel_def sameRel_def by (metis adb.select_convs(4) adb.surjective adb.update_convs(5) adb.update_convs(6))

lemma same_run [keeps_intros]:
  "follows sameRel (insertRebuildRun e c i actor a b)"
  "follows sameRel (\<lambda>s. map_sum id (\<lambda>(r, rs). (r, s\<lparr>rebuild_runs := rs\<rparr>)) (q s))"
  by (auto intro!: followsI simp: sameRel_def dest!: insertRebuildRun_Inr elim!: map_sum_InrE)

lemma same_bodies:
  "follows sameRel (requireManage e c actor)" "follows sameRel (createRebuildRun e c actor from to)"
  "follows sameRel (finishRebuildRun e c i status days msg)"
  unfolding requireManage_def requirePermission_def createRebuildRun_def finishRebuildRun_def by (intro keeps_intros)+

lemma same_tx:
  "(\<And>c. follows sameRel (fn c)) \<Longrightarrow> inAnalyticsTx e actor fn s = (r, s') \<Longrightarrow> service_periods s' = service_periods s"
  using inAnalyticsTx_follows [OF same.body_order_axioms, of fn s e actor] by (simp add: sameRel_def)

lemma Rebuild_periods: "service_periods (snd (Rebuild turns e1 e2 e3 e4 F collate load Error arg s)) = service_periods s"
proof -
  have range: "follows sameRel (uncounted (rebuildRange turns e3 c F collate load org loc from to))" for c org loc "from" to
    by (intro same.uncounted_follows follows_mono [OF frame_rebuildRange] frame_same)
  note txs = same_tx [OF same_bodies(1)] same_tx [OF same_bodies(2)] same_tx [OF same_bodies(3)] same_tx [OF range]
  show ?thesis
    by (auto simp: Rebuild_def Let_def split: prod.splits sum.splits dest!: txs)
qed

lemma Handle_periods: "service_periods (snd (Handle turns e F collate load event s)) = service_periods s"
proof -
  have "follows sameRel (handleInTx turns e admin_context F collate load event)"
    unfolding handleInTx_def getLocation_def loadZone_def upsertCheckpoint_def Let_def
    by (intro keeps_intros same.uncounted_follows follows_mono [OF frame_rebuildRange] follows_mono [OF frame_upsertRow] frame_same)
  then show ?thesis
    by (auto simp: Handle_def sameRel_def split: sum.splits commit_outcome.splits dest: followsD)
qed

lemma period_tx:
  assumes "\<And>c. follows periodRel (m c)"
  shows "periodRel s (snd (inAnalyticsTx e actor (\<lambda>c. txBind (requireManage e c actor) (\<lambda>_. runQuery e site nr (m c))) s))"
proof (rule inAnalyticsTx_follows [OF period.body_order_axioms])
  show "follows periodRel (txBind (requireManage e c actor) (\<lambda>_. runQuery e site nr (m c)))" for c
    by (intro period.bind_follows period.query_follows assms follows_mono [OF same_bodies(1)] same_period)
qed

lemma CreateServicePeriod_rel: "periodRel s (snd (CreateServicePeriod e actor input s))"
proof (cases "validActor actor")
  case True
  then show ?thesis
  proof (cases "validateServicePeriodInput input False")
    case (Some v)
    obtain name days start stop where v1: "v = (name, days, start, stop)" by (cases v)
    note v = v1 validate_clock [OF Some [unfolded v1], THEN conjunct1] validate_clock [OF Some [unfolded v1], THEN conjunct2]
    have "periodRel s (snd (inAnalyticsTx e actor (\<lambda>c. txBind (requireManage e c actor) (\<lambda>_. runQuery e ''creating service period'' None
        (CreateServicePeriodRow e c (gen e 0) (ta_OrganisationID actor) (ta_LocationID actor) name days start stop))) s))"
      by (rule period_tx) (rule period_create [OF v(2,3)])
    then show ?thesis using True Some v(1) by (simp add: CreateServicePeriod_def)
  qed (simp add: CreateServicePeriod_def period.rel_refl)
qed (simp add: CreateServicePeriod_def period.rel_refl)

lemma UpdateServicePeriod_rel: "periodRel s (snd (UpdateServicePeriod e actor i input s))"
proof (cases "validActor actor \<and> i \<noteq> uuid_Nil")
  case True
  then show ?thesis
  proof (cases "validateServicePeriodInput input True")
    case (Some v)
    obtain name days start stop where v1: "v = (name, days, start, stop)" by (cases v)
    note v = v1 validate_clock [OF Some [unfolded v1], THEN conjunct1] validate_clock [OF Some [unfolded v1], THEN conjunct2]
    have "periodRel s (snd (inAnalyticsTx e actor (\<lambda>c. txBind (requireManage e c actor) (\<lambda>_. runQuery e ''updating service period''
        (Some ErrNotFound) (UpdateServicePeriodRow e c i (ta_OrganisationID actor) (ta_LocationID actor) name days start stop
          (in_ExpectedVersion input)))) s))"
      unfolding UpdateServicePeriodRow_def by (rule period_tx, rule period_update) (use v in simp_all)
    then show ?thesis using True Some v(1) by (simp add: UpdateServicePeriod_def)
  qed (simp add: UpdateServicePeriod_def period.rel_refl)
qed (auto simp add: UpdateServicePeriod_def period.rel_refl)

lemma ArchiveServicePeriod_rel: "periodRel s (snd (ArchiveServicePeriod e actor i v s))"
proof -
  have "periodRel s (snd (inAnalyticsTx e actor (\<lambda>c. txBind (requireManage e c actor) (\<lambda>_. runQuery e ''archiving service period''
        (Some ErrNotFound) (ArchiveServicePeriodRow e c i (ta_OrganisationID actor) (ta_LocationID actor) v))) s))"
    unfolding ArchiveServicePeriodRow_def by (rule period_tx, rule period_update) simp_all
  then show ?thesis by (simp add: ArchiveServicePeriod_def period.rel_refl)
qed

section \<open>Runs of the service\<close>

text \<open>
  A step is one operation that changes the analytics tables, in any world, or a change elsewhere: of the tables of
  the other services, which the analytics service only reads.
\<close>

inductive analytics_step :: "adb \<Rightarrow> adb \<Rightarrow> bool" where
  create: "CreateServicePeriod e actor input s = (r, s') \<Longrightarrow> analytics_step s s'"
| update: "UpdateServicePeriod e actor i input s = (r, s') \<Longrightarrow> analytics_step s s'"
| archive: "ArchiveServicePeriod e actor i v s = (r, s') \<Longrightarrow> analytics_step s s'"
| rebuild: "Rebuild turns e1 e2 e3 e4 F collate load Error arg s = (r', s') \<Longrightarrow> analytics_step s s'"
| handle: "Handle turns e F collate load event s = (r'', s') \<Longrightarrow> analytics_step s s'"
| elsewhere: "analytics_step s (s\<lparr>shared := d, floors := fs, zones := zs\<rparr>)"

lemma analytics_step_rel: "analytics_step s s' \<Longrightarrow> periodRel s s'"
proof (induction rule: analytics_step.induct)
  case (create e actor input s r s')
  then show ?case using CreateServicePeriod_rel [of s e actor input] by simp
next
  case (update e actor i input s r s')
  then show ?case using UpdateServicePeriod_rel [of s e actor i input] by simp
next
  case (archive e actor i v s r s')
  then show ?case using ArchiveServicePeriod_rel [of s e actor i v] by simp
next
  case (rebuild turns e1 e2 e3 e4 F collate load Error arg s r' s')
  then show ?case using Rebuild_periods [of turns e1 e2 e3 e4 F collate load Error arg s] by (intro same_period) (simp add: sameRel_def)
next
  case (handle turns e F collate load event s r'' s')
  then show ?case using Handle_periods [of turns e F collate load event s] by (intro same_period) (simp add: sameRel_def)
next
  case (elsewhere s d fs zs)
  show ?case by (rule same_period) (simp add: sameRel_def)
qed

lemma analytics_steps_rel: "analytics_step\<^sup>*\<^sup>* s s' \<Longrightarrow> periodRel s s'"
  by (induction rule: rtranclp_induct) (auto intro: period.rel_refl period.rel_trans analytics_step_rel)

text \<open>
  C26. Whatever the analytics service and its projector do, in any order and under any faults, the service periods
  stay sound: keys and the names of a location are unique, weekdays lie between 0 and 6, and clock times are
  times of a day. No period is lost, none changes its location, and a period whose version is the same has not
  changed at all.
\<close>
theorem service_periods_sound:
  assumes "periodsOk (service_periods s)" and "analytics_step\<^sup>*\<^sup>* s s'"
  shows "periodsOk (service_periods s') \<and>
    (\<forall>p \<in> set (service_periods s). \<exists>p' \<in> set (service_periods s').
      sp_id p' = sp_id p \<and> sp_loc p' = sp_loc p \<and> sp_version p \<le> sp_version p' \<and> (sp_version p' = sp_version p \<longrightarrow> p' = p))"
  using analytics_steps_rel [OF assms(2)] assms(1) by (fastforce simp: periodRel_def evolves_def periodMoves_def)

section \<open>One winner per version\<close>

definition periodVersion :: "uuid \<Rightarrow> adb \<Rightarrow> int option" where
  "periodVersion i s = map_option sp_version (find (\<lambda>p. sp_id p = i) (service_periods s))"

definition periodWins :: "uuid \<Rightarrow> int \<Rightarrow> adb \<Rightarrow> adb \<Rightarrow> bool" where
  "periodWins i v s s' \<longleftrightarrow>
     (\<exists>e actor input p. in_ExpectedVersion input = v \<and> UpdateServicePeriod e actor i input s = (Inr p, s')) \<or>
     (\<exists>e actor p. ArchiveServicePeriod e actor i v s = (Inr p, s'))"

lemma periodVersion_mem:
  "distinct (map sp_id (service_periods s)) \<Longrightarrow> periodVersion i s = Some v \<longleftrightarrow>
     (\<exists>p \<in> set (service_periods s). sp_id p = i \<and> sp_version p = v)"
proof
  assume d: "distinct (map sp_id (service_periods s))"
  assume "\<exists>p \<in> set (service_periods s). sp_id p = i \<and> sp_version p = v"
  then obtain p where p: "p \<in> set (service_periods s)" "sp_id p = i" "sp_version p = v" by blast
  have "find (\<lambda>p. sp_id p = i) (service_periods s) = Some p"
    by (rule find_distinct_key [where k = sp_id]) (use d p in auto)
  then show "periodVersion i s = Some v" by (simp add: periodVersion_def p(3))
qed (auto simp: periodVersion_def dest!: find_SomeD)

lemma updatePeriod_version:
  assumes "updatePeriod e c i org loc version f s = Inr (v, s')" and "distinct (map sp_id (service_periods s))"
    and f: "\<And>p. sp_id (f p) = sp_id p \<and> sp_version (f p) = sp_version p + 1"
  shows "periodVersion i s = Some version \<and> periodVersion i s' = Some (version + 1)"
proof -
  obtain p where p: "p \<in> set (service_periods s)" "sp_id p = i" "sp_version p = version" "v = f p"
    and s': "service_periods s' = map (\<lambda>x. if sp_id x = i then v else x) (service_periods s)"
    by (rule updatePeriod_Inr [OF assms(1) _ assms(2)]) (use f in auto)
  have "map sp_id (service_periods s') = map sp_id (service_periods s)" using p f by (auto simp: s' intro!: map_cong)
  then have d: "distinct (map sp_id (service_periods s'))" using assms(2) by simp
  have "v \<in> set (service_periods s')" unfolding s' using p(1,2) by (auto intro!: image_eqI [of v _ p])
  then show ?thesis using p f unfolding periodVersion_mem [OF assms(2)] periodVersion_mem [OF d] by auto
qed

lemma periodWins_version:
  assumes "periodWins i v s s'" and ok: "periodsOk (service_periods s)"
  shows "periodVersion i s = Some v \<and> periodVersion i s' = Some (v + 1)"
proof -
  have d: "distinct (map sp_id (service_periods s))" using ok by (simp add: periodsOk_def)
  from assms(1) obtain e c org loc f p where "updatePeriod e c i org loc v f s = Inr (p, s')"
    and "\<And>p. sp_id (f p) = sp_id p \<and> sp_version (f p) = sp_version p + 1"
    unfolding periodWins_def
  proof (elim disjE exE conjE)
    fix e actor input p
    assume "UpdateServicePeriod e actor i input s = (Inr p, s')" and "in_ExpectedVersion input = v"
    then show thesis
      by (auto simp: UpdateServicePeriod_def requireManage_def requirePermission_def UpdateServicePeriodRow_def onShared_def reading_Inr
          txBind_Inr_iff runQuery_Inr txGuard_Inr_iff split: if_splits option.splits dest!: inAnalyticsTx_Inr intro!: that)
  next
    fix e actor p
    assume "ArchiveServicePeriod e actor i v s = (Inr p, s')"
    then show thesis
      by (auto simp: ArchiveServicePeriod_def requireManage_def requirePermission_def ArchiveServicePeriodRow_def onShared_def reading_Inr
          txBind_Inr_iff runQuery_Inr txGuard_Inr_iff split: if_splits dest!: inAnalyticsTx_Inr intro!: that)
  qed
  then show ?thesis by (rule updatePeriod_version [OF _ d])
qed

interpretation changes: versioned "\<lambda>s. periodsOk (service_periods s)" analytics_step "periodVersion i" "periodWins i" for i
proof
  fix s s' v
  assume ok: "periodsOk (service_periods s)" and st: "analytics_step s s'"
  then have r: "periodsOk (service_periods s')" "evolves sp_id periodMoves (service_periods s) (service_periods s')"
    using analytics_step_rel by (simp_all add: periodRel_def)
  show "periodsOk (service_periods s')" by (rule r)
  have d: "distinct (map sp_id (service_periods s))" "distinct (map sp_id (service_periods s'))" using ok r(1) by (simp_all add: periodsOk_def)
  assume "periodVersion i s = Some v"
  then obtain p where "p \<in> set (service_periods s)" "sp_id p = i" "sp_version p = v" unfolding periodVersion_mem [OF d(1)] by blast
  then obtain p' where "p' \<in> set (service_periods s')" "sp_id p' = i" "v \<le> sp_version p'"
    using r(2) unfolding evolves_def periodMoves_def by metis
  then show "\<exists>v'. periodVersion i s' = Some v' \<and> v \<le> v'" unfolding periodVersion_mem [OF d(2)] by blast
next
  fix v s s'
  assume w: "periodWins i v s s'"
  then show "analytics_step s s'" unfolding periodWins_def by (auto intro: analytics_step.intros)
  assume "periodsOk (service_periods s)"
  with w show "periodVersion i s = Some v \<and> periodVersion i s' = Some (v + 1)" by (rule periodWins_version)
qed

text \<open>
  Of the updates and archivals of a service period that expect one version at most one succeeds, whatever
  the service and the projector do in between.
\<close>
theorem one_winner_per_period_version:
  assumes "periodsOk (service_periods s)" and "periodWins i v s s1" and "analytics_step\<^sup>*\<^sup>* s1 s2"
  shows "\<not> periodWins i v s2 s3"
  using changes.one_winner [OF assms order_refl] .

section \<open>Witnesses\<close>

lemma sampleAdb_periods: "periodsOk (service_periods sampleAdb)"
  by (simp add: periodsOk_def sampleAdb_def sampleDinner_def periodCheck_def firstViolation_None clockOk_def maxInt32_def)

definition sampleLunch :: ServicePeriodInput where
  "sampleLunch =
     \<lparr>in_Name = '' Lunch '', in_DaysOfWeek = [1, 2], in_StartTime = ''11:30'', in_EndTime = ''14:00'', in_ExpectedVersion = 1\<rparr>"

definition sampleUpdate :: "ServicePeriod an_result" where
  "sampleUpdate = UpdateServicePeriod sampleEnv sampleOwner 9 sampleLunch sampleAdb"

lemma sampleUpdate_wins: "periodWins 9 1 sampleAdb (snd sampleUpdate)"
proof -
  have "case fst sampleUpdate of Inr p \<Rightarrow> True | Inl err \<Rightarrow> False" by code_simp
  then obtain p where "fst sampleUpdate = Inr p" by (cases "fst sampleUpdate") simp_all
  then have "UpdateServicePeriod sampleEnv sampleOwner 9 sampleLunch sampleAdb = (Inr p, snd sampleUpdate)"
    unfolding sampleUpdate_def by (metis prod.collapse)
  moreover have "in_ExpectedVersion sampleLunch = 1" by (simp add: sampleLunch_def)
  ultimately show ?thesis unfolding periodWins_def by blast
qed

text \<open>Witness of C26: the dinner of the sample is moved to lunch, and its version has grown.\<close>
theorem service_periods_sound_witness:
  "periodsOk (service_periods (snd sampleUpdate)) \<and> map sp_version (service_periods (snd sampleUpdate)) = [2] \<and>
   (\<exists>p' \<in> set (service_periods (snd sampleUpdate)). sp_id p' = 9 \<and> sp_loc p' = 2)"
proof -
  have "analytics_step\<^sup>*\<^sup>* sampleAdb (snd sampleUpdate)"
    unfolding sampleUpdate_def by (intro r_into_rtranclp analytics_step.update [OF prod.collapse [symmetric]])
  note sound = service_periods_sound [OF sampleAdb_periods this]
  have "map sp_version (service_periods (snd sampleUpdate)) = [2]" by code_simp
  with sound show ?thesis by (auto simp: sampleAdb_def sampleDinner_def)
qed

text \<open>Example: archiving the dinner as it was fails after the update.\<close>
theorem one_winner_per_period_version_witness:
  "\<not> periodWins 9 1 (snd sampleUpdate) (snd (ArchiveServicePeriod sampleEnv sampleOwner 9 1 (snd sampleUpdate))) \<and>
   fst (ArchiveServicePeriod sampleEnv sampleOwner 9 1 (snd sampleUpdate)) = Inl (Err ErrNotFound)"
proof
  show "\<not> periodWins 9 1 (snd sampleUpdate) (snd (ArchiveServicePeriod sampleEnv sampleOwner 9 1 (snd sampleUpdate)))"
    using one_winner_per_period_version [OF sampleAdb_periods sampleUpdate_wins rtranclp.rtrancl_refl] .
qed code_simp

end
