(* ===== verification/Members.thy ===== *)
theory Members
  imports Analytics
begin

text \<open>
  The staff of an organisation: \<^verbatim>\<open>internal/domain/identity/memberships.go\<close> with the statements it runs, on the
  tables of the migrations 000002, 000003, 000012 and 000015. The database is the one of the other services with
  the tables of people around it; \<open>roles\<close> holds the names of the roles. What depends on the mail package, on
  non-ASCII letters, on the text of an identifier or on the collation of the database is an argument, the record
  \<open>texts\<close>. The identifiers drawn in one transaction are \<open>gen e 0\<close> for a profile, \<open>gen e 1\<close> for a membership and
  \<open>gen e 2\<close> for an audit event.
\<close>

section \<open>Rows\<close>

definition RolePlatformAdmin :: string where "RolePlatformAdmin = ''platform_admin''"
definition RoleOrganisationOwner :: string where "RoleOrganisationOwner = ''organisation_owner''"
definition RoleLocationManager :: string where "RoleLocationManager = ''location_manager''"
definition RoleWaiter :: string where "RoleWaiter = ''waiter''"
definition RoleReadOnly :: string where "RoleReadOnly = ''read_only''"
definition RoleSupport :: string where "RoleSupport = ''support''"
definition PermissionOrganisationManage :: string where "PermissionOrganisationManage = ''organisation.manage''"
definition MembershipScopeOrganisation :: string where "MembershipScopeOrganisation = ''organisation''"
definition MembershipScopeLocation :: string where "MembershipScopeLocation = ''location''"
definition auditActionMembershipCreate :: string where "auditActionMembershipCreate = ''membership.create''"
definition auditActionMembershipUpdateRole :: string where "auditActionMembershipUpdateRole = ''membership.update_role''"
definition auditActionMembershipDisable :: string where "auditActionMembershipDisable = ''membership.disable''"
definition auditTargetMembership :: string where "auditTargetMembership = ''membership''"

lemmas role_names =
  RolePlatformAdmin_def RoleOrganisationOwner_def RoleLocationManager_def RoleWaiter_def RoleReadOnly_def RoleSupport_def
  MembershipScopeOrganisation_def MembershipScopeLocation_def

record AuditEvent =
  ae_id :: uuid
  ae_org :: "uuid option"
  ae_loc :: "uuid option"
  ae_actor_ref :: string
  ae_action :: string
  ae_target_type :: string
  ae_target_id :: string
  ae_metadata :: json
  ae_created_at :: timestamp

record ExternalIdentityRow =
  xi_id :: uuid
  xi_user_profile :: uuid
  xi_issuer :: string
  xi_subject :: string
  xi_email :: "string option"
  xi_created_at :: timestamp
  xi_updated_at :: timestamp

record WebSessionRow =
  ws_id :: uuid
  ws_user_profile :: uuid
  ws_lookup_prefix :: string
  ws_session_hash :: bytes
  ws_issued_at :: timestamp
  ws_last_used_at :: "timestamp option"
  ws_expires_at :: timestamp
  ws_revoked_at :: "timestamp option"
  ws_rotated_from :: "uuid option"
  ws_user_agent :: "string option"
  ws_ip_address :: "string option"
  ws_created_at :: timestamp
  ws_updated_at :: timestamp

record PlatformMembership =
  pm_id :: uuid
  pm_user_profile :: uuid
  pm_role :: string
  pm_granted_by :: string
  pm_granted_at :: timestamp
  pm_disabled_at :: "timestamp option"
  pm_disabled_by :: "string option"
  pm_created_at :: timestamp
  pm_updated_at :: timestamp

record PlatformAdminGrant =
  pg_id :: uuid
  pg_email :: string
  pg_role :: string
  pg_invited_by :: string
  pg_created_at :: timestamp
  pg_consumed_at :: "timestamp option"
  pg_consumed_by :: "uuid option"
  pg_revoked_at :: "timestamp option"
  pg_revoked_by :: "string option"

record hdb =
  plant :: adb
  roles :: "string list"
  audit_events :: "AuditEvent list"
  external_identities :: "ExternalIdentityRow list"
  web_sessions :: "WebSessionRow list"
  platform_memberships :: "PlatformMembership list"
  platform_admin_grants :: "PlatformAdminGrant list"

type_synonym 'a staff_body = "(id_error fail, hdb, 'a) body"
type_synonym 'a staff_result = "(id_error fail + 'a) \<times> hdb"

text \<open>The tables of the identity service, and its statements, inside the larger database.\<close>

abbreviation staff :: "hdb \<Rightarrow> idb" where
  "staff h \<equiv> shared (plant h)"

definition setStaff :: "idb \<Rightarrow> hdb \<Rightarrow> hdb" where
  "setStaff i h = h\<lparr>plant := (plant h)\<lparr>shared := i\<rparr>\<rparr>"

lemma staff_setStaff [simp]:
  "staff (setStaff i h) = i" "audit_events (setStaff i h) = audit_events h" "roles (setStaff i h) = roles h"
  "web_sessions (setStaff i h) = web_sessions h" "external_identities (setStaff i h) = external_identities h"
  "platform_memberships (setStaff i h) = platform_memberships h" "platform_admin_grants (setStaff i h) = platform_admin_grants h"
  by (simp_all add: setStaff_def)

definition onStaff :: "(idb \<Rightarrow> 'e + 'a \<times> idb) \<Rightarrow> hdb \<Rightarrow> 'e + 'a \<times> hdb" where
  "onStaff m h = map_sum id (\<lambda>(v, i). (v, setStaff i h)) (m (staff h))"

lemma onStaff_Inr [tx_iffs]: "onStaff m h = Inr (v, h') \<longleftrightarrow> (\<exists>i. m (staff h) = Inr (v, i) \<and> h' = setStaff i h)"
  by (cases "m (staff h)") (auto simp: onStaff_def)

record texts =
  parseAddress :: "string \<Rightarrow> string option"
  goLower :: "string \<Rightarrow> string"
  sqlLower :: "string \<Rightarrow> string"
  uuidText :: "uuid \<Rightarrow> string"
  collation :: "string \<Rightarrow> int"
  parseIP :: "string \<Rightarrow> string option"

text \<open>\<^verbatim>\<open>lower(btrim(email))\<close>, the key of an address.\<close>

definition emailKey :: "texts \<Rightarrow> string \<Rightarrow> string" where
  "emailKey T email = sqlLower T (rev (dropWhile (\<lambda>ch. ch = CHR '' '') (rev (dropWhile (\<lambda>ch. ch = CHR '' '') email))))"

section \<open>Statements\<close>

text \<open>
  An INSERT into a table whose foreign keys are checked last: CHECK constraints and row security first, then the
  unique keys, then the foreign keys.
\<close>

definition insertRowFk ::
  "('r \<Rightarrow> 'r \<Rightarrow> bool) \<Rightarrow> string option \<Rightarrow> string option \<Rightarrow> 'r \<Rightarrow> 'r list \<Rightarrow> db_error + 'r \<times> 'r list" where
  "insertRowFk conflict viol fk r rs =
     (case insertRow conflict viol r rs of
        Inl err \<Rightarrow> Inl err
      | Inr p \<Rightarrow> (case fk of Some state \<Rightarrow> Inl (PgError state) | None \<Rightarrow> Inr p))"

lemma insertRowFk_Inr [tx_iffs]:
  "insertRowFk conflict viol fk r rs = Inr (r', rs') \<longleftrightarrow>
     viol = None \<and> fk = None \<and> (\<forall>x \<in> set rs. \<not> conflict x r) \<and> r' = r \<and> rs' = rs @ [r]"
  by (cases viol; cases fk) (auto simp: insertRowFk_def insertRow_def split: if_splits)

text \<open>\<^verbatim>\<open>tx.Exec\<close> of an UPDATE that pins the primary key: it may find no row.\<close>

definition execUpdate :: "('r \<Rightarrow> bool) \<Rightarrow> ('r \<Rightarrow> string option) \<Rightarrow> ('r \<Rightarrow> 'r) \<Rightarrow> 'r list \<Rightarrow> db_error + 'r list" where
  "execUpdate P chk f rs =
     (case updateOne P chk f rs of
        Inl ErrNoRows \<Rightarrow> Inr rs
      | Inl err \<Rightarrow> Inl err
      | Inr (r, rs') \<Rightarrow> Inr rs')"

definition userCheck :: "UserProfile \<Rightarrow> string option" where
  "userCheck u = firstViolation
     [(u_display_name u \<noteq> '''', ''23514''),
      (u_email u \<noteq> Some '''', ''23514''),
      (u_status u \<in> {''active'', ''disabled''}, ''23514'')]"

definition sameUser :: "texts \<Rightarrow> UserProfile \<Rightarrow> UserProfile \<Rightarrow> bool" where
  "sameUser T x u \<longleftrightarrow>
     u_id x = u_id u \<or>
     (u_status x = ''active'' \<and> u_status u = ''active'' \<and>
      (case (u_email x, u_email u) of (Some a, Some b) \<Rightarrow> emailKey T a = emailKey T b | _ \<Rightarrow> False))"

definition CreateUserProfileRow :: "env \<Rightarrow> texts \<Rightarrow> uuid \<Rightarrow> string \<Rightarrow> string option \<Rightarrow> idb \<Rightarrow> db_error + UserProfile \<times> idb" where
  "CreateUserProfileRow e T newID displayName email s =
     (let u = \<lparr>u_id = newID, u_display_name = displayName, u_email = email, u_status = ''active'', u_created_at = now e,
               u_updated_at = now e\<rparr>
      in map_sum id (\<lambda>(u', us). (u', s\<lparr>user_profiles := us\<rparr>)) (insertRow (sameUser T) (userCheck u) u (user_profiles s)))"

definition GetActiveUserProfileByEmail :: "texts \<Rightarrow> string \<Rightarrow> idb \<Rightarrow> db_error + UserProfile" where
  "GetActiveUserProfileByEmail T email s =
     selectOne (\<lambda>u. (case u_email u of None \<Rightarrow> False | Some x \<Rightarrow> emailKey T x = email) \<and> u_status u = ''active'') (user_profiles s)"

text \<open>The unique keys of the membership tables; one is for the active rows of a user only.\<close>

definition sameOrgMember :: "OrganisationMembership \<Rightarrow> OrganisationMembership \<Rightarrow> bool" where
  "sameOrgMember x m \<longleftrightarrow>
     om_id x = om_id m \<or>
     (om_org x = om_org m \<and>
      (om_member_ref x = om_member_ref m \<or>
       (om_user_profile x \<noteq> None \<and> om_user_profile x = om_user_profile m \<and> om_disabled_at x = None \<and> om_disabled_at m = None)))"

definition sameLocMember :: "LocationMembership \<Rightarrow> LocationMembership \<Rightarrow> bool" where
  "sameLocMember x m \<longleftrightarrow>
     lm_id x = lm_id m \<or>
     (lm_loc x = lm_loc m \<and>
      (lm_member_ref x = lm_member_ref m \<or>
       (lm_user_profile x \<noteq> None \<and> lm_user_profile x = lm_user_profile m \<and> lm_disabled_at x = None \<and> lm_disabled_at m = None)))"

definition CreateUserOrganisationMembershipRow ::
  "env \<Rightarrow> ctx \<Rightarrow> uuid \<Rightarrow> uuid \<Rightarrow> uuid option \<Rightarrow> string \<Rightarrow> string \<Rightarrow> hdb \<Rightarrow> db_error + OrganisationMembership \<times> hdb" where
  "CreateUserOrganisationMembershipRow e c newID org user memberRef role h =
     (let m = \<lparr>om_id = newID, om_org = org, om_member_ref = memberRef, om_role = role, om_created_at = now e, om_updated_at = now e,
               om_user_profile = user, om_disabled_at = None\<rparr>
      in map_sum id (\<lambda>(m', ms). (m', setStaff ((staff h)\<lparr>organisation_memberships := ms\<rparr>) h))
           (insertRowFk sameOrgMember
              (firstViolation [(visible_org e c org, ''42501''), (memberRef \<noteq> '''', ''23514''), (role \<noteq> '''', ''23514'')])
              (firstViolation
                 [(org \<in> g_id ` set (organisations (staff h)), ''23503''),
                  (case user of None \<Rightarrow> True | Some u \<Rightarrow> u \<in> u_id ` set (user_profiles (staff h)), ''23503''),
                  (role \<in> set (roles h), ''23503'')])
              m (organisation_memberships (staff h))))"

definition CreateUserLocationMembershipRow ::
  "env \<Rightarrow> ctx \<Rightarrow> uuid \<Rightarrow> uuid \<Rightarrow> uuid \<Rightarrow> uuid option \<Rightarrow> string \<Rightarrow> string \<Rightarrow> hdb \<Rightarrow> db_error + LocationMembership \<times> hdb" where
  "CreateUserLocationMembershipRow e c newID org loc user memberRef role h =
     (let m = \<lparr>lm_id = newID, lm_org = org, lm_loc = loc, lm_member_ref = memberRef, lm_role = role, lm_created_at = now e,
               lm_updated_at = now e, lm_user_profile = user, lm_disabled_at = None\<rparr>
      in map_sum id (\<lambda>(m', ms). (m', setStaff ((staff h)\<lparr>location_memberships := ms\<rparr>) h))
           (insertRowFk sameLocMember
              (firstViolation [(visible e c org loc, ''42501''), (memberRef \<noteq> '''', ''23514''), (role \<noteq> '''', ''23514'')])
              (firstViolation
                 [(locationExists (core (staff h)) org loc, ''23503''),
                  (case user of None \<Rightarrow> True | Some u \<Rightarrow> u \<in> u_id ` set (user_profiles (staff h)), ''23503''),
                  (role \<in> set (roles h), ''23503'')])
              m (location_memberships (staff h))))"

text \<open>The policy of \<^verbatim>\<open>audit_events\<close> also admits the events of no organisation.\<close>

definition visible_audit :: "env \<Rightarrow> ctx \<Rightarrow> uuid option \<Rightarrow> bool" where
  "visible_audit e c org \<longleftrightarrow> rls e \<longrightarrow> platform_admin c \<or> org = None \<or> org = current_organisation c"

definition RecordAuditEvent ::
  "env \<Rightarrow> ctx \<Rightarrow> uuid \<Rightarrow> uuid option \<Rightarrow> uuid option \<Rightarrow> string \<Rightarrow> string \<Rightarrow> string \<Rightarrow> string \<Rightarrow> json \<Rightarrow> hdb \<Rightarrow> db_error + AuditEvent \<times> hdb" where
  "RecordAuditEvent e c newID org loc actorRef action targetType targetID metadata h =
     (let a = \<lparr>ae_id = newID, ae_org = org, ae_loc = loc, ae_actor_ref = actorRef, ae_action = action, ae_target_type = targetType,
               ae_target_id = targetID, ae_metadata = metadata, ae_created_at = now e\<rparr>
      in map_sum id (\<lambda>(a', as). (a', h\<lparr>audit_events := as\<rparr>))
           (insertRowFk (\<lambda>x y. ae_id x = ae_id y)
              (firstViolation
                 [(visible_audit e c org, ''42501''), (actorRef \<noteq> '''', ''23514''), (action \<noteq> '''', ''23514''),
                  (targetType \<noteq> '''', ''23514''), (targetID \<noteq> '''', ''23514''), (jsonb_typeof metadata = ''object'', ''23514'')])
              (firstViolation [(case org of None \<Rightarrow> True | Some g \<Rightarrow> g \<in> g_id ` set (organisations (staff h)), ''23503'')])
              a (audit_events h)))"

definition GetOrganisation :: "uuid \<Rightarrow> idb \<Rightarrow> db_error + Organisation" where
  "GetOrganisation i s = selectOne (\<lambda>g. g_id g = i) (organisations s)"

definition GetRolePermissions :: "texts \<Rightarrow> string \<Rightarrow> idb \<Rightarrow> string list" where
  "GetRolePermissions T role s = sort_key (collation T) (map snd (filter (\<lambda>(r, p). r = role) (role_permissions s)))"


section \<open>Managed memberships\<close>

record ManagedMembership =
  mm_ID :: uuid
  mm_Scope :: string
  mm_OrganisationID :: uuid
  mm_LocationID :: uuid
  mm_UserProfileID :: uuid
  mm_DisplayName :: string
  mm_Email :: string
  mm_MemberRef :: string
  mm_Role :: string
  mm_DisabledAt :: "timestamp option"
  mm_Permissions :: "string list"

text \<open>The joined rows, as \<^verbatim>\<open>scanManagedMembership\<close> reads them: NULL is the zero value.\<close>

definition profileOf :: "uuid option \<Rightarrow> idb \<Rightarrow> UserProfile option" where
  "profileOf user s = (case user of None \<Rightarrow> None | Some i \<Rightarrow> find (\<lambda>u. u_id u = i) (user_profiles s))"

definition scanOrganisation :: "idb \<Rightarrow> OrganisationMembership \<Rightarrow> ManagedMembership" where
  "scanOrganisation s m =
     (let u = profileOf (om_user_profile m) s
      in \<lparr>mm_ID = om_id m, mm_Scope = MembershipScopeOrganisation, mm_OrganisationID = om_org m, mm_LocationID = uuid_Nil,
          mm_UserProfileID = nullableUUIDValue (om_user_profile m),
          mm_DisplayName = (case u of None \<Rightarrow> '''' | Some p \<Rightarrow> u_display_name p),
          mm_Email = (case Option.bind u u_email of None \<Rightarrow> '''' | Some x \<Rightarrow> x),
          mm_MemberRef = om_member_ref m, mm_Role = om_role m, mm_DisabledAt = om_disabled_at m, mm_Permissions = []\<rparr>)"

definition scanLocation :: "idb \<Rightarrow> LocationMembership \<Rightarrow> ManagedMembership" where
  "scanLocation s m =
     (let u = profileOf (lm_user_profile m) s
      in \<lparr>mm_ID = lm_id m, mm_Scope = MembershipScopeLocation, mm_OrganisationID = lm_org m, mm_LocationID = lm_loc m,
          mm_UserProfileID = nullableUUIDValue (lm_user_profile m),
          mm_DisplayName = (case u of None \<Rightarrow> '''' | Some p \<Rightarrow> u_display_name p),
          mm_Email = (case Option.bind u u_email of None \<Rightarrow> '''' | Some x \<Rightarrow> x),
          mm_MemberRef = lm_member_ref m, mm_Role = lm_role m, mm_DisabledAt = lm_disabled_at m, mm_Permissions = []\<rparr>)"

definition validMembershipScope :: "string \<Rightarrow> bool" where
  "validMembershipScope scope \<longleftrightarrow> scope = MembershipScopeOrganisation \<or> scope = MembershipScopeLocation"

definition validMembershipRole :: "string \<Rightarrow> string \<Rightarrow> bool" where
  "validMembershipRole scope role \<longleftrightarrow>
     (if scope = MembershipScopeOrganisation then role = RoleOrganisationOwner \<or> role = RoleReadOnly
      else if scope = MembershipScopeLocation then role = RoleLocationManager \<or> role = RoleWaiter
      else False)"

definition toLower :: "texts \<Rightarrow> string \<Rightarrow> string" where
  "toLower T s =
     (if list_all (\<lambda>ch. ch < CHR 0x80) s
      then map (\<lambda>ch. if CHR ''A'' \<le> ch \<and> ch \<le> CHR ''Z'' then char_of (of_char ch + 32 :: nat) else ch) s
      else goLower T s)"

text \<open>\<^verbatim>\<open>None\<close> is \<^verbatim>\<open>ErrValidation\<close>.\<close>

definition normalizeEmail :: "texts \<Rightarrow> string \<Rightarrow> string option" where
  "normalizeEmail T value =
     (let value = trimSpace value
      in if value = '''' then None
         else case parseAddress T value of
                None \<Rightarrow> None
              | Some address \<Rightarrow> if trimSpace address = '''' then None else Some (toLower T address))"

definition userProfileActorRef :: "texts \<Rightarrow> uuid \<Rightarrow> string" where
  "userProfileActorRef T i = (if i = uuid_Nil then ''user:'' else ''user:'' @ uuidText T i)"

text \<open>\<^verbatim>\<open>errors.As\<close> with a \<^verbatim>\<open>*pgconn.PgError\<close>: the first one in the tree.\<close>

fun firstPgError :: "'e fail \<Rightarrow> string option" where
  "firstPgError (Err x) = None"
| "firstPgError (Wrapped site err) = (case err of PgError code \<Rightarrow> Some code | _ \<Rightarrow> None)"
| "firstPgError (Joined a b) = (case firstPgError a of Some code \<Rightarrow> Some code | None \<Rightarrow> firstPgError b)"

definition mapIdentityConstraintError :: "id_error fail \<Rightarrow> id_error fail" where
  "mapIdentityConstraintError err = (if firstPgError err = Some ''23505'' then Err ErrAlreadyExists else err)"

definition mapped :: "'a staff_result \<Rightarrow> 'a staff_result" where
  "mapped r = (case r of (Inl err, h) \<Rightarrow> (Inl (mapIdentityConstraintError err), h) | (Inr v, h) \<Rightarrow> (Inr v, h))"

definition getMembershipByProfile ::
  "env \<Rightarrow> ctx \<Rightarrow> uuid \<Rightarrow> string \<Rightarrow> uuid \<Rightarrow> uuid \<Rightarrow> ManagedMembership staff_body" where
  "getMembershipByProfile e c org scope loc user =
     runQuery e ''scanning membership'' (Some ErrIdentityNotFound)
       (reading (\<lambda>h.
         if scope = MembershipScopeLocation
         then map_sum id (scanLocation (staff h))
                (selectOne (\<lambda>m. visible e c (lm_org m) (lm_loc m) \<and> lm_org m = org \<and> lm_loc m = loc \<and>
                                 lm_user_profile m = nullableUUID user \<and> nullableUUID user \<noteq> None \<and>
                                 profileOf (lm_user_profile m) (staff h) \<noteq> None)
                   (location_memberships (staff h)))
         else map_sum id (scanOrganisation (staff h))
                (selectOne (\<lambda>m. visible_org e c (om_org m) \<and> om_org m = org \<and>
                                 om_user_profile m = nullableUUID user \<and> nullableUUID user \<noteq> None \<and>
                                 profileOf (om_user_profile m) (staff h) \<noteq> None)
                   (organisation_memberships (staff h)))))"

definition getManagedMembershipForUpdate :: "env \<Rightarrow> ctx \<Rightarrow> uuid \<Rightarrow> string \<Rightarrow> uuid \<Rightarrow> ManagedMembership staff_body" where
  "getManagedMembershipForUpdate e c org scope i =
     txGuard (\<not> validMembershipScope scope) (Err id_error.ErrValidation) (
       runQuery e ''scanning membership'' (Some ErrIdentityNotFound)
         (reading (\<lambda>h.
           if scope = MembershipScopeLocation
           then map_sum id (scanLocation (staff h))
                  (selectOne (\<lambda>m. visible e c (lm_org m) (lm_loc m) \<and> lm_org m = org \<and> lm_id m = i) (location_memberships (staff h)))
           else map_sum id (scanOrganisation (staff h))
                  (selectOne (\<lambda>m. visible_org e c (om_org m) \<and> om_org m = org \<and> om_id m = i) (organisation_memberships (staff h))))))"

text \<open>
  The UPDATEs of one membership; \<open>f\<close> and \<open>g\<close> change the row of an organisation or of a location, \<open>active\<close> says whether
  only an active row is updated.
\<close>

definition updateMembership ::
  "env \<Rightarrow> ctx \<Rightarrow> uuid \<Rightarrow> string \<Rightarrow> uuid \<Rightarrow> bool \<Rightarrow> (OrganisationMembership \<Rightarrow> OrganisationMembership) \<Rightarrow>
     (LocationMembership \<Rightarrow> LocationMembership) \<Rightarrow> hdb \<Rightarrow> db_error + unit \<times> hdb" where
  "updateMembership e c org scope i active f g h =
     (if scope = MembershipScopeLocation
      then map_sum id (\<lambda>ms. ((), setStaff ((staff h)\<lparr>location_memberships := ms\<rparr>) h))
             (execUpdate (\<lambda>m. visible e c (lm_org m) (lm_loc m) \<and> lm_org m = org \<and> lm_id m = i \<and> (active \<longrightarrow> lm_disabled_at m = None))
                (\<lambda>m. firstViolation
                   [(lm_role m \<noteq> '''', ''23514''),
                    (\<forall>x \<in> set (location_memberships (staff h)). lm_id x \<noteq> lm_id m \<longrightarrow> \<not> sameLocMember x m, ''23505''),
                    (lm_role m \<in> set (roles h), ''23503'')])
                g (location_memberships (staff h)))
      else map_sum id (\<lambda>ms. ((), setStaff ((staff h)\<lparr>organisation_memberships := ms\<rparr>) h))
             (execUpdate (\<lambda>m. visible_org e c (om_org m) \<and> om_org m = org \<and> om_id m = i \<and> (active \<longrightarrow> om_disabled_at m = None))
                (\<lambda>m. firstViolation
                   [(om_role m \<noteq> '''', ''23514''),
                    (\<forall>x \<in> set (organisation_memberships (staff h)). om_id x \<noteq> om_id m \<longrightarrow> \<not> sameOrgMember x m, ''23505''),
                    (om_role m \<in> set (roles h), ''23503'')])
                f (organisation_memberships (staff h))))"

definition updateMembershipRole :: "env \<Rightarrow> ctx \<Rightarrow> uuid \<Rightarrow> string \<Rightarrow> uuid \<Rightarrow> string \<Rightarrow> ManagedMembership staff_body" where
  "updateMembershipRole e c org scope i role =
     txBind (runQuery e ''updating membership role'' None
               (updateMembership e c org scope i True
                  (\<lambda>m. m\<lparr>om_role := role, om_updated_at := now e\<rparr>) (\<lambda>m. m\<lparr>lm_role := role, lm_updated_at := now e\<rparr>))) (\<lambda>_.
     getManagedMembershipForUpdate e c org scope i)"

definition updateMembershipEnabled :: "env \<Rightarrow> ctx \<Rightarrow> uuid \<Rightarrow> string \<Rightarrow> uuid \<Rightarrow> string \<Rightarrow> ManagedMembership staff_body" where
  "updateMembershipEnabled e c org scope i role =
     txBind (runQuery e ''reactivating membership'' None
               (updateMembership e c org scope i False
                  (\<lambda>m. m\<lparr>om_role := role, om_disabled_at := None, om_updated_at := now e\<rparr>)
                  (\<lambda>m. m\<lparr>lm_role := role, lm_disabled_at := None, lm_updated_at := now e\<rparr>))) (\<lambda>_.
     getManagedMembershipForUpdate e c org scope i)"

definition disableMembership :: "env \<Rightarrow> ctx \<Rightarrow> uuid \<Rightarrow> string \<Rightarrow> uuid \<Rightarrow> ManagedMembership staff_body" where
  "disableMembership e c org scope i =
     txBind (runQuery e ''disabling membership'' None
               (updateMembership e c org scope i True
                  (\<lambda>m. m\<lparr>om_disabled_at := Some (now e), om_updated_at := now e\<rparr>)
                  (\<lambda>m. m\<lparr>lm_disabled_at := Some (now e), lm_updated_at := now e\<rparr>))) (\<lambda>_.
     getManagedMembershipForUpdate e c org scope i)"

definition activeOwner :: "uuid \<Rightarrow> OrganisationMembership \<Rightarrow> bool" where
  "activeOwner org m \<longleftrightarrow> om_org m = org \<and> om_role m = RoleOrganisationOwner \<and> om_disabled_at m = None"

definition requireAnotherOrganisationOwner :: "env \<Rightarrow> ctx \<Rightarrow> uuid \<Rightarrow> unit staff_body" where
  "requireAnotherOrganisationOwner e c org =
     txBind (runQuery e ''counting organisation owners'' None
               (reading (\<lambda>h. Inr (length (filter (\<lambda>m. visible_org e c (om_org m) \<and> activeOwner org m)
                                                 (organisation_memberships (staff h))))))) (\<lambda>ownerCount.
     txGuard (ownerCount \<le> 1) (Err id_error.ErrValidation) (txReturn ()))"

definition getUserProfileByEmail :: "env \<Rightarrow> texts \<Rightarrow> string \<Rightarrow> UserProfile staff_body" where
  "getUserProfileByEmail e T email =
     runQuery e ''getting user profile by email'' (Some ErrIdentityNotFound)
       (reading (\<lambda>h. GetActiveUserProfileByEmail T email (staff h)))"

definition isErr :: "'e \<Rightarrow> 'e fail \<Rightarrow> bool" where
  "isErr x = errorsIs (\<lambda>y. y = x)"

definition getOrCreateUserProfileByEmail :: "env \<Rightarrow> texts \<Rightarrow> string \<Rightarrow> string \<Rightarrow> UserProfile staff_body" where
  "getOrCreateUserProfileByEmail e T email displayName = (\<lambda>h.
     (case getUserProfileByEmail e T email h of
        Inr r \<Rightarrow> Inr r
      | Inl err \<Rightarrow>
          if \<not> isErr ErrIdentityNotFound err then Inl err
          else runQuery e ''creating user profile'' None (onStaff (CreateUserProfileRow e T (gen e 0) displayName (Some email))) h))"

definition createOrReactivateOrganisationMembership ::
  "env \<Rightarrow> ctx \<Rightarrow> uuid \<Rightarrow> string \<Rightarrow> UserProfile \<Rightarrow> string \<Rightarrow> ManagedMembership staff_body" where
  "createOrReactivateOrganisationMembership e c org role profile memberRef = (\<lambda>h.
     (case getMembershipByProfile e c org MembershipScopeOrganisation uuid_Nil (u_id profile) h of
        Inr (existing, h') \<Rightarrow>
          if mm_DisabledAt existing = None then Inl (Err ErrAlreadyExists)
          else updateMembershipEnabled e c org MembershipScopeOrganisation (mm_ID existing) role h'
      | Inl err \<Rightarrow>
          if \<not> isErr ErrIdentityNotFound err then Inl err
          else txBind (runQuery e ''creating organisation membership'' None
                         (CreateUserOrganisationMembershipRow e c (gen e 1) org (nullableUUID (u_id profile)) memberRef role)) (\<lambda>_.
               getMembershipByProfile e c org MembershipScopeOrganisation uuid_Nil (u_id profile)) h))"

definition createOrReactivateLocationMembership ::
  "env \<Rightarrow> ctx \<Rightarrow> uuid \<Rightarrow> uuid \<Rightarrow> string \<Rightarrow> UserProfile \<Rightarrow> string \<Rightarrow> ManagedMembership staff_body" where
  "createOrReactivateLocationMembership e c org loc role profile memberRef = (\<lambda>h.
     (case getMembershipByProfile e c org MembershipScopeLocation loc (u_id profile) h of
        Inr (existing, h') \<Rightarrow>
          if mm_DisabledAt existing = None then Inl (Err ErrAlreadyExists)
          else updateMembershipEnabled e c org MembershipScopeLocation (mm_ID existing) role h'
      | Inl err \<Rightarrow>
          if \<not> isErr ErrIdentityNotFound err then Inl err
          else txBind (runQuery e ''creating location membership'' None
                         (CreateUserLocationMembershipRow e c (gen e 1) org loc (nullableUUID (u_id profile)) memberRef role)) (\<lambda>_.
               getMembershipByProfile e c org MembershipScopeLocation loc (u_id profile)) h))"

definition nullableAuditString :: "uuid \<Rightarrow> json" where
  "nullableAuditString i = (if i = uuid_Nil then JNull else JUuid i)"

definition recordMembershipAudit ::
  "env \<Rightarrow> texts \<Rightarrow> ctx \<Rightarrow> TenantActor \<Rightarrow> string \<Rightarrow> ManagedMembership \<Rightarrow> json \<Rightarrow> unit staff_body" where
  "recordMembershipAudit e T c actor action membership metadata =
     txBind (runQuery e ''recording membership audit event'' None
               (RecordAuditEvent e c (gen e 2) (nullableUUID (ta_OrganisationID actor)) (nullableUUID (mm_LocationID membership))
                  (ta_ActorRef actor) action auditTargetMembership (uuidText T (mm_ID membership)) metadata)) (\<lambda>_.
     txReturn ())"

end
