(* ===== verification/Accounts.thy ===== *)
theory Accounts
  imports Members
begin

text \<open>
  The people behind the memberships: user profiles with their external identities, the grants of platform roles that a
  verified address redeems, and the web sessions of \<^verbatim>\<open>internal/domain/identity/service.go\<close>, with their statements
  and the constraints of the migrations 000003, 000011 and 000015. The identifiers of one transaction are \<open>gen e 0\<close>
  for a profile, \<open>gen e 3\<close> for an external identity, \<open>gen e 4\<close> for a platform membership and \<open>gen e 5\<close> for a session.
\<close>

section \<open>Statements\<close>

definition userExists :: "uuid option \<Rightarrow> hdb \<Rightarrow> bool" where
  "userExists user h \<longleftrightarrow> (case user of None \<Rightarrow> True | Some u \<Rightarrow> u \<in> u_id ` set (user_profiles (staff h)))"

definition sameIdentity :: "ExternalIdentityRow \<Rightarrow> ExternalIdentityRow \<Rightarrow> bool" where
  "sameIdentity x y \<longleftrightarrow> xi_id x = xi_id y \<or> (xi_issuer x = xi_issuer y \<and> xi_subject x = xi_subject y)"

definition LinkExternalIdentity ::
  "env \<Rightarrow> uuid \<Rightarrow> uuid \<Rightarrow> string \<Rightarrow> string \<Rightarrow> string option \<Rightarrow> hdb \<Rightarrow> db_error + ExternalIdentityRow \<times> hdb" where
  "LinkExternalIdentity e newID user issuer subject email h =
     (let x = \<lparr>xi_id = newID, xi_user_profile = user, xi_issuer = issuer, xi_subject = subject, xi_email = email,
               xi_created_at = now e, xi_updated_at = now e\<rparr>
      in map_sum id (\<lambda>(x', xs). (x', h\<lparr>external_identities := xs\<rparr>))
           (insertRowFk sameIdentity
              (firstViolation [(issuer \<noteq> '''', ''23514''), (subject \<noteq> '''', ''23514''), (email \<noteq> Some '''', ''23514'')])
              (firstViolation [(userExists (Some user) h, ''23503'')]) x (external_identities h)))"

text \<open>The active user of a row that refers to one.\<close>

definition activeUser :: "uuid \<Rightarrow> hdb \<Rightarrow> UserProfile option" where
  "activeUser user h = find (\<lambda>u. u_id u = user \<and> u_status u = ''active'') (user_profiles (staff h))"

definition GetUserByExternalIdentity :: "string \<Rightarrow> string \<Rightarrow> hdb \<Rightarrow> (UserProfile \<times> ExternalIdentityRow) option" where
  "GetUserByExternalIdentity issuer subject h =
     (case find (\<lambda>x. xi_issuer x = issuer \<and> xi_subject x = subject \<and> activeUser (xi_user_profile x) h \<noteq> None) (external_identities h) of
        None \<Rightarrow> None
      | Some x \<Rightarrow> map_option (\<lambda>u. (u, x)) (activeUser (xi_user_profile x) h))"

definition pendingGrant :: "texts \<Rightarrow> string \<Rightarrow> PlatformAdminGrant \<Rightarrow> bool" where
  "pendingGrant T email g \<longleftrightarrow> emailKey T (pg_email g) = emailKey T email \<and> pg_consumed_at g = None \<and> pg_revoked_at g = None"

definition ConsumePlatformAdminGrant ::
  "env \<Rightarrow> ctx \<Rightarrow> texts \<Rightarrow> uuid option \<Rightarrow> string \<Rightarrow> hdb \<Rightarrow> db_error + (string \<times> string) \<times> hdb" where
  "ConsumePlatformAdminGrant e c T user email h =
     map_sum id (\<lambda>(g, gs). ((pg_role g, pg_invited_by g), h\<lparr>platform_admin_grants := gs\<rparr>))
       (updateOne (\<lambda>g. visible_platform e c \<and> pendingGrant T email g)
          (\<lambda>g. firstViolation [(user \<noteq> None, ''23514''), (userExists user h, ''23503'')])
          (\<lambda>g. g\<lparr>pg_consumed_at := Some (now e), pg_consumed_by := user\<rparr>)
          (platform_admin_grants h))"

text \<open>The INSERT with ON CONFLICT; the flag says whether it became an UPDATE, which fires the trigger at the commit.\<close>

definition CreatePlatformMembership ::
  "env \<Rightarrow> ctx \<Rightarrow> uuid \<Rightarrow> uuid \<Rightarrow> string \<Rightarrow> string \<Rightarrow> hdb \<Rightarrow> db_error + bool \<times> hdb" where
  "CreatePlatformMembership e c newID user role grantedBy h =
     (let held = (\<lambda>p. pm_user_profile p = user \<and> pm_disabled_at p = None);
          p = \<lparr>pm_id = newID, pm_user_profile = user, pm_role = role, pm_granted_by = grantedBy, pm_granted_at = now e,
               pm_disabled_at = None, pm_disabled_by = None, pm_created_at = now e, pm_updated_at = now e\<rparr>
      in case firstViolation
                [(visible_platform e c, ''42501''), (role \<in> {RolePlatformAdmin, RoleSupport}, ''23514''), (grantedBy \<noteq> '''', ''23514''),
                 ((\<exists>p \<in> set (platform_memberships h). held p) \<or> newID \<notin> pm_id ` set (platform_memberships h), ''23505''),
                 (role \<in> set (roles h), ''23503''), (userExists (Some user) h, ''23503'')] of
           Some state \<Rightarrow> Inl (PgError state)
         | None \<Rightarrow>
             if \<exists>p \<in> set (platform_memberships h). held p
             then Inr (True, h\<lparr>platform_memberships :=
                    map (\<lambda>p. if held p then p\<lparr>pm_role := role, pm_updated_at := now e\<rparr> else p) (platform_memberships h)\<rparr>)
             else Inr (False, h\<lparr>platform_memberships := platform_memberships h @ [p]\<rparr>))"

definition sameSession :: "WebSessionRow \<Rightarrow> WebSessionRow \<Rightarrow> bool" where
  "sameSession x y \<longleftrightarrow> ws_id x = ws_id y \<or> ws_lookup_prefix x = ws_lookup_prefix y"

definition CreateWebSessionRow ::
  "env \<Rightarrow> uuid \<Rightarrow> uuid \<Rightarrow> string \<Rightarrow> bytes \<Rightarrow> timestamp \<Rightarrow> string option \<Rightarrow> string option \<Rightarrow> uuid option \<Rightarrow> hdb \<Rightarrow>
     db_error + WebSessionRow \<times> hdb" where
  "CreateWebSessionRow e newID user prefix hash expiresAt userAgent ip rotatedFrom h =
     (let w = \<lparr>ws_id = newID, ws_user_profile = user, ws_lookup_prefix = prefix, ws_session_hash = hash, ws_issued_at = now e,
               ws_last_used_at = None, ws_expires_at = expiresAt, ws_revoked_at = None, ws_rotated_from = rotatedFrom,
               ws_user_agent = userAgent, ws_ip_address = ip, ws_created_at = now e, ws_updated_at = now e\<rparr>
      in map_sum id (\<lambda>(w', ws). (w', h\<lparr>web_sessions := ws\<rparr>))
           (insertRowFk sameSession
              (firstViolation [(prefix \<noteq> '''', ''23514''), (32 \<le> length hash, ''23514''), (now e < expiresAt, ''23514'')])
              (firstViolation
                 [(userExists (Some user) h, ''23503''),
                  (case rotatedFrom of None \<Rightarrow> True | Some i \<Rightarrow> i \<in> ws_id ` set (web_sessions h), ''23503'')])
              w (web_sessions h)))"

definition openSession :: "env \<Rightarrow> WebSessionRow \<Rightarrow> bool" where
  "openSession e w \<longleftrightarrow> ws_revoked_at w = None \<and> now e < ws_expires_at w"

definition GetWebSessionByPrefix :: "env \<Rightarrow> string \<Rightarrow> hdb \<Rightarrow> db_error + WebSessionRow \<times> UserProfile" where
  "GetWebSessionByPrefix e prefix h =
     (case find (\<lambda>w. ws_lookup_prefix w = prefix \<and> openSession e w \<and> activeUser (ws_user_profile w) h \<noteq> None) (web_sessions h) of
        None \<Rightarrow> Inl ErrNoRows
      | Some w \<Rightarrow> (case activeUser (ws_user_profile w) h of None \<Rightarrow> Inl ErrNoRows | Some u \<Rightarrow> Inr (w, u)))"

definition changeSession :: "(WebSessionRow \<Rightarrow> bool) \<Rightarrow> (WebSessionRow \<Rightarrow> WebSessionRow) \<Rightarrow> hdb \<Rightarrow> db_error + unit \<times> hdb" where
  "changeSession P f h = Inr ((), h\<lparr>web_sessions := map (\<lambda>w. if P w then f w else w) (web_sessions h)\<rparr>)"

definition TouchWebSession :: "env \<Rightarrow> uuid \<Rightarrow> hdb \<Rightarrow> db_error + unit \<times> hdb" where
  "TouchWebSession e i =
     changeSession (\<lambda>w. ws_id w = i \<and> openSession e w) (\<lambda>w. w\<lparr>ws_last_used_at := Some (now e), ws_updated_at := now e\<rparr>)"

definition RevokeWebSessionRow :: "env \<Rightarrow> uuid \<Rightarrow> hdb \<Rightarrow> db_error + unit \<times> hdb" where
  "RevokeWebSessionRow e i =
     changeSession (\<lambda>w. ws_id w = i)
       (\<lambda>w. w\<lparr>ws_revoked_at := (case ws_revoked_at w of None \<Rightarrow> Some (now e) | Some t \<Rightarrow> Some t), ws_updated_at := now e\<rparr>)"

text \<open>The active memberships of a user, by role and then by reference.\<close>

definition ListUserOrganisationMemberships :: "env \<Rightarrow> ctx \<Rightarrow> texts \<Rightarrow> uuid option \<Rightarrow> idb \<Rightarrow> OrganisationMembership list" where
  "ListUserOrganisationMemberships e c T user s =
     sort_key (\<lambda>m. collation T (om_role m)) (sort_key (\<lambda>m. collation T (om_member_ref m))
       (filter (\<lambda>m. visible_org e c (om_org m) \<and> user \<noteq> None \<and> om_user_profile m = user \<and> om_disabled_at m = None)
          (organisation_memberships s)))"

definition ListUserLocationMemberships :: "env \<Rightarrow> ctx \<Rightarrow> texts \<Rightarrow> uuid option \<Rightarrow> idb \<Rightarrow> LocationMembership list" where
  "ListUserLocationMemberships e c T user s =
     sort_key (\<lambda>m. collation T (lm_role m)) (sort_key (\<lambda>m. collation T (lm_member_ref m))
       (filter (\<lambda>m. visible e c (lm_org m) (lm_loc m) \<and> user \<noteq> None \<and> lm_user_profile m = user \<and> lm_disabled_at m = None)
          (location_memberships s)))"

definition ListUserPlatformMemberships :: "env \<Rightarrow> ctx \<Rightarrow> texts \<Rightarrow> uuid \<Rightarrow> hdb \<Rightarrow> PlatformMembership list" where
  "ListUserPlatformMemberships e c T user h =
     sort_key (\<lambda>p. collation T (pm_role p))
       (filter (\<lambda>p. visible_platform e c \<and> pm_user_profile p = user \<and> pm_disabled_at p = None) (platform_memberships h))"

section \<open>Profiles and external identities\<close>

record ExternalIdentity =
  ei_Issuer :: string
  ei_Subject :: string
  ei_Email :: string

record UserProfileParams =
  up_DisplayName :: string
  up_Email :: string
  up_External :: ExternalIdentity

record UserProfileResult =
  ur_User :: UserProfile
  ur_External :: ExternalIdentityRow

record ResolveExternalIdentityParams =
  xr_DisplayName :: string
  xr_Email :: string
  xr_EmailVerified :: bool
  xr_External :: ExternalIdentity

definition createLinkedProfile :: "env \<Rightarrow> texts \<Rightarrow> string \<Rightarrow> string \<Rightarrow> ExternalIdentity \<Rightarrow> UserProfileResult staff_body" where
  "createLinkedProfile e T displayName email external =
     txBind (runQuery e ''creating user profile'' None (onStaff (CreateUserProfileRow e T (gen e 0) displayName (nullableText email)))) (\<lambda>user.
     txBind (runQuery e ''linking external identity'' None
               (LinkExternalIdentity e (gen e 3) (u_id user) (ei_Issuer external) (ei_Subject external) (nullableText (ei_Email external)))) (\<lambda>x.
     txReturn \<lparr>ur_User = user, ur_External = x\<rparr>))"

definition CreateUserProfile :: "env \<Rightarrow> texts \<Rightarrow> UserProfileParams \<Rightarrow> hdb \<Rightarrow> UserProfileResult staff_result" where
  "CreateUserProfile e T arg =
     inAdminTx e (\<lambda>c. createLinkedProfile e T (up_DisplayName arg) (up_Email arg) (up_External arg))"

text \<open>The flag of the result says whether a platform membership was updated.\<close>

definition consumePendingPlatformGrant :: "env \<Rightarrow> ctx \<Rightarrow> texts \<Rightarrow> uuid \<Rightarrow> string \<Rightarrow> bool staff_body" where
  "consumePendingPlatformGrant e c T user email =
     (case normalizeEmail T email of
        None \<Rightarrow> txReturn False
      | Some email \<Rightarrow> (\<lambda>h.
          (case runQuery e ''consuming platform admin grant'' (Some ErrIdentityNotFound)
                  (ConsumePlatformAdminGrant e c T (nullableUUID user) email) h of
             Inl err \<Rightarrow> if isErr ErrIdentityNotFound err then Inr (False, h) else Inl err
           | Inr ((role, invitedBy), h') \<Rightarrow>
               runQuery e ''creating platform membership from grant'' None
                 (CreatePlatformMembership e c (gen e 4) user role invitedBy) h')))"

definition normalizeResolve :: "ResolveExternalIdentityParams \<Rightarrow> ResolveExternalIdentityParams" where
  "normalizeResolve arg =
     (let email = trimSpace (xr_Email arg); x = xr_External arg; displayName = trimSpace (xr_DisplayName arg);
          externalEmail = trimSpace (ei_Email x)
      in arg\<lparr>xr_DisplayName := (if displayName = '''' then email else displayName), xr_Email := email,
             xr_External := \<lparr>ei_Issuer = trimSpace (ei_Issuer x), ei_Subject = trimSpace (ei_Subject x),
                             ei_Email = (if externalEmail = '''' then email else externalEmail)\<rparr>\<rparr>)"

text \<open>The profile of a verified address, which takes the identity.\<close>

definition linkInvited :: "env \<Rightarrow> texts \<Rightarrow> ResolveExternalIdentityParams \<Rightarrow> UserProfileResult option staff_body" where
  "linkInvited e T arg =
     (if \<not> (xr_EmailVerified arg \<and> xr_Email arg \<noteq> '''') then txReturn None
      else case normalizeEmail T (xr_Email arg) of
             None \<Rightarrow> txReturn None
           | Some email \<Rightarrow>
               txBind (runQuery e ''getting invited user profile by email'' None
                         (reading (\<lambda>h. Inr (case GetActiveUserProfileByEmail T email (staff h) of Inl err \<Rightarrow> None | Inr u \<Rightarrow> Some u)))) (\<lambda>found.
               case found of
                 None \<Rightarrow> txReturn None
               | Some existing \<Rightarrow>
                   txBind (runQuery e ''linking invited external identity'' None
                             (LinkExternalIdentity e (gen e 3) (u_id existing) (ei_Issuer (xr_External arg)) (ei_Subject (xr_External arg))
                                (nullableText (ei_Email (xr_External arg))))) (\<lambda>x.
                   txReturn (Some \<lparr>ur_User = existing, ur_External = x\<rparr>))))"

definition resolveInTx :: "env \<Rightarrow> texts \<Rightarrow> ResolveExternalIdentityParams \<Rightarrow> ctx \<Rightarrow> (UserProfileResult \<times> bool) staff_body" where
  "resolveInTx e T arg c =
     txBind (runQuery e ''getting external identity'' None
               (reading (\<lambda>h. Inr (GetUserByExternalIdentity (ei_Issuer (xr_External arg)) (ei_Subject (xr_External arg)) h)))) (\<lambda>row.
     txBind (case row of
               Some (user, x) \<Rightarrow> txReturn (Some \<lparr>ur_User = user, ur_External = x\<rparr>)
             | None \<Rightarrow> linkInvited e T arg) (\<lambda>found.
     txBind (case found of
               Some r \<Rightarrow> if u_id (ur_User r) \<noteq> uuid_Nil then txReturn r
                         else createLinkedProfile e T (xr_DisplayName arg) (if xr_EmailVerified arg then xr_Email arg else '''') (xr_External arg)
             | None \<Rightarrow> createLinkedProfile e T (xr_DisplayName arg) (if xr_EmailVerified arg then xr_Email arg else '''') (xr_External arg)) (\<lambda>result.
     txBind (if xr_EmailVerified arg \<and> xr_Email arg \<noteq> ''''
             then consumePendingPlatformGrant e c T (u_id (ur_User result)) (xr_Email arg) else txReturn False) (\<lambda>fired.
     txReturn (result, fired)))))"

text \<open>
  The commit runs the deferred trigger of \<^verbatim>\<open>platform_memberships\<close> when one of its rows was updated: there has to be
  an active platform administrator.
\<close>

definition platformAdministered :: "hdb \<Rightarrow> bool" where
  "platformAdministered h \<longleftrightarrow> (\<exists>p \<in> set (platform_memberships h). pm_role p = RolePlatformAdmin \<and> pm_disabled_at p = None)"

definition commitPlatform :: "env \<Rightarrow> 'a \<Rightarrow> bool \<Rightarrow> hdb \<Rightarrow> hdb \<Rightarrow> 'a staff_result" where
  "commitPlatform e v fired h h' =
     (if fired \<and> \<not> platformAdministered h'
      then (Inl (Wrapped ''committing transaction'' (if commit e = Committed then PgError ''23514'' else ConnFailure)), h)
      else commitIdentity e v h h')"

definition ResolveExternalIdentity :: "env \<Rightarrow> texts \<Rightarrow> ResolveExternalIdentityParams \<Rightarrow> hdb \<Rightarrow> UserProfileResult staff_result" where
  "ResolveExternalIdentity e T arg h =
     (let arg = normalizeResolve arg
      in if xr_DisplayName arg = '''' \<or> ei_Issuer (xr_External arg) = '''' \<or> ei_Subject (xr_External arg) = ''''
         then (Inl (Err id_error.ErrValidation), h)
         else if fault e ''beginning transaction'' then (Inl (Wrapped ''beginning transaction'' ConnFailure), h)
         else case txGuard (fault e ''setting platform admin context'') (Wrapped ''setting platform admin context'' ConnFailure)
                     (resolveInTx e T arg admin_context) h of
                Inl err \<Rightarrow> (Inl (rollback e err), h)
              | Inr ((result, fired), h') \<Rightarrow> commitPlatform e result fired h h')"


section \<open>Web sessions\<close>

record Membership =
  ms_OrganisationID :: uuid
  ms_LocationID :: uuid
  ms_MemberRef :: string
  ms_Role :: string

record WebSession =
  wb_Session :: WebSessionRow
  wb_User :: UserProfile
  wb_Secret :: string
  wb_Memberships :: "Membership list"

record CreateWebSessionParams =
  cw_UserProfileID :: uuid
  cw_TTL :: int
  cw_UserAgent :: string
  cw_IPAddress :: string
  cw_RotatedFrom :: uuid

definition bareProfile :: "uuid \<Rightarrow> UserProfile" where
  "bareProfile i = \<lparr>u_id = i, u_display_name = '''', u_email = None, u_status = '''', u_created_at = 0, u_updated_at = 0\<rparr>"

definition hydrateWebSession :: "env \<Rightarrow> texts \<Rightarrow> WebSessionRow \<Rightarrow> string \<Rightarrow> hdb \<Rightarrow> WebSession staff_result" where
  "hydrateWebSession e T w secret =
     (let user = ws_user_profile w
      in inAdminTx e (\<lambda>c.
           txBind (runQuery e ''listing organisation memberships'' None
                     (reading (\<lambda>h. Inr (ListUserOrganisationMemberships e c T (nullableUUID user) (staff h))))) (\<lambda>orgs.
           txBind (runQuery e ''listing location memberships'' None
                     (reading (\<lambda>h. Inr (ListUserLocationMemberships e c T (nullableUUID user) (staff h))))) (\<lambda>locations.
           txBind (runQuery e ''listing platform memberships'' None
                     (reading (\<lambda>h. Inr (ListUserPlatformMemberships e c T user h)))) (\<lambda>platform.
           txReturn \<lparr>wb_Session = w, wb_User = bareProfile user, wb_Secret = secret,
                     wb_Memberships =
                       map (\<lambda>m. \<lparr>ms_OrganisationID = om_org m, ms_LocationID = uuid_Nil, ms_MemberRef = om_member_ref m, ms_Role = om_role m\<rparr>) orgs @
                       map (\<lambda>p. \<lparr>ms_OrganisationID = uuid_Nil, ms_LocationID = uuid_Nil,
                                 ms_MemberRef = userProfileActorRef T (pm_user_profile p), ms_Role = pm_role p\<rparr>) platform @
                       map (\<lambda>m. \<lparr>ms_OrganisationID = lm_org m, ms_LocationID = lm_loc m, ms_MemberRef = lm_member_ref m, ms_Role = lm_role m\<rparr>)
                         locations\<rparr>)))))"

text \<open>A session is created in world \<open>e\<close> and hydrated in world \<open>e'\<close>.\<close>

definition sessionTTL :: "int \<Rightarrow> int" where
  "sessionTTL ttl = (if ttl \<le> 0 then 8 * hourNanos else ttl)"

definition CreateWebSession ::
  "env \<Rightarrow> env \<Rightarrow> (nat \<Rightarrow> bytes option) \<Rightarrow> (string \<Rightarrow> bytes) \<Rightarrow> texts \<Rightarrow> CreateWebSessionParams \<Rightarrow> hdb \<Rightarrow> WebSession staff_result" where
  "CreateWebSession e e' rnd sha T arg h =
     (let ttl = sessionTTL (cw_TTL arg)
      in if cw_UserProfileID arg = uuid_Nil then (Inl (Err id_error.ErrValidation), h)
         else if ttl < 60 * second \<or> ttl > 24 * hourNanos then (Inl (Err id_error.ErrValidation), h)
         else case freshSecret rnd sha ''generating web session'' of
                Inl err \<Rightarrow> (Inl err, h)
              | Inr (secret, prefix, hash) \<Rightarrow>
                  (let ip = (if trimSpace (cw_IPAddress arg) = '''' then None else parseIP T (trimSpace (cw_IPAddress arg)))
                   in case inAdminTx e (\<lambda>c.
                             runQuery e ''creating web session'' None
                               (CreateWebSessionRow e (gen e 5) (cw_UserProfileID arg) prefix hash (pgTime (wall e + ttl))
                                  (nullableText (trimSpace (cw_UserAgent arg))) ip (nullableUUID (cw_RotatedFrom arg)))) h of
                        (Inl err, h') \<Rightarrow> (Inl err, h')
                      | (Inr w, h') \<Rightarrow> hydrateWebSession e' T w secret h'))"

definition ValidateWebSession :: "env \<Rightarrow> env \<Rightarrow> (string \<Rightarrow> bytes) \<Rightarrow> texts \<Rightarrow> string \<Rightarrow> hdb \<Rightarrow> WebSession staff_result" where
  "ValidateWebSession e e' sha T secret h =
     (case LookupPrefix secret of
        Inl err \<Rightarrow> (Inl (Err ErrUnauthorized), h)
      | Inr prefix \<Rightarrow>
          (case inAdminTx e (\<lambda>c.
                  txBind (runQuery e ''getting web session'' (Some ErrUnauthorized) (reading (GetWebSessionByPrefix e prefix))) (\<lambda>(w, user).
                  txBind (txLift (SecretMatches sha secret (ws_session_hash w))) (\<lambda>ok.
                  txGuard (\<not> ok) (Err ErrUnauthorized) (
                  txBind (runQuery e ''touching web session'' None (TouchWebSession e (ws_id w))) (\<lambda>_.
                  txReturn (w, user)))))) h of
             (Inl err, h') \<Rightarrow> (Inl err, h')
           | (Inr (w, user), h') \<Rightarrow>
               (case hydrateWebSession e' T w secret h' of
                  (Inl err, h'') \<Rightarrow> (Inl err, h'')
                | (Inr session, h'') \<Rightarrow> (Inr (session\<lparr>wb_User := user\<rparr>), h''))))"

definition RevokeWebSession :: "env \<Rightarrow> (string \<Rightarrow> bytes) \<Rightarrow> string \<Rightarrow> hdb \<Rightarrow> unit staff_result" where
  "RevokeWebSession e sha secret h =
     (case LookupPrefix secret of
        Inl err \<Rightarrow> (Inl (Err ErrUnauthorized), h)
      | Inr prefix \<Rightarrow>
          inAdminTx e (\<lambda>c.
            txBind (runQuery e ''getting web session'' None
                      (reading (\<lambda>h. Inr (case GetWebSessionByPrefix e prefix h of Inl err \<Rightarrow> None | Inr (w, user) \<Rightarrow> Some w)))) (\<lambda>row.
            case row of
              None \<Rightarrow> txReturn ()
            | Some w \<Rightarrow>
                txBind (txLift (SecretMatches sha secret (ws_session_hash w))) (\<lambda>ok.
                txGuard (\<not> ok) (Err ErrUnauthorized) (
                runQuery e ''revoking web session'' None (RevokeWebSessionRow e (ws_id w)))))) h)"

text \<open>Five transactions in the worlds \<open>es 0\<close> to \<open>es 4\<close>.\<close>

definition RotateWebSession ::
  "(nat \<Rightarrow> env) \<Rightarrow> (nat \<Rightarrow> bytes option) \<Rightarrow> (string \<Rightarrow> bytes) \<Rightarrow> texts \<Rightarrow> string \<Rightarrow> int \<Rightarrow> string \<Rightarrow> string \<Rightarrow> hdb \<Rightarrow>
     WebSession staff_result" where
  "RotateWebSession es rnd sha T secret ttl userAgent ipAddress h =
     (case ValidateWebSession (es 0) (es 1) sha T secret h of
        (Inl err, h') \<Rightarrow> (Inl err, h')
      | (Inr current, h') \<Rightarrow>
          (case CreateWebSession (es 2) (es 3) rnd sha T
                  \<lparr>cw_UserProfileID = u_id (wb_User current), cw_TTL = ttl, cw_UserAgent = userAgent, cw_IPAddress = ipAddress,
                   cw_RotatedFrom = ws_id (wb_Session current)\<rparr> h' of
             (Inl err, h'') \<Rightarrow> (Inl err, h'')
           | (Inr session, h'') \<Rightarrow>
               (case RevokeWebSession (es 4) sha secret h'' of
                  (Inl err, h3) \<Rightarrow> (Inl err, h3)
                | (Inr (), h3) \<Rightarrow> (Inr (session\<lparr>wb_User := wb_User current\<rparr>), h3))))"

end
