(* ===== verification/Memberships.thy ===== *)
theory Memberships
  imports Members
begin

text \<open>
  The operations of \<^verbatim>\<open>internal/domain/identity/memberships.go\<close>: what the managers of an organisation do to its
  memberships, and what the operators of the platform do to its owners. Each is one transaction.
\<close>


section \<open>The operations of an organisation's managers\<close>

record CreateMembershipParams =
  cm_Actor :: TenantActor
  cm_Scope :: string
  cm_LocationID :: uuid
  cm_Email :: string
  cm_DisplayName :: string
  cm_Role :: string

record UpdateMembershipRoleParams =
  um_Actor :: TenantActor
  um_Scope :: string
  um_ID :: uuid
  um_Role :: string

record DisableMembershipParams =
  dm_Actor :: TenantActor
  dm_Scope :: string
  dm_ID :: uuid

definition requireOrganisationManage :: "env \<Rightarrow> ctx \<Rightarrow> TenantActor \<Rightarrow> unit staff_body" where
  "requireOrganisationManage e c actor = onStaff (requireOrganisationPermission e c actor PermissionOrganisationManage)"

text \<open>
  The rows of the UNION with the inner ORDER BY as a sort by the least significant column first; a NULL display
  name sorts last.
\<close>

definition managedRows :: "env \<Rightarrow> ctx \<Rightarrow> texts \<Rightarrow> uuid \<Rightarrow> bool \<Rightarrow> idb \<Rightarrow> ManagedMembership list" where
  "managedRows e c T org includeDisabled s =
     (let os = filter (\<lambda>m. visible_org e c (om_org m) \<and> om_org m = org \<and> (includeDisabled \<or> om_disabled_at m = None))
                 (organisation_memberships s);
          ls = filter (\<lambda>m. visible e c (lm_org m) (lm_loc m) \<and> lm_org m = org \<and> (includeDisabled \<or> lm_disabled_at m = None))
                 (location_memberships s);
          rows = map (\<lambda>m. (profileOf (om_user_profile m) s, scanOrganisation s m)) os @
                 map (\<lambda>m. (profileOf (lm_user_profile m) s, scanLocation s m)) ls
      in map snd
           (sort_key (\<lambda>(u, m). collation T (mm_Scope m)) (sort_key (\<lambda>(u, m). collation T (mm_Role m))
             (sort_key (\<lambda>(u, m). u = None) (sort_key (\<lambda>(u, m). collation T (mm_DisplayName m))
               (sort_key (\<lambda>(u, m). collation T (mm_MemberRef m)) rows))))))"

text \<open>The permissions of a role are read once.\<close>

primrec hydrateMembershipPermissions ::
  "env \<Rightarrow> texts \<Rightarrow> (string \<rightharpoonup> string list) \<Rightarrow> ManagedMembership list \<Rightarrow> ManagedMembership list staff_body" where
  "hydrateMembershipPermissions e T cache [] = txReturn []"
| "hydrateMembershipPermissions e T cache (m # ms) =
     txBind (case cache (mm_Role m) of
               Some permissions \<Rightarrow> txReturn permissions
             | None \<Rightarrow> runQuery e ''getting role permissions'' None (reading (\<lambda>h. Inr (GetRolePermissions T (mm_Role m) (staff h)))))
       (\<lambda>permissions.
         txBind (hydrateMembershipPermissions e T (cache(mm_Role m \<mapsto> permissions)) ms) (\<lambda>rest.
         txReturn (m\<lparr>mm_Permissions := permissions\<rparr> # rest)))"

definition ListManagedMemberships :: "env \<Rightarrow> texts \<Rightarrow> TenantActor \<Rightarrow> bool \<Rightarrow> hdb \<Rightarrow> ManagedMembership list staff_result" where
  "ListManagedMemberships e T actor includeDisabled h =
     (let actor = normalizeTenantActor actor
      in case validateTenantActor actor False of
           Some err \<Rightarrow> (Inl (Err err), h)
         | None \<Rightarrow>
             inIdentityTenantTx e (ta_OrganisationID actor) uuid_Nil (\<lambda>c.
               txBind (requireOrganisationManage e c actor) (\<lambda>_.
               txBind (runQuery e ''listing memberships'' None
                         (reading (\<lambda>h. Inr (managedRows e c T (ta_OrganisationID actor) includeDisabled (staff h))))) (\<lambda>memberships.
               hydrateMembershipPermissions e T Map.empty memberships))) h)"

definition createMembershipInTx :: "env \<Rightarrow> texts \<Rightarrow> TenantActor \<Rightarrow> CreateMembershipParams \<Rightarrow> string \<Rightarrow> string \<Rightarrow> ctx \<Rightarrow> ManagedMembership staff_body" where
  "createMembershipInTx e T actor arg email displayName c =
     (let org = ta_OrganisationID actor; scope = trimSpace (cm_Scope arg); role = trimSpace (cm_Role arg)
      in txBind (requireOrganisationManage e c actor) (\<lambda>_.
         txBind (getOrCreateUserProfileByEmail e T email displayName) (\<lambda>profile.
         let memberRef = userProfileActorRef T (u_id profile)
         in txBind
              (if scope = MembershipScopeOrganisation
               then createOrReactivateOrganisationMembership e c org role profile memberRef
               else if scope = MembershipScopeLocation
               then txBind (runQuery e ''getting location'' (Some ErrIdentityNotFound)
                              (reading (\<lambda>h. GetLocation e c (cm_LocationID arg) org (core (staff h))))) (\<lambda>_.
                    createOrReactivateLocationMembership e c org (cm_LocationID arg) role profile memberRef)
               else txFail (Err id_error.ErrValidation)) (\<lambda>membership.
            txBind (recordMembershipAudit e T c actor auditActionMembershipCreate membership
                      (JObj [(''email'', JStr (mm_Email membership)), (''locationId'', nullableAuditString (mm_LocationID membership)),
                             (''role'', JStr (mm_Role membership)), (''scope'', JStr (mm_Scope membership))])) (\<lambda>_.
            txReturn membership)))))"

definition CreateMembership :: "env \<Rightarrow> texts \<Rightarrow> CreateMembershipParams \<Rightarrow> hdb \<Rightarrow> ManagedMembership staff_result" where
  "CreateMembership e T arg h =
     (let actor = normalizeTenantActor (cm_Actor arg); scope = trimSpace (cm_Scope arg); role = trimSpace (cm_Role arg);
          displayName = trimSpace (cm_DisplayName arg)
      in case normalizeEmail T (cm_Email arg) of
           None \<Rightarrow> (Inl (Err id_error.ErrValidation), h)
         | Some email \<Rightarrow>
             (case validateTenantActor actor False of
                Some err \<Rightarrow> (Inl (Err err), h)
              | None \<Rightarrow>
                  if \<not> validMembershipRole scope role then (Inl (Err id_error.ErrValidation), h)
                  else if scope = MembershipScopeLocation \<and> cm_LocationID arg = uuid_Nil then (Inl (Err id_error.ErrValidation), h)
                  else if scope = MembershipScopeOrganisation \<and> cm_LocationID arg \<noteq> uuid_Nil then (Inl (Err id_error.ErrValidation), h)
                  else mapped
                         (inIdentityTenantTx e (ta_OrganisationID actor) uuid_Nil
                            (createMembershipInTx e T actor arg email (if displayName = '''' then email else displayName)) h)))"

text \<open>The checks before a membership is changed: it is there, active, and not the last owner if it stops to own.\<close>

definition changeableMembership :: "env \<Rightarrow> ctx \<Rightarrow> uuid \<Rightarrow> string \<Rightarrow> uuid \<Rightarrow> bool \<Rightarrow> ManagedMembership staff_body" where
  "changeableMembership e c org scope i staysOwner =
     txBind (getManagedMembershipForUpdate e c org scope i) (\<lambda>current.
     txGuard (mm_DisabledAt current \<noteq> None) (Err ErrIdentityNotFound) (
     txBind (if mm_Scope current = MembershipScopeOrganisation \<and> mm_Role current = RoleOrganisationOwner \<and> \<not> staysOwner
             then requireAnotherOrganisationOwner e c org else txReturn ()) (\<lambda>_.
     txReturn current)))"

definition UpdateMembershipRole :: "env \<Rightarrow> texts \<Rightarrow> UpdateMembershipRoleParams \<Rightarrow> hdb \<Rightarrow> ManagedMembership staff_result" where
  "UpdateMembershipRole e T arg h =
     (let actor = normalizeTenantActor (um_Actor arg); org = ta_OrganisationID actor;
          scope = trimSpace (um_Scope arg); role = trimSpace (um_Role arg)
      in case validateTenantActor actor False of
           Some err \<Rightarrow> (Inl (Err err), h)
         | None \<Rightarrow>
             if um_ID arg = uuid_Nil \<or> \<not> validMembershipRole scope role then (Inl (Err id_error.ErrValidation), h)
             else inIdentityTenantTx e org uuid_Nil (\<lambda>c.
                    txBind (requireOrganisationManage e c actor) (\<lambda>_.
                    txBind (changeableMembership e c org scope (um_ID arg) (role = RoleOrganisationOwner)) (\<lambda>current.
                    txBind (updateMembershipRole e c org scope (um_ID arg) role) (\<lambda>membership.
                    txBind (recordMembershipAudit e T c actor auditActionMembershipUpdateRole membership
                              (JObj [(''email'', JStr (mm_Email membership)), (''locationId'', nullableAuditString (mm_LocationID membership)),
                                     (''previousRole'', JStr (mm_Role current)), (''role'', JStr (mm_Role membership)),
                                     (''scope'', JStr (mm_Scope membership))])) (\<lambda>_.
                    txReturn membership))))) h)"

definition DisableMembership :: "env \<Rightarrow> texts \<Rightarrow> DisableMembershipParams \<Rightarrow> hdb \<Rightarrow> ManagedMembership staff_result" where
  "DisableMembership e T arg h =
     (let actor = normalizeTenantActor (dm_Actor arg); org = ta_OrganisationID actor; scope = trimSpace (dm_Scope arg)
      in case validateTenantActor actor False of
           Some err \<Rightarrow> (Inl (Err err), h)
         | None \<Rightarrow>
             if dm_ID arg = uuid_Nil \<or> \<not> validMembershipScope scope then (Inl (Err id_error.ErrValidation), h)
             else inIdentityTenantTx e org uuid_Nil (\<lambda>c.
                    txBind (requireOrganisationManage e c actor) (\<lambda>_.
                    txBind (changeableMembership e c org scope (dm_ID arg) False) (\<lambda>current.
                    txBind (disableMembership e c org scope (dm_ID arg)) (\<lambda>membership.
                    txBind (recordMembershipAudit e T c actor auditActionMembershipDisable membership
                              (JObj [(''email'', JStr (mm_Email membership)), (''locationId'', nullableAuditString (mm_LocationID membership)),
                                     (''role'', JStr (mm_Role membership)), (''scope'', JStr (mm_Scope membership))])) (\<lambda>_.
                    txReturn membership))))) h)"


section \<open>The operations of the platform\<close>

record PlatformInviteOwnerParams =
  io_TargetOrganisationID :: uuid
  io_Email :: string
  io_DisplayName :: string
  io_ActorRef :: string

record PlatformOwnerMembershipParams =
  po_TargetOrganisationID :: uuid
  po_MembershipID :: uuid
  po_ActorRef :: string

record PlatformReassignOwnershipParams =
  ro_TargetOrganisationID :: uuid
  ro_FromMembershipID :: uuid
  ro_ToEmail :: string
  ro_ActorRef :: string

record PlatformReassignOwnershipResult =
  rr_PreviousOwner :: ManagedMembership
  rr_NextOwner :: ManagedMembership

definition PlatformInviteOwner :: "env \<Rightarrow> texts \<Rightarrow> PlatformInviteOwnerParams \<Rightarrow> hdb \<Rightarrow> ManagedMembership staff_result" where
  "PlatformInviteOwner e T arg h =
     (let displayName = trimSpace (io_DisplayName arg); org = io_TargetOrganisationID arg
      in case normalizeEmail T (io_Email arg) of
           None \<Rightarrow> (Inl (Err id_error.ErrValidation), h)
         | Some email \<Rightarrow>
             if org = uuid_Nil \<or> trimSpace (io_ActorRef arg) = '''' then (Inl (Err id_error.ErrValidation), h)
             else mapped
                    (inAdminTx e (\<lambda>c.
                       txBind (runQuery e ''getting organisation'' (Some ErrIdentityNotFound) (reading (\<lambda>h. GetOrganisation org (staff h)))) (\<lambda>_.
                       txBind (getOrCreateUserProfileByEmail e T email (if displayName = '''' then email else displayName)) (\<lambda>profile.
                       createOrReactivateOrganisationMembership e c org RoleOrganisationOwner profile
                         (userProfileActorRef T (u_id profile))))) h))"

definition PlatformDisableOwnerMembership :: "env \<Rightarrow> PlatformOwnerMembershipParams \<Rightarrow> hdb \<Rightarrow> ManagedMembership staff_result" where
  "PlatformDisableOwnerMembership e arg h =
     (let org = po_TargetOrganisationID arg
      in if org = uuid_Nil \<or> po_MembershipID arg = uuid_Nil \<or> trimSpace (po_ActorRef arg) = '''' then (Inl (Err id_error.ErrValidation), h)
         else inAdminTx e (\<lambda>c.
                txBind (getManagedMembershipForUpdate e c org MembershipScopeOrganisation (po_MembershipID arg)) (\<lambda>current.
                txGuard (mm_DisabledAt current \<noteq> None) (Err ErrIdentityNotFound) (
                txGuard (mm_Role current \<noteq> RoleOrganisationOwner) (Err id_error.ErrValidation) (
                txBind (requireAnotherOrganisationOwner e c org) (\<lambda>_.
                disableMembership e c org MembershipScopeOrganisation (po_MembershipID arg)))))) h)"

definition PlatformReactivateOwnerMembership :: "env \<Rightarrow> PlatformOwnerMembershipParams \<Rightarrow> hdb \<Rightarrow> ManagedMembership staff_result" where
  "PlatformReactivateOwnerMembership e arg h =
     (let org = po_TargetOrganisationID arg
      in if org = uuid_Nil \<or> po_MembershipID arg = uuid_Nil \<or> trimSpace (po_ActorRef arg) = '''' then (Inl (Err id_error.ErrValidation), h)
         else mapped
                (inAdminTx e (\<lambda>c.
                   txBind (getManagedMembershipForUpdate e c org MembershipScopeOrganisation (po_MembershipID arg)) (\<lambda>current.
                   txGuard (mm_Role current \<noteq> RoleOrganisationOwner) (Err id_error.ErrValidation) (
                   updateMembershipEnabled e c org MembershipScopeOrganisation (po_MembershipID arg) RoleOrganisationOwner))) h))"

definition nextOwner :: "env \<Rightarrow> texts \<Rightarrow> ctx \<Rightarrow> uuid \<Rightarrow> UserProfile \<Rightarrow> ManagedMembership staff_body" where
  "nextOwner e T c org profile = (\<lambda>h.
     (case createOrReactivateOrganisationMembership e c org RoleOrganisationOwner profile (userProfileActorRef T (u_id profile)) h of
        Inr r \<Rightarrow> Inr r
      | Inl err \<Rightarrow>
          if \<not> isErr ErrAlreadyExists err then Inl err
          else getMembershipByProfile e c org MembershipScopeOrganisation uuid_Nil (u_id profile) h))"

definition reassignInTx ::
  "env \<Rightarrow> texts \<Rightarrow> PlatformReassignOwnershipParams \<Rightarrow> string \<Rightarrow> ctx \<Rightarrow> PlatformReassignOwnershipResult staff_body" where
  "reassignInTx e T arg email c =
     (let org = ro_TargetOrganisationID arg; i = ro_FromMembershipID arg
      in txBind (getManagedMembershipForUpdate e c org MembershipScopeOrganisation i) (\<lambda>current.
         txGuard (mm_DisabledAt current \<noteq> None) (Err ErrIdentityNotFound) (
         txGuard (mm_Role current \<noteq> RoleOrganisationOwner) (Err id_error.ErrValidation) (
         txBind (getOrCreateUserProfileByEmail e T email email) (\<lambda>profile.
         txBind (nextOwner e T c org profile) (\<lambda>next'.
         txGuard (mm_ID next' = i) (Err id_error.ErrValidation) (
         txBind (disableMembership e c org MembershipScopeOrganisation i) (\<lambda>previous.
         txReturn \<lparr>rr_PreviousOwner = previous, rr_NextOwner = next'\<rparr>))))))))"

definition PlatformReassignOwnership ::
  "env \<Rightarrow> texts \<Rightarrow> PlatformReassignOwnershipParams \<Rightarrow> hdb \<Rightarrow> PlatformReassignOwnershipResult staff_result" where
  "PlatformReassignOwnership e T arg h =
     (case normalizeEmail T (ro_ToEmail arg) of
        None \<Rightarrow> (Inl (Err id_error.ErrValidation), h)
      | Some email \<Rightarrow>
          if ro_TargetOrganisationID arg = uuid_Nil \<or> ro_FromMembershipID arg = uuid_Nil \<or> trimSpace (ro_ActorRef arg) = ''''
          then (Inl (Err id_error.ErrValidation), h)
          else mapped (inAdminTx e (reassignInTx e T arg email) h))"

end
