(* ===== verification/Owners.thy ===== *)
theory Owners
  imports Memberships Devices
begin

text \<open>
  What the operations on memberships keep. The rows of a table with unique keys are a finite map from the primary
  key, and for the memberships of organisations this map is the abstract register that the operations are shown to
  refine: the register has six moves, one of which is to leave, and nobody leaves who is the last owner.
\<close>

section \<open>Tables with unique keys\<close>

definition uniqueRows :: "('r \<Rightarrow> 'r \<Rightarrow> bool) \<Rightarrow> 'r list \<Rightarrow> bool" where
  "uniqueRows conflict rs \<longleftrightarrow> sorted_wrt (\<lambda>x y. \<not> conflict x y) rs"

definition rowMap :: "('r \<Rightarrow> 'k) \<Rightarrow> ('r \<Rightarrow> 'v) \<Rightarrow> 'r list \<Rightarrow> 'k \<rightharpoonup> 'v" where
  "rowMap key v rs = map_of (map (\<lambda>r. (key r, v r)) rs)"

text \<open>\<open>conflict\<close> says that two rows may not stand in the table together; \<open>key\<close> is one of the unique keys.\<close>

locale unique_table =
  fixes key :: "'r \<Rightarrow> 'k" and conflict :: "'r \<Rightarrow> 'r \<Rightarrow> bool"
  assumes conflict_sym: "conflict x y \<Longrightarrow> conflict y x"
    and conflict_key: "key x = key y \<Longrightarrow> conflict x y"
begin

lemma unique_pair: "uniqueRows conflict rs \<Longrightarrow> x \<in> set rs \<Longrightarrow> y \<in> set rs \<Longrightarrow> conflict x y \<Longrightarrow> x = y"
  unfolding uniqueRows_def by (induction rs) (auto dest: conflict_sym)

lemma unique_keys: "uniqueRows conflict rs \<Longrightarrow> distinct (map key rs)"
  unfolding uniqueRows_def by (induction rs) (auto dest: conflict_key)

lemma unique_insert: "uniqueRows conflict rs \<Longrightarrow> \<forall>x \<in> set rs. \<not> conflict x r \<Longrightarrow> uniqueRows conflict (rs @ [r])"
  by (simp add: uniqueRows_def sorted_wrt_append)

lemma unique_update:
  assumes u: "uniqueRows conflict rs" and f: "key (f r) = key r" and r: "r \<in> set rs"
    and free: "\<forall>x \<in> set rs. key x \<noteq> key r \<longrightarrow> \<not> conflict x (f r)"
    and P: "\<And>x. x \<in> set rs \<Longrightarrow> P x \<longleftrightarrow> x = r"
  shows "uniqueRows conflict (map (\<lambda>x. if P x then f x else x) rs)"
  using u unique_keys [OF u] r free P unfolding uniqueRows_def
proof (induction rs)
  case (Cons x xs)
  have rest: "map (\<lambda>y. if P y then f y else y) xs = xs" if "r = x"
    using that Cons.prems(2,5) by (auto intro!: map_idI)
  have apart: "\<not> conflict x (f r)" if "r \<in> set xs" using that Cons.prems(2,4) by (auto simp: image_iff)
  have apart': "\<not> conflict (f r) y" if "r = x" "y \<in> set xs" for y
  proof -
    have "key y \<noteq> key r" using that Cons.prems(2) by (auto simp: image_iff)
    then show ?thesis using that Cons.prems(4) conflict_sym by auto
  qed
  show ?case
  proof (cases "r = x")
    case True
    then show ?thesis using Cons.prems rest apart' by auto
  next
    case False
    then have "r \<in> set xs" using Cons.prems(3) by simp
    then have "sorted_wrt (\<lambda>x y. \<not> conflict x y) (map (\<lambda>x. if P x then f x else x) xs)"
      using Cons.IH Cons.prems by simp
    then show ?thesis using Cons.prems False apart \<open>r \<in> set xs\<close> by auto
  qed
qed simp

lemma rowMap_iff: "uniqueRows conflict rs \<Longrightarrow> rowMap key v rs i = Some w \<longleftrightarrow> (\<exists>r \<in> set rs. key r = i \<and> v r = w)"
  unfolding rowMap_def by (subst map_of_eq_Some_iff) (auto simp: comp_def dest: unique_keys)

lemma rowMap_insert:
  assumes "\<forall>x \<in> set rs. \<not> conflict x r"
  shows "rowMap key v (rs @ [r]) = (rowMap key v rs)(key r \<mapsto> v r)" and "rowMap key v rs (key r) = None"
proof -
  show free: "rowMap key v rs (key r) = None"
    using assms conflict_key by (auto simp: rowMap_def map_of_eq_None_iff)
  then show "rowMap key v (rs @ [r]) = (rowMap key v rs)(key r \<mapsto> v r)"
    by (auto simp: rowMap_def map_add_def fun_eq_iff split: option.splits)
qed

lemma rowMap_update:
  assumes u: "uniqueRows conflict rs" and f: "key (f r) = key r" and r: "r \<in> set rs"
    and P: "\<And>x. x \<in> set rs \<Longrightarrow> P x \<longleftrightarrow> x = r"
  shows "rowMap key v (map (\<lambda>x. if P x then f x else x) rs) = (rowMap key v rs)(key r \<mapsto> v (f r))"
  using unique_keys [OF u] r P
proof (induction rs)
  case (Cons x xs)
  show ?case
  proof (cases "r = x")
    case True
    then have "map (\<lambda>y. if P y then f y else y) xs = xs" using Cons.prems by (auto intro!: map_idI)
    then show ?thesis using True Cons.prems f by (simp add: rowMap_def fun_eq_iff)
  next
    case False
    then have "r \<in> set xs" and "\<not> P x" and "key x \<noteq> key r" using Cons.prems by auto
    then show ?thesis using Cons by (simp add: rowMap_def) (simp add: fun_eq_iff)
  qed
qed simp

end

lemma execUpdate_Inr:
  "execUpdate P chk f rs = Inr rs' \<longleftrightarrow>
     (\<forall>x \<in> set rs. \<not> P x) \<and> rs' = rs \<or>
     (\<exists>r. find P rs = Some r \<and> chk (f r) = None \<and> rs' = map (\<lambda>x. if P x then f x else x) rs)"
  by (auto simp: execUpdate_def updateOne_def find_None_iff split: option.splits db_error.splits sum.splits dest: find_SomeD)

interpretation orgMembers: unique_table om_id sameOrgMember
  by unfold_locales (auto simp: sameOrgMember_def)

interpretation locMembers: unique_table lm_id sameLocMember
  by unfold_locales (auto simp: sameLocMember_def)

interpretation users: unique_table u_id "sameUser T"
  by unfold_locales (auto simp: sameUser_def split: option.splits)

interpretation audits: unique_table ae_id "\<lambda>x y. ae_id x = ae_id y"
  by unfold_locales auto

text \<open>A lookup whose failure is looked at, and branches that fail.\<close>

context body_order
begin

lemma either_follows:
  assumes "follows rel m" and "\<And>x. follows rel (f x)" and "\<And>err. follows rel (g err)"
  shows "follows rel (\<lambda>s. case m s of Inl err \<Rightarrow> g err s | Inr (x, s') \<Rightarrow> f x s')"
  by (rule followsI) (auto split: sum.splits intro: rel_trans [OF followsD [OF assms(1)] followsD [OF assms(2)]] followsD [OF assms(3)])

lemma unless_follows: "follows rel f \<Longrightarrow> follows rel (\<lambda>s. if b then Inl err else f s)"
  by (auto simp: follows_def)

lemma choice_follows: "follows rel f \<Longrightarrow> follows rel g \<Longrightarrow> follows rel (if b then f else g)"
  by simp

end

section \<open>The register of memberships\<close>

text \<open>What a membership of an organisation amounts to: the organisation, the role and whether it is active.\<close>

definition standingOf :: "OrganisationMembership \<Rightarrow> uuid \<times> string \<times> bool" where
  "standingOf m = (om_org m, om_role m, om_disabled_at m = None)"

type_synonym register = "uuid \<rightharpoonup> uuid \<times> string \<times> bool"

definition register :: "hdb \<Rightarrow> register" where
  "register h = rowMap om_id standingOf (organisation_memberships (staff h))"

inductive regStep :: "register \<Rightarrow> register \<Rightarrow> bool" where
  Stay: "regStep R R"
| Join: "R i = None \<Longrightarrow> regStep R (R(i \<mapsto> (org, role, True)))"
| Return: "R i = Some (org, old, False) \<Longrightarrow> regStep R (R(i \<mapsto> (org, role, True)))"
| Restore: "R i = Some (org, RoleOrganisationOwner, b) \<Longrightarrow> regStep R (R(i \<mapsto> (org, RoleOrganisationOwner, True)))"
| Change: "R i = Some (org, old, True) \<Longrightarrow>
    (old = RoleOrganisationOwner \<Longrightarrow> role \<noteq> RoleOrganisationOwner \<Longrightarrow> \<exists>j. j \<noteq> i \<and> R j = Some (org, RoleOrganisationOwner, True)) \<Longrightarrow>
    regStep R (R(i \<mapsto> (org, role, True)))"
| Leave: "R i = Some (org, old, True) \<Longrightarrow>
    (old = RoleOrganisationOwner \<Longrightarrow> \<exists>j. j \<noteq> i \<and> R j = Some (org, RoleOrganisationOwner, True)) \<Longrightarrow>
    regStep R (R(i \<mapsto> (org, old, False)))"

definition ownedIn :: "register \<Rightarrow> uuid \<Rightarrow> bool" where
  "ownedIn R org \<longleftrightarrow> (\<exists>i. R i = Some (org, RoleOrganisationOwner, True))"

lemma regStep_owned: "regStep R R' \<Longrightarrow> ownedIn R org \<Longrightarrow> ownedIn R' org"
proof (induction rule: regStep.induct)
  case (Change R i org' old role)
  from Change.prems obtain k where k: "R k = Some (org, RoleOrganisationOwner, True)" by (auto simp: ownedIn_def)
  show ?case
  proof (cases "k = i \<and> role \<noteq> RoleOrganisationOwner")
    case True
    with k Change.hyps obtain j where "j \<noteq> i" "R j = Some (org, RoleOrganisationOwner, True)" by auto
    then show ?thesis by (auto simp: ownedIn_def)
  next
    case False
    then show ?thesis using k Change.hyps(1) by (auto simp: ownedIn_def intro: exI [of _ k])
  qed
next
  case (Leave R i org' old)
  from Leave.prems obtain k where k: "R k = Some (org, RoleOrganisationOwner, True)" by (auto simp: ownedIn_def)
  show ?case
  proof (cases "k = i")
    case True
    with k Leave.hyps obtain j where "j \<noteq> i" "R j = Some (org, RoleOrganisationOwner, True)" by auto
    then show ?thesis by (auto simp: ownedIn_def)
  next
    case False
    then show ?thesis using k by (auto simp: ownedIn_def)
  qed
next
  case (Restore R i org' b)
  from Restore.prems obtain k where "R k = Some (org, RoleOrganisationOwner, True)" by (auto simp: ownedIn_def)
  then have "(R(i \<mapsto> (org', RoleOrganisationOwner, True))) k = Some (org, RoleOrganisationOwner, True)" using Restore.hyps by auto
  then show ?case unfolding ownedIn_def by blast
next
  case (Join R i org' role)
  from Join.prems obtain k where "R k = Some (org, RoleOrganisationOwner, True)" by (auto simp: ownedIn_def)
  then have "(R(i \<mapsto> (org', role, True))) k = Some (org, RoleOrganisationOwner, True)" using Join.hyps by auto
  then show ?case unfolding ownedIn_def by blast
next
  case (Return R i org' old role)
  from Return.prems obtain k where "R k = Some (org, RoleOrganisationOwner, True)" by (auto simp: ownedIn_def)
  then have "(R(i \<mapsto> (org', role, True))) k = Some (org, RoleOrganisationOwner, True)" using Return.hyps by auto
  then show ?case unfolding ownedIn_def by blast
qed simp

lemma regSteps_owned: "regStep\<^sup>*\<^sup>* R R' \<Longrightarrow> ownedIn R org \<Longrightarrow> ownedIn R' org"
  by (induction rule: rtranclp_induct) (blast intro: regStep_owned)+

text \<open>The unique keys of the tables of people.\<close>

definition staffOk :: "texts \<Rightarrow> hdb \<Rightarrow> bool" where
  "staffOk T h \<longleftrightarrow>
     uniqueRows sameOrgMember (organisation_memberships (staff h)) \<and> uniqueRows sameLocMember (location_memberships (staff h)) \<and>
     uniqueRows (sameUser T) (user_profiles (staff h)) \<and> uniqueRows (\<lambda>x y. ae_id x = ae_id y) (audit_events h)"

definition staffRel :: "texts \<Rightarrow> hdb \<Rightarrow> hdb \<Rightarrow> bool" where
  "staffRel T h h' \<longleftrightarrow> (staffOk T h \<longrightarrow> staffOk T h' \<and> regStep\<^sup>*\<^sup>* (register h) (register h'))"

interpretation staffs: identity_order "staffRel T"
  by unfold_locales (auto simp: staffRel_def)

lemma staffRel_step:
  "(staffOk T h \<Longrightarrow> staffOk T h' \<and> regStep (register h) (register h')) \<Longrightarrow> staffRel T h h'"
  by (auto simp: staffRel_def)

lemma staffRel_same:
  "(staffOk T h \<Longrightarrow> staffOk T h' \<and> register h' = register h) \<Longrightarrow> staffRel T h h'"
  by (auto simp: staffRel_def)

lemma register_iff:
  "staffOk T h \<Longrightarrow> register h i = Some w \<longleftrightarrow> (\<exists>m \<in> set (organisation_memberships (staff h)). om_id m = i \<and> standingOf m = w)"
  unfolding register_def by (rule orgMembers.rowMap_iff) (simp add: staffOk_def)

lemma owned_iff:
  "staffOk T h \<Longrightarrow> ownedIn (register h) org \<longleftrightarrow> (\<exists>m \<in> set (organisation_memberships (staff h)). activeOwner org m)"
  by (auto simp: ownedIn_def register_iff standingOf_def activeOwner_def)

lemma register_keep [simp]:
  "organisation_memberships i = organisation_memberships (staff h) \<Longrightarrow> register (setStaff i h) = register h"
  "register (h\<lparr>audit_events := as\<rparr>) = register h"
  by (simp_all add: register_def)


section \<open>Statements\<close>

lemma profile_row: "follows (staffRel T) (onStaff (CreateUserProfileRow e T i name email))"
  by (auto intro!: followsI staffRel_same users.unique_insert
       simp: onStaff_Inr CreateUserProfileRow_def Let_def insertRow_Inr staffOk_def elim!: map_sum_InrE split: prod.splits)

lemma audit_row: "follows (staffRel T) (RecordAuditEvent e c i org loc actor action type target metadata)"
  by (auto intro!: followsI staffRel_same audits.unique_insert
       simp: RecordAuditEvent_def Let_def insertRowFk_Inr staffOk_def elim!: map_sum_InrE split: prod.splits)

lemma location_row: "follows (staffRel T) (CreateUserLocationMembershipRow e c i org loc user ref role)"
  by (auto intro!: followsI staffRel_same locMembers.unique_insert
       simp: CreateUserLocationMembershipRow_def Let_def insertRowFk_Inr staffOk_def elim!: map_sum_InrE split: prod.splits)

lemma organisation_row: "follows (staffRel T) (CreateUserOrganisationMembershipRow e c i org user ref role)"
proof (rule followsI, rule staffRel_step)
  fix h m h'
  assume ok: "staffOk T h" and run: "CreateUserOrganisationMembershipRow e c i org user ref role h = Inr (m, h')"
  define r where "r = \<lparr>om_id = i, om_org = org, om_member_ref = ref, om_role = role, om_created_at = now e,
    om_updated_at = now e, om_user_profile = user, om_disabled_at = None\<rparr>"
  have r: "om_id r = i" "standingOf r = (org, role, True)" by (simp_all add: r_def standingOf_def)
  have free: "\<forall>x \<in> set (organisation_memberships (staff h)). \<not> sameOrgMember x r"
    and h': "h' = setStaff ((staff h)\<lparr>organisation_memberships := organisation_memberships (staff h) @ [r]\<rparr>) h"
    using run by (auto simp: CreateUserOrganisationMembershipRow_def Let_def insertRowFk_Inr r_def elim!: map_sum_InrE split: prod.splits)
  have "register h' = (register h)(i \<mapsto> (org, role, True))" "register h i = None"
    using orgMembers.rowMap_insert [OF free, of standingOf] r h' by (simp_all add: register_def)
  then show "staffOk T h' \<and> regStep (register h) (register h')"
    using ok free h' by (auto simp: staffOk_def intro: orgMembers.unique_insert regStep.Join)
qed

text \<open>An UPDATE changes the row it names and nothing else.\<close>

lemma updateMembership_Inr:
  assumes run: "updateMembership e c org scope i active f g h = Inr (u, h')" and ok: "staffOk T h"
    and f: "\<And>m. om_id (f m) = om_id m" and g: "\<And>m. lm_id (g m) = lm_id m"
  shows "staffOk T h' \<and> (register h' = register h \<and> (\<forall>m \<in> set (organisation_memberships (staff h)).
       om_id m = i \<and> om_org m = org \<and> visible_org e c org \<and> (active \<longrightarrow> om_disabled_at m = None) \<longrightarrow> scope = MembershipScopeLocation) \<or>
    (\<exists>m \<in> set (organisation_memberships (staff h)).
       om_id m = i \<and> scope \<noteq> MembershipScopeLocation \<and> register h' = (register h)(i \<mapsto> standingOf (f m))))"
proof (cases "scope = MembershipScopeLocation")
  case True
  define P where "P = (\<lambda>m :: LocationMembership. visible e c (lm_org m) (lm_loc m) \<and> lm_org m = org \<and> lm_id m = i \<and> (active \<longrightarrow> lm_disabled_at m = None))"
  have u: "uniqueRows sameLocMember (location_memberships (staff h))" using ok by (simp add: staffOk_def)
  from run True consider "h' = setStaff (staff h) h" | r where "find P (location_memberships (staff h)) = Some r"
    and "\<forall>x \<in> set (location_memberships (staff h)). lm_id x \<noteq> lm_id r \<longrightarrow> \<not> sameLocMember x (g r)"
    and "h' = setStaff ((staff h)\<lparr>location_memberships := map (\<lambda>x. if P x then g x else x) (location_memberships (staff h))\<rparr>) h"
    by (auto simp: updateMembership_def P_def execUpdate_Inr firstViolation_None g elim!: map_sum_InrE)
  then show ?thesis
  proof cases
    case 1 then show ?thesis using ok True by (simp add: staffOk_def)
  next
    case 2
    then have r: "r \<in> set (location_memberships (staff h))" "P r" by (auto dest: find_SomeD)
    have only: "P x \<longleftrightarrow> x = r" if "x \<in> set (location_memberships (staff h))" for x
      using distinct_key_eq [OF locMembers.unique_keys [OF u] that r(1)] r(2) by (auto simp: P_def)
    show ?thesis using 2 ok True locMembers.unique_update [of "location_memberships (staff h)" g r P] u g r(1) only by (simp add: staffOk_def)
  qed
next
  case False
  define P where "P = (\<lambda>m :: OrganisationMembership. visible_org e c (om_org m) \<and> om_org m = org \<and> om_id m = i \<and> (active \<longrightarrow> om_disabled_at m = None))"
  have u: "uniqueRows sameOrgMember (organisation_memberships (staff h))" using ok by (simp add: staffOk_def)
  from run False consider "h' = setStaff (staff h) h" and "\<forall>x \<in> set (organisation_memberships (staff h)). \<not> P x" | r where "find P (organisation_memberships (staff h)) = Some r"
    and "\<forall>x \<in> set (organisation_memberships (staff h)). om_id x \<noteq> om_id r \<longrightarrow> \<not> sameOrgMember x (f r)"
    and "h' = setStaff ((staff h)\<lparr>organisation_memberships := map (\<lambda>x. if P x then f x else x) (organisation_memberships (staff h))\<rparr>) h"
    by (auto simp: updateMembership_def P_def execUpdate_Inr firstViolation_None f elim!: map_sum_InrE)
  then show ?thesis
  proof cases
    case 1 then show ?thesis using ok by (auto simp: staffOk_def P_def)
  next
    case 2
    then have r: "r \<in> set (organisation_memberships (staff h))" "P r" by (auto dest: find_SomeD)
    have only: "P x \<longleftrightarrow> x = r" if "x \<in> set (organisation_memberships (staff h))" for x
      using distinct_key_eq [OF orgMembers.unique_keys [OF u] that r(1)] r(2) by (auto simp: P_def)
    have "om_id r = i" using r(2) by (simp add: P_def)
    then have "register h' = (register h)(i \<mapsto> standingOf (f r))"
      using 2(3) orgMembers.rowMap_update [of "organisation_memberships (staff h)" f r P standingOf] u f r(1) only by (simp add: register_def)
    moreover have "staffOk T h'"
      using 2 ok r(1) only orgMembers.unique_update [of "organisation_memberships (staff h)" f r P] u f by (simp add: staffOk_def)
    ultimately show ?thesis using False r(1) \<open>om_id r = i\<close> by blast
  qed
qed

section \<open>Bodies\<close>

lemma updateMembership_follows:
  assumes f: "\<And>m. om_id (f m) = om_id m" and g: "\<And>m. lm_id (g m) = lm_id m"
    and step: "\<And>m. staffOk T h \<Longrightarrow> scope \<noteq> MembershipScopeLocation \<Longrightarrow> m \<in> set (organisation_memberships (staff h)) \<Longrightarrow> om_id m = i \<Longrightarrow>
      regStep (register h) ((register h)(i \<mapsto> standingOf (f m)))"
    and run: "updateMembership e c org scope i active f g h = Inr (u, h')"
  shows "staffRel T h h'"
proof (rule staffRel_step)
  assume ok: "staffOk T h"
  show "staffOk T h' \<and> regStep (register h) (register h')"
    using updateMembership_Inr [OF run ok f g] step [OF ok] by (auto intro: regStep.Stay)
qed

lemma scanOrganisation_fields [simp]:
  "mm_ID (scanOrganisation s r) = om_id r" "mm_Role (scanOrganisation s r) = om_role r"
  "mm_DisabledAt (scanOrganisation s r) = om_disabled_at r" "mm_OrganisationID (scanOrganisation s r) = om_org r"
  "mm_Scope (scanOrganisation s r) = MembershipScopeOrganisation"
  by (simp_all add: scanOrganisation_def Let_def)

lemma scanLocation_scope [simp]: "mm_Scope (scanLocation s r) = MembershipScopeLocation"
  by (simp add: scanLocation_def Let_def)

lemma getManaged_Inr:
  "getManagedMembershipForUpdate e c org scope i h = Inr (m, h') \<Longrightarrow>
     h' = h \<and> validMembershipScope scope \<and> mm_Scope m = scope \<and>
     (scope = MembershipScopeLocation \<or>
      (\<exists>r \<in> set (organisation_memberships (staff h)). om_org r = org \<and> om_id r = i \<and> visible_org e c org \<and> m = scanOrganisation (staff h) r))"
  unfolding getManagedMembershipForUpdate_def
  by (auto simp: txGuard_Inr_iff runQuery_Inr reading_Inr selectOne_Inr validMembershipScope_def split: if_splits
       elim!: map_sum_InrE dest!: find_SomeD)

lemma getByProfile_Inr:
  "getMembershipByProfile e c org scope loc user h = Inr (m, h') \<Longrightarrow>
     h' = h \<and> (scope = MembershipScopeLocation \<or>
      (\<exists>r \<in> set (organisation_memberships (staff h)). om_org r = org \<and> visible_org e c org \<and> m = scanOrganisation (staff h) r))"
  unfolding getMembershipByProfile_def
  by (auto simp: runQuery_Inr reading_Inr selectOne_Inr split: if_splits elim!: map_sum_InrE dest!: find_SomeD)

lemma managed_follows [keeps_intros]: "follows (staffRel T) (getManagedMembershipForUpdate e c org scope i)"
  unfolding getManagedMembershipForUpdate_def by (intro staffs.guard_follows staffs.query_follows staffs.reading_follows)

lemma byProfile_follows [keeps_intros]: "follows (staffRel T) (getMembershipByProfile e c org scope loc user)"
  unfolding getMembershipByProfile_def by (intro staffs.query_follows staffs.reading_follows)

lemma register_at:
  "staffOk T h \<Longrightarrow> m \<in> set (organisation_memberships (staff h)) \<Longrightarrow> register h (om_id m) = Some (standingOf m)"
  using register_iff by blast

text \<open>Two rows of a table with a key are one when their keys agree.\<close>

lemma same_member:
  "staffOk T h \<Longrightarrow> x \<in> set (organisation_memberships (staff h)) \<Longrightarrow> y \<in> set (organisation_memberships (staff h)) \<Longrightarrow>
     om_id x = om_id y \<Longrightarrow> x = y"
  using orgMembers.unique_keys distinct_key_eq unfolding staffOk_def by metis

lemma enable_follows:
  assumes old: "staffOk T h \<Longrightarrow> scope = MembershipScopeLocation \<or>
      (\<exists>r \<in> set (organisation_memberships (staff h)). om_id r = i \<and>
         (om_disabled_at r \<noteq> None \<or> om_role r = RoleOrganisationOwner \<and> role = RoleOrganisationOwner))"
    and run: "updateMembershipEnabled e c org scope i role h = Inr (m, h')"
  shows "staffRel T h h'"
proof -
  obtain u h1 where upd: "updateMembership e c org scope i False
        (\<lambda>m. m\<lparr>om_role := role, om_disabled_at := None, om_updated_at := now e\<rparr>)
        (\<lambda>m. m\<lparr>lm_role := role, lm_disabled_at := None, lm_updated_at := now e\<rparr>) h = Inr (u, h1)"
    and get: "getManagedMembershipForUpdate e c org scope i h1 = Inr (m, h')"
    using run by (auto simp: updateMembershipEnabled_def txBind_Inr_iff runQuery_Inr)
  have "staffRel T h h1"
  proof (rule updateMembership_follows [OF _ _ _ upd])
    fix r
    assume ok: "staffOk T h" and scope: "scope \<noteq> MembershipScopeLocation"
      and r: "r \<in> set (organisation_memberships (staff h))" "om_id r = i"
    then have "om_disabled_at r \<noteq> None \<or> om_role r = RoleOrganisationOwner \<and> role = RoleOrganisationOwner"
      using old [OF ok] same_member [OF ok] by metis
    moreover have "register h i = Some (om_org r, om_role r, om_disabled_at r = None)"
      using register_at [OF ok r(1)] r(2) by (simp add: standingOf_def)
    ultimately show "regStep (register h) ((register h)(i \<mapsto> standingOf (r\<lparr>om_role := role, om_disabled_at := None, om_updated_at := now e\<rparr>)))"
      by (auto simp: standingOf_def intro: regStep.Return regStep.Restore)
  qed simp_all
  then show ?thesis using getManaged_Inr [OF get] by simp
qed

lemma onStaff_reading_follows: "follows (staffRel T) (runQuery e site nr (onStaff (CreateUserProfileRow e T i name email)))"
  by (rule staffs.query_follows, rule profile_row)

lemma getOrCreate_follows [keeps_intros]: "follows (staffRel T) (getOrCreateUserProfileByEmail e T email name)"
proof (rule followsI)
  fix h u h'
  assume "getOrCreateUserProfileByEmail e T email name h = Inr (u, h')"
  then show "staffRel T h h'"
    using followsD [OF onStaff_reading_follows]
    by (auto simp: getOrCreateUserProfileByEmail_def getUserProfileByEmail_def runQuery_Inr reading_Inr
         intro: staffs.rel_refl split: sum.splits if_splits)
qed

lemma joinOrganisation_follows [keeps_intros]:
  "follows (staffRel T) (createOrReactivateOrganisationMembership e c org role profile ref)"
proof (rule followsI)
  fix h m h'
  assume run: "createOrReactivateOrganisationMembership e c org role profile ref h = Inr (m, h')"
  show "staffRel T h h'"
  proof (cases "getMembershipByProfile e c org MembershipScopeOrganisation uuid_Nil (u_id profile) h")
    case (Inl err)
    have "follows (staffRel T) (txBind (runQuery e ''creating organisation membership'' None
        (CreateUserOrganisationMembershipRow e c (gen e 1) org (nullableUUID (u_id profile)) ref role)) (\<lambda>_.
        getMembershipByProfile e c org MembershipScopeOrganisation uuid_Nil (u_id profile)))"
      by (intro staffs.bind_follows staffs.query_follows organisation_row byProfile_follows)
    then show ?thesis
      using run Inl by (auto simp: createOrReactivateOrganisationMembership_def split: if_splits dest: followsD)
  next
    case (Inr p)
    then obtain x where p: "p = (x, h)" and x: "\<exists>r \<in> set (organisation_memberships (staff h)). om_org r = org \<and> x = scanOrganisation (staff h) r"
      using getByProfile_Inr by (cases p) (fastforce simp: role_names)
    with Inr run have "mm_DisabledAt x \<noteq> None"
      and upd: "updateMembershipEnabled e c org MembershipScopeOrganisation (mm_ID x) role h = Inr (m, h')"
      by (auto simp: createOrReactivateOrganisationMembership_def split: if_splits)
    with x show ?thesis by (intro enable_follows [OF _ upd]) auto
  qed
qed

lemma joinLocation_follows [keeps_intros]:
  "follows (staffRel T) (createOrReactivateLocationMembership e c org loc role profile ref)"
proof (rule followsI)
  fix h m h'
  assume run: "createOrReactivateLocationMembership e c org loc role profile ref h = Inr (m, h')"
  show "staffRel T h h'"
  proof (cases "getMembershipByProfile e c org MembershipScopeLocation loc (u_id profile) h")
    case (Inl err)
    have "follows (staffRel T) (txBind (runQuery e ''creating location membership'' None
        (CreateUserLocationMembershipRow e c (gen e 1) org loc (nullableUUID (u_id profile)) ref role)) (\<lambda>_.
        getMembershipByProfile e c org MembershipScopeLocation loc (u_id profile)))"
      by (intro staffs.bind_follows staffs.query_follows location_row byProfile_follows)
    then show ?thesis
      using run Inl by (auto simp: createOrReactivateLocationMembership_def split: if_splits dest: followsD)
  next
    case (Inr p)
    then have p: "snd p = h" using getByProfile_Inr by (cases p) fastforce
    with Inr run have "updateMembershipEnabled e c org MembershipScopeLocation (mm_ID (fst p)) role h = Inr (m, h')"
      by (auto simp: createOrReactivateLocationMembership_def split: if_splits prod.splits)
    then show ?thesis by (rule enable_follows [rotated]) simp
  qed
qed

lemma another_member:
  assumes "1 < length (filter P xs)" and "distinct (map k xs)"
  shows "\<exists>x \<in> set xs. P x \<and> k x \<noteq> i"
proof (rule ccontr)
  assume "\<not> ?thesis"
  then have "set (map k (filter P xs)) \<subseteq> {i}" by auto
  then have "card (set (map k (filter P xs))) \<le> 1" using card_mono [of "{i}"] by fastforce
  moreover have "distinct (map k (filter P xs))" using assms(2) by (rule distinct_map_filter)
  ultimately show False using assms(1) by (metis distinct_card length_map not_le)
qed

text \<open>A row may change that is active, and not the last owner unless it stays one.\<close>

definition mayChange :: "texts \<Rightarrow> hdb \<Rightarrow> uuid \<Rightarrow> string \<Rightarrow> uuid \<Rightarrow> bool \<Rightarrow> bool" where
  "mayChange T h org scope i stays \<longleftrightarrow>
     (staffOk T h \<longrightarrow> scope \<noteq> MembershipScopeLocation \<longrightarrow>
       (\<exists>r \<in> set (organisation_memberships (staff h)). om_id r = i \<and> om_org r = org \<and> om_disabled_at r = None \<and>
          (om_role r = RoleOrganisationOwner \<and> \<not> stays \<longrightarrow> (\<exists>j. j \<noteq> i \<and> register h j = Some (org, RoleOrganisationOwner, True)))))"

lemma anotherOwner_same: "requireAnotherOrganisationOwner e c org h = Inr (u, h') \<Longrightarrow> h' = h"
  by (simp add: requireAnotherOrganisationOwner_def txBind_Inr_iff txGuard_Inr_iff runQuery_Inr reading_Inr)

lemma anotherOwner_Inr:
  assumes run: "requireAnotherOrganisationOwner e c org h = Inr (u, h')" and ok: "staffOk T h"
  shows "\<exists>j. j \<noteq> i \<and> register h j = Some (org, RoleOrganisationOwner, True)"
proof -
  have keys: "distinct (map om_id (organisation_memberships (staff h)))"
    using ok orgMembers.unique_keys unfolding staffOk_def by blast
  have "1 < length (filter (\<lambda>m. visible_org e c (om_org m) \<and> activeOwner org m) (organisation_memberships (staff h)))"
    using run by (auto simp: requireAnotherOrganisationOwner_def txBind_Inr_iff txGuard_Inr_iff runQuery_Inr reading_Inr)
  from another_member [OF this keys, of i]
  obtain x where x: "x \<in> set (organisation_memberships (staff h))" "activeOwner org x" "om_id x \<noteq> i" by blast
  then show ?thesis using register_at [OF ok x(1)] by (auto simp: standingOf_def activeOwner_def)
qed

lemma mayChangeI:
  assumes get: "getManagedMembershipForUpdate e c org scope i h = Inr (current, h1)"
    and active: "mm_DisabledAt current = None"
    and more: "mm_Scope current = MembershipScopeOrganisation \<Longrightarrow> mm_Role current = RoleOrganisationOwner \<Longrightarrow> \<not> stays \<Longrightarrow>
      \<exists>u h2. requireAnotherOrganisationOwner e c org h = Inr (u, h2)"
  shows "mayChange T h org scope i stays"
  unfolding mayChange_def
proof (intro impI)
  assume ok: "staffOk T h" and "scope \<noteq> MembershipScopeLocation"
  then obtain r where "r \<in> set (organisation_memberships (staff h))" "om_org r = org" "om_id r = i" "current = scanOrganisation (staff h) r"
    using getManaged_Inr [OF get] by blast
  moreover from this have "\<exists>j. j \<noteq> i \<and> register h j = Some (org, RoleOrganisationOwner, True)"
    if owner: "om_role r = RoleOrganisationOwner" "\<not> stays"
  proof -
    obtain u h2 where "requireAnotherOrganisationOwner e c org h = Inr (u, h2)" using more owner calculation by auto
    then show ?thesis by (rule anotherOwner_Inr [OF _ ok])
  qed
  ultimately show "\<exists>r \<in> set (organisation_memberships (staff h)). om_id r = i \<and> om_org r = org \<and> om_disabled_at r = None \<and>
      (om_role r = RoleOrganisationOwner \<and> \<not> stays \<longrightarrow> (\<exists>j. j \<noteq> i \<and> register h j = Some (org, RoleOrganisationOwner, True)))"
    using active by auto
qed

lemma changeable_Inr:
  assumes "changeableMembership e c org scope i stays h = Inr (current, h')"
  shows "h' = h" and "mayChange T h org scope i stays"
proof -
  from assms obtain h1 where get: "getManagedMembershipForUpdate e c org scope i h = Inr (current, h1)"
    and active: "mm_DisabledAt current = None"
    and more: "(if mm_Scope current = MembershipScopeOrganisation \<and> mm_Role current = RoleOrganisationOwner \<and> \<not> stays
                then requireAnotherOrganisationOwner e c org else txReturn ()) h1 = Inr ((), h')"
    unfolding changeableMembership_def by (auto simp: txBind_Inr_iff txGuard_Inr_iff)
  have "h1 = h" using getManaged_Inr [OF get] by simp
  with more show "h' = h" by (auto split: if_splits dest: anotherOwner_same)
  show "mayChange T h org scope i stays"
    using more \<open>h1 = h\<close> by (intro mayChangeI [OF get active]) auto
qed

lemma role_after_guard:
  assumes guard: "mayChange T h org scope i (role = RoleOrganisationOwner)"
    and run: "updateMembershipRole e c org scope i role h = Inr (m, h')"
  shows "staffRel T h h'"
proof -
  obtain u h2 where upd: "updateMembership e c org scope i True (\<lambda>m. m\<lparr>om_role := role, om_updated_at := now e\<rparr>)
        (\<lambda>m. m\<lparr>lm_role := role, lm_updated_at := now e\<rparr>) h = Inr (u, h2)"
    and get: "getManagedMembershipForUpdate e c org scope i h2 = Inr (m, h')"
    using run by (auto simp: updateMembershipRole_def txBind_Inr_iff runQuery_Inr)
  have "staffRel T h h2"
  proof (rule updateMembership_follows [OF _ _ _ upd])
    fix r
    assume ok: "staffOk T h" and scope: "scope \<noteq> MembershipScopeLocation"
      and r: "r \<in> set (organisation_memberships (staff h))" "om_id r = i"
    then have "om_org r = org" "om_disabled_at r = None" and "om_role r = RoleOrganisationOwner \<and> role \<noteq> RoleOrganisationOwner \<longrightarrow>
        (\<exists>j. j \<noteq> i \<and> register h j = Some (org, RoleOrganisationOwner, True))"
      using guard ok scope same_member [OF ok] unfolding mayChange_def by metis+
    then show "regStep (register h) ((register h)(i \<mapsto> standingOf (r\<lparr>om_role := role, om_updated_at := now e\<rparr>)))"
      using register_at [OF ok r(1)] r(2) by (auto simp: standingOf_def intro!: regStep.Change)
  qed simp_all
  then show ?thesis using getManaged_Inr [OF get] by simp
qed

lemma disable_after_guard:
  assumes guard: "mayChange T h org scope i False"
    and run: "disableMembership e c org scope i h = Inr (m, h')"
  shows "staffRel T h h'"
proof -
  obtain u h2 where upd: "updateMembership e c org scope i True (\<lambda>m. m\<lparr>om_disabled_at := Some (now e), om_updated_at := now e\<rparr>)
        (\<lambda>m. m\<lparr>lm_disabled_at := Some (now e), lm_updated_at := now e\<rparr>) h = Inr (u, h2)"
    and get: "getManagedMembershipForUpdate e c org scope i h2 = Inr (m, h')"
    using run by (auto simp: disableMembership_def txBind_Inr_iff runQuery_Inr)
  have "staffRel T h h2"
  proof (rule updateMembership_follows [OF _ _ _ upd])
    fix r
    assume ok: "staffOk T h" and scope: "scope \<noteq> MembershipScopeLocation"
      and r: "r \<in> set (organisation_memberships (staff h))" "om_id r = i"
    then have "om_org r = org" "om_disabled_at r = None" and "om_role r = RoleOrganisationOwner \<longrightarrow>
        (\<exists>j. j \<noteq> i \<and> register h j = Some (org, RoleOrganisationOwner, True))"
      using guard ok scope same_member [OF ok] unfolding mayChange_def by metis+
    then show "regStep (register h) ((register h)(i \<mapsto> standingOf (r\<lparr>om_disabled_at := Some (now e), om_updated_at := now e\<rparr>)))"
      using register_at [OF ok r(1)] r(2) by (auto simp: standingOf_def intro!: regStep.Leave)
  qed simp_all
  then show ?thesis using getManaged_Inr [OF get] by simp
qed

section \<open>Operations\<close>

text \<open>A check whose answer allows the statement after it, and what follows.\<close>

lemma staffRel_bind2:
  assumes "\<And>h x h1 y h2. A h = Inr (x, h1) \<Longrightarrow> B x h1 = Inr (y, h2) \<Longrightarrow> staffRel T h h2"
    and "\<And>x y. follows (staffRel T) (C x y)"
  shows "follows (staffRel T) (txBind A (\<lambda>x. txBind (B x) (C x)))"
proof (rule followsI)
  fix h v h'
  assume "txBind A (\<lambda>x. txBind (B x) (C x)) h = Inr (v, h')"
  then obtain x h1 y h2 where "A h = Inr (x, h1)" "B x h1 = Inr (y, h2)" "C x y h2 = Inr (v, h')"
    by (auto simp: txBind_Inr_iff)
  then show "staffRel T h h'" using staffs.rel_trans [OF assms(1) followsD [OF assms(2)]] by blast
qed

lemma manage_follows [keeps_intros]: "follows (staffRel T) (requireOrganisationManage e c actor)"
  unfolding requireOrganisationManage_def requireOrganisationPermission_def
  by (auto intro!: followsI staffRel_same
       simp: onStaff_Inr txBind_Inr_iff txGuard_Inr_iff runQuery_Inr reading_Inr staffOk_def)

lemma auditing_follows [keeps_intros]: "follows (staffRel T) (recordMembershipAudit e U c actor action m metadata)"
  unfolding recordMembershipAudit_def by (intro staffs.bind_follows staffs.query_follows audit_row staffs.return_follows)

lemma mapped_follows: "followsTx (staffRel T) op \<Longrightarrow> followsTx (staffRel T) (\<lambda>h. mapped (op h))"
  by (auto simp: followsTx_def mapped_def split: prod.splits sum.splits) (metis snd_conv)+

lemma create_follows: "followsTx (staffRel T) (CreateMembership e T arg)"
  unfolding CreateMembership_def createMembershipInTx_def Let_def
  by (intro staffs.optionTx_follows staffs.if_follows staffs.const_follows mapped_follows staffs.inIdentityTenantTx_follows
       staffs.bind_follows manage_follows getOrCreate_follows staffs.choice_follows joinOrganisation_follows joinLocation_follows auditing_follows
       staffs.return_follows staffs.query_follows staffs.reading_follows staffs.fail_follows)

lemma guarded_role:
  assumes "changeableMembership e c org scope i (role = RoleOrganisationOwner) h = Inr (x, h1)"
    and "updateMembershipRole e c org scope i role h1 = Inr (y, h2)"
  shows "staffRel T h h2"
  using changeable_Inr [OF assms(1)] assms(2) role_after_guard by blast

lemma guarded_disable:
  assumes "changeableMembership e c org scope i False h = Inr (x, h1)" and "disableMembership e c org scope i h1 = Inr (y, h2)"
  shows "staffRel T h h2"
  using changeable_Inr [OF assms(1)] assms(2) disable_after_guard by blast

lemma role_follows: "followsTx (staffRel T) (UpdateMembershipRole e U arg)"
  unfolding UpdateMembershipRole_def Let_def
  by (intro staffs.optionTx_follows staffs.if_follows staffs.const_follows staffs.inIdentityTenantTx_follows
       staffs.bind_follows [OF manage_follows] staffRel_bind2)
    (assumption | erule (1) guarded_role | intro staffs.bind_follows auditing_follows staffs.return_follows)+

lemma disable_follows: "followsTx (staffRel T) (DisableMembership e U arg)"
  unfolding DisableMembership_def Let_def
  by (intro staffs.optionTx_follows staffs.if_follows staffs.const_follows staffs.inIdentityTenantTx_follows
       staffs.bind_follows [OF manage_follows] staffRel_bind2)
    (assumption | erule (1) guarded_disable | intro staffs.bind_follows auditing_follows staffs.return_follows)+

lemma invite_follows: "followsTx (staffRel T) (PlatformInviteOwner e T arg)"
  unfolding PlatformInviteOwner_def Let_def
  by (intro staffs.optionTx_follows staffs.if_follows staffs.const_follows mapped_follows staffs.inAdminTx_follows
       staffs.bind_follows staffs.query_follows staffs.reading_follows getOrCreate_follows joinOrganisation_follows)

lemma ownerDisable_follows: "followsTx (staffRel T) (PlatformDisableOwnerMembership e arg)"
  unfolding PlatformDisableOwnerMembership_def Let_def
proof (intro staffs.if_follows staffs.const_follows staffs.inAdminTx_follows followsI)
  fix c h m h'
  let ?org = "po_TargetOrganisationID arg" and ?i = "po_MembershipID arg"
  assume "txBind (getManagedMembershipForUpdate e c ?org MembershipScopeOrganisation ?i) (\<lambda>current.
      txGuard (mm_DisabledAt current \<noteq> None) (Err ErrIdentityNotFound) (
      txGuard (mm_Role current \<noteq> RoleOrganisationOwner) (Err id_error.ErrValidation) (
      txBind (requireAnotherOrganisationOwner e c ?org) (\<lambda>_.
      disableMembership e c ?org MembershipScopeOrganisation ?i)))) h = Inr (m, h')"
  then obtain current h1 u h2 where get: "getManagedMembershipForUpdate e c ?org MembershipScopeOrganisation ?i h = Inr (current, h1)"
    and active: "mm_DisabledAt current = None" and owner: "requireAnotherOrganisationOwner e c ?org h1 = Inr (u, h2)"
    and run: "disableMembership e c ?org MembershipScopeOrganisation ?i h2 = Inr (m, h')"
    by (auto simp: txBind_Inr_iff txGuard_Inr_iff)
  have "h1 = h" "h2 = h" using getManaged_Inr [OF get] anotherOwner_same [OF owner] by simp_all
  then show "staffRel T h h'"
    using mayChangeI [OF get active] owner run disable_after_guard by blast
qed

lemma ownerReactivate_follows: "followsTx (staffRel T) (PlatformReactivateOwnerMembership e arg)"
  unfolding PlatformReactivateOwnerMembership_def Let_def
proof (intro staffs.if_follows staffs.const_follows mapped_follows staffs.inAdminTx_follows followsI)
  fix c h m h'
  let ?org = "po_TargetOrganisationID arg" and ?i = "po_MembershipID arg"
  assume "txBind (getManagedMembershipForUpdate e c ?org MembershipScopeOrganisation ?i) (\<lambda>current.
      txGuard (mm_Role current \<noteq> RoleOrganisationOwner) (Err id_error.ErrValidation) (
      updateMembershipEnabled e c ?org MembershipScopeOrganisation ?i RoleOrganisationOwner)) h = Inr (m, h')"
  then obtain current where get: "getManagedMembershipForUpdate e c ?org MembershipScopeOrganisation ?i h = Inr (current, h)"
    and owner: "mm_Role current = RoleOrganisationOwner"
    and run: "updateMembershipEnabled e c ?org MembershipScopeOrganisation ?i RoleOrganisationOwner h = Inr (m, h')"
    by (auto simp: txBind_Inr_iff txGuard_Inr_iff dest: getManaged_Inr)
  show "staffRel T h h'"
    by (rule enable_follows [OF _ run]) (use getManaged_Inr [OF get] owner in auto)
qed

end
