(* ===== verification/Sessions.thy ===== *)
theory Sessions
  imports Accounts Owners
begin

text \<open>
  What every operation of the identity service on people keeps: web sessions evolve one way and are never deleted,
  profiles and external identities are only added, and their unique and foreign keys hold.
\<close>

section \<open>Membership operations and a preorder\<close>

text \<open>
  A preorder that the five statements of the membership operations follow, whatever rows they change, is followed by
  every membership operation.
\<close>

locale member_order = identity_order rel
  for rel :: "hdb \<Rightarrow> hdb \<Rightarrow> bool" +
  fixes T :: texts
  assumes profile_stmt: "follows rel (onStaff (CreateUserProfileRow e T i name email))"
    and audit_stmt: "follows rel (RecordAuditEvent e c i' org' loc' actor action type target metadata)"
    and organisation_stmt: "follows rel (CreateUserOrganisationMembershipRow e c i org user ref role)"
    and location_stmt: "follows rel (CreateUserLocationMembershipRow e c i org loc user ref role)"
    and update_stmt: "follows rel (updateMembership e c org scope i active f g)"
begin

lemma managed_body: "follows rel (getManagedMembershipForUpdate e c org scope i)"
  unfolding getManagedMembershipForUpdate_def by (intro guard_follows query_follows reading_follows)

lemma byProfile_body: "follows rel (getMembershipByProfile e c org scope loc user)"
  unfolding getMembershipByProfile_def by (intro query_follows reading_follows)

lemma enable_body: "follows rel (updateMembershipEnabled e c org scope i role)"
  unfolding updateMembershipEnabled_def by (intro bind_follows query_follows update_stmt managed_body)

lemma role_body: "follows rel (updateMembershipRole e c org scope i role)"
  unfolding updateMembershipRole_def by (intro bind_follows query_follows update_stmt managed_body)

lemma disable_body: "follows rel (disableMembership e c org scope i)"
  unfolding disableMembership_def by (intro bind_follows query_follows update_stmt managed_body)

lemma getOrCreate_body: "follows rel (getOrCreateUserProfileByEmail e T email name)"
proof -
  have "follows rel (\<lambda>h. case getUserProfileByEmail e T email h of
      Inl err \<Rightarrow> if \<not> isErr ErrIdentityNotFound err then Inl err
        else runQuery e ''creating user profile'' None (onStaff (CreateUserProfileRow e T (gen e 0) name (Some email))) h
    | Inr (x, h') \<Rightarrow> txReturn x h')"
    unfolding getUserProfileByEmail_def
    by (intro either_follows unless_follows query_follows reading_follows profile_stmt return_follows)
  then show ?thesis by (simp add: getOrCreateUserProfileByEmail_def follows_def split: sum.splits)
qed

lemma joinOrganisation_body: "follows rel (createOrReactivateOrganisationMembership e c org role profile ref)"
  unfolding createOrReactivateOrganisationMembership_def
  by (intro either_follows unless_follows enable_body bind_follows query_follows organisation_stmt byProfile_body)

lemma joinLocation_body: "follows rel (createOrReactivateLocationMembership e c org loc role profile ref)"
  unfolding createOrReactivateLocationMembership_def
  by (intro either_follows unless_follows enable_body bind_follows query_follows location_stmt byProfile_body)

lemma anotherOwner_body: "follows rel (requireAnotherOrganisationOwner e c org)"
  unfolding requireAnotherOrganisationOwner_def by (intro bind_follows query_follows reading_follows guard_follows return_follows)

lemma changeable_body: "follows rel (changeableMembership e c org scope i stays)"
  unfolding changeableMembership_def
  by (intro bind_follows managed_body guard_follows choice_follows anotherOwner_body return_follows)

lemma manage_body: "follows rel (requireOrganisationManage e c actor)"
  unfolding requireOrganisationManage_def requireOrganisationPermission_def
  by (auto intro!: followsI rel_refl simp: onStaff_Inr txBind_Inr_iff txGuard_Inr_iff runQuery_Inr reading_Inr setStaff_def)

lemma auditing_body: "follows rel (recordMembershipAudit e U c actor action m metadata)"
  unfolding recordMembershipAudit_def by (intro bind_follows query_follows audit_stmt return_follows)

lemma nextOwner_body: "follows rel (nextOwner e T c org profile)"
proof -
  have "follows rel (\<lambda>h. case createOrReactivateOrganisationMembership e c org RoleOrganisationOwner profile (userProfileActorRef T (u_id profile)) h of
      Inl err \<Rightarrow> if \<not> isErr ErrAlreadyExists err then Inl err
        else getMembershipByProfile e c org MembershipScopeOrganisation uuid_Nil (u_id profile) h
    | Inr (x, h') \<Rightarrow> txReturn x h')"
    by (intro either_follows unless_follows joinOrganisation_body byProfile_body return_follows)
  then show ?thesis by (simp add: nextOwner_def follows_def split: sum.splits)
qed

lemma mapped_body: "followsTx rel op \<Longrightarrow> followsTx rel (\<lambda>h. mapped (op h))"
  by (auto simp: followsTx_def mapped_def split: prod.splits sum.splits) (metis snd_conv)+

lemmas member_bodies =
  optionTx_follows if_follows const_follows mapped_body inIdentityTenantTx_follows inAdminTx_follows bind_follows guard_follows
  manage_body getOrCreate_body choice_follows joinOrganisation_body joinLocation_body auditing_body changeable_body role_body disable_body
  enable_body managed_body anotherOwner_body nextOwner_body return_follows query_follows reading_follows fail_follows

lemma member_operations:
  "followsTx rel (CreateMembership e T created)" "followsTx rel (UpdateMembershipRole e T changed)"
  "followsTx rel (DisableMembership e T left)" "followsTx rel (PlatformInviteOwner e T invited)"
  "followsTx rel (PlatformDisableOwnerMembership e removed)" "followsTx rel (PlatformReactivateOwnerMembership e restored)"
  "followsTx rel (PlatformReassignOwnership e T moved)"
  unfolding CreateMembership_def createMembershipInTx_def UpdateMembershipRole_def DisableMembership_def PlatformInviteOwner_def
    PlatformDisableOwnerMembership_def PlatformReactivateOwnerMembership_def PlatformReassignOwnership_def reassignInTx_def Let_def
  by (intro member_bodies)+

end


section \<open>How accounts move\<close>

text \<open>What counts of a session: all but the times of its last use and update.\<close>

definition sessionCore :: "WebSessionRow \<Rightarrow> WebSessionRow" where
  "sessionCore w = w\<lparr>ws_last_used_at := None, ws_updated_at := 0\<rparr>"

definition sessionMoves :: "WebSessionRow \<Rightarrow> WebSessionRow \<Rightarrow> bool" where
  "sessionMoves w w' \<longleftrightarrow>
     ws_id w' = ws_id w \<and> ws_user_profile w' = ws_user_profile w \<and> ws_lookup_prefix w' = ws_lookup_prefix w \<and>
     ws_session_hash w' = ws_session_hash w \<and> ws_expires_at w' = ws_expires_at w \<and> (ws_revoked_at w \<noteq> None \<longrightarrow> w' = w)"

interpretation sess: evolution ws_lookup_prefix sessionMoves "\<lambda>w. ws_revoked_at w \<noteq> None"
  by unfold_locales (auto simp: sessionMoves_def)

interpretation sessionRows: unique_table ws_lookup_prefix sameSession
  by unfold_locales (auto simp: sameSession_def)

interpretation sessionIds: unique_table ws_id sameSession
  by unfold_locales (auto simp: sameSession_def)

interpretation identities: unique_table "\<lambda>x. (xi_issuer x, xi_subject x)" sameIdentity
  by unfold_locales (auto simp: sameIdentity_def)

definition accountsOk :: "texts \<Rightarrow> hdb \<Rightarrow> bool" where
  "accountsOk T h \<longleftrightarrow>
     uniqueRows (sameUser T) (user_profiles (staff h)) \<and> uniqueRows sameIdentity (external_identities h) \<and>
     uniqueRows sameSession (web_sessions h) \<and>
     (\<forall>w \<in> set (web_sessions h). ws_user_profile w \<in> u_id ` set (user_profiles (staff h))) \<and>
     (\<forall>x \<in> set (external_identities h). xi_user_profile x \<in> u_id ` set (user_profiles (staff h)))"

definition accountsRel :: "texts \<Rightarrow> hdb \<Rightarrow> hdb \<Rightarrow> bool" where
  "accountsRel T h h' \<longleftrightarrow>
     (accountsOk T h \<longrightarrow>
        accountsOk T h' \<and>
        evolves ws_lookup_prefix sessionMoves (map sessionCore (web_sessions h)) (map sessionCore (web_sessions h')) \<and>
        (\<exists>us. user_profiles (staff h') = user_profiles (staff h) @ us) \<and>
        (\<exists>xs. external_identities h' = external_identities h @ xs))"

lemma accountsRel_refl: "accountsRel T h h"
  by (simp add: accountsRel_def sess.evolves_refl)

lemma accountsRel_trans: "accountsRel T h1 h2 \<Longrightarrow> accountsRel T h2 h3 \<Longrightarrow> accountsRel T h1 h3"
  unfolding accountsRel_def by (auto intro: sess.evolves_trans)

lemma accountsRel_quiet:
  "web_sessions h' = web_sessions h \<Longrightarrow> external_identities h' = external_identities h \<Longrightarrow>
     user_profiles (staff h') = user_profiles (staff h) \<Longrightarrow> accountsRel T h h'"
  by (simp add: accountsRel_def accountsOk_def sess.evolves_refl)

lemma profile_account: "follows (accountsRel T) (onStaff (CreateUserProfileRow e T i name email))"
proof (rule followsI)
  fix h u h'
  assume "onStaff (CreateUserProfileRow e T i name email) h = Inr (u, h')"
  then have free: "\<forall>x \<in> set (user_profiles (staff h)). \<not> sameUser T x u"
    and h': "h' = setStaff ((staff h)\<lparr>user_profiles := user_profiles (staff h) @ [u]\<rparr>) h"
    by (auto simp: onStaff_Inr CreateUserProfileRow_def Let_def insertRow_Inr elim!: map_sum_InrE split: prod.splits)
  show "accountsRel T h h'"
    using users.unique_insert [OF _ free] by (auto simp: accountsRel_def accountsOk_def h' sess.evolves_refl)
qed

interpretation people: member_order "accountsRel T" T for T
proof
  show "accountsRel T h h" for h by (rule accountsRel_refl)
  show "accountsRel T h1 h3" if "accountsRel T h1 h2" "accountsRel T h2 h3" for h1 h2 h3 using that by (rule accountsRel_trans)
  show "follows (accountsRel T) (onStaff (CreateUserProfileRow e T i name email))" for e i name email by (rule profile_account)
  show "follows (accountsRel T) (RecordAuditEvent e c i' org' loc' actor action type target metadata)"
    for e c i' org' loc' actor action type target metadata
    by (auto intro!: followsI accountsRel_quiet simp: RecordAuditEvent_def Let_def insertRowFk_Inr elim!: map_sum_InrE split: prod.splits)
  show "follows (accountsRel T) (CreateUserOrganisationMembershipRow e c i org user ref role)" for e c i org user ref role
    by (auto intro!: followsI accountsRel_quiet simp: CreateUserOrganisationMembershipRow_def Let_def insertRowFk_Inr
        elim!: map_sum_InrE split: prod.splits)
  show "follows (accountsRel T) (CreateUserLocationMembershipRow e c i org loc user ref role)" for e c i org loc user ref role
    by (auto intro!: followsI accountsRel_quiet simp: CreateUserLocationMembershipRow_def Let_def insertRowFk_Inr
        elim!: map_sum_InrE split: prod.splits)
  show "follows (accountsRel T) (updateMembership e c org scope i active f g)" for e c org scope i active f g
    by (auto intro!: followsI accountsRel_quiet simp: updateMembership_def split: if_splits elim!: map_sum_InrE)
qed

section \<open>The statements on accounts\<close>

lemma link_account: "follows (accountsRel T) (LinkExternalIdentity e i user issuer subject email)"
proof (rule followsI)
  fix h x h'
  assume "LinkExternalIdentity e i user issuer subject email h = Inr (x, h')"
  then have free: "\<forall>y \<in> set (external_identities h). \<not> sameIdentity y x" and user: "xi_user_profile x \<in> u_id ` set (user_profiles (staff h))"
    and h': "h' = h\<lparr>external_identities := external_identities h @ [x]\<rparr>"
    by (auto simp: LinkExternalIdentity_def Let_def insertRowFk_Inr firstViolation_None userExists_def elim!: map_sum_InrE split: prod.splits)
  show "accountsRel T h h'"
    using identities.unique_insert [OF _ free] user by (auto simp: accountsRel_def accountsOk_def h' sess.evolves_refl)
qed

lemma session_account: "follows (accountsRel T) (CreateWebSessionRow e i user prefix hash expires agent ip from)"
proof (rule followsI)
  fix h w h'
  assume "CreateWebSessionRow e i user prefix hash expires agent ip from h = Inr (w, h')"
  then have free: "\<forall>x \<in> set (web_sessions h). \<not> sameSession x w" and user: "ws_user_profile w \<in> u_id ` set (user_profiles (staff h))"
    and h': "h' = h\<lparr>web_sessions := web_sessions h @ [w]\<rparr>"
    by (auto simp: CreateWebSessionRow_def Let_def insertRowFk_Inr firstViolation_None userExists_def elim!: map_sum_InrE split: prod.splits)
  have "evolves ws_lookup_prefix sessionMoves (map sessionCore (web_sessions h)) (map sessionCore (web_sessions h) @ [sessionCore w])"
    using free by (intro sess.evolves_insert) (auto simp: sessionCore_def sameSession_def)
  then show "accountsRel T h h'"
    using sessionRows.unique_insert [OF _ free] user by (auto simp: accountsRel_def accountsOk_def h')
qed

lemma unique_same:
  assumes "\<And>r. key (f r) = key r" and "\<And>x y. conflict (f x) (f y) = conflict x y"
  shows "uniqueRows conflict (map f rs) = uniqueRows conflict rs"
  by (simp add: uniqueRows_def sorted_wrt_map assms)

lemma changeSession_account:
  assumes f: "\<And>w. sessionMoves (sessionCore w) (sessionCore (f w))"
    and id: "\<And>w. ws_id (f w) = ws_id w"
  shows "follows (accountsRel T) (changeSession P f)"
proof (rule followsI)
  fix h u h'
  assume run: "changeSession P f h = Inr (u, h')"
  define g where "g w = (if P w then f w else w)" for w
  have h': "h' = h\<lparr>web_sessions := map g (web_sessions h)\<rparr>" using run by (simp add: changeSession_def g_def [abs_def])
  have keep: "ws_lookup_prefix (g w) = ws_lookup_prefix w" "ws_user_profile (g w) = ws_user_profile w" "ws_id (g w) = ws_id w" for w
    using f [of w] id by (auto simp: sessionMoves_def sessionCore_def g_def)
  have "sessionMoves (sessionCore w) (sessionCore (g w))" for w using f sess.moves_refl by (simp add: g_def)
  then have "evolves ws_lookup_prefix sessionMoves (map sessionCore (web_sessions h)) (map sessionCore (map g (web_sessions h)))"
    unfolding evolves_def by auto
  moreover have "uniqueRows sameSession (map g (web_sessions h)) = uniqueRows sameSession (web_sessions h)"
    by (rule unique_same [where key = ws_id]) (simp_all add: keep sameSession_def)
  ultimately show "accountsRel T h h'" by (auto simp: accountsRel_def accountsOk_def h' keep)
qed

lemma touch_account: "follows (accountsRel T) (TouchWebSession e i)"
  unfolding TouchWebSession_def by (rule changeSession_account) (simp_all add: sessionMoves_def sessionCore_def)

lemma revoke_account: "follows (accountsRel T) (RevokeWebSessionRow e i)"
  unfolding RevokeWebSessionRow_def
  by (rule changeSession_account) (auto simp: sessionMoves_def sessionCore_def split: option.splits)

lemma grant_account: "follows (accountsRel T) (ConsumePlatformAdminGrant e c U user email)"
  by (auto intro!: followsI accountsRel_quiet simp: ConsumePlatformAdminGrant_def elim!: map_sum_InrE split: prod.splits)

lemma platform_account: "follows (accountsRel T) (CreatePlatformMembership e c i user role grantedBy)"
  by (auto intro!: followsI accountsRel_quiet simp: CreatePlatformMembership_def Let_def split: option.splits if_splits)


section \<open>The operations on accounts\<close>

lemma linked_account: "follows (accountsRel T) (createLinkedProfile e T name email x)"
  unfolding createLinkedProfile_def
  by (intro people.bind_follows people.query_follows profile_account link_account people.return_follows)

lemma consume_account: "follows (accountsRel T) (consumePendingPlatformGrant e c T user email)"
proof (cases "normalizeEmail T email")
  case (Some n)
  have "follows (accountsRel T) (\<lambda>h. case runQuery e ''consuming platform admin grant'' (Some ErrIdentityNotFound)
          (ConsumePlatformAdminGrant e c T (nullableUUID user) n) h of
       Inl err \<Rightarrow> if \<not> isErr ErrIdentityNotFound err then Inl err else txReturn False h
     | Inr (p, h') \<Rightarrow> runQuery e ''creating platform membership from grant'' None (CreatePlatformMembership e c (gen e 4) user (fst p) (snd p)) h')"
    by (intro people.either_follows people.unless_follows people.query_follows grant_account platform_account people.return_follows)
  then show ?thesis using Some
    by (simp add: consumePendingPlatformGrant_def follows_def split: sum.splits prod.splits)
qed (simp add: consumePendingPlatformGrant_def people.return_follows)

lemma invited_account: "follows (accountsRel T) (linkInvited e T arg)"
  unfolding linkInvited_def
  by (intro people.choice_follows people.return_follows people.option_follows people.bind_follows people.query_follows people.reading_follows
      link_account)

lemma resolve_body_account: "follows (accountsRel T) (resolveInTx e T arg c)"
  unfolding resolveInTx_def
  by (intro people.bind_follows people.query_follows people.reading_follows people.option_follows people.prod_follows people.return_follows
      invited_account people.choice_follows linked_account consume_account)

lemma resolve_account: "followsTx (accountsRel T) (ResolveExternalIdentity e T arg)"
  using followsD [OF resolve_body_account]
  by (auto simp: followsTx_def ResolveExternalIdentity_def Let_def commitPlatform_def commitIdentity_def txGuard_Inr_iff accountsRel_refl
      split: sum.splits prod.splits commit_outcome.splits)

lemma profile_operation: "followsTx (accountsRel T) (CreateUserProfile e T arg)"
  unfolding CreateUserProfile_def by (intro people.inAdminTx_follows linked_account)

lemma hydrate_account: "followsTx (accountsRel T) (hydrateWebSession e U w secret)"
  unfolding hydrateWebSession_def Let_def
  by (intro people.inAdminTx_follows people.bind_follows people.query_follows people.reading_follows people.return_follows)

text \<open>Some transactions, and some more when they succeed.\<close>

lemma createSession_account: "followsTx (accountsRel T) (CreateWebSession e e' rnd sha U arg)"
  unfolding CreateWebSession_def Let_def
  by (intro people.if_follows people.const_follows people.sum_follows people.prodTx_follows people.then_follows people.inAdminTx_follows
      people.query_follows session_account hydrate_account)

lemma validate_account: "followsTx (accountsRel T) (ValidateWebSession e e' sha U secret)"
  unfolding ValidateWebSession_def
  by (intro people.sum_follows people.const_follows people.then_follows people.prodTx_follows people.inAdminTx_follows people.bind_follows
      people.query_follows people.reading_follows people.prod_follows people.lift_follows people.guard_follows touch_account
      people.return_follows hydrate_account)

lemma revokeSession_account: "followsTx (accountsRel T) (RevokeWebSession e sha secret)"
  unfolding RevokeWebSession_def
  by (intro people.sum_follows people.const_follows people.inAdminTx_follows people.bind_follows people.query_follows people.reading_follows
      people.option_follows people.return_follows people.lift_follows people.guard_follows revoke_account)

lemma rotate_account: "followsTx (accountsRel T) (RotateWebSession es rnd sha U secret ttl agent ip)"
  unfolding RotateWebSession_def
  by (intro people.then_follows validate_account createSession_account revokeSession_account people.const_follows)
    (auto simp: followsTx_def accountsRel_refl split: unit.splits)

text \<open>Every operation of the identity service on people, with whatever outcome.\<close>

inductive people_step :: "texts \<Rightarrow> hdb \<Rightarrow> hdb \<Rightarrow> bool" for T where
  step_profile: "people_step T h (snd (CreateUserProfile e T arg h))"
| step_resolve: "people_step T h (snd (ResolveExternalIdentity e T arg h))"
| step_session: "people_step T h (snd (CreateWebSession e e' rnd sha T arg h))"
| step_validate: "people_step T h (snd (ValidateWebSession e e' sha T secret h))"
| step_rotate: "people_step T h (snd (RotateWebSession es rnd sha T secret ttl agent ip h))"
| step_revoke: "people_step T h (snd (RevokeWebSession e sha secret h))"
| step_member: "people_step T h (snd (CreateMembership e T created h))"
| step_member_role: "people_step T h (snd (UpdateMembershipRole e T changed h))"
| step_member_disable: "people_step T h (snd (DisableMembership e T left h))"
| step_invite: "people_step T h (snd (PlatformInviteOwner e T invited h))"
| step_owner_disable: "people_step T h (snd (PlatformDisableOwnerMembership e removed h))"
| step_owner_reactivate: "people_step T h (snd (PlatformReactivateOwnerMembership e restored h))"
| step_reassign: "people_step T h (snd (PlatformReassignOwnership e T moved h))"

lemma people_step_account: "people_step T h h' \<Longrightarrow> accountsRel T h h'"
  by (induction rule: people_step.induct)
    (simp_all add: profile_operation [unfolded followsTx_def] resolve_account [unfolded followsTx_def]
      createSession_account [unfolded followsTx_def] validate_account [unfolded followsTx_def] rotate_account [unfolded followsTx_def]
      revokeSession_account [unfolded followsTx_def] people.member_operations [unfolded followsTx_def])

lemma people_steps_account: "(people_step T)\<^sup>*\<^sup>* h h' \<Longrightarrow> accountsRel T h h'"
  by (induction rule: rtranclp_induct) (blast intro: accountsRel_refl accountsRel_trans people_step_account)+

end
