(* ===== verification/Staffing.thy ===== *)
theory Staffing
  imports Owners Trust SampleDay
begin

text \<open>
  The properties of the operations on memberships: the register they refine, the owner that never goes, the audit
  trail they leave, and the two ways in which an organisation loses its owners all the same.
\<close>

section \<open>Every sequence of operations\<close>

text \<open>All operations on memberships but \<^verbatim>\<open>PlatformReassignOwnership\<close>, with whatever outcome.\<close>

inductive member_step :: "texts \<Rightarrow> hdb \<Rightarrow> hdb \<Rightarrow> bool" for T where
  step_create: "member_step T h (snd (CreateMembership e T created h))"
| step_role: "member_step T h (snd (UpdateMembershipRole e T changed h))"
| step_disable: "member_step T h (snd (DisableMembership e T left h))"
| step_invite: "member_step T h (snd (PlatformInviteOwner e T invited h))"
| step_owner_disable: "member_step T h (snd (PlatformDisableOwnerMembership e removed h))"
| step_owner_reactivate: "member_step T h (snd (PlatformReactivateOwnerMembership e restored h))"

inductive_simps member_step_simps: "member_step T h h'"

lemma member_step_follows: "member_step T h h' \<Longrightarrow> staffRel T h h'"
  by (induction rule: member_step.induct)
    (simp_all add: create_follows [unfolded followsTx_def] role_follows [unfolded followsTx_def] disable_follows [unfolded followsTx_def]
      invite_follows [unfolded followsTx_def] ownerDisable_follows [unfolded followsTx_def]
      ownerReactivate_follows [unfolded followsTx_def])

lemma member_steps_follow: "(member_step T)\<^sup>*\<^sup>* h h' \<Longrightarrow> staffRel T h h'"
  by (induction rule: rtranclp_induct) (blast intro: staffs.rel_refl staffs.rel_trans member_step_follows)+

text \<open>
  C28. The operations on memberships refine the register of memberships: from tables whose unique keys hold, any
  sequence of operations, whatever its outcomes, leads to tables whose unique keys hold, and takes the register of
  the first to that of the last by its own moves: to join, to return, to restore an owner, to change a role and to
  leave, the last two only with another active owner when an owner stops to be one.
\<close>
theorem memberships_refine_register:
  assumes "staffOk T h" and "(member_step T)\<^sup>*\<^sup>* h h'"
  shows "staffOk T h' \<and> regStep\<^sup>*\<^sup>* (register h) (register h')"
  using member_steps_follow [OF assms(2)] assms(1) by (simp add: staffRel_def)

text \<open>
  C29. An organisation that has an active owner has one after any sequence of membership operations other than
  \<^verbatim>\<open>PlatformReassignOwnership\<close>, run one after the other with whatever outcomes.
\<close>
theorem owners_never_vanish:
  assumes "staffOk T h" and "(member_step T)\<^sup>*\<^sup>* h h'"
    and "\<exists>m \<in> set (organisation_memberships (staff h)). activeOwner org m"
  shows "\<exists>m \<in> set (organisation_memberships (staff h')). activeOwner org m"
proof -
  have rel: "staffOk T h' \<and> regStep\<^sup>*\<^sup>* (register h) (register h')"
    using member_steps_follow [OF assms(2)] assms(1) by (simp add: staffRel_def)
  moreover have "ownedIn (register h) org" using assms(1,3) owned_iff by blast
  ultimately show ?thesis using regSteps_owned owned_iff by blast
qed


section \<open>The audit trail\<close>

definition othersStaff :: "uuid \<Rightarrow> hdb \<Rightarrow> OrganisationMembership list \<times> LocationMembership list" where
  "othersStaff org h =
     (filter (\<lambda>m. om_org m \<noteq> org) (organisation_memberships (staff h)), filter (\<lambda>m. lm_org m \<noteq> org) (location_memberships (staff h)))"

definition confined :: "uuid \<Rightarrow> hdb \<Rightarrow> hdb \<Rightarrow> bool" where
  "confined org h h' \<longleftrightarrow> audit_events h' = audit_events h \<and> othersStaff org h' = othersStaff org h"

definition recorded :: "uuid \<Rightarrow> string \<Rightarrow> string \<Rightarrow> hdb \<Rightarrow> hdb \<Rightarrow> bool" where
  "recorded org actor action h h' \<longleftrightarrow>
     othersStaff org h' = othersStaff org h \<and>
     (\<exists>a. audit_events h' = audit_events h @ [a] \<and> ae_org a = nullableUUID org \<and> ae_actor_ref a = actor \<and> ae_action a = action)"

interpretation inside: identity_order "confined org"
  by unfold_locales (auto simp: confined_def)

lemma recorded_bind:
  assumes "follows (confined org) A" and "\<And>x. follows (recorded org actor action) (C x)"
  shows "follows (recorded org actor action) (txBind A C)"
proof (rule followsI, erule txBind_InrE)
  fix h v h' x h1
  assume "A h = Inr (x, h1)" and "C x h1 = Inr (v, h')"
  then have "confined org h h1" and "recorded org actor action h1 h'" using assms by (auto dest: followsD)
  then show "recorded org actor action h h'" by (auto simp: confined_def recorded_def)
qed

lemma recorded_audit:
  "follows (recorded (ta_OrganisationID actor) (ta_ActorRef actor) action)
     (txBind (recordMembershipAudit e T c actor action m metadata) (\<lambda>_. txReturn v))"
  by (auto intro!: followsI simp: recordMembershipAudit_def txBind_Inr_iff runQuery_Inr RecordAuditEvent_def Let_def insertRowFk_Inr
       recorded_def othersStaff_def elim!: map_sum_InrE split: prod.splits)

lemma confined_profile: "follows (confined org) (onStaff (CreateUserProfileRow e T i name email))"
  by (auto intro!: followsI simp: onStaff_Inr CreateUserProfileRow_def Let_def insertRow_Inr confined_def othersStaff_def
       elim!: map_sum_InrE split: prod.splits)

lemma confined_organisation: "follows (confined org) (CreateUserOrganisationMembershipRow e c i org user ref role)"
  by (auto intro!: followsI simp: CreateUserOrganisationMembershipRow_def Let_def insertRowFk_Inr confined_def othersStaff_def
       elim!: map_sum_InrE split: prod.splits)

lemma confined_location: "follows (confined org) (CreateUserLocationMembershipRow e c i org loc user ref role)"
  by (auto intro!: followsI simp: CreateUserLocationMembershipRow_def Let_def insertRowFk_Inr confined_def othersStaff_def
       elim!: map_sum_InrE split: prod.splits)

lemma confined_update:
  assumes "\<And>m. om_org (f m) = om_org m" and "\<And>m. lm_org (g m) = lm_org m"
  shows "follows (confined org) (updateMembership e c org scope i active f g)"
  by (auto intro!: followsI map_update_other simp: updateMembership_def execUpdate_Inr confined_def othersStaff_def assms
       split: if_splits elim!: map_sum_InrE)

lemma confined_managed: "follows (confined org) (getManagedMembershipForUpdate e c o' scope i)"
  unfolding getManagedMembershipForUpdate_def by (intro inside.guard_follows inside.query_follows inside.reading_follows)

lemma confined_byProfile: "follows (confined org) (getMembershipByProfile e c o' scope loc user)"
  unfolding getMembershipByProfile_def by (intro inside.query_follows inside.reading_follows)

lemma confined_enable: "follows (confined org) (updateMembershipEnabled e c org scope i role)"
  unfolding updateMembershipEnabled_def by (intro inside.bind_follows inside.query_follows confined_update confined_managed) simp_all

lemma confined_role: "follows (confined org) (updateMembershipRole e c org scope i role)"
  unfolding updateMembershipRole_def by (intro inside.bind_follows inside.query_follows confined_update confined_managed) simp_all

lemma confined_disable: "follows (confined org) (disableMembership e c org scope i)"
  unfolding disableMembership_def by (intro inside.bind_follows inside.query_follows confined_update confined_managed) simp_all

lemma confined_getOrCreate: "follows (confined org) (getOrCreateUserProfileByEmail e T email name)"
proof -
  have "follows (confined org) (\<lambda>h. case getUserProfileByEmail e T email h of
      Inl err \<Rightarrow> if \<not> isErr ErrIdentityNotFound err then Inl err
        else runQuery e ''creating user profile'' None (onStaff (CreateUserProfileRow e T (gen e 0) name (Some email))) h
    | Inr (x, h') \<Rightarrow> txReturn x h')"
    unfolding getUserProfileByEmail_def
    by (intro inside.either_follows inside.unless_follows inside.query_follows inside.reading_follows confined_profile inside.return_follows)
  then show ?thesis by (simp add: getOrCreateUserProfileByEmail_def follows_def split: sum.splits)
qed

lemma confined_joinOrganisation: "follows (confined org) (createOrReactivateOrganisationMembership e c org role profile ref)"
  unfolding createOrReactivateOrganisationMembership_def
  by (intro inside.either_follows inside.unless_follows confined_enable inside.bind_follows inside.query_follows confined_organisation
       confined_byProfile)

lemma confined_joinLocation: "follows (confined org) (createOrReactivateLocationMembership e c org loc role profile ref)"
  unfolding createOrReactivateLocationMembership_def
  by (intro inside.either_follows inside.unless_follows confined_enable inside.bind_follows inside.query_follows confined_location
       confined_byProfile)

lemma confined_changeable: "follows (confined org) (changeableMembership e c o' scope i stays)"
  unfolding changeableMembership_def requireAnotherOrganisationOwner_def
  by (intro inside.bind_follows confined_managed inside.guard_follows inside.choice_follows inside.query_follows inside.reading_follows
       inside.return_follows)

text \<open>One transaction of a manager: nothing happened, or the manager was allowed and left one audit event.\<close>

definition accountable :: "env \<Rightarrow> TenantActor \<Rightarrow> string \<Rightarrow> hdb \<Rightarrow> hdb \<Rightarrow> bool" where
  "accountable e actor action h h' \<longleftrightarrow>
     h' = h \<or>
     (let org = ta_OrganisationID actor; ref = trimSpace (ta_ActorRef actor)
      in ActorHasOrganisationPermission e (actorContext org uuid_Nil) org ref ''organisation.manage'' (staff h) \<and>
         filter (\<lambda>m. om_org m \<noteq> org) (organisation_memberships (staff h')) = filter (\<lambda>m. om_org m \<noteq> org) (organisation_memberships (staff h)) \<and>
         filter (\<lambda>m. lm_org m \<noteq> org) (location_memberships (staff h')) = filter (\<lambda>m. lm_org m \<noteq> org) (location_memberships (staff h)) \<and>
         (\<exists>a. audit_events h' = audit_events h @ [a] \<and> ae_org a = Some org \<and> ae_actor_ref a = ref \<and> ae_action a = action))"

lemma tenantTx_cases:
  "snd (inIdentityTenantTx e org loc m h) = h \<or>
     (\<exists>v h'. m (actorContext org loc) h = Inr (v, h') \<and> snd (inIdentityTenantTx e org loc m h) = h')"
  by (auto simp: inIdentityTenantTx_def identityTx_def commitIdentity_def txGuard_def split: sum.splits commit_outcome.splits)

lemma managed_accountable:
  assumes body: "\<And>c. follows (recorded (ta_OrganisationID actor) (ta_ActorRef actor) action) (B c)"
    and actor: "actor = normalizeTenantActor actor0" and valid: "validateTenantActor actor False = None"
  shows "accountable e actor0 action h
    (snd (inIdentityTenantTx e (ta_OrganisationID actor) uuid_Nil (\<lambda>c. txBind (requireOrganisationManage e c actor) (\<lambda>_. B c)) h))"
proof (rule disjE [OF tenantTx_cases])
  let ?tx = "inIdentityTenantTx e (ta_OrganisationID actor) uuid_Nil (\<lambda>c. txBind (requireOrganisationManage e c actor) (\<lambda>_. B c)) h"
  let ?c = "actorContext (ta_OrganisationID actor) uuid_Nil"
  show "accountable e actor0 action h (snd ?tx)" if "snd ?tx = h" using that by (simp add: accountable_def)
  assume "\<exists>v h'. txBind (requireOrganisationManage e ?c actor) (\<lambda>_. B ?c) h = Inr (v, h') \<and> snd ?tx = h'"
  then obtain v h1 where perm: "requireOrganisationManage e ?c actor h = Inr ((), h1)" and run: "B ?c h1 = Inr (v, snd ?tx)"
    by (auto simp: txBind_Inr_iff)
  from perm have allowed: "ActorHasOrganisationPermission e ?c (ta_OrganisationID actor) (ta_ActorRef actor) ''organisation.manage'' (staff h)"
    and same: "audit_events h1 = audit_events h" "staff h1 = staff h"
    by (auto simp: requireOrganisationManage_def requireOrganisationPermission_def onStaff_Inr txBind_Inr_iff txGuard_Inr_iff runQuery_Inr
        reading_Inr PermissionOrganisationManage_def)
  have "recorded (ta_OrganisationID actor) (ta_ActorRef actor) action h1 (snd ?tx)" using body run by (rule followsD)
  then show "accountable e actor0 action h (snd ?tx)"
    using allowed same actor valid
    by (auto simp: accountable_def recorded_def othersStaff_def Let_def normalizeTenantActor_def validateTenantActor_def nullableUUID_def
        split: if_splits)
qed

lemma accountable_same [simp]: "accountable e actor action h h"
  by (simp add: accountable_def)

lemma snd_mapped [simp]: "snd (mapped r) = snd r"
  by (auto simp: mapped_def split: prod.splits sum.splits)

text \<open>
  C30. Every change of a membership by a manager is authorised, confined and recorded. Whatever its outcome, even when
  the answer of the commit is lost, \<^verbatim>\<open>CreateMembership\<close>, \<^verbatim>\<open>UpdateMembershipRole\<close> and \<^verbatim>\<open>DisableMembership\<close> either
  leave everything as it was, or the actor held \<^verbatim>\<open>organisation.manage\<close> in the organisation, the memberships of all
  other organisations are untouched, and exactly one audit event was added, with the organisation, the actor and the
  action.
\<close>
theorem membership_changes_audited:
  "accountable e (cm_Actor created) ''membership.create'' h (snd (CreateMembership e T created h)) \<and>
   accountable e (um_Actor changed) ''membership.update_role'' h (snd (UpdateMembershipRole e T changed h)) \<and>
   accountable e (dm_Actor left) ''membership.disable'' h (snd (DisableMembership e T left h))"
proof (intro conjI)
  show "accountable e (cm_Actor created) ''membership.create'' h (snd (CreateMembership e T created h))"
    unfolding CreateMembership_def createMembershipInTx_def Let_def
    by (auto split: option.splits intro!: managed_accountable recorded_bind confined_getOrCreate inside.choice_follows confined_joinOrganisation
        confined_joinLocation inside.bind_follows inside.query_follows inside.reading_follows inside.fail_follows
        recorded_audit [where action = "''membership.create''", unfolded auditActionMembershipCreate_def] simp: auditActionMembershipCreate_def)
  show "accountable e (um_Actor changed) ''membership.update_role'' h (snd (UpdateMembershipRole e T changed h))"
    unfolding UpdateMembershipRole_def Let_def
    by (auto split: option.splits intro!: managed_accountable recorded_bind confined_changeable confined_role recorded_audit
        simp: auditActionMembershipUpdateRole_def)
  show "accountable e (dm_Actor left) ''membership.disable'' h (snd (DisableMembership e T left h))"
    unfolding DisableMembership_def Let_def
    by (auto split: option.splits intro!: managed_accountable recorded_bind confined_changeable confined_disable recorded_audit
        simp: auditActionMembershipDisable_def)
qed

section \<open>Reassigning an organisation\<close>

lemma enabled_Inr:
  assumes run: "updateMembershipEnabled e c org MembershipScopeOrganisation i role h = Inr (m, h')" and ok: "staffOk T h"
    and r: "r \<in> set (organisation_memberships (staff h))" "om_id r = i" "om_org r = org" "visible_org e c org"
  shows "staffOk T h' \<and> register h' = (register h)(i \<mapsto> (org, role, True)) \<and> mm_ID m = i \<and> mm_Role m = role"
proof -
  obtain u h1 where upd: "updateMembership e c org MembershipScopeOrganisation i False
        (\<lambda>m. m\<lparr>om_role := role, om_disabled_at := None, om_updated_at := now e\<rparr>)
        (\<lambda>m. m\<lparr>lm_role := role, lm_disabled_at := None, lm_updated_at := now e\<rparr>) h = Inr (u, h1)"
    and get: "getManagedMembershipForUpdate e c org MembershipScopeOrganisation i h1 = Inr (m, h')"
    using run by (auto simp: updateMembershipEnabled_def txBind_Inr_iff runQuery_Inr)
  have scope: "MembershipScopeOrganisation \<noteq> MembershipScopeLocation" by (simp add: role_names)
  have same: "x = r" if "x \<in> set (organisation_memberships (staff h))" "om_id x = i" for x
    using same_member [OF ok that(1) r(1)] that(2) r(2) by simp
  have h1: "staffOk T h1" "register h1 = (register h)(i \<mapsto> (org, role, True))"
    using updateMembership_Inr [OF upd ok] r scope same by (fastforce simp: standingOf_def)+
  obtain x where x: "h' = h1" "x \<in> set (organisation_memberships (staff h1))" "om_id x = i" "m = scanOrganisation (staff h1) x"
    using getManaged_Inr [OF get] scope by auto
  then show ?thesis using h1 register_at [OF h1(1) x(2)] by (simp add: standingOf_def)
qed

lemma disabled_Inr:
  assumes run: "disableMembership e c org MembershipScopeOrganisation i h = Inr (m, h')" and ok: "staffOk T h"
    and r: "r \<in> set (organisation_memberships (staff h))" "om_id r = i" "om_org r = org" "om_disabled_at r = None" "visible_org e c org"
  shows "staffOk T h' \<and> register h' = (register h)(i \<mapsto> (org, om_role r, False)) \<and> mm_ID m = i"
proof -
  obtain u h1 where upd: "updateMembership e c org MembershipScopeOrganisation i True
        (\<lambda>m. m\<lparr>om_disabled_at := Some (now e), om_updated_at := now e\<rparr>)
        (\<lambda>m. m\<lparr>lm_disabled_at := Some (now e), lm_updated_at := now e\<rparr>) h = Inr (u, h1)"
    and get: "getManagedMembershipForUpdate e c org MembershipScopeOrganisation i h1 = Inr (m, h')"
    using run by (auto simp: disableMembership_def txBind_Inr_iff runQuery_Inr)
  have scope: "MembershipScopeOrganisation \<noteq> MembershipScopeLocation" by (simp add: role_names)
  have same: "x = r" if "x \<in> set (organisation_memberships (staff h))" "om_id x = i" for x
    using same_member [OF ok that(1) r(1)] that(2) r(2) by simp
  have h1: "staffOk T h1" "register h1 = (register h)(i \<mapsto> (org, om_role r, False))"
    using updateMembership_Inr [OF upd ok] r scope same by (fastforce simp: standingOf_def)+
  then show ?thesis using getManaged_Inr [OF get] scope by auto
qed

text \<open>A membership that was found or made for a profile.\<close>

definition standsFor :: "uuid \<Rightarrow> register \<Rightarrow> register \<Rightarrow> ManagedMembership \<Rightarrow> bool" where
  "standsFor org R R' m \<longleftrightarrow>
     (\<forall>j. j \<noteq> mm_ID m \<longrightarrow> R' j = R j) \<and> R' (mm_ID m) = Some (org, mm_Role m, True) \<and>
     (R (mm_ID m) = Some (org, mm_Role m, True) \<or>
      (\<forall>role. R (mm_ID m) \<noteq> Some (org, role, True)) \<and> mm_Role m = RoleOrganisationOwner)"

definition profileMember :: "env \<Rightarrow> ctx \<Rightarrow> uuid \<Rightarrow> uuid \<Rightarrow> idb \<Rightarrow> OrganisationMembership \<Rightarrow> bool" where
  "profileMember e c org user s m \<longleftrightarrow>
     visible_org e c (om_org m) \<and> om_org m = org \<and> om_user_profile m = nullableUUID user \<and> nullableUUID user \<noteq> None \<and>
     profileOf (om_user_profile m) s \<noteq> None"

lemma byProfile_find:
  "getMembershipByProfile e c org MembershipScopeOrganisation loc user =
     runQuery e ''scanning membership'' (Some ErrIdentityNotFound)
       (reading (\<lambda>h. map_sum id (scanOrganisation (staff h)) (selectOne (profileMember e c org user (staff h)) (organisation_memberships (staff h)))))"
  by (simp add: getMembershipByProfile_def profileMember_def [abs_def] role_names)

lemma joined_stands:
  assumes run: "createOrReactivateOrganisationMembership e c org RoleOrganisationOwner profile ref h = Inr (m, h')"
    and ok: "staffOk T h"
  shows "staffOk T h' \<and> standsFor org (register h) (register h') m"
proof (cases "getMembershipByProfile e c org MembershipScopeOrganisation uuid_Nil (u_id profile) h")
  case (Inr p)
  then obtain x r where p: "p = (x, h)" and r: "r \<in> set (organisation_memberships (staff h))" "om_org r = org" "visible_org e c org"
    and x: "x = scanOrganisation (staff h) r"
    using getByProfile_Inr by (cases p) (fastforce simp: role_names)
  with Inr run have off: "om_disabled_at r \<noteq> None"
    and upd: "updateMembershipEnabled e c org MembershipScopeOrganisation (om_id r) RoleOrganisationOwner h = Inr (m, h')"
    by (auto simp: createOrReactivateOrganisationMembership_def split: if_splits)
  have "register h (om_id r) = Some (org, om_role r, False)" using register_at [OF ok r(1)] off r(2) by (simp add: standingOf_def)
  then show ?thesis using enabled_Inr [OF upd ok r(1) refl r(2,3)] by (auto simp: standsFor_def)
next
  case (Inl err)
  from run Inl have nf: "isErr ErrIdentityNotFound err" by (auto simp: createOrReactivateOrganisationMembership_def split: if_splits)
  with run Inl obtain r0 h1 where
    new: "CreateUserOrganisationMembershipRow e c (gen e 1) org (nullableUUID (u_id profile)) ref RoleOrganisationOwner h = Inr (r0, h1)"
    and get: "getMembershipByProfile e c org MembershipScopeOrganisation uuid_Nil (u_id profile) h1 = Inr (m, h')"
    by (auto simp: createOrReactivateOrganisationMembership_def txBind_Inr_iff runQuery_Inr split: if_splits)
  from new have r0: "om_org r0 = org" "om_role r0 = RoleOrganisationOwner" "om_disabled_at r0 = None"
    and free: "\<forall>x \<in> set (organisation_memberships (staff h)). \<not> sameOrgMember x r0"
    and h1: "h1 = setStaff ((staff h)\<lparr>organisation_memberships := organisation_memberships (staff h) @ [r0]\<rparr>) h"
    by (auto simp: CreateUserOrganisationMembershipRow_def Let_def insertRowFk_Inr elim!: map_sum_InrE split: prod.splits)
  have none: "\<forall>x \<in> set (organisation_memberships (staff h)). \<not> profileMember e c org (u_id profile) (staff h) x"
    using Inl nf unfolding byProfile_find by (auto simp: runQuery_def reading_def isErr_def selectOne_def find_None_iff split: if_splits option.splits)
  obtain x where x: "find (profileMember e c org (u_id profile) (staff h1)) (organisation_memberships (staff h1)) = Some x"
    and m: "m = scanOrganisation (staff h1) x" and same: "h' = h1"
    using get unfolding byProfile_find by (auto simp: runQuery_Inr reading_Inr selectOne_Inr elim!: map_sum_InrE)
  have "profileMember e c org (u_id profile) (staff h1) y = profileMember e c org (u_id profile) (staff h) y" for y
    by (simp add: h1 profileMember_def profileOf_def cong: option.case_cong)
  then have "x = r0" using none find_SomeD [OF x] by (auto simp: h1)
  moreover have "register h1 = (register h)(om_id r0 \<mapsto> (org, RoleOrganisationOwner, True))" "register h (om_id r0) = None"
    using orgMembers.rowMap_insert [OF free, of standingOf] r0 by (simp_all add: register_def h1 standingOf_def)
  moreover have "staffOk T h1" using ok free by (auto simp: h1 staffOk_def intro: orgMembers.unique_insert)
  ultimately show ?thesis using m same r0 by (auto simp: standsFor_def)
qed

lemma profile_keeps:
  assumes run: "getOrCreateUserProfileByEmail e T email name h = Inr (u, h')"
  shows "organisation_memberships (staff h') = organisation_memberships (staff h) \<and> (staffOk T h \<longrightarrow> staffOk T h') \<and> register h' = register h"
proof -
  have "organisation_memberships (staff h') = organisation_memberships (staff h)"
    using run by (auto simp: getOrCreateUserProfileByEmail_def getUserProfileByEmail_def runQuery_Inr reading_Inr onStaff_Inr
        CreateUserProfileRow_def Let_def insertRow_Inr split: sum.splits if_splits elim!: map_sum_InrE)
  then show ?thesis using followsD [OF getOrCreate_follows run] by (auto simp: staffRel_def register_def)
qed

lemma nextOwner_stands:
  assumes run: "nextOwner e T c org profile h = Inr (m, h')" and ok: "staffOk T h"
  shows "staffOk T h' \<and> standsFor org (register h) (register h') m"
proof (cases "createOrReactivateOrganisationMembership e c org RoleOrganisationOwner profile (userProfileActorRef T (u_id profile)) h")
  case (Inr p)
  then show ?thesis using run joined_stands [OF _ ok] by (auto simp: nextOwner_def)
next
  case (Inl err)
  with run have get: "getMembershipByProfile e c org MembershipScopeOrganisation uuid_Nil (u_id profile) h = Inr (m, h')"
    and exists: "isErr ErrAlreadyExists err" by (auto simp: nextOwner_def split: if_splits)
  obtain r where r: "r \<in> set (organisation_memberships (staff h))" "om_org r = org" "m = scanOrganisation (staff h) r" and h': "h' = h"
    using getByProfile_Inr [OF get] by (auto simp: role_names)
  have "om_disabled_at r = None"
  proof (rule ccontr)
    assume "om_disabled_at r \<noteq> None"
    then have "updateMembershipEnabled e c org MembershipScopeOrganisation (om_id r) RoleOrganisationOwner h = Inl err"
      using Inl get r(3) h' by (auto simp: createOrReactivateOrganisationMembership_def)
    then show False using exists
      by (auto simp: updateMembershipEnabled_def txBind_def runQuery_def getManagedMembershipForUpdate_def txGuard_def reading_def isErr_def
          selectOne_def validMembershipScope_def map_sum_def split: sum.splits if_splits option.splits db_error.splits)
  qed
  then show ?thesis using h' ok r register_at [OF ok r(1)] by (auto simp: standsFor_def standingOf_def)
qed

text \<open>
  What \<^verbatim>\<open>PlatformReassignOwnership\<close> does when it succeeds: the membership it names was an active owner and is
  disabled, the recipient's membership is another one and active, and no other membership of the register changes. The
  recipient is an owner if it was not an active member already; an active member keeps the role it had.
\<close>
theorem reassignment_moves:
  assumes "PlatformReassignOwnership e T arg h = (Inr r, h')" and "staffOk T h"
  shows "let org = ro_TargetOrganisationID arg; i = ro_FromMembershipID arg; j = mm_ID (rr_NextOwner r); role = mm_Role (rr_NextOwner r)
    in register h i = Some (org, RoleOrganisationOwner, True) \<and> i \<noteq> j \<and>
       (register h j = Some (org, role, True) \<or> (\<forall>old. register h j \<noteq> Some (org, old, True)) \<and> role = RoleOrganisationOwner) \<and>
       register h' = (register h)(i \<mapsto> (org, RoleOrganisationOwner, False), j \<mapsto> (org, role, True))"
proof -
  let ?org = "ro_TargetOrganisationID arg" and ?i = "ro_FromMembershipID arg"
  from assms(1) obtain email where "reassignInTx e T arg email admin_context h = Inr (r, h')"
    unfolding PlatformReassignOwnership_def Let_def
    by (auto simp: mapped_def inAdminTx_Inr split: option.splits if_splits prod.splits sum.splits)
  then obtain current h0 profile h1 h2 previous where
    get: "getManagedMembershipForUpdate e admin_context ?org MembershipScopeOrganisation ?i h = Inr (current, h0)"
    and current: "mm_DisabledAt current = None" "mm_Role current = RoleOrganisationOwner"
    and prof: "getOrCreateUserProfileByEmail e T email email h0 = Inr (profile, h1)"
    and nxt: "nextOwner e T admin_context ?org profile h1 = Inr (rr_NextOwner r, h2)"
    and other: "mm_ID (rr_NextOwner r) \<noteq> ?i"
    and dis: "disableMembership e admin_context ?org MembershipScopeOrganisation ?i h2 = Inr (previous, h')"
    unfolding reassignInTx_def Let_def by (auto simp: txBind_Inr_iff txGuard_Inr_iff)
  obtain m where h0: "h0 = h" and m: "m \<in> set (organisation_memberships (staff h))" "om_org m = ?org" "om_id m = ?i"
    "visible_org e admin_context ?org" "om_disabled_at m = None" "om_role m = RoleOrganisationOwner"
    using getManaged_Inr [OF get] current by (auto simp: role_names)
  have owner: "register h ?i = Some (?org, RoleOrganisationOwner, True)"
    using register_at [OF assms(2) m(1)] m by (simp add: standingOf_def)
  have keep: "staffOk T h1" "register h1 = register h" using profile_keeps [OF prof] assms(2) h0 by auto
  have stands: "staffOk T h2" "standsFor ?org (register h) (register h2) (rr_NextOwner r)"
    using nextOwner_stands [OF nxt keep(1)] keep(2) by auto
  then have "register h2 ?i = Some (?org, RoleOrganisationOwner, True)" using owner other by (auto simp: standsFor_def)
  then obtain m2 where m2: "m2 \<in> set (organisation_memberships (staff h2))" "om_id m2 = ?i" "om_org m2 = ?org" "om_disabled_at m2 = None"
    "om_role m2 = RoleOrganisationOwner"
    using register_iff [OF stands(1)] by (auto simp: standingOf_def)
  have "register h' = (register h2)(?i \<mapsto> (?org, RoleOrganisationOwner, False))"
    using disabled_Inr [OF dis stands(1) m2(1-4) m(4)] m2(5) by simp
  then show ?thesis
    using owner other stands(2) by (auto simp: Let_def standsFor_def fun_eq_iff)
qed

section \<open>A sample organisation\<close>

definition sampleTexts :: texts where
  "sampleTexts =
     \<lparr>parseAddress = Some, goLower = (\<lambda>s. s), sqlLower = (\<lambda>s. s), uuidText = (\<lambda>i. [char_of (unat i)]),
      collation = (\<lambda>s. int (length s)), parseIP = Some\<rparr>"

definition sampleUser :: "uuid \<Rightarrow> string \<Rightarrow> UserProfile" where
  "sampleUser i email =
     \<lparr>u_id = i, u_display_name = email, u_email = Some email, u_status = ''active'', u_created_at = 0, u_updated_at = 0\<rparr>"

definition sampleMember :: "uuid \<Rightarrow> uuid \<Rightarrow> string \<Rightarrow> string \<Rightarrow> OrganisationMembership" where
  "sampleMember i user ref role =
     \<lparr>om_id = i, om_org = 1, om_member_ref = ref, om_role = role, om_created_at = 0, om_updated_at = 0,
      om_user_profile = Some user, om_disabled_at = None\<rparr>"

text \<open>Two members: an owner, and a second one whose role is the parameter.\<close>

definition sampleStaff :: "string \<Rightarrow> hdb" where
  "sampleStaff role =
     \<lparr>plant = sampleAdb\<lparr>shared := samplePlan\<lparr>
        user_profiles := [sampleUser 21 ''ann@x'', sampleUser 22 ''bob@x''],
        organisation_memberships := [sampleMember 31 21 ''ann'' RoleOrganisationOwner, sampleMember 32 22 ''bob'' role],
        role_permissions := [(RoleOrganisationOwner, PermissionOrganisationManage)]\<rparr>\<rparr>,
      roles = [RoleOrganisationOwner, RoleReadOnly, RoleLocationManager, RoleWaiter], audit_events = [],
      external_identities = [], web_sessions = [], platform_memberships = [], platform_admin_grants = []\<rparr>"

lemmas sample_staff = sampleStaff_def sampleMember_def sampleUser_def sampleTexts_def sampleAdb_def samplePlan_def role_names
  PermissionOrganisationManage_def

definition sampleAnn :: TenantActor where
  "sampleAnn = \<lparr>ta_OrganisationID = 1, ta_LocationID = 0, ta_ActorRef = ''ann''\<rparr>"

definition sampleLeave :: "uuid \<Rightarrow> DisableMembershipParams" where
  "sampleLeave i = \<lparr>dm_Actor = sampleAnn, dm_Scope = ''organisation'', dm_ID = i\<rparr>"

definition sampleReassign :: PlatformReassignOwnershipParams where
  "sampleReassign = \<lparr>ro_TargetOrganisationID = 1, ro_FromMembershipID = 31, ro_ToEmail = ''bob@x'', ro_ActorRef = ''ops''\<rparr>"

lemma sampleStaff_ok: "staffOk sampleTexts (sampleStaff role)"
  by (simp add: staffOk_def uniqueRows_def sameOrgMember_def sameUser_def emailKey_def sample_staff)

definition sampleLeft :: "hdb" where
  "sampleLeft = snd (DisableMembership sampleEnv sampleTexts (sampleLeave 32) (sampleStaff RoleOrganisationOwner))"

text \<open>Which rows of the organisation are active owners.\<close>

definition sampleOwners :: "hdb \<Rightarrow> uuid list" where
  "sampleOwners h = map om_id (filter (activeOwner 1) (organisation_memberships (staff h)))"

lemma sampleLeft_owners: "sampleOwners sampleLeft = [31] \<and> length (audit_events sampleLeft) = 1"
  by code_simp

lemma sampleLeft_step: "(member_step sampleTexts)\<^sup>*\<^sup>* (sampleStaff RoleOrganisationOwner) sampleLeft"
  unfolding sampleLeft_def by (rule r_into_rtranclp, rule member_step.step_disable)

lemma sampleStaff_owned: "\<exists>m \<in> set (organisation_memberships (staff (sampleStaff role))). activeOwner 1 m"
  by (simp add: sampleStaff_def sampleMember_def activeOwner_def)

text \<open>Witness of C28: one of two owners is disabled, and the other one remains.\<close>

theorem memberships_refine_register_witness:
  "staffOk sampleTexts sampleLeft \<and> regStep\<^sup>*\<^sup>* (register (sampleStaff RoleOrganisationOwner)) (register sampleLeft) \<and>
   sampleOwners sampleLeft = [31]"
  using memberships_refine_register [OF sampleStaff_ok sampleLeft_step] sampleLeft_owners by simp

text \<open>Witness of C29: the owner that remains, with the audit event of the disabling.\<close>

theorem owners_never_vanish_witness:
  "(\<exists>m \<in> set (organisation_memberships (staff sampleLeft)). activeOwner 1 m) \<and> length (audit_events sampleLeft) = 1"
  using owners_never_vanish [OF sampleStaff_ok sampleLeft_step sampleStaff_owned] sampleLeft_owners by simp

text \<open>Whether the sample reassignment succeeds, to whom, and the owners after it.\<close>

definition sampleReassigned :: "string \<Rightarrow> (uuid \<times> string) option \<times> uuid list" where
  "sampleReassigned role =
     (case PlatformReassignOwnership sampleEnv sampleTexts sampleReassign (sampleStaff role) of
        (Inr r, h') \<Rightarrow> (Some (mm_ID (rr_NextOwner r), mm_Role (rr_NextOwner r)), sampleOwners h')
      | (Inl err, h') \<Rightarrow> (None, sampleOwners h'))"

lemma sampleReassigned_reader: "sampleReassigned RoleReadOnly = (Some (32, RoleReadOnly), [])"
  by code_simp

lemma sampleReassigned_owner: "sampleReassigned RoleOrganisationOwner = (Some (32, RoleOrganisationOwner), [32])"
  by code_simp

text \<open>Example: ownership passes from one owner to another member who owns.\<close>

theorem reassignment_moves_witness:
  "\<exists>r h'. PlatformReassignOwnership sampleEnv sampleTexts sampleReassign (sampleStaff RoleOrganisationOwner) = (Inr r, h') \<and>
     register h' 31 = Some (1, RoleOrganisationOwner, False) \<and> register h' 32 = Some (1, RoleOrganisationOwner, True)"
proof -
  obtain r h' where run: "PlatformReassignOwnership sampleEnv sampleTexts sampleReassign (sampleStaff RoleOrganisationOwner) = (Inr r, h')"
    and r: "mm_ID (rr_NextOwner r) = 32" "mm_Role (rr_NextOwner r) = RoleOrganisationOwner"
    using sampleReassigned_owner by (auto simp: sampleReassigned_def split: prod.splits sum.splits)
  then show ?thesis
    using reassignment_moves [OF run sampleStaff_ok] by (auto simp: Let_def sampleReassign_def)
qed

text \<open>
  \<^verbatim>\<open>PlatformReassignOwnership\<close> can leave an organisation without an owner: when the recipient is already an
  active member who only reads, it succeeds, disables the only owner and does not promote the recipient. For a
  recipient who is an owner the same call leaves that owner.
\<close>
theorem reassignment_can_orphan:
  "sampleReassigned RoleReadOnly = (Some (32, RoleReadOnly), []) \<and>
   sampleReassigned RoleOrganisationOwner = (Some (32, RoleOrganisationOwner), [32])"
  using sampleReassigned_reader sampleReassigned_owner by simp

text \<open>
  Two transactions that disable an owner each, under READ COMMITTED: both lock their own row and count, then both
  write. \<open>skewed\<close> runs the two checks on the state before either write.
\<close>

definition skewed :: "uuid \<Rightarrow> uuid \<Rightarrow> hdb \<Rightarrow> hdb option" where
  "skewed i j h =
     (let c = actorContext 1 uuid_Nil; check = (\<lambda>k. changeableMembership sampleEnv c 1 MembershipScopeOrganisation k False h);
          write = (\<lambda>k. disableMembership sampleEnv c 1 MembershipScopeOrganisation k)
      in case (check i, check j) of
           (Inr (a, h1), Inr (b, h2)) \<Rightarrow> (case txBind (write i) (\<lambda>_. write j) h of Inr (m, h') \<Rightarrow> Some h' | Inl err \<Rightarrow> None)
         | _ \<Rightarrow> None)"

text \<open>
  The count of owners is not protected against a concurrent count: two transactions that each disable one of two
  owners both find two owners, both succeed, and no owner is left; one after the other the second is refused.
\<close>
theorem concurrent_owners_skew:
  "map_option sampleOwners (skewed 31 32 (sampleStaff RoleOrganisationOwner)) = Some [] \<and>
   sampleOwners (snd (DisableMembership sampleEnv sampleTexts (sampleLeave 31) sampleLeft)) = [31]"
  by (intro conjI) code_simp+

end
