(* ===== verification/SignIn.thy ===== *)
theory SignIn
  imports Sessions Staffing
begin

text \<open>
  The properties of signing in: whom a session speaks for, that a revoked session is out for ever, that a fresh one
  works, and that an external identity stays with the person it was linked to.
\<close>

section \<open>Sessions\<close>

lemma activeUser_Some:
  "activeUser i h = Some u \<Longrightarrow> u \<in> set (user_profiles (staff h)) \<and> u_id u = i \<and> u_status u = ''active''"
  by (auto simp: activeUser_def dest: find_SomeD)

lemma GetWebSessionByPrefix_Inr:
  "GetWebSessionByPrefix e prefix h = Inr (w, u) \<Longrightarrow>
     w \<in> set (web_sessions h) \<and> ws_lookup_prefix w = prefix \<and> openSession e w \<and> activeUser (ws_user_profile w) h = Some u"
  by (auto simp: GetWebSessionByPrefix_def split: option.splits dest: find_SomeD)

text \<open>A membership that a user holds: in an organisation, at a location or on the platform.\<close>

definition heldBy :: "texts \<Rightarrow> uuid \<Rightarrow> hdb \<Rightarrow> Membership \<Rightarrow> bool" where
  "heldBy T user h m \<longleftrightarrow>
     (\<exists>x \<in> set (organisation_memberships (staff h)). om_user_profile x = Some user \<and> om_disabled_at x = None \<and>
        m = \<lparr>ms_OrganisationID = om_org x, ms_LocationID = uuid_Nil, ms_MemberRef = om_member_ref x, ms_Role = om_role x\<rparr>) \<or>
     (\<exists>p \<in> set (platform_memberships h). pm_user_profile p = user \<and> pm_disabled_at p = None \<and>
        m = \<lparr>ms_OrganisationID = uuid_Nil, ms_LocationID = uuid_Nil, ms_MemberRef = userProfileActorRef T user, ms_Role = pm_role p\<rparr>) \<or>
     (\<exists>x \<in> set (location_memberships (staff h)). lm_user_profile x = Some user \<and> lm_disabled_at x = None \<and>
        m = \<lparr>ms_OrganisationID = lm_org x, ms_LocationID = lm_loc x, ms_MemberRef = lm_member_ref x, ms_Role = lm_role x\<rparr>)"

lemma heldBy_rows:
  "x \<in> set (organisation_memberships (staff h)) \<Longrightarrow> om_user_profile x = Some user \<Longrightarrow> om_disabled_at x = None \<Longrightarrow>
     heldBy T user h \<lparr>ms_OrganisationID = om_org x, ms_LocationID = uuid_Nil, ms_MemberRef = om_member_ref x, ms_Role = om_role x\<rparr>"
  "p \<in> set (platform_memberships h) \<Longrightarrow> pm_user_profile p = user \<Longrightarrow> pm_disabled_at p = None \<Longrightarrow>
     heldBy T user h \<lparr>ms_OrganisationID = uuid_Nil, ms_LocationID = uuid_Nil, ms_MemberRef = userProfileActorRef T user, ms_Role = pm_role p\<rparr>"
  "y \<in> set (location_memberships (staff h)) \<Longrightarrow> lm_user_profile y = Some user \<Longrightarrow> lm_disabled_at y = None \<Longrightarrow>
     heldBy T user h \<lparr>ms_OrganisationID = lm_org y, ms_LocationID = lm_loc y, ms_MemberRef = lm_member_ref y, ms_Role = lm_role y\<rparr>"
  unfolding heldBy_def by blast+

lemma hydrate_Inr:
  assumes "hydrateWebSession e T w secret h = (Inr s, h')"
  shows "h' = h \<and> wb_Session s = w \<and> wb_Secret s = secret \<and> (\<forall>m \<in> set (wb_Memberships s). heldBy T (ws_user_profile w) h m)"
  using assms
  by (auto simp: hydrateWebSession_def Let_def inAdminTx_Inr txBind_Inr_iff runQuery_Inr reading_Inr ListUserOrganisationMemberships_def
      ListUserLocationMemberships_def ListUserPlatformMemberships_def nullableUUID_def intro: heldBy_rows split: if_splits)

lemma validate_Inr:
  assumes "ValidateWebSession e e' sha T secret h = (Inr s, h')"
  shows "\<exists>w user h1. GetWebSessionByPrefix e (ws_lookup_prefix w) h = Inr (w, user) \<and> LookupPrefix secret = Inr (ws_lookup_prefix w) \<and>
    SecretMatches sha secret (ws_session_hash w) = Inr True \<and> TouchWebSession e (ws_id w) h = Inr ((), h1) \<and>
    wb_Session s = w \<and> wb_User s = user \<and> wb_Secret s = secret \<and> (\<forall>m \<in> set (wb_Memberships s). heldBy T (ws_user_profile w) h1 m)"
proof -
  from assms obtain prefix w user h1 s0 where p: "LookupPrefix secret = Inr prefix"
    and get: "GetWebSessionByPrefix e prefix h = Inr (w, user)" and ok: "SecretMatches sha secret (ws_session_hash w) = Inr True"
    and touch: "TouchWebSession e (ws_id w) h = Inr ((), h1)" and hyd: "hydrateWebSession e' T w secret h1 = (Inr s0, h')"
    and s: "s = s0\<lparr>wb_User := user\<rparr>"
    unfolding ValidateWebSession_def
    by (auto simp: inAdminTx_Inr txBind_Inr_iff runQuery_Inr reading_Inr txLift_Inr txGuard_Inr_iff split: sum.splits prod.splits)
  have "ws_lookup_prefix w = prefix" using GetWebSessionByPrefix_Inr [OF get] by simp
  then show ?thesis using p get ok touch hydrate_Inr [OF hyd] s by auto
qed

text \<open>
  C31. A session that is accepted is a stored session that is neither revoked nor expired, its prefix and hash are those
  of the secret, it speaks for the active user it was made for, and every membership it carries is an active one of
  that user.
\<close>
theorem session_sound:
  assumes "ValidateWebSession e e' sha T secret h = (Inr s, h')"
  shows "let w = wb_Session s; u = wb_User s
    in w \<in> set (web_sessions h) \<and> ws_revoked_at w = None \<and> now e < ws_expires_at w \<and>
       LookupPrefix secret = Inr (ws_lookup_prefix w) \<and> HashSecret sha secret = Inr (ws_session_hash w) \<and>
       u \<in> set (user_profiles (staff h)) \<and> u_id u = ws_user_profile w \<and> u_status u = ''active'' \<and>
       (\<forall>m \<in> set (wb_Memberships s). heldBy T (u_id u) h m)"
proof -
  obtain w user h1 where get: "GetWebSessionByPrefix e (ws_lookup_prefix w) h = Inr (w, user)"
    and w: "LookupPrefix secret = Inr (ws_lookup_prefix w)" "SecretMatches sha secret (ws_session_hash w) = Inr True"
    and touch: "TouchWebSession e (ws_id w) h = Inr ((), h1)" and s: "wb_Session s = w" "wb_User s = user"
    and held: "\<forall>m \<in> set (wb_Memberships s). heldBy T (ws_user_profile w) h1 m"
    using validate_Inr [OF assms] by blast
  have "staff h1 = staff h" "platform_memberships h1 = platform_memberships h"
    using touch by (auto simp: TouchWebSession_def changeSession_def)
  then have "heldBy T i h1 = heldBy T i h" for i by (simp add: heldBy_def fun_eq_iff)
  then show ?thesis
    using GetWebSessionByPrefix_Inr [OF get] activeUser_Some [of "ws_user_profile w" h user] w s held
    by (auto simp: Let_def openSession_def SecretMatches_def split: sum.splits)
qed

text \<open>The row of a prefix, before and after any operations.\<close>

lemma session_later:
  assumes rel: "accountsRel T h h'" and ok: "accountsOk T h" and w: "w \<in> set (web_sessions h)"
    and w': "w' \<in> set (web_sessions h')" "ws_lookup_prefix w' = ws_lookup_prefix w"
  shows "sessionMoves (sessionCore w) (sessionCore w')"
proof -
  have ev: "evolves ws_lookup_prefix sessionMoves (map sessionCore (web_sessions h)) (map sessionCore (web_sessions h'))"
    using rel ok by (simp add: accountsRel_def)
  have "ws_lookup_prefix (sessionCore w') \<in> ws_lookup_prefix ` set (map sessionCore (web_sessions h))"
    using w w'(2) by (intro image_eqI [where x = "sessionCore w"]) (simp_all add: sessionCore_def)
  then obtain x where x: "x \<in> set (web_sessions h)" "sessionMoves (sessionCore x) (sessionCore w')"
    using ev w'(1) unfolding evolves_def by fastforce
  then have "ws_lookup_prefix x = ws_lookup_prefix w" using w'(2) by (auto simp: sessionMoves_def sessionCore_def)
  moreover have "distinct (map ws_lookup_prefix (web_sessions h))" using ok sessionRows.unique_keys by (simp add: accountsOk_def)
  ultimately have "x = w" using distinct_key_eq x(1) w by metis
  with x(2) show ?thesis by simp
qed

lemma find_append_none: "\<forall>y \<in> set ys. \<not> P y \<Longrightarrow> find P (xs @ ys) = find P xs"
  by (induction xs) (auto simp: find_None_iff)

lemma user_later:
  assumes rel: "accountsRel T h h'" and ok: "accountsOk T h" and i: "i \<in> u_id ` set (user_profiles (staff h))"
  shows "activeUser i h' = activeUser i h"
proof -
  obtain us where us: "user_profiles (staff h') = user_profiles (staff h) @ us" and ok': "accountsOk T h'"
    using rel ok by (auto simp: accountsRel_def)
  have "distinct (map u_id (user_profiles (staff h')))" using ok' users.unique_keys unfolding accountsOk_def by blast
  then have "\<forall>u \<in> set us. u_id u \<noteq> i" using us i by (auto simp: image_iff)
  then show ?thesis by (simp add: activeUser_def us find_append_none)
qed

text \<open>After a revocation the row of the prefix is revoked, expired or without an active user.\<close>

definition deadSession :: "env \<Rightarrow> hdb \<Rightarrow> WebSessionRow \<Rightarrow> bool" where
  "deadSession e h w \<longleftrightarrow> \<not> openSession e w \<or> activeUser (ws_user_profile w) h = None"

lemma revoke_dead:
  assumes run: "RevokeWebSession e sha secret h = (Inr (), h')" and ok: "accountsOk T h" and p: "LookupPrefix secret = Inr p"
    and w: "w \<in> set (web_sessions h')" "ws_lookup_prefix w = p"
  shows "deadSession e h' w"
proof (cases "GetWebSessionByPrefix e p h")
  case (Inl err)
  then have "h' = h" using run p
    by (auto simp: RevokeWebSession_def inAdminTx_Inr txBind_Inr_iff runQuery_Inr reading_Inr)
  then show ?thesis using Inl w
    by (auto simp: GetWebSessionByPrefix_def deadSession_def find_None_iff split: option.splits dest: find_SomeD)
next
  case (Inr r)
  then obtain x user where get: "GetWebSessionByPrefix e p h = Inr (x, user)" by (cases r) auto
  then have h': "RevokeWebSessionRow e (ws_id x) h = Inr ((), h')" using run p
    by (auto simp: RevokeWebSession_def inAdminTx_Inr txBind_Inr_iff runQuery_Inr reading_Inr txLift_Inr txGuard_Inr_iff)
  then obtain y where y: "y \<in> set (web_sessions h)" "ws_lookup_prefix y = p" and "ws_id y = ws_id x \<longrightarrow> ws_revoked_at w \<noteq> None"
    using w by (auto simp: RevokeWebSessionRow_def changeSession_def split: if_splits option.splits)
  moreover have "y = x"
    using y GetWebSessionByPrefix_Inr [OF get] ok sessionRows.unique_keys distinct_key_eq unfolding accountsOk_def by metis
  ultimately show ?thesis by (auto simp: deadSession_def openSession_def)
qed

lemma moves_open:
  assumes moves: "sessionMoves (sessionCore w) (sessionCore w')" and later: "now e0 \<le> now e" and open': "openSession e w'"
  shows "openSession e0 w"
proof -
  have core: "ws_revoked_at (sessionCore x) = ws_revoked_at x" "ws_expires_at (sessionCore x) = ws_expires_at x" for x
    by (simp_all add: sessionCore_def)
  have "ws_revoked_at w = None"
  proof (rule ccontr)
    assume "ws_revoked_at w \<noteq> None"
    then have "sessionCore w' = sessionCore w" using moves by (simp add: sessionMoves_def core)
    then have "ws_revoked_at w' = ws_revoked_at w" using core(1) by metis
    with open' \<open>ws_revoked_at w \<noteq> None\<close> show False by (simp add: openSession_def)
  qed
  moreover have "ws_expires_at w' = ws_expires_at w" using moves by (simp add: sessionMoves_def core)
  ultimately show ?thesis using later open' by (simp add: openSession_def)
qed

lemma prefix_stays:
  assumes "accountsRel T h h'" and "accountsOk T h" and "p \<in> ws_lookup_prefix ` set (web_sessions h)"
  shows "p \<in> ws_lookup_prefix ` set (web_sessions h')"
proof -
  have ev: "evolves ws_lookup_prefix sessionMoves (map sessionCore (web_sessions h)) (map sessionCore (web_sessions h'))"
    using assms(1,2) by (simp add: accountsRel_def)
  have same: "ws_lookup_prefix ` set (map sessionCore ws) = ws_lookup_prefix ` set ws" for ws
    by (simp add: image_image sessionCore_def)
  show ?thesis using sess.evolves_keys [OF ev] assms(3) same by auto
qed

text \<open>
  C32. A revoked session is out for ever. Once \<^verbatim>\<open>RevokeWebSession\<close> succeeds on a secret with a stored session, no
  sequence of operations of the identity service, with whatever outcomes, makes \<^verbatim>\<open>ValidateWebSession\<close> accept that
  secret at a later time: it is refused without any change.
\<close>
theorem revoked_session_is_out:
  assumes "accountsOk T h" and "LookupPrefix secret = Inr p" and "p \<in> ws_lookup_prefix ` set (web_sessions h)"
    and "RevokeWebSession e0 sha secret h = (Inr (), h1)" and "(people_step T)\<^sup>*\<^sup>* h1 h2" and "now e0 \<le> now e"
  shows "\<exists>err. ValidateWebSession e e' sha T secret h2 = (Inl err, h2)"
proof -
  have rel1: "accountsRel T h h1" using revokeSession_account [of T e0 sha secret] assms(4) by (metis followsTx_def snd_conv)
  have ok1: "accountsOk T h1" using rel1 assms(1) by (simp add: accountsRel_def)
  have rel2: "accountsRel T h1 h2" using people_steps_account [OF assms(5)] .
  obtain w1 where w1: "w1 \<in> set (web_sessions h1)" "ws_lookup_prefix w1 = p"
    using prefix_stays [OF rel1 assms(1,3)] by auto
  have dead: "deadSession e0 h1 w1" using revoke_dead [OF assms(4,1,2) w1] .
  have "GetWebSessionByPrefix e p h2 \<noteq> Inr (w, u)" for w u
  proof
    assume "GetWebSessionByPrefix e p h2 = Inr (w, u)"
    then have w: "w \<in> set (web_sessions h2)" "ws_lookup_prefix w = p" "openSession e w" "activeUser (ws_user_profile w) h2 = Some u"
      by (auto dest: GetWebSessionByPrefix_Inr)
    have moves: "sessionMoves (sessionCore w1) (sessionCore w)"
      using session_later [OF rel2 ok1 w1(1) w(1)] w1(2) w(2) by simp
    have user: "ws_user_profile w = ws_user_profile w1" using moves by (simp add: sessionMoves_def sessionCore_def)
    have "activeUser (ws_user_profile w) h2 = activeUser (ws_user_profile w1) h1"
      unfolding user using ok1 w1(1) by (intro user_later [OF rel2 ok1]) (auto simp: accountsOk_def)
    moreover have "openSession e0 w1" using moves assms(6) w(3) by (rule moves_open)
    ultimately show False using dead w(4) by (simp add: deadSession_def)
  qed
  then have "\<exists>err. GetWebSessionByPrefix e p h2 = Inl err" by (cases "GetWebSessionByPrefix e p h2") auto
  then obtain err where "GetWebSessionByPrefix e p h2 = Inl err" ..
  then have "runQuery e ''getting web session'' (Some ErrUnauthorized) (reading (GetWebSessionByPrefix e p)) h2 = Inr r \<Longrightarrow> False" for r
    by (cases r) (simp add: runQuery_Inr reading_Inr)
  then show ?thesis
    using assms(2) by (auto simp: ValidateWebSession_def inAdminTx_def identityTx_def txGuard_def txBind_def split: sum.splits)
qed

lemma find_last_row: "\<forall>x \<in> set xs. \<not> P x \<Longrightarrow> P y \<Longrightarrow> find P (xs @ [y]) = Some y"
  by (induction xs) auto

lemma createSession_Inr:
  assumes "CreateWebSession e e' rnd sha T arg h = (Inr s, h')"
  shows "\<exists>prefix hash agent ip old. LookupPrefix (wb_Secret s) = Inr prefix \<and> HashSecret sha (wb_Secret s) = Inr hash \<and>
    CreateWebSessionRow e (gen e 5) (cw_UserProfileID arg) prefix hash (pgTime (wall e + sessionTTL (cw_TTL arg))) agent ip old h =
      Inr (wb_Session s, h') \<and>
    60 * second \<le> sessionTTL (cw_TTL arg) \<and> sessionTTL (cw_TTL arg) \<le> 24 * hourNanos"
proof -
  from assms obtain secret prefix hash agent ip old w h1 where
    "freshSecret rnd sha ''generating web session'' = Inr (secret, prefix, hash)"
    and "CreateWebSessionRow e (gen e 5) (cw_UserProfileID arg) prefix hash (pgTime (wall e + sessionTTL (cw_TTL arg))) agent ip old h = Inr (w, h1)"
    and hyd: "hydrateWebSession e' T w secret h1 = (Inr s, h')"
    and "60 * second \<le> sessionTTL (cw_TTL arg)" "sessionTTL (cw_TTL arg) \<le> 24 * hourNanos"
    unfolding CreateWebSession_def Let_def
    by (auto simp: inAdminTx_Inr runQuery_Inr split: if_splits sum.splits prod.splits)
  then show ?thesis using hydrate_Inr [OF hyd] by (auto simp: freshSecret_def split: sum.splits)
qed

text \<open>
  C33. A session that was created works and its life is bounded: it expires between a minute and a day after the
  creating server's clock, and until then its secret is accepted, for the user it was made for, by a world that answers
  every statement.
\<close>
theorem session_roundtrip:
  assumes "CreateWebSession e e' rnd sha T arg h = (Inr s, h1)" and "activeUser (cw_UserProfileID arg) h = Some u"
    and "quiet v" and "quiet v'" and "now v < ws_expires_at (wb_Session s)"
  shows "(\<exists>s' h2. ValidateWebSession v v' sha T (wb_Secret s) h1 = (Inr s', h2) \<and> wb_Session s' = wb_Session s \<and> wb_User s' = u) \<and>
    pgTime (wall e + 60 * second) \<le> ws_expires_at (wb_Session s) \<and> ws_expires_at (wb_Session s) \<le> pgTime (wall e + 24 * hourNanos)"
proof
  obtain prefix hash agent ip old where p: "LookupPrefix (wb_Secret s) = Inr prefix" and hash: "HashSecret sha (wb_Secret s) = Inr hash"
    and row: "CreateWebSessionRow e (gen e 5) (cw_UserProfileID arg) prefix hash (pgTime (wall e + sessionTTL (cw_TTL arg))) agent ip old h =
      Inr (wb_Session s, h1)"
    and ttl: "60 * second \<le> sessionTTL (cw_TTL arg)" "sessionTTL (cw_TTL arg) \<le> 24 * hourNanos"
    using createSession_Inr [OF assms(1)] by blast
  let ?w = "wb_Session s"
  have w: "ws_lookup_prefix ?w = prefix" "ws_session_hash ?w = hash" "ws_revoked_at ?w = None" "ws_user_profile ?w = cw_UserProfileID arg"
    "ws_expires_at ?w = pgTime (wall e + sessionTTL (cw_TTL arg))"
    and free: "\<forall>x \<in> set (web_sessions h). \<not> sameSession x ?w" and h1: "h1 = h\<lparr>web_sessions := web_sessions h @ [?w]\<rparr>"
    using row by (auto simp: CreateWebSessionRow_def Let_def insertRowFk_Inr elim!: map_sum_InrE split: prod.splits)
  show "pgTime (wall e + 60 * second) \<le> ws_expires_at ?w \<and> ws_expires_at ?w \<le> pgTime (wall e + 24 * hourNanos)"
    using ttl w(5) by (simp add: pgTime_def zdiv_mono1)
  have user: "activeUser (cw_UserProfileID arg) h1 = Some u" using assms(2) by (simp add: activeUser_def h1)
  let ?P = "\<lambda>x. ws_lookup_prefix x = prefix \<and> openSession v x \<and> activeUser (ws_user_profile x) h1 \<noteq> None"
  have "find ?P (web_sessions h @ [?w]) = Some ?w"
    using free w user assms(5) by (intro find_last_row) (auto simp: openSession_def sameSession_def)
  then have "GetWebSessionByPrefix v prefix h1 = Inr (?w, u)"
    using user w(4) by (simp add: GetWebSessionByPrefix_def h1)
  then show "\<exists>s' h2. ValidateWebSession v v' sha T (wb_Secret s) h1 = (Inr s', h2) \<and> wb_Session s' = ?w \<and> wb_User s' = u"
    using assms(3,4) p hash w(2)
    by (simp add: ValidateWebSession_def inAdminTx_def identityTx_def commitIdentity_def quiet_def txGuard_def txBind_def runQuery_def
        reading_def txLift_def SecretMatches_def TouchWebSession_def changeSession_def hydrateWebSession_def Let_def)
qed


section \<open>External identities\<close>

lemma link_Inr:
  "LinkExternalIdentity e i user issuer subject email h = Inr (x, h') \<Longrightarrow>
     xi_user_profile x = user \<and> xi_issuer x = issuer \<and> xi_subject x = subject \<and> x \<in> set (external_identities h') \<and>
     (\<forall>y \<in> set (external_identities h). \<not> sameIdentity y x) \<and> h' = h\<lparr>external_identities := external_identities h @ [x]\<rparr>"
  by (auto simp: LinkExternalIdentity_def Let_def insertRowFk_Inr elim!: map_sum_InrE split: prod.splits)

text \<open>The database with a new profile and its identity, and nothing else changed.\<close>

definition withPerson :: "UserProfileResult \<Rightarrow> hdb \<Rightarrow> hdb" where
  "withPerson r h =
     h\<lparr>plant := (plant h)\<lparr>shared := (staff h)\<lparr>user_profiles := user_profiles (staff h) @ [ur_User r]\<rparr>\<rparr>,
       external_identities := external_identities h @ [ur_External r]\<rparr>"

lemma linkedProfile_Inr:
  assumes "createLinkedProfile e T name email x h = Inr (r, h')"
  shows "xi_user_profile (ur_External r) = u_id (ur_User r) \<and> xi_issuer (ur_External r) = ei_Issuer x \<and>
    xi_subject (ur_External r) = ei_Subject x \<and> ur_External r \<in> set (external_identities h') \<and>
    (\<forall>y \<in> set (external_identities h). \<not> (xi_issuer y = ei_Issuer x \<and> xi_subject y = ei_Subject x)) \<and>
    u_id (ur_User r) \<notin> u_id ` set (user_profiles (staff h)) \<and> u_email (ur_User r) = nullableText email \<and> h' = withPerson r h"
proof -
  from assms obtain h1 where u: "onStaff (CreateUserProfileRow e T (gen e 0) name (nullableText email)) h = Inr (ur_User r, h1)"
    and x: "LinkExternalIdentity e (gen e 3) (u_id (ur_User r)) (ei_Issuer x) (ei_Subject x) (nullableText (ei_Email x)) h1 = Inr (ur_External r, h')"
    by (auto simp: createLinkedProfile_def txBind_Inr_iff runQuery_Inr)
  have "h1 = setStaff ((staff h)\<lparr>user_profiles := user_profiles (staff h) @ [ur_User r]\<rparr>) h" "u_email (ur_User r) = nullableText email"
    "\<forall>y \<in> set (user_profiles (staff h)). \<not> sameUser T y (ur_User r)"
    using u by (auto simp: onStaff_Inr CreateUserProfileRow_def Let_def insertRow_Inr elim!: map_sum_InrE split: prod.splits)
  then show ?thesis using link_Inr [OF x] by (auto simp: sameUser_def sameIdentity_def withPerson_def setStaff_def)
qed

lemma consume_Inr:
  "consumePendingPlatformGrant e c T user email h = Inr (fired, h') \<Longrightarrow> external_identities h' = external_identities h"
  by (auto simp: consumePendingPlatformGrant_def runQuery_Inr ConsumePlatformAdminGrant_def CreatePlatformMembership_def Let_def
      split: option.splits sum.splits if_splits prod.splits elim!: map_sum_InrE)

lemma invited_Inr:
  assumes "linkInvited e T arg h = Inr (found, h')"
  shows "found = None \<and> h' = h \<or>
    (\<exists>r. found = Some r \<and> xr_EmailVerified arg \<and> xi_user_profile (ur_External r) = u_id (ur_User r) \<and>
       xi_issuer (ur_External r) = ei_Issuer (xr_External arg) \<and> xi_subject (ur_External r) = ei_Subject (xr_External arg) \<and>
       ur_External r \<in> set (external_identities h') \<and> (\<forall>y \<in> set (external_identities h). \<not> sameIdentity y (ur_External r)))"
proof (cases "xr_EmailVerified arg \<and> xr_Email arg \<noteq> ''''")
  case True
  show ?thesis
  proof (cases "normalizeEmail T (xr_Email arg)")
    case (Some email)
    then show ?thesis using assms True
      by (auto simp: linkInvited_def txBind_Inr_iff runQuery_Inr reading_Inr split: option.splits dest: link_Inr)
  qed (use assms True in \<open>simp add: linkInvited_def\<close>)
qed (use assms in \<open>auto simp: linkInvited_def\<close>)

text \<open>Either the identity was known, or nobody had it and it is linked now.\<close>

lemma resolveInTx_Inr:
  assumes "resolveInTx e T arg c h = Inr ((r, fired), h')"
  defines "matches \<equiv> \<lambda>y. xi_issuer y = ei_Issuer (xr_External arg) \<and> xi_subject y = ei_Subject (xr_External arg)"
  shows "matches (ur_External r) \<and> xi_user_profile (ur_External r) = u_id (ur_User r) \<and> ur_External r \<in> set (external_identities h') \<and>
    (ur_External r \<in> set (external_identities h) \<and> activeUser (u_id (ur_User r)) h = Some (ur_User r) \<or>
     (\<forall>y \<in> set (external_identities h). \<not> matches y)) \<and>
    (xr_EmailVerified arg \<or> ur_External r \<in> set (external_identities h) \<and> h' = h \<or>
     u_id (ur_User r) \<notin> u_id ` set (user_profiles (staff h)) \<and> u_email (ur_User r) = None \<and> h' = withPerson r h)"
proof -
  let ?row = "GetUserByExternalIdentity (ei_Issuer (xr_External arg)) (ei_Subject (xr_External arg)) h"
  let ?new = "createLinkedProfile e T (xr_DisplayName arg) (if xr_EmailVerified arg then xr_Email arg else '''') (xr_External arg)"
  from assms(1) obtain found h1 h2 where
    found: "(case ?row of Some (user, x) \<Rightarrow> txReturn (Some \<lparr>ur_User = user, ur_External = x\<rparr>) | None \<Rightarrow> linkInvited e T arg) h = Inr (found, h1)"
    and res: "(case found of Some r \<Rightarrow> if u_id (ur_User r) \<noteq> uuid_Nil then txReturn r else ?new | None \<Rightarrow> ?new) h1 = Inr (r, h2)"
    and cons: "(if xr_EmailVerified arg \<and> xr_Email arg \<noteq> '''' then consumePendingPlatformGrant e c T (u_id (ur_User r)) (xr_Email arg)
        else txReturn False) h2 = Inr (fired, h')"
    unfolding resolveInTx_def by (auto simp: txBind_Inr_iff runQuery_Inr reading_Inr)
  have ext: "external_identities h' = external_identities h2" and quiet: "\<not> xr_EmailVerified arg \<Longrightarrow> h' = h2"
    using cons by (auto split: if_splits dest: consume_Inr)
  show ?thesis
  proof (cases ?row)
    case (Some p)
    obtain user x where p: "p = (user, x)" by (cases p)
    have x: "x \<in> set (external_identities h)" "matches x" "activeUser (xi_user_profile x) h = Some user"
      using Some p by (auto simp: GetUserByExternalIdentity_def matches_def split: option.splits dest: find_SomeD)
    have "found = Some \<lparr>ur_User = user, ur_External = x\<rparr>" and h1: "h1 = h" using found Some p by auto
    then have "r = \<lparr>ur_User = user, ur_External = x\<rparr> \<and> h2 = h"
      using res x(1,2) linkedProfile_Inr by (fastforce simp: matches_def split: if_splits)
    then show ?thesis using x ext quiet activeUser_Some [OF x(3)] by auto
  next
    case None
    show ?thesis
    proof (cases "found = None \<or> (\<exists>q. found = Some q \<and> u_id (ur_User q) = uuid_Nil)")
      case True
      then have "?new h1 = Inr (r, h2)" using res by auto
      note new = linkedProfile_Inr [OF this]
      have "h1 = h \<or> xr_EmailVerified arg \<and> (\<exists>y \<in> set (external_identities h1). matches y)"
        using invited_Inr [of e T arg h found h1] found None by (auto simp: matches_def)
      then show ?thesis using new ext quiet by (auto simp: matches_def nullableText_def)
    next
      case False
      then have "found = Some r" "h2 = h1" using res by auto
      then show ?thesis using invited_Inr [of e T arg h found h1] found None ext by (auto simp: matches_def sameIdentity_def)
    qed
  qed
qed

lemma resolve_Inr:
  assumes "ResolveExternalIdentity e T arg h = (Inr r, h')"
  shows "\<exists>fired. resolveInTx e T (normalizeResolve arg) admin_context h = Inr ((r, fired), h')"
  using assms unfolding ResolveExternalIdentity_def Let_def
  by (auto simp: commitPlatform_def commitIdentity_def txGuard_Inr_iff split: if_splits sum.splits prod.splits commit_outcome.splits)

definition identityKey :: "ResolveExternalIdentityParams \<Rightarrow> string \<times> string" where
  "identityKey arg = (trimSpace (ei_Issuer (xr_External arg)), trimSpace (ei_Subject (xr_External arg)))"

lemma normalizeResolve_fields:
  "ei_Issuer (xr_External (normalizeResolve arg)) = fst (identityKey arg)" "ei_Subject (xr_External (normalizeResolve arg)) = snd (identityKey arg)"
  "xr_EmailVerified (normalizeResolve arg) = xr_EmailVerified arg"
  by (simp_all add: normalizeResolve_def Let_def identityKey_def)

text \<open>
  C34. An external identity stays with its person: once \<^verbatim>\<open>ResolveExternalIdentity\<close> has resolved an issuer and subject
  to a user, every later resolution of the same issuer and subject that succeeds gives the same user, whatever address
  or name it comes with and whatever the identity service does in between.
\<close>
theorem identity_is_stable:
  assumes "accountsOk T h" and "ResolveExternalIdentity e T arg h = (Inr r, h1)" and "(people_step T)\<^sup>*\<^sup>* h1 h2"
    and "ResolveExternalIdentity e' T arg' h2 = (Inr r', h3)" and "identityKey arg' = identityKey arg"
  shows "u_id (ur_User r') = u_id (ur_User r)"
proof -
  let ?matches = "\<lambda>y. (xi_issuer y, xi_subject y) = identityKey arg"
  obtain f1 f2 where run1: "resolveInTx e T (normalizeResolve arg) admin_context h = Inr ((r, f1), h1)"
    and run2: "resolveInTx e' T (normalizeResolve arg') admin_context h2 = Inr ((r', f2), h3)"
    using resolve_Inr [OF assms(2)] resolve_Inr [OF assms(4)] by blast
  have first: "?matches (ur_External r)" "xi_user_profile (ur_External r) = u_id (ur_User r)" "ur_External r \<in> set (external_identities h1)"
    using resolveInTx_Inr [OF run1] by (auto simp: normalizeResolve_fields)
  have "accountsRel T h h1" using resolve_account [of T e arg] assms(2) by (metis followsTx_def snd_conv)
  then have ok1: "accountsOk T h1" using assms(1) by (simp add: accountsRel_def)
  have rel: "accountsRel T h1 h2" using people_steps_account [OF assms(3)] .
  then have ok2: "accountsOk T h2" and stays: "ur_External r \<in> set (external_identities h2)"
    using ok1 first(3) unfolding accountsRel_def by auto
  then have later: "?matches (ur_External r')" "xi_user_profile (ur_External r') = u_id (ur_User r')" "ur_External r' \<in> set (external_identities h2)"
    using resolveInTx_Inr [OF run2] first(1) assms(5) by (auto simp: normalizeResolve_fields prod_eq_iff)
  have "distinct (map (\<lambda>x. (xi_issuer x, xi_subject x)) (external_identities h2))"
    using ok2 identities.unique_keys by (simp add: accountsOk_def)
  from distinct_key_eq [OF this later(3) stays] have "ur_External r' = ur_External r" using first(1) later(1) by simp
  then show ?thesis using first(2) later(2) by simp
qed

text \<open>
  C35. An address that is not verified links nothing and grants nothing: a resolution with an unverified address either
  answers the active user its identity was linked to before, and changes nothing at all, or adds a new profile without an
  address and the identity of that profile, and changes nothing else: no other profile or identity, no session, no
  membership and no grant.
\<close>
theorem unverified_address_links_nothing:
  assumes "ResolveExternalIdentity e T arg h = (Inr r, h')" and "\<not> xr_EmailVerified arg"
  shows "(xi_issuer (ur_External r), xi_subject (ur_External r)) = identityKey arg \<and>
    xi_user_profile (ur_External r) = u_id (ur_User r) \<and>
    ((ur_External r \<in> set (external_identities h) \<and> activeUser (u_id (ur_User r)) h = Some (ur_User r) \<and> h' = h) \<or>
     (u_id (ur_User r) \<notin> u_id ` set (user_profiles (staff h)) \<and> u_email (ur_User r) = None \<and>
      (\<forall>x \<in> set (external_identities h). (xi_issuer x, xi_subject x) \<noteq> identityKey arg) \<and>
      h' = h\<lparr>plant := (plant h)\<lparr>shared := (staff h)\<lparr>user_profiles := user_profiles (staff h) @ [ur_User r]\<rparr>\<rparr>,
             external_identities := external_identities h @ [ur_External r]\<rparr>))"
proof -
  obtain fired where run: "resolveInTx e T (normalizeResolve arg) admin_context h = Inr ((r, fired), h')"
    using resolve_Inr [OF assms(1)] by blast
  have key: "(xi_issuer x, xi_subject x) = identityKey arg \<longleftrightarrow>
      xi_issuer x = ei_Issuer (xr_External (normalizeResolve arg)) \<and> xi_subject x = ei_Subject (xr_External (normalizeResolve arg))" for x
    by (simp add: normalizeResolve_fields prod_eq_iff)
  have fresh: "ur_External r \<notin> set (external_identities h)" if "u_id (ur_User r) \<notin> u_id ` set (user_profiles (staff h))"
      "activeUser (u_id (ur_User r)) h = Some (ur_User r)"
    using that activeUser_Some [OF that(2)] by auto
  show ?thesis using resolveInTx_Inr [OF run] assms(2) fresh
    unfolding key withPerson_def normalizeResolve_fields(3) by blast
qed


section \<open>A sample of signing in\<close>

definition samplePerson :: "bool \<Rightarrow> ResolveExternalIdentityParams" where
  "samplePerson verified =
     \<lparr>xr_DisplayName = ''Ann'', xr_Email = ''ann@x'', xr_EmailVerified = verified,
      xr_External = \<lparr>ei_Issuer = ''idp'', ei_Subject = ''s1'', ei_Email = ''''\<rparr>\<rparr>"

definition sampleSignIn :: "ResolveExternalIdentityParams \<Rightarrow> UserProfileResult staff_result" where
  "sampleSignIn arg = ResolveExternalIdentity sampleEnv sampleTexts arg (sampleStaff RoleReadOnly)"

definition sampleOpenSession :: "WebSession staff_result" where
  "sampleOpenSession = CreateWebSession sampleEnv sampleEnv sampleBytes sampleSha sampleTexts
     \<lparr>cw_UserProfileID = 21, cw_TTL = 0, cw_UserAgent = '''', cw_IPAddress = '''', cw_RotatedFrom = 0\<rparr> (sampleStaff RoleReadOnly)"

lemma sampleStaff_accounts: "accountsOk sampleTexts (sampleStaff role)"
  by (simp add: accountsOk_def uniqueRows_def sameUser_def emailKey_def sample_staff)

definition sampleResolved :: "UserProfileResult staff_result \<Rightarrow> (uuid \<times> string option) option" where
  "sampleResolved x = (case x of (Inr r, h) \<Rightarrow> Some (u_id (ur_User r), u_email (ur_User r)) | (Inl err, h) \<Rightarrow> None)"

lemma sampleResolved_eval:
  "sampleResolved (sampleSignIn (samplePerson True)) = Some (21, Some ''ann@x'')"
  "sampleResolved (sampleSignIn (samplePerson False)) = Some (100, None)"
  by code_simp+

definition sampleSession :: "(uuid \<times> timestamp \<times> string) option" where
  "sampleSession = (case sampleOpenSession of (Inr s, h) \<Rightarrow> Some (ws_user_profile (wb_Session s), ws_expires_at (wb_Session s), wb_Secret s)
     | (Inl err, h) \<Rightarrow> None)"

lemma sampleSession_eval: "map_option (\<lambda>(i, t, x). (i, t)) sampleSession = Some (21, 28805000000)"
  by code_simp

definition sampleValidated :: "WebSession staff_result" where
  "sampleValidated = ValidateWebSession sampleEnv sampleEnv sampleSha sampleTexts (base64RawURL (replicate 32 7)) (snd sampleOpenSession)"

lemma sampleValidated_eval:
  "(case sampleValidated of (Inr s, h) \<Rightarrow> (u_id (wb_User s), map ms_Role (wb_Memberships s)) = (21, [RoleOrganisationOwner]) | (Inl err, h) \<Rightarrow> False)"
  by code_simp

text \<open>Witness of C31: the session of the sample speaks for its user, with the membership of the owner.\<close>

theorem session_sound_witness:
  "\<exists>s h'. sampleValidated = (Inr s, h') \<and> u_status (wb_User s) = ''active'' \<and>
     (\<forall>m \<in> set (wb_Memberships s). heldBy sampleTexts 21 (snd sampleOpenSession) m) \<and> map ms_Role (wb_Memberships s) = [RoleOrganisationOwner]"
proof -
  obtain s h' where s: "sampleValidated = (Inr s, h')" and u: "u_id (wb_User s) = 21" "map ms_Role (wb_Memberships s) = [RoleOrganisationOwner]"
    using sampleValidated_eval by (auto split: prod.splits sum.splits)
  then show ?thesis using session_sound [OF s [unfolded sampleValidated_def]] by (auto simp: Let_def)
qed

lemma sampleOpenSession_accounts: "accountsOk sampleTexts (snd sampleOpenSession)"
  using createSession_account [of sampleTexts] sampleStaff_accounts unfolding sampleOpenSession_def followsTx_def accountsRel_def by blast

definition sampleRevoked :: "unit staff_result" where
  "sampleRevoked = RevokeWebSession sampleEnv sampleSha (base64RawURL (replicate 32 7)) (snd sampleOpenSession)"

lemma sampleRevoked_eval:
  "(case sampleRevoked of (Inr u, h) \<Rightarrow> True | (Inl err, h) \<Rightarrow> False) \<and>
   LookupPrefix (base64RawURL (replicate 32 7)) = Inr ''BwcHBwcHBwcHBwcH'' \<and>
   map ws_lookup_prefix (web_sessions (snd sampleOpenSession)) = [''BwcHBwcHBwcHBwcH'']"
  by (intro conjI) code_simp+

text \<open>Witness of C32: the session of the sample is refused once it is revoked and its user has signed in again.\<close>

theorem revoked_session_is_out_witness:
  "\<exists>err h2. h2 = snd (CreateWebSession sampleEnv sampleEnv sampleOtherBytes sampleSha sampleTexts
        \<lparr>cw_UserProfileID = 21, cw_TTL = 0, cw_UserAgent = '''', cw_IPAddress = '''', cw_RotatedFrom = 0\<rparr> (snd sampleRevoked)) \<and>
     ValidateWebSession sampleEnv sampleEnv sampleSha sampleTexts (base64RawURL (replicate 32 7)) h2 = (Inl err, h2)"
proof -
  have run: "RevokeWebSession sampleEnv sampleSha (base64RawURL (replicate 32 7)) (snd sampleOpenSession) = (Inr (), snd sampleRevoked)"
    using sampleRevoked_eval by (auto simp: sampleRevoked_def split: prod.splits sum.splits)
  define h2 where "h2 = snd (CreateWebSession sampleEnv sampleEnv sampleOtherBytes sampleSha sampleTexts
      \<lparr>cw_UserProfileID = 21, cw_TTL = 0, cw_UserAgent = '''', cw_IPAddress = '''', cw_RotatedFrom = 0\<rparr> (snd sampleRevoked))"
  have step: "(people_step sampleTexts)\<^sup>*\<^sup>* (snd sampleRevoked) h2"
    unfolding h2_def by (rule r_into_rtranclp, rule people_step.step_session)
  have "''BwcHBwcHBwcHBwcH'' \<in> set (map ws_lookup_prefix (web_sessions (snd sampleOpenSession)))"
    unfolding sampleRevoked_eval [THEN conjunct2, THEN conjunct2] by simp
  then have "\<exists>err. ValidateWebSession sampleEnv sampleEnv sampleSha sampleTexts (base64RawURL (replicate 32 7)) h2 = (Inl err, h2)"
    by (intro revoked_session_is_out [OF sampleOpenSession_accounts sampleRevoked_eval [THEN conjunct2, THEN conjunct1] _ run step order_refl])
      simp
  then show ?thesis unfolding h2_def by blast
qed

text \<open>Witness of C33: the session of the sample is accepted for its user at the time it was made.\<close>

theorem session_roundtrip_witness:
  "\<exists>s h1 s' h2. sampleOpenSession = (Inr s, h1) \<and> ws_expires_at (wb_Session s) \<le> 5000000 + 24 * 3600000000 \<and>
     ValidateWebSession sampleEnv sampleEnv sampleSha sampleTexts (wb_Secret s) h1 = (Inr s', h2) \<and> u_id (wb_User s') = 21"
proof -
  obtain s h1 where s: "sampleOpenSession = (Inr s, h1)" and t: "ws_expires_at (wb_Session s) = 28805000000"
    using sampleSession_eval by (auto simp: sampleSession_def split: prod.splits sum.splits)
  have "activeUser 21 (sampleStaff RoleReadOnly) = Some (sampleUser 21 ''ann@x'')"
    by (simp add: activeUser_def sample_staff)
  moreover have "quiet sampleEnv" "now sampleEnv < ws_expires_at (wb_Session s)"
    using t by (simp_all add: sampleEnv_def quiet_def no_faults_def)
  ultimately obtain s' h2 where "ValidateWebSession sampleEnv sampleEnv sampleSha sampleTexts (wb_Secret s) h1 = (Inr s', h2)"
    "wb_User s' = sampleUser 21 ''ann@x''"
    using session_roundtrip [OF s [unfolded sampleOpenSession_def], of "sampleUser 21 ''ann@x''" sampleEnv sampleEnv] by auto
  moreover from this have "u_id (wb_User s') = 21" by (simp add: sampleUser_def)
  moreover have "ws_expires_at (wb_Session s) \<le> 5000000 + 24 * 3600000000" using t by simp
  ultimately show ?thesis using s by blast
qed

lemma sampleResolved_again:
  "sampleResolved (ResolveExternalIdentity sampleEnv sampleTexts ((samplePerson True)\<lparr>xr_Email := ''new@x''\<rparr>) (snd (sampleSignIn (samplePerson True)))) =
     Some (21, Some ''ann@x'')"
  by code_simp

text \<open>Witness of C34: the same subject with another address is the same user.\<close>

theorem identity_is_stable_witness:
  "\<exists>r h1 r' h2. sampleSignIn (samplePerson True) = (Inr r, h1) \<and>
     ResolveExternalIdentity sampleEnv sampleTexts ((samplePerson True)\<lparr>xr_Email := ''new@x''\<rparr>) h1 = (Inr r', h2) \<and>
     u_id (ur_User r') = u_id (ur_User r)"
proof -
  obtain r h1 where r: "sampleSignIn (samplePerson True) = (Inr r, h1)"
    using sampleResolved_eval(1) by (auto simp: sampleResolved_def split: prod.splits sum.splits)
  obtain r' h2 where r': "ResolveExternalIdentity sampleEnv sampleTexts ((samplePerson True)\<lparr>xr_Email := ''new@x''\<rparr>) h1 = (Inr r', h2)"
    using sampleResolved_again r by (auto simp: sampleResolved_def split: prod.splits sum.splits)
  have "u_id (ur_User r') = u_id (ur_User r)"
    by (rule identity_is_stable [OF sampleStaff_accounts r [unfolded sampleSignIn_def] rtranclp.rtrancl_refl r'])
      (simp add: identityKey_def)
  then show ?thesis using r r' by blast
qed

text \<open>Witness of C35: with an unverified address Ann is a new person without an address.\<close>

theorem unverified_address_links_nothing_witness:
  "\<exists>r h1. sampleSignIn (samplePerson False) = (Inr r, h1) \<and> u_email (ur_User r) = None \<and>
     (\<forall>u \<in> set (user_profiles (staff (sampleStaff RoleReadOnly))). u_id (ur_User r) \<noteq> u_id u) \<and>
     organisation_memberships (staff h1) = organisation_memberships (staff (sampleStaff RoleReadOnly))"
proof -
  obtain r h1 where r: "sampleSignIn (samplePerson False) = (Inr r, h1)"
    using sampleResolved_eval(2) by (auto simp: sampleResolved_def split: prod.splits sum.splits)
  have "external_identities (sampleStaff RoleReadOnly) = []" by (simp add: sampleStaff_def)
  then show ?thesis
    using unverified_address_links_nothing [OF r [unfolded sampleSignIn_def]] r by (auto simp: samplePerson_def)
qed

end
