(* ===== verification/Layout.thy ===== *)
theory Layout
  imports Members Owners
begin

text \<open>
  The statements of \<^verbatim>\<open>internal/store/db/layout.sql.go\<close> on floors, zones and tables, and those of
  \<^verbatim>\<open>organisation.sql.go\<close> that change an organisation or a location, with the constraints of the migrations
  000002 and 000006. A statement that writes fails with the error of the call and, when a unique key is violated,
  the name of its constraint, as \<^verbatim>\<open>pgconn.PgError\<close> carries it.
\<close>

section \<open>Writes that name the violated key\<close>

type_synonym wr_error = "db_error \<times> string"

text \<open>\<open>keys\<close>: the unique constraints of a table in the order of their indexes, with the rows they keep apart.\<close>

type_synonym 'r unique_keys = "(string \<times> ('r \<Rightarrow> 'r \<Rightarrow> bool)) list"

definition violatedKey :: "'r unique_keys \<Rightarrow> 'r \<Rightarrow> 'r list \<Rightarrow> string option" where
  "violatedKey keys r rs = map_option fst (find (\<lambda>(name, same). \<exists>x \<in> set rs. same x r) keys)"

text \<open>Row security and CHECK constraints come first, then the unique keys, then the foreign keys.\<close>

definition constrained :: "string option \<Rightarrow> string option \<Rightarrow> string option \<Rightarrow> 'a \<Rightarrow> wr_error + 'a" where
  "constrained viol key fk v =
     (case viol of
        Some state \<Rightarrow> Inl (PgError state, '''')
      | None \<Rightarrow>
          (case key of
             Some name \<Rightarrow> Inl (PgError ''23505'', name)
           | None \<Rightarrow> (case fk of Some state \<Rightarrow> Inl (PgError state, '''') | None \<Rightarrow> Inr v)))"

definition insertKeyed ::
  "'r unique_keys \<Rightarrow> string option \<Rightarrow> string option \<Rightarrow> 'r \<Rightarrow> 'r list \<Rightarrow> wr_error + 'r \<times> 'r list" where
  "insertKeyed keys viol fk r rs = constrained viol (violatedKey keys r rs) fk (r, rs @ [r])"

text \<open>An UPDATE that pins the primary key \<open>key\<close>; the new row is compared with the other rows.\<close>

definition updateKeyed ::
  "('r \<Rightarrow> uuid) \<Rightarrow> 'r unique_keys \<Rightarrow> ('r \<Rightarrow> bool) \<Rightarrow> ('r \<Rightarrow> string option) \<Rightarrow> ('r \<Rightarrow> string option) \<Rightarrow> ('r \<Rightarrow> 'r) \<Rightarrow>
     'r list \<Rightarrow> wr_error + 'r \<times> 'r list" where
  "updateKeyed key keys P chk fk f rs =
     (case find P rs of
        None \<Rightarrow> Inl (ErrNoRows, '''')
      | Some r \<Rightarrow>
          constrained (chk (f r)) (violatedKey keys (f r) (filter (\<lambda>x. key x \<noteq> key r) rs)) (fk (f r))
            (f r, map (\<lambda>x. if P x then f x else x) rs))"

definition inCore :: "(db \<Rightarrow> db) \<Rightarrow> adb \<Rightarrow> adb" where
  "inCore f s = s\<lparr>shared := (shared s)\<lparr>core := f (core (shared s))\<rparr>\<rparr>"

definition inOrganisations :: "Organisation list \<Rightarrow> adb \<Rightarrow> adb" where
  "inOrganisations gs s = s\<lparr>shared := (shared s)\<lparr>organisations := gs\<rparr>\<rparr>"


section \<open>Floors\<close>

definition floorCheck :: "Floor \<Rightarrow> string option" where
  "floorCheck f = firstViolation
     [(f_version f \<le> maxInt32, ''22003''),
      (f_slug f \<noteq> '''', ''23514''),
      (f_name f \<noteq> '''', ''23514''),
      (0 \<le> f_sort_order f, ''23514''),
      (1 \<le> f_version f, ''23514'')]"

definition floorKeys :: "Floor unique_keys" where
  "floorKeys =
     [(''floors_pkey'', \<lambda>x y. f_id x = f_id y),
      (''floors_location_id_slug_key'', \<lambda>x y. f_loc x = f_loc y \<and> f_slug x = f_slug y)]"

definition CreateFloorRow ::
  "env \<Rightarrow> ctx \<Rightarrow> uuid \<Rightarrow> uuid \<Rightarrow> uuid \<Rightarrow> string \<Rightarrow> string \<Rightarrow> int \<Rightarrow> json \<Rightarrow> string option \<Rightarrow> adb \<Rightarrow> wr_error + Floor \<times> adb" where
  "CreateFloorRow e c newID org loc slug name sortOrder canvas background s =
     (let f = \<lparr>f_id = newID, f_org = org, f_loc = loc, f_slug = slug, f_name = name, f_sort_order = sortOrder, f_canvas = canvas,
               f_background_asset_ref = background, f_is_active = True, f_version = 1, f_created_at = now e, f_updated_at = now e\<rparr>
      in map_sum id (\<lambda>(f', fs). (f', s\<lparr>floors := fs\<rparr>))
           (insertKeyed floorKeys (if \<not> visible e c org loc then Some ''42501'' else floorCheck f)
              (firstViolation [(locationExists (core (shared s)) org loc, ''23503'')]) f (floors s)))"

text \<open>\<^verbatim>\<open>WHERE id = $1 AND organisation_id = $2 AND location_id = $3 AND version = $n\<close>.\<close>

definition updateFloorRow ::
  "env \<Rightarrow> ctx \<Rightarrow> uuid \<Rightarrow> uuid \<Rightarrow> uuid \<Rightarrow> int \<Rightarrow> (Floor \<Rightarrow> Floor) \<Rightarrow> adb \<Rightarrow> wr_error + Floor \<times> adb" where
  "updateFloorRow e c i org loc version f s =
     map_sum id (\<lambda>(f', fs). (f', s\<lparr>floors := fs\<rparr>))
       (updateKeyed f_id floorKeys
          (\<lambda>f. visible e c (f_org f) (f_loc f) \<and> f_id f = i \<and> f_org f = org \<and> f_loc f = loc \<and> f_version f = version)
          floorCheck (\<lambda>f. None) (\<lambda>x. (f x)\<lparr>f_version := f_version x + 1, f_updated_at := now e\<rparr>) (floors s))"

definition UpdateFloorRow ::
  "env \<Rightarrow> ctx \<Rightarrow> uuid \<Rightarrow> uuid \<Rightarrow> uuid \<Rightarrow> string \<Rightarrow> string \<Rightarrow> int \<Rightarrow> json \<Rightarrow> string option \<Rightarrow> int \<Rightarrow> adb \<Rightarrow> wr_error + Floor \<times> adb" where
  "UpdateFloorRow e c i org loc slug name sortOrder canvas background version =
     updateFloorRow e c i org loc version
       (\<lambda>f. f\<lparr>f_slug := slug, f_name := name, f_sort_order := sortOrder, f_canvas := canvas,
              f_background_asset_ref := background\<rparr>)"

definition ArchiveFloorRow :: "env \<Rightarrow> ctx \<Rightarrow> uuid \<Rightarrow> uuid \<Rightarrow> uuid \<Rightarrow> int \<Rightarrow> adb \<Rightarrow> wr_error + Floor \<times> adb" where
  "ArchiveFloorRow e c i org loc version = updateFloorRow e c i org loc version (\<lambda>f. f\<lparr>f_is_active := False\<rparr>)"

definition RestoreFloorRow :: "env \<Rightarrow> ctx \<Rightarrow> uuid \<Rightarrow> uuid \<Rightarrow> uuid \<Rightarrow> int \<Rightarrow> adb \<Rightarrow> wr_error + Floor \<times> adb" where
  "RestoreFloorRow e c i org loc version = updateFloorRow e c i org loc version (\<lambda>f. f\<lparr>f_is_active := True\<rparr>)"


section \<open>Zones\<close>

definition zoneCheck :: "Zone \<Rightarrow> string option" where
  "zoneCheck z = firstViolation
     [(z_version z \<le> maxInt32, ''22003''),
      (z_name z \<noteq> '''', ''23514''),
      (0 \<le> z_sort_order z, ''23514''),
      (1 \<le> z_version z, ''23514'')]"

definition zoneKeys :: "Zone unique_keys" where
  "zoneKeys =
     [(''zones_pkey'', \<lambda>x y. z_id x = z_id y),
      (''zones_floor_id_name_key'', \<lambda>x y. z_floor x = z_floor y \<and> z_name x = z_name y)]"

definition floorExists :: "adb \<Rightarrow> uuid \<Rightarrow> uuid \<Rightarrow> uuid \<Rightarrow> bool" where
  "floorExists s i org loc \<longleftrightarrow> (\<exists>f \<in> set (floors s). f_id f = i \<and> f_org f = org \<and> f_loc f = loc)"

definition CreateZoneRow ::
  "env \<Rightarrow> ctx \<Rightarrow> uuid \<Rightarrow> uuid \<Rightarrow> uuid \<Rightarrow> uuid \<Rightarrow> string \<Rightarrow> int \<Rightarrow> adb \<Rightarrow> wr_error + Zone \<times> adb" where
  "CreateZoneRow e c newID org loc floorID name sortOrder s =
     (let z = \<lparr>z_id = newID, z_org = org, z_loc = loc, z_floor = floorID, z_name = name, z_sort_order = sortOrder,
               z_is_active = True, z_version = 1, z_created_at = now e, z_updated_at = now e\<rparr>
      in map_sum id (\<lambda>(z', zs). (z', s\<lparr>zones := zs\<rparr>))
           (insertKeyed zoneKeys (if \<not> visible e c org loc then Some ''42501'' else zoneCheck z)
              (firstViolation [(floorExists s floorID org loc, ''23503'')]) z (zones s)))"

definition updateZoneRow ::
  "env \<Rightarrow> ctx \<Rightarrow> uuid \<Rightarrow> uuid \<Rightarrow> uuid \<Rightarrow> uuid \<Rightarrow> int \<Rightarrow> (Zone \<Rightarrow> Zone) \<Rightarrow> adb \<Rightarrow> wr_error + Zone \<times> adb" where
  "updateZoneRow e c i org loc floorID version f s =
     map_sum id (\<lambda>(z', zs). (z', s\<lparr>zones := zs\<rparr>))
       (updateKeyed z_id zoneKeys
          (\<lambda>z. visible e c (z_org z) (z_loc z) \<and> z_id z = i \<and> z_org z = org \<and> z_loc z = loc \<and> z_floor z = floorID \<and>
               z_version z = version)
          zoneCheck (\<lambda>z. None) (\<lambda>x. (f x)\<lparr>z_version := z_version x + 1, z_updated_at := now e\<rparr>) (zones s))"

definition UpdateZoneRow ::
  "env \<Rightarrow> ctx \<Rightarrow> uuid \<Rightarrow> uuid \<Rightarrow> uuid \<Rightarrow> uuid \<Rightarrow> string \<Rightarrow> int \<Rightarrow> int \<Rightarrow> adb \<Rightarrow> wr_error + Zone \<times> adb" where
  "UpdateZoneRow e c i org loc floorID name sortOrder version =
     updateZoneRow e c i org loc floorID version (\<lambda>z. z\<lparr>z_name := name, z_sort_order := sortOrder\<rparr>)"

definition ArchiveZoneRow :: "env \<Rightarrow> ctx \<Rightarrow> uuid \<Rightarrow> uuid \<Rightarrow> uuid \<Rightarrow> uuid \<Rightarrow> int \<Rightarrow> adb \<Rightarrow> wr_error + Zone \<times> adb" where
  "ArchiveZoneRow e c i org loc floorID version =
     updateZoneRow e c i org loc floorID version (\<lambda>z. z\<lparr>z_is_active := False\<rparr>)"


section \<open>Tables\<close>

definition tableCheck :: "Table \<Rightarrow> string option" where
  "tableCheck t = firstViolation
     [(t_version t \<le> maxInt32, ''22003''),
      (t_label t \<noteq> '''', ''23514''),
      (t_capacity_label t \<noteq> '''', ''23514''),
      (t_shape t \<in> {''rectangle'', ''circle'', ''square'', ''custom''}, ''23514''),
      (jsonb_typeof (t_geometry t) = ''object'', ''23514''),
      (1 \<le> t_version t, ''23514''),
      (t_deleted_at t = None \<and> t_is_active t \<or> t_deleted_at t \<noteq> None, ''23514'')]"

definition tableKeys :: "Table unique_keys" where
  "tableKeys =
     [(''tables_pkey'', \<lambda>x y. t_id x = t_id y),
      (''tables_legacy_table_id_key'', \<lambda>x y. t_legacy_table_id x \<noteq> None \<and> t_legacy_table_id x = t_legacy_table_id y),
      (''tables_floor_id_label_key'', \<lambda>x y. t_floor x = t_floor y \<and> t_label x = t_label y)]"

definition zoneExists :: "adb \<Rightarrow> uuid \<Rightarrow> uuid \<Rightarrow> uuid \<Rightarrow> uuid \<Rightarrow> bool" where
  "zoneExists s i org loc floorID \<longleftrightarrow>
     (\<exists>z \<in> set (zones s). z_id z = i \<and> z_org z = org \<and> z_loc z = loc \<and> z_floor z = floorID)"

definition CreateTableRow ::
  "env \<Rightarrow> ctx \<Rightarrow> uuid \<Rightarrow> uuid \<Rightarrow> uuid \<Rightarrow> uuid \<Rightarrow> uuid \<Rightarrow> string \<Rightarrow> string \<Rightarrow> string \<Rightarrow> json \<Rightarrow> string option \<Rightarrow> adb \<Rightarrow>
     wr_error + Table \<times> adb" where
  "CreateTableRow e c newID org loc floorID zoneID label capacityLabel shape geometry legacy s =
     (let t = \<lparr>t_id = newID, t_org = org, t_loc = loc, t_floor = floorID, t_zone = zoneID, t_label = label,
               t_capacity_label = capacityLabel, t_shape = shape, t_geometry = geometry, t_is_active = True, t_deleted_at = None,
               t_version = 1, t_legacy_table_id = legacy, t_created_at = now e, t_updated_at = now e\<rparr>
      in map_sum id (\<lambda>(t', ts). (t', inCore (\<lambda>d. d\<lparr>tables := ts\<rparr>) s))
           (insertKeyed tableKeys (if \<not> visible e c org loc then Some ''42501'' else tableCheck t)
              (firstViolation [(zoneExists s zoneID org loc floorID, ''23503'')]) t (tables (core (shared s)))))"

definition updateTableRow ::
  "env \<Rightarrow> ctx \<Rightarrow> uuid \<Rightarrow> uuid \<Rightarrow> uuid \<Rightarrow> int \<Rightarrow> (Table \<Rightarrow> Table) \<Rightarrow> adb \<Rightarrow> wr_error + Table \<times> adb" where
  "updateTableRow e c i org loc version f s =
     map_sum id (\<lambda>(t', ts). (t', inCore (\<lambda>d. d\<lparr>tables := ts\<rparr>) s))
       (updateKeyed t_id tableKeys
          (\<lambda>t. visible e c (t_org t) (t_loc t) \<and> t_id t = i \<and> t_org t = org \<and> t_loc t = loc \<and> t_version t = version)
          tableCheck (\<lambda>t. firstViolation [(zoneExists s (t_zone t) (t_org t) (t_loc t) (t_floor t), ''23503'')])
          (\<lambda>x. (f x)\<lparr>t_version := t_version x + 1, t_updated_at := now e\<rparr>) (tables (core (shared s))))"

definition UpdateTableRow ::
  "env \<Rightarrow> ctx \<Rightarrow> uuid \<Rightarrow> uuid \<Rightarrow> uuid \<Rightarrow> uuid \<Rightarrow> uuid \<Rightarrow> string \<Rightarrow> string \<Rightarrow> string \<Rightarrow> json \<Rightarrow> int \<Rightarrow> adb \<Rightarrow> wr_error + Table \<times> adb" where
  "UpdateTableRow e c i org loc floorID zoneID label capacityLabel shape geometry version =
     updateTableRow e c i org loc version
       (\<lambda>t. t\<lparr>t_floor := floorID, t_zone := zoneID, t_label := label, t_capacity_label := capacityLabel, t_shape := shape,
              t_geometry := geometry\<rparr>)"

definition ArchiveTableRow :: "env \<Rightarrow> ctx \<Rightarrow> uuid \<Rightarrow> uuid \<Rightarrow> uuid \<Rightarrow> int \<Rightarrow> adb \<Rightarrow> wr_error + Table \<times> adb" where
  "ArchiveTableRow e c i org loc version =
     updateTableRow e c i org loc version (\<lambda>t. t\<lparr>t_is_active := False, t_deleted_at := Some (now e)\<rparr>)"

definition RestoreTableRow :: "env \<Rightarrow> ctx \<Rightarrow> uuid \<Rightarrow> uuid \<Rightarrow> uuid \<Rightarrow> int \<Rightarrow> adb \<Rightarrow> wr_error + Table \<times> adb" where
  "RestoreTableRow e c i org loc version =
     updateTableRow e c i org loc version (\<lambda>t. t\<lparr>t_is_active := True, t_deleted_at := None\<rparr>)"

definition CreateTableOccupancy :: "env \<Rightarrow> ctx \<Rightarrow> uuid \<Rightarrow> uuid \<Rightarrow> uuid \<Rightarrow> adb \<Rightarrow> db_error + TableOccupancy \<times> adb" where
  "CreateTableOccupancy e c tableID org loc s =
     (let r = \<lparr>o_table = tableID, o_org = org, o_loc = loc, o_status = TableStatusAvailable, o_current_session = None,
               o_version = 1, o_updated_by = None, o_updated_at = now e, o_created_at = now e\<rparr>
      in map_sum id (\<lambda>(r', rs). (r', inCore (\<lambda>d. d\<lparr>table_occupancy := rs\<rparr>) s))
           (insertRowFk (\<lambda>x y. o_table x = o_table y)
              (if \<not> visible e c org loc then Some ''42501'' else occupancyCheck r)
              (firstViolation [(tableExists (core (shared s)) tableID org loc, ''23503'')]) r (table_occupancy (core (shared s)))))"


section \<open>Organisations and locations\<close>

definition organisationCheck :: "Organisation \<Rightarrow> string option" where
  "organisationCheck g = firstViolation
     [(g_slug g \<noteq> '''', ''23514''),
      (g_name g \<noteq> '''', ''23514''),
      (g_status g \<in> {''active'', ''disabled''}, ''23514'')]"

text \<open>The WHERE clause pins the slug: an organisation keeps it. The table has no row security.\<close>

definition UpdateOrganisationRow :: "env \<Rightarrow> uuid \<Rightarrow> string \<Rightarrow> string \<Rightarrow> string \<Rightarrow> adb \<Rightarrow> wr_error + Organisation \<times> adb" where
  "UpdateOrganisationRow e i slug name status s =
     map_sum id (\<lambda>(g', gs). (g', inOrganisations gs s))
       (updateKeyed g_id [] (\<lambda>g. g_id g = i \<and> g_slug g = slug) organisationCheck (\<lambda>g. None)
          (\<lambda>g. g\<lparr>g_name := name, g_status := status, g_updated_at := now e\<rparr>) (organisations (shared s)))"

definition locationCheck :: "Location \<Rightarrow> string option" where
  "locationCheck l = firstViolation
     [(l_slug l \<noteq> '''', ''23514''),
      (l_name l \<noteq> '''', ''23514''),
      (l_timezone l \<noteq> '''', ''23514''),
      (l_status l \<in> {''active'', ''disabled''}, ''23514''),
      (jsonb_typeof (l_operating_config l) = ''object'', ''23514''),
      (jsonb_typeof (l_feature_flags l) = ''object'', ''23514'')]"

definition UpdateLocationRow ::
  "env \<Rightarrow> ctx \<Rightarrow> uuid \<Rightarrow> uuid \<Rightarrow> string \<Rightarrow> string \<Rightarrow> string \<Rightarrow> json \<Rightarrow> json \<Rightarrow> adb \<Rightarrow> wr_error + Location \<times> adb" where
  "UpdateLocationRow e c i org name timezone status operatingConfig featureFlags s =
     map_sum id (\<lambda>(l', ls). (l', inCore (\<lambda>d. d\<lparr>locations := ls\<rparr>) s))
       (updateKeyed l_id [] (\<lambda>l. visible e c (l_org l) (l_id l) \<and> l_id l = i \<and> l_org l = org) locationCheck (\<lambda>l. None)
          (\<lambda>l. l\<lparr>l_name := name, l_timezone := timezone, l_status := status, l_operating_config := operatingConfig,
                 l_feature_flags := featureFlags, l_updated_at := now e\<rparr>) (locations (core (shared s))))"

definition ListLocationsByOrganisation :: "env \<Rightarrow> ctx \<Rightarrow> (string \<Rightarrow> int) \<Rightarrow> uuid \<Rightarrow> db \<Rightarrow> Location list" where
  "ListLocationsByOrganisation e c collate org s =
     sort_key (\<lambda>l. collate (l_name l)) (sort_key (\<lambda>l. collate (l_slug l))
       (filter (\<lambda>l. visible e c (l_org l) (l_id l) \<and> l_org l = org) (locations s)))"


section \<open>Listing a layout\<close>

text \<open>\<^verbatim>\<open>ORDER BY\<close> as a sequence of stable sorts, the last column first.\<close>

definition ListAllFloorsByLocation :: "env \<Rightarrow> ctx \<Rightarrow> (string \<Rightarrow> int) \<Rightarrow> uuid \<Rightarrow> uuid \<Rightarrow> adb \<Rightarrow> Floor list" where
  "ListAllFloorsByLocation e c collate org loc s =
     sort_key (\<lambda>f. if f_is_active f then 0 else 1 :: int) (sort_key f_sort_order (sort_key (\<lambda>f. collate (f_name f))
       (filter (\<lambda>f. visible e c (f_org f) (f_loc f) \<and> f_org f = org \<and> f_loc f = loc) (floors s))))"

definition ListAllZonesByLocation :: "env \<Rightarrow> ctx \<Rightarrow> (string \<Rightarrow> int) \<Rightarrow> uuid \<Rightarrow> uuid \<Rightarrow> adb \<Rightarrow> Zone list" where
  "ListAllZonesByLocation e c collate org loc s =
     sort_key (\<lambda>z. if z_is_active z then 0 else 1 :: int) (sort_key z_floor (sort_key z_sort_order (sort_key (\<lambda>z. collate (z_name z))
       (filter (\<lambda>z. visible e c (z_org z) (z_loc z) \<and> z_org z = org \<and> z_loc z = loc) (zones s)))))"

text \<open>
  The LEFT JOIN gives a table without an occupancy row NULLs, which the scan of the row refuses. An occupancy row is
  joined with at most one table, its own.
\<close>

definition tableWithState :: "env \<Rightarrow> ctx \<Rightarrow> db \<Rightarrow> Table \<Rightarrow> (Table \<times> TableOccupancy) option" where
  "tableWithState e c d t =
     map_option (Pair t) (find (\<lambda>r. visible e c (o_org r) (o_loc r) \<and> o_table r = t_id t) (table_occupancy d))"

definition ListTableStatesByLocationIncludingArchived ::
  "env \<Rightarrow> ctx \<Rightarrow> (string \<Rightarrow> int) \<Rightarrow> uuid \<Rightarrow> uuid \<Rightarrow> db \<Rightarrow> db_error + (Table \<times> TableOccupancy) list" where
  "ListTableStatesByLocationIncludingArchived e c collate org loc d =
     (case those (map (tableWithState e c d) (sort_key t_floor (sort_key (\<lambda>t. collate (t_label t))
             (filter (\<lambda>t. visible e c (t_org t) (t_loc t) \<and> t_org t = org \<and> t_loc t = loc) (tables d))))) of
        None \<Rightarrow> Inl (OtherError ''cannot scan NULL'')
      | Some rows \<Rightarrow> Inr rows)"

end
