(* ===== verification/Configuring.thy ===== *)
theory Configuring
  imports Layout Reporting
begin

text \<open>
  The configuration service: \<^verbatim>\<open>internal/domain/configuration/service.go\<close> and \<^verbatim>\<open>errors.go\<close>. Its tenant actor has
  the fields of the one of the identity service. \<open>number\<close> is what a JSON number becomes when \<^verbatim>\<open>encoding/json\<close>
  reads it into a \<^verbatim>\<open>float64\<close> and writes it again (\<open>None\<close>: out of range). The identifier of a new row is \<open>gen e 0\<close>.
\<close>

section \<open>Errors\<close>

datatype cf_error = ErrForbidden | ErrValidation | ErrVersionConflict | ErrNotFound | ErrConflict string

text \<open>\<open>ErrConflict\<close> is \<^verbatim>\<open>ConflictError\<close> with the name of the violated constraint.\<close>

type_synonym 'a cf_body = "(cf_error fail, adb, 'a) body"
type_synonym 'a cf_result = "(cf_error fail + 'a) \<times> adb"

definition uniqueViolationSQLState :: string where "uniqueViolationSQLState = ''23505''"

definition mapConstraintError :: "wr_error \<Rightarrow> cf_error fail option" where
  "mapConstraintError err =
     (case err of
        (PgError state, constraint) \<Rightarrow> (if state \<noteq> uniqueViolationSQLState then None else Some (Err (ErrConflict constraint)))
      | _ \<Rightarrow> None)"

definition wrapWriteError :: "string \<Rightarrow> wr_error \<Rightarrow> cf_error fail" where
  "wrapWriteError site err = (case mapConstraintError err of Some known \<Rightarrow> known | None \<Rightarrow> Wrapped site (fst err))"

definition uniqueConstraintMessage :: "string \<Rightarrow> string" where
  "uniqueConstraintMessage constraint =
     (if constraint = ''zones_floor_id_name_key'' then ''a zone with this name already exists on this floor''
      else if constraint = ''tables_floor_id_label_key'' then ''a table with this label already exists on this floor''
      else if constraint = ''floors_location_id_slug_key'' then ''a floor with this slug already exists''
      else if constraint = ''organisations_slug_key'' then ''an organisation with this slug already exists''
      else if constraint = ''locations_organisation_id_slug_key'' then ''a location with this slug already exists''
      else ''a resource with this unique value already exists'')"

text \<open>A write, its missing row and its violated key.\<close>

definition runWrite :: "env \<Rightarrow> string \<Rightarrow> cf_error option \<Rightarrow> (adb \<Rightarrow> wr_error + 'a \<times> adb) \<Rightarrow> 'a cf_body" where
  "runWrite e site noRows q = (\<lambda>s.
     if fault e site then Inl (wrapWriteError site (ConnFailure, ''''))
     else case q s of
            Inr r \<Rightarrow> Inr r
          | Inl err \<Rightarrow>
              (case (fst err, noRows) of
                 (ErrNoRows, Some sentinel) \<Rightarrow> Inl (Err sentinel)
               | _ \<Rightarrow> Inl (wrapWriteError site err)))"


section \<open>Parameters\<close>

definition PermissionLayoutRead :: string where "PermissionLayoutRead = ''layout.read''"
definition PermissionLayoutWrite :: string where "PermissionLayoutWrite = ''layout.write''"

record OrganisationSnapshot =
  os_Organisation :: Organisation
  os_Locations :: "Location list"

record LayoutSnapshot =
  ls_Floors :: "Floor list"
  ls_Zones :: "Zone list"
  ls_Tables :: "(Table \<times> TableOccupancy) list"

record UpdateOrganisationParams =
  uo_TenantActor :: TenantActor
  uo_ID :: uuid
  uo_Slug :: string
  uo_Name :: string
  uo_Status :: string

record UpdateLocationParams =
  ul_TenantActor :: TenantActor
  ul_ID :: uuid
  ul_Name :: string
  ul_Timezone :: string
  ul_Status :: string
  ul_OperatingConfig :: rawJSON
  ul_FeatureFlags :: rawJSON

record UpsertFloorParams =
  uf_TenantActor :: TenantActor
  uf_ID :: uuid
  uf_Slug :: string
  uf_Name :: string
  uf_SortOrder :: int
  uf_Canvas :: rawJSON
  uf_BackgroundAssetRef :: string
  uf_ExpectedVersion :: int

record UpsertZoneParams =
  uz_TenantActor :: TenantActor
  uz_ID :: uuid
  uz_FloorID :: uuid
  uz_Name :: string
  uz_SortOrder :: int
  uz_ExpectedVersion :: int

record UpsertTableParams =
  ut_TenantActor :: TenantActor
  ut_ID :: uuid
  ut_FloorID :: uuid
  ut_ZoneID :: uuid
  ut_Label :: string
  ut_CapacityLabel :: string
  ut_Shape :: string
  ut_Geometry :: rawJSON
  ut_ExpectedVersion :: int

definition validateConfigActor :: "TenantActor \<Rightarrow> bool \<Rightarrow> cf_error option" where
  "validateConfigActor actor requireLocation =
     (if ta_OrganisationID actor = uuid_Nil \<or> trimSpace (ta_ActorRef actor) = '''' then Some ErrValidation
      else if requireLocation \<and> ta_LocationID actor = uuid_Nil then Some ErrValidation
      else None)"

definition validateFloor :: "UpsertFloorParams \<Rightarrow> cf_error option" where
  "validateFloor arg =
     (case validateConfigActor (uf_TenantActor arg) True of
        Some err \<Rightarrow> Some err
      | None \<Rightarrow>
          if trimSpace (uf_Slug arg) = '''' \<or> trimSpace (uf_Name arg) = '''' \<or> uf_SortOrder arg < 0 then Some ErrValidation
          else None)"

definition validateZone :: "UpsertZoneParams \<Rightarrow> cf_error option" where
  "validateZone arg =
     (case validateConfigActor (uz_TenantActor arg) True of
        Some err \<Rightarrow> Some err
      | None \<Rightarrow>
          if uz_FloorID arg = uuid_Nil \<or> trimSpace (uz_Name arg) = '''' \<or> uz_SortOrder arg < 0 then Some ErrValidation
          else None)"

definition validateTable :: "UpsertTableParams \<Rightarrow> bool \<Rightarrow> cf_error option" where
  "validateTable arg requireExisting =
     (case validateConfigActor (ut_TenantActor arg) True of
        Some err \<Rightarrow> Some err
      | None \<Rightarrow>
          if requireExisting \<and> (ut_ID arg = uuid_Nil \<or> ut_ExpectedVersion arg < 1) then Some ErrValidation
          else if ut_FloorID arg = uuid_Nil \<or> ut_ZoneID arg = uuid_Nil then Some ErrValidation
          else if trimSpace (ut_Label arg) = '''' \<or> trimSpace (ut_CapacityLabel arg) = '''' then Some ErrValidation
          else if ut_Shape arg \<in> {''rectangle'', ''circle'', ''square'', ''custom''} then None
          else Some ErrValidation)"

definition validStatus :: "string \<Rightarrow> bool" where
  "validStatus status \<longleftrightarrow> status = ''active'' \<or> status = ''disabled''"

text \<open>\<^verbatim>\<open>json.Unmarshal\<close> into a map of interfaces and \<^verbatim>\<open>json.Marshal\<close> of it: every number passes through a \<^verbatim>\<open>float64\<close>.\<close>

fun goValue :: "(json \<Rightarrow> json option) \<Rightarrow> json \<Rightarrow> json option"
  and goValues :: "(json \<Rightarrow> json option) \<Rightarrow> json list \<Rightarrow> json list option"
  and goFields :: "(json \<Rightarrow> json option) \<Rightarrow> (string \<times> json) list \<Rightarrow> (string \<times> json) list option" where
  "goValue number (JInt i) = number (JInt i)"
| "goValue number (JFrac s) = number (JFrac s)"
| "goValue number (JArr xs) = map_option JArr (goValues number xs)"
| "goValue number (JObj fs) = map_option JObj (goFields number fs)"
| "goValue number v = Some v"
| "goValues number [] = Some []"
| "goValues number (x # xs) =
     (case goValue number x of None \<Rightarrow> None | Some y \<Rightarrow> map_option (Cons y) (goValues number xs))"
| "goFields number [] = Some []"
| "goFields number ((k, x) # fs) =
     (case goValue number x of None \<Rightarrow> None | Some y \<Rightarrow> map_option (Cons (k, y)) (goFields number fs))"

text \<open>No bytes are an empty object; a JSON null is a nil map, which is written as null.\<close>

fun normalizeJSONObject :: "(json \<Rightarrow> json option) \<Rightarrow> rawJSON \<Rightarrow> cf_error + json" where
  "normalizeJSONObject number NoBytes = Inr (JObj [])"
| "normalizeJSONObject number (Raw JNull) = Inr JNull"
| "normalizeJSONObject number (Raw (JObj fs)) =
     (case goValue number (JObj fs) of None \<Rightarrow> Inl ErrValidation | Some v \<Rightarrow> Inr v)"
| "normalizeJSONObject number raw = Inl ErrValidation"

text \<open>\<^verbatim>\<open>nullableText\<close> of this package trims first.\<close>

definition nullableTrimmed :: "string \<Rightarrow> string option" where
  "nullableTrimmed value = nullableText (trimSpace value)"


section \<open>Transactions and permissions\<close>

definition inConfigTx :: "env \<Rightarrow> TenantActor \<Rightarrow> (ctx \<Rightarrow> 'a cf_body) \<Rightarrow> adb \<Rightarrow> 'a cf_result" where
  "inConfigTx e actor fn s =
     (if fault e ''beginning transaction'' then (Inl (Wrapped ''beginning transaction'' ConnFailure), s)
      else if fault e ''setting tenant context''
      then (Inl (rollback e (Wrapped ''setting tenant context'' ConnFailure)), s)
      else case fn (actorContext (ta_OrganisationID actor) (ta_LocationID actor)) s of
             Inl err \<Rightarrow> (Inl (rollback e err), s)
           | Inr (v, s') \<Rightarrow>
               (case commit e of
                  Committed \<Rightarrow> (Inr v, s')
                | CommitFailed \<Rightarrow> (Inl (Wrapped ''committing transaction'' ConnFailure), s)
                | CommitUnacked \<Rightarrow> (Inl (Wrapped ''committing transaction'' ConnFailure), s')))"

definition requireConfigOrganisation :: "env \<Rightarrow> ctx \<Rightarrow> TenantActor \<Rightarrow> string \<Rightarrow> unit cf_body" where
  "requireConfigOrganisation e c actor permission =
     txBind (runQuery e ''checking organisation permission'' None
               (onShared (\<lambda>s. Inr (ActorHasOrganisationPermission e c (ta_OrganisationID actor) (ta_ActorRef actor) permission s))))
       (\<lambda>allowed. txGuard (\<not> allowed) (Err ErrForbidden) (txReturn ()))"

definition requireConfigLocation :: "env \<Rightarrow> ctx \<Rightarrow> TenantActor \<Rightarrow> string \<Rightarrow> unit cf_body" where
  "requireConfigLocation e c actor permission =
     txBind (runQuery e ''checking location permission'' None
               (onShared (\<lambda>s. Inr (ActorHasLocationPermission e c (ta_OrganisationID actor) (ta_LocationID actor)
                                     (ta_ActorRef actor) permission s))))
       (\<lambda>allowed. txGuard (\<not> allowed) (Err ErrForbidden) (txReturn ()))"

text \<open>A change of one row by an actor who may change the layout.\<close>

definition layoutWrite :: "env \<Rightarrow> TenantActor \<Rightarrow> (ctx \<Rightarrow> 'a cf_body) \<Rightarrow> adb \<Rightarrow> 'a cf_result" where
  "layoutWrite e actor change =
     inConfigTx e actor (\<lambda>c. txBind (requireConfigLocation e c actor PermissionLayoutWrite) (\<lambda>_. change c))"


section \<open>Snapshots\<close>

definition OwnerSnapshot :: "env \<Rightarrow> (string \<Rightarrow> int) \<Rightarrow> TenantActor \<Rightarrow> adb \<Rightarrow> OrganisationSnapshot cf_result" where
  "OwnerSnapshot e collate actor s =
     (case validateConfigActor actor False of
        Some err \<Rightarrow> (Inl (Err err), s)
      | None \<Rightarrow>
          inConfigTx e actor (\<lambda>c.
            txBind (requireConfigOrganisation e c actor PermissionOrganisationManage) (\<lambda>_.
            txBind (runQuery e ''getting organisation'' (Some ErrNotFound)
                      (onShared (GetOrganisation (ta_OrganisationID actor)))) (\<lambda>org.
            txBind (runQuery e ''listing locations'' None
                      (onShared (\<lambda>s. Inr (ListLocationsByOrganisation e c collate (ta_OrganisationID actor) (core s))))) (\<lambda>locations.
            txReturn \<lparr>os_Organisation = org, os_Locations = locations\<rparr>)))) s)"

definition LayoutSnapshotOf :: "env \<Rightarrow> (string \<Rightarrow> int) \<Rightarrow> TenantActor \<Rightarrow> adb \<Rightarrow> LayoutSnapshot cf_result" where
  "LayoutSnapshotOf e collate actor s =
     (case validateConfigActor actor True of
        Some err \<Rightarrow> (Inl (Err err), s)
      | None \<Rightarrow>
          inConfigTx e actor (\<lambda>c.
            txBind (requireConfigLocation e c actor PermissionLayoutRead) (\<lambda>_.
            txBind (runQuery e ''listing floors'' None (reading (\<lambda>s.
                      Inr (ListAllFloorsByLocation e c collate (ta_OrganisationID actor) (ta_LocationID actor) s)))) (\<lambda>floors.
            txBind (runQuery e ''listing zones'' None (reading (\<lambda>s.
                      Inr (ListAllZonesByLocation e c collate (ta_OrganisationID actor) (ta_LocationID actor) s)))) (\<lambda>zones.
            txBind (runQuery e ''listing table states'' None (onShared (\<lambda>s.
                      ListTableStatesByLocationIncludingArchived e c collate (ta_OrganisationID actor) (ta_LocationID actor)
                        (core s)))) (\<lambda>tables.
            txReturn \<lparr>ls_Floors = floors, ls_Zones = zones, ls_Tables = tables\<rparr>))))) s)"


section \<open>Organisation and location\<close>

definition UpdateOrganisation :: "env \<Rightarrow> UpdateOrganisationParams \<Rightarrow> adb \<Rightarrow> Organisation cf_result" where
  "UpdateOrganisation e arg s =
     (case validateConfigActor (uo_TenantActor arg) False of
        Some err \<Rightarrow> (Inl (Err err), s)
      | None \<Rightarrow>
          if uo_ID arg \<noteq> ta_OrganisationID (uo_TenantActor arg) then (Inl (Err ErrNotFound), s)
          else if trimSpace (uo_Slug arg) = '''' \<or> trimSpace (uo_Name arg) = '''' \<or> \<not> validStatus (uo_Status arg)
          then (Inl (Err ErrValidation), s)
          else inConfigTx e (uo_TenantActor arg) (\<lambda>c.
                 txBind (requireConfigOrganisation e c (uo_TenantActor arg) PermissionOrganisationManage) (\<lambda>_.
                 runWrite e ''updating organisation'' (Some ErrNotFound)
                   (UpdateOrganisationRow e (uo_ID arg) (trimSpace (uo_Slug arg)) (trimSpace (uo_Name arg)) (uo_Status arg)))) s)"

definition UpdateLocation :: "env \<Rightarrow> (json \<Rightarrow> json option) \<Rightarrow> UpdateLocationParams \<Rightarrow> adb \<Rightarrow> Location cf_result" where
  "UpdateLocation e number arg s =
     (case validateConfigActor (ul_TenantActor arg) True of
        Some err \<Rightarrow> (Inl (Err err), s)
      | None \<Rightarrow>
          if ul_ID arg \<noteq> ta_LocationID (ul_TenantActor arg) then (Inl (Err ErrNotFound), s)
          else if trimSpace (ul_Name arg) = '''' \<or> trimSpace (ul_Timezone arg) = '''' \<or> \<not> validStatus (ul_Status arg)
          then (Inl (Err ErrValidation), s)
          else (case normalizeJSONObject number (ul_OperatingConfig arg) of
                  Inl err \<Rightarrow> (Inl (Err err), s)
                | Inr operatingConfig \<Rightarrow>
                    (case normalizeJSONObject number (ul_FeatureFlags arg) of
                       Inl err \<Rightarrow> (Inl (Err err), s)
                     | Inr featureFlags \<Rightarrow>
                         inConfigTx e (ul_TenantActor arg) (\<lambda>c.
                           txBind (requireConfigLocation e c (ul_TenantActor arg) PermissionLocationManage) (\<lambda>_.
                           runWrite e ''updating location'' (Some ErrNotFound)
                             (UpdateLocationRow e c (ul_ID arg) (ta_OrganisationID (ul_TenantActor arg)) (trimSpace (ul_Name arg))
                                (trimSpace (ul_Timezone arg)) (ul_Status arg) operatingConfig featureFlags))) s)))"


section \<open>Floors\<close>

definition CreateFloor :: "env \<Rightarrow> (json \<Rightarrow> json option) \<Rightarrow> UpsertFloorParams \<Rightarrow> adb \<Rightarrow> Floor cf_result" where
  "CreateFloor e number arg s =
     (case validateFloor arg of
        Some err \<Rightarrow> (Inl (Err err), s)
      | None \<Rightarrow>
          (case normalizeJSONObject number (uf_Canvas arg) of
             Inl err \<Rightarrow> (Inl (Err err), s)
           | Inr canvas \<Rightarrow>
               layoutWrite e (uf_TenantActor arg) (\<lambda>c.
                 runWrite e ''creating floor'' None
                   (CreateFloorRow e c (gen e 0) (ta_OrganisationID (uf_TenantActor arg)) (ta_LocationID (uf_TenantActor arg))
                      (trimSpace (uf_Slug arg)) (trimSpace (uf_Name arg)) (uf_SortOrder arg) canvas
                      (nullableTrimmed (uf_BackgroundAssetRef arg)))) s))"

definition UpdateFloor :: "env \<Rightarrow> (json \<Rightarrow> json option) \<Rightarrow> UpsertFloorParams \<Rightarrow> adb \<Rightarrow> Floor cf_result" where
  "UpdateFloor e number arg s =
     (if uf_ID arg = uuid_Nil \<or> uf_ExpectedVersion arg < 1 then (Inl (Err ErrValidation), s)
      else case validateFloor arg of
             Some err \<Rightarrow> (Inl (Err err), s)
           | None \<Rightarrow>
               (case normalizeJSONObject number (uf_Canvas arg) of
                  Inl err \<Rightarrow> (Inl (Err err), s)
                | Inr canvas \<Rightarrow>
                    layoutWrite e (uf_TenantActor arg) (\<lambda>c.
                      runWrite e ''updating floor'' (Some ErrVersionConflict)
                        (UpdateFloorRow e c (uf_ID arg) (ta_OrganisationID (uf_TenantActor arg)) (ta_LocationID (uf_TenantActor arg))
                           (trimSpace (uf_Slug arg)) (trimSpace (uf_Name arg)) (uf_SortOrder arg) canvas
                           (nullableTrimmed (uf_BackgroundAssetRef arg)) (uf_ExpectedVersion arg))) s))"

definition changeFloorActive :: "env \<Rightarrow> TenantActor \<Rightarrow> uuid \<Rightarrow> int \<Rightarrow> bool \<Rightarrow> adb \<Rightarrow> Floor cf_result" where
  "changeFloorActive e actor i expectedVersion active s =
     (if validateConfigActor actor True \<noteq> None \<or> i = uuid_Nil \<or> expectedVersion < 1 then (Inl (Err ErrValidation), s)
      else layoutWrite e actor (\<lambda>c.
             runWrite e ''changing floor active state'' (Some ErrVersionConflict)
               (if active then RestoreFloorRow e c i (ta_OrganisationID actor) (ta_LocationID actor) expectedVersion
                else ArchiveFloorRow e c i (ta_OrganisationID actor) (ta_LocationID actor) expectedVersion)) s)"

definition ArchiveFloor :: "env \<Rightarrow> TenantActor \<Rightarrow> uuid \<Rightarrow> int \<Rightarrow> adb \<Rightarrow> Floor cf_result" where
  "ArchiveFloor e actor i expectedVersion = changeFloorActive e actor i expectedVersion False"

definition RestoreFloor :: "env \<Rightarrow> TenantActor \<Rightarrow> uuid \<Rightarrow> int \<Rightarrow> adb \<Rightarrow> Floor cf_result" where
  "RestoreFloor e actor i expectedVersion = changeFloorActive e actor i expectedVersion True"


section \<open>Zones\<close>

definition CreateZone :: "env \<Rightarrow> UpsertZoneParams \<Rightarrow> adb \<Rightarrow> Zone cf_result" where
  "CreateZone e arg s =
     (case validateZone arg of
        Some err \<Rightarrow> (Inl (Err err), s)
      | None \<Rightarrow>
          layoutWrite e (uz_TenantActor arg) (\<lambda>c.
            runWrite e ''creating zone'' None
              (CreateZoneRow e c (gen e 0) (ta_OrganisationID (uz_TenantActor arg)) (ta_LocationID (uz_TenantActor arg))
                 (uz_FloorID arg) (trimSpace (uz_Name arg)) (uz_SortOrder arg))) s)"

definition UpdateZone :: "env \<Rightarrow> UpsertZoneParams \<Rightarrow> adb \<Rightarrow> Zone cf_result" where
  "UpdateZone e arg s =
     (if uz_ID arg = uuid_Nil \<or> uz_ExpectedVersion arg < 1 then (Inl (Err ErrValidation), s)
      else case validateZone arg of
             Some err \<Rightarrow> (Inl (Err err), s)
           | None \<Rightarrow>
               layoutWrite e (uz_TenantActor arg) (\<lambda>c.
                 runWrite e ''updating zone'' (Some ErrVersionConflict)
                   (UpdateZoneRow e c (uz_ID arg) (ta_OrganisationID (uz_TenantActor arg)) (ta_LocationID (uz_TenantActor arg))
                      (uz_FloorID arg) (trimSpace (uz_Name arg)) (uz_SortOrder arg) (uz_ExpectedVersion arg))) s)"

definition ArchiveZone :: "env \<Rightarrow> TenantActor \<Rightarrow> uuid \<Rightarrow> uuid \<Rightarrow> int \<Rightarrow> adb \<Rightarrow> Zone cf_result" where
  "ArchiveZone e actor i floorID expectedVersion s =
     (if validateConfigActor actor True \<noteq> None \<or> i = uuid_Nil \<or> floorID = uuid_Nil \<or> expectedVersion < 1
      then (Inl (Err ErrValidation), s)
      else layoutWrite e actor (\<lambda>c.
             runWrite e ''archiving zone'' (Some ErrVersionConflict)
               (ArchiveZoneRow e c i (ta_OrganisationID actor) (ta_LocationID actor) floorID expectedVersion)) s)"


section \<open>Tables\<close>

definition CreateTable :: "env \<Rightarrow> (json \<Rightarrow> json option) \<Rightarrow> UpsertTableParams \<Rightarrow> adb \<Rightarrow> Table cf_result" where
  "CreateTable e number arg s =
     (case validateTable arg False of
        Some err \<Rightarrow> (Inl (Err err), s)
      | None \<Rightarrow>
          (case normalizeJSONObject number (ut_Geometry arg) of
             Inl err \<Rightarrow> (Inl (Err err), s)
           | Inr geometry \<Rightarrow>
               layoutWrite e (ut_TenantActor arg) (\<lambda>c.
                 txBind (runWrite e ''creating table'' None
                           (CreateTableRow e c (gen e 0) (ta_OrganisationID (ut_TenantActor arg)) (ta_LocationID (ut_TenantActor arg))
                              (ut_FloorID arg) (ut_ZoneID arg) (trimSpace (ut_Label arg)) (trimSpace (ut_CapacityLabel arg))
                              (ut_Shape arg) geometry None)) (\<lambda>table.
                 txBind (runQuery e ''creating table occupancy'' None
                           (CreateTableOccupancy e c (t_id table) (ta_OrganisationID (ut_TenantActor arg))
                              (ta_LocationID (ut_TenantActor arg)))) (\<lambda>_.
                 txReturn table))) s))"

definition UpdateTable :: "env \<Rightarrow> (json \<Rightarrow> json option) \<Rightarrow> UpsertTableParams \<Rightarrow> adb \<Rightarrow> Table cf_result" where
  "UpdateTable e number arg s =
     (case validateTable arg True of
        Some err \<Rightarrow> (Inl (Err err), s)
      | None \<Rightarrow>
          (case normalizeJSONObject number (ut_Geometry arg) of
             Inl err \<Rightarrow> (Inl (Err err), s)
           | Inr geometry \<Rightarrow>
               layoutWrite e (ut_TenantActor arg) (\<lambda>c.
                 runWrite e ''updating table'' (Some ErrVersionConflict)
                   (UpdateTableRow e c (ut_ID arg) (ta_OrganisationID (ut_TenantActor arg)) (ta_LocationID (ut_TenantActor arg))
                      (ut_FloorID arg) (ut_ZoneID arg) (trimSpace (ut_Label arg)) (trimSpace (ut_CapacityLabel arg))
                      (ut_Shape arg) geometry (ut_ExpectedVersion arg))) s))"

definition changeTableActive :: "env \<Rightarrow> TenantActor \<Rightarrow> uuid \<Rightarrow> int \<Rightarrow> bool \<Rightarrow> adb \<Rightarrow> Table cf_result" where
  "changeTableActive e actor i expectedVersion active s =
     (if validateConfigActor actor True \<noteq> None \<or> i = uuid_Nil \<or> expectedVersion < 1 then (Inl (Err ErrValidation), s)
      else layoutWrite e actor (\<lambda>c.
             runWrite e ''changing table active state'' (Some ErrVersionConflict)
               (if active then RestoreTableRow e c i (ta_OrganisationID actor) (ta_LocationID actor) expectedVersion
                else ArchiveTableRow e c i (ta_OrganisationID actor) (ta_LocationID actor) expectedVersion)) s)"

definition ArchiveTable :: "env \<Rightarrow> TenantActor \<Rightarrow> uuid \<Rightarrow> int \<Rightarrow> adb \<Rightarrow> Table cf_result" where
  "ArchiveTable e actor i expectedVersion = changeTableActive e actor i expectedVersion False"

definition RestoreTable :: "env \<Rightarrow> TenantActor \<Rightarrow> uuid \<Rightarrow> int \<Rightarrow> adb \<Rightarrow> Table cf_result" where
  "RestoreTable e actor i expectedVersion = changeTableActive e actor i expectedVersion True"

end
