(* ===== verification/Places.thy ===== *)
theory Places
  imports Configuring Rebuilds
begin

text \<open>
  The plan of a location over time. A table of rows with a version is handled once, in the locale
  \<open>versioned_rows\<close>, and interpreted on floors, zones and tables; every operation of the configuration service is
  then shown to keep the plan sound and its rows on their way. What the operations service and the projector assume
  of the layout is part of it.
\<close>

section \<open>Tables of rows with a version\<close>

definition conflictOf :: "'r unique_keys \<Rightarrow> 'r \<Rightarrow> 'r \<Rightarrow> bool" where
  "conflictOf keys x y \<longleftrightarrow> (\<exists>(name, same) \<in> set keys. same x y)"

lemma violatedKey_None: "violatedKey keys r rs = None \<longleftrightarrow> (\<forall>x \<in> set rs. \<not> conflictOf keys x r)"
  by (auto simp: violatedKey_def conflictOf_def find_None_iff)

lemma constrained_Inr [tx_iffs]: "constrained viol key fk v = Inr w \<longleftrightarrow> viol = None \<and> key = None \<and> fk = None \<and> w = v"
  by (auto simp: constrained_def split: option.splits)

lemma insertKeyed_Inr [tx_iffs]:
  "insertKeyed keys viol fk r rs = Inr (r', rs') \<longleftrightarrow>
     viol = None \<and> fk = None \<and> (\<forall>x \<in> set rs. \<not> conflictOf keys x r) \<and> r' = r \<and> rs' = rs @ [r]"
  by (auto simp: insertKeyed_def constrained_Inr violatedKey_None)

lemma updateKeyed_InrE:
  assumes "updateKeyed key keys P chk fk f rs = Inr (r', rs')"
  obtains r where "r \<in> set rs" and "P r" and "r' = f r" and "chk r' = None" and "fk r' = None"
    and "\<forall>x \<in> set rs. key x \<noteq> key r \<longrightarrow> \<not> conflictOf keys x r'"
    and "rs' = map (\<lambda>x. if P x then f x else x) rs"
  using assms
  by (auto simp: updateKeyed_def constrained_Inr violatedKey_None split: option.splits dest: find_SomeD)

locale versioned_rows = unique_table key "conflictOf keys" + evolution key moves "\<lambda>r. False"
  for key :: "'r \<Rightarrow> uuid" and keys :: "'r unique_keys" and moves :: "'r \<Rightarrow> 'r \<Rightarrow> bool" +
  fixes chk :: "'r \<Rightarrow> string option"
begin

definition sound :: "'r list \<Rightarrow> bool" where
  "sound rs \<longleftrightarrow> uniqueRows (conflictOf keys) rs \<and> (\<forall>r \<in> set rs. chk r = None)"

lemma sound_keys: "sound rs \<Longrightarrow> distinct (map key rs)"
  by (simp add: sound_def unique_keys)

lemma insert_sound:
  assumes "insertKeyed keys viol fk r rs = Inr (r', rs')" and "viol = None \<Longrightarrow> chk r = None" and "sound rs"
  shows "sound rs' \<and> evolves key moves rs rs'"
  using assms conflict_key by (auto simp: insertKeyed_Inr sound_def intro!: unique_insert evolves_insert)

lemma update_sound:
  assumes run: "updateKeyed key keys P chk fk f rs = Inr (r', rs')" and P: "\<And>x. P x \<Longrightarrow> key x = i"
    and f: "\<And>r. P r \<Longrightarrow> moves r (f r)" and ok: "sound rs"
  obtains r where "r \<in> set rs" and "P r" and "key r = i" and "r' = f r" and "fk r' = None"
    and "rs' = map (\<lambda>x. if key x = i then r' else x) rs" and "sound rs'" and "evolves key moves rs rs'"
proof -
  from run obtain r where r: "r \<in> set rs" "P r" "r' = f r" "chk r' = None" "fk r' = None"
    and free: "\<forall>x \<in> set rs. key x \<noteq> key r \<longrightarrow> \<not> conflictOf keys x r'"
    and rs': "rs' = map (\<lambda>x. if P x then f x else x) rs" by (rule updateKeyed_InrE)
  have u: "uniqueRows (conflictOf keys) rs" using ok by (simp add: sound_def)
  have only: "P x \<longleftrightarrow> x = r" if "x \<in> set rs" for x
    using distinct_key_eq [OF unique_keys [OF u] that r(1)] P r(2) by auto
  have key: "key (f r) = key r" using f [OF r(2)] by (rule moves_key)
  have rows: "rs' = map (\<lambda>x. if key x = i then r' else x) rs"
  proof -
    have "(if P x then f x else x) = (if key x = i then r' else x)" if "x \<in> set rs" for x
      using only [OF that] P [OF r(2)] P [of x] r(3) distinct_key_eq [OF unique_keys [OF u] that r(1)] by metis
    then show ?thesis by (simp add: rs')
  qed
  have "uniqueRows (conflictOf keys) rs'"
    unfolding rs' by (rule unique_update [of rs f r P]) (use u key r(1,3) free only in auto)
  then have sound': "sound rs'" using ok r(3,4) only by (auto simp: sound_def rs')
  have "evolves key moves rs rs'"
    unfolding rs' by (rule evolves_map) (use f moves_refl in auto)
  from that [OF r(1,2) P [OF r(2)] r(3,5) rows sound' this] show ?thesis .
qed

end

definition floorMoves :: "Floor \<Rightarrow> Floor \<Rightarrow> bool" where
  "floorMoves f f' \<longleftrightarrow>
     f_id f' = f_id f \<and> f_org f' = f_org f \<and> f_loc f' = f_loc f \<and> f_created_at f' = f_created_at f \<and>
     f_version f \<le> f_version f' \<and> (f_version f' = f_version f \<longrightarrow> f' = f)"

definition zoneMoves :: "Zone \<Rightarrow> Zone \<Rightarrow> bool" where
  "zoneMoves z z' \<longleftrightarrow>
     z_id z' = z_id z \<and> z_org z' = z_org z \<and> z_loc z' = z_loc z \<and> z_floor z' = z_floor z \<and> z_created_at z' = z_created_at z \<and>
     z_version z \<le> z_version z' \<and> (z_version z' = z_version z \<longrightarrow> z' = z)"

definition tableMoves :: "Table \<Rightarrow> Table \<Rightarrow> bool" where
  "tableMoves t t' \<longleftrightarrow>
     t_id t' = t_id t \<and> t_org t' = t_org t \<and> t_loc t' = t_loc t \<and> t_legacy_table_id t' = t_legacy_table_id t \<and>
     t_created_at t' = t_created_at t \<and> t_version t \<le> t_version t' \<and> (t_version t' = t_version t \<longrightarrow> t' = t)"

interpretation floorRows: versioned_rows f_id floorKeys floorMoves floorCheck
  by unfold_locales (auto simp: floorMoves_def floorKeys_def conflictOf_def)

interpretation zoneRows: versioned_rows z_id zoneKeys zoneMoves zoneCheck
  by unfold_locales (auto simp: zoneMoves_def zoneKeys_def conflictOf_def)

interpretation tableRows: versioned_rows t_id tableKeys tableMoves tableCheck
  by unfold_locales (auto simp: tableMoves_def tableKeys_def conflictOf_def, metis+)


section \<open>Sound plans\<close>

text \<open>Every zone is on a floor and every table in a zone of its location, and every table has its occupancy.\<close>

definition linked :: "adb \<Rightarrow> bool" where
  "linked s \<longleftrightarrow>
     (\<forall>f \<in> set (floors s). locationExists (core (shared s)) (f_org f) (f_loc f)) \<and>
     (\<forall>z \<in> set (zones s). floorExists s (z_floor z) (z_org z) (z_loc z)) \<and>
     (\<forall>t \<in> set (tables (core (shared s))). zoneExists s (t_zone t) (t_org t) (t_loc t) (t_floor t)) \<and>
     (\<forall>t \<in> set (tables (core (shared s))).
        \<exists>r \<in> set (table_occupancy (core (shared s))). o_table r = t_id t \<and> o_org r = t_org t \<and> o_loc r = t_loc t)"

definition planOk :: "adb \<Rightarrow> bool" where
  "planOk s \<longleftrightarrow>
     floorRows.sound (floors s) \<and> zoneRows.sound (zones s) \<and> tableRows.sound (tables (core (shared s))) \<and>
     linked s \<and> wf_db (core (shared s))"

definition planMoves :: "adb \<Rightarrow> adb \<Rightarrow> bool" where
  "planMoves s s' \<longleftrightarrow>
     evolves f_id floorMoves (floors s) (floors s') \<and> evolves z_id zoneMoves (zones s) (zones s') \<and>
     evolves t_id tableMoves (tables (core (shared s))) (tables (core (shared s')))"

definition planRel :: "adb \<Rightarrow> adb \<Rightarrow> bool" where
  "planRel s s' \<longleftrightarrow> (planOk s \<longrightarrow> planOk s' \<and> planMoves s s')"

lemma planMoves_refl: "planMoves s s"
  by (simp add: planMoves_def floorRows.evolves_refl zoneRows.evolves_refl tableRows.evolves_refl)

lemma planMoves_trans: "planMoves s1 s2 \<Longrightarrow> planMoves s2 s3 \<Longrightarrow> planMoves s1 s3"
  by (auto simp: planMoves_def intro: floorRows.evolves_trans zoneRows.evolves_trans tableRows.evolves_trans)

text \<open>The transactions of the service carry a preorder from its statements to its operations.\<close>

locale config_order = body_order rel
  for rel :: "adb \<Rightarrow> adb \<Rightarrow> bool"
begin

lemma write_follows: "follows rel q \<Longrightarrow> follows rel (runWrite e site nr q)"
  by (auto intro!: followsI simp: runWrite_def split: if_splits sum.splits option.splits db_error.splits dest: followsD)

lemma inConfigTx_follows: "(\<And>c. follows rel (m c)) \<Longrightarrow> followsTx rel (inConfigTx e actor m)"
  by (auto simp: followsTx_def inConfigTx_def rel_refl split: sum.splits commit_outcome.splits dest: followsD)

lemma require_follows:
  "follows rel (requireConfigLocation e c actor p)" "follows rel (requireConfigOrganisation e c actor p)"
  unfolding requireConfigLocation_def requireConfigOrganisation_def onShared_def
  by (intro bind_follows query_follows reading_follows guard_follows return_follows)+

lemma layoutWrite_follows: "(\<And>c. follows rel (m c)) \<Longrightarrow> followsTx rel (layoutWrite e actor m)"
  unfolding layoutWrite_def by (intro inConfigTx_follows bind_follows require_follows)

lemma sharedQuery_follows: "follows rel (onShared q)"
  unfolding onShared_def by (rule reading_follows)

lemmas config_bodies =
  optionTx_follows sum_follows if_follows const_follows layoutWrite_follows inConfigTx_follows bind_follows require_follows
  write_follows query_follows reading_follows sharedQuery_follows return_follows

end

interpretation plan: config_order planRel
  by unfold_locales (auto simp: planRel_def planMoves_refl intro: planMoves_trans)


section \<open>The plan under changes of one table\<close>

lemma core_inCore [simp]:
  "shared (inCore f s) = (shared s)\<lparr>core := f (core (shared s))\<rparr>" "floors (inCore f s) = floors s" "zones (inCore f s) = zones s"
  "service_periods (inCore f s) = service_periods s"
  by (simp_all add: inCore_def)

lemma moved_row:
  assumes "evolves key moves rs rs'" and "r \<in> set rs"
  obtains r' where "r' \<in> set rs'" and "moves r r'"
  using assms unfolding evolves_def by blast

lemma floorExists_moves:
  assumes "evolves f_id floorMoves (floors s) (floors s')" and "floorExists s i org loc"
  shows "floorExists s' i org loc"
proof -
  from assms(2) obtain f where "f \<in> set (floors s)" "f_id f = i" "f_org f = org" "f_loc f = loc" by (auto simp: floorExists_def)
  moreover from this obtain f' where "f' \<in> set (floors s')" "floorMoves f f'" by (blast intro: moved_row [OF assms(1)])
  ultimately show ?thesis by (auto simp: floorExists_def floorMoves_def intro!: bexI [of _ f'])
qed

lemma zoneExists_moves:
  assumes "evolves z_id zoneMoves (zones s) (zones s')" and "zoneExists s i org loc floorID"
  shows "zoneExists s' i org loc floorID"
proof -
  from assms(2) obtain z where "z \<in> set (zones s)" "z_id z = i" "z_org z = org" "z_loc z = loc" "z_floor z = floorID"
    by (auto simp: zoneExists_def)
  moreover from this obtain z' where "z' \<in> set (zones s')" "zoneMoves z z'" by (blast intro: moved_row [OF assms(1)])
  ultimately show ?thesis by (auto simp: zoneExists_def zoneMoves_def intro!: bexI [of _ z'])
qed

lemma plan_floors:
  assumes "planOk s" and "floorRows.sound fs \<and> evolves f_id floorMoves (floors s) fs"
    and "\<forall>f \<in> set fs. locationExists (core (shared s)) (f_org f) (f_loc f)"
  shows "planOk (s\<lparr>floors := fs\<rparr>) \<and> planMoves s (s\<lparr>floors := fs\<rparr>)"
proof -
  let ?t = "s\<lparr>floors := fs\<rparr>"
  have "floorExists ?t i org loc" if "floorExists s i org loc" for i org loc
    using floorExists_moves [of s ?t] assms(2) that by simp
  moreover have "zoneExists ?t = zoneExists s" by (simp add: zoneExists_def fun_eq_iff)
  ultimately show ?thesis
    using assms by (auto simp: planOk_def linked_def planMoves_def zoneRows.evolves_refl tableRows.evolves_refl)
qed

lemma plan_zones:
  assumes "planOk s" and "zoneRows.sound zs \<and> evolves z_id zoneMoves (zones s) zs"
    and "\<forall>z \<in> set zs. floorExists s (z_floor z) (z_org z) (z_loc z)"
  shows "planOk (s\<lparr>zones := zs\<rparr>) \<and> planMoves s (s\<lparr>zones := zs\<rparr>)"
proof -
  let ?t = "s\<lparr>zones := zs\<rparr>"
  have "zoneExists ?t i org loc fl" if "zoneExists s i org loc fl" for i org loc fl
    using zoneExists_moves [of s ?t] assms(2) that by simp
  moreover have "floorExists ?t = floorExists s" by (simp add: floorExists_def fun_eq_iff)
  ultimately show ?thesis
    using assms by (auto simp: planOk_def linked_def planMoves_def floorRows.evolves_refl tableRows.evolves_refl)
qed

lemma wf_tables:
  assumes wf: "wf_db d" and ts: "tableRows.sound ts" "evolves t_id tableMoves (tables d) ts"
  shows "wf_db (d\<lparr>tables := ts\<rparr>)"
proof -
  have "tableExists (d\<lparr>tables := ts\<rparr>) i org loc" if ex: "tableExists d i org loc" for i org loc
  proof -
    from ex obtain t where "t \<in> set (tables d)" "t_id t = i" "t_org t = org" "t_loc t = loc" by (auto simp: tableExists_def)
    moreover from this obtain t' where "t' \<in> set ts" "tableMoves t t'" by (blast intro: moved_row [OF ts(2)])
    ultimately show ?thesis by (auto simp: tableExists_def tableMoves_def intro!: bexI [of _ t'])
  qed
  then show ?thesis
    using wf tableRows.sound_keys [OF ts(1)] by (auto simp: wf_db_def keys_ok_def checks_ok_def links_ok_def)
qed

lemma wf_occupancy:
  assumes "wf_db d" and "o_table r \<notin> o_table ` set (table_occupancy d)" and "occupancyCheck r = None"
    and "tableExists d (o_table r) (o_org r) (o_loc r)" and "o_current_session r = None"
  shows "wf_db (d\<lparr>table_occupancy := table_occupancy d @ [r]\<rparr>)"
  using assms by (auto simp: wf_db_def keys_ok_def checks_ok_def links_ok_def tableExists_def)

text \<open>What the operations of the service may do to the occupancy of tables: add rows.\<close>

lemma plan_tables:
  assumes ok: "planOk s" and ts: "tableRows.sound ts \<and> evolves t_id tableMoves (tables (core (shared s))) ts"
    and zone: "\<forall>t \<in> set ts. zoneExists s (t_zone t) (t_org t) (t_loc t) (t_floor t)"
    and wf: "wf_db d" and d: "tables d = ts" "locations d = locations (core (shared s))"
    and occ: "\<forall>t \<in> set ts. \<exists>r \<in> set (table_occupancy d). o_table r = t_id t \<and> o_org r = t_org t \<and> o_loc r = t_loc t"
  shows "planOk (inCore (\<lambda>_. d) s) \<and> planMoves s (inCore (\<lambda>_. d) s)"
  using assms
  by (simp add: planOk_def linked_def planMoves_def floorExists_def zoneExists_def locationExists_def
      floorRows.evolves_refl zoneRows.evolves_refl)


section \<open>The statements of the service\<close>

lemma planI:
  assumes "\<And>s v s'. planOk s \<Longrightarrow> m s = Inr (v, s') \<Longrightarrow> planOk s' \<and> planMoves s s'"
  shows "follows planRel m"
  using assms by (auto simp: follows_def planRel_def)

lemma create_floor: "follows planRel (CreateFloorRow e c i org loc slug name sortOrder canvas background)"
proof (rule planI)
  fix s v s'
  assume ok: "planOk s" and run: "CreateFloorRow e c i org loc slug name sortOrder canvas background s = Inr (v, s')"
  from run obtain fs where
    ins: "insertKeyed floorKeys (if \<not> visible e c org loc then Some ''42501'' else floorCheck v)
       (firstViolation [(locationExists (core (shared s)) org loc, ''23503'')]) v (floors s) = Inr (v, fs)"
    and s': "s' = s\<lparr>floors := fs\<rparr>" and v: "f_org v = org" "f_loc v = loc"
    by (auto simp: CreateFloorRow_def Let_def insertKeyed_Inr elim!: map_sum_InrE)
  have "floorRows.sound fs \<and> evolves f_id floorMoves (floors s) fs"
    by (rule floorRows.insert_sound [OF ins]) (use ok in \<open>auto simp: planOk_def split: if_splits\<close>)
  moreover have "\<forall>f \<in> set fs. locationExists (core (shared s)) (f_org f) (f_loc f)"
    using ok ins v by (auto simp: insertKeyed_Inr firstViolation_None planOk_def linked_def)
  ultimately show "planOk s' \<and> planMoves s s'" unfolding s' by (rule plan_floors [OF ok])
qed

lemma update_floor:
  assumes f: "\<And>x. f_id (f x) = f_id x \<and> f_org (f x) = f_org x \<and> f_loc (f x) = f_loc x \<and> f_created_at (f x) = f_created_at x"
  shows "follows planRel (updateFloorRow e c i org loc version f)"
proof (rule planI)
  fix s v s'
  assume ok: "planOk s" and run: "updateFloorRow e c i org loc version f s = Inr (v, s')"
  let ?P = "\<lambda>x. visible e c (f_org x) (f_loc x) \<and> f_id x = i \<and> f_org x = org \<and> f_loc x = loc \<and> f_version x = version"
  let ?f = "\<lambda>x. (f x)\<lparr>f_version := f_version x + 1, f_updated_at := now e\<rparr>"
  from run obtain fs where upd: "updateKeyed f_id floorKeys ?P floorCheck (\<lambda>f. None) ?f (floors s) = Inr (v, fs)"
    and s': "s' = s\<lparr>floors := fs\<rparr>" by (auto simp: updateFloorRow_def elim!: map_sum_InrE)
  obtain r where r: "r \<in> set (floors s)" "v = ?f r" and fs: "fs = map (\<lambda>x. if f_id x = i then v else x) (floors s)"
    and snd: "floorRows.sound fs" "evolves f_id floorMoves (floors s) fs"
    by (rule floorRows.update_sound [OF upd, of i]) (use ok f in \<open>auto simp: planOk_def floorMoves_def\<close>)
  have "\<forall>x \<in> set fs. locationExists (core (shared s)) (f_org x) (f_loc x)"
    using ok r f by (auto simp: fs planOk_def linked_def)
  then show "planOk s' \<and> planMoves s s'" unfolding s' using snd by (intro plan_floors [OF ok]) simp_all
qed

lemma create_zone: "follows planRel (CreateZoneRow e c i org loc floorID name sortOrder)"
proof (rule planI)
  fix s v s'
  assume ok: "planOk s" and run: "CreateZoneRow e c i org loc floorID name sortOrder s = Inr (v, s')"
  from run obtain zs where
    ins: "insertKeyed zoneKeys (if \<not> visible e c org loc then Some ''42501'' else zoneCheck v)
       (firstViolation [(floorExists s floorID org loc, ''23503'')]) v (zones s) = Inr (v, zs)"
    and s': "s' = s\<lparr>zones := zs\<rparr>" and v: "z_org v = org" "z_loc v = loc" "z_floor v = floorID"
    by (auto simp: CreateZoneRow_def Let_def insertKeyed_Inr elim!: map_sum_InrE)
  have "zoneRows.sound zs \<and> evolves z_id zoneMoves (zones s) zs"
    by (rule zoneRows.insert_sound [OF ins]) (use ok in \<open>auto simp: planOk_def split: if_splits\<close>)
  moreover have "\<forall>z \<in> set zs. floorExists s (z_floor z) (z_org z) (z_loc z)"
    using ok ins v by (auto simp: insertKeyed_Inr firstViolation_None planOk_def linked_def)
  ultimately show "planOk s' \<and> planMoves s s'" unfolding s' by (rule plan_zones [OF ok])
qed

lemma update_zone:
  assumes f: "\<And>x. z_id (f x) = z_id x \<and> z_org (f x) = z_org x \<and> z_loc (f x) = z_loc x \<and> z_floor (f x) = z_floor x \<and>
      z_created_at (f x) = z_created_at x"
  shows "follows planRel (updateZoneRow e c i org loc floorID version f)"
proof (rule planI)
  fix s v s'
  assume ok: "planOk s" and run: "updateZoneRow e c i org loc floorID version f s = Inr (v, s')"
  let ?P = "\<lambda>x. visible e c (z_org x) (z_loc x) \<and> z_id x = i \<and> z_org x = org \<and> z_loc x = loc \<and> z_floor x = floorID \<and> z_version x = version"
  let ?f = "\<lambda>x. (f x)\<lparr>z_version := z_version x + 1, z_updated_at := now e\<rparr>"
  from run obtain zs where upd: "updateKeyed z_id zoneKeys ?P zoneCheck (\<lambda>z. None) ?f (zones s) = Inr (v, zs)"
    and s': "s' = s\<lparr>zones := zs\<rparr>" by (auto simp: updateZoneRow_def elim!: map_sum_InrE)
  obtain r where r: "r \<in> set (zones s)" "v = ?f r" and zs: "zs = map (\<lambda>x. if z_id x = i then v else x) (zones s)"
    and snd: "zoneRows.sound zs" "evolves z_id zoneMoves (zones s) zs"
    by (rule zoneRows.update_sound [OF upd, of i]) (use ok f in \<open>auto simp: planOk_def zoneMoves_def\<close>)
  have "\<forall>x \<in> set zs. floorExists s (z_floor x) (z_org x) (z_loc x)"
    using ok r f by (auto simp: zs planOk_def linked_def)
  then show "planOk s' \<and> planMoves s s'" unfolding s' using snd by (intro plan_zones [OF ok]) simp_all
qed

lemma inCore_const: "inCore f s = inCore (\<lambda>_. f (core (shared s))) s"
  by (simp add: inCore_def)

lemma update_table:
  assumes f: "\<And>x. t_id (f x) = t_id x \<and> t_org (f x) = t_org x \<and> t_loc (f x) = t_loc x \<and>
      t_legacy_table_id (f x) = t_legacy_table_id x \<and> t_created_at (f x) = t_created_at x"
  shows "follows planRel (updateTableRow e c i org loc version f)"
proof (rule planI)
  fix s v s'
  assume ok: "planOk s" and run: "updateTableRow e c i org loc version f s = Inr (v, s')"
  let ?ts = "tables (core (shared s))"
  let ?P = "\<lambda>x. visible e c (t_org x) (t_loc x) \<and> t_id x = i \<and> t_org x = org \<and> t_loc x = loc \<and> t_version x = version"
  let ?f = "\<lambda>x. (f x)\<lparr>t_version := t_version x + 1, t_updated_at := now e\<rparr>"
  let ?fk = "\<lambda>t. firstViolation [(zoneExists s (t_zone t) (t_org t) (t_loc t) (t_floor t), ''23503'')]"
  from run obtain ts where upd: "updateKeyed t_id tableKeys ?P tableCheck ?fk ?f ?ts = Inr (v, ts)"
    and s': "s' = inCore (\<lambda>d. d\<lparr>tables := ts\<rparr>) s" by (auto simp: updateTableRow_def elim!: map_sum_InrE)
  obtain r where r: "r \<in> set ?ts" "v = ?f r" "t_id r = i" "?fk v = None"
    and ts: "ts = map (\<lambda>x. if t_id x = i then v else x) ?ts"
    and snd: "tableRows.sound ts" "evolves t_id tableMoves ?ts ts"
    by (rule tableRows.update_sound [OF upd, of i]) (use ok f in \<open>auto simp: planOk_def tableMoves_def\<close>)
  have "\<forall>x \<in> set ts. zoneExists s (t_zone x) (t_org x) (t_loc x) (t_floor x)"
    using ok r by (auto simp: ts planOk_def linked_def firstViolation_None)
  moreover have "\<forall>x \<in> set ts. \<exists>q \<in> set (table_occupancy (core (shared s))). o_table q = t_id x \<and> o_org q = t_org x \<and> o_loc q = t_loc x"
    using ok r(1,2) f by (auto simp: ts planOk_def linked_def)
  moreover have "wf_db ((core (shared s))\<lparr>tables := ts\<rparr>)" by (rule wf_tables) (use ok snd in \<open>simp_all add: planOk_def\<close>)
  ultimately show "planOk s' \<and> planMoves s s'"
    unfolding s' inCore_const [of "\<lambda>d. d\<lparr>tables := ts\<rparr>"] using snd by (intro plan_tables [OF ok, of ts]) simp_all
qed

text \<open>A new table and its occupancy come together.\<close>

lemma create_table:
  "follows planRel (txBind (runWrite e site nr (CreateTableRow e c i org loc floorID zoneID label capacity shape geometry legacy)) (\<lambda>t.
     txBind (runQuery e site' nr' (CreateTableOccupancy e c (t_id t) org loc)) (\<lambda>_. txReturn t)))"
proof (rule planI)
  fix s :: adb and v s'
  let ?ts = "tables (core (shared s))" and ?os = "table_occupancy (core (shared s))"
  assume ok: "planOk s" and run: "txBind (runWrite e site nr (CreateTableRow e c i org loc floorID zoneID label capacity shape geometry legacy)) (\<lambda>t.
     txBind (runQuery e site' nr' (CreateTableOccupancy e c (t_id t) org loc)) (\<lambda>_. txReturn t)) s = Inr (v, s')"
  from run obtain s1 r where t: "CreateTableRow e c i org loc floorID zoneID label capacity shape geometry legacy s = Inr (v, s1)"
    and o: "CreateTableOccupancy e c (t_id v) org loc s1 = Inr (r, s')"
    by (auto simp: tx_iffs runWrite_def split: if_splits sum.splits option.splits db_error.splits)
  from t have ins: "insertKeyed tableKeys (if \<not> visible e c org loc then Some ''42501'' else tableCheck v)
       (firstViolation [(zoneExists s zoneID org loc floorID, ''23503'')]) v ?ts = Inr (v, ?ts @ [v])"
    and s1: "s1 = inCore (\<lambda>d. d\<lparr>tables := ?ts @ [v]\<rparr>) s"
    and v: "t_org v = org" "t_loc v = loc" "t_zone v = zoneID" "t_floor v = floorID"
    by (auto simp: CreateTableRow_def Let_def insertKeyed_Inr elim!: map_sum_InrE split: if_splits)
  have snd: "tableRows.sound (?ts @ [v]) \<and> evolves t_id tableMoves ?ts (?ts @ [v])"
    by (rule tableRows.insert_sound [OF ins]) (use ok in \<open>auto simp: planOk_def split: if_splits\<close>)
  have wf1: "wf_db ((core (shared s))\<lparr>tables := ?ts @ [v]\<rparr>)" by (rule wf_tables) (use ok snd in \<open>simp_all add: planOk_def\<close>)
  from o have r: "o_table r = t_id v" "o_org r = org" "o_loc r = loc" "o_current_session r = None" "occupancyCheck r = None"
      "o_table r \<notin> o_table ` set ?os"
    and s': "s' = inCore (\<lambda>_. (core (shared s))\<lparr>tables := ?ts @ [v], table_occupancy := ?os @ [r]\<rparr>) s"
    by (auto simp: CreateTableOccupancy_def Let_def insertRowFk_Inr s1 inCore_def elim!: map_sum_InrE split: if_splits)
  have "wf_db ((core (shared s))\<lparr>tables := ?ts @ [v], table_occupancy := ?os @ [r]\<rparr>)"
    using wf_occupancy [OF wf1, of r] r v by (auto simp: tableExists_def)
  moreover have "\<forall>t \<in> set (?ts @ [v]). zoneExists s (t_zone t) (t_org t) (t_loc t) (t_floor t)"
    using ok ins v by (auto simp: insertKeyed_Inr firstViolation_None planOk_def linked_def)
  moreover have "\<forall>t \<in> set (?ts @ [v]). \<exists>q \<in> set (?os @ [r]). o_table q = t_id t \<and> o_org q = t_org t \<and> o_loc q = t_loc t"
    using ok r v by (auto simp: planOk_def linked_def)
  ultimately show "planOk s' \<and> planMoves s s'"
    unfolding s' by (intro plan_tables [OF ok snd]) simp_all
qed


lemma update_location: "follows planRel (UpdateLocationRow e c i org name timezone status config flags)"
proof (rule planI)
  fix s :: adb and v s'
  assume ok: "planOk s" and run: "UpdateLocationRow e c i org name timezone status config flags s = Inr (v, s')"
  let ?ls = "locations (core (shared s))"
  let ?P = "\<lambda>l. visible e c (l_org l) (l_id l) \<and> l_id l = i \<and> l_org l = org"
  let ?g = "\<lambda>l. l\<lparr>l_name := name, l_timezone := timezone, l_status := status, l_operating_config := config,
    l_feature_flags := flags, l_updated_at := now e\<rparr>"
  from run have s': "s' = inCore (\<lambda>_. (core (shared s))\<lparr>locations := map (\<lambda>x. if ?P x then ?g x else x) ?ls\<rparr>) s"
    unfolding UpdateLocationRow_def by (auto simp: inCore_def elim!: map_sum_InrE updateKeyed_InrE)
  let ?d = "(core (shared s))\<lparr>locations := map (\<lambda>x. if ?P x then ?g x else x) ?ls\<rparr>"
  have keys: "locationExists d org loc \<longleftrightarrow> (loc, org) \<in> set (map (\<lambda>l. (l_id l, l_org l)) (locations d))" for d org loc
    by (auto simp: locationExists_def)
  have "map (\<lambda>l. (l_id l, l_org l)) (locations ?d) = map (\<lambda>l. (l_id l, l_org l)) ?ls"
    by (simp add: map_key_cong [of "\<lambda>l. (l_id l, l_org l)" ?g ?P ?ls])
  then have "locationExists ?d org loc = locationExists (core (shared s)) org loc" for org loc
    unfolding keys by (rule arg_cong)
  moreover have "wf_db ?d" using ok by (simp add: planOk_def wf_db_def keys_ok_def checks_ok_def links_ok_def tableExists_def)
  ultimately show "planOk s' \<and> planMoves s s'"
    using ok by (auto simp: s' planOk_def linked_def planMoves_def floorExists_def zoneExists_def
        floorRows.evolves_refl zoneRows.evolves_refl tableRows.evolves_refl)
qed

lemma update_organisation: "follows planRel (UpdateOrganisationRow e i slug name status)"
  by (rule planI)
    (auto simp: UpdateOrganisationRow_def inOrganisations_def planOk_def linked_def planMoves_def floorExists_def zoneExists_def
      floorRows.evolves_refl zoneRows.evolves_refl tableRows.evolves_refl elim!: map_sum_InrE)

lemma change_rows:
  "follows planRel (if b then RestoreFloorRow e c i org loc v else ArchiveFloorRow e c i org loc v)"
  "follows planRel (if b then RestoreTableRow e c i org loc v else ArchiveTableRow e c i org loc v)"
  "follows planRel (UpdateFloorRow e c i org loc slug name sortOrder canvas background v)"
  "follows planRel (UpdateZoneRow e c i org loc fid name sortOrder v)"
  "follows planRel (ArchiveZoneRow e c i org loc fid v)"
  "follows planRel (UpdateTableRow e c i org loc fid zid label capacity shape geometry v)"
  by (cases b;
      simp add: RestoreFloorRow_def ArchiveFloorRow_def RestoreTableRow_def ArchiveTableRow_def UpdateFloorRow_def
        UpdateZoneRow_def ArchiveZoneRow_def UpdateTableRow_def update_floor update_zone update_table)+

lemmas config_statements =
  change_rows create_floor create_zone create_table update_location update_organisation plan.config_bodies

text \<open>Every operation of the service keeps the plan.\<close>

lemma config_operations:
  "followsTx planRel (OwnerSnapshot e collate actor)" "followsTx planRel (LayoutSnapshotOf e collate actor)"
  "followsTx planRel (UpdateOrganisation e og)" "followsTx planRel (UpdateLocation e number lo)"
  "followsTx planRel (CreateFloor e number fo)" "followsTx planRel (UpdateFloor e number fo)"
  "followsTx planRel (ArchiveFloor e actor i v)" "followsTx planRel (RestoreFloor e actor i v)"
  "followsTx planRel (CreateZone e zo)" "followsTx planRel (UpdateZone e zo)" "followsTx planRel (ArchiveZone e actor i j v)"
  "followsTx planRel (CreateTable e number ta)" "followsTx planRel (UpdateTable e number ta)"
  "followsTx planRel (ArchiveTable e actor i v)" "followsTx planRel (RestoreTable e actor i v)"
  unfolding OwnerSnapshot_def LayoutSnapshotOf_def UpdateOrganisation_def UpdateLocation_def CreateFloor_def UpdateFloor_def
    ArchiveFloor_def RestoreFloor_def changeFloorActive_def CreateZone_def UpdateZone_def ArchiveZone_def CreateTable_def
    UpdateTable_def ArchiveTable_def RestoreTable_def changeTableActive_def
  by (intro config_statements)+

end
