(* ===== verification/Venue.thy ===== *)
theory Venue
  imports Places Periods
begin

text \<open>
  The location as a whole: the configuration service changes its plan, the operations service seats guests at its
  tables and the analytics service plans and projects its days, all on one database and in any order. A step of the
  venue is one operation of one of the three; what each of them assumes of the tables of the others always holds.
\<close>

section \<open>Steps of the venue\<close>

inductive config_step :: "adb \<Rightarrow> adb \<Rightarrow> bool" where
  owner_snapshot: "config_step s (snd (OwnerSnapshot e collate actor s))"
| layout_snapshot: "config_step s (snd (LayoutSnapshotOf e collate actor s))"
| organisation: "config_step s (snd (UpdateOrganisation e og s))"
| location: "config_step s (snd (UpdateLocation e number lo s))"
| create_floor: "config_step s (snd (CreateFloor e number fo s))"
| update_floor: "config_step s (snd (UpdateFloor e number fo s))"
| archive_floor: "config_step s (snd (ArchiveFloor e actor i v s))"
| restore_floor: "config_step s (snd (RestoreFloor e actor i v s))"
| create_zone: "config_step s (snd (CreateZone e zo s))"
| update_zone: "config_step s (snd (UpdateZone e zo s))"
| archive_zone: "config_step s (snd (ArchiveZone e actor i j v s))"
| create_table: "config_step s (snd (CreateTable e number ta s))"
| update_table: "config_step s (snd (UpdateTable e number ta s))"
| archive_table: "config_step s (snd (ArchiveTable e actor i v s))"
| restore_table: "config_step s (snd (RestoreTable e actor i v s))"

inductive venue_step :: "adb \<Rightarrow> adb \<Rightarrow> bool" where
  configured: "config_step s s' \<Longrightarrow> venue_step s s'"
| operated: "op_step (core (shared s)) d \<Longrightarrow> venue_step s (inCore (\<lambda>_. d) s)"
| period_created: "venue_step s (snd (CreateServicePeriod e actor input s))"
| period_updated: "venue_step s (snd (UpdateServicePeriod e actor i input s))"
| period_archived: "venue_step s (snd (ArchiveServicePeriod e actor i v s))"
| rebuilt: "venue_step s (snd (Rebuild turns e1 e2 e3 e4 F collate load Error arg s))"
| projected: "venue_step s (snd (Handle turns e F collate load event s))"

lemma config_step_rel: "config_step s s' \<Longrightarrow> planRel s s'"
  by (induction rule: config_step.induct) (simp_all add: config_operations [unfolded followsTx_def])

text \<open>What the operations service leaves alone: the tables, the locations, and where the tables have their occupancy.\<close>

definition homes :: "db \<Rightarrow> Table list \<times> Location list \<times> (uuid \<times> uuid \<times> uuid) list" where
  "homes d = (tables d, locations d, map (\<lambda>r. (o_table r, o_org r, o_loc r)) (table_occupancy d))"

lemma homes_set_seat:
  assumes "keys_ok s" and "q \<in> set (table_occupancy s)" and "o_table q = t" and "o_table r = t" "o_org r = o_org q" "o_loc r = o_loc q"
  shows "homes (set_seat s t r) = homes s"
proof -
  have "distinct (map o_table (table_occupancy s))" using assms(1) by (simp add: keys_ok_def)
  then have only: "x = q" if "x \<in> set (table_occupancy s)" "o_table x = t" for x
    by (rule distinct_key_eq [OF _ that(1) assms(2)]) (simp add: that(2) assms(3))
  have "(let y = if o_table x = t then r else x in (o_table y, o_org y, o_loc y)) = (o_table x, o_org x, o_loc x)"
    if "x \<in> set (table_occupancy s)" for x
    using only [OF that] assms(4-6) by (cases "o_table x = t") (simp_all add: Let_def)
  then have "map (\<lambda>x. let y = if o_table x = t then r else x in (o_table y, o_org y, o_loc y)) (table_occupancy s) =
      map (\<lambda>x. (o_table x, o_org x, o_loc x)) (table_occupancy s)"
    by (intro map_cong refl)
  then show ?thesis by (simp add: homes_def set_seat_def comp_def Let_def)
qed

lemma homes_other [simp]:
  "homes (s\<lparr>table_sessions := xs\<rparr>) = homes s" "homes (s\<lparr>assist_requests := as\<rparr>) = homes s"
  "homes (s\<lparr>api_idempotency_records := is\<rparr>) = homes s" "homes (s\<lparr>table_qr_capabilities := qs\<rparr>) = homes s"
  "homes (with_event e ev s) = homes s"
  by (simp_all add: homes_def with_event_def)

lemma row_step_homes: "row_step s s' \<Longrightarrow> keys_ok s \<Longrightarrow> homes s' = homes s"
proof (induction rule: row_step.induct)
  case (occupied e oarg c s res s')
  then show ?case
  proof (rule occupyTableInTx_InrE)
    fix r
    assume "r \<in> set (table_occupancy s)" "o_table r = op_TableID oarg" "o_org r = op_OrganisationID oarg" "o_loc r = op_LocationID oarg"
      and "r_Occupancy res = r\<lparr>o_status := TableStatusOccupied, o_current_session := Some (gen e 0),
           o_version := op_ExpectedVersion oarg + 1, o_updated_by := nullableText (op_ActorRef oarg), o_updated_at := now e\<rparr>"
      and "s' = set_seat (s\<lparr>table_sessions := table_sessions s @ [r_Session res]\<rparr>) (op_TableID oarg) (r_Occupancy res)"
    then show ?thesis
      using occupied(2) homes_set_seat [of s r] by (simp add: homes_def set_seat_def)
  qed
next
  case (cleared e carg c s res s')
  then show ?case
  proof (rule clearTableInTx_InrE)
    fix r x
    assume "r \<in> set (table_occupancy s)" "o_table r = cl_TableID carg" "o_org r = cl_OrganisationID carg" "o_loc r = cl_LocationID carg"
      and "r_Occupancy res = r\<lparr>o_status := TableStatusAvailable, o_current_session := None,
           o_version := cl_ExpectedVersion carg + 1, o_updated_by := nullableText (cl_ActorRef carg), o_updated_at := now e\<rparr>"
      and "s' = set_seat (s\<lparr>table_sessions := map (\<lambda>y. if s_id y = s_id x then r_Session res else y) (table_sessions s)\<rparr>)
                (cl_TableID carg) (r_Occupancy res)"
    then show ?thesis
      using cleared(2) homes_set_seat [of s r] by (simp add: homes_def set_seat_def)
  qed
next
  case (changed e aarg status c s r s')
  from assist_update_step [OF this] show ?case by auto
next
  case (created e c i org loc t si rb src nt s r s')
  then show ?case using CreateAssistRequest_Inr by fastforce
next
  case (guest_created e q key s r s')
  from createGuestInTx_rows [OF guest_created(1)] show ?case using CreateAssistRequest_Inr by fastforce
next
  case (guest_cancelled e q i c s r s')
  from guest_cancel_step [OF this] show ?case by auto
qed simp_all

lemma row_steps_homes: "row_step\<^sup>*\<^sup>* s s' \<Longrightarrow> wf_db s \<Longrightarrow> homes s' = homes s"
proof (induction rule: rtranclp_induct)
  case (step y z)
  then show ?case using row_step_homes [OF step(2)] row_steps_wf [OF step(1)] wf_keys by metis
qed simp

lemma homes_eq: "homes d = homes d' \<Longrightarrow> tables d = tables d' \<and> locations d = locations d' \<and>
   (\<forall>r \<in> set (table_occupancy d'). \<exists>q \<in> set (table_occupancy d). o_table q = o_table r \<and> o_org q = o_org r \<and> o_loc q = o_loc r)"
  by (auto simp: homes_def image_iff dest!: arg_cong [of "map _ _" _ set] set_mp [OF equalityD2]) blast

lemma operated_rel:
  assumes "op_step (core (shared s)) d"
  shows "planRel s (inCore (\<lambda>_. d) s)"
  unfolding planRel_def
proof
  assume ok: "planOk s"
  then have wf: "wf_db (core (shared s))" by (simp add: planOk_def)
  have steps: "row_step\<^sup>*\<^sup>* (core (shared s)) d" using op_step_rows [OF assms] .
  note h = homes_eq [OF row_steps_homes [OF steps wf]]
  have occ: "\<exists>q \<in> set (table_occupancy d). o_table q = t_id t \<and> o_org q = t_org t \<and> o_loc q = t_loc t"
    if "t \<in> set (tables (core (shared s)))" for t
  proof -
    from ok that obtain r where "r \<in> set (table_occupancy (core (shared s)))" "o_table r = t_id t" "o_org r = t_org t" "o_loc r = t_loc t"
      unfolding planOk_def linked_def by blast
    then show ?thesis using h by fastforce
  qed
  show "planOk (inCore (\<lambda>_. d) s) \<and> planMoves s (inCore (\<lambda>_. d) s)"
    by (rule plan_tables [OF ok, of "tables (core (shared s))"])
      (use ok h occ row_steps_wf [OF steps wf] tableRows.evolves_refl in \<open>auto simp: planOk_def linked_def\<close>)
qed


text \<open>The analytics service leaves the plan and the operational tables alone.\<close>

definition placeRel :: "adb \<Rightarrow> adb \<Rightarrow> bool" where
  "placeRel s s' \<longleftrightarrow> shared s' = shared s \<and> floors s' = floors s \<and> zones s' = zones s"

interpretation place: analytics_order placeRel
  by unfold_locales (auto simp: placeRel_def)

lemma place_plan: "placeRel s s' \<Longrightarrow> planRel s s'"
  by (simp add: placeRel_def planRel_def planOk_def linked_def planMoves_def floorExists_def zoneExists_def
      floorRows.evolves_refl zoneRows.evolves_refl tableRows.evolves_refl)

lemma frame_place: "frameRel s s' \<Longrightarrow> placeRel s s'"
proof -
  assume "frameRel s s'"
  then have "s' = s\<lparr>metrics := metrics s', checkpoints := checkpoints s'\<rparr>" by (simp add: frameRel_def)
  then show "placeRel s s'" unfolding placeRel_def by (metis adb.ext_inject adb.surjective adb.update_convs(5,6))
qed

lemma place_statements:
  "follows placeRel (insertRebuildRun e c i actor a b)"
  "follows placeRel (\<lambda>s. map_sum id (\<lambda>(r, rs). (r, s\<lparr>rebuild_runs := rs\<rparr>)) (q s))"
  "follows placeRel (CreateServicePeriodRow e c i org loc name days start stop)"
  "follows placeRel (updatePeriod e c i org loc version f)"
  by (auto intro!: followsI simp: placeRel_def CreateServicePeriodRow_def updatePeriod_def Let_def
      dest!: insertRebuildRun_Inr elim!: map_sum_InrE)

lemma place_bodies:
  "follows placeRel (requireManage e c actor)" "follows placeRel (createRebuildRun e c actor from to)"
  "follows placeRel (finishRebuildRun e c i status days msg)"
  unfolding requireManage_def requirePermission_def createRebuildRun_def finishRebuildRun_def
  by (intro place_statements keeps_intros)+

lemma place_tx:
  "(\<And>c. follows placeRel (fn c)) \<Longrightarrow> inAnalyticsTx e actor fn s = (r, s') \<Longrightarrow> placeRel s s'"
  using inAnalyticsTx_follows [OF place.body_order_axioms, of fn s e actor] by simp

lemma place_operations:
  "followsTx placeRel (CreateServicePeriod e actor input)" "followsTx placeRel (UpdateServicePeriod e actor i input)"
  "followsTx placeRel (ArchiveServicePeriod e actor i v)" "followsTx placeRel (Rebuild turns e1 e2 e3 e4 F collate load Error arg)"
  "followsTx placeRel (Handle turns e F collate load event)"
proof -
  have tx: "followsTx placeRel (inAnalyticsTx e actor m)" if "\<And>c. follows placeRel (m c)" for e actor and m :: "ctx \<Rightarrow> 'a an_body"
    using inAnalyticsTx_follows [OF place.body_order_axioms that] by (simp add: followsTx_def)
  show "followsTx placeRel (CreateServicePeriod e actor input)" "followsTx placeRel (UpdateServicePeriod e actor i input)"
    "followsTx placeRel (ArchiveServicePeriod e actor i v)"
    unfolding CreateServicePeriod_def UpdateServicePeriod_def ArchiveServicePeriod_def UpdateServicePeriodRow_def ArchiveServicePeriodRow_def
    by (intro place.if_follows place.optionTx_follows place.prodTx_follows place.const_follows tx place.bind_follows place_bodies
        place.query_follows place_statements)+
  have range: "follows placeRel (uncounted (rebuildRange turns e3 c F collate load org loc from to))" for c org loc "from" to
    by (intro place.uncounted_follows follows_mono [OF frame_rebuildRange] frame_place)
  note txs = place_tx [OF place_bodies(1)] place_tx [OF place_bodies(2)] place_tx [OF place_bodies(3)] place_tx [OF range]
  show "followsTx placeRel (Rebuild turns e1 e2 e3 e4 F collate load Error arg)"
    by (auto simp: followsTx_def Rebuild_def Let_def split: prod.splits sum.splits dest!: txs intro: place.rel_refl place.rel_trans)
  have "follows placeRel (handleInTx turns e admin_context F collate load event)"
    unfolding handleInTx_def getLocation_def loadZone_def upsertCheckpoint_def Let_def
    by (intro keeps_intros place.uncounted_follows follows_mono [OF frame_rebuildRange] follows_mono [OF frame_upsertRow] frame_place)
  then show "followsTx placeRel (Handle turns e F collate load event)"
    by (auto simp: followsTx_def Handle_def place.rel_refl split: sum.splits commit_outcome.splits dest: followsD)
qed

lemma venue_step_plan: "venue_step s s' \<Longrightarrow> planRel s s'"
proof (induction rule: venue_step.induct)
  case (operated s d)
  then show ?case by (rule operated_rel)
qed (simp_all add: config_step_rel place_plan place_operations [unfolded followsTx_def])

text \<open>To the analytics service a step of the others is a change elsewhere.\<close>

definition elsewhereRel :: "adb \<Rightarrow> adb \<Rightarrow> bool" where
  "elsewhereRel s s' \<longleftrightarrow> s' = s\<lparr>shared := shared s', floors := floors s', zones := zones s'\<rparr>"

interpretation other: config_order elsewhereRel
proof
  show "elsewhereRel s s" for s by (simp add: elsewhereRel_def)
  show "elsewhereRel s1 s3" if "elsewhereRel s1 s2" "elsewhereRel s2 s3" for s1 s2 s3
  proof -
    have "s2 = s1\<lparr>shared := shared s2, floors := floors s2, zones := zones s2\<rparr>"
      "s3 = s2\<lparr>shared := shared s3, floors := floors s3, zones := zones s3\<rparr>" using that by (simp_all add: elsewhereRel_def)
    then have "s3 = s1\<lparr>shared := shared s2, floors := floors s2, zones := zones s2\<rparr>\<lparr>shared := shared s3, floors := floors s3, zones := zones s3\<rparr>"
      by metis
    then show ?thesis by (simp add: elsewhereRel_def)
  qed
qed

lemma other_statements:
  "follows elsewhereRel (updateFloorRow e c i org loc v f)" "follows elsewhereRel (updateZoneRow e c i org loc j v g)"
  "follows elsewhereRel (updateTableRow e c i org loc v h)"
  "follows elsewhereRel (CreateFloorRow e c i org loc slug name sortOrder canvas background)"
  "follows elsewhereRel (CreateZoneRow e c i org loc j name sortOrder)"
  "follows elsewhereRel (CreateTableRow e c i org loc j k label capacity shape geometry legacy)"
  "follows elsewhereRel (CreateTableOccupancy e c i org loc)"
  "follows elsewhereRel (UpdateLocationRow e c i org name timezone status config flags)"
  "follows elsewhereRel (UpdateOrganisationRow e i slug name status)"
  by (auto intro!: followsI simp: elsewhereRel_def updateFloorRow_def updateZoneRow_def updateTableRow_def CreateFloorRow_def
      CreateZoneRow_def CreateTableRow_def CreateTableOccupancy_def UpdateLocationRow_def UpdateOrganisationRow_def inCore_def
      inOrganisations_def Let_def elim!: map_sum_InrE)

lemma other_choice: "follows elsewhereRel m \<Longrightarrow> follows elsewhereRel m' \<Longrightarrow> follows elsewhereRel (if b then m else m')"
  by simp

lemma other_operations: "config_step s s' \<Longrightarrow> elsewhereRel s s'"
proof -
  note defs = OwnerSnapshot_def LayoutSnapshotOf_def UpdateOrganisation_def UpdateLocation_def CreateFloor_def UpdateFloor_def
    ArchiveFloor_def RestoreFloor_def changeFloorActive_def CreateZone_def UpdateZone_def ArchiveZone_def CreateTable_def
    UpdateTable_def ArchiveTable_def RestoreTable_def changeTableActive_def UpdateFloorRow_def ArchiveFloorRow_def RestoreFloorRow_def
    UpdateZoneRow_def ArchiveZoneRow_def UpdateTableRow_def ArchiveTableRow_def RestoreTableRow_def
  note rules = other.config_bodies other_statements other_choice
  have "followsTx elsewhereRel (OwnerSnapshot e collate actor)" "followsTx elsewhereRel (LayoutSnapshotOf e collate actor)"
    "followsTx elsewhereRel (UpdateOrganisation e og)" "followsTx elsewhereRel (UpdateLocation e number lo)"
    "followsTx elsewhereRel (CreateFloor e number fo)" "followsTx elsewhereRel (UpdateFloor e number fo)"
    "followsTx elsewhereRel (ArchiveFloor e actor i v)" "followsTx elsewhereRel (RestoreFloor e actor i v)"
    "followsTx elsewhereRel (CreateZone e zo)" "followsTx elsewhereRel (UpdateZone e zo)" "followsTx elsewhereRel (ArchiveZone e actor i j v)"
    "followsTx elsewhereRel (CreateTable e number ta)" "followsTx elsewhereRel (UpdateTable e number ta)"
    "followsTx elsewhereRel (ArchiveTable e actor i v)" "followsTx elsewhereRel (RestoreTable e actor i v)"
    for e collate actor og number lo fo zo ta i j v
    unfolding defs by (intro rules)+
  note ops = this [unfolded followsTx_def]
  show "config_step s s' \<Longrightarrow> elsewhereRel s s'" by (induction rule: config_step.induct) (simp_all add: ops)
qed

lemma venue_step_analytics: "venue_step s s' \<Longrightarrow> analytics_step s s'"
proof (induction rule: venue_step.induct)
  case (configured s s')
  then have "s' = s\<lparr>shared := shared s', floors := floors s', zones := zones s'\<rparr>" using other_operations by (simp add: elsewhereRel_def)
  then show ?case using analytics_step.elsewhere [where s = s and d = "shared s'" and fs = "floors s'" and zs = "zones s'"] by simp
next
  case (operated s d)
  then show ?case
    using analytics_step.elsewhere [where s = s and d = "(shared s)\<lparr>core := d\<rparr>" and fs = "floors s" and zs = "zones s"] by (simp add: inCore_def)
qed (rule analytics_step.create analytics_step.update analytics_step.archive analytics_step.rebuild analytics_step.handle,
    rule surjective_pairing)+

lemma venue_steps_rel: "venue_step\<^sup>*\<^sup>* s s' \<Longrightarrow> planRel s s' \<and> analytics_step\<^sup>*\<^sup>* s s'"
proof (induction rule: rtranclp_induct)
  case (step y z)
  then show ?case using plan.rel_trans venue_step_plan venue_step_analytics rtranclp.rtrancl_into_rtrancl by metis
qed (simp add: plan.rel_refl)

end
