(* ===== verification/Layouts.thy ===== *)
theory Layouts
  imports Venue SampleDay
begin

text \<open>
  What clients of the configuration service rely on: the integrity of the venue under all three services, one winner
  per version of a floor, a zone or a table, restoring what was archived, changes only by those who may make them and
  only at their location, and duplicates reported by name.
\<close>

section \<open>A sample venue\<close>

definition sampleVenue :: adb where
  "sampleVenue = sampleAdb\<lparr>shared := samplePlan\<lparr>role_permissions :=
     [(''owner'', ''layout.write''), (''owner'', ''layout.read''), (''owner'', ''location.manage'')]\<rparr>\<rparr>"

definition sampleNumber :: "json \<Rightarrow> json option" where
  "sampleNumber = Some"

definition sampleNewTable :: "string \<Rightarrow> UpsertTableParams" where
  "sampleNewTable label =
     \<lparr>ut_TenantActor = sampleOwner, ut_ID = 3, ut_FloorID = 4, ut_ZoneID = 5, ut_Label = label, ut_CapacityLabel = ''2'',
      ut_Shape = ''circle'', ut_Geometry = Raw (JObj [(''x'', JInt 1)]), ut_ExpectedVersion = 1\<rparr>"

lemmas venue_samples =
  sampleVenue_def sampleAdb_def samplePlan_def sampleNewTable_def sampleNumber_def sampleOwner_def sample_defs sampleDinner_def

lemma sampleVenue_ok: "planOk sampleVenue" "periodsOk (service_periods sampleVenue)"
proof -
  have "core (shared sampleVenue) = sampleDb" by (simp add: venue_samples)
  then have "wf_db (core (shared sampleVenue))" by (simp add: sample_wf)
  then show "planOk sampleVenue"
    by (simp add: planOk_def floorRows.sound_def zoneRows.sound_def tableRows.sound_def uniqueRows_def linked_def locationExists_def
        floorExists_def zoneExists_def floorCheck_def zoneCheck_def tableCheck_def firstViolation_None maxInt32_def venue_samples)
  show "periodsOk (service_periods sampleVenue)"
    by (simp add: periodsOk_def periodCheck_def clockOk_def firstViolation_None maxInt32_def venue_samples)
qed


section \<open>Integrity\<close>

lemma planOk_layoutOk: "planOk s \<Longrightarrow> periodsOk (service_periods s) \<Longrightarrow> layoutOk s"
  by (auto simp: planOk_def linked_def layoutOk_def zoneExists_def floorExists_def periodsOk_def clockOk_def
      dest: tableRows.sound_keys)

text \<open>
  C36. Whatever the configuration, operations and analytics services do at a venue, in any order and under any faults:
  the plan stays sound (keys, slugs, names and labels unique, every zone on a floor of its location, every table in a
  zone of its floor and with its own occupancy, geometries objects), the tables the operations service works on stay
  consistent (a table is occupied exactly when its current session is open), and the layout is always one that the
  projector can project. No floor, zone or table is ever lost or moved to another location.
\<close>
theorem venue_integrity:
  assumes "planOk s" and "periodsOk (service_periods s)" and "venue_step\<^sup>*\<^sup>* s s'"
  shows "planOk s' \<and> seats_consistent (core (shared s')) \<and> layoutOk s' \<and>
    (\<forall>f \<in> set (floors s). \<exists>f' \<in> set (floors s'). f_id f' = f_id f \<and> f_loc f' = f_loc f) \<and>
    (\<forall>z \<in> set (zones s). \<exists>z' \<in> set (zones s'). z_id z' = z_id z \<and> z_loc z' = z_loc z \<and> z_floor z' = z_floor z) \<and>
    (\<forall>t \<in> set (tables (core (shared s))). \<exists>t' \<in> set (tables (core (shared s'))). t_id t' = t_id t \<and> t_loc t' = t_loc t)"
proof -
  note rel = venue_steps_rel [OF assms(3)]
  have ok: "planOk s'" and moves: "planMoves s s'" using rel assms(1) by (simp_all add: planRel_def)
  have "periodsOk (service_periods s')" using analytics_steps_rel [OF conjunct2 [OF rel]] assms(2) by (simp add: periodRel_def)
  then have "layoutOk s'" using ok by (rule planOk_layoutOk [rotated])
  moreover have "seats_consistent (core (shared s'))" using ok by (intro wf_seats_consistent) (simp add: planOk_def)
  moreover have "\<exists>f' \<in> set (floors s'). floorMoves f f'" if "f \<in> set (floors s)" for f
    using moves that by (simp add: planMoves_def evolves_def)
  moreover have "\<exists>z' \<in> set (zones s'). zoneMoves z z'" if "z \<in> set (zones s)" for z
    using moves that by (simp add: planMoves_def evolves_def)
  moreover have "\<exists>t' \<in> set (tables (core (shared s'))). tableMoves t t'" if "t \<in> set (tables (core (shared s)))" for t
    using moves that by (simp add: planMoves_def evolves_def)
  ultimately show ?thesis using ok unfolding floorMoves_def zoneMoves_def tableMoves_def by meson
qed


definition sampleExtended :: adb where
  "sampleExtended = snd (CreateTable sampleEnv sampleNumber (sampleNewTable ''T2'') sampleVenue)"

definition sampleParty :: adb where
  "sampleParty = inCore (\<lambda>_. snd (OccupyTableCommand sampleEnv (sampleOccupy\<lparr>op_TableID := 100\<rparr>) None (core (shared sampleExtended))))
     sampleExtended"

lemma sampleParty_steps: "venue_step\<^sup>*\<^sup>* sampleVenue sampleParty"
proof -
  have "venue_step sampleVenue sampleExtended"
    unfolding sampleExtended_def by (rule venue_step.configured, rule config_step.create_table)
  moreover have "venue_step sampleExtended sampleParty"
    unfolding sampleParty_def by (rule venue_step.operated, rule op_step.occupy)
  ultimately show ?thesis by (meson converse_rtranclp_into_rtranclp rtranclp.rtrancl_refl)
qed

text \<open>Witness of C36: a second table is set up, and guests are seated at it.\<close>
theorem venue_integrity_witness: "planOk sampleParty \<and> seats_consistent (core (shared sampleParty)) \<and> layoutOk sampleParty"
  using venue_integrity [OF sampleVenue_ok sampleParty_steps] by blast


section \<open>What a successful change does\<close>

context versioned_rows
begin

lemma find_row: "sound rs \<Longrightarrow> r \<in> set rs \<Longrightarrow> key r = i \<Longrightarrow> find (\<lambda>x. key x = i) rs = Some r"
  by (rule find_distinct_key [where k = key]) (simp_all add: sound_keys)

lemma find_moves:
  assumes "evolves key moves rs rs'" and "sound rs'" and "find (\<lambda>x. key x = i) rs = Some r"
  shows "\<exists>r'. find (\<lambda>x. key x = i) rs' = Some r' \<and> moves r r'"
proof -
  from assms(3) have r: "r \<in> set rs" "key r = i" by (auto dest: find_SomeD)
  from assms(1) r(1) obtain r' where "r' \<in> set rs'" "moves r r'" unfolding evolves_def by blast
  then show ?thesis using find_row [OF assms(2)] moves_key r(2) by metis
qed

lemma update_found:
  assumes run: "updateKeyed key keys P chk fk f rs = Inr (r', rs')" and P: "\<And>x. P x \<Longrightarrow> key x = i"
    and f: "\<And>r. P r \<Longrightarrow> moves r (f r)" and ok: "sound rs"
  obtains r where "find (\<lambda>x. key x = i) rs = Some r" and "P r" and "r' = f r" and "find (\<lambda>x. key x = i) rs' = Some r'"
proof -
  obtain r where r: "r \<in> set rs" "P r" "key r = i" "r' = f r" and rs': "rs' = map (\<lambda>x. if key x = i then r' else x) rs" "sound rs'"
    by (rule update_sound [OF run P f ok])
  have "key r' = i" using moves_key [OF f [OF r(2)]] r(3,4) by simp
  moreover have "r' \<in> set rs'" unfolding rs'(1) using r(1,3) by (auto intro!: image_eqI [of _ _ r])
  ultimately show ?thesis using that find_row [OF ok r(1,3)] find_row [OF rs'(2)] r by blast
qed

end

lemma runWrite_Inr [tx_iffs]: "runWrite e site nr q s = Inr r \<longleftrightarrow> \<not> fault e site \<and> q s = Inr r"
  by (auto simp: runWrite_def split: sum.splits db_error.splits option.splits)

lemma inConfigTx_Inr:
  "inConfigTx e actor fn s = (Inr v, s') \<Longrightarrow> fn (actorContext (ta_OrganisationID actor) (ta_LocationID actor)) s = Inr (v, s')"
  by (auto simp: inConfigTx_def split: if_splits sum.splits commit_outcome.splits)

text \<open>The actor's own context, and whether the actor may change the layout of the location.\<close>

abbreviation actorCtx :: "TenantActor \<Rightarrow> ctx" where
  "actorCtx actor \<equiv> actorContext (ta_OrganisationID actor) (ta_LocationID actor)"

definition mayChangeLayout :: "env \<Rightarrow> TenantActor \<Rightarrow> adb \<Rightarrow> bool" where
  "mayChangeLayout e actor s \<longleftrightarrow>
     ActorHasLocationPermission e (actorCtx actor) (ta_OrganisationID actor) (ta_LocationID actor) (ta_ActorRef actor)
       PermissionLayoutWrite (shared s)"

lemma layoutWrite_Inr:
  "layoutWrite e actor change s = (Inr v, s') \<Longrightarrow> change (actorCtx actor) s = Inr (v, s') \<and> mayChangeLayout e actor s"
  unfolding layoutWrite_def mayChangeLayout_def
  by (drule inConfigTx_Inr) (auto simp: requireConfigLocation_def onShared_def tx_iffs)

text \<open>Every change of a row, as the statement it comes down to.\<close>

lemma floor_changes:
  "UpdateFloor e number fo s = (Inr f, s') \<Longrightarrow>
     \<exists>canvas. UpdateFloorRow e (actorCtx (uf_TenantActor fo)) (uf_ID fo) (ta_OrganisationID (uf_TenantActor fo)) (ta_LocationID (uf_TenantActor fo))
       (trimSpace (uf_Slug fo)) (trimSpace (uf_Name fo)) (uf_SortOrder fo) canvas (nullableTrimmed (uf_BackgroundAssetRef fo))
       (uf_ExpectedVersion fo) s = Inr (f, s')"
  "ArchiveFloor e actor i v s = (Inr f, s') \<Longrightarrow>
     ArchiveFloorRow e (actorCtx actor) i (ta_OrganisationID actor) (ta_LocationID actor) v s = Inr (f, s')"
  "RestoreFloor e actor i v s = (Inr f, s') \<Longrightarrow>
     RestoreFloorRow e (actorCtx actor) i (ta_OrganisationID actor) (ta_LocationID actor) v s = Inr (f, s')"
  by (auto simp: UpdateFloor_def ArchiveFloor_def RestoreFloor_def changeFloorActive_def runWrite_Inr
      split: if_splits option.splits sum.splits dest!: layoutWrite_Inr)

lemma zone_changes:
  "UpdateZone e zo s = (Inr z, s') \<Longrightarrow>
     UpdateZoneRow e (actorCtx (uz_TenantActor zo)) (uz_ID zo) (ta_OrganisationID (uz_TenantActor zo)) (ta_LocationID (uz_TenantActor zo))
       (uz_FloorID zo) (trimSpace (uz_Name zo)) (uz_SortOrder zo) (uz_ExpectedVersion zo) s = Inr (z, s')"
  "ArchiveZone e actor i j v s = (Inr z, s') \<Longrightarrow>
     ArchiveZoneRow e (actorCtx actor) i (ta_OrganisationID actor) (ta_LocationID actor) j v s = Inr (z, s')"
  by (auto simp: UpdateZone_def ArchiveZone_def runWrite_Inr split: if_splits option.splits sum.splits dest!: layoutWrite_Inr)

lemma table_changes:
  "UpdateTable e number ta s = (Inr t, s') \<Longrightarrow>
     \<exists>geometry. UpdateTableRow e (actorCtx (ut_TenantActor ta)) (ut_ID ta) (ta_OrganisationID (ut_TenantActor ta)) (ta_LocationID (ut_TenantActor ta))
       (ut_FloorID ta) (ut_ZoneID ta) (trimSpace (ut_Label ta)) (trimSpace (ut_CapacityLabel ta)) (ut_Shape ta) geometry
       (ut_ExpectedVersion ta) s = Inr (t, s')"
  "ArchiveTable e actor i v s = (Inr t, s') \<Longrightarrow>
     ArchiveTableRow e (actorCtx actor) i (ta_OrganisationID actor) (ta_LocationID actor) v s = Inr (t, s')"
  "RestoreTable e actor i v s = (Inr t, s') \<Longrightarrow>
     RestoreTableRow e (actorCtx actor) i (ta_OrganisationID actor) (ta_LocationID actor) v s = Inr (t, s')"
  by (auto simp: UpdateTable_def ArchiveTable_def RestoreTable_def changeTableActive_def runWrite_Inr
      split: if_splits option.splits sum.splits dest!: layoutWrite_Inr)


section \<open>One winner per version\<close>

datatype layout_entity = AFloor uuid | AZone uuid | ATable uuid

fun layoutVersion :: "layout_entity \<Rightarrow> adb \<Rightarrow> int option" where
  "layoutVersion (AFloor i) s = map_option f_version (find (\<lambda>f. f_id f = i) (floors s))"
| "layoutVersion (AZone i) s = map_option z_version (find (\<lambda>z. z_id z = i) (zones s))"
| "layoutVersion (ATable i) s = map_option t_version (find (\<lambda>t. t_id t = i) (tables (core (shared s))))"

text \<open>A change that names the version it expects and succeeds.\<close>

inductive layoutWins :: "layout_entity \<Rightarrow> int \<Rightarrow> adb \<Rightarrow> adb \<Rightarrow> bool" where
  "UpdateFloor e number fo s = (Inr f, s') \<Longrightarrow> layoutWins (AFloor (uf_ID fo)) (uf_ExpectedVersion fo) s s'"
| "ArchiveFloor e actor i v s = (Inr f, s') \<Longrightarrow> layoutWins (AFloor i) v s s'"
| "RestoreFloor e actor i v s = (Inr f, s') \<Longrightarrow> layoutWins (AFloor i) v s s'"
| "UpdateZone e zo s = (Inr z, s') \<Longrightarrow> layoutWins (AZone (uz_ID zo)) (uz_ExpectedVersion zo) s s'"
| "ArchiveZone e actor i j v s = (Inr z, s') \<Longrightarrow> layoutWins (AZone i) v s s'"
| "UpdateTable e number ta s = (Inr t, s') \<Longrightarrow> layoutWins (ATable (ut_ID ta)) (ut_ExpectedVersion ta) s s'"
| "ArchiveTable e actor i v s = (Inr t, s') \<Longrightarrow> layoutWins (ATable i) v s s'"
| "RestoreTable e actor i v s = (Inr t, s') \<Longrightarrow> layoutWins (ATable i) v s s'"

lemma updateFloorRow_found:
  assumes run: "updateFloorRow e c i org loc version f s = Inr (v, s')" and ok: "planOk s"
    and f: "\<And>x. f_id (f x) = f_id x \<and> f_org (f x) = f_org x \<and> f_loc (f x) = f_loc x \<and> f_created_at (f x) = f_created_at x"
  obtains r where "find (\<lambda>x. f_id x = i) (floors s) = Some r" and "f_org r = org" and "f_loc r = loc" and "f_version r = version"
    and "v = (f r)\<lparr>f_version := version + 1, f_updated_at := now e\<rparr>" and "find (\<lambda>x. f_id x = i) (floors s') = Some v"
proof -
  let ?P = "\<lambda>x. visible e c (f_org x) (f_loc x) \<and> f_id x = i \<and> f_org x = org \<and> f_loc x = loc \<and> f_version x = version"
  let ?f = "\<lambda>x. (f x)\<lparr>f_version := f_version x + 1, f_updated_at := now e\<rparr>"
  from run obtain fs where upd: "updateKeyed f_id floorKeys ?P floorCheck (\<lambda>f. None) ?f (floors s) = Inr (v, fs)"
    and s': "s' = s\<lparr>floors := fs\<rparr>" by (auto simp: updateFloorRow_def elim!: map_sum_InrE)
  have moves: "floorMoves x (?f x)" for x using f [of x] by (simp add: floorMoves_def)
  have snd: "floorRows.sound (floors s)" using ok by (simp add: planOk_def)
  have key: "f_id x = i" if "?P x" for x using that by blast
  obtain r where "find (\<lambda>x. f_id x = i) (floors s) = Some r" "?P r" "v = ?f r" "find (\<lambda>x. f_id x = i) fs = Some v"
    by (rule floorRows.update_found [OF upd key moves snd])
  then show ?thesis using that s' by simp
qed

lemma updateZoneRow_found:
  assumes run: "updateZoneRow e c i org loc floorID version f s = Inr (v, s')" and ok: "planOk s"
    and f: "\<And>x. z_id (f x) = z_id x \<and> z_org (f x) = z_org x \<and> z_loc (f x) = z_loc x \<and> z_floor (f x) = z_floor x \<and>
      z_created_at (f x) = z_created_at x"
  obtains r where "find (\<lambda>x. z_id x = i) (zones s) = Some r" and "z_org r = org" and "z_loc r = loc" and "z_version r = version"
    and "v = (f r)\<lparr>z_version := version + 1, z_updated_at := now e\<rparr>" and "find (\<lambda>x. z_id x = i) (zones s') = Some v"
proof -
  let ?P = "\<lambda>x. visible e c (z_org x) (z_loc x) \<and> z_id x = i \<and> z_org x = org \<and> z_loc x = loc \<and> z_floor x = floorID \<and> z_version x = version"
  let ?f = "\<lambda>x. (f x)\<lparr>z_version := z_version x + 1, z_updated_at := now e\<rparr>"
  from run obtain zs where upd: "updateKeyed z_id zoneKeys ?P zoneCheck (\<lambda>z. None) ?f (zones s) = Inr (v, zs)"
    and s': "s' = s\<lparr>zones := zs\<rparr>" by (auto simp: updateZoneRow_def elim!: map_sum_InrE)
  have moves: "zoneMoves x (?f x)" for x using f [of x] by (simp add: zoneMoves_def)
  have snd: "zoneRows.sound (zones s)" using ok by (simp add: planOk_def)
  have key: "z_id x = i" if "?P x" for x using that by blast
  obtain r where "find (\<lambda>x. z_id x = i) (zones s) = Some r" "?P r" "v = ?f r" "find (\<lambda>x. z_id x = i) zs = Some v"
    by (rule zoneRows.update_found [OF upd key moves snd])
  then show ?thesis using that s' by simp
qed

lemma updateTableRow_found:
  assumes run: "updateTableRow e c i org loc version f s = Inr (v, s')" and ok: "planOk s"
    and f: "\<And>x. t_id (f x) = t_id x \<and> t_org (f x) = t_org x \<and> t_loc (f x) = t_loc x \<and>
      t_legacy_table_id (f x) = t_legacy_table_id x \<and> t_created_at (f x) = t_created_at x"
  obtains r where "find (\<lambda>x. t_id x = i) (tables (core (shared s))) = Some r" and "t_org r = org" and "t_loc r = loc"
    and "t_version r = version" and "v = (f r)\<lparr>t_version := version + 1, t_updated_at := now e\<rparr>"
    and "find (\<lambda>x. t_id x = i) (tables (core (shared s'))) = Some v"
proof -
  let ?P = "\<lambda>x. visible e c (t_org x) (t_loc x) \<and> t_id x = i \<and> t_org x = org \<and> t_loc x = loc \<and> t_version x = version"
  let ?f = "\<lambda>x. (f x)\<lparr>t_version := t_version x + 1, t_updated_at := now e\<rparr>"
  from run obtain ts fk where upd: "updateKeyed t_id tableKeys ?P tableCheck fk ?f (tables (core (shared s))) = Inr (v, ts)"
    and s': "s' = inCore (\<lambda>d. d\<lparr>tables := ts\<rparr>) s" by (auto simp: updateTableRow_def elim!: map_sum_InrE)
  have moves: "tableMoves x (?f x)" for x using f [of x] by (simp add: tableMoves_def)
  have snd: "tableRows.sound (tables (core (shared s)))" using ok by (simp add: planOk_def)
  have key: "t_id x = i" if "?P x" for x using that by blast
  obtain r where "find (\<lambda>x. t_id x = i) (tables (core (shared s))) = Some r" "?P r" "v = ?f r" "find (\<lambda>x. t_id x = i) ts = Some v"
    by (rule tableRows.update_found [OF upd key moves snd])
  then show ?thesis using that s' by simp
qed

lemmas layout_row_changes =
  UpdateFloorRow_def ArchiveFloorRow_def RestoreFloorRow_def UpdateZoneRow_def ArchiveZoneRow_def
  UpdateTableRow_def ArchiveTableRow_def RestoreTableRow_def

lemma layoutWins_version:
  assumes "layoutWins x v s s'" and ok: "planOk s"
  shows "layoutVersion x s = Some v \<and> layoutVersion x s' = Some (v + 1)"
  using assms(1) ok
proof (induction rule: layoutWins.induct)
qed (auto simp: layout_row_changes dest!: floor_changes zone_changes table_changes
      elim!: updateFloorRow_found updateZoneRow_found updateTableRow_found)


lemma layoutVersion_mono:
  assumes "planOk s" and "venue_step s s'" and "layoutVersion x s = Some v"
  shows "\<exists>v'. layoutVersion x s' = Some v' \<and> v \<le> v'"
proof -
  have ok: "planOk s'" and moves: "planMoves s s'" using venue_step_plan [OF assms(2)] assms(1) by (simp_all add: planRel_def)
  show ?thesis
  proof (cases x)
    case (AFloor i)
    then obtain f where f: "find (\<lambda>f. f_id f = i) (floors s) = Some f" "f_version f = v" using assms(3) by auto
    then show ?thesis
      using floorRows.find_moves [of "floors s" "floors s'" i f] ok moves AFloor by (auto simp: planOk_def planMoves_def floorMoves_def)
  next
    case (AZone i)
    then obtain z where z: "find (\<lambda>z. z_id z = i) (zones s) = Some z" "z_version z = v" using assms(3) by auto
    then show ?thesis
      using zoneRows.find_moves [of "zones s" "zones s'" i z] ok moves AZone by (auto simp: planOk_def planMoves_def zoneMoves_def)
  next
    case (ATable i)
    then obtain t where t: "find (\<lambda>t. t_id t = i) (tables (core (shared s))) = Some t" "t_version t = v" using assms(3) by auto
    then show ?thesis
      using tableRows.find_moves [of "tables (core (shared s))" "tables (core (shared s'))" i t] ok moves ATable
      by (auto simp: planOk_def planMoves_def tableMoves_def)
  qed
qed

lemma layoutWins_step: "layoutWins x v s s' \<Longrightarrow> venue_step s s'"
proof (induction rule: layoutWins.induct)
qed (rule venue_step.configured, metis config_step.intros snd_conv)+

interpretation layoutLock: versioned planOk venue_step "layoutVersion x" "layoutWins x" for x
proof (unfold_locales, goal_cases)
  case (1 s s')
  then show ?case using venue_step_plan by (simp add: planRel_def)
next
  case (2 s s' v)
  then show ?case by (rule layoutVersion_mono)
next
  case (3 v s s')
  then show ?case by (rule layoutWins_step)
next
  case (4 s v s')
  then show ?case using layoutWins_version by blast
qed

text \<open>
  C37. Optimistic locking of the layout: of the updates, archivals and restorations of a floor, a zone or a table that
  expect one version of it, at most one ever succeeds, and afterwards none that expects an earlier version does,
  whatever the three services do meanwhile.
\<close>
theorem one_winner_per_layout_version:
  assumes "planOk s" and "layoutWins x v s s1" and "venue_step\<^sup>*\<^sup>* s1 s2" and "w \<le> v"
  shows "\<not> layoutWins x w s2 s3"
  using layoutLock.one_winner assms by blast

definition sampleClosed :: adb where
  "sampleClosed = snd (ArchiveTable sampleEnv sampleOwner 3 1 sampleVenue)"

lemma sampleClosed_wins: "layoutWins (ATable 3) 1 sampleVenue sampleClosed"
proof -
  have "case fst (ArchiveTable sampleEnv sampleOwner 3 1 sampleVenue) of Inr t \<Rightarrow> True | Inl err \<Rightarrow> False" by code_simp
  then obtain t where "fst (ArchiveTable sampleEnv sampleOwner 3 1 sampleVenue) = Inr t" by (auto split: sum.splits)
  then have "ArchiveTable sampleEnv sampleOwner 3 1 sampleVenue = (Inr t, sampleClosed)"
    by (simp add: sampleClosed_def prod_eq_iff)
  then show ?thesis by (rule layoutWins.intros(7))
qed

text \<open>Witness of C37: the sample table is archived at its version 1, which nobody can change again.\<close>
theorem one_winner_per_layout_version_witness:
  "\<forall>s. \<not> layoutWins (ATable 3) 1 sampleClosed s"
  using one_winner_per_layout_version [OF sampleVenue_ok(1) sampleClosed_wins rtranclp.rtrancl_refl order_refl] by blast


section \<open>Restoring a table\<close>

lemma visible_actorCtx [simp]: "visible e (actorContext org loc) org loc"
  by (simp add: visible_def seatd_has_location_access_def actorContext_def nullableUUID_def)

lemma mayChangeLayout_inCore [simp]: "mayChangeLayout e actor (inCore f s) = mayChangeLayout e actor s"
  by (simp add: mayChangeLayout_def ActorHasLocationPermission_def memberPermission_def inCore_def)

lemma layoutWrite_succeeds:
  assumes "healthy e" and "mayChangeLayout e actor s" and "change (actorCtx actor) s = Inr (v, s')"
  shows "layoutWrite e actor change s = (Inr v, s')"
  using assms
  by (simp add: layoutWrite_def inConfigTx_def healthy_def requireConfigLocation_def onShared_def mayChangeLayout_def reading_def txBind_def
      runQuery_def)

text \<open>An update that keeps the keys and the place of a table goes through when the new row is one the table admits.\<close>

lemma updateTableRow_succeeds:
  assumes ok: "planOk s" and r: "find (\<lambda>x. t_id x = i) (tables (core (shared s))) = Some r" and vis: "visible e c (t_org r) (t_loc r)"
    and f: "t_id (f r) = t_id r \<and> t_org (f r) = t_org r \<and> t_loc (f r) = t_loc r \<and> t_floor (f r) = t_floor r \<and> t_zone (f r) = t_zone r \<and>
      t_label (f r) = t_label r \<and> t_legacy_table_id (f r) = t_legacy_table_id r"
    and chk: "tableCheck ((f r)\<lparr>t_version := t_version r + 1, t_updated_at := now e\<rparr>) = None"
  shows "updateTableRow e c i (t_org r) (t_loc r) (t_version r) f s =
    Inr ((f r)\<lparr>t_version := t_version r + 1, t_updated_at := now e\<rparr>,
      inCore (\<lambda>d. d\<lparr>tables := map (\<lambda>x. if t_id x = i then (f r)\<lparr>t_version := t_version r + 1, t_updated_at := now e\<rparr> else x)
        (tables (core (shared s)))\<rparr>) s)"
proof -
  let ?ts = "tables (core (shared s))" and ?g = "\<lambda>x. (f x)\<lparr>t_version := t_version x + 1, t_updated_at := now e\<rparr>"
  let ?P = "\<lambda>x. visible e c (t_org x) (t_loc x) \<and> t_id x = i \<and> t_org x = t_org r \<and> t_loc x = t_loc r \<and> t_version x = t_version r"
  have mem: "r \<in> set ?ts" "t_id r = i" using r by (auto dest: find_SomeD)
  have snd: "tableRows.sound ?ts" using ok by (simp add: planOk_def)
  have only: "x = r" if "x \<in> set ?ts" "t_id x = i" for x
    by (rule distinct_key_eq [OF tableRows.sound_keys [OF snd] that(1) mem(1)]) (simp add: that(2) mem(2))
  have found: "find ?P ?ts = Some r"
    by (rule find_distinct_key [OF tableRows.sound_keys [OF snd] mem(1)]) (use vis mem(2) in auto)
  have free: "violatedKey tableKeys (?g r) (filter (\<lambda>x. t_id x \<noteq> t_id r) ?ts) = None"
    unfolding violatedKey_None
  proof
    fix x
    assume x: "x \<in> set (filter (\<lambda>x. t_id x \<noteq> t_id r) ?ts)"
    have "conflictOf tableKeys x (?g r) \<Longrightarrow> conflictOf tableKeys x r" using f by (auto simp: conflictOf_def tableKeys_def)
    then show "\<not> conflictOf tableKeys x (?g r)"
      using tableRows.unique_pair [of ?ts x r] x mem(1) snd by (auto simp: tableRows.sound_def)
  qed
  have zone: "zoneExists s (t_zone r) (t_org r) (t_loc r) (t_floor r)" using ok mem(1) by (simp add: planOk_def linked_def)
  have rows: "map (\<lambda>x. if ?P x then ?g x else x) ?ts = map (\<lambda>x. if t_id x = i then ?g r else x) ?ts"
    using only vis mem(2) by (auto intro!: map_cong)
  have "updateKeyed t_id tableKeys ?P tableCheck (\<lambda>t. firstViolation [(zoneExists s (t_zone t) (t_org t) (t_loc t) (t_floor t), ''23503'')])
      ?g ?ts = Inr (?g r, map (\<lambda>x. if ?P x then ?g x else x) ?ts)"
    using f chk zone free by (simp add: updateKeyed_def found constrained_def firstViolation.simps)
  then show ?thesis by (simp only: updateTableRow_def rows map_sum.simps id_apply prod.case)
qed

definition setTable :: "uuid \<Rightarrow> Table \<Rightarrow> adb \<Rightarrow> adb" where
  "setTable i t s = inCore (\<lambda>d. d\<lparr>tables := map (\<lambda>x. if t_id x = i then t else x) (tables d)\<rparr>) s"

lemma changeTable_succeeds:
  assumes ok: "planOk s" and h: "healthy e" and may: "mayChangeLayout e actor s"
    and valid: "validateConfigActor actor True = None" "i \<noteq> uuid_Nil"
    and r: "find (\<lambda>x. t_id x = i) (tables (core (shared s))) = Some r" "t_org r = ta_OrganisationID actor" "t_loc r = ta_LocationID actor"
    and version: "t_version r < maxInt32"
  shows "ArchiveTable e actor i (t_version r) s =
      (Inr (r\<lparr>t_is_active := False, t_deleted_at := Some (now e), t_version := t_version r + 1, t_updated_at := now e\<rparr>),
       setTable i (r\<lparr>t_is_active := False, t_deleted_at := Some (now e), t_version := t_version r + 1, t_updated_at := now e\<rparr>) s)"
    and "RestoreTable e actor i (t_version r) s =
      (Inr (r\<lparr>t_is_active := True, t_deleted_at := None, t_version := t_version r + 1, t_updated_at := now e\<rparr>),
       setTable i (r\<lparr>t_is_active := True, t_deleted_at := None, t_version := t_version r + 1, t_updated_at := now e\<rparr>) s)"
proof -
  have chk: "tableCheck r = None" using ok r(1) by (auto simp: planOk_def tableRows.sound_def dest: find_SomeD)
  have vis: "visible e (actorCtx actor) (t_org r) (t_loc r)" by (simp add: r)
  have nf: "\<not> fault e site" for site using h by (simp add: healthy_def)
  have v: "1 \<le> t_version r" using chk by (simp add: tableCheck_def firstViolation_None)
  let ?a = "\<lambda>t. t\<lparr>t_is_active := False, t_deleted_at := Some (now e)\<rparr>" and ?b = "\<lambda>t. t\<lparr>t_is_active := True, t_deleted_at := None\<rparr>"
  have "tableCheck ((?a r)\<lparr>t_version := t_version r + 1, t_updated_at := now e\<rparr>) = None"
    "tableCheck ((?b r)\<lparr>t_version := t_version r + 1, t_updated_at := now e\<rparr>) = None"
    using chk version by (auto simp: tableCheck_def firstViolation_None)
  from updateTableRow_succeeds [of s i r e "actorCtx actor" ?a, OF ok r(1) vis _ this(1)]
    updateTableRow_succeeds [of s i r e "actorCtx actor" ?b, OF ok r(1) vis _ this(2)]
  have a: "ArchiveTableRow e (actorCtx actor) i (ta_OrganisationID actor) (ta_LocationID actor) (t_version r) s =
      Inr ((?a r)\<lparr>t_version := t_version r + 1, t_updated_at := now e\<rparr>, setTable i ((?a r)\<lparr>t_version := t_version r + 1, t_updated_at := now e\<rparr>) s)"
    and b: "RestoreTableRow e (actorCtx actor) i (ta_OrganisationID actor) (ta_LocationID actor) (t_version r) s =
      Inr ((?b r)\<lparr>t_version := t_version r + 1, t_updated_at := now e\<rparr>, setTable i ((?b r)\<lparr>t_version := t_version r + 1, t_updated_at := now e\<rparr>) s)"
    by (simp_all add: ArchiveTableRow_def RestoreTableRow_def setTable_def inCore_def r(2,3))
  show "ArchiveTable e actor i (t_version r) s =
      (Inr (r\<lparr>t_is_active := False, t_deleted_at := Some (now e), t_version := t_version r + 1, t_updated_at := now e\<rparr>),
       setTable i (r\<lparr>t_is_active := False, t_deleted_at := Some (now e), t_version := t_version r + 1, t_updated_at := now e\<rparr>) s)"
    using valid v by (simp add: ArchiveTable_def changeTableActive_def) (rule layoutWrite_succeeds [OF h may], simp add: runWrite_def nf a)
  show "RestoreTable e actor i (t_version r) s =
      (Inr (r\<lparr>t_is_active := True, t_deleted_at := None, t_version := t_version r + 1, t_updated_at := now e\<rparr>),
       setTable i (r\<lparr>t_is_active := True, t_deleted_at := None, t_version := t_version r + 1, t_updated_at := now e\<rparr>) s)"
    using valid v by (simp add: RestoreTable_def changeTableActive_def) (rule layoutWrite_succeeds [OF h may], simp add: runWrite_def nf b)
qed


lemma setTable_setTable: "t_id a = i \<Longrightarrow> setTable i b (setTable i a s) = setTable i b s"
  by (simp add: setTable_def inCore_def comp_def if_distrib cong: if_cong)

lemma find_setTable:
  assumes "find (\<lambda>x. t_id x = i) (tables (core (shared s))) = Some r" and "t_id a = i"
  shows "find (\<lambda>x. t_id x = i) (tables (core (shared (setTable i a s)))) = Some a"
proof -
  have "find (\<lambda>x. t_id x = i) ts = Some r \<Longrightarrow> find (\<lambda>x. t_id x = i) (map (\<lambda>x. if t_id x = i then a else x) ts) = Some a" for ts
    using assms(2) by (induction ts) (auto split: if_splits)
  then show ?thesis using assms(1) by (simp add: setTable_def)
qed

text \<open>
  C38. Restoring undoes archiving: a table in use that a permitted actor archives can be restored with the version the
  archival returned, and then it is the table it was, two versions later; nothing else of the database has changed.
  In between it is not in use. Both changes go through as long as the version can still grow.
\<close>
theorem restore_undoes_archive:
  assumes "planOk s" and "healthy e1" and "healthy e2" and "mayChangeLayout e1 actor s" and "mayChangeLayout e2 actor s"
    and "validateConfigActor actor True = None" and "i \<noteq> uuid_Nil"
    and t: "find (\<lambda>x. t_id x = i) (tables (core (shared s))) = Some t" "t_org t = ta_OrganisationID actor" "t_loc t = ta_LocationID actor"
    and live: "liveTable t" and "t_version t + 1 < maxInt32"
  shows "\<exists>archived s1. ArchiveTable e1 actor i (t_version t) s = (Inr archived, s1) \<and> \<not> liveTable archived \<and>
    RestoreTable e2 actor i (t_version archived) s1 =
      (Inr (t\<lparr>t_version := t_version t + 2, t_updated_at := now e2\<rparr>),
       setTable i (t\<lparr>t_version := t_version t + 2, t_updated_at := now e2\<rparr>) s)"
proof -
  let ?a = "t\<lparr>t_is_active := False, t_deleted_at := Some (now e1), t_version := t_version t + 1, t_updated_at := now e1\<rparr>"
  let ?s1 = "setTable i ?a s"
  have i: "t_id t = i" using t(1) by (auto dest: find_SomeD)
  have arch: "ArchiveTable e1 actor i (t_version t) s = (Inr ?a, ?s1)"
    by (rule changeTable_succeeds(1)) (use assms in simp_all)
  have "planOk ?s1" using config_operations(14) [of e1 actor i "t_version t"] assms(1) arch by (auto simp: followsTx_def planRel_def)
  moreover have "mayChangeLayout e2 actor ?s1" using assms(5) by (simp add: setTable_def)
  moreover have "find (\<lambda>x. t_id x = i) (tables (core (shared ?s1))) = Some ?a" using find_setTable [OF t(1)] i by simp
  ultimately have "RestoreTable e2 actor i (t_version ?a) ?s1 =
      (Inr (?a\<lparr>t_is_active := True, t_deleted_at := None, t_version := t_version ?a + 1, t_updated_at := now e2\<rparr>),
       setTable i (?a\<lparr>t_is_active := True, t_deleted_at := None, t_version := t_version ?a + 1, t_updated_at := now e2\<rparr>) ?s1)"
    by (intro changeTable_succeeds(2)) (use assms in simp_all)
  moreover have "?a\<lparr>t_is_active := True, t_deleted_at := None, t_version := t_version ?a + 1, t_updated_at := now e2\<rparr> =
      t\<lparr>t_version := t_version t + 2, t_updated_at := now e2\<rparr>"
    using live by (cases t) (simp add: liveTable_def)
  ultimately show ?thesis
    using arch i by (intro exI [of _ ?a] exI [of _ ?s1]) (simp add: setTable_setTable liveTable_def)
qed

text \<open>Witness of C38: the table of the sample venue.\<close>
theorem restore_undoes_archive_witness:
  "\<exists>archived s1. ArchiveTable sampleEnv sampleOwner 3 1 sampleVenue = (Inr archived, s1) \<and> \<not> liveTable archived \<and>
    RestoreTable (sampleEnv\<lparr>now := 9\<rparr>) sampleOwner 3 (t_version archived) s1 =
      (Inr (sampleTable\<lparr>t_version := 3, t_updated_at := 9\<rparr>), setTable 3 (sampleTable\<lparr>t_version := 3, t_updated_at := 9\<rparr>) sampleVenue)"
proof -
  have "mayChangeLayout sampleEnv sampleOwner sampleVenue" "mayChangeLayout (sampleEnv\<lparr>now := 9\<rparr>) sampleOwner sampleVenue" by code_simp+
  moreover have "validateConfigActor sampleOwner True = None" by code_simp
  ultimately show ?thesis
    using restore_undoes_archive [OF sampleVenue_ok(1), of sampleEnv "sampleEnv\<lparr>now := 9\<rparr>" sampleOwner 3 sampleTable]
    by (simp add: venue_samples healthy_def uuid_Nil_def liveTable_def maxInt32_def)
qed

text \<open>
  The operations service does not find an archived table: the guests who sit at it when it is archived can be given no
  leave before it is restored.
\<close>

lemma archived_table_cannot_be_cleared:
  assumes "planOk s" and "ArchiveTable e actor i v s = (Inr t, s1)" and "cl_TableID arg = i"
  shows "clearTableInTx e' arg c (core (shared s1)) \<noteq> Inr r"
proof
  assume run: "clearTableInTx e' arg c (core (shared s1)) = Inr r"
  have ok1: "planOk s1" using config_operations(14) [of e actor i v] assms(1,2) by (auto simp: followsTx_def planRel_def dest: spec [of _ s])
  obtain t0 where "t = t0\<lparr>t_is_active := False, t_deleted_at := Some (now e), t_version := v + 1, t_updated_at := now e\<rparr>"
    and found: "find (\<lambda>x. t_id x = i) (tables (core (shared s1))) = Some t"
    using updateTableRow_found [OF table_changes(2) [OF assms(2), unfolded ArchiveTableRow_def] assms(1)] by auto
  then have dead: "\<not> liveTable t" by (simp add: liveTable_def)
  from run obtain x where x: "x \<in> set (tables (core (shared s1)))" "t_id x = i" "liveTable x"
    using assms(3) by (cases r) (auto simp: clearTableInTx_def tx_iffs elim!: lockTableOccupancy_InrE)
  have "tableRows.sound (tables (core (shared s1)))" using ok1 by (simp add: planOk_def)
  then have "find (\<lambda>x. t_id x = i) (tables (core (shared s1))) = Some x" using x by (intro tableRows.find_row)
  with found dead x(3) show False by simp
qed


section \<open>Who may change a layout, and where\<close>

text \<open>Nothing but the floors, zones, tables and occupancies of one location differs.\<close>

definition elsewhereSame :: "uuid \<Rightarrow> uuid \<Rightarrow> adb \<Rightarrow> adb \<Rightarrow> bool" where
  "elsewhereSame org loc s s' \<longleftrightarrow>
     s' = s\<lparr>floors := floors s', zones := zones s', shared := (shared s)\<lparr>core := (core (shared s))\<lparr>
       tables := tables (core (shared s')), table_occupancy := table_occupancy (core (shared s'))\<rparr>\<rparr>\<rparr> \<and>
     filter (\<lambda>f. \<not> (f_org f = org \<and> f_loc f = loc)) (floors s') = filter (\<lambda>f. \<not> (f_org f = org \<and> f_loc f = loc)) (floors s) \<and>
     filter (\<lambda>z. \<not> (z_org z = org \<and> z_loc z = loc)) (zones s') = filter (\<lambda>z. \<not> (z_org z = org \<and> z_loc z = loc)) (zones s) \<and>
     filter (\<lambda>t. \<not> (t_org t = org \<and> t_loc t = loc)) (tables (core (shared s'))) =
       filter (\<lambda>t. \<not> (t_org t = org \<and> t_loc t = loc)) (tables (core (shared s))) \<and>
     filter (\<lambda>r. \<not> (o_org r = org \<and> o_loc r = loc)) (table_occupancy (core (shared s'))) =
       filter (\<lambda>r. \<not> (o_org r = org \<and> o_loc r = loc)) (table_occupancy (core (shared s)))"

interpretation confined_to: config_order "elsewhereSame org loc" for org loc
proof
  show "elsewhereSame org loc s s" for s by (simp add: elsewhereSame_def)
  show "elsewhereSame org loc s1 s3" if "elsewhereSame org loc s1 s2" "elsewhereSame org loc s2 s3" for s1 s2 s3
  proof -
    let ?put = "\<lambda>s s'. s\<lparr>floors := floors s', zones := zones s', shared := (shared s)\<lparr>core := (core (shared s))\<lparr>
       tables := tables (core (shared s')), table_occupancy := table_occupancy (core (shared s'))\<rparr>\<rparr>\<rparr>"
    have "s2 = ?put s1 s2" "s3 = ?put s2 s3" using that by (simp_all add: elsewhereSame_def)
    then have "s3 = ?put (?put s1 s2) s3" by metis
    then have "s3 = ?put s1 s3" by simp
    then show ?thesis using that unfolding elsewhereSame_def by simp
  qed
qed

lemma updateKeyed_rows: "updateKeyed key keys P chk fk f rs = Inr (r, rs') \<Longrightarrow> rs' = map (\<lambda>x. if P x then f x else x) rs"
  by (erule updateKeyed_InrE) simp

lemma same_updateFloor:
  assumes "\<And>x. f_org (f x) = f_org x \<and> f_loc (f x) = f_loc x"
  shows "follows (elsewhereSame org loc) (updateFloorRow e c i org loc v f)"
  using assms
  by (auto intro!: followsI map_update_other simp: elsewhereSame_def updateFloorRow_def elim!: map_sum_InrE dest!: updateKeyed_rows)

lemma same_updateZone:
  assumes "\<And>x. z_org (f x) = z_org x \<and> z_loc (f x) = z_loc x"
  shows "follows (elsewhereSame org loc) (updateZoneRow e c i org loc j v f)"
  using assms
  by (auto intro!: followsI map_update_other simp: elsewhereSame_def updateZoneRow_def elim!: map_sum_InrE dest!: updateKeyed_rows)

lemma same_updateTable:
  assumes "\<And>x. t_org (f x) = t_org x \<and> t_loc (f x) = t_loc x"
  shows "follows (elsewhereSame org loc) (updateTableRow e c i org loc v f)"
  using assms
  by (auto intro!: followsI map_update_other simp: elsewhereSame_def updateTableRow_def inCore_def elim!: map_sum_InrE dest!: updateKeyed_rows)

lemma same_statements:
  "follows (elsewhereSame org loc) (CreateFloorRow e c i org loc slug name sortOrder canvas background)"
  "follows (elsewhereSame org loc) (CreateZoneRow e c i org loc j name sortOrder)"
  "follows (elsewhereSame org loc) (CreateTableRow e c i org loc j k label capacity shape geometry legacy)"
  "follows (elsewhereSame org loc) (CreateTableOccupancy e c i org loc)"
  by (auto intro!: followsI simp: elsewhereSame_def CreateFloorRow_def CreateZoneRow_def CreateTableRow_def CreateTableOccupancy_def
      insertKeyed_Inr insertRowFk_Inr inCore_def Let_def elim!: map_sum_InrE)

lemma same_changes:
  "follows (elsewhereSame org loc) (UpdateFloorRow e c i org loc slug name sortOrder canvas background v)"
  "follows (elsewhereSame org loc) (RestoreFloorRow e c i org loc v)"
  "follows (elsewhereSame org loc) (ArchiveFloorRow e c i org loc v)"
  "follows (elsewhereSame org loc) (UpdateZoneRow e c i org loc j name sortOrder v)"
  "follows (elsewhereSame org loc) (ArchiveZoneRow e c i org loc j v)"
  "follows (elsewhereSame org loc) (UpdateTableRow e c i org loc j k label capacity shape geometry v)"
  "follows (elsewhereSame org loc) (RestoreTableRow e c i org loc v)"
  "follows (elsewhereSame org loc) (ArchiveTableRow e c i org loc v)"
  by (simp_all add: layout_row_changes same_updateFloor same_updateZone same_updateTable)

text \<open>The changes of a layout by an actor.\<close>

inductive changesLayout :: "env \<Rightarrow> TenantActor \<Rightarrow> adb \<Rightarrow> adb \<Rightarrow> bool" where
  "changesLayout e (uf_TenantActor fo) s (snd (CreateFloor e number fo s))"
| "changesLayout e (uf_TenantActor fo) s (snd (UpdateFloor e number fo s))"
| "changesLayout e actor s (snd (ArchiveFloor e actor i v s))"
| "changesLayout e actor s (snd (RestoreFloor e actor i v s))"
| "changesLayout e (uz_TenantActor zo) s (snd (CreateZone e zo s))"
| "changesLayout e (uz_TenantActor zo) s (snd (UpdateZone e zo s))"
| "changesLayout e actor s (snd (ArchiveZone e actor i j v s))"
| "changesLayout e (ut_TenantActor ta) s (snd (CreateTable e number ta s))"
| "changesLayout e (ut_TenantActor ta) s (snd (UpdateTable e number ta s))"
| "changesLayout e actor s (snd (ArchiveTable e actor i v s))"
| "changesLayout e actor s (snd (RestoreTable e actor i v s))"

definition allowedChange :: "env \<Rightarrow> TenantActor \<Rightarrow> adb \<Rightarrow> adb \<Rightarrow> bool" where
  "allowedChange e actor s s' \<longleftrightarrow>
     s' = s \<or> (mayChangeLayout e actor s \<and> elsewhereSame (ta_OrganisationID actor) (ta_LocationID actor) s s')"

lemma layoutWrite_allowed:
  assumes "\<And>c. follows (elsewhereSame (ta_OrganisationID actor) (ta_LocationID actor)) (change c)"
  shows "allowedChange e actor s (snd (layoutWrite e actor change s))"
proof -
  have "follows (elsewhereSame (ta_OrganisationID actor) (ta_LocationID actor))
      (\<lambda>s. if mayChangeLayout e actor s then change (actorCtx actor) s else Inl (Err cf_error.ErrForbidden))"
    using assms by (auto simp: follows_def)
  then show ?thesis
    by (auto simp: allowedChange_def layoutWrite_def inConfigTx_def requireConfigLocation_def onShared_def mayChangeLayout_def reading_def
        runQuery_def txBind_def txGuard_def follows_def split: sum.splits commit_outcome.splits if_splits)
qed

lemma allowed_refl [simp]: "allowedChange e actor s s"
  by (simp add: allowedChange_def)

lemma changesLayout_allowed: "changesLayout e actor s s' \<Longrightarrow> allowedChange e actor s s'"
proof (induction rule: changesLayout.induct)
qed (auto simp: CreateFloor_def UpdateFloor_def ArchiveFloor_def RestoreFloor_def changeFloorActive_def CreateZone_def UpdateZone_def
      ArchiveZone_def CreateTable_def UpdateTable_def ArchiveTable_def RestoreTable_def changeTableActive_def
      split: option.splits sum.splits
      intro!: layoutWrite_allowed confined_to.write_follows confined_to.bind_follows confined_to.query_follows confined_to.return_follows
        same_statements same_changes)

text \<open>
  C39. A change of a layout, whatever its arguments and whatever fails, leaves the database as it was unless the actor
  holds the permission to write layouts at the location the request names; and then nothing differs but floors, zones,
  tables and occupancies of this very location.
\<close>
theorem layout_changes_authorised:
  assumes "changesLayout e actor s s'" and "s' \<noteq> s"
  shows "ActorHasLocationPermission e (actorContext (ta_OrganisationID actor) (ta_LocationID actor)) (ta_OrganisationID actor)
      (ta_LocationID actor) (ta_ActorRef actor) PermissionLayoutWrite (shared s) \<and>
    elsewhereSame (ta_OrganisationID actor) (ta_LocationID actor) s s'"
  using changesLayout_allowed [OF assms(1)] assms(2) by (simp add: allowedChange_def mayChangeLayout_def)

text \<open>Witness of C39: the owner sets up a second table.\<close>
theorem layout_changes_authorised_witness: "elsewhereSame 1 2 sampleVenue sampleExtended \<and> sampleExtended \<noteq> sampleVenue"
proof -
  have "length (tables (core (shared sampleExtended))) \<noteq> length (tables (core (shared sampleVenue)))" by code_simp
  then have ne: "sampleExtended \<noteq> sampleVenue" by metis
  moreover have "changesLayout sampleEnv (ut_TenantActor (sampleNewTable ''T2'')) sampleVenue sampleExtended"
    unfolding sampleExtended_def by (rule changesLayout.intros)
  ultimately show ?thesis
    using layout_changes_authorised [of sampleEnv "ut_TenantActor (sampleNewTable ''T2'')" sampleVenue sampleExtended]
    by (simp add: sampleNewTable_def sampleOwner_def)
qed


section \<open>Duplicates\<close>

lemma layoutWrite_healthy:
  assumes "healthy e" and "mayChangeLayout e actor s"
  shows "layoutWrite e actor change s =
    (case change (actorCtx actor) s of Inl err \<Rightarrow> (Inl (rollback e err), s) | Inr (v, s') \<Rightarrow> (Inr v, s'))"
  using assms
  by (cases "change (actorCtx actor) s")
    (auto simp: layoutWrite_def inConfigTx_def healthy_def requireConfigLocation_def onShared_def mayChangeLayout_def reading_def
      txBind_def runQuery_def)

lemma violatedKey_table:
  "t_legacy_table_id t = None \<Longrightarrow> t_id t \<notin> t_id ` set ts \<Longrightarrow>
     violatedKey tableKeys t ts =
       (if \<exists>x \<in> set ts. t_floor x = t_floor t \<and> t_label x = t_label t then Some ''tables_floor_id_label_key'' else None)"
  by (auto simp: violatedKey_def tableKeys_def image_iff)

text \<open>The rows a new table comes with.\<close>

definition newTable :: "env \<Rightarrow> UpsertTableParams \<Rightarrow> json \<Rightarrow> Table" where
  "newTable e arg geometry =
     \<lparr>t_id = gen e 0, t_org = ta_OrganisationID (ut_TenantActor arg), t_loc = ta_LocationID (ut_TenantActor arg), t_floor = ut_FloorID arg,
      t_zone = ut_ZoneID arg, t_label = trimSpace (ut_Label arg), t_capacity_label = trimSpace (ut_CapacityLabel arg),
      t_shape = ut_Shape arg, t_geometry = geometry, t_is_active = True, t_deleted_at = None, t_version = 1, t_legacy_table_id = None,
      t_created_at = now e, t_updated_at = now e\<rparr>"

definition newOccupancy :: "env \<Rightarrow> TenantActor \<Rightarrow> TableOccupancy" where
  "newOccupancy e actor =
     \<lparr>o_table = gen e 0, o_org = ta_OrganisationID actor, o_loc = ta_LocationID actor, o_status = TableStatusAvailable,
      o_current_session = None, o_version = 1, o_updated_by = None, o_updated_at = now e, o_created_at = now e\<rparr>"

lemma newTable_check:
  "validateTable arg False = None \<Longrightarrow> jsonb_typeof geometry = ''object'' \<Longrightarrow> tableCheck (newTable e arg geometry) = None"
  by (auto simp: newTable_def tableCheck_def firstViolation_None maxInt32_def validateTable_def split: option.splits if_splits)

lemma newTable_row:
  assumes valid: "validateTable arg False = None" "jsonb_typeof geometry = ''object''" and a: "a = ut_TenantActor arg"
    and zone: "zoneExists s (ut_ZoneID arg) (ta_OrganisationID a) (ta_LocationID a) (ut_FloorID arg)"
    and fresh: "gen e 0 \<notin> t_id ` set (tables (core (shared s)))"
  shows "CreateTableRow e (actorCtx a) (gen e 0) (ta_OrganisationID a) (ta_LocationID a) (ut_FloorID arg) (ut_ZoneID arg)
      (trimSpace (ut_Label arg)) (trimSpace (ut_CapacityLabel arg)) (ut_Shape arg) geometry None s =
    (if \<exists>x \<in> set (tables (core (shared s))). t_floor x = ut_FloorID arg \<and> t_label x = trimSpace (ut_Label arg)
     then Inl (PgError ''23505'', ''tables_floor_id_label_key'')
     else Inr (newTable e arg geometry, inCore (\<lambda>d. d\<lparr>tables := tables (core (shared s)) @ [newTable e arg geometry]\<rparr>) s))"
proof -
  have "violatedKey tableKeys (newTable e arg geometry) (tables (core (shared s))) =
      (if \<exists>x \<in> set (tables (core (shared s))). t_floor x = ut_FloorID arg \<and> t_label x = trimSpace (ut_Label arg)
       then Some ''tables_floor_id_label_key'' else None)"
    using violatedKey_table [of "newTable e arg geometry"] fresh by (simp add: newTable_def)
  then show ?thesis
    using zone newTable_check [OF valid, of e]
    by (simp add: CreateTableRow_def Let_def insertKeyed_def constrained_def firstViolation.simps newTable_def a)
qed

lemma newOccupancy_row:
  assumes ok: "planOk s" and fresh: "gen e 0 \<notin> t_id ` set (tables (core (shared s)))"
    and t: "t_id t = gen e 0" "t_org t = ta_OrganisationID a" "t_loc t = ta_LocationID a"
  shows "CreateTableOccupancy e (actorCtx a) (gen e 0) (ta_OrganisationID a) (ta_LocationID a)
      (inCore (\<lambda>d. d\<lparr>tables := tables (core (shared s)) @ [t]\<rparr>) s) =
    Inr (newOccupancy e a, inCore (\<lambda>d. d\<lparr>tables := tables (core (shared s)) @ [t],
      table_occupancy := table_occupancy (core (shared s)) @ [newOccupancy e a]\<rparr>) s)"
proof -
  have "o_table x \<noteq> gen e 0" if "x \<in> set (table_occupancy (core (shared s)))" for x
  proof -
    have "tableExists (core (shared s)) (o_table x) (o_org x) (o_loc x)" using ok that by (simp add: planOk_def wf_db_def checks_ok_def)
    then show ?thesis using fresh by (auto simp: tableExists_def image_iff)
  qed
  moreover have "occupancyCheck (newOccupancy e a) = None"
    by (simp add: newOccupancy_def occupancyCheck_def firstViolation_None maxInt32_def)
  ultimately show ?thesis
    using t by (auto simp: CreateTableOccupancy_def Let_def insertRowFk_def insertRow_def tableExists_def firstViolation.simps inCore_def
        newOccupancy_def)
qed

text \<open>
  C40. A duplicate is reported as such: a permitted actor who sets up a table with valid parameters in a zone of the
  location is refused with the name of the label key, and nothing changes, exactly when the floor has a table of that
  label, in use or archived; otherwise the table is created together with an occupancy that is available.
\<close>
theorem duplicate_label_reported:
  assumes ok: "planOk s" and h: "healthy e" and may: "mayChangeLayout e (ut_TenantActor arg) s"
    and valid: "validateTable arg False = None" "normalizeJSONObject number (ut_Geometry arg) = Inr geometry" "jsonb_typeof geometry = ''object''"
    and zone: "zoneExists s (ut_ZoneID arg) (ta_OrganisationID (ut_TenantActor arg)) (ta_LocationID (ut_TenantActor arg)) (ut_FloorID arg)"
    and fresh: "gen e 0 \<notin> t_id ` set (tables (core (shared s)))"
  shows "if \<exists>t \<in> set (tables (core (shared s))). t_floor t = ut_FloorID arg \<and> t_label t = trimSpace (ut_Label arg)
    then CreateTable e number arg s = (Inl (Err (ErrConflict ''tables_floor_id_label_key'')), s)
    else \<exists>t r s'. CreateTable e number arg s = (Inr t, s') \<and> t \<in> set (tables (core (shared s'))) \<and> t_label t = trimSpace (ut_Label arg) \<and>
      t_zone t = ut_ZoneID arg \<and> liveTable t \<and> r \<in> set (table_occupancy (core (shared s'))) \<and> o_table r = t_id t \<and>
      o_status r = TableStatusAvailable"
proof -
  have nf: "\<not> fault e site" for site using h by (simp add: healthy_def)
  note row = newTable_row [OF valid(1,3) refl zone fresh]
  show ?thesis
  proof (cases "\<exists>t \<in> set (tables (core (shared s))). t_floor t = ut_FloorID arg \<and> t_label t = trimSpace (ut_Label arg)")
    case True
    then have "CreateTable e number arg s = (Inl (Err (ErrConflict ''tables_floor_id_label_key'')), s)"
      unfolding CreateTable_def
      by (simp add: valid layoutWrite_healthy [OF h may] row runWrite_def nf txBind_def wrapWriteError_def mapConstraintError_def
          uniqueViolationSQLState_def rollback_def)
    then show ?thesis using True by simp
  next
    case False
    let ?t = "newTable e arg geometry" and ?r = "newOccupancy e (ut_TenantActor arg)"
    have occ: "CreateTableOccupancy e (actorCtx (ut_TenantActor arg)) (t_id ?t) (ta_OrganisationID (ut_TenantActor arg)) (ta_LocationID (ut_TenantActor arg))
      (inCore (\<lambda>d. d\<lparr>tables := tables (core (shared s)) @ [?t]\<rparr>) s) =
      Inr (?r, inCore (\<lambda>d. d\<lparr>tables := tables (core (shared s)) @ [?t], table_occupancy := table_occupancy (core (shared s)) @ [?r]\<rparr>) s)"
      using newOccupancy_row [OF ok fresh, of ?t "ut_TenantActor arg"] by (simp add: newTable_def)
    have "CreateTable e number arg s =
        (Inr ?t, inCore (\<lambda>d. d\<lparr>tables := tables (core (shared s)) @ [?t], table_occupancy := table_occupancy (core (shared s)) @ [?r]\<rparr>) s)"
      unfolding CreateTable_def
      using False by (simp add: valid layoutWrite_healthy [OF h may] row runWrite_def nf txBind_def runQuery_def occ)
    then have "CreateTable e number arg s =
        (Inr ?t, inCore (\<lambda>d. d\<lparr>tables := tables (core (shared s)) @ [?t], table_occupancy := table_occupancy (core (shared s)) @ [?r]\<rparr>) s) \<and>
      t_label ?t = trimSpace (ut_Label arg) \<and> t_zone ?t = ut_ZoneID arg \<and> liveTable ?t \<and> o_table ?r = t_id ?t \<and> o_status ?r = TableStatusAvailable"
      by (simp add: newTable_def newOccupancy_def liveTable_def)
    then show ?thesis using False by (simp only: if_False) (intro exI [of _ ?t] exI [of _ ?r] exI conjI, auto)
  qed
qed

text \<open>Witness of C40: the label of the sample table is refused for a second one.\<close>
theorem duplicate_label_reported_witness:
  "CreateTable sampleEnv sampleNumber (sampleNewTable '' T1 '') sampleVenue = (Inl (Err (ErrConflict ''tables_floor_id_label_key'')), sampleVenue)"
proof -
  have "mayChangeLayout sampleEnv sampleOwner sampleVenue" "validateTable (sampleNewTable '' T1 '') False = None"
    "normalizeJSONObject sampleNumber (ut_Geometry (sampleNewTable '' T1 '')) = Inr (JObj [(''x'', JInt 1)])"
    "trimSpace '' T1 '' = ''T1''" by code_simp+
  then show ?thesis
    using duplicate_label_reported [OF sampleVenue_ok(1), of sampleEnv "sampleNewTable '' T1 ''" sampleNumber "JObj [(''x'', JInt 1)]"]
    by (simp add: venue_samples healthy_def zoneExists_def)
qed

end
