(* ===== verification/Spec2Isabelle.thy ===== *)
theory Spec2Isabelle
  imports Tokens Tenancy OutboxLiveness Gateway Utilisation Periods SignIn Layouts
begin

text \<open>
  Verification of the seatd backend, the Go services of a restaurant's tables.

  \<^bold>\<open>The program.\<close> The API changes the state of tables and assist requests through the operations service
  (\<^verbatim>\<open>internal/domain/operations\<close>): each command is one PostgreSQL transaction that checks the version
  its caller expects, writes the rows, an idempotency record, an operational event and one outbox row
  per destination. Guests act through the token of a printed QR code. Workers (\<^verbatim>\<open>internal/outbox\<close>) claim
  outbox rows and hand the events to consumers. One of them is the hub of the realtime gateway
  (\<^verbatim>\<open>internal/realtime\<close>), which sends the events of a location over WebSockets to the devices there; a
  device that was away reads a snapshot and pages through the events after it. The identity service
  (\<^verbatim>\<open>internal/domain/identity\<close>) registers, pairs, authenticates and revokes the devices, resolves the
  people of the identity provider to profiles, keeps their web sessions, and manages who belongs to an organisation
  and in which role. The configuration service (\<^verbatim>\<open>internal/domain/configuration\<close>) sets up the floors, zones and
  tables of a location. Another consumer is the projector of the analytics service (\<^verbatim>\<open>internal/domain/analytics\<close>), which derives metric tables from the
  operational ones; managers read them, define service periods and start rebuilds.

  \<^bold>\<open>Theories.\<close>
  \<^item> \<open>Prelude\<close>: identifiers, errors, the state-and-error shape of a transaction body, row lists. \<open>Store\<close>:
    the rows (\<^verbatim>\<open>internal/store/db/models.go\<close>, \<^verbatim>\<open>events.go\<close>), the tenant context and row security of the
    migrations, the environment of a transaction. \<open>OperationsSql\<close>: the statements of
    \<^verbatim>\<open>operations.sql.go\<close> with the constraints of their tables.
  \<^item> \<open>Operations\<close>: \<^verbatim>\<open>service.go\<close>, one definition per Go function. \<open>TableState\<close>, \<open>Commands\<close>, \<open>Seats\<close>: what
    the commands do on every branch, and their refinement of the abstract machine of one seat, free or
    taken, with a version. \<open>Retry\<close>: idempotent commands; the locale \<open>retried_command\<close> states what a
    command owes its callers and is interpreted for every command.
  \<^item> \<open>GuestConfig\<close>, \<open>Guest\<close>: the guest actions of a location, tokens, and the operations of \<^verbatim>\<open>guest.go\<close>
    and \<^verbatim>\<open>tokens.go\<close>.
  \<^item> \<open>Reach\<close>, \<open>Lifecycle\<close>: every operation as a step relation on the database, its invariants by rule
    induction, and the locale \<open>versioned\<close> (of the commands that expect one version at most one
    succeeds), interpreted for tables and assist requests. \<open>Tokens\<close>, \<open>Tenancy\<close>: what tokens give access
    to, and what a command leaves alone.
  \<^item> \<open>Outbox\<close>: \<^verbatim>\<open>outbox.go\<close>. \<open>OutboxSteps\<close>: workers that interleave and crash, as a step relation;
    \<open>OutboxBatch\<close>: the batch function is an execution of it; \<open>OutboxRetry\<close>: claims, backoff, and one record in a
    world without failures; \<open>OutboxLiveness\<close>: successive batches settle the oldest waiting record after as many runs as
    it has attempts left. \<open>WorkerMain\<close>: the consumers and settings of \<^verbatim>\<open>apps/worker\<close>.
  \<^item> \<open>Frames\<close>: \<^verbatim>\<open>websocket.go\<close>. \<open>Hub\<close>: \<^verbatim>\<open>hub.go\<close> and the consumer of \<^verbatim>\<open>apps/realtime\<close>; its step relation
    keeps beside the hub the log of publications and, for each client, where in it the client subscribed and was closed. \<open>Sync\<close>: \<^verbatim>\<open>sync.go\<close> and the
    snapshot, event and cursor functions of \<^verbatim>\<open>http.go\<close>.
  \<^item> \<open>Identity\<close>: the device part of \<^verbatim>\<open>identity/service.go\<close> and \<^verbatim>\<open>tokens.go\<close>. \<open>Evolve\<close>, \<open>Devices\<close>, \<open>Trust\<close>: how rows may
    evolve (the locale \<open>evolution\<close>), bodies that follow a preorder (the locale \<open>body_order\<close> and its
    extensions), and the course of devices, credentials and pairing codes. \<open>Gateway\<close>: the authorisation and
    the WebSocket of \<^verbatim>\<open>realtime/http.go\<close>.
  \<^item> \<open>Members\<close>, \<open>Memberships\<close>: \<^verbatim>\<open>identity/memberships.go\<close> with its statements. \<open>Owners\<close>: tables with unique keys
    (the locale \<open>unique_table\<close>), the abstract register of memberships and its moves, and which statements make
    which moves. \<open>Staffing\<close>: every sequence of operations refines the register, owners stay, changes are audited.
  \<^item> \<open>Accounts\<close>: the profiles, external identities and web sessions of \<^verbatim>\<open>identity/service.go\<close>. \<open>Sessions\<close>: how they
    move; the locale \<open>member_order\<close> carries a preorder from the statements to the membership operations.
    \<open>SignIn\<close>: whom a session speaks for, and that revocation and identities last.
  \<^item> \<open>Calendar\<close>: \<^verbatim>\<open>service_period.go\<close>, \<^verbatim>\<open>formulas.go\<close> and the date windows; the locales \<open>midnight_zone\<close> and
    \<open>daily_zone\<close> state what is used of a time zone and are interpreted for every fixed offset and for a zone with summer
    time. \<open>Analytics\<close>:
    \<^verbatim>\<open>projection.go\<close>. \<open>Reporting\<close>: \<^verbatim>\<open>analytics/service.go\<close>. \<open>Projection\<close>, \<open>Rebuilds\<close>: a rebuild leaves the view of the
    operational tables that \<open>dayRows\<close> defines, and a record of itself. \<open>Utilisation\<close>: the occupied time of a
    window, counted as a set. \<open>Periods\<close>: service periods under every sequence of operations.
  \<^item> \<open>Layout\<close>: the statements of \<^verbatim>\<open>layout.sql.go\<close> and \<^verbatim>\<open>organisation.sql.go\<close> that \<open>Configuring\<close>, the model of
    \<^verbatim>\<open>configuration/service.go\<close> and \<^verbatim>\<open>errors.go\<close>, runs. \<open>Places\<close>: tables of rows with a version (the locale
    \<open>versioned_rows\<close>, interpreted for floors, zones and tables) and what every operation keeps of the plan (the locale
    \<open>config_order\<close>). \<open>Venue\<close>: the configuration, operations and analytics services on one database, as one step
    relation. \<open>Layouts\<close>: the integrity of the venue, and what clients of the configuration service rely on.
  \<^item> \<open>Sample\<close>, \<open>SampleDay\<close>: a small restaurant on which the properties are exercised.

  \<^bold>\<open>State and faults.\<close> A table is the list of its rows in the order of insertion. A statement is a function
  on the database that gives its rows, \<open>ErrNoRows\<close> or the SQLSTATE of the constraint it violates. One
  \<open>env\<close> describes the world of one transaction: the clocks, the identifiers drawn, which calls fail, the
  fate of the COMMIT (taken, lost, or taken but not acknowledged), whether the role is subject to row
  security. Properties that hold for every \<open>env\<close> hold under all failures; those that promise a result
  assume \<open>quiet\<close>, a world without failures. A transaction is atomic, and the transactions of a database
  run one after the other. For the commands this is what \<^verbatim>\<open>SELECT ... FOR UPDATE\<close> on the occupancy or assist row,
  taken first, and the unique constraint on idempotency records provide. The transactions of the
  outbox are separate steps that interleave freely.

  \<^bold>\<open>Loops and bounds.\<close> Loops over rows are structural recursions or folds; \<open>readLoop\<close> terminates because a
  frame consumes input. A device that pages (\<open>followPages\<close>) has fuel for one page more than there are
  events, which is enough because every page but the last has one. The loop over the days of a rebuild has
  \<open>turns\<close> as a bound, and as many turns as there are days are enough. The ticker of the worker and the
  accept loops of the servers never end by design and are step relations or left out. Go's int32
  versions are integers with PostgreSQL's overflow error; durations are int64 nanoseconds with the
  conversion of \<open>backoff\<close> written out; frame lengths are 64-bit words and frame bytes 8-bit words.

  \<^bold>\<open>Arguments.\<close> SHA-1 and SHA-256, the random source, the text of an instant, parsing JSON and durations,
  the driver's error texts, time zones, mail addresses, the case of non-ASCII letters, the text of identifiers, the rounding of float64 (also of a JSON number that \<^verbatim>\<open>encoding/json\<close> reads and writes), the aggregates of the database and its
  collation are arguments of the definitions that use them.

  \<^bold>\<open>Not modelled.\<close> Tracing spans and logs; the interleaving of two publications of the hub (a publication is
  one step) and of the statements of one read-only transaction; the routing and encoding of HTTP requests
  (\<^verbatim>\<open>internal/httpapi\<close>, \<^verbatim>\<open>internal/httpkit\<close>); the onboarding of organisations by the identity service with the statements only it runs; the integrations service with its
  statements; the listings of a layout that the HTTP handlers run themselves; the configuration, metrics and pool of the processes, and the seed tool.
\<close>

end
